(* ===== verification/Prelude.thy ===== *)
theory Prelude
  imports Main "HOL-Library.Word"
begin

text \<open>
  Shared vocabulary of the development: the machine integers of the C and Go sources, target memory
  as both sides of the tracer see it (the kernel probe through \<^verbatim>\<open>bpf_probe_read_user\<close>, the loader
  through \<^verbatim>\<open>/proc/pid/mem\<close>), little-endian byte strings, the printers of \<^verbatim>\<open>strconv\<close> the
  loader uses, and the generic lemmas on lists and words that the component theories share.

  Collections: \<open>probe_defs\<close> unfolds the steps of the BPF programs, \<open>le_simps\<close> rewrites
  little-endian encodings and decodings.
\<close>

unbundle bit_operations_syntax

named_theorems probe_defs
named_theorems le_simps

section \<open>Machine integers\<close>

text \<open>
  \<^verbatim>\<open>__u8\<close>, \<^verbatim>\<open>__u32\<close>, \<^verbatim>\<open>__u64\<close> and Go's \<^verbatim>\<open>uint8/16/32/64\<close>. Signed
  integers of the same width share the representation and are read with \<^const>\<open>sint\<close>.
\<close>

type_synonym u8 = "8 word"
type_synonym u16 = "16 word"
type_synonym u32 = "32 word"
type_synonym u64 = "64 word"
type_synonym s32 = "32 word"
type_synonym s64 = "64 word"

section \<open>Little-endian byte strings\<close>

fun le_bytes :: "nat \<Rightarrow> nat \<Rightarrow> u8 list" where
  "le_bytes 0 v = []"
| "le_bytes (Suc n) v = word_of_nat (v mod 256) # le_bytes n (v div 256)"

fun le_val :: "u8 list \<Rightarrow> nat" where
  "le_val [] = 0"
| "le_val (b # bs) = unat b + 256 * le_val bs"

definition put32 :: "u32 \<Rightarrow> u8 list" where
  "put32 w = le_bytes 4 (unat w)"

definition put64 :: "u64 \<Rightarrow> u8 list" where
  "put64 w = le_bytes 8 (unat w)"

definition get32 :: "u8 list \<Rightarrow> u32" where
  "get32 bs = word_of_nat (le_val bs)"

definition get64 :: "u8 list \<Rightarrow> u64" where
  "get64 bs = word_of_nat (le_val bs)"

lemma length_le_bytes [simp]: "length (le_bytes n v) = n"
  by (induction n arbitrary: v) auto

lemma unat_byte_of_nat [simp]: "unat (word_of_nat (v mod 256) :: u8) = v mod 256"
  by (simp add: unat_of_nat)

lemma le_val_le_bytes: "le_val (le_bytes n v) = v mod 256 ^ n"
proof (induction n arbitrary: v)
  case 0
  then show ?case by simp
next
  case (Suc n)
  have "v mod 256 + 256 * (v div 256 mod 256 ^ n) = v mod (256 * 256 ^ n)"
    by (simp add: mod_mult2_eq)
  with Suc show ?case by simp
qed

lemma le_val_less: "le_val bs < 256 ^ length bs"
proof (induction bs)
  case Nil
  then show ?case by simp
next
  case (Cons b bs)
  have "unat b < 256" using unsigned_less [of b] by simp
  moreover from Cons have "256 * (le_val bs + 1) \<le> 256 * 256 ^ length bs"
    by (metis Suc_eq_plus1 Suc_leI mult_le_mono2)
  ultimately show ?case by simp
qed

lemma le_bytes_le_val: "le_bytes (length bs) (le_val bs) = bs"
proof (induction bs)
  case Nil
  then show ?case by simp
next
  case (Cons b bs)
  have b: "unat b < 256" using unsigned_less [of b] by simp
  then have "(unat b + 256 * le_val bs) div 256 = le_val bs" by simp
  moreover from b have "(unat b + 256 * le_val bs) mod 256 = unat b" by simp
  ultimately show ?case using Cons by simp
qed

lemma get32_put32 [simp, le_simps]: "get32 (put32 w) = w"
proof -
  have "unat w < 4294967296" using unsigned_less [of w] by simp
  then show ?thesis by (simp add: get32_def put32_def le_val_le_bytes)
qed

lemma get64_put64 [simp, le_simps]: "get64 (put64 w) = w"
proof -
  have "unat w < 18446744073709551616" using unsigned_less [of w] by simp
  then show ?thesis by (simp add: get64_def put64_def le_val_le_bytes)
qed

lemma length_put32 [simp, le_simps]: "length (put32 w) = 4"
  by (simp add: put32_def)

lemma length_put64 [simp, le_simps]: "length (put64 w) = 8"
  by (simp add: put64_def)

section \<open>Memory of the traced process\<close>

text \<open>
  The traced process's memory is a parameter of everything that reads it: a partial map from
  addresses to bytes, \<^const>\<open>None\<close> where nothing is mapped. \<open>read_mem m a n\<close> is a read of \<open>n\<close>
  bytes that succeeds only when all of them are mapped; \<open>read_prefix\<close> is a read that may be short.
\<close>

type_synonym mem = "u64 \<Rightarrow> u8 option"

fun read_mem :: "mem \<Rightarrow> u64 \<Rightarrow> nat \<Rightarrow> u8 list option" where
  "read_mem m a 0 = Some []"
| "read_mem m a (Suc n) =
     (case m a of None \<Rightarrow> None
      | Some b \<Rightarrow> map_option ((#) b) (read_mem m (a + 1) n))"

fun read_prefix :: "mem \<Rightarrow> u64 \<Rightarrow> nat \<Rightarrow> u8 list" where
  "read_prefix m a 0 = []"
| "read_prefix m a (Suc n) =
     (case m a of None \<Rightarrow> [] | Some b \<Rightarrow> b # read_prefix m (a + 1) n)"

lemma read_mem_length: "read_mem m a n = Some bs \<Longrightarrow> length bs = n"
  by (induction n arbitrary: a bs) (auto split: option.splits)

lemma read_prefix_length: "length (read_prefix m a n) \<le> n"
  by (induction n arbitrary: a) (auto split: option.splits)

lemma read_mem_read_prefix: "read_mem m a n = Some bs \<Longrightarrow> read_prefix m a n = bs"
  by (induction n arbitrary: a bs) (auto split: option.splits)

lemma read_mem_add:
  "read_mem m a (j + n) =
     (case read_mem m a j of None \<Rightarrow> None
      | Some xs \<Rightarrow> map_option ((@) xs) (read_mem m (a + word_of_nat j) n))"
proof (induction j arbitrary: a)
  case 0
  have "(@) [] = (\<lambda>xs :: u8 list. xs)" by (rule ext) simp
  then show ?case by (simp add: option.map_ident)
next
  case (Suc j)
  then show ?case
    by (auto simp: add.assoc option.map_comp comp_def split: option.splits
        intro!: option.map_cong)
qed

text \<open>A word in memory is found by every read that covers it.\<close>

lemma read_mem_slice:
  assumes "read_mem m a (j + n + k) = Some bs"
  shows "read_mem m (a + word_of_nat j) n = Some (take n (drop j bs))"
proof -
  from assms obtain xs ys where xs: "read_mem m a j = Some xs"
    and ys: "read_mem m (a + word_of_nat j) (n + k) = Some ys" and bs: "bs = xs @ ys"
    by (auto simp: read_mem_add [of m a j "n + k"] add.assoc split: option.splits)
  from ys obtain us vs where us: "read_mem m (a + word_of_nat j) n = Some us"
    and "ys = us @ vs"
    by (auto simp: read_mem_add [of m "a + word_of_nat j" n k] split: option.splits)
  with bs read_mem_length [OF xs] read_mem_length [OF us] show ?thesis by simp
qed

lemma upt_shift: "[0..<Suc n] = 0 # map Suc [0..<n]"
  by (simp add: map_Suc_upt upt_conv_Cons del: upt_Suc)

text \<open>Unrolling for lengths given as numerals.\<close>

lemma read_num:
  "read_mem m a (numeral k) =
     (case m a of None \<Rightarrow> None | Some b \<Rightarrow> map_option ((#) b) (read_mem m (a + 1) (pred_numeral k)))"
  "read_prefix m a (numeral k) =
     (case m a of None \<Rightarrow> [] | Some b \<Rightarrow> b # read_prefix m (a + 1) (pred_numeral k))"
  "le_bytes (numeral k) v = word_of_nat (v mod 256) # le_bytes (pred_numeral k) (v div 256)"
  by (simp_all only: numeral_eq_Suc [of k] read_mem.simps read_prefix.simps le_bytes.simps)

end
