(* ===== verification/Bpf.thy ===== *)
theory Bpf
  imports Prelude
begin

text \<open>
  The machine the BPF programs run on. The kernel and libbpf are not part of the repository, so what
  they answer is a parameter: a \<open>kenv\<close> holds the answers of the helpers during one run of a
  program (the ring-buffer memory handed out, the current thread, the clock, the traced process's
  memory, the stack-trace identifier, and whether a hash map accepts a new binding). What the
  programs rely on is stated as named predicates on these parameters and as locales. The register
  file is \<^verbatim>\<open>struct user_pt_regs\<close> of \<^verbatim>\<open>vmlinux.h\<close>; the \<^verbatim>\<open>PT_REGS\<close>
  accessors read the registers the source's comments name (x0..x4 arguments, x0 return, x30 link
  register).
\<close>

section \<open>Registers at a probe\<close>

record pt_regs =
  regs :: "u64 list"
  sp :: u64
  pc :: u64
  pstate :: u64

definition PT_REGS_PARM :: "nat \<Rightarrow> pt_regs \<Rightarrow> u64" where
  "PT_REGS_PARM n ctx = regs ctx ! (n - 1)"

definition PT_REGS_RET :: "pt_regs \<Rightarrow> u64" where
  "PT_REGS_RET ctx = regs ctx ! 30"

definition PT_REGS_IP :: "pt_regs \<Rightarrow> u64" where
  "PT_REGS_IP ctx = pc ctx"

section \<open>Answers of the kernel during one run\<close>

text \<open>
  \<open>rb_mem\<close>: \<^verbatim>\<open>bpf_ringbuf_reserve\<close> returns \<^verbatim>\<open>NULL\<close> (\<^const>\<open>None\<close>) or memory whose previous
  contents the caller sees (the helper does not clear it). \<open>map_accepts\<close>: whether
  \<^verbatim>\<open>bpf_map_update_elem\<close> succeeds for a key, given the keys present; a failed update leaves the
  map alone.
\<close>

record 'e kenv =
  rb_mem :: "'e option"
  pid_tgid :: u64
  ktime_ns :: u64
  umem :: mem
  get_stackid :: "pt_regs \<Rightarrow> s64"
  map_accepts :: "u32 set \<Rightarrow> u32 \<Rightarrow> bool"

definition hash_update :: "('k set \<Rightarrow> 'k \<Rightarrow> bool) \<Rightarrow> ('k \<rightharpoonup> 'v) \<Rightarrow> 'k \<Rightarrow> 'v \<Rightarrow> ('k \<rightharpoonup> 'v)" where
  "hash_update ok m k v = (if ok (dom m) k then m(k \<mapsto> v) else m)"

definition array_lookup :: "'v list \<Rightarrow> nat \<Rightarrow> 'v option" where
  "array_lookup xs i = (if i < length xs then Some (xs ! i) else None)"

text \<open>
  \<^verbatim>\<open>bpf_probe_read_user\<close> of a 64-bit word into a zero-initialised variable whose result code is
  ignored: the variable is 0 when the read fails.
\<close>

definition rd64 :: "mem \<Rightarrow> u64 \<Rightarrow> u64" where
  "rd64 m a = (case read_mem m a 8 of None \<Rightarrow> 0 | Some bs \<Rightarrow> get64 bs)"

text \<open>
  The documented contract of a hash map of \<open>mx\<close> entries: replacing a binding always succeeds, and a
  new binding is accepted exactly while the map is not full.
\<close>

definition hash_contract :: "nat \<Rightarrow> ('k set \<Rightarrow> 'k \<Rightarrow> bool) \<Rightarrow> bool" where
  "hash_contract mx ok \<longleftrightarrow> (\<forall>ks k. ok ks k = (k \<in> ks \<or> card ks < mx))"

text \<open>A map definition in a \<^verbatim>\<open>.maps\<close> section: its type and the attributes the source sets.\<close>

datatype map_type = BPF_MAP_TYPE_RINGBUF | BPF_MAP_TYPE_ARRAY | BPF_MAP_TYPE_HASH | BPF_MAP_TYPE_STACK_TRACE

record map_def =
  mtype :: map_type
  max_entries :: nat
  key_size :: nat
  value_size :: nat

section \<open>The hash map as an interface\<close>

locale bpf_hash =
  fixes lookup :: "'m \<Rightarrow> 'k \<Rightarrow> 'v option"
    and update :: "'m \<Rightarrow> 'k \<Rightarrow> 'v \<Rightarrow> 'm"
    and accepts :: "'m \<Rightarrow> 'k \<Rightarrow> bool"
  assumes lookup_update: "accepts m k \<Longrightarrow> lookup (update m k v) = (lookup m)(k := Some v)"
    and lookup_reject: "\<not> accepts m k \<Longrightarrow> lookup (update m k v) = lookup m"
begin

lemma update_other: "k' \<noteq> k \<Longrightarrow> lookup (update m k v) k' = lookup m k'"
  by (cases "accepts m k") (simp_all add: lookup_update lookup_reject)

lemma update_same: "lookup (update m k v) k = (if accepts m k then Some v else lookup m k)"
  by (simp add: lookup_update lookup_reject)

lemma update_cases:
  "lookup (update m k v) k' = Some w \<Longrightarrow> (k' = k \<and> w = v) \<or> lookup m k' = Some w"
  by (cases "accepts m k") (auto simp: lookup_update lookup_reject split: if_splits)

lemma update_keeps: "lookup m k' \<noteq> None \<Longrightarrow> lookup (update m k v) k' \<noteq> None"
  by (cases "accepts m k") (auto simp: lookup_update lookup_reject)

end

interpretation hm: bpf_hash "\<lambda>m k. m k" "hash_update ok" "\<lambda>m k. ok (dom m) k"
  for ok :: "'k set \<Rightarrow> 'k \<Rightarrow> bool"
  by unfold_locales (simp_all add: hash_update_def fun_eq_iff)

text \<open>Under the contract a map never holds more entries than its definition allows.\<close>

lemma hash_update_bounded:
  assumes "hash_contract mx ok" and "finite (dom m)" and "card (dom m) \<le> mx"
  shows "finite (dom (hash_update ok m k v)) \<and> card (dom (hash_update ok m k v)) \<le> mx"
  using assms by (auto simp: hash_contract_def hash_update_def insert_absorb card_insert_if)

end
