(* ===== verification/Smoke.thy ===== *)
theory Smoke
  imports Bpf
begin

text \<open>
  The toolchain check, \<^verbatim>\<open>bpf/smoke.bpf.c\<close>: one event per probe hit with a 16-byte tag. The tag is
  copied with a constant length of 15 from a literal of 7 bytes, so what follows the literal in the
  object's read-only data is a parameter \<open>after\<close> of the model.
\<close>

record event_t =
  e_pid :: u32
  e_pad :: u32
  e_ip :: u64
  e_parm1 :: u64
  e_parm2 :: u64
  e_parm3 :: u64
  e_tag :: "u8 list"

definition smoke_events_map :: map_def where
  "smoke_events_map = \<lparr>mtype = BPF_MAP_TYPE_RINGBUF, max_entries = 2 ^ 20, key_size = 0, value_size = 0\<rparr>"

definition lit_bytes :: "string \<Rightarrow> u8 list" where
  "lit_bytes s = map (\<lambda>c. word_of_nat (of_char c)) s @ [0]"

text \<open>\<^verbatim>\<open>memset\<close> of the whole tag, then \<^verbatim>\<open>memcpy\<close> of 15 bytes over it.\<close>

definition fill_tag :: "string \<Rightarrow> u8 list \<Rightarrow> u8 list" where
  "fill_tag tag after =
     (let zero = replicate 16 0; src = take 15 (lit_bytes tag @ after) in src @ drop (length src) zero)"

definition fill_event :: "event_t kenv \<Rightarrow> pt_regs \<Rightarrow> string \<Rightarrow> u8 list \<Rightarrow> event_t list \<Rightarrow> event_t list" where
  "fill_event K ctx tag after evs =
     (case rb_mem K of None \<Rightarrow> evs
      | Some g \<Rightarrow> evs @ [g\<lparr>e_pid := ucast (drop_bit 32 (pid_tgid K)), e_pad := 0, e_ip := PT_REGS_IP ctx,
          e_parm1 := PT_REGS_PARM 1 ctx, e_parm2 := PT_REGS_PARM 2 ctx, e_parm3 := PT_REGS_PARM 3 ctx,
          e_tag := fill_tag tag after\<rparr>])"

definition kp_getpid :: "event_t kenv \<Rightarrow> pt_regs \<Rightarrow> u8 list \<Rightarrow> event_t list \<Rightarrow> event_t list" where
  "kp_getpid K ctx after evs = fill_event K ctx ''kprobe'' after evs"

definition up_generic :: "event_t kenv \<Rightarrow> pt_regs \<Rightarrow> u8 list \<Rightarrow> event_t list \<Rightarrow> event_t list" where
  "up_generic K ctx after evs = fill_event K ctx ''uprobe'' after evs"

text \<open>The C string a consumer reads out of a tag.\<close>

definition c_string :: "u8 list \<Rightarrow> u8 list" where
  "c_string bs = takeWhile (\<lambda>b. b \<noteq> 0) bs"

lemma lit_kprobe: "lit_bytes ''kprobe'' = [0x6B, 0x70, 0x72, 0x6F, 0x62, 0x65, 0]"
  by (simp add: lit_bytes_def)

lemma lit_uprobe: "lit_bytes ''uprobe'' = [0x75, 0x70, 0x72, 0x6F, 0x62, 0x65, 0]"
  by (simp add: lit_bytes_def)

text \<open>
  The tag of a smoke event is usable whatever lies behind the literal: with at least the eight bytes
  that the copy reads past it, the tag has 16 bytes, ends in a zero byte and reads as the C string
  \<^verbatim>\<open>kprobe\<close>, and every other member comes from the probe, none from the reserved memory.
\<close>

theorem smoke_event_tag:
  assumes "rb_mem K = Some g" and "8 \<le> length after"
  shows "\<exists>e. kp_getpid K ctx after evs = evs @ [e] \<and> length (e_tag e) = 16 \<and> last (e_tag e) = 0 \<and>
    c_string (e_tag e) = [0x6B, 0x70, 0x72, 0x6F, 0x62, 0x65] \<and>
    e_ip e = PT_REGS_IP ctx \<and> e_pid e = ucast (drop_bit 32 (pid_tgid K)) \<and>
    e_parm1 e = PT_REGS_PARM 1 ctx \<and> e_parm2 e = PT_REGS_PARM 2 ctx \<and> e_parm3 e = PT_REGS_PARM 3 ctx"
proof -
  have "take 15 (lit_bytes ''kprobe'' @ after) = lit_bytes ''kprobe'' @ take 8 after"
    by (simp add: lit_kprobe)
  moreover have "length (take 8 after) = 8" using assms(2) by simp
  ultimately have "fill_tag ''kprobe'' after = lit_bytes ''kprobe'' @ take 8 after @ [0]"
    by (simp add: fill_tag_def lit_kprobe Let_def)
  with assms show ?thesis
    by (simp add: kp_getpid_def fill_event_def c_string_def lit_kprobe)
qed

text \<open>
  C36. The copy leaks: it reads eight bytes past the end of the seven-byte literal, and those bytes are in
  the submitted tag.
\<close>

theorem smoke_tag_overread:
  assumes "rb_mem K = Some g" and "length after = 8"
  shows "\<exists>e. up_generic K ctx after evs = evs @ [e] \<and> take 8 (drop 7 (e_tag e)) = after"
  using assms by (simp add: up_generic_def fill_event_def fill_tag_def lit_uprobe Let_def)

definition demo_smoke :: "event_t kenv" where
  "demo_smoke = \<lparr>rb_mem = Some \<lparr>e_pid = 9, e_pad = 9, e_ip = 9, e_parm1 = 9, e_parm2 = 9, e_parm3 = 9,
       e_tag = replicate 16 9\<rparr>,
     pid_tgid = 0x700000009, ktime_ns = 0, umem = (\<lambda>_. None), get_stackid = (\<lambda>_. 0),
     map_accepts = (\<lambda>_ _. True)\<rparr>"

definition demo_smoke_regs :: pt_regs where
  "demo_smoke_regs = \<lparr>regs = 5 # 6 # 7 # replicate 28 0, sp = 0, pc = 0x1000, pstate = 0\<rparr>"

theorem smoke_event_tag_witness:
  "\<exists>e. kp_getpid demo_smoke demo_smoke_regs [1, 2, 3, 4, 5, 6, 7, 8] [] = [e] \<and>
     c_string (e_tag e) = [0x6B, 0x70, 0x72, 0x6F, 0x62, 0x65]"
proof -
  have "rb_mem demo_smoke \<noteq> None" by (simp add: demo_smoke_def)
  then obtain g where g: "rb_mem demo_smoke = Some g" by blast
  have "8 \<le> length [1, 2, 3, 4, 5, 6, 7, 8 :: u8]" by simp
  from smoke_event_tag [OF g this, of demo_smoke_regs "[]"] show ?thesis by (simp only: append_Nil) blast
qed

theorem smoke_tag_overread_witness:
  "\<exists>e. up_generic demo_smoke demo_smoke_regs [1, 2, 3, 4, 5, 6, 7, 8] [] = [e] \<and>
     take 8 (drop 7 (e_tag e)) = [1, 2, 3, 4, 5, 6, 7, 8]"
proof -
  have "rb_mem demo_smoke \<noteq> None" by (simp add: demo_smoke_def)
  then obtain g where g: "rb_mem demo_smoke = Some g" by blast
  have "length [1, 2, 3, 4, 5, 6, 7, 8 :: u8] = 8" by simp
  from smoke_tag_overread [OF g this, of demo_smoke_regs "[]"] show ?thesis by (simp only: append_Nil)
qed

end
