(* ===== verification/GoStr.thy ===== *)
theory GoStr
  imports Prelude
begin

text \<open>
  What the loader uses of Go's standard library on byte strings: \<^verbatim>\<open>strings.HasPrefix\<close>,
  \<^verbatim>\<open>HasSuffix\<close>, \<^verbatim>\<open>Contains\<close>, \<^verbatim>\<open>IndexByte\<close>, \<^verbatim>\<open>LastIndexByte\<close>,
  \<^verbatim>\<open>Split\<close>, \<^verbatim>\<open>TrimSpace\<close>, \<^verbatim>\<open>Fields\<close>, \<^verbatim>\<open>Join\<close>,
  \<^verbatim>\<open>Repeat\<close>, \<^verbatim>\<open>ReplaceAll\<close> with one-byte arguments, and the integer printers of
  \<^verbatim>\<open>strconv\<close> and \<^verbatim>\<open>fmt\<close>. A Go string is a list of bytes, a \<^typ>\<open>char\<close> each. An
  index function returns \<^const>\<open>None\<close> where Go returns -1.
\<close>

section \<open>Prefixes, suffixes, substrings\<close>

definition hasPrefix :: "string \<Rightarrow> string \<Rightarrow> bool" where
  "hasPrefix s p = (take (length p) s = p)"

definition hasSuffix :: "string \<Rightarrow> string \<Rightarrow> bool" where
  "hasSuffix s p = hasPrefix (rev s) (rev p)"

fun str_contains :: "string \<Rightarrow> string \<Rightarrow> bool" where
  "str_contains [] p = (p = [])"
| "str_contains (c # cs) p = (hasPrefix (c # cs) p \<or> str_contains cs p)"

lemma hasPrefix_iff: "hasPrefix s p \<longleftrightarrow> (\<exists>r. s = p @ r)"
  by (metis append_eq_conv_conj append_take_drop_id hasPrefix_def)

lemma hasSuffix_iff: "hasSuffix s p \<longleftrightarrow> (\<exists>r. s = r @ p)"
  by (simp add: hasSuffix_def hasPrefix_iff) (metis rev_append rev_rev_ident)

lemma hasPrefix_append [simp]: "hasPrefix (p @ r) p"
  by (simp add: hasPrefix_def)

lemma hasPrefix_nil [simp]: "hasPrefix s []"
  by (simp add: hasPrefix_def)

lemma str_contains_iff: "str_contains s p \<longleftrightarrow> (\<exists>a b. s = a @ p @ b)"
proof (induction s)
  case Nil
  then show ?case by auto
next
  case (Cons c cs)
  show ?case
  proof
    assume "str_contains (c # cs) p"
    then consider "hasPrefix (c # cs) p" | "str_contains cs p" by auto
    then show "\<exists>a b. c # cs = a @ p @ b"
    proof cases
      case 1
      then show ?thesis using hasPrefix_iff [of "c # cs" p] by (metis append_Nil)
    next
      case 2
      then obtain a b where "cs = a @ p @ b" using Cons by blast
      then show ?thesis by (metis append_Cons)
    qed
  next
    assume "\<exists>a b. c # cs = a @ p @ b"
    then obtain a b where e: "c # cs = a @ p @ b" by blast
    show "str_contains (c # cs) p"
    proof (cases a)
      case Nil
      with e have "hasPrefix (c # cs) p" by simp
      then show ?thesis by simp
    next
      case a: (Cons x a')
      with e have "cs = a' @ p @ b" by simp
      then have "str_contains cs p" using Cons.IH by blast
      then show ?thesis by simp
    qed
  qed
qed

lemma hasPrefix_contains: "hasPrefix s p \<Longrightarrow> str_contains s p"
  by (cases s) (auto simp: hasPrefix_def)

section \<open>Searching for a byte\<close>

fun indexByte :: "string \<Rightarrow> char \<Rightarrow> nat option" where
  "indexByte [] c = None"
| "indexByte (x # xs) c = (if x = c then Some 0 else map_option Suc (indexByte xs c))"

definition lastIndexByte :: "string \<Rightarrow> char \<Rightarrow> nat option" where
  "lastIndexByte s c = map_option (\<lambda>i. length s - 1 - i) (indexByte (rev s) c)"

lemma indexByte_None [simp]: "indexByte s c = None \<longleftrightarrow> c \<notin> set s"
  by (induction s) auto

lemma indexByte_append: "c \<notin> set a \<Longrightarrow> indexByte (a @ c # b) c = Some (length a)"
  by (induction a) auto

lemma indexByte_Some: "indexByte s c = Some i \<Longrightarrow> i < length s \<and> s ! i = c \<and> c \<notin> set (take i s)"
  by (induction s arbitrary: i) (auto split: if_splits)

lemma lastIndexByte_None [simp]: "lastIndexByte s c = None \<longleftrightarrow> c \<notin> set s"
  by (simp add: lastIndexByte_def)

lemma lastIndexByte_append: "c \<notin> set b \<Longrightarrow> lastIndexByte (a @ c # b) c = Some (length a)"
  by (simp add: lastIndexByte_def indexByte_append)

section \<open>Splitting and joining\<close>

fun split_on :: "char \<Rightarrow> string \<Rightarrow> string list" where
  "split_on c [] = [[]]"
| "split_on c (x # xs) =
     (if x = c then [] # split_on c xs
      else (case split_on c xs of [] \<Rightarrow> [[x]] | y # ys \<Rightarrow> (x # y) # ys))"

fun str_join :: "string list \<Rightarrow> string \<Rightarrow> string" where
  "str_join [] sep = []"
| "str_join [s] sep = s"
| "str_join (s # r) sep = s @ sep @ str_join r sep"

lemma split_on_not_nil [simp]: "split_on c s \<noteq> []"
  by (induction s) (auto split: list.splits)

lemma split_on_join: "str_join (split_on c s) [c] = s"
proof (induction s)
  case (Cons x xs)
  obtain y ys where y: "split_on c xs = y # ys" by (cases "split_on c xs") auto
  with Cons show ?case by (cases ys) auto
qed simp

lemma split_on_no_sep: "y \<in> set (split_on c s) \<Longrightarrow> c \<notin> set y"
  by (induction s arbitrary: y) (auto split: list.splits if_splits)

lemma split_on_plain: "c \<notin> set s \<Longrightarrow> split_on c s = [s]"
  by (induction s) auto

lemma split_on_app: "c \<notin> set a \<Longrightarrow> split_on c (a @ c # b) = a # split_on c b"
  by (induction a) auto

definition replace_byte :: "char \<Rightarrow> char \<Rightarrow> string \<Rightarrow> string" where
  "replace_byte a b s = map (\<lambda>c. if c = a then b else c) s"

text \<open>The widths of \<^verbatim>\<open>fmt\<close>: the text filled up on the left.\<close>

definition pad_left :: "char \<Rightarrow> nat \<Rightarrow> string \<Rightarrow> string" where
  "pad_left c w s = replicate (w - length s) c @ s"

definition str_repeat :: "string \<Rightarrow> nat \<Rightarrow> string" where
  "str_repeat s n = concat (replicate n s)"

section \<open>White space\<close>

text \<open>
  The UTF-8 encodings of the characters \<^verbatim>\<open>unicode.IsSpace\<close> accepts. No encoding is a part of
  another character's encoding, so looking for one at every byte finds the same characters as
  decoding does.
\<close>

definition spaces :: "string list" where
  "spaces = [[CHR 0x09], [CHR 0x0A], [CHR 0x0B], [CHR 0x0C], [CHR 0x0D], [CHR 0x20],
     [CHR 0xC2, CHR 0x85], [CHR 0xC2, CHR 0xA0], [CHR 0xE1, CHR 0x9A, CHR 0x80],
     [CHR 0xE2, CHR 0x80, CHR 0x80], [CHR 0xE2, CHR 0x80, CHR 0x81], [CHR 0xE2, CHR 0x80, CHR 0x82],
     [CHR 0xE2, CHR 0x80, CHR 0x83], [CHR 0xE2, CHR 0x80, CHR 0x84], [CHR 0xE2, CHR 0x80, CHR 0x85],
     [CHR 0xE2, CHR 0x80, CHR 0x86], [CHR 0xE2, CHR 0x80, CHR 0x87], [CHR 0xE2, CHR 0x80, CHR 0x88],
     [CHR 0xE2, CHR 0x80, CHR 0x89], [CHR 0xE2, CHR 0x80, CHR 0x8A], [CHR 0xE2, CHR 0x80, CHR 0xA8],
     [CHR 0xE2, CHR 0x80, CHR 0xA9], [CHR 0xE2, CHR 0x80, CHR 0xAF], [CHR 0xE2, CHR 0x81, CHR 0x9F],
     [CHR 0xE3, CHR 0x80, CHR 0x80]]"

definition space_len :: "string list \<Rightarrow> string \<Rightarrow> nat" where
  "space_len ws s = (case find (hasPrefix s) ws of None \<Rightarrow> 0 | Some w \<Rightarrow> length w)"

function trim_left :: "string list \<Rightarrow> string \<Rightarrow> string" where
  "trim_left ws s =
     (if space_len ws s = 0 \<or> s = [] then s else trim_left ws (drop (space_len ws s) s))"
  by pat_completeness auto
termination
  by (relation "measure (\<lambda>(ws, s). length s)") auto

declare trim_left.simps [simp del]

definition trimSpace :: "string \<Rightarrow> string" where
  "trimSpace s = rev (trim_left (map rev spaces) (rev (trim_left spaces s)))"

function fields_from :: "string \<Rightarrow> string \<Rightarrow> string list" where
  "fields_from cur s =
     (if s = [] then (if cur = [] then [] else [rev cur])
      else if space_len spaces s = 0 then fields_from (hd s # cur) (tl s)
      else (if cur = [] then [] else [rev cur]) @ fields_from [] (drop (space_len spaces s) s))"
  by pat_completeness auto
termination
  by (relation "measure (\<lambda>(cur, s). length s)") auto

declare fields_from.simps [simp del]

definition str_fields :: "string \<Rightarrow> string list" where
  "str_fields s = fields_from [] s"

section \<open>Printing integers\<close>

definition digit_char :: "nat \<Rightarrow> char" where
  "digit_char d = ''0123456789abcdef'' ! d"

function radix :: "nat \<Rightarrow> nat \<Rightarrow> string" where
  "radix b n = (if n < b \<or> b < 2 then [digit_char n] else radix b (n div b) @ [digit_char (n mod b)])"
  by pat_completeness auto
termination
  by (relation "measure (\<lambda>(b, n). n)") auto

declare radix.simps [simp del]

definition fmt_hex :: "u64 \<Rightarrow> string" where
  "fmt_hex v = radix 16 (unat v)"

definition fmt_dec :: "int \<Rightarrow> string" where
  "fmt_dec i = (if i < 0 then CHR ''-'' # radix 10 (nat (- i)) else radix 10 (nat i))"

definition fmt_bool :: "bool \<Rightarrow> string" where
  "fmt_bool b = (if b then ''true'' else ''false'')"

text \<open>
  The verb \<^verbatim>\<open>%c\<close> for a rune of at most 16 bits: its UTF-8 encoding, with a lone surrogate
  replaced by U+FFFD.
\<close>

definition utf8 :: "nat \<Rightarrow> string" where
  "utf8 r =
     (if r < 0x80 then [char_of r]
      else if r < 0x800 then [char_of (0xC0 + r div 64), char_of (0x80 + r mod 64)]
      else if 0xD800 \<le> r \<and> r < 0xE000 then [CHR 0xEF, CHR 0xBF, CHR 0xBD]
      else [char_of (0xE0 + r div 4096), char_of (0x80 + r div 64 mod 64), char_of (0x80 + r mod 64)])"

section \<open>Printed numbers and white space\<close>

text \<open>The characters a number can start or end with begin no encoding of a space.\<close>

definition plain_char :: "char \<Rightarrow> bool" where
  "plain_char c = (48 \<le> (of_char c :: nat) \<and> (of_char c :: nat) \<le> 122)"

lemma space_len_plain:
  assumes "plain_char c"
  shows "space_len spaces (c # s) = 0" and "space_len (map rev spaces) (c # s) = 0"
proof -
  have ne: "c \<noteq> d" if "\<not> plain_char d" for d using assms that by blast
  have "find (hasPrefix (c # s)) spaces = None" "find (hasPrefix (c # s)) (map rev spaces) = None"
    by (simp_all add: spaces_def hasPrefix_def ne plain_char_def)
  then show "space_len spaces (c # s) = 0" and "space_len (map rev spaces) (c # s) = 0"
    by (simp_all add: space_len_def)
qed

lemma trimSpace_plain:
  assumes "s = [] \<or> plain_char (hd s) \<and> plain_char (last s)"
  shows "trimSpace s = s"
proof (cases s)
  case Nil
  then show ?thesis by (simp add: trimSpace_def trim_left.simps)
next
  case (Cons c cs)
  with assms have h: "plain_char c" and l: "plain_char (last s)" by simp_all
  have "trim_left spaces s = s" using Cons space_len_plain(1) [OF h] by (subst trim_left.simps) simp
  moreover have r: "rev s = last s # rev (butlast s)"
    using Cons append_butlast_last_id [of s] rev_append [of "butlast s" "[last s]"] by simp
  have "trim_left (map rev spaces) (rev s) = rev s"
    unfolding r using space_len_plain(2) [OF l] by (subst trim_left.simps) simp
  ultimately show ?thesis by (simp add: trimSpace_def)
qed

lemma radix_not_nil [simp]: "radix b n \<noteq> []"
  by (subst radix.simps) simp

text \<open>Every character of a printed number is a digit of the base.\<close>

lemma radix_digits:
  assumes "2 \<le> b"
  shows "\<forall>c \<in> set (radix b n). \<exists>d < b. c = digit_char d"
  using assms
proof (induction b n rule: radix.induct)
  case (1 b n)
  have m: "n mod b < b" using 1(2) by simp
  show ?case
  proof (cases "n < b")
    case True
    then show ?thesis by (subst radix.simps) auto
  next
    case False
    then have "radix b n = radix b (n div b) @ [digit_char (n mod b)]"
      using 1(2) by (subst radix.simps) simp
    moreover from 1 False m have "\<forall>c \<in> set (radix b (n div b)). \<exists>d < b. c = digit_char d"
      and "\<exists>d < b. digit_char (n mod b) = digit_char d" by (simp, metis)
    ultimately show ?thesis by auto
  qed
qed

end
