(* ===== verification/Schema.thy ===== *)
theory Schema
  imports GoStr
begin

text \<open>
  The JNI schema of the loader: \<^verbatim>\<open>loader/jni_schema.go\<close> (name, argument types and return type of
  every slot of the function table), \<^verbatim>\<open>loader/jni_names.go\<close> (the names alone) and the accessors
  and the classification of \<^verbatim>\<open>loader/schema.go\<close>. The two tables are transcribed row by row.
\<close>

record jniFunc =
  Name :: string
  Args :: "string list"
  Ret :: string

abbreviation jf :: "string \<Rightarrow> string list \<Rightarrow> string \<Rightarrow> jniFunc" where
  "jf n a r \<equiv> \<lparr>Name = n, Args = a, Ret = r\<rparr>"

section \<open>The tables\<close>

definition jniSchema_lo :: "jniFunc list" where
  "jniSchema_lo = [
     jf ''reserved0'' [] ''void'',
     jf ''reserved1'' [] ''void'',
     jf ''reserved2'' [] ''void'',
     jf ''reserved3'' [] ''void'',
     jf ''GetVersion'' [''JNIEnv*''] ''jint'',
     jf ''DefineClass'' [''JNIEnv*'', ''char*'', ''jobject'', ''jbyte*'', ''jsize''] ''jclass'',
     jf ''FindClass'' [''JNIEnv*'', ''char*''] ''jclass'',
     jf ''FromReflectedMethod'' [''JNIEnv*'', ''jobject''] ''jmethodID'',
     jf ''FromReflectedField'' [''JNIEnv*'', ''jobject''] ''jfieldID'',
     jf ''ToReflectedMethod'' [''JNIEnv*'', ''jclass'', ''jmethodID'', ''jboolean''] ''jobject'',
     jf ''GetSuperclass'' [''JNIEnv*'', ''jclass''] ''jclass'',
     jf ''IsAssignableFrom'' [''JNIEnv*'', ''jclass'', ''jclass''] ''jboolean'',
     jf ''ToReflectedField'' [''JNIEnv*'', ''jclass'', ''jfieldID'', ''jboolean''] ''jobject'',
     jf ''Throw'' [''JNIEnv*'', ''jthrowable''] ''jint'',
     jf ''ThrowNew'' [''JNIEnv*'', ''jclass'', ''char*''] ''jint'',
     jf ''ExceptionOccurred'' [''JNIEnv*''] ''jthrowable'',
     jf ''ExceptionDescribe'' [''JNIEnv*''] ''void'',
     jf ''ExceptionClear'' [''JNIEnv*''] ''void'',
     jf ''FatalError'' [''JNIEnv*'', ''char*''] ''void'',
     jf ''PushLocalFrame'' [''JNIEnv*'', ''jint''] ''jint'',
     jf ''PopLocalFrame'' [''JNIEnv*'', ''jobject''] ''jobject'',
     jf ''NewGlobalRef'' [''JNIEnv*'', ''jobject''] ''jobject'',
     jf ''DeleteGlobalRef'' [''JNIEnv*'', ''jobject''] ''void'',
     jf ''DeleteLocalRef'' [''JNIEnv*'', ''jobject''] ''void'',
     jf ''IsSameObject'' [''JNIEnv*'', ''jobject'', ''jobject''] ''jboolean'',
     jf ''NewLocalRef'' [''JNIEnv*'', ''jobject''] ''jobject'',
     jf ''EnsureLocalCapacity'' [''JNIEnv*'', ''jint''] ''jint'',
     jf ''AllocObject'' [''JNIEnv*'', ''jclass''] ''jobject'',
     jf ''NewObject'' [''JNIEnv*'', ''jclass'', ''jmethodID'', ''...''] ''jobject'',
     jf ''NewObjectV'' [''JNIEnv*'', ''jclass'', ''jmethodID'', ''va_list''] ''jobject'',
     jf ''NewObjectA'' [''JNIEnv*'', ''jclass'', ''jmethodID'', ''jvalue*''] ''jobject'',
     jf ''GetObjectClass'' [''JNIEnv*'', ''jobject''] ''jclass'',
     jf ''IsInstanceOf'' [''JNIEnv*'', ''jobject'', ''jclass''] ''jboolean'',
     jf ''GetMethodID'' [''JNIEnv*'', ''jclass'', ''char*'', ''char*''] ''jmethodID'',
     jf ''CallObjectMethod'' [''JNIEnv*'', ''jobject'', ''jmethodID'', ''...''] ''jobject'',
     jf ''CallObjectMethodV'' [''JNIEnv*'', ''jobject'', ''jmethodID'', ''va_list''] ''jobject'',
     jf ''CallObjectMethodA'' [''JNIEnv*'', ''jobject'', ''jmethodID'', ''jvalue*''] ''jobject'',
     jf ''CallBooleanMethod'' [''JNIEnv*'', ''jobject'', ''jmethodID'', ''...''] ''jboolean'',
     jf ''CallBooleanMethodV'' [''JNIEnv*'', ''jobject'', ''jmethodID'', ''va_list''] ''jboolean'',
     jf ''CallBooleanMethodA'' [''JNIEnv*'', ''jobject'', ''jmethodID'', ''jvalue*''] ''jboolean'',
     jf ''CallByteMethod'' [''JNIEnv*'', ''jobject'', ''jmethodID'', ''...''] ''jbyte'',
     jf ''CallByteMethodV'' [''JNIEnv*'', ''jobject'', ''jmethodID'', ''va_list''] ''jbyte'',
     jf ''CallByteMethodA'' [''JNIEnv*'', ''jobject'', ''jmethodID'', ''jvalue*''] ''jbyte'',
     jf ''CallCharMethod'' [''JNIEnv*'', ''jobject'', ''jmethodID'', ''...''] ''jchar'',
     jf ''CallCharMethodV'' [''JNIEnv*'', ''jobject'', ''jmethodID'', ''va_list''] ''jchar'',
     jf ''CallCharMethodA'' [''JNIEnv*'', ''jobject'', ''jmethodID'', ''jvalue*''] ''jchar'',
     jf ''CallShortMethod'' [''JNIEnv*'', ''jobject'', ''jmethodID'', ''...''] ''jshort'',
     jf ''CallShortMethodV'' [''JNIEnv*'', ''jobject'', ''jmethodID'', ''va_list''] ''jshort'',
     jf ''CallShortMethodA'' [''JNIEnv*'', ''jobject'', ''jmethodID'', ''jvalue*''] ''jshort'',
     jf ''CallIntMethod'' [''JNIEnv*'', ''jobject'', ''jmethodID'', ''...''] ''jint'',
     jf ''CallIntMethodV'' [''JNIEnv*'', ''jobject'', ''jmethodID'', ''va_list''] ''jint'',
     jf ''CallIntMethodA'' [''JNIEnv*'', ''jobject'', ''jmethodID'', ''jvalue*''] ''jint'',
     jf ''CallLongMethod'' [''JNIEnv*'', ''jobject'', ''jmethodID'', ''...''] ''jlong'',
     jf ''CallLongMethodV'' [''JNIEnv*'', ''jobject'', ''jmethodID'', ''va_list''] ''jlong'',
     jf ''CallLongMethodA'' [''JNIEnv*'', ''jobject'', ''jmethodID'', ''jvalue*''] ''jlong'',
     jf ''CallFloatMethod'' [''JNIEnv*'', ''jobject'', ''jmethodID'', ''...''] ''jfloat'',
     jf ''CallFloatMethodV'' [''JNIEnv*'', ''jobject'', ''jmethodID'', ''va_list''] ''jfloat'',
     jf ''CallFloatMethodA'' [''JNIEnv*'', ''jobject'', ''jmethodID'', ''jvalue*''] ''jfloat'',
     jf ''CallDoubleMethod'' [''JNIEnv*'', ''jobject'', ''jmethodID'', ''...''] ''jdouble'',
     jf ''CallDoubleMethodV'' [''JNIEnv*'', ''jobject'', ''jmethodID'', ''va_list''] ''jdouble'',
     jf ''CallDoubleMethodA'' [''JNIEnv*'', ''jobject'', ''jmethodID'', ''jvalue*''] ''jdouble'',
     jf ''CallVoidMethod'' [''JNIEnv*'', ''jobject'', ''jmethodID'', ''...''] ''void'',
     jf ''CallVoidMethodV'' [''JNIEnv*'', ''jobject'', ''jmethodID'', ''va_list''] ''void'',
     jf ''CallVoidMethodA'' [''JNIEnv*'', ''jobject'', ''jmethodID'', ''jvalue*''] ''void'',
     jf ''CallNonvirtualObjectMethod'' [''JNIEnv*'', ''jobject'', ''jclass'', ''jmethodID'', ''...''] ''jobject'',
     jf ''CallNonvirtualObjectMethodV'' [''JNIEnv*'', ''jobject'', ''jclass'', ''jmethodID'', ''va_list''] ''jobject'',
     jf ''CallNonvirtualObjectMethodA'' [''JNIEnv*'', ''jobject'', ''jclass'', ''jmethodID'', ''jvalue*''] ''jobject'',
     jf ''CallNonvirtualBooleanMethod'' [''JNIEnv*'', ''jobject'', ''jclass'', ''jmethodID'', ''...''] ''jboolean'',
     jf ''CallNonvirtualBooleanMethodV'' [''JNIEnv*'', ''jobject'', ''jclass'', ''jmethodID'', ''va_list''] ''jboolean'',
     jf ''CallNonvirtualBooleanMethodA'' [''JNIEnv*'', ''jobject'', ''jclass'', ''jmethodID'', ''jvalue*''] ''jboolean'',
     jf ''CallNonvirtualByteMethod'' [''JNIEnv*'', ''jobject'', ''jclass'', ''jmethodID'', ''...''] ''jbyte'',
     jf ''CallNonvirtualByteMethodV'' [''JNIEnv*'', ''jobject'', ''jclass'', ''jmethodID'', ''va_list''] ''jbyte'',
     jf ''CallNonvirtualByteMethodA'' [''JNIEnv*'', ''jobject'', ''jclass'', ''jmethodID'', ''jvalue*''] ''jbyte'',
     jf ''CallNonvirtualCharMethod'' [''JNIEnv*'', ''jobject'', ''jclass'', ''jmethodID'', ''...''] ''jchar'',
     jf ''CallNonvirtualCharMethodV'' [''JNIEnv*'', ''jobject'', ''jclass'', ''jmethodID'', ''va_list''] ''jchar'',
     jf ''CallNonvirtualCharMethodA'' [''JNIEnv*'', ''jobject'', ''jclass'', ''jmethodID'', ''jvalue*''] ''jchar'',
     jf ''CallNonvirtualShortMethod'' [''JNIEnv*'', ''jobject'', ''jclass'', ''jmethodID'', ''...''] ''jshort'',
     jf ''CallNonvirtualShortMethodV'' [''JNIEnv*'', ''jobject'', ''jclass'', ''jmethodID'', ''va_list''] ''jshort'',
     jf ''CallNonvirtualShortMethodA'' [''JNIEnv*'', ''jobject'', ''jclass'', ''jmethodID'', ''jvalue*''] ''jshort'',
     jf ''CallNonvirtualIntMethod'' [''JNIEnv*'', ''jobject'', ''jclass'', ''jmethodID'', ''...''] ''jint'',
     jf ''CallNonvirtualIntMethodV'' [''JNIEnv*'', ''jobject'', ''jclass'', ''jmethodID'', ''va_list''] ''jint'',
     jf ''CallNonvirtualIntMethodA'' [''JNIEnv*'', ''jobject'', ''jclass'', ''jmethodID'', ''jvalue*''] ''jint'',
     jf ''CallNonvirtualLongMethod'' [''JNIEnv*'', ''jobject'', ''jclass'', ''jmethodID'', ''...''] ''jlong'',
     jf ''CallNonvirtualLongMethodV'' [''JNIEnv*'', ''jobject'', ''jclass'', ''jmethodID'', ''va_list''] ''jlong'',
     jf ''CallNonvirtualLongMethodA'' [''JNIEnv*'', ''jobject'', ''jclass'', ''jmethodID'', ''jvalue*''] ''jlong'',
     jf ''CallNonvirtualFloatMethod'' [''JNIEnv*'', ''jobject'', ''jclass'', ''jmethodID'', ''...''] ''jfloat'',
     jf ''CallNonvirtualFloatMethodV'' [''JNIEnv*'', ''jobject'', ''jclass'', ''jmethodID'', ''va_list''] ''jfloat'',
     jf ''CallNonvirtualFloatMethodA'' [''JNIEnv*'', ''jobject'', ''jclass'', ''jmethodID'', ''jvalue*''] ''jfloat'',
     jf ''CallNonvirtualDoubleMethod'' [''JNIEnv*'', ''jobject'', ''jclass'', ''jmethodID'', ''...''] ''jdouble'',
     jf ''CallNonvirtualDoubleMethodV'' [''JNIEnv*'', ''jobject'', ''jclass'', ''jmethodID'', ''va_list''] ''jdouble'',
     jf ''CallNonvirtualDoubleMethodA'' [''JNIEnv*'', ''jobject'', ''jclass'', ''jmethodID'', ''jvalue*''] ''jdouble'',
     jf ''CallNonvirtualVoidMethod'' [''JNIEnv*'', ''jobject'', ''jclass'', ''jmethodID'', ''...''] ''void'',
     jf ''CallNonvirtualVoidMethodV'' [''JNIEnv*'', ''jobject'', ''jclass'', ''jmethodID'', ''va_list''] ''void'',
     jf ''CallNonvirtualVoidMethodA'' [''JNIEnv*'', ''jobject'', ''jclass'', ''jmethodID'', ''jvalue*''] ''void'',
     jf ''GetFieldID'' [''JNIEnv*'', ''jclass'', ''char*'', ''char*''] ''jfieldID'',
     jf ''GetObjectField'' [''JNIEnv*'', ''jobject'', ''jfieldID''] ''jobject'',
     jf ''GetBooleanField'' [''JNIEnv*'', ''jobject'', ''jfieldID''] ''jboolean'',
     jf ''GetByteField'' [''JNIEnv*'', ''jobject'', ''jfieldID''] ''jbyte'',
     jf ''GetCharField'' [''JNIEnv*'', ''jobject'', ''jfieldID''] ''jchar'',
     jf ''GetShortField'' [''JNIEnv*'', ''jobject'', ''jfieldID''] ''jshort'',
     jf ''GetIntField'' [''JNIEnv*'', ''jobject'', ''jfieldID''] ''jint'',
     jf ''GetLongField'' [''JNIEnv*'', ''jobject'', ''jfieldID''] ''jlong'',
     jf ''GetFloatField'' [''JNIEnv*'', ''jobject'', ''jfieldID''] ''jfloat'',
     jf ''GetDoubleField'' [''JNIEnv*'', ''jobject'', ''jfieldID''] ''jdouble'',
     jf ''SetObjectField'' [''JNIEnv*'', ''jobject'', ''jfieldID'', ''jobject''] ''void'',
     jf ''SetBooleanField'' [''JNIEnv*'', ''jobject'', ''jfieldID'', ''jboolean''] ''void'',
     jf ''SetByteField'' [''JNIEnv*'', ''jobject'', ''jfieldID'', ''jbyte''] ''void'',
     jf ''SetCharField'' [''JNIEnv*'', ''jobject'', ''jfieldID'', ''jchar''] ''void'',
     jf ''SetShortField'' [''JNIEnv*'', ''jobject'', ''jfieldID'', ''jshort''] ''void'',
     jf ''SetIntField'' [''JNIEnv*'', ''jobject'', ''jfieldID'', ''jint''] ''void'',
     jf ''SetLongField'' [''JNIEnv*'', ''jobject'', ''jfieldID'', ''jlong''] ''void'',
     jf ''SetFloatField'' [''JNIEnv*'', ''jobject'', ''jfieldID'', ''jfloat''] ''void'',
     jf ''SetDoubleField'' [''JNIEnv*'', ''jobject'', ''jfieldID'', ''jdouble''] ''void'',
     jf ''GetStaticMethodID'' [''JNIEnv*'', ''jclass'', ''char*'', ''char*''] ''jmethodID'',
     jf ''CallStaticObjectMethod'' [''JNIEnv*'', ''jclass'', ''jmethodID'', ''...''] ''jobject'',
     jf ''CallStaticObjectMethodV'' [''JNIEnv*'', ''jclass'', ''jmethodID'', ''va_list''] ''jobject'',
     jf ''CallStaticObjectMethodA'' [''JNIEnv*'', ''jclass'', ''jmethodID'', ''jvalue*''] ''jobject'']"

definition jniSchema_hi :: "jniFunc list" where
  "jniSchema_hi = [
     jf ''CallStaticBooleanMethod'' [''JNIEnv*'', ''jclass'', ''jmethodID'', ''...''] ''jboolean'',
     jf ''CallStaticBooleanMethodV'' [''JNIEnv*'', ''jclass'', ''jmethodID'', ''va_list''] ''jboolean'',
     jf ''CallStaticBooleanMethodA'' [''JNIEnv*'', ''jclass'', ''jmethodID'', ''jvalue*''] ''jboolean'',
     jf ''CallStaticByteMethod'' [''JNIEnv*'', ''jclass'', ''jmethodID'', ''...''] ''jbyte'',
     jf ''CallStaticByteMethodV'' [''JNIEnv*'', ''jclass'', ''jmethodID'', ''va_list''] ''jbyte'',
     jf ''CallStaticByteMethodA'' [''JNIEnv*'', ''jclass'', ''jmethodID'', ''jvalue*''] ''jbyte'',
     jf ''CallStaticCharMethod'' [''JNIEnv*'', ''jclass'', ''jmethodID'', ''...''] ''jchar'',
     jf ''CallStaticCharMethodV'' [''JNIEnv*'', ''jclass'', ''jmethodID'', ''va_list''] ''jchar'',
     jf ''CallStaticCharMethodA'' [''JNIEnv*'', ''jclass'', ''jmethodID'', ''jvalue*''] ''jchar'',
     jf ''CallStaticShortMethod'' [''JNIEnv*'', ''jclass'', ''jmethodID'', ''...''] ''jshort'',
     jf ''CallStaticShortMethodV'' [''JNIEnv*'', ''jclass'', ''jmethodID'', ''va_list''] ''jshort'',
     jf ''CallStaticShortMethodA'' [''JNIEnv*'', ''jclass'', ''jmethodID'', ''jvalue*''] ''jshort'',
     jf ''CallStaticIntMethod'' [''JNIEnv*'', ''jclass'', ''jmethodID'', ''...''] ''jint'',
     jf ''CallStaticIntMethodV'' [''JNIEnv*'', ''jclass'', ''jmethodID'', ''va_list''] ''jint'',
     jf ''CallStaticIntMethodA'' [''JNIEnv*'', ''jclass'', ''jmethodID'', ''jvalue*''] ''jint'',
     jf ''CallStaticLongMethod'' [''JNIEnv*'', ''jclass'', ''jmethodID'', ''...''] ''jlong'',
     jf ''CallStaticLongMethodV'' [''JNIEnv*'', ''jclass'', ''jmethodID'', ''va_list''] ''jlong'',
     jf ''CallStaticLongMethodA'' [''JNIEnv*'', ''jclass'', ''jmethodID'', ''jvalue*''] ''jlong'',
     jf ''CallStaticFloatMethod'' [''JNIEnv*'', ''jclass'', ''jmethodID'', ''...''] ''jfloat'',
     jf ''CallStaticFloatMethodV'' [''JNIEnv*'', ''jclass'', ''jmethodID'', ''va_list''] ''jfloat'',
     jf ''CallStaticFloatMethodA'' [''JNIEnv*'', ''jclass'', ''jmethodID'', ''jvalue*''] ''jfloat'',
     jf ''CallStaticDoubleMethod'' [''JNIEnv*'', ''jclass'', ''jmethodID'', ''...''] ''jdouble'',
     jf ''CallStaticDoubleMethodV'' [''JNIEnv*'', ''jclass'', ''jmethodID'', ''va_list''] ''jdouble'',
     jf ''CallStaticDoubleMethodA'' [''JNIEnv*'', ''jclass'', ''jmethodID'', ''jvalue*''] ''jdouble'',
     jf ''CallStaticVoidMethod'' [''JNIEnv*'', ''jclass'', ''jmethodID'', ''...''] ''void'',
     jf ''CallStaticVoidMethodV'' [''JNIEnv*'', ''jclass'', ''jmethodID'', ''va_list''] ''void'',
     jf ''CallStaticVoidMethodA'' [''JNIEnv*'', ''jclass'', ''jmethodID'', ''jvalue*''] ''void'',
     jf ''GetStaticFieldID'' [''JNIEnv*'', ''jclass'', ''char*'', ''char*''] ''jfieldID'',
     jf ''GetStaticObjectField'' [''JNIEnv*'', ''jclass'', ''jfieldID''] ''jobject'',
     jf ''GetStaticBooleanField'' [''JNIEnv*'', ''jclass'', ''jfieldID''] ''jboolean'',
     jf ''GetStaticByteField'' [''JNIEnv*'', ''jclass'', ''jfieldID''] ''jbyte'',
     jf ''GetStaticCharField'' [''JNIEnv*'', ''jclass'', ''jfieldID''] ''jchar'',
     jf ''GetStaticShortField'' [''JNIEnv*'', ''jclass'', ''jfieldID''] ''jshort'',
     jf ''GetStaticIntField'' [''JNIEnv*'', ''jclass'', ''jfieldID''] ''jint'',
     jf ''GetStaticLongField'' [''JNIEnv*'', ''jclass'', ''jfieldID''] ''jlong'',
     jf ''GetStaticFloatField'' [''JNIEnv*'', ''jclass'', ''jfieldID''] ''jfloat'',
     jf ''GetStaticDoubleField'' [''JNIEnv*'', ''jclass'', ''jfieldID''] ''jdouble'',
     jf ''SetStaticObjectField'' [''JNIEnv*'', ''jclass'', ''jfieldID'', ''jobject''] ''void'',
     jf ''SetStaticBooleanField'' [''JNIEnv*'', ''jclass'', ''jfieldID'', ''jboolean''] ''void'',
     jf ''SetStaticByteField'' [''JNIEnv*'', ''jclass'', ''jfieldID'', ''jbyte''] ''void'',
     jf ''SetStaticCharField'' [''JNIEnv*'', ''jclass'', ''jfieldID'', ''jchar''] ''void'',
     jf ''SetStaticShortField'' [''JNIEnv*'', ''jclass'', ''jfieldID'', ''jshort''] ''void'',
     jf ''SetStaticIntField'' [''JNIEnv*'', ''jclass'', ''jfieldID'', ''jint''] ''void'',
     jf ''SetStaticLongField'' [''JNIEnv*'', ''jclass'', ''jfieldID'', ''jlong''] ''void'',
     jf ''SetStaticFloatField'' [''JNIEnv*'', ''jclass'', ''jfieldID'', ''jfloat''] ''void'',
     jf ''SetStaticDoubleField'' [''JNIEnv*'', ''jclass'', ''jfieldID'', ''jdouble''] ''void'',
     jf ''NewString'' [''JNIEnv*'', ''jchar*'', ''jsize''] ''jstring'',
     jf ''GetStringLength'' [''JNIEnv*'', ''jstring''] ''jsize'',
     jf ''GetStringChars'' [''JNIEnv*'', ''jstring'', ''jboolean*''] ''jchar*'',
     jf ''ReleaseStringChars'' [''JNIEnv*'', ''jstring'', ''jchar*''] ''void'',
     jf ''NewStringUTF'' [''JNIEnv*'', ''char*''] ''jstring'',
     jf ''GetStringUTFLength'' [''JNIEnv*'', ''jstring''] ''jsize'',
     jf ''GetStringUTFChars'' [''JNIEnv*'', ''jstring'', ''jboolean*''] ''char*'',
     jf ''ReleaseStringUTFChars'' [''JNIEnv*'', ''jstring'', ''char*''] ''void'',
     jf ''GetArrayLength'' [''JNIEnv*'', ''jarray''] ''jsize'',
     jf ''NewObjectArray'' [''JNIEnv*'', ''jsize'', ''jclass'', ''jobject''] ''jobjectArray'',
     jf ''GetObjectArrayElement'' [''JNIEnv*'', ''jobjectArray'', ''jsize''] ''jobject'',
     jf ''SetObjectArrayElement'' [''JNIEnv*'', ''jobjectArray'', ''jsize'', ''jobject''] ''void'',
     jf ''NewBooleanArray'' [''JNIEnv*'', ''jsize''] ''jbooleanArray'',
     jf ''NewByteArray'' [''JNIEnv*'', ''jsize''] ''jbyteArray'',
     jf ''NewCharArray'' [''JNIEnv*'', ''jsize''] ''jcharArray'',
     jf ''NewShortArray'' [''JNIEnv*'', ''jsize''] ''jshortArray'',
     jf ''NewIntArray'' [''JNIEnv*'', ''jsize''] ''jintArray'',
     jf ''NewLongArray'' [''JNIEnv*'', ''jsize''] ''jlongArray'',
     jf ''NewFloatArray'' [''JNIEnv*'', ''jsize''] ''jfloatArray'',
     jf ''NewDoubleArray'' [''JNIEnv*'', ''jsize''] ''jdoubleArray'',
     jf ''GetBooleanArrayElements'' [''JNIEnv*'', ''jbooleanArray'', ''jboolean*''] ''jboolean*'',
     jf ''GetByteArrayElements'' [''JNIEnv*'', ''jbyteArray'', ''jboolean*''] ''jbyte*'',
     jf ''GetCharArrayElements'' [''JNIEnv*'', ''jcharArray'', ''jboolean*''] ''jchar*'',
     jf ''GetShortArrayElements'' [''JNIEnv*'', ''jshortArray'', ''jboolean*''] ''jshort*'',
     jf ''GetIntArrayElements'' [''JNIEnv*'', ''jintArray'', ''jboolean*''] ''jint*'',
     jf ''GetLongArrayElements'' [''JNIEnv*'', ''jlongArray'', ''jboolean*''] ''jlong*'',
     jf ''GetFloatArrayElements'' [''JNIEnv*'', ''jfloatArray'', ''jboolean*''] ''jfloat*'',
     jf ''GetDoubleArrayElements'' [''JNIEnv*'', ''jdoubleArray'', ''jboolean*''] ''jdouble*'',
     jf ''ReleaseBooleanArrayElements'' [''JNIEnv*'', ''jbooleanArray'', ''jboolean*'', ''jint''] ''void'',
     jf ''ReleaseByteArrayElements'' [''JNIEnv*'', ''jbyteArray'', ''jbyte*'', ''jint''] ''void'',
     jf ''ReleaseCharArrayElements'' [''JNIEnv*'', ''jcharArray'', ''jchar*'', ''jint''] ''void'',
     jf ''ReleaseShortArrayElements'' [''JNIEnv*'', ''jshortArray'', ''jshort*'', ''jint''] ''void'',
     jf ''ReleaseIntArrayElements'' [''JNIEnv*'', ''jintArray'', ''jint*'', ''jint''] ''void'',
     jf ''ReleaseLongArrayElements'' [''JNIEnv*'', ''jlongArray'', ''jlong*'', ''jint''] ''void'',
     jf ''ReleaseFloatArrayElements'' [''JNIEnv*'', ''jfloatArray'', ''jfloat*'', ''jint''] ''void'',
     jf ''ReleaseDoubleArrayElements'' [''JNIEnv*'', ''jdoubleArray'', ''jdouble*'', ''jint''] ''void'',
     jf ''GetBooleanArrayRegion'' [''JNIEnv*'', ''jbooleanArray'', ''jsize'', ''jsize'', ''jboolean*''] ''void'',
     jf ''GetByteArrayRegion'' [''JNIEnv*'', ''jbyteArray'', ''jsize'', ''jsize'', ''jbyte*''] ''void'',
     jf ''GetCharArrayRegion'' [''JNIEnv*'', ''jcharArray'', ''jsize'', ''jsize'', ''jchar*''] ''void'',
     jf ''GetShortArrayRegion'' [''JNIEnv*'', ''jshortArray'', ''jsize'', ''jsize'', ''jshort*''] ''void'',
     jf ''GetIntArrayRegion'' [''JNIEnv*'', ''jintArray'', ''jsize'', ''jsize'', ''jint*''] ''void'',
     jf ''GetLongArrayRegion'' [''JNIEnv*'', ''jlongArray'', ''jsize'', ''jsize'', ''jlong*''] ''void'',
     jf ''GetFloatArrayRegion'' [''JNIEnv*'', ''jfloatArray'', ''jsize'', ''jsize'', ''jfloat*''] ''void'',
     jf ''GetDoubleArrayRegion'' [''JNIEnv*'', ''jdoubleArray'', ''jsize'', ''jsize'', ''jdouble*''] ''void'',
     jf ''SetBooleanArrayRegion'' [''JNIEnv*'', ''jbooleanArray'', ''jsize'', ''jsize'', ''jboolean*''] ''void'',
     jf ''SetByteArrayRegion'' [''JNIEnv*'', ''jbyteArray'', ''jsize'', ''jsize'', ''jbyte*''] ''void'',
     jf ''SetCharArrayRegion'' [''JNIEnv*'', ''jcharArray'', ''jsize'', ''jsize'', ''jchar*''] ''void'',
     jf ''SetShortArrayRegion'' [''JNIEnv*'', ''jshortArray'', ''jsize'', ''jsize'', ''jshort*''] ''void'',
     jf ''SetIntArrayRegion'' [''JNIEnv*'', ''jintArray'', ''jsize'', ''jsize'', ''jint*''] ''void'',
     jf ''SetLongArrayRegion'' [''JNIEnv*'', ''jlongArray'', ''jsize'', ''jsize'', ''jlong*''] ''void'',
     jf ''SetFloatArrayRegion'' [''JNIEnv*'', ''jfloatArray'', ''jsize'', ''jsize'', ''jfloat*''] ''void'',
     jf ''SetDoubleArrayRegion'' [''JNIEnv*'', ''jdoubleArray'', ''jsize'', ''jsize'', ''jdouble*''] ''void'',
     jf ''RegisterNatives'' [''JNIEnv*'', ''jclass'', ''JNINativeMethod*'', ''jint''] ''jint'',
     jf ''UnregisterNatives'' [''JNIEnv*'', ''jclass''] ''jint'',
     jf ''MonitorEnter'' [''JNIEnv*'', ''jobject''] ''jint'',
     jf ''MonitorExit'' [''JNIEnv*'', ''jobject''] ''jint'',
     jf ''GetJavaVM'' [''JNIEnv*'', ''JavaVM**''] ''jint'',
     jf ''GetStringRegion'' [''JNIEnv*'', ''jstring'', ''jsize'', ''jsize'', ''jchar*''] ''void'',
     jf ''GetStringUTFRegion'' [''JNIEnv*'', ''jstring'', ''jsize'', ''jsize'', ''char*''] ''void'',
     jf ''GetPrimitiveArrayCritical'' [''JNIEnv*'', ''jarray'', ''jboolean*''] ''void'',
     jf ''ReleasePrimitiveArrayCritical'' [''JNIEnv*'', ''jarray'', ''void*'', ''jint''] ''void'',
     jf ''GetStringCritical'' [''JNIEnv*'', ''jstring'', ''jboolean*''] ''jchar'',
     jf ''ReleaseStringCritical'' [''JNIEnv*'', ''jstring'', ''jchar*''] ''void'',
     jf ''NewWeakGlobalRef'' [''JNIEnv*'', ''jobject''] ''jweak'',
     jf ''DeleteWeakGlobalRef'' [''JNIEnv*'', ''jweak''] ''void'',
     jf ''ExceptionCheck'' [''JNIEnv*''] ''jboolean'',
     jf ''NewDirectByteBuffer'' [''JNIEnv*'', ''void*'', ''jlong''] ''jobject'',
     jf ''GetDirectBufferAddress'' [''JNIEnv*'', ''jobject''] ''void'',
     jf ''GetDirectBufferCapacity'' [''JNIEnv*'', ''jobject''] ''jlong'',
     jf ''GetObjectRefType'' [''JNIEnv*'', ''jobject''] ''jobjectRefType'']"

definition jniSchema :: "jniFunc list" where
  "jniSchema = jniSchema_lo @ jniSchema_hi"

definition jniNames_lo :: "string list" where
  "jniNames_lo = [
     ''reserved0'', ''reserved1'', ''reserved2'', ''reserved3'', ''GetVersion'', ''DefineClass'',
     ''FindClass'', ''FromReflectedMethod'', ''FromReflectedField'', ''ToReflectedMethod'',
     ''GetSuperclass'', ''IsAssignableFrom'', ''ToReflectedField'', ''Throw'', ''ThrowNew'',
     ''ExceptionOccurred'', ''ExceptionDescribe'', ''ExceptionClear'', ''FatalError'',
     ''PushLocalFrame'', ''PopLocalFrame'', ''NewGlobalRef'', ''DeleteGlobalRef'',
     ''DeleteLocalRef'', ''IsSameObject'', ''NewLocalRef'', ''EnsureLocalCapacity'',
     ''AllocObject'', ''NewObject'', ''NewObjectV'', ''NewObjectA'', ''GetObjectClass'',
     ''IsInstanceOf'', ''GetMethodID'', ''CallObjectMethod'', ''CallObjectMethodV'',
     ''CallObjectMethodA'', ''CallBooleanMethod'', ''CallBooleanMethodV'',
     ''CallBooleanMethodA'', ''CallByteMethod'', ''CallByteMethodV'', ''CallByteMethodA'',
     ''CallCharMethod'', ''CallCharMethodV'', ''CallCharMethodA'', ''CallShortMethod'',
     ''CallShortMethodV'', ''CallShortMethodA'', ''CallIntMethod'', ''CallIntMethodV'',
     ''CallIntMethodA'', ''CallLongMethod'', ''CallLongMethodV'', ''CallLongMethodA'',
     ''CallFloatMethod'', ''CallFloatMethodV'', ''CallFloatMethodA'', ''CallDoubleMethod'',
     ''CallDoubleMethodV'', ''CallDoubleMethodA'', ''CallVoidMethod'', ''CallVoidMethodV'',
     ''CallVoidMethodA'', ''CallNonvirtualObjectMethod'', ''CallNonvirtualObjectMethodV'',
     ''CallNonvirtualObjectMethodA'', ''CallNonvirtualBooleanMethod'',
     ''CallNonvirtualBooleanMethodV'', ''CallNonvirtualBooleanMethodA'',
     ''CallNonvirtualByteMethod'', ''CallNonvirtualByteMethodV'', ''CallNonvirtualByteMethodA'',
     ''CallNonvirtualCharMethod'', ''CallNonvirtualCharMethodV'', ''CallNonvirtualCharMethodA'',
     ''CallNonvirtualShortMethod'', ''CallNonvirtualShortMethodV'',
     ''CallNonvirtualShortMethodA'', ''CallNonvirtualIntMethod'', ''CallNonvirtualIntMethodV'',
     ''CallNonvirtualIntMethodA'', ''CallNonvirtualLongMethod'', ''CallNonvirtualLongMethodV'',
     ''CallNonvirtualLongMethodA'', ''CallNonvirtualFloatMethod'',
     ''CallNonvirtualFloatMethodV'', ''CallNonvirtualFloatMethodA'',
     ''CallNonvirtualDoubleMethod'', ''CallNonvirtualDoubleMethodV'',
     ''CallNonvirtualDoubleMethodA'', ''CallNonvirtualVoidMethod'',
     ''CallNonvirtualVoidMethodV'', ''CallNonvirtualVoidMethodA'', ''GetFieldID'',
     ''GetObjectField'', ''GetBooleanField'', ''GetByteField'', ''GetCharField'',
     ''GetShortField'', ''GetIntField'', ''GetLongField'', ''GetFloatField'', ''GetDoubleField'',
     ''SetObjectField'', ''SetBooleanField'', ''SetByteField'', ''SetCharField'',
     ''SetShortField'', ''SetIntField'', ''SetLongField'', ''SetFloatField'', ''SetDoubleField'',
     ''GetStaticMethodID'', ''CallStaticObjectMethod'', ''CallStaticObjectMethodV'',
     ''CallStaticObjectMethodA'']"

definition jniNames_hi :: "string list" where
  "jniNames_hi = [
     ''CallStaticBooleanMethod'', ''CallStaticBooleanMethodV'', ''CallStaticBooleanMethodA'',
     ''CallStaticByteMethod'', ''CallStaticByteMethodV'', ''CallStaticByteMethodA'',
     ''CallStaticCharMethod'', ''CallStaticCharMethodV'', ''CallStaticCharMethodA'',
     ''CallStaticShortMethod'', ''CallStaticShortMethodV'', ''CallStaticShortMethodA'',
     ''CallStaticIntMethod'', ''CallStaticIntMethodV'', ''CallStaticIntMethodA'',
     ''CallStaticLongMethod'', ''CallStaticLongMethodV'', ''CallStaticLongMethodA'',
     ''CallStaticFloatMethod'', ''CallStaticFloatMethodV'', ''CallStaticFloatMethodA'',
     ''CallStaticDoubleMethod'', ''CallStaticDoubleMethodV'', ''CallStaticDoubleMethodA'',
     ''CallStaticVoidMethod'', ''CallStaticVoidMethodV'', ''CallStaticVoidMethodA'',
     ''GetStaticFieldID'', ''GetStaticObjectField'', ''GetStaticBooleanField'',
     ''GetStaticByteField'', ''GetStaticCharField'', ''GetStaticShortField'',
     ''GetStaticIntField'', ''GetStaticLongField'', ''GetStaticFloatField'',
     ''GetStaticDoubleField'', ''SetStaticObjectField'', ''SetStaticBooleanField'',
     ''SetStaticByteField'', ''SetStaticCharField'', ''SetStaticShortField'',
     ''SetStaticIntField'', ''SetStaticLongField'', ''SetStaticFloatField'',
     ''SetStaticDoubleField'', ''NewString'', ''GetStringLength'', ''GetStringChars'',
     ''ReleaseStringChars'', ''NewStringUTF'', ''GetStringUTFLength'', ''GetStringUTFChars'',
     ''ReleaseStringUTFChars'', ''GetArrayLength'', ''NewObjectArray'',
     ''GetObjectArrayElement'', ''SetObjectArrayElement'', ''NewBooleanArray'', ''NewByteArray'',
     ''NewCharArray'', ''NewShortArray'', ''NewIntArray'', ''NewLongArray'', ''NewFloatArray'',
     ''NewDoubleArray'', ''GetBooleanArrayElements'', ''GetByteArrayElements'',
     ''GetCharArrayElements'', ''GetShortArrayElements'', ''GetIntArrayElements'',
     ''GetLongArrayElements'', ''GetFloatArrayElements'', ''GetDoubleArrayElements'',
     ''ReleaseBooleanArrayElements'', ''ReleaseByteArrayElements'', ''ReleaseCharArrayElements'',
     ''ReleaseShortArrayElements'', ''ReleaseIntArrayElements'', ''ReleaseLongArrayElements'',
     ''ReleaseFloatArrayElements'', ''ReleaseDoubleArrayElements'', ''GetBooleanArrayRegion'',
     ''GetByteArrayRegion'', ''GetCharArrayRegion'', ''GetShortArrayRegion'',
     ''GetIntArrayRegion'', ''GetLongArrayRegion'', ''GetFloatArrayRegion'',
     ''GetDoubleArrayRegion'', ''SetBooleanArrayRegion'', ''SetByteArrayRegion'',
     ''SetCharArrayRegion'', ''SetShortArrayRegion'', ''SetIntArrayRegion'',
     ''SetLongArrayRegion'', ''SetFloatArrayRegion'', ''SetDoubleArrayRegion'',
     ''RegisterNatives'', ''UnregisterNatives'', ''MonitorEnter'', ''MonitorExit'',
     ''GetJavaVM'', ''GetStringRegion'', ''GetStringUTFRegion'', ''GetPrimitiveArrayCritical'',
     ''ReleasePrimitiveArrayCritical'', ''GetStringCritical'', ''ReleaseStringCritical'',
     ''NewWeakGlobalRef'', ''DeleteWeakGlobalRef'', ''ExceptionCheck'', ''NewDirectByteBuffer'',
     ''GetDirectBufferAddress'', ''GetDirectBufferCapacity'', ''GetObjectRefType'']"

definition jniNames :: "string list" where
  "jniNames = jniNames_lo @ jniNames_hi"

section \<open>Accessors\<close>

definition slotName :: "int \<Rightarrow> string" where
  "slotName slot =
     (if 0 \<le> slot \<and> slot < int (length jniSchema) then Name (jniSchema ! nat slot)
      else if 0 \<le> slot \<and> slot < int (length jniNames) then jniNames ! nat slot
      else ''slot'' @ fmt_dec slot)"

definition slotRet :: "int \<Rightarrow> string" where
  "slotRet slot =
     (if 0 \<le> slot \<and> slot < int (length jniSchema) then Ret (jniSchema ! nat slot) else ''void'')"

definition slotArgs :: "int \<Rightarrow> string list" where
  "slotArgs slot =
     (if 0 \<le> slot \<and> slot < int (length jniSchema) then Args (jniSchema ! nat slot) else [])"

section \<open>Classification\<close>

definition category :: "string \<Rightarrow> string" where
  "category name =
     (if hasPrefix name ''Call'' \<and> str_contains name ''Method'' then ''call''
      else if hasPrefix name ''NewObject'' \<or> name = ''AllocObject'' then ''new''
      else if ((hasPrefix name ''Get'' \<or> hasPrefix name ''Set'') \<and> hasSuffix name ''Field'') \<or>
              hasSuffix name ''FieldID'' then ''field''
      else if name = ''FindClass'' \<or> name = ''DefineClass'' \<or> name = ''GetSuperclass'' \<or>
              name = ''IsAssignableFrom'' \<or> name = ''GetObjectClass'' \<or> name = ''IsInstanceOf''
           then ''class''
      else if str_contains name ''String'' then ''string''
      else ''other'')"

definition isCallMethod :: "string \<Rightarrow> nat option" where
  "isCallMethod n =
     (if hasPrefix n ''NewObject'' then Some 2
      else if hasPrefix n ''Call'' \<and> str_contains n ''Method''
           then (if str_contains n ''Nonvirtual'' then Some 3 else Some 2)
      else None)"

end
