(* ===== verification/Recon.thy ===== *)
theory Recon
  imports Bpf
begin

text \<open>
  The main BPF object, \<^verbatim>\<open>bpf/recon.bpf.c\<close>: the event record sent to the loader, the maps, the
  argument snapshot \<^verbatim>\<open>capture\<close>, the entry probe \<^verbatim>\<open>up_all\<close> and the return probe
  \<^verbatim>\<open>up_ret\<close>. The state is the record of the object's maps with the list of submitted events.
\<close>

section \<open>Constants, the event and the maps\<close>

definition NARGS :: nat where "NARGS = 5"

definition NCAP :: nat where "NCAP = 16"

text \<open>\<^verbatim>\<open>struct evt_t\<close>. Signed members keep their bits and are read with \<^const>\<open>sint\<close>.\<close>

record evt_t =
  ev_pid :: u32
  ev_tid :: u32
  ev_kind :: u32
  ev_pad :: u32
  ev_ip :: u64
  ev_rc :: u64
  ev_ts :: u64
  ev_depth :: s32
  ev_pad2 :: u32
  ev_caller :: u64
  ev_a :: "u64 list"
  ev_ncap :: u32
  ev_argkind :: u32
  ev_res1 :: u32
  ev_res2 :: u32
  ev_cap :: "u64 list"
  ev_cap2 :: "u64 list"
  ev_vgr :: u64
  ev_vgoff :: s64
  ev_vstk :: u64
  ev_stackid :: s32
  ev_pad3 :: u32

text \<open>The map definitions, with the sizes of their key and value types in bytes.\<close>

definition events_map :: map_def where
  "events_map = \<lparr>mtype = BPF_MAP_TYPE_RINGBUF, max_entries = 2 ^ 23, key_size = 0, value_size = 0\<rparr>"

definition cfg_map :: map_def where
  "cfg_map = \<lparr>mtype = BPF_MAP_TYPE_ARRAY, max_entries = 2, key_size = 4, value_size = 8\<rparr>"

definition stackmap_map :: map_def where
  "stackmap_map = \<lparr>mtype = BPF_MAP_TYPE_STACK_TRACE, max_entries = 8192, key_size = 4, value_size = 32 * 8\<rparr>"

definition argkind_map :: map_def where
  "argkind_map = \<lparr>mtype = BPF_MAP_TYPE_HASH, max_entries = 2048, key_size = 8, value_size = 1\<rparr>"

definition argidx_map :: map_def where
  "argidx_map = \<lparr>mtype = BPF_MAP_TYPE_HASH, max_entries = 2048, key_size = 8, value_size = 1\<rparr>"

definition hasret_map :: map_def where
  "hasret_map = \<lparr>mtype = BPF_MAP_TYPE_HASH, max_entries = 8192, key_size = 8, value_size = 1\<rparr>"

definition depth_map :: map_def where
  "depth_map = \<lparr>mtype = BPF_MAP_TYPE_HASH, max_entries = 4096, key_size = 4, value_size = 4\<rparr>"

text \<open>
  The state: the contents of the maps the probes read and write, and the events submitted so far. The
  stack traces are written by the kernel and only read by the loader.
\<close>

record rmaps =
  events :: "evt_t list"
  cfg :: "u64 list"
  argkind :: "u64 \<rightharpoonup> u8"
  argidx :: "u64 \<rightharpoonup> u8"
  hasret :: "u64 \<rightharpoonup> u8"
  depth :: "u32 \<rightharpoonup> u32"

section \<open>Argument snapshot\<close>

definition snapshot :: "mem \<Rightarrow> u64 \<Rightarrow> u64 list" where
  "snapshot m p = map (\<lambda>i. rd64 m (p + word_of_nat i * 8)) [0..<NCAP]"

text \<open>
  The four words of a \<^verbatim>\<open>va_list\<close>, zero when the 32 bytes cannot be read.
\<close>

definition read_va_list :: "mem \<Rightarrow> u64 \<Rightarrow> u64 list" where
  "read_va_list m p =
     (case read_mem m p 32 of None \<Rightarrow> [0, 0, 0, 0]
      | Some bs \<Rightarrow> map (\<lambda>i. get64 (take 8 (drop (8 * i) bs))) [0..<4])"

definition capture :: "mem \<Rightarrow> evt_t \<Rightarrow> u64 \<Rightarrow> int \<Rightarrow> int \<Rightarrow> evt_t" where
  "capture m e p k ix =
     (let e = e\<lparr>ev_argkind := word_of_int k, ev_ncap := word_of_nat NCAP\<rparr> in
      if k = 1 then e\<lparr>ev_cap := snapshot m p\<rparr>
      else if k = 2 then
        (let st = read_va_list m p;
             gbase = st ! 1 - 128
         in e\<lparr>ev_vstk := st ! 0, ev_vgr := st ! 1,
              ev_vgoff := scast (ucast (st ! 3) :: s32),
              ev_cap := snapshot m gbase, ev_cap2 := snapshot m (st ! 0)\<rparr>)
      else if k = 3 then
        e\<lparr>ev_ncap := word_of_nat NARGS - word_of_int ix,
          ev_cap := ((ev_cap e)[0 := ev_a e ! nat ix])
                      [1 := (if ix + 1 < int NARGS then ev_a e ! nat (ix + 1) else 0)]\<rparr>
      else e)"

section \<open>Frame depth of a thread\<close>

definition depth_of :: "(u32 \<rightharpoonup> u32) \<Rightarrow> u32 \<Rightarrow> u32" where
  "depth_of m tid = (case m tid of None \<Rightarrow> 0 | Some d \<Rightarrow> d)"

definition depth_enter :: "(u32 set \<Rightarrow> u32 \<Rightarrow> bool) \<Rightarrow> (u32 \<rightharpoonup> u32) \<Rightarrow> u32 \<Rightarrow> u32 \<times> (u32 \<rightharpoonup> u32)" where
  "depth_enter ok m tid =
     (let d = depth_of m tid; nd = d + 1 in (d, hash_update ok m tid nd))"

definition depth_leave :: "(u32 set \<Rightarrow> u32 \<Rightarrow> bool) \<Rightarrow> (u32 \<rightharpoonup> u32) \<Rightarrow> u32 \<Rightarrow> u32 \<times> (u32 \<rightharpoonup> u32)" where
  "depth_leave ok m tid =
     (let d = depth_of m tid; nd = (if d > 0 then d - 1 else 0) in (nd, hash_update ok m tid nd))"

section \<open>Entry probe\<close>

text \<open>The unconditional assignments of \<^verbatim>\<open>up_all\<close> over the reserved memory \<open>g\<close>.\<close>

definition init_entry :: "evt_t kenv \<Rightarrow> pt_regs \<Rightarrow> evt_t \<Rightarrow> evt_t" where
  "init_entry K ctx g =
     g\<lparr>ev_pid := ucast (drop_bit 32 (pid_tgid K)), ev_tid := ucast (pid_tgid K),
       ev_kind := 0, ev_pad := 0, ev_ip := PT_REGS_IP ctx, ev_rc := 0, ev_ts := ktime_ns K,
       ev_depth := -1, ev_pad2 := 0, ev_caller := PT_REGS_RET ctx,
       ev_a := [PT_REGS_PARM 1 ctx, PT_REGS_PARM 2 ctx, PT_REGS_PARM 3 ctx,
                PT_REGS_PARM 4 ctx, PT_REGS_PARM 5 ctx],
       ev_ncap := 0, ev_argkind := 0, ev_vgr := 0, ev_vgoff := 0, ev_vstk := 0,
       ev_stackid := -1, ev_pad3 := 0\<rparr>"

text \<open>The three blocks under \<^verbatim>\<open>if (base)\<close>: depth, argument snapshot, stack trace.\<close>

definition track_entry :: "evt_t kenv \<Rightarrow> u64 \<Rightarrow> evt_t \<Rightarrow> rmaps \<Rightarrow> evt_t \<times> rmaps" where
  "track_entry K off e s =
     (case hasret s off of None \<Rightarrow> (e, s)
      | Some _ \<Rightarrow>
          (let (d, m) = depth_enter (map_accepts K) (depth s) (ev_tid e)
           in (e\<lparr>ev_depth := d\<rparr>, s\<lparr>depth := m\<rparr>)))"

definition snap_args :: "evt_t kenv \<Rightarrow> u64 \<Rightarrow> rmaps \<Rightarrow> evt_t \<Rightarrow> evt_t" where
  "snap_args K off s e =
     (case (argkind s off, argidx s off) of
        (Some k, Some ix) \<Rightarrow>
          if k \<noteq> 0 \<and> unat ix < NARGS
          then capture (umem K) e (ev_a e ! unat ix) (uint k) (uint ix) else e
      | _ \<Rightarrow> e)"

definition snap_stack :: "evt_t kenv \<Rightarrow> pt_regs \<Rightarrow> rmaps \<Rightarrow> evt_t \<Rightarrow> evt_t" where
  "snap_stack K ctx s e =
     (case array_lookup (cfg s) 1 of None \<Rightarrow> e
      | Some ws \<Rightarrow> if ws \<noteq> 0 then e\<lparr>ev_stackid := ucast (get_stackid K ctx)\<rparr> else e)"

definition up_all :: "evt_t kenv \<Rightarrow> pt_regs \<Rightarrow> rmaps \<Rightarrow> rmaps" where
  "up_all K ctx s =
     (case rb_mem K of None \<Rightarrow> s
      | Some g \<Rightarrow>
          (let e = init_entry K ctx g;
               (e, s) = (case array_lookup (cfg s) 0 of None \<Rightarrow> (e, s)
                 | Some base \<Rightarrow>
                     (let off = ev_ip e - base;
                          (e, s) = track_entry K off e s;
                          e = snap_args K off s e;
                          e = snap_stack K ctx s e
                      in (e, s)))
           in s\<lparr>events := events s @ [e]\<rparr>))"

section \<open>Return probe\<close>

definition init_return :: "evt_t kenv \<Rightarrow> pt_regs \<Rightarrow> evt_t \<Rightarrow> evt_t" where
  "init_return K ctx g =
     g\<lparr>ev_pid := ucast (drop_bit 32 (pid_tgid K)), ev_tid := ucast (pid_tgid K),
       ev_kind := 1, ev_pad := 0, ev_ip := PT_REGS_IP ctx, ev_rc := PT_REGS_PARM 1 ctx,
       ev_ts := ktime_ns K, ev_depth := -1, ev_pad2 := 0, ev_caller := 0,
       ev_a := [0, 0, 0, 0, 0],
       ev_ncap := 0, ev_argkind := 0, ev_vgr := 0, ev_vgoff := 0, ev_vstk := 0,
       ev_stackid := -1, ev_pad3 := 0\<rparr>"

definition up_ret :: "evt_t kenv \<Rightarrow> pt_regs \<Rightarrow> rmaps \<Rightarrow> rmaps" where
  "up_ret K ctx s =
     (case rb_mem K of None \<Rightarrow> s
      | Some g \<Rightarrow>
          (let e = init_return K ctx g;
               (nd, m) = depth_leave (map_accepts K) (depth s) (ev_tid e);
               s = s\<lparr>depth := m\<rparr>;
               e = e\<lparr>ev_depth := nd\<rparr>
           in s\<lparr>events := events s @ [e]\<rparr>))"


section \<open>The depth counter as an interface\<close>

text \<open>
  What the pairing of entries and returns relies on: a counter per thread whose \<open>enter\<close> hands out
  the current level and raises it, and whose \<open>leave\<close> lowers it and hands out the new level. The
  client of the interface is a stack of frames per thread; the two lemmas are one step of the
  simulation between the counter and the stacks.
\<close>

locale frame_depth =
  fixes enter leave :: "'s \<Rightarrow> 't \<Rightarrow> 'd \<times> 's"
    and level :: "'s \<Rightarrow> 't \<Rightarrow> nat"
    and num :: "'d \<Rightarrow> nat"
    and accepts :: "'s \<Rightarrow> 't \<Rightarrow> bool"
    and limit :: nat
  assumes enter_num: "num (fst (enter s t)) = level s t"
    and enter_level: "accepts s t \<Longrightarrow> level s t < limit \<Longrightarrow>
          level (snd (enter s t)) = (level s)(t := Suc (level s t))"
    and leave_num: "num (fst (leave s t)) = level s t - 1"
    and leave_level: "accepts s t \<Longrightarrow> level (snd (leave s t)) = (level s)(t := level s t - 1)"
begin

lemma enter_sim:
  assumes "\<forall>u. level s u = length (stk u)" and "accepts s t" and "length (stk t) < limit"
  shows "num (fst (enter s t)) = length (stk t)"
    and "\<forall>u. level (snd (enter s t)) u = length ((stk(t := x # stk t)) u)"
  using assms by (simp_all add: enter_num enter_level)

lemma leave_sim:
  assumes "\<forall>u. level s u = length (stk u)" and "accepts s t" and "stk t = x # xs"
  shows "num (fst (leave s t)) = length xs"
    and "\<forall>u. level (snd (leave s t)) u = length ((stk(t := xs)) u)"
  using assms by (simp_all add: leave_num leave_level)

end

lemma unat_depth_succ: "unat (d :: u32) < 2 ^ 32 - 1 \<Longrightarrow> unat (d + 1) = Suc (unat d)"
  by (simp add: unat_word_ariths)

lemma unat_depth_pred: "unat (if d > 0 then d - 1 else 0 :: u32) = unat d - 1"
proof (cases "d = 0")
  case False
  then have "0 < d" by (simp add: word_gt_0)
  moreover have "unat (d - 1) = unat d - 1"
    using False by (simp add: unat_minus_one)
  ultimately show ?thesis by simp
qed simp

lemma depth_of_hash_update:
  "depth_of (hash_update ok m tid v) u =
     (if u = tid \<and> ok (dom m) tid then v else depth_of m u)"
  by (cases "u = tid") (simp_all add: depth_of_def hm.update_same hm.update_other)

interpretation dc: frame_depth "depth_enter ok" "depth_leave ok" "\<lambda>m t. unat (depth_of m t)"
    unat "\<lambda>m t. ok (dom m) t" "2 ^ 32 - 1"
  for ok
proof unfold_locales
  show "unat (fst (depth_enter ok m t)) = unat (depth_of m t)" for m t
    by (simp add: depth_enter_def Let_def)
  show "unat (fst (depth_leave ok m t)) = unat (depth_of m t) - 1" for m t
    by (simp add: depth_leave_def Let_def unat_depth_pred)
  show "(\<lambda>u. unat (depth_of (snd (depth_enter ok m t)) u)) =
        (\<lambda>u. unat (depth_of m u))(t := Suc (unat (depth_of m t)))"
    if "ok (dom m) t" and "unat (depth_of m t) < 2 ^ 32 - 1" for m t
    using that by (simp add: depth_enter_def Let_def fun_eq_iff depth_of_hash_update unat_depth_succ)
  show "(\<lambda>u. unat (depth_of (snd (depth_leave ok m t)) u)) =
        (\<lambda>u. unat (depth_of m u))(t := unat (depth_of m t) - 1)"
    if "ok (dom m) t" for m t
    using that unat_depth_pred [of "depth_of m t"]
    by (auto simp: depth_leave_def Let_def fun_eq_iff depth_of_hash_update split: if_splits)
qed

section \<open>One run of a probe\<close>

abbreviation cur_tid :: "evt_t kenv \<Rightarrow> u32" where
  "cur_tid K \<equiv> ucast (pid_tgid K)"

text \<open>A probed instruction is tracked when its file offset has a return probe.\<close>

definition tracked :: "rmaps \<Rightarrow> pt_regs \<Rightarrow> bool" where
  "tracked s ctx =
     (case array_lookup (cfg s) 0 of None \<Rightarrow> False
      | Some base \<Rightarrow> hasret s (PT_REGS_IP ctx - base) \<noteq> None)"

lemma capture_frame [simp]:
  "ev_pid (capture m e p k ix) = ev_pid e" "ev_tid (capture m e p k ix) = ev_tid e"
  "ev_kind (capture m e p k ix) = ev_kind e" "ev_ip (capture m e p k ix) = ev_ip e"
  "ev_rc (capture m e p k ix) = ev_rc e" "ev_ts (capture m e p k ix) = ev_ts e"
  "ev_depth (capture m e p k ix) = ev_depth e" "ev_caller (capture m e p k ix) = ev_caller e"
  "ev_a (capture m e p k ix) = ev_a e" "ev_stackid (capture m e p k ix) = ev_stackid e"
  "ev_pad (capture m e p k ix) = ev_pad e" "ev_pad2 (capture m e p k ix) = ev_pad2 e"
  "ev_pad3 (capture m e p k ix) = ev_pad3 e" "ev_res1 (capture m e p k ix) = ev_res1 e"
  "ev_res2 (capture m e p k ix) = ev_res2 e"
  by (simp_all add: capture_def Let_def)

lemma snap_args_cases:
  "snap_args K off s e = e \<or>
   (\<exists>k ix. argkind s off = Some k \<and> argidx s off = Some ix \<and> k \<noteq> 0 \<and> unat ix < NARGS \<and>
      snap_args K off s e = capture (umem K) e (ev_a e ! unat ix) (uint k) (uint ix))"
  by (auto simp: snap_args_def split: option.splits)

lemma snap_args_frame [simp]:
  "ev_pid (snap_args K off s e) = ev_pid e" "ev_tid (snap_args K off s e) = ev_tid e"
  "ev_kind (snap_args K off s e) = ev_kind e" "ev_ip (snap_args K off s e) = ev_ip e"
  "ev_rc (snap_args K off s e) = ev_rc e" "ev_ts (snap_args K off s e) = ev_ts e"
  "ev_depth (snap_args K off s e) = ev_depth e" "ev_caller (snap_args K off s e) = ev_caller e"
  "ev_a (snap_args K off s e) = ev_a e"
  using snap_args_cases [of K off s e] by auto

lemma snap_stack_frame [simp]:
  "ev_pid (snap_stack K ctx s e) = ev_pid e" "ev_tid (snap_stack K ctx s e) = ev_tid e"
  "ev_kind (snap_stack K ctx s e) = ev_kind e" "ev_ip (snap_stack K ctx s e) = ev_ip e"
  "ev_rc (snap_stack K ctx s e) = ev_rc e" "ev_ts (snap_stack K ctx s e) = ev_ts e"
  "ev_depth (snap_stack K ctx s e) = ev_depth e" "ev_caller (snap_stack K ctx s e) = ev_caller e"
  "ev_a (snap_stack K ctx s e) = ev_a e" "ev_ncap (snap_stack K ctx s e) = ev_ncap e"
  "ev_argkind (snap_stack K ctx s e) = ev_argkind e" "ev_cap (snap_stack K ctx s e) = ev_cap e"
  "ev_cap2 (snap_stack K ctx s e) = ev_cap2 e" "ev_vgr (snap_stack K ctx s e) = ev_vgr e"
  "ev_vgoff (snap_stack K ctx s e) = ev_vgoff e" "ev_vstk (snap_stack K ctx s e) = ev_vstk e"
  by (simp_all add: snap_stack_def split: option.splits)

lemma up_all_drop: "rb_mem K = None \<Longrightarrow> up_all K ctx s = s"
  by (simp add: up_all_def)

lemma up_ret_drop: "rb_mem K = None \<Longrightarrow> up_ret K ctx s = s"
  by (simp add: up_ret_def)

lemma up_all_maps [simp]:
  "cfg (up_all K ctx s) = cfg s" "argkind (up_all K ctx s) = argkind s"
  "argidx (up_all K ctx s) = argidx s" "hasret (up_all K ctx s) = hasret s"
  by (simp_all add: up_all_def track_entry_def Let_def split: option.splits prod.splits)

lemma up_ret_maps [simp]:
  "cfg (up_ret K ctx s) = cfg s" "argkind (up_ret K ctx s) = argkind s"
  "argidx (up_ret K ctx s) = argidx s" "hasret (up_ret K ctx s) = hasret s"
  by (simp_all add: up_ret_def Let_def split: option.splits prod.splits)

lemma tracked_up_all [simp]: "tracked (up_all K c s) ctx = tracked s ctx"
  by (simp add: tracked_def split: option.split)

lemma tracked_up_ret [simp]: "tracked (up_ret K c s) ctx = tracked s ctx"
  by (simp add: tracked_def split: option.split)

lemma up_all_depth:
  "depth (up_all K ctx s) =
     (if rb_mem K \<noteq> None \<and> tracked s ctx
      then snd (depth_enter (map_accepts K) (depth s) (cur_tid K)) else depth s)"
  by (simp add: up_all_def track_entry_def tracked_def init_entry_def Let_def
      split: option.splits prod.splits)

lemma up_ret_depth:
  "depth (up_ret K ctx s) =
     (if rb_mem K \<noteq> None then snd (depth_leave (map_accepts K) (depth s) (cur_tid K)) else depth s)"
  by (simp add: up_ret_def init_return_def Let_def split: option.splits prod.splits)

lemma up_all_event:
  assumes "rb_mem K = Some g"
  shows "\<exists>e. events (up_all K ctx s) = events s @ [e] \<and>
     ev_pid e = ucast (drop_bit 32 (pid_tgid K)) \<and> ev_tid e = cur_tid K \<and> ev_kind e = 0 \<and>
     ev_ip e = PT_REGS_IP ctx \<and> ev_rc e = 0 \<and> ev_ts e = ktime_ns K \<and>
     ev_caller e = PT_REGS_RET ctx \<and> ev_a e = [PT_REGS_PARM 1 ctx, PT_REGS_PARM 2 ctx, PT_REGS_PARM 3 ctx,
              PT_REGS_PARM 4 ctx, PT_REGS_PARM 5 ctx] \<and>
     ev_depth e = (if tracked s ctx
                   then fst (depth_enter (map_accepts K) (depth s) (cur_tid K)) else -1)"
  using assms
  by (auto simp: up_all_def track_entry_def tracked_def init_entry_def Let_def
      split: option.splits prod.splits)

lemma up_ret_event:
  assumes "rb_mem K = Some g"
  shows "\<exists>e. events (up_ret K ctx s) = events s @ [e] \<and>
     ev_pid e = ucast (drop_bit 32 (pid_tgid K)) \<and> ev_tid e = cur_tid K \<and> ev_kind e = 1 \<and>
     ev_rc e = PT_REGS_PARM 1 ctx \<and> ev_ts e = ktime_ns K \<and>
     ev_depth e = fst (depth_leave (map_accepts K) (depth s) (cur_tid K))"
  using assms
  by (auto simp: up_ret_def init_return_def Let_def split: option.splits prod.splits)

section \<open>Closed instances\<close>

text \<open>
  Concrete parameters at which the properties are exercised: ring-buffer memory with a recognisable
  stale pattern, a kernel that accepts every update, registers with a chosen program counter and
  first arguments, and maps for a library loaded at \<^verbatim>\<open>0x1000\<close> with a tracked function at offset
  16.
\<close>

definition stale :: "u64 \<Rightarrow> evt_t" where
  "stale x = \<lparr>ev_pid = 0, ev_tid = 0, ev_kind = 0, ev_pad = 0, ev_ip = x, ev_rc = x, ev_ts = x,
     ev_depth = 0, ev_pad2 = 0, ev_caller = x, ev_a = replicate NARGS x, ev_ncap = 0,
     ev_argkind = 0, ev_res1 = ucast x, ev_res2 = ucast x, ev_cap = replicate NCAP x,
     ev_cap2 = replicate NCAP x, ev_vgr = x, ev_vgoff = x, ev_vstk = x, ev_stackid = 0,
     ev_pad3 = 0\<rparr>"

definition demo_env :: "evt_t option \<Rightarrow> u64 \<Rightarrow> evt_t kenv" where
  "demo_env g pt = \<lparr>rb_mem = g, pid_tgid = pt, ktime_ns = 7, umem = (\<lambda>_. Some 1),
     get_stackid = (\<lambda>_. 0), map_accepts = (\<lambda>_ _. True)\<rparr>"

definition demo_regs :: "u64 \<Rightarrow> u64 list \<Rightarrow> pt_regs" where
  "demo_regs ip xs = \<lparr>regs = xs @ replicate (31 - length xs) 0, sp = 0, pc = ip, pstate = 0\<rparr>"

definition demo_maps :: rmaps where
  "demo_maps = \<lparr>events = [], cfg = [0x1000, 0], argkind = [16 \<mapsto> 1], argidx = [16 \<mapsto> 3],
     hasret = [16 \<mapsto> 1], depth = Map.empty\<rparr>"

lemmas demo_defs = stale_def demo_env_def demo_regs_def demo_maps_def

end
