(* ===== verification/Wire.thy ===== *)
theory Wire
  imports Recon
begin

text \<open>
  The event on the wire. The C side writes \<^verbatim>\<open>struct evt_t\<close> with the compiler's layout (natural
  alignment, padding before a member and at the end); the Go side reads \<^verbatim>\<open>reconEvt\<close> of
  \<^verbatim>\<open>loader/trace.go\<close> with \<^verbatim>\<open>binary.Read\<close>, which takes the members in order with no
  padding. The comment in \<^verbatim>\<open>trace.go\<close> asks that the two match exactly; here the two layouts are
  written down and compared, and a submitted event is shown to arrive unchanged.
\<close>

section \<open>Members and their layout\<close>

datatype ctype = U32 | U64 | Arr64 nat

datatype cval = W32 u32 | W64 u64 | WArr "u64 list"

fun csize :: "ctype \<Rightarrow> nat" where
  "csize U32 = 4"
| "csize U64 = 8"
| "csize (Arr64 n) = 8 * n"

fun calign :: "ctype \<Rightarrow> nat" where
  "calign U32 = 4"
| "calign U64 = 8"
| "calign (Arr64 n) = 8"

fun has_type :: "cval \<Rightarrow> ctype \<Rightarrow> bool" where
  "has_type (W32 _) U32 = True"
| "has_type (W64 _) U64 = True"
| "has_type (WArr xs) (Arr64 n) = (length xs = n)"
| "has_type _ _ = False"

definition align_up :: "nat \<Rightarrow> nat \<Rightarrow> nat" where
  "align_up ofs a = (ofs + a - 1) div a * a"

fun c_offsets :: "nat \<Rightarrow> ctype list \<Rightarrow> nat list" where
  "c_offsets ofs [] = [ofs]"
| "c_offsets ofs (t # ts) = (let p = align_up ofs (calign t) in p # c_offsets (p + csize t) ts)"

fun go_offsets :: "nat \<Rightarrow> ctype list \<Rightarrow> nat list" where
  "go_offsets ofs [] = [ofs]"
| "go_offsets ofs (t # ts) = ofs # go_offsets (ofs + csize t) ts"

definition c_sizeof :: "ctype list \<Rightarrow> nat" where
  "c_sizeof ts = align_up (last (c_offsets 0 ts)) (fold max (map calign ts) 1)"

fun val_bytes :: "cval \<Rightarrow> u8 list" where
  "val_bytes (W32 w) = put32 w"
| "val_bytes (W64 w) = put64 w"
| "val_bytes (WArr xs) = concat (map put64 xs)"

text \<open>The memory image of a structure; \<open>pad\<close> gives the unspecified padding bytes.\<close>

fun c_bytes :: "(nat \<Rightarrow> u8) \<Rightarrow> nat \<Rightarrow> (ctype \<times> cval) list \<Rightarrow> u8 list" where
  "c_bytes pad ofs [] = []"
| "c_bytes pad ofs ((t, v) # r) =
     (let p = align_up ofs (calign t)
      in map pad [ofs..<p] @ val_bytes v @ c_bytes pad (p + csize t) r)"

text \<open>\<^verbatim>\<open>binary.Read\<close> with \<^verbatim>\<open>binary.LittleEndian\<close>; a short buffer is an error.\<close>

fun words_of :: "nat \<Rightarrow> u8 list \<Rightarrow> u64 list" where
  "words_of 0 bs = []"
| "words_of (Suc n) bs = get64 (take 8 bs) # words_of n (drop 8 bs)"

fun get_val :: "ctype \<Rightarrow> u8 list \<Rightarrow> cval" where
  "get_val U32 bs = W32 (get32 bs)"
| "get_val U64 bs = W64 (get64 bs)"
| "get_val (Arr64 n) bs = WArr (words_of n bs)"

fun go_read :: "ctype list \<Rightarrow> u8 list \<Rightarrow> cval list option" where
  "go_read [] bs = Some []"
| "go_read (t # ts) bs =
     (if length bs < csize t then None
      else map_option ((#) (get_val t (take (csize t) bs))) (go_read ts (drop (csize t) bs)))"

section \<open>The two layouts compared\<close>

lemma words_of_concat: "words_of (length xs) (concat (map put64 xs) @ r) = xs"
  by (induction xs) simp_all

lemma words_of_concat' [simp]: "words_of (length xs) (concat (map put64 xs)) = xs"
  using words_of_concat [of xs "[]"] by simp

lemma length_concat_put64 [simp]: "length (concat (map put64 xs)) = 8 * length xs"
  by (induction xs) simp_all

lemma length_val_bytes: "has_type v t \<Longrightarrow> length (val_bytes v) = csize t"
  by (cases v; cases t) simp_all

lemma get_val_bytes: "has_type v t \<Longrightarrow> get_val t (val_bytes v) = v"
  by (cases v; cases t) auto

text \<open>When no member needs padding, what C wrote is what Go reads.\<close>

lemma go_read_c_bytes:
  assumes "c_offsets ofs ts = go_offsets ofs ts" and "list_all2 has_type vs ts"
  shows "go_read ts (c_bytes pad ofs (zip ts vs) @ r) = Some vs"
  using assms
proof (induction ts arbitrary: ofs vs)
  case Nil
  then show ?case by simp
next
  case (Cons t ts)
  from Cons.prems(2) obtain v us where vs: "vs = v # us" and v: "has_type v t"
    and us: "list_all2 has_type us ts"
    by (auto simp: list_all2_Cons2)
  from Cons.prems(1) have p: "align_up ofs (calign t) = ofs" by (simp add: Let_def)
  with Cons.prems(1) have "c_offsets (ofs + csize t) ts = go_offsets (ofs + csize t) ts"
    by (simp add: Let_def)
  from Cons.IH [OF this us] vs v p length_val_bytes [OF v] show ?case
    by (simp add: Let_def get_val_bytes)
qed

lemma length_c_bytes:
  assumes "c_offsets ofs ts = go_offsets ofs ts" and "list_all2 has_type vs ts"
  shows "ofs + length (c_bytes pad ofs (zip ts vs)) = last (go_offsets ofs ts)"
  using assms
proof (induction ts arbitrary: ofs vs)
  case Nil
  then show ?case by simp
next
  case (Cons t ts)
  from Cons.prems(2) obtain v us where vs: "vs = v # us" and v: "has_type v t"
    and us: "list_all2 has_type us ts"
    by (auto simp: list_all2_Cons2)
  from Cons.prems(1) have p: "align_up ofs (calign t) = ofs" by (simp add: Let_def)
  with Cons.prems(1) have "c_offsets (ofs + csize t) ts = go_offsets (ofs + csize t) ts"
    by (simp add: Let_def)
  moreover have "go_offsets ofs' ts \<noteq> []" for ofs' by (cases ts) simp_all
  ultimately show ?case using Cons.IH [OF _ us, of "ofs + csize t"] vs p length_val_bytes [OF v]
    by (simp add: Let_def add.assoc)
qed

section \<open>The event\<close>

definition evt_members :: "ctype list" where
  "evt_members = [U32, U32, U32, U32, U64, U64, U64, U32, U32, U64, Arr64 NARGS, U32, U32, U32, U32,
     Arr64 NCAP, Arr64 NCAP, U64, U64, U64, U32, U32]"

definition evt_values :: "evt_t \<Rightarrow> cval list" where
  "evt_values e = [W32 (ev_pid e), W32 (ev_tid e), W32 (ev_kind e), W32 (ev_pad e), W64 (ev_ip e),
     W64 (ev_rc e), W64 (ev_ts e), W32 (ev_depth e), W32 (ev_pad2 e), W64 (ev_caller e),
     WArr (ev_a e), W32 (ev_ncap e), W32 (ev_argkind e), W32 (ev_res1 e), W32 (ev_res2 e),
     WArr (ev_cap e), WArr (ev_cap2 e), W64 (ev_vgr e), W64 (ev_vgoff e), W64 (ev_vstk e),
     W32 (ev_stackid e), W32 (ev_pad3 e)]"

definition evt_bytes :: "(nat \<Rightarrow> u8) \<Rightarrow> evt_t \<Rightarrow> u8 list" where
  "evt_bytes pad e = c_bytes pad 0 (zip evt_members (evt_values e))
     @ map pad [last (c_offsets 0 evt_members)..<c_sizeof evt_members]"

text \<open>\<^verbatim>\<open>type reconEvt struct\<close>; the Go constants \<^verbatim>\<open>reconNArgs\<close> and \<^verbatim>\<open>NCAP\<close> of
  \<^verbatim>\<open>main.go\<close> size its arrays.\<close>

definition reconNArgs :: nat where "reconNArgs = 5"

definition goNCAP :: nat where "goNCAP = 16"

record reconEvt =
  Pid :: u32
  Tid :: u32
  Kind :: u32
  Pad :: u32
  Ip :: u64
  Rc :: u64
  Ts :: u64
  Depth :: s32
  Pad2 :: u32
  Caller :: u64
  A :: "u64 list"
  Ncap :: u32
  Argkind :: u32
  Res1 :: u32
  Res2 :: u32
  Cap :: "u64 list"
  Cap2 :: "u64 list"
  Vgr :: u64
  Vgoff :: s64
  Vstk :: u64
  Stackid :: s32
  Pad3 :: u32

definition recon_members :: "ctype list" where
  "recon_members = [U32, U32, U32, U32, U64, U64, U64, U32, U32, U64, Arr64 reconNArgs, U32, U32, U32,
     U32, Arr64 goNCAP, Arr64 goNCAP, U64, U64, U64, U32, U32]"

fun as32 :: "cval \<Rightarrow> u32" where
  "as32 (W32 w) = w"
| "as32 _ = 0"

fun as64 :: "cval \<Rightarrow> u64" where
  "as64 (W64 w) = w"
| "as64 _ = 0"

fun as_arr :: "cval \<Rightarrow> u64 list" where
  "as_arr (WArr xs) = xs"
| "as_arr _ = []"

definition recon_of :: "cval list \<Rightarrow> reconEvt" where
  "recon_of v = \<lparr>Pid = as32 (v ! 0), Tid = as32 (v ! 1), Kind = as32 (v ! 2), Pad = as32 (v ! 3),
     Ip = as64 (v ! 4), Rc = as64 (v ! 5), Ts = as64 (v ! 6), Depth = as32 (v ! 7),
     Pad2 = as32 (v ! 8), Caller = as64 (v ! 9), A = as_arr (v ! 10), Ncap = as32 (v ! 11),
     Argkind = as32 (v ! 12), Res1 = as32 (v ! 13), Res2 = as32 (v ! 14), Cap = as_arr (v ! 15),
     Cap2 = as_arr (v ! 16), Vgr = as64 (v ! 17), Vgoff = as64 (v ! 18), Vstk = as64 (v ! 19),
     Stackid = as32 (v ! 20), Pad3 = as32 (v ! 21)\<rparr>"

definition binary_Read :: "u8 list \<Rightarrow> reconEvt option" where
  "binary_Read bs = map_option recon_of (go_read recon_members bs)"

text \<open>The Go value that mirrors a C event member by member.\<close>

definition mirror :: "evt_t \<Rightarrow> reconEvt" where
  "mirror e = \<lparr>Pid = ev_pid e, Tid = ev_tid e, Kind = ev_kind e, Pad = ev_pad e, Ip = ev_ip e,
     Rc = ev_rc e, Ts = ev_ts e, Depth = ev_depth e, Pad2 = ev_pad2 e, Caller = ev_caller e,
     A = ev_a e, Ncap = ev_ncap e, Argkind = ev_argkind e, Res1 = ev_res1 e, Res2 = ev_res2 e,
     Cap = ev_cap e, Cap2 = ev_cap2 e, Vgr = ev_vgr e, Vgoff = ev_vgoff e, Vstk = ev_vstk e,
     Stackid = ev_stackid e, Pad3 = ev_pad3 e\<rparr>"

lemma evt_layout_packed: "c_offsets 0 evt_members = go_offsets 0 recon_members"
  by code_simp

lemma members_agree: "evt_members = recon_members"
  by (simp add: evt_members_def recon_members_def NARGS_def NCAP_def reconNArgs_def goNCAP_def)

text \<open>
  The C and the Go declaration of the event describe the same bytes: every member of
  \<^verbatim>\<open>struct evt_t\<close> lies at the offset at which \<^verbatim>\<open>binary.Read\<close> takes the member of
  \<^verbatim>\<open>reconEvt\<close>, there is no padding, and both sides count 400 bytes.
\<close>

theorem evt_layouts_match:
  "c_offsets 0 evt_members = go_offsets 0 recon_members \<and>
   c_sizeof evt_members = last (go_offsets 0 recon_members) \<and> c_sizeof evt_members = 400"
  by code_simp

lemma binary_Read_evt_bytes:
  assumes "length (ev_a e) = NARGS" and "length (ev_cap e) = NCAP" and "length (ev_cap2 e) = NCAP"
  shows "binary_Read (evt_bytes pad e) = Some (mirror e)"
proof -
  have "list_all2 has_type (evt_values e) recon_members"
    using assms by (simp add: evt_values_def recon_members_def NARGS_def NCAP_def reconNArgs_def goNCAP_def)
  moreover have "c_offsets 0 recon_members = go_offsets 0 recon_members"
    using evt_layout_packed by (simp add: members_agree)
  ultimately have "go_read recon_members (evt_bytes pad e) = Some (evt_values e)"
    unfolding evt_bytes_def members_agree by (intro go_read_c_bytes)
  then show ?thesis by (simp add: binary_Read_def evt_values_def recon_of_def mirror_def)
qed

text \<open>
  C14. The event crosses the ring buffer unchanged: decoding the bytes of a submitted event, whatever
  its padding, gives the Go value with the same members.
\<close>

theorem event_round_trip:
  assumes "length (ev_a e) = NARGS" and "length (ev_cap e) = NCAP" and "length (ev_cap2 e) = NCAP"
  shows "binary_Read (evt_bytes pad e) = Some (mirror e)"
  using assms by (rule binary_Read_evt_bytes)

theorem event_round_trip_witness:
  "binary_Read (evt_bytes (\<lambda>_. 0) (stale 3)) = Some (mirror (stale 3))"
  by (rule event_round_trip) (simp_all add: stale_def)

end
