(* ===== verification/Decode.thy ===== *)
theory Decode
  imports Schema Wire
begin

text \<open>
  \<^verbatim>\<open>loader/decode.go\<close> and the memory reader of \<^verbatim>\<open>loader/target.go\<close>: the caches that turn
  opaque JNI identifiers and references into names, the printers of arguments and results, the parser
  of method signatures, and the three decoders of argument snapshots. The printers of floating-point
  numbers (\<^verbatim>\<open>strconv.FormatFloat\<close>, \<^verbatim>\<open>%.3f\<close>) and \<^verbatim>\<open>json.Marshal\<close> are
  parameters, collected in \<open>gofmt\<close>.
\<close>

record gofmt =
  fmtF32 :: "u32 \<Rightarrow> string"
  fmtF64 :: "u64 \<Rightarrow> string"
  fmtMs :: "u64 \<Rightarrow> string"
  jsonLine :: "string \<Rightarrow> string"

section \<open>Reading the target's memory\<close>

text \<open>
  \<^verbatim>\<open>*memReader\<close>: \<^const>\<open>None\<close> is the nil pointer. \<^verbatim>\<open>ReadAt\<close> refuses a negative
  offset and reports a short read as an error.
\<close>

type_synonym memReader = "mem option"

definition readAt :: "mem \<Rightarrow> u64 \<Rightarrow> nat \<Rightarrow> u8 list" where
  "readAt m a n = (if sint a < 0 then [] else read_prefix m a n)"

definition mr_u64 :: "mem \<Rightarrow> u64 \<Rightarrow> u64 \<times> bool" where
  "mr_u64 m a = (let b = readAt m a 8 in if length b < 8 then (0, False) else (get64 b, True))"

definition mr_u32 :: "mem \<Rightarrow> u64 \<Rightarrow> u32 \<times> bool" where
  "mr_u32 m a = (let b = readAt m a 4 in if length b < 4 then (0, False) else (get32 b, True))"

definition byte_char :: "u8 \<Rightarrow> char" where
  "byte_char b = char_of (unat b)"

definition mr_cstr :: "memReader \<Rightarrow> u64 \<Rightarrow> string" where
  "mr_cstr mr addr =
     (case mr of None \<Rightarrow> ''''
      | Some m \<Rightarrow>
          if addr = 0 then ''''
          else (let b = readAt m addr 256; n = length b; buf = b @ replicate (256 - n) 0 in
            if n \<le> 0 then ''''
            else map byte_char
              (if 0 \<in> set (take n buf) then takeWhile (\<lambda>x. x \<noteq> 0) buf else buf)))"

section \<open>Caches\<close>

record caches =
  idName :: "u64 \<rightharpoonup> string"
  idClass :: "u64 \<rightharpoonup> u64"
  classNames :: "u64 \<rightharpoonup> string"
  nameByClass :: "u64 \<rightharpoonup> string"
  objClass :: "u64 \<rightharpoonup> u64"
  jstr :: "u64 \<rightharpoonup> string"

definition newCaches :: caches where
  "newCaches = \<lparr>idName = Map.empty, idClass = Map.empty, classNames = Map.empty,
     nameByClass = Map.empty, objClass = Map.empty, jstr = Map.empty\<rparr>"

definition resolveObj :: "memReader \<Rightarrow> u64 \<Rightarrow> u64" where
  "resolveObj mr v =
     (case mr of None \<Rightarrow> 0
      | Some m \<Rightarrow>
          if v = 0 \<or> v < 0x100000 then 0
          else (let (obj, ok) = mr_u32 m (v AND NOT 7) in
            if \<not> ok \<or> obj = 0 then 0 else ucast obj))"

definition hex_ref :: "u64 \<Rightarrow> string" where
  "hex_ref v = ''0x'' @ fmt_hex v"

definition classNameOfRef :: "caches \<Rightarrow> memReader \<Rightarrow> u64 \<Rightarrow> string" where
  "classNameOfRef c mr v =
     (if v = 0 then ''null''
      else (let obj = resolveObj mr v in
        if obj = 0 then (case classNames c v of Some n \<Rightarrow> n | None \<Rightarrow> hex_ref v)
        else (case nameByClass c obj of Some n \<Rightarrow> n
          | None \<Rightarrow>
              (let (cp, ok) = (case mr of None \<Rightarrow> (0, False) | Some m \<Rightarrow> mr_u32 m obj) in
                case (if ok then nameByClass c (ucast cp) else None) of
                  Some n \<Rightarrow> n | None \<Rightarrow> hex_ref obj))))"

definition quoted :: "string \<Rightarrow> string" where
  "quoted s = [CHR 0x22] @ s @ [CHR 0x22]"

definition objClassName :: "caches \<Rightarrow> memReader \<Rightarrow> u64 \<Rightarrow> string" where
  "objClassName c mr v =
     (if v = 0 then ''null''
      else (case jstr c v of Some s \<Rightarrow> quoted s
        | None \<Rightarrow>
            (let n = classNameOfRef c mr v in
              if hasPrefix n ''0x'' then n else n @ ''@0x'' @ fmt_hex v)))"

section \<open>Printing arguments and results by schema type\<close>

definition isNumeric :: "string \<Rightarrow> bool" where
  "isNumeric t = (t \<in> set [''jint'', ''jsize'', ''jlong'', ''jshort'', ''jbyte'', ''jchar'',
     ''jboolean'', ''jfloat'', ''jdouble''])"

definition fmtNumeric :: "gofmt \<Rightarrow> string \<Rightarrow> u64 \<Rightarrow> string" where
  "fmtNumeric F t v =
     (if t = ''jboolean'' then fmt_bool (v AND 0xff \<noteq> 0)
      else if t = ''jbyte'' then fmt_dec (sint (ucast v :: u8))
      else if t = ''jchar'' then CHR 0x27 # utf8 (unat (v AND 0xffff)) @ [CHR 0x27]
      else if t = ''jshort'' then fmt_dec (sint (ucast v :: u16))
      else if t = ''jint'' \<or> t = ''jsize'' then fmt_dec (sint (ucast v :: u32))
      else if t = ''jlong'' then fmt_dec (sint v)
      else if t = ''jfloat'' then fmtF32 F (ucast v)
      else if t = ''jdouble'' then fmtF64 F v
      else hex_ref v)"

definition is_ref_type :: "string \<Rightarrow> bool" where
  "is_ref_type typ = (hasPrefix typ ''jobject'' \<or> hasPrefix typ ''jarray'' \<or> hasPrefix typ ''jthrowable'')"

definition fmtArg :: "gofmt \<Rightarrow> caches \<Rightarrow> memReader \<Rightarrow> string \<Rightarrow> u64 \<Rightarrow> string" where
  "fmtArg F c mr typ v =
     (if typ = ''JNIEnv*'' \<or> typ = '''' then ''''
      else if isNumeric typ then fmtNumeric F typ v
      else if typ = ''jclass'' then classNameOfRef c mr v
      else if typ = ''jmethodID'' \<or> typ = ''jfieldID'' then
        (case idName c v of Some n \<Rightarrow> n | None \<Rightarrow> hex_ref v)
      else if typ = ''jstring'' then
        (case jstr c v of Some s \<Rightarrow> quoted s | None \<Rightarrow> classNameOfRef c mr v)
      else if is_ref_type typ then objClassName c mr v
      else if typ = ''const char*'' \<or> typ = ''char*'' then
        (if v = 0 then ''NULL'' else quoted (mr_cstr mr v))
      else hex_ref v)"

definition fmtRet :: "gofmt \<Rightarrow> caches \<Rightarrow> memReader \<Rightarrow> string \<Rightarrow> u64 \<Rightarrow> string" where
  "fmtRet F c mr typ v =
     (if typ = ''void'' \<or> typ = '''' then ''void''
      else if isNumeric typ then fmtNumeric F typ v
      else if typ = ''jclass'' then classNameOfRef c mr v
      else if typ = ''jstring'' then
        (case jstr c v of Some s \<Rightarrow> quoted s | None \<Rightarrow> classNameOfRef c mr v)
      else if typ = ''jmethodID'' \<or> typ = ''jfieldID'' then
        (case idName c v of Some n \<Rightarrow> n | None \<Rightarrow> hex_ref v)
      else if is_ref_type typ then objClassName c mr v
      else if typ = ''const char*'' \<or> typ = ''char*'' then
        (if v = 0 then ''NULL'' else quoted (mr_cstr mr v))
      else hex_ref v)"

section \<open>Method signatures\<close>

text \<open>The inner loops of \<^verbatim>\<open>parseParams\<close>: to the next semicolon, past a run of brackets.\<close>

function skip_to_semi :: "string \<Rightarrow> nat \<Rightarrow> nat" where
  "skip_to_semi sig i = (if i < length sig \<and> sig ! i \<noteq> CHR '';'' then skip_to_semi sig (Suc i) else i)"
  by pat_completeness auto
termination
  by (relation "measure (\<lambda>(sig, i). length sig - i)") auto

function skip_brackets :: "string \<Rightarrow> nat \<Rightarrow> nat" where
  "skip_brackets sig i = (if i < length sig \<and> sig ! i = CHR ''['' then skip_brackets sig (Suc i) else i)"
  by pat_completeness auto
termination
  by (relation "measure (\<lambda>(sig, i). length sig - i)") auto

declare skip_to_semi.simps [simp del] skip_brackets.simps [simp del]

definition param_end :: "string \<Rightarrow> nat \<Rightarrow> nat" where
  "param_end sig i =
     (if sig ! i = CHR ''L'' then Suc (skip_to_semi sig i)
      else if sig ! i = CHR ''['' then
        (let j = skip_brackets sig (Suc i) in
          if j < length sig \<and> sig ! j = CHR ''L'' then Suc (skip_to_semi sig j) else Suc j)
      else Suc i)"

lemma skip_to_semi_ge: "i \<le> skip_to_semi sig i"
proof (induction sig i rule: skip_to_semi.induct)
  case (1 sig i)
  then show ?case by (subst skip_to_semi.simps) (auto intro: Suc_leD)
qed

lemma skip_brackets_ge: "i \<le> skip_brackets sig i"
proof (induction sig i rule: skip_brackets.induct)
  case (1 sig i)
  then show ?case by (subst skip_brackets.simps) (auto intro: Suc_leD)
qed

lemma param_end_gt: "i < param_end sig i"
  using skip_to_semi_ge [of i sig] skip_brackets_ge [of "Suc i" sig]
    skip_to_semi_ge [of "skip_brackets sig (Suc i)" sig]
  by (auto simp: param_end_def Let_def)

function params_from :: "string \<Rightarrow> nat \<Rightarrow> string list" where
  "params_from sig i =
     (if i < length sig \<and> sig ! i \<noteq> CHR '')'' then
        (let j = param_end sig i in
          (if i < j \<and> j \<le> length sig then [take (j - i) (drop i sig)] else []) @ params_from sig j)
      else [])"
  by pat_completeness auto
termination
  by (relation "measure (\<lambda>(sig, i). length sig - i)") (auto simp: param_end_gt diff_less_mono2)

declare params_from.simps [simp del]

definition parseParams :: "string \<Rightarrow> string list" where
  "parseParams sig = (if sig = [] \<or> sig ! 0 \<noteq> CHR ''('' then [] else params_from sig 1)"

definition splitNameSig :: "string \<Rightarrow> string \<times> string" where
  "splitNameSig s = (case indexByte s (CHR ''('') of Some i \<Rightarrow> (take i s, drop i s) | None \<Rightarrow> (s, ''''))"

definition validName :: "string \<Rightarrow> bool" where
  "validName s = (if s = [] \<or> length s > 200 then False
     else \<not> list_ex (\<lambda>c. of_char c < (0x20 :: nat) \<or> of_char c > (0x7e :: nat)) s)"

definition validSig :: "string \<Rightarrow> bool" where
  "validSig s = (if s = [] \<or> length s > 300 then False else hd s \<in> set ''(L[ZBCSIJFD'')"

section \<open>Decoders of argument snapshots\<close>

definition fmtJV :: "gofmt \<Rightarrow> string \<Rightarrow> u64 \<Rightarrow> caches \<Rightarrow> memReader \<Rightarrow> string" where
  "fmtJV F t v c mr =
     (if t = ''Z'' then fmt_bool (v AND 0xff \<noteq> 0)
      else if t = ''B'' then fmt_dec (sint (ucast v :: u8))
      else if t = ''C'' then CHR 0x27 # utf8 (unat (v AND 0xffff)) @ [CHR 0x27]
      else if t = ''S'' then fmt_dec (sint (ucast v :: u16))
      else if t = ''I'' then fmt_dec (sint (ucast v :: u32))
      else if t = ''J'' then fmt_dec (sint v)
      else if t = ''F'' then fmtF32 F (ucast v)
      else if t = ''D'' then fmtF64 F v
      else objClassName c mr v)"

fun decodeA_from :: "gofmt \<Rightarrow> reconEvt \<Rightarrow> nat \<Rightarrow> string list \<Rightarrow> caches \<Rightarrow> memReader \<Rightarrow> string list" where
  "decodeA_from F e i [] c mr = []"
| "decodeA_from F e i (t # ts) c mr =
     (if goNCAP \<le> i then ''?'' else fmtJV F t (Cap e ! i) c mr) # decodeA_from F e (Suc i) ts c mr"

definition decodeA :: "gofmt \<Rightarrow> reconEvt \<Rightarrow> string list \<Rightarrow> caches \<Rightarrow> memReader \<Rightarrow> string list" where
  "decodeA F e params c mr = decodeA_from F e 0 params c mr"

text \<open>Go's signed division truncates towards zero.\<close>

definition go_div8 :: "int \<Rightarrow> int" where
  "go_div8 x = (if x < 0 then - ((- x) div 8) else x div 8)"

definition cap_at :: "u64 list \<Rightarrow> int \<Rightarrow> u64" where
  "cap_at xs idx = (if 0 \<le> idx \<and> idx < int goNCAP then xs ! nat idx else 0)"

fun decodeV_from ::
    "gofmt \<Rightarrow> reconEvt \<Rightarrow> s64 \<Rightarrow> u64 \<Rightarrow> string list \<Rightarrow> caches \<Rightarrow> memReader \<Rightarrow> string list" where
  "decodeV_from F e grOffs stk [] c mr = []"
| "decodeV_from F e grOffs stk (t # ts) c mr =
     (if t = ''F'' \<or> t = ''D'' then ''?'' # decodeV_from F e grOffs stk ts c mr
      else if Vgr e \<noteq> 0 \<and> sint grOffs < 0 then
        fmtJV F t (cap_at (Cap e) (go_div8 (sint (Vgr e + grOffs - (Vgr e - 128))))) c mr
          # decodeV_from F e (grOffs + 8) stk ts c mr
      else
        fmtJV F t (cap_at (Cap2 e) (int (unat (stk - Vstk e) div 8))) c mr
          # decodeV_from F e grOffs (stk + 8) ts c mr)"

definition decodeV :: "gofmt \<Rightarrow> reconEvt \<Rightarrow> string list \<Rightarrow> caches \<Rightarrow> memReader \<Rightarrow> string list" where
  "decodeV F e params c mr = decodeV_from F e (Vgoff e) (Vstk e) params c mr"

fun decodeDirect_from ::
    "gofmt \<Rightarrow> reconEvt \<Rightarrow> nat \<Rightarrow> string list \<Rightarrow> caches \<Rightarrow> memReader \<Rightarrow> string list" where
  "decodeDirect_from F e i [] c mr = []"
| "decodeDirect_from F e i (t # ts) c mr =
     (if unat (Ncap e) \<le> i \<or> 2 \<le> i then ''?'' else fmtJV F t (Cap e ! i) c mr)
       # decodeDirect_from F e (Suc i) ts c mr"

definition decodeDirect :: "gofmt \<Rightarrow> reconEvt \<Rightarrow> string list \<Rightarrow> caches \<Rightarrow> memReader \<Rightarrow> string list" where
  "decodeDirect F e params c mr = decodeDirect_from F e 0 params c mr"

section \<open>Rendering a call\<close>

definition describeCall ::
    "gofmt \<Rightarrow> reconEvt \<Rightarrow> string \<Rightarrow> caches \<Rightarrow> memReader \<Rightarrow> string \<times> bool" where
  "describeCall F e nm c mr =
     (case isCallMethod nm of None \<Rightarrow> ('''', False)
      | Some midIdx \<Rightarrow>
          (let mid = A e ! midIdx in
            case idName c mid of None \<Rightarrow> (nm @ '' mid=0x'' @ fmt_hex mid @ '' (?)'', False)
            | Some full \<Rightarrow>
                (let (mname, msig) = splitNameSig full;
                     cls = classNameOfRef c mr (A e ! 1);
                     cls = (if hasPrefix cls ''0x'' then
                              (case idClass c mid of Some cl \<Rightarrow> classNameOfRef c mr cl | None \<Rightarrow> cls)
                            else cls);
                     cls = (if cls = '''' then ''?'' else cls);
                     params = parseParams msig;
                     args = (if hasSuffix nm ''A'' then decodeA F e params c mr
                             else if hasSuffix nm ''V'' then decodeV F e params c mr
                             else decodeDirect F e params c mr)
                 in (cls @ ''.'' @ mname @ ''('' @ str_join args '', '' @ '')'', True))))"

definition renderGeneric :: "gofmt \<Rightarrow> reconEvt \<Rightarrow> int \<Rightarrow> caches \<Rightarrow> memReader \<Rightarrow> string" where
  "renderGeneric F e slot c mr =
     (let types = slotArgs slot in
       if types = [] then
         ''a1=0x'' @ fmt_hex (A e ! 1) @ '' a2=0x'' @ fmt_hex (A e ! 2) @ '' a3=0x'' @ fmt_hex (A e ! 3)
       else str_join
         (filter (\<lambda>s. s \<noteq> [])
           (map (\<lambda>i. fmtArg F c mr (types ! i) (A e ! i)) [1..<min (length types) reconNArgs])) '', '')"

definition indentStr :: "s32 \<Rightarrow> string" where
  "indentStr d =
     (if sint d \<le> 0 then '''' else str_repeat ''  '' (nat (if sint d > 24 then 24 else sint d)))"

end
