(* ===== verification/Target.thy ===== *)
theory Target
  imports Decode
begin

text \<open>
  The traced process as the loader reads it: the parsers of \<^verbatim>\<open>/proc/<pid>/maps\<close>
  (\<^verbatim>\<open>libartBase\<close> and \<^verbatim>\<open>libartDataRanges\<close> of \<^verbatim>\<open>loader/target.go\<close>, \<^verbatim>\<open>loadModules\<close>
  of \<^verbatim>\<open>loader/trace.go\<close>) and the module cache \<^verbatim>\<open>modCache\<close>. The text of the maps file is an
  argument, \<^const>\<open>None\<close> when \<^verbatim>\<open>os.ReadFile\<close> fails.
\<close>

section \<open>Parsing the lines of a maps file\<close>

text \<open>
  \<^verbatim>\<open>strconv.ParseUint(s, 16, 64)\<close> with its error dropped: 0 for text that is not a number, the
  largest value on overflow.
\<close>

definition hex_digit :: "char \<Rightarrow> nat option" where
  "hex_digit c =
     (let n = of_char c :: nat in
      if 48 \<le> n \<and> n \<le> 57 then Some (n - 48)
      else if 97 \<le> n \<and> n \<le> 102 then Some (n - 87)
      else if 65 \<le> n \<and> n \<le> 70 then Some (n - 55)
      else None)"

fun hex_from :: "nat \<Rightarrow> string \<Rightarrow> nat" where
  "hex_from n [] = n"
| "hex_from n (c # cs) =
     (case hex_digit c of None \<Rightarrow> 0
      | Some d \<Rightarrow> if 2 ^ 60 \<le> n then 2 ^ 64 - 1 else hex_from (16 * n + d) cs)"

definition parseHex :: "string \<Rightarrow> u64" where
  "parseHex s = word_of_nat (hex_from 0 s)"

definition splitN2 :: "char \<Rightarrow> string \<Rightarrow> string list" where
  "splitN2 c s = (case indexByte s c of None \<Rightarrow> [s] | Some i \<Rightarrow> [take i s, drop (Suc i) s])"

text \<open>The fields every parser of a line takes: range, permissions, file offset and name.\<close>

record mapline =
  ml_lo :: u64
  ml_hi :: u64
  ml_perm :: string
  ml_fo :: u64
  ml_name :: string

definition maps_line :: "string \<Rightarrow> mapline option" where
  "maps_line ln =
     (let f = str_fields ln in
      if length f < 6 then None
      else (case splitN2 (CHR ''-'') (f ! 0) of
          [a, b] \<Rightarrow> Some \<lparr>ml_lo = parseHex a, ml_hi = parseHex b, ml_perm = f ! 1,
            ml_fo = parseHex (f ! 2), ml_name = f ! 5\<rparr>
        | _ \<Rightarrow> None))"

section \<open>The library\<close>

definition libart_line :: "string \<Rightarrow> u64 \<times> u64 \<times> u64 \<Rightarrow> u64 \<times> u64 \<times> u64" where
  "libart_line ln st =
     (if \<not> str_contains ln ''libart.so'' then st
      else (case maps_line ln of None \<Rightarrow> st
        | Some l \<Rightarrow>
            (let (base, execLo, execHi) = st;
                 base = (if base = 0 then ml_lo l - ml_fo l else base)
             in if str_contains (ml_perm l) ''r-xp'' then (base, ml_lo l, ml_hi l)
                else (base, execLo, execHi))))"

definition libartBase :: "string option \<Rightarrow> (u64 \<times> u64 \<times> u64) option" where
  "libartBase data =
     (case data of None \<Rightarrow> None
      | Some t \<Rightarrow>
          (let (base, execLo, execHi) = fold libart_line (split_on (CHR 0x0a) t) (0, 0, 0) in
            if base = 0 then None else Some (base, execLo, execHi)))"

definition data_range :: "string \<Rightarrow> (u64 \<times> u64) list" where
  "data_range ln =
     (if \<not> str_contains ln ''libart.so'' then []
      else (case maps_line ln of None \<Rightarrow> []
        | Some l \<Rightarrow>
            if str_contains (ml_perm l) ''x'' then []
            else if ml_lo l < ml_hi l then [(ml_lo l, ml_hi l)] else []))"

definition libartDataRanges :: "string option \<Rightarrow> (u64 \<times> u64) list option" where
  "libartDataRanges data = map_option (\<lambda>t. concat (map data_range (split_on (CHR 0x0a) t))) data"

section \<open>Modules\<close>

record moduleRange =
  m_lo :: u64
  m_hi :: u64
  m_name :: string

definition base_name :: "string \<Rightarrow> string" where
  "base_name name = (case lastIndexByte name (CHR ''/'') of None \<Rightarrow> name | Some i \<Rightarrow> drop (Suc i) name)"

definition module_line ::
    "string \<Rightarrow> moduleRange list \<times> (string \<rightharpoonup> u64) \<Rightarrow> moduleRange list \<times> (string \<rightharpoonup> u64)" where
  "module_line ln st =
     (case maps_line ln of None \<Rightarrow> st
      | Some l \<Rightarrow>
          (let (out, bias) = st;
               name = base_name (ml_name l);
               out = out @ [\<lparr>m_lo = ml_lo l, m_hi = ml_hi l, m_name = name\<rparr>];
               bias = (if ml_fo l = 0 \<and> bias name = None then bias(name \<mapsto> ml_lo l) else bias)
           in (out, bias)))"

definition loadModules :: "string option \<Rightarrow> moduleRange list \<times> (string \<rightharpoonup> u64)" where
  "loadModules data =
     (case data of None \<Rightarrow> ([], Map.empty)
      | Some t \<Rightarrow> fold module_line (split_on (CHR 0x0a) t) ([], Map.empty))"

fun moduleOf :: "moduleRange list \<Rightarrow> u64 \<Rightarrow> string" where
  "moduleOf [] addr = ''''"
| "moduleOf (m # ms) addr = (if m_lo m \<le> addr \<and> addr < m_hi m then m_name m else moduleOf ms addr)"

text \<open>
  The cache: the clock is in nanoseconds, \<open>data\<close> is what the maps file holds when it is read. Each
  method runs under the mutex of the cache; \<^verbatim>\<open>of\<close> releases it between its two parts, which is
  visible only to the goroutine that reloads.
\<close>

record modCache =
  mc_ranges :: "moduleRange list"
  mc_bias :: "string \<rightharpoonup> u64"
  mc_pid :: int
  mc_last :: int

definition mc_reload :: "string option \<Rightarrow> int \<Rightarrow> int \<Rightarrow> modCache \<Rightarrow> modCache" where
  "mc_reload data now pid m =
     (let (r, b) = loadModules data in m\<lparr>mc_ranges := r, mc_bias := b, mc_pid := pid, mc_last := now\<rparr>)"

definition mc_of :: "string option \<Rightarrow> int \<Rightarrow> modCache \<Rightarrow> u64 \<Rightarrow> string \<times> modCache" where
  "mc_of data now m addr =
     (let name = moduleOf (mc_ranges m) addr;
          is_stale = now - mc_last m > 300000000
      in if name = '''' \<and> is_stale then
           (let (r, b) = loadModules data;
                m = m\<lparr>mc_ranges := r, mc_bias := b, mc_last := now\<rparr>
            in (moduleOf (mc_ranges m) addr, m))
         else (name, m))"

definition mc_lookup :: "modCache \<Rightarrow> u64 \<Rightarrow> string \<times> u64" where
  "mc_lookup m addr =
     (let name = moduleOf (mc_ranges m) addr in
      if name = '''' then ('''', 0)
      else (name, case mc_bias m name of None \<Rightarrow> 0 | Some b \<Rightarrow> b))"

section \<open>Facts\<close>

lemma moduleOf_in_range:
  "moduleOf ms addr \<noteq> '''' \<Longrightarrow> \<exists>m \<in> set ms. m_lo m \<le> addr \<and> addr < m_hi m \<and> moduleOf ms addr = m_name m"
  by (induction ms) (auto split: if_splits)

end
