(* ===== verification/Offsets.thy ===== *)
theory Offsets
  imports Target
begin

text \<open>
  Where the slots of the JNI function table lie: \<^verbatim>\<open>loader/offsets.go\<close> (the scan of the data
  segments of the library, and the reader of an offsets file) and the part of \<^verbatim>\<open>loader/env.go\<close>
  that writes such a file. The scan is a loop over 64-bit addresses that need not end for every
  range, so it takes fuel; \<^verbatim>\<open>json.Unmarshal\<close> is a parameter.
\<close>

section \<open>The scan\<close>

definition table_words :: nat where
  "table_words = length jniSchema"

definition word_ok :: "mem \<Rightarrow> u64 \<Rightarrow> (u64 \<Rightarrow> bool) \<Rightarrow> bool" where
  "word_ok m a P = (let (v, ok) = mr_u64 m a in ok \<and> P v)"

text \<open>The two inner loops: four reserved zero words, then code pointers of the library.\<close>

definition table_at :: "mem \<Rightarrow> u64 \<Rightarrow> u64 \<Rightarrow> u64 \<Rightarrow> bool" where
  "table_at m execLo execHi p =
     (list_all (\<lambda>i. word_ok m (p + word_of_nat i * 8) (\<lambda>v. v = 0)) [0..<4] \<and>
      list_all (\<lambda>i. word_ok m (p + word_of_nat i * 8) (\<lambda>v. execLo \<le> v \<and> v < execHi)) [4..<table_words])"

definition put_table :: "mem \<Rightarrow> u64 \<Rightarrow> u64 \<Rightarrow> (u64 \<rightharpoonup> int) \<Rightarrow> (u64 \<rightharpoonup> int)" where
  "put_table m base p out =
     fold (\<lambda>i out. out(fst (mr_u64 m (p + word_of_nat i * 8)) - base \<mapsto> int i)) [4..<table_words] out"

definition table_bytes :: u64 where
  "table_bytes = word_of_nat table_words * 8"

fun scan_range ::
    "nat \<Rightarrow> mem \<Rightarrow> u64 \<Rightarrow> u64 \<Rightarrow> u64 \<Rightarrow> u64 \<Rightarrow> u64 \<Rightarrow> (u64 \<rightharpoonup> int) \<times> nat \<Rightarrow> ((u64 \<rightharpoonup> int) \<times> nat) option" where
  "scan_range 0 m base execLo execHi p r1 st = None"
| "scan_range (Suc n) m base execLo execHi p r1 st =
     (if p + table_bytes \<le> r1 then
        (if table_at m execLo execHi p then
           (let (out, tables) = st
            in scan_range n m base execLo execHi (p + (table_bytes - 8) + 8) r1 (put_table m base p out, tables + 1))
         else scan_range n m base execLo execHi (p + 8) r1 st)
      else Some st)"

fun scan_ranges ::
    "nat \<Rightarrow> mem \<Rightarrow> u64 \<Rightarrow> u64 \<Rightarrow> u64 \<Rightarrow> (u64 \<times> u64) list \<Rightarrow> (u64 \<rightharpoonup> int) \<times> nat \<Rightarrow> ((u64 \<rightharpoonup> int) \<times> nat) option" where
  "scan_ranges n m base execLo execHi [] st = Some st"
| "scan_ranges n m base execLo execHi ((r0, r1) # rs) st =
     (case scan_range n m base execLo execHi r0 r1 st of None \<Rightarrow> None
      | Some st \<Rightarrow> scan_ranges n m base execLo execHi rs st)"

text \<open>
  The outcome: the scan failed with an error, or gave the map. The outer \<^const>\<open>None\<close> is a lack of fuel.
\<close>

definition offsetsFromScan :: "nat \<Rightarrow> string option \<Rightarrow> memReader \<Rightarrow> (u64 \<rightharpoonup> int) option option" where
  "offsetsFromScan n data mr =
     (case libartBase data of None \<Rightarrow> Some None
      | Some (base, execLo, execHi) \<Rightarrow>
          (case mr of None \<Rightarrow> Some None
           | Some m \<Rightarrow>
               (case libartDataRanges data of None \<Rightarrow> Some None
                | Some ranges \<Rightarrow>
                    (case scan_ranges n m base execLo execHi ranges (Map.empty, 0) of None \<Rightarrow> None
                     | Some (out, tables) \<Rightarrow> Some (if out = Map.empty then None else Some out)))))"

section \<open>The offsets file\<close>

text \<open>\<^verbatim>\<open>strconv.Atoi\<close>: an optional sign and decimal digits, in the range of a 64-bit integer.\<close>

fun dec_from :: "nat \<Rightarrow> string \<Rightarrow> nat option" where
  "dec_from n [] = Some n"
| "dec_from n (c # cs) =
     (let d = of_char c :: nat in if 48 \<le> d \<and> d \<le> 57 then dec_from (10 * n + (d - 48)) cs else None)"

definition atoi :: "string \<Rightarrow> int option" where
  "atoi s =
     (let (neg, ds) = (case s of [] \<Rightarrow> (False, [])
        | c # cs \<Rightarrow> if c = CHR ''-'' then (True, cs) else if c = CHR ''+'' then (False, cs) else (False, s))
      in if ds = [] then None
         else (case dec_from 0 ds of None \<Rightarrow> None
           | Some n \<Rightarrow>
               if neg then (if n \<le> 2 ^ 63 then Some (- int n) else None)
               else (if n < 2 ^ 63 then Some (int n) else None)))"

text \<open>
  \<^verbatim>\<open>strconv.ParseUint(s, 0, 64)\<close>: the base from the prefix; underscores may separate digits, and
  may follow a base prefix.
\<close>

definition digit_val :: "char \<Rightarrow> nat option" where
  "digit_val c =
     (let n = of_char c :: nat in
      if 48 \<le> n \<and> n \<le> 57 then Some (n - 48)
      else if 97 \<le> n \<and> n \<le> 122 then Some (n - 87)
      else if 65 \<le> n \<and> n \<le> 90 then Some (n - 55)
      else None)"

fun uint_from :: "nat \<Rightarrow> nat \<Rightarrow> string \<Rightarrow> nat option" where
  "uint_from b n [] = Some n"
| "uint_from b n (c # cs) =
     (if c = CHR ''_'' then uint_from b n cs
      else (case digit_val c of None \<Rightarrow> None
        | Some d \<Rightarrow>
            if b \<le> d then None
            else if 2 ^ 64 \<le> b * n + d then None
            else uint_from b (b * n + d) cs))"

text \<open>
  The digits and the prefix of a literal, and the rule for underscores: none at the end, none
  twice in a row, none at the start unless a prefix precedes it.
\<close>

definition lower_is :: "char \<Rightarrow> char \<Rightarrow> char \<Rightarrow> bool" where
  "lower_is c lo up = (c = lo \<or> c = up)"

definition base_of :: "string \<Rightarrow> nat \<times> bool \<times> string" where
  "base_of s =
     (if s \<noteq> [] \<and> s ! 0 = CHR ''0'' then
        (if length s \<ge> 3 \<and> lower_is (s ! 1) (CHR ''b'') (CHR ''B'') then (2, True, drop 2 s)
         else if length s \<ge> 3 \<and> lower_is (s ! 1) (CHR ''o'') (CHR ''O'') then (8, True, drop 2 s)
         else if length s \<ge> 3 \<and> lower_is (s ! 1) (CHR ''x'') (CHR ''X'') then (16, True, drop 2 s)
         else (8, True, drop 1 s))
      else (10, False, s))"

fun underscores_ok :: "bool \<Rightarrow> string \<Rightarrow> bool" where
  "underscores_ok digit_before [] = True"
| "underscores_ok digit_before (c # cs) =
     (if c = CHR ''_'' then digit_before \<and> cs \<noteq> [] \<and> hd cs \<noteq> CHR ''_'' \<and> underscores_ok False cs
      else underscores_ok True cs)"

definition parseUint0 :: "string \<Rightarrow> u64 option" where
  "parseUint0 s =
     (if s = [] then None
      else (let (b, prefix, ds) = base_of s in
        if \<not> underscores_ok prefix ds then None else map_option word_of_nat (uint_from b 0 ds)))"

text \<open>
  The entries of the decoded object, in the order in which the loop visits them; entries that do not
  parse are skipped.
\<close>

definition file_entry :: "string \<times> string \<Rightarrow> (u64 \<rightharpoonup> int) \<Rightarrow> (u64 \<rightharpoonup> int)" where
  "file_entry kv out =
     (case atoi (fst kv) of None \<Rightarrow> out
      | Some slot \<Rightarrow>
          if slot < 0 \<or> slot \<ge> int (length jniSchema) then out
          else (case parseUint0 (trimSpace (snd kv)) of None \<Rightarrow> out | Some off \<Rightarrow> out(off \<mapsto> slot)))"

definition offsetsFromFile ::
    "(string \<Rightarrow> (string \<times> string) list option) \<Rightarrow> string option \<Rightarrow> (u64 \<rightharpoonup> int) option" where
  "offsetsFromFile unmarshal raw =
     (case raw of None \<Rightarrow> None
      | Some t \<Rightarrow> map_option (\<lambda>kvs. fold file_entry kvs Map.empty) (unmarshal t))"

section \<open>Writing the file\<close>

text \<open>
  \<^verbatim>\<open>runEnv\<close> after a dump was read: the slots inside the executable segment, unless they are
  fewer than half, printed as a JSON object.
\<close>

definition in_exec :: "u64 \<Rightarrow> u64 \<Rightarrow> u64 \<Rightarrow> bool" where
  "in_exec lo hi v = (v \<ge> lo \<and> v < hi)"

definition env_keys :: "u64 \<Rightarrow> u64 \<Rightarrow> u64 list \<Rightarrow> nat list" where
  "env_keys lo hi slots = filter (\<lambda>i. in_exec lo hi (slots ! i)) [0..<length slots]"

definition enough_slots :: "u64 \<Rightarrow> u64 \<Rightarrow> u64 list \<Rightarrow> bool" where
  "enough_slots lo hi slots = (\<not> 2 * length (filter (in_exec lo hi) slots) < length slots)"

definition env_pair :: "u64 \<Rightarrow> u64 list \<Rightarrow> nat \<Rightarrow> string \<times> string" where
  "env_pair base slots i = (fmt_dec (int i), ''0x'' @ fmt_hex (slots ! i - base))"

definition env_entry :: "string \<times> string \<Rightarrow> string" where
  "env_entry kv = ''  '' @ quoted (fst kv) @ '': '' @ quoted (snd kv)"

definition json_object :: "(string \<times> string) list \<Rightarrow> string" where
  "json_object kvs = ''{'' @ [CHR 0x0a] @ str_join (map env_entry kvs) ('','' @ [CHR 0x0a]) @ [CHR 0x0a] @ ''}'' @ [CHR 0x0a]"

definition env_file :: "u64 \<times> u64 \<times> u64 \<Rightarrow> u64 list \<Rightarrow> string option" where
  "env_file r slots =
     (let (base, lo, hi) = r in
      if \<not> enough_slots lo hi slots then None
      else Some (json_object (map (env_pair base slots) (env_keys lo hi slots))))"

end
