(* ===== verification/Envprobe.thy ===== *)
theory Envprobe
  imports Wire
begin

text \<open>
  The table capture object, \<^verbatim>\<open>bpf/envprobe.bpf.c\<close>: the sanity checks and the dump of
  \<^verbatim>\<open>emit\<close>, the two entry probes \<^verbatim>\<open>up_lnl\<close> and \<^verbatim>\<open>up_cnt\<close> with the set \<^verbatim>\<open>seen\<close> of
  processes already captured, and the layout \<^verbatim>\<open>loader/env.go\<close> reads it with.
\<close>

section \<open>Data\<close>

definition NSLOTS :: nat where "NSLOTS = 240"

record dump_t =
  d_pid :: u32
  d_site :: u32
  d_reg :: u32
  d_pad :: u32
  d_env :: u64
  d_table :: u64
  d_slots :: "u64 list"

definition env_events_map :: map_def where
  "env_events_map = \<lparr>mtype = BPF_MAP_TYPE_RINGBUF, max_entries = 2 ^ 22, key_size = 0, value_size = 0\<rparr>"

definition seen_map :: map_def where
  "seen_map = \<lparr>mtype = BPF_MAP_TYPE_HASH, max_entries = 8192, key_size = 4, value_size = 1\<rparr>"

record emaps =
  dumps :: "dump_t list"
  seen :: "u32 \<rightharpoonup> u8"

section \<open>Programs\<close>

text \<open>\<^verbatim>\<open>bpf_probe_read_user\<close> of a word whose result code is checked.\<close>

definition user_word :: "mem \<Rightarrow> u64 \<Rightarrow> u64 option" where
  "user_word m a = map_option get64 (read_mem m a 8)"

definition cur_pid :: "'e kenv \<Rightarrow> u32" where
  "cur_pid K = ucast (drop_bit 32 (pid_tgid K))"

definition emit_dump :: "dump_t kenv \<Rightarrow> dump_t option \<Rightarrow> u32 \<Rightarrow> u32 \<Rightarrow> u64 \<Rightarrow> emaps \<Rightarrow> emaps" where
  "emit_dump K g site reg cand s =
     (if cand < 0x10000 then s
      else (case user_word (umem K) cand of None \<Rightarrow> s
        | Some table \<Rightarrow>
            if table < 0x10000 \<or> table > 0x0000800000000000 then s
            else (case user_word (umem K) (table + 6 * 8) of None \<Rightarrow> s
              | Some v \<Rightarrow>
                  if v < 0x10000 then s
                  else (case g of None \<Rightarrow> s
                    | Some d \<Rightarrow>
                        s\<lparr>dumps := dumps s @ [d\<lparr>d_pid := cur_pid K, d_site := site, d_reg := reg,
                          d_pad := 0, d_env := cand, d_table := table,
                          d_slots := map (\<lambda>i. rd64 (umem K) (table + word_of_nat i * 8)) [0..<NSLOTS]\<rparr>]\<rparr>))))"

text \<open>
  A run reserves up to twice; \<open>g\<close> and \<open>g'\<close> are the two answers of
  \<^verbatim>\<open>bpf_ringbuf_reserve\<close>.
\<close>

definition up_lnl :: "dump_t kenv \<Rightarrow> dump_t option \<Rightarrow> dump_t option \<Rightarrow> pt_regs \<Rightarrow> emaps \<Rightarrow> emaps" where
  "up_lnl K g g' ctx s =
     (let pid = cur_pid K in
      if seen s pid \<noteq> None then s
      else (let s = emit_dump K g 1 1 (PT_REGS_PARM 2 ctx) s;
                s = emit_dump K g' 1 0 (PT_REGS_PARM 1 ctx) s
            in s\<lparr>seen := hash_update (map_accepts K) (seen s) pid 1\<rparr>))"

definition up_cnt :: "dump_t kenv \<Rightarrow> dump_t option \<Rightarrow> dump_t option \<Rightarrow> pt_regs \<Rightarrow> emaps \<Rightarrow> emaps" where
  "up_cnt K g g' ctx s =
     (let pid = cur_pid K in
      if seen s pid \<noteq> None then s
      else (let s = emit_dump K g 2 0 (PT_REGS_PARM 1 ctx) s;
                s = emit_dump K g' 2 1 (PT_REGS_PARM 2 ctx) s
            in s\<lparr>seen := hash_update (map_accepts K) (seen s) pid 1\<rparr>))"

section \<open>What is dumped\<close>

text \<open>A dump that passed the checks, in terms of the target's memory at the time.\<close>

definition dump_ok :: "mem \<Rightarrow> dump_t \<Rightarrow> bool" where
  "dump_ok m d =
     (0x10000 \<le> d_env d \<and> user_word m (d_env d) = Some (d_table d) \<and>
      0x10000 \<le> d_table d \<and> d_table d \<le> 0x0000800000000000 \<and> length (d_slots d) = NSLOTS \<and>
      (\<forall>i<NSLOTS. d_slots d ! i = rd64 m (d_table d + word_of_nat i * 8)) \<and> 0x10000 \<le> d_slots d ! 6)"

lemma rd64_user_word: "user_word m a = Some v \<Longrightarrow> rd64 m a = v"
  by (auto simp: user_word_def rd64_def)

lemma emit_dump_cases:
  "dumps (emit_dump K g site reg cand s) = dumps s \<or>
   (\<exists>d. dumps (emit_dump K g site reg cand s) = dumps s @ [d] \<and> dump_ok (umem K) d \<and>
      d_pid d = cur_pid K \<and> d_site d = site \<and> d_reg d = reg \<and> d_env d = cand)"
proof (cases "dumps (emit_dump K g site reg cand s) = dumps s")
  case False
  then obtain table v d where *: "\<not> cand < 0x10000" "user_word (umem K) cand = Some table"
    "\<not> (table < 0x10000 \<or> table > 0x0000800000000000)" "user_word (umem K) (table + 6 * 8) = Some v"
    "\<not> v < 0x10000" "g = Some d"
    by (auto simp: emit_dump_def split: if_splits option.splits)
  have "rd64 (umem K) (table + word_of_nat 6 * 8) = v"
    using rd64_user_word [OF *(4)] by simp
  with * show ?thesis
    by (intro disjI2) (simp add: emit_dump_def dump_ok_def NSLOTS_def not_less)
qed simp

lemma emit_dump_seen [simp]: "seen (emit_dump K g site reg cand s) = seen s"
  by (simp add: emit_dump_def split: option.split)

text \<open>What one run of a probe adds.\<close>

lemma probe_dumps:
  assumes "P = up_lnl \<or> P = up_cnt"
  shows "\<exists>ds. dumps (P K g g' ctx s) = dumps s @ ds \<and> length ds \<le> 2 \<and>
    (\<forall>d \<in> set ds. dump_ok (umem K) d \<and> d_pid d = cur_pid K) \<and> (seen s (cur_pid K) \<noteq> None \<longrightarrow> ds = [])"
proof (cases "seen s (cur_pid K) = None")
  case True
  have two: "\<exists>ds. dumps (emit_dump K g' b c x' (emit_dump K g a r x s)) = dumps s @ ds \<and> length ds \<le> 2 \<and>
      (\<forall>d \<in> set ds. dump_ok (umem K) d \<and> d_pid d = cur_pid K)" for a b c r x x'
    using emit_dump_cases [of K g a r x s] emit_dump_cases [of K g' b c x' "emit_dump K g a r x s"]
    by (elim disjE exE conjE) (rule exI, rule conjI, simp, simp)+
  from True assms show ?thesis
    by (elim disjE) (simp_all add: up_lnl_def up_cnt_def Let_def two)
qed (use assms in \<open>auto simp: up_lnl_def up_cnt_def\<close>)

lemma probe_seen:
  assumes "P = up_lnl \<or> P = up_cnt" and "map_accepts K (dom (seen s)) (cur_pid K)"
  shows "seen (P K g g' ctx s) p = None \<longleftrightarrow> seen s p = None \<and> p \<noteq> cur_pid K"
  using assms by (elim disjE) (auto simp: up_lnl_def up_cnt_def Let_def hm.lookup_update [of "map_accepts K"])

section \<open>Runs\<close>

text \<open>
  \<open>captured s\<close>: the probes can reach \<open>s\<close> while the map \<^verbatim>\<open>seen\<close> has room for every process.
\<close>

inductive captured :: "emaps \<Rightarrow> bool" where
  attach: "captured \<lparr>dumps = [], seen = Map.empty\<rparr>"
| lnl: "captured s \<Longrightarrow> map_accepts K (dom (seen s)) (cur_pid K) \<Longrightarrow> captured (up_lnl K g g' ctx s)"
| cnt: "captured s \<Longrightarrow> map_accepts K (dom (seen s)) (cur_pid K) \<Longrightarrow> captured (up_cnt K g g' ctx s)"

definition dump_count :: "emaps \<Rightarrow> u32 \<Rightarrow> nat" where
  "dump_count s p = length (filter (\<lambda>d. d_pid d = p) (dumps s))"

definition env_inv :: "emaps \<Rightarrow> bool" where
  "env_inv s \<longleftrightarrow> (\<forall>p. dump_count s p \<le> 2 \<and> (seen s p = None \<longrightarrow> dump_count s p = 0)) \<and>
     (\<forall>d \<in> set (dumps s). \<exists>m. dump_ok m d)"

lemma env_inv_step:
  assumes "env_inv s" and P: "P = up_lnl \<or> P = up_cnt" and acc: "map_accepts K (dom (seen s)) (cur_pid K)"
  shows "env_inv (P K g g' ctx s)"
proof -
  obtain ds where ds: "dumps (P K g g' ctx s) = dumps s @ ds" "length ds \<le> 2"
    "\<forall>d \<in> set ds. dump_ok (umem K) d \<and> d_pid d = cur_pid K" "seen s (cur_pid K) \<noteq> None \<longrightarrow> ds = []"
    using probe_dumps [OF P] by blast
  have "length (filter (\<lambda>d. d_pid d = p) ds) = (if p = cur_pid K then length ds else 0)" for p
    using ds(3) by (induction ds) auto
  then have "dump_count (P K g g' ctx s) p = dump_count s p + (if p = cur_pid K then length ds else 0)" for p
    by (simp add: dump_count_def ds(1))
  with assms(1) ds(2-4) show ?thesis
    unfolding env_inv_def probe_seen [OF P acc] by (force simp: ds(1))
qed

lemma captured_inv: "captured s \<Longrightarrow> env_inv s"
proof (induction rule: captured.induct)
  case attach
  show ?case by (simp add: env_inv_def dump_count_def)
qed (blast intro: env_inv_step)+


text \<open>A process whose first argument register is an environment with a table at \<^verbatim>\<open>0x20000\<close>.\<close>

definition demo_env_mem :: mem where
  "demo_env_mem a = Some (if a = 0x10002 then 2 else if a = 0x20032 then 1 else 0)"

definition demo_env_run :: "dump_t kenv" where
  "demo_env_run = \<lparr>rb_mem = None, pid_tgid = 0x700000009, ktime_ns = 0, umem = demo_env_mem,
     get_stackid = (\<lambda>_. 0), map_accepts = (\<lambda>_ _. True)\<rparr>"

definition demo_dump_mem :: dump_t where
  "demo_dump_mem = \<lparr>d_pid = 0xEE, d_site = 0xEE, d_reg = 0xEE, d_pad = 0xEE, d_env = 0xEE, d_table = 0xEE,
     d_slots = replicate NSLOTS 0xEE\<rparr>"

definition demo_env_state :: emaps where
  "demo_env_state = up_cnt demo_env_run (Some demo_dump_mem) None (demo_regs 0x1000 [0x10000, 0])
     \<lparr>dumps = [], seen = Map.empty\<rparr>"

lemma demo_env_dumps: "length (dumps demo_env_state) = 1"
proof -
  have "user_word demo_env_mem 0x10000 = Some 0x20000" "user_word demo_env_mem 0x20030 = Some 0x10000"
    by (simp_all add: user_word_def demo_env_mem_def read_num get64_def)
  then show ?thesis
    by (simp add: demo_env_state_def up_cnt_def emit_dump_def demo_env_run_def PT_REGS_PARM_def demo_regs_def Let_def)
qed


section \<open>The record on the wire\<close>

definition dump_members :: "ctype list" where
  "dump_members = [U32, U32, U32, U32, U64, U64, Arr64 NSLOTS]"

definition dump_values :: "dump_t \<Rightarrow> cval list" where
  "dump_values d = [W32 (d_pid d), W32 (d_site d), W32 (d_reg d), W32 (d_pad d), W64 (d_env d),
     W64 (d_table d), WArr (d_slots d)]"

definition dump_bytes :: "(nat \<Rightarrow> u8) \<Rightarrow> dump_t \<Rightarrow> u8 list" where
  "dump_bytes pad d = c_bytes pad 0 (zip dump_members (dump_values d))
     @ map pad [last (c_offsets 0 dump_members)..<c_sizeof dump_members]"

definition envSlots :: nat where "envSlots = 240"

record envDump =
  Pid :: u32
  Site :: u32
  Reg :: u32
  Pad :: u32
  Env :: u64
  Table :: u64
  Slots :: "u64 list"

definition env_members :: "ctype list" where
  "env_members = [U32, U32, U32, U32, U64, U64, Arr64 envSlots]"

definition env_of :: "cval list \<Rightarrow> envDump" where
  "env_of v = \<lparr>Pid = as32 (v ! 0), Site = as32 (v ! 1), Reg = as32 (v ! 2), Pad = as32 (v ! 3),
     Env = as64 (v ! 4), Table = as64 (v ! 5), Slots = as_arr (v ! 6)\<rparr>"

definition read_envDump :: "u8 list \<Rightarrow> envDump option" where
  "read_envDump bs = map_option env_of (go_read env_members bs)"

definition dump_mirror :: "dump_t \<Rightarrow> envDump" where
  "dump_mirror d = \<lparr>Pid = d_pid d, Site = d_site d, Reg = d_reg d, Pad = d_pad d, Env = d_env d,
     Table = d_table d, Slots = d_slots d\<rparr>"

lemma read_dump_bytes:
  assumes "length (d_slots d) = NSLOTS"
  shows "read_envDump (dump_bytes pad d) = Some (dump_mirror d)"
proof -
  have "list_all2 has_type (dump_values d) env_members"
    using assms by (simp add: dump_values_def env_members_def envSlots_def NSLOTS_def)
  moreover have "c_offsets 0 env_members = go_offsets 0 env_members" by code_simp
  moreover have m: "dump_members = env_members"
    by (simp add: dump_members_def env_members_def envSlots_def NSLOTS_def)
  ultimately have "go_read env_members (dump_bytes pad d) = Some (dump_values d)"
    unfolding dump_bytes_def m by (intro go_read_c_bytes)
  then show ?thesis by (simp add: read_envDump_def dump_values_def env_of_def dump_mirror_def)
qed

text \<open>
  C25. The dump crosses the ring buffer unchanged: the loader's \<^verbatim>\<open>envDump\<close> decoded from the bytes of a
  submitted \<^verbatim>\<open>dump_t\<close> has the same members, and both sides count 1952 bytes.
\<close>

theorem dump_round_trip:
  assumes "length (d_slots d) = NSLOTS"
  shows "read_envDump (dump_bytes pad d) = Some \<lparr>Pid = d_pid d, Site = d_site d, Reg = d_reg d,
      Pad = d_pad d, Env = d_env d, Table = d_table d, Slots = d_slots d\<rparr> \<and>
    c_sizeof dump_members = 1952 \<and> last (go_offsets 0 env_members) = 1952"
proof -
  have "c_sizeof dump_members = 1952 \<and> last (go_offsets 0 env_members) = 1952" by code_simp
  with read_dump_bytes [OF assms] show ?thesis by (simp add: dump_mirror_def)
qed

theorem dump_round_trip_witness:
  "read_envDump (dump_bytes (\<lambda>_. 0) demo_dump_mem) = Some \<lparr>Pid = 0xEE, Site = 0xEE, Reg = 0xEE,
     Pad = 0xEE, Env = 0xEE, Table = 0xEE, Slots = replicate NSLOTS 0xEE\<rparr>"
  using dump_round_trip [of demo_dump_mem "\<lambda>_. 0"] by (simp add: demo_dump_mem_def)

end
