(* ===== verification/OffsetFacts.thy ===== *)
theory OffsetFacts
  imports Offsets Envprobe
begin

text \<open>
  What the scan and the offsets file give. The scan skips a whole table when it has found one; since a
  table starts with zero words and continues with addresses of code, two tables never overlap, and the
  skipping scan finds the same tables as one that looks at every word. A file written by
  \<^verbatim>\<open>jniprobe env\<close> is read back to the slots it was written from.
\<close>

section \<open>Positions of a range\<close>

definition fits :: "u64 \<Rightarrow> u64 \<Rightarrow> nat" where
  "fits r0 r1 = (if unat r0 + 1864 \<le> unat r1 then (unat r1 - unat r0 - 1864) div 8 + 1 else 0)"

definition positions :: "u64 \<Rightarrow> u64 \<Rightarrow> u64 list" where
  "positions r0 r1 = map (\<lambda>k. r0 + word_of_nat (8 * k)) [0..<fits r0 r1]"

lemma table_words_eq: "table_words = 233"
  by (simp add: table_words_def) code_simp

lemma table_bytes_eq: "table_bytes = 1864"
  by (simp add: table_bytes_def table_words_eq)

lemma fits_step: "unat r0 + d < 2 ^ 64 \<Longrightarrow> d = 8 * k \<Longrightarrow> fits (r0 + word_of_nat d) r1 = fits r0 r1 - k"
proof -
  assume a: "unat r0 + d < 2 ^ 64" "d = 8 * k"
  then have "unat (r0 + word_of_nat d) = unat r0 + d"
    by (simp only: unat_word_ariths unat_of_nat) simp
  with a show ?thesis by (auto simp: fits_def)
qed

lemma positions_split:
  assumes "k \<le> fits r0 r1" and "unat r0 + 8 * k < 2 ^ 64"
  shows "positions r0 r1 = map (\<lambda>i. r0 + word_of_nat (8 * i)) [0..<k] @ positions (r0 + word_of_nat (8 * k)) r1"
proof -
  have "[0..<fits r0 r1] = [0..<k] @ map (\<lambda>i. i + k) [0..<fits r0 r1 - k]"
    using assms(1) upt_add_eq_append [of 0 k "fits r0 r1 - k"] map_add_upt [of k "fits r0 r1 - k"]
    by simp
  with fits_step [OF assms(2) refl] show ?thesis
    by (simp add: positions_def algebra_simps comp_def)
qed

section \<open>Tables do not overlap\<close>

lemma table_zero: "table_at m lo hi p \<Longrightarrow> i < 4 \<Longrightarrow> word_ok m (p + word_of_nat i * 8) (\<lambda>v. v = 0)"
  by (simp only: table_at_def list_all_iff set_upt Ball_def atLeastLessThan_iff) blast

lemma table_code:
  "table_at m lo hi p \<Longrightarrow> 4 \<le> i \<Longrightarrow> i < 233 \<Longrightarrow> word_ok m (p + word_of_nat i * 8) (\<lambda>v. lo \<le> v \<and> v < hi)"
  by (simp only: table_at_def list_all_iff table_words_eq set_upt Ball_def atLeastLessThan_iff)

lemma tables_apart:
  assumes "table_at m lo hi p" and "0 < lo" and "0 < j" and "j < 233"
  shows "\<not> table_at m lo hi (p + word_of_nat (8 * j))"
proof
  assume q: "table_at m lo hi (p + word_of_nat (8 * j))"
  define i where "i = (if j < 4 then 4 else j)"
  have i: "4 \<le> i" "i < 233" "j \<le> i" "i - j < 4" using assms by (auto simp: i_def)
  have "p + word_of_nat (8 * j) + word_of_nat (i - j) * 8 = p + word_of_nat i * 8"
    using i by (simp add: algebra_simps)
  with table_zero [OF q i(4)] have "word_ok m (p + word_of_nat i * 8) (\<lambda>v. v = 0)" by (simp only:)
  moreover have "word_ok m (p + word_of_nat i * 8) (\<lambda>v. lo \<le> v \<and> v < hi)"
    using table_code [OF assms(1) i(1,2)] .
  ultimately show False using assms(2) by (auto simp: word_ok_def split: prod.splits)
qed

section \<open>The skipping scan finds every table\<close>

abbreviation tables_in :: "mem \<Rightarrow> u64 \<Rightarrow> u64 \<Rightarrow> u64 \<Rightarrow> u64 \<Rightarrow> u64 list" where
  "tables_in m lo hi r0 r1 \<equiv> filter (table_at m lo hi) (positions r0 r1)"

lemma scan_guard:
  assumes "unat p \<le> 2 ^ 63"
  shows "(p + table_bytes \<le> r1) = (0 < fits p r1)"
proof -
  have "unat (p + 1864) = unat p + 1864" using assms by (simp add: unat_word_ariths)
  then show ?thesis by (simp add: table_bytes_eq word_le_nat_alt fits_def)
qed

lemma positions_drop:
  assumes "unat r0 + 8 * k < 2 ^ 64"
  shows "positions r0 r1 = map (\<lambda>i. r0 + word_of_nat (8 * i)) [0..<min k (fits r0 r1)] @
    positions (r0 + word_of_nat (8 * k)) r1"
proof (cases "k \<le> fits r0 r1")
  case True
  with positions_split [OF True assms] show ?thesis by (simp add: min_def)
next
  case False
  then have "positions (r0 + word_of_nat (8 * k)) r1 = []"
    using fits_step [OF assms refl, of r1] by (simp add: positions_def)
  with False show ?thesis by (simp add: positions_def min_def)
qed

lemma filter_first_table:
  assumes "table_at m lo hi p" and "0 < lo" and "0 < k" and "k \<le> 233"
  shows "filter (table_at m lo hi) (map (\<lambda>i. p + word_of_nat (8 * i)) [0..<k]) = [p]"
proof -
  have "[0..<k] = 0 # [1..<k]" using assms(3) by (simp add: upt_rec)
  moreover have "filter (table_at m lo hi) (map (\<lambda>i. p + word_of_nat (8 * i)) [1..<k]) = []"
    using tables_apart [OF assms(1,2)] assms(4) by (auto simp: filter_empty_conv simp del: of_nat_mult)
  ultimately show ?thesis using assms(1) by simp
qed

lemma scan_range_all:
  assumes "0 < lo" and "unat r1 \<le> 2 ^ 63"
  shows "unat p \<le> 2 ^ 63 \<Longrightarrow> fits p r1 < n \<Longrightarrow>
    scan_range n m base lo hi p r1 (out, t) =
      Some (fold (put_table m base) (tables_in m lo hi p r1) out, t + length (tables_in m lo hi p r1))"
proof (induction n arbitrary: p out t)
  case (Suc n)
  note guard = scan_guard [OF Suc.prems(1), of r1]
  show ?case
  proof (cases "0 < fits p r1")
    case False
    with guard show ?thesis by (simp add: positions_def)
  next
    case True
    then have le: "unat p + 1864 \<le> 2 ^ 63" using assms(2) by (simp add: fits_def split: if_splits)
    define k :: nat where "k = (if table_at m lo hi p then 233 else 1)"
    let ?q = "p + word_of_nat (8 * k)"
    have k: "0 < k" "8 * k \<le> 1864" by (simp_all add: k_def)
    have small: "unat p + 8 * k < 2 ^ 64" using le k by simp
    have q: "unat ?q = unat p + 8 * k" using small by (simp only: unat_word_ariths unat_of_nat) simp
    have IH: "scan_range n m base lo hi ?q r1 (out', t') =
        Some (fold (put_table m base) (tables_in m lo hi ?q r1) out', t' + length (tables_in m lo hi ?q r1))"
      for out' t'
      using q le k Suc.prems(2) True fits_step [OF small refl, of r1] by (intro Suc.IH) simp_all
    have first: "filter (table_at m lo hi) (map (\<lambda>i. p + word_of_nat (8 * i)) [0..<min k (fits p r1)]) =
        (if table_at m lo hi p then [p] else [])"
    proof (cases "table_at m lo hi p")
      case True
      then show ?thesis using filter_first_table [OF True assms(1), of "min k (fits p r1)"] \<open>0 < fits p r1\<close>
        by (simp add: k_def)
    next
      case False
      with \<open>0 < fits p r1\<close> have "min k (fits p r1) = 1" by (simp add: k_def)
      with False show ?thesis by simp
    qed
    have "tables_in m lo hi p r1 = (if table_at m lo hi p then [p] else []) @ tables_in m lo hi ?q r1"
      using first by (subst positions_drop [OF small]) simp
    moreover have "p + (table_bytes - 8) + 8 = ?q" if "table_at m lo hi p"
      using that by (simp add: k_def table_bytes_eq)
    moreover have "p + 8 = ?q" if "\<not> table_at m lo hi p" using that by (simp add: k_def)
    ultimately show ?thesis using True guard IH by (auto simp del: of_nat_mult)
  qed
qed simp

text \<open>All ranges of the library, each short enough for the fuel.\<close>

definition ranges_ok :: "nat \<Rightarrow> (u64 \<times> u64) list \<Rightarrow> bool" where
  "ranges_ok n rs = list_all (\<lambda>(r0, r1). r0 < r1 \<and> unat r1 \<le> 2 ^ 63 \<and> unat r1 - unat r0 < 8 * n) rs"

definition all_tables :: "mem \<Rightarrow> u64 \<Rightarrow> u64 \<Rightarrow> (u64 \<times> u64) list \<Rightarrow> u64 list" where
  "all_tables m lo hi rs = filter (table_at m lo hi) (concat (map (\<lambda>(r0, r1). positions r0 r1) rs))"

lemma fits_less: "unat r1 - unat r0 < 8 * n \<Longrightarrow> 0 < n \<Longrightarrow> fits r0 r1 < n"
  by (auto simp: fits_def)

lemma scan_ranges_all:
  assumes "0 < lo"
  shows "ranges_ok n rs \<Longrightarrow> scan_ranges n m base lo hi rs (out, t) =
    Some (fold (put_table m base) (all_tables m lo hi rs) out, t + length (all_tables m lo hi rs))"
proof (induction rs arbitrary: out t)
  case (Cons r rs)
  obtain r0 r1 where r: "r = (r0, r1)" by (cases r)
  from Cons.prems have *: "r0 < r1" "unat r1 \<le> 2 ^ 63" "unat r1 - unat r0 < 8 * n" and rs: "ranges_ok n rs"
    by (auto simp: ranges_ok_def r)
  then have "unat r0 \<le> 2 ^ 63" "0 < n" by (auto simp: word_less_nat_alt intro: gr0I)
  then have "scan_range n m base lo hi r0 r1 (out, t) =
      Some (fold (put_table m base) (tables_in m lo hi r0 r1) out, t + length (tables_in m lo hi r0 r1))"
    using * fits_less assms by (intro scan_range_all) auto
  then show ?case by (simp add: r Cons.IH [OF rs] all_tables_def)
qed (simp add: all_tables_def)

section \<open>What the result says\<close>

definition slot_word :: "mem \<Rightarrow> u64 \<Rightarrow> nat \<Rightarrow> u64" where
  "slot_word m p i = fst (mr_u64 m (p + word_of_nat i * 8))"

lemma fold_put:
  "fold (\<lambda>i out. out(f i \<mapsto> int i)) is out off = Some j \<Longrightarrow>
     (\<exists>i \<in> set is. off = f i \<and> j = int i) \<or> out off = Some j"
  by (induction "is" arbitrary: out) (fastforce split: if_splits)+

lemma fold_put_dom: "dom (fold (\<lambda>i out. out(f i \<mapsto> int i)) is out) = dom out \<union> f ` set is"
  by (induction "is" arbitrary: out) auto

lemma put_table_Some:
  "put_table m base p out off = Some j \<Longrightarrow>
     (\<exists>i. 4 \<le> i \<and> i < 233 \<and> off = slot_word m p i - base \<and> j = int i) \<or> out off = Some j"
  using fold_put [of "\<lambda>i. slot_word m p i - base" "[4..<table_words]" out off j]
  by (auto simp: put_table_def slot_word_def table_words_eq Bex_def simp del: upt_rec_numeral)

lemma put_table_dom:
  "dom (put_table m base p out) = dom out \<union> (\<lambda>i. slot_word m p i - base) ` {4..<233}"
  using fold_put_dom [of "\<lambda>i. slot_word m p i - base" "[4..<table_words]" out]
  by (simp add: put_table_def slot_word_def table_words_eq del: upt_rec_numeral)

lemma put_tables_Some:
  "fold (put_table m base) ps out off = Some j \<Longrightarrow>
     (\<exists>p \<in> set ps. \<exists>i. 4 \<le> i \<and> i < 233 \<and> off = slot_word m p i - base \<and> j = int i) \<or> out off = Some j"
proof (induction ps arbitrary: out)
  case (Cons p ps)
  from Cons.IH [of "put_table m base p out"] Cons.prems put_table_Some [of m base p out off j]
  show ?case by auto
qed simp

lemma put_tables_dom:
  "dom (fold (put_table m base) ps out) = dom out \<union> (\<Union>p \<in> set ps. (\<lambda>i. slot_word m p i - base) ` {4..<233})"
  by (induction ps arbitrary: out) (auto simp: put_table_dom)

lemma put_tables_empty: "(fold (put_table m base) ps Map.empty = Map.empty) = (ps = [])"
proof -
  have "(dom (fold (put_table m base) ps Map.empty) = {}) = (ps = [])"
    by (cases ps) (auto simp: put_tables_dom put_table_dom simp del: fold.simps)
  then show ?thesis by simp
qed

text \<open>
  C16. The scan of the library always ends and finds the slots: with fuel for the longest data range it
  returns, its error is reported exactly when no range holds a table, and otherwise every offset of the
  result is that of a code word 4 to 232 of a table and carries the number of that word, and every code
  word of every table has its offset in the result.
\<close>

theorem scan_finds_tables:
  assumes "libartBase data = Some (base, lo, hi)" and "libartDataRanges data = Some rs"
    and "0 < lo" and "ranges_ok n rs"
  shows "\<exists>r. offsetsFromScan n data (Some m) = Some r \<and> (r = None) = (all_tables m lo hi rs = []) \<and>
    (\<forall>out. r = Some out \<longrightarrow>
      (\<forall>off j. out off = Some j \<longrightarrow>
        (\<exists>p \<in> set (all_tables m lo hi rs). \<exists>i. 4 \<le> i \<and> i < 233 \<and> off = slot_word m p i - base \<and> j = int i)) \<and>
      (\<forall>p \<in> set (all_tables m lo hi rs). \<forall>i. 4 \<le> i \<and> i < 233 \<longrightarrow> slot_word m p i - base \<in> dom out))"
proof -
  let ?out = "fold (put_table m base) (all_tables m lo hi rs) Map.empty"
  have "offsetsFromScan n data (Some m) = Some (if ?out = Map.empty then None else Some ?out)"
    using assms scan_ranges_all [OF assms(3,4)] by (simp add: offsetsFromScan_def)
  moreover have "\<forall>off j. ?out off = Some j \<longrightarrow>
      (\<exists>p \<in> set (all_tables m lo hi rs). \<exists>i. 4 \<le> i \<and> i < 233 \<and> off = slot_word m p i - base \<and> j = int i)"
    using put_tables_Some [of m base "all_tables m lo hi rs" Map.empty] by auto
  moreover have "\<forall>p \<in> set (all_tables m lo hi rs). \<forall>i. 4 \<le> i \<and> i < 233 \<longrightarrow> slot_word m p i - base \<in> dom ?out"
    unfolding put_tables_dom by (intro ballI allI impI UnI2 UN_I) auto
  ultimately show ?thesis by (simp add: put_tables_empty)
qed

text \<open>A process with one table: four zero words, then 229 equal code words.\<close>

definition scan_demo_maps :: string where
  "scan_demo_maps =
     ''7000-7748 rw-p 0 fd:1 7 libart.so'' @ [CHR 0x0a] @
     ''101010101010000-101010101020000 r-xp 0 fd:1 7 libart.so'' @ [CHR 0x0a]"

definition scan_demo_mem :: mem where
  "scan_demo_mem a = (if a < 0x7000 \<or> 0x7748 \<le> a then None else Some (if a < 0x7020 then 0 else 1))"

lemma demo_fields:
  "split_on (CHR 0x0a) scan_demo_maps = [''7000-7748 rw-p 0 fd:1 7 libart.so'',
     ''101010101010000-101010101020000 r-xp 0 fd:1 7 libart.so'', '''']"
  "str_fields ''7000-7748 rw-p 0 fd:1 7 libart.so'' = [''7000-7748'', ''rw-p'', ''0'', ''fd:1'', ''7'', ''libart.so'']"
  "str_fields ''101010101010000-101010101020000 r-xp 0 fd:1 7 libart.so'' =
     [''101010101010000-101010101020000'', ''r-xp'', ''0'', ''fd:1'', ''7'', ''libart.so'']"
  by code_simp+

lemma demo_lines:
  "maps_line ''7000-7748 rw-p 0 fd:1 7 libart.so'' =
     Some \<lparr>ml_lo = 0x7000, ml_hi = 0x7748, ml_perm = ''rw-p'', ml_fo = 0, ml_name = ''libart.so''\<rparr>"
  "maps_line ''101010101010000-101010101020000 r-xp 0 fd:1 7 libart.so'' =
     Some \<lparr>ml_lo = 0x101010101010000, ml_hi = 0x101010101020000, ml_perm = ''r-xp'', ml_fo = 0,
       ml_name = ''libart.so''\<rparr>"
  by (simp_all add: maps_line_def demo_fields splitN2_def parseHex_def hex_digit_def)

lemma demo_contains:
  "str_contains ''7000-7748 rw-p 0 fd:1 7 libart.so'' ''libart.so''"
  "str_contains ''101010101010000-101010101020000 r-xp 0 fd:1 7 libart.so'' ''libart.so''"
  "\<not> str_contains '''' ''libart.so''"
  "str_contains ''r-xp'' ''r-xp''" "\<not> str_contains ''rw-p'' ''r-xp''" "\<not> str_contains ''rw-p'' ''x''"
  "str_contains ''r-xp'' ''x''"
  by code_simp+

lemma scan_demo_maps_parse:
  "libartBase (Some scan_demo_maps) = Some (0x7000, 0x101010101010000, 0x101010101020000)"
  "libartDataRanges (Some scan_demo_maps) = Some [(0x7000, 0x7748)]"
  by (simp_all add: libartBase_def libartDataRanges_def libart_line_def data_range_def demo_fields demo_lines
      demo_contains del: str_contains.simps)

lemma read_prefix_const:
  "(\<And>k. k < n \<Longrightarrow> m (a + word_of_nat k) = Some b) \<Longrightarrow> read_prefix m a n = replicate n b"
proof (induction n arbitrary: a)
  case (Suc n)
  have "m (a + 1 + word_of_nat k) = Some b" if "k < n" for k
    using Suc.prems [of "Suc k"] that by (simp add: ac_simps)
  then have "read_prefix m (a + 1) n = replicate n b" by (rule Suc.IH)
  moreover have "m a = Some b" using Suc.prems [of 0] by simp
  ultimately show ?case by simp
qed simp

lemma demo_word:
  assumes "i < 233"
  shows "mr_u64 scan_demo_mem (0x7000 + word_of_nat i * 8) = (if i < 4 then 0 else 0x0101010101010101, True)"
proof -
  define a :: u64 where "a = 0x7000 + word_of_nat i * 8"
  have i: "unat (word_of_nat i :: u64) = i" using assms by (simp add: unat_of_nat)
  have "unat (word_of_nat i * 8 :: u64) = 8 * i" using assms i by (simp add: unat_word_ariths)
  then have a: "unat a = 0x7000 + 8 * i" using assms by (simp add: a_def unat_word_ariths)
  have k: "unat (a + word_of_nat k) = 0x7000 + 8 * i + k" if "k < 8" for k
    using that a assms by (simp add: unat_word_ariths unat_of_nat)
  have b: "scan_demo_mem (a + word_of_nat k) = Some (if i < 4 then 0 else 1)" if "k < 8" for k
    using k [OF that] that assms by (auto simp: scan_demo_mem_def word_less_nat_alt word_le_nat_alt)
  have "read_prefix scan_demo_mem a 8 = replicate 8 (if i < 4 then 0 else 1)"
    by (rule read_prefix_const) (use b in blast)
  moreover have "\<not> sint a < 0"
  proof -
    have "unat a < 2 ^ 63" using a assms by simp
    then have "uint a < 2 ^ 63" by (metis of_nat_unat of_nat_less_numeral_power_cancel_iff)
    moreover have "- (2 ^ 63) \<le> uint a" by (rule order.trans [of _ 0]) simp_all
    ultimately have "sint a = uint a"
      using signed_take_bit_int_eq_self [of 63 "uint a"] by (simp add: sint_uint)
    then show ?thesis by simp
  qed
  moreover have "replicate 8 x = [x, x, x, x, x, x, x, x]" for x :: u8
    by (simp add: eval_nat_numeral)
  then have "get64 (replicate 8 0) = 0" "get64 (replicate 8 1) = 0x0101010101010101"
    by (simp_all add: get64_def)
  ultimately show ?thesis
    unfolding a_def [symmetric] mr_u64_def readAt_def Let_def by (cases "i < 4") simp_all
qed


lemma demo_table: "all_tables scan_demo_mem 0x101010101010000 0x101010101020000 [(0x7000, 0x7748)] = [0x7000]"
proof -
  have "table_at scan_demo_mem 0x101010101010000 0x101010101020000 0x7000"
    unfolding table_at_def list_all_iff table_words_eq word_ok_def
    by (auto simp: demo_word simp del: upt_rec_numeral)
  moreover have "positions 0x7000 0x7748 = [0x7000]" by (simp add: positions_def fits_def)
  ultimately show ?thesis by (simp add: all_tables_def)
qed

theorem scan_finds_tables_witness:
  "\<exists>out. offsetsFromScan 234 (Some scan_demo_maps) (Some scan_demo_mem) = Some (Some out) \<and>
     0x0101010101010101 - 0x7000 \<in> dom out"
proof -
  have "ranges_ok 234 [(0x7000, 0x7748)]" by (simp add: ranges_ok_def)
  moreover have "slot_word scan_demo_mem 0x7000 4 = 0x0101010101010101"
    using demo_word [of 4] by (simp add: slot_word_def)
  ultimately show ?thesis
    using scan_finds_tables [OF scan_demo_maps_parse, of 234 scan_demo_mem] by (fastforce simp: demo_table)
qed

section \<open>Printed numbers are read back\<close>

lemma digit_char_val:
  assumes "d < 16"
  shows "digit_val (digit_char d) = Some d" and "digit_char d \<noteq> CHR ''_''" and "plain_char (digit_char d)"
    and "d < 10 \<Longrightarrow> (of_char (digit_char d) :: nat) = 48 + d"
proof -
  have "list_all (\<lambda>d. digit_val (digit_char d) = Some d \<and> digit_char d \<noteq> CHR ''_'' \<and> plain_char (digit_char d) \<and>
      (d < 10 \<longrightarrow> (of_char (digit_char d) :: nat) = 48 + d)) [0..<16]" by code_simp
  with assms show "digit_val (digit_char d) = Some d" and "digit_char d \<noteq> CHR ''_''" and "plain_char (digit_char d)"
    and "d < 10 \<Longrightarrow> (of_char (digit_char d) :: nat) = 48 + d"
    by (simp_all only: list_all_iff set_upt Ball_def atLeastLessThan_iff le0 simp_thms)
qed

lemma dec_from_append:
  "dec_from k (xs @ ys) = (case dec_from k xs of None \<Rightarrow> None | Some n \<Rightarrow> dec_from n ys)"
  by (induction xs arbitrary: k) (auto simp: Let_def)

lemma dec_from_radix: "dec_from 0 (radix 10 n) = Some n"
proof (induction "10 :: nat" n rule: radix.induct)
  case (1 n)
  show ?case
  proof (cases "n < 10")
    case True
    then show ?thesis by (subst radix.simps) (simp add: digit_char_val(4) Let_def)
  next
    case False
    then have "radix 10 n = radix 10 (n div 10) @ [digit_char (n mod 10)]" by (subst radix.simps) simp
    with 1 False show ?thesis by (simp add: dec_from_append digit_char_val(4) Let_def)
  qed
qed

lemma radix_hd: "\<exists>d < b. hd (radix b n) = digit_char d" and radix_last: "\<exists>d < b. last (radix b n) = digit_char d"
  if "2 \<le> b"
  using radix_digits [OF that, of n] by simp_all

lemma atoi_fmt_dec: "n < 2 ^ 63 \<Longrightarrow> atoi (fmt_dec (int n)) = Some (int n)"
proof -
  assume n: "n < 2 ^ 63"
  obtain d where "d < 10" "hd (radix 10 n) = digit_char d" using radix_hd [of 10 n] by auto
  then obtain cs where cs: "radix 10 n = digit_char d # cs" by (metis list.collapse radix_not_nil)
  have "(of_char (digit_char d) :: nat) = 48 + d" using digit_char_val(4) \<open>d < 10\<close> by simp
  then have "digit_char d \<noteq> CHR ''-''" "digit_char d \<noteq> CHR ''+''" by (auto dest: arg_cong [of _ _ "of_char :: char \<Rightarrow> nat"])
  with cs have "atoi (radix 10 n) =
      (case dec_from 0 (radix 10 n) of None \<Rightarrow> None | Some n \<Rightarrow> if n < 2 ^ 63 then Some (int n) else None)"
    by (auto simp: atoi_def Let_def split: option.split)
  with n show ?thesis by (simp add: fmt_dec_def dec_from_radix)
qed

lemma uint_from_append:
  "uint_from b k (xs @ ys) = (case uint_from b k xs of None \<Rightarrow> None | Some n \<Rightarrow> uint_from b n ys)"
  by (induction xs arbitrary: k) (auto split: option.split)

lemma uint_from_radix: "n < 2 ^ 64 \<Longrightarrow> uint_from 16 0 (radix 16 n) = Some n"
proof (induction "16 :: nat" n rule: radix.induct)
  case (1 n)
  show ?case
  proof (cases "n < 16")
    case True
    then show ?thesis by (subst radix.simps) (simp add: digit_char_val)
  next
    case False
    then have "radix 16 n = radix 16 (n div 16) @ [digit_char (n mod 16)]" by (subst radix.simps) simp
    moreover have "uint_from 16 0 (radix 16 (n div 16)) = Some (n div 16)" using 1 False by simp
    ultimately show ?thesis using 1(2) by (simp add: uint_from_append digit_char_val)
  qed
qed

lemma underscores_plain: "CHR ''_'' \<notin> set s \<Longrightarrow> underscores_ok b s"
  by (induction s arbitrary: b) auto

lemma parse_printed_hex: "parseUint0 (trimSpace (''0x'' @ fmt_hex w)) = Some w"
proof -
  let ?h = "radix 16 (unat w)"
  obtain d where d: "d < 16" "last ?h = digit_char d" using radix_last [of 16 "unat w"] by auto
  have "trimSpace (''0x'' @ ?h) = ''0x'' @ ?h"
    using d digit_char_val(3) by (intro trimSpace_plain) (simp add: plain_char_def)
  moreover have "base_of (''0x'' @ ?h) = (16, True, ?h)"
    by (cases ?h) (simp_all add: base_of_def lower_is_def)
  moreover have "underscores_ok True ?h"
  proof (rule underscores_plain, rule notI)
    assume "CHR ''_'' \<in> set ?h"
    then obtain d where "d < 16" "CHR ''_'' = digit_char d" using radix_digits [of 16 "unat w"] by auto
    then show False using digit_char_val(2) [of d] by simp
  qed
  moreover have "uint_from 16 0 ?h = Some (unat w)"
    using uint_from_radix unsigned_less [of w] by simp
  ultimately show ?thesis by (simp add: parseUint0_def fmt_hex_def)
qed

section \<open>The file written is the file read\<close>

text \<open>
  What the loader relies on of \<^verbatim>\<open>encoding/json\<close>: decoding an object of plain strings gives its
  pairs, in some order (Go visits a map in any order).
\<close>

definition json_decodes :: "(string \<Rightarrow> (string \<times> string) list option) \<Rightarrow> (string \<times> string) list \<Rightarrow> bool" where
  "json_decodes unmarshal kvs = (\<exists>kvs'. unmarshal (json_object kvs) = Some kvs' \<and> set kvs' = set kvs)"

lemma file_entry_pair:
  assumes "i < 2 ^ 63"
  shows "file_entry (env_pair base slots i) out = (if i < 233 then out(slots ! i - base \<mapsto> int i) else out)"
  using atoi_fmt_dec [OF assms] table_words_eq
  by (simp add: file_entry_def env_pair_def parse_printed_hex [simplified] table_words_def)

lemma fold_file_Some:
  assumes "\<forall>kv \<in> set kvs. \<exists>i \<in> I. kv = env_pair base slots i" and "\<forall>i \<in> I. i < 2 ^ 63"
  shows "fold file_entry kvs out off = Some j \<Longrightarrow>
    (\<exists>i \<in> I. i < 233 \<and> off = slots ! i - base \<and> j = int i) \<or> out off = Some j"
  using assms(1)
proof (induction kvs arbitrary: out)
  case (Cons kv kvs)
  then obtain i where i: "i \<in> I" "kv = env_pair base slots i" by auto
  from Cons.IH [of "file_entry kv out"] Cons.prems
  have "(\<exists>i \<in> I. i < 233 \<and> off = slots ! i - base \<and> j = int i) \<or> file_entry kv out off = Some j" by simp
  then show ?case using i assms(2) by (auto simp: file_entry_pair split: if_splits)
qed simp

lemma fold_file_dom:
  assumes "\<forall>kv \<in> set kvs. \<exists>i \<in> I. kv = env_pair base slots i" and "\<forall>i \<in> I. i < 2 ^ 63"
  shows "off \<in> dom out \<or> (\<exists>i < 233. env_pair base slots i \<in> set kvs \<and> off = slots ! i - base)
    \<Longrightarrow> off \<in> dom (fold file_entry kvs out)"
  using assms(1)
proof (induction kvs arbitrary: out)
  case (Cons kv kvs)
  then obtain i where i: "i \<in> I" "kv = env_pair base slots i" by auto
  have keep: "off \<in> dom out \<Longrightarrow> off \<in> dom (file_entry kv out)"
    using i assms(2) by (auto simp: file_entry_pair)
  have new: "off \<in> dom (file_entry kv out)" if "k < 233" "env_pair base slots k = kv" "off = slots ! k - base" for k
    using file_entry_pair [of k base slots out] that by simp
  from Cons.prems(1) have "off \<in> dom (file_entry kv out) \<or>
      (\<exists>k < 233. env_pair base slots k \<in> set kvs \<and> off = slots ! k - base)"
    using keep new by auto
  then show ?case using Cons.IH [of "file_entry kv out"] Cons.prems(2) by simp
qed simp

text \<open>Every pair read belongs to a slot written, and no slot the loader knows is lost.\<close>

lemma env_file_read_back:
  assumes "env_file (base, lo, hi) slots = Some t" and "length slots = NSLOTS"
    and "json_decodes unmarshal (map (env_pair base slots) (env_keys lo hi slots))"
  shows "\<exists>out. offsetsFromFile unmarshal (Some t) = Some out \<and>
    (\<forall>off j. out off = Some j \<longrightarrow>
      (\<exists>i < 233. in_exec lo hi (slots ! i) \<and> off = slots ! i - base \<and> j = int i)) \<and>
    (\<forall>i < 233. in_exec lo hi (slots ! i) \<longrightarrow> slots ! i - base \<in> dom out)"
proof -
  let ?I = "set (env_keys lo hi slots)"
  have t: "t = json_object (map (env_pair base slots) (env_keys lo hi slots))"
    using assms(1) by (simp add: env_file_def split: if_splits)
  obtain kvs where kvs: "unmarshal t = Some kvs" "set kvs = env_pair base slots ` ?I"
    using assms(3) t by (auto simp: json_decodes_def)
  let ?out = "fold file_entry kvs Map.empty"
  have I: "?I = {i. i < 240 \<and> in_exec lo hi (slots ! i)}"
    using assms(2) by (auto simp: env_keys_def NSLOTS_def)
  have pairs: "\<forall>kv \<in> set kvs. \<exists>i \<in> ?I. kv = env_pair base slots i" and small: "\<forall>i \<in> ?I. i < 2 ^ 63"
    using kvs I by auto
  have "\<forall>off j. ?out off = Some j \<longrightarrow> (\<exists>i < 233. in_exec lo hi (slots ! i) \<and> off = slots ! i - base \<and> j = int i)"
    using fold_file_Some [OF pairs small, of Map.empty] I by fastforce
  moreover have "slots ! i - base \<in> dom ?out" if "i < 233" "in_exec lo hi (slots ! i)" for i
  proof -
    have "env_pair base slots i \<in> set kvs" using that kvs I by auto
    with that show ?thesis by (intro fold_file_dom [OF pairs small]) auto
  qed
  ultimately show ?thesis using kvs by (auto simp: offsetsFromFile_def)
qed

end
