(* ===== verification/EnvCommand.thy ===== *)
theory EnvCommand
  imports OffsetFacts
begin

text \<open>
  The command \<^verbatim>\<open>jniprobe env\<close>: the loop of \<^verbatim>\<open>runEnv\<close> in \<^verbatim>\<open>loader/env.go\<close> over
  the records of the ring buffer, from a dump of the capture object to the offsets file, and back through
  \<^verbatim>\<open>offsetsFromFile\<close>. \<open>maps pid\<close> is what the maps file of a process holds. Loading the
  object, attaching its probes and writing the file are calls of the system and of libraries.
\<close>

section \<open>The loop\<close>

text \<open>The text of the file written; \<^const>\<open>None\<close> when the records end before one is accepted.\<close>

fun runEnv_loop :: "(u32 \<Rightarrow> string option) \<Rightarrow> u8 list list \<Rightarrow> string option" where
  "runEnv_loop maps [] = None"
| "runEnv_loop maps (rec # recs) =
     (case read_envDump rec of None \<Rightarrow> runEnv_loop maps recs
      | Some d \<Rightarrow>
          (case libartBase (maps (Pid d)) of None \<Rightarrow> runEnv_loop maps recs
           | Some r \<Rightarrow>
               (case env_file r (Slots d) of None \<Rightarrow> runEnv_loop maps recs
                | Some t \<Rightarrow> Some t)))"

lemma runEnv_loop_picks:
  assumes "\<forall>d \<in> set ds. length (d_slots d) = NSLOTS"
    and "runEnv_loop maps (map (dump_bytes pad) ds) = Some t"
  shows "\<exists>d \<in> set ds. \<exists>r. libartBase (maps (d_pid d)) = Some r \<and> env_file r (d_slots d) = Some t"
  using assms
proof (induction ds)
  case (Cons d ds)
  then have "read_envDump (dump_bytes pad d) = Some (dump_mirror d)" using read_dump_bytes by simp
  with Cons show ?case by (auto simp: dump_mirror_def split: option.splits)
qed simp

text \<open>
  C15. From the process to the file and back: whatever file \<^verbatim>\<open>jniprobe env\<close> writes comes from one of
  the dumps the capture object submitted, and reading it back, in whatever order the JSON library visits
  its pairs, gives exactly the slots of that dump below 233 that point into the executable segment of
  the library, each under its offset from the library's base.
\<close>

theorem env_command_round_trip:
  assumes "\<forall>d \<in> set ds. length (d_slots d) = NSLOTS"
    and "runEnv_loop maps (map (dump_bytes pad) ds) = Some t"
    and "\<And>d base lo hi. d \<in> set ds \<Longrightarrow> libartBase (maps (d_pid d)) = Some (base, lo, hi) \<Longrightarrow>
      json_decodes unmarshal (map (env_pair base (d_slots d)) (env_keys lo hi (d_slots d)))"
  shows "\<exists>d \<in> set ds. \<exists>base lo hi out. libartBase (maps (d_pid d)) = Some (base, lo, hi) \<and>
    offsetsFromFile unmarshal (Some t) = Some out \<and>
    (\<forall>off j. out off = Some j \<longrightarrow>
      (\<exists>i < 233. in_exec lo hi (d_slots d ! i) \<and> off = d_slots d ! i - base \<and> j = int i)) \<and>
    (\<forall>i < 233. in_exec lo hi (d_slots d ! i) \<longrightarrow> d_slots d ! i - base \<in> dom out)"
proof -
  obtain d r where d: "d \<in> set ds" "libartBase (maps (d_pid d)) = Some r" "env_file r (d_slots d) = Some t"
    using runEnv_loop_picks [OF assms(1,2)] by blast
  obtain base lo hi where r: "r = (base, lo, hi)" by (cases r)
  have "length (d_slots d) = NSLOTS" using assms(1) d(1) by blast
  from env_file_read_back [OF d(3) [unfolded r] this assms(3) [OF d(1) d(2) [unfolded r]]] d r
  show ?thesis by blast
qed

section \<open>A run\<close>

text \<open>A dump in which slots 6 to 159 point into the executable segment of the library.\<close>

definition demo_slots :: "u64 list" where
  "demo_slots = map (\<lambda>i. if 6 \<le> i \<and> i < 160 then 0x101010101010000 + word_of_nat i else 0) [0..<NSLOTS]"

definition demo_dump :: dump_t where
  "demo_dump = \<lparr>d_pid = 7, d_site = 1, d_reg = 1, d_pad = 0, d_env = 0x10000, d_table = 0x20000,
     d_slots = demo_slots\<rparr>"

definition demo_pairs :: "(string \<times> string) list" where
  "demo_pairs = map (env_pair 0x7000 demo_slots) (env_keys 0x101010101010000 0x101010101020000 demo_slots)"

definition demo_unmarshal :: "string \<Rightarrow> (string \<times> string) list option" where
  "demo_unmarshal t = (if t = json_object demo_pairs then Some (rev demo_pairs) else None)"

lemma demo_slots_nth:
  "i < 240 \<Longrightarrow> demo_slots ! i = (if 6 \<le> i \<and> i < 160 then 0x101010101010000 + word_of_nat i else 0)"
  by (simp add: demo_slots_def NSLOTS_def del: upt_rec_numeral)

lemma demo_slots_exec:
  "6 \<le> i \<Longrightarrow> i < 160 \<Longrightarrow> in_exec 0x101010101010000 0x101010101020000 (0x101010101010000 + word_of_nat i)"
proof -
  assume "6 \<le> i" "i < 160"
  then have "unat (0x101010101010000 + word_of_nat i :: u64) = 0x101010101010000 + i"
    by (simp only: unat_word_ariths unat_of_nat) simp
  with \<open>i < 160\<close> show ?thesis by (simp add: in_exec_def word_le_nat_alt word_less_nat_alt)
qed

lemma demo_slots_enough: "enough_slots 0x101010101010000 0x101010101020000 demo_slots"
proof -
  have "filter (in_exec 0x101010101010000 0x101010101020000) demo_slots =
      map (\<lambda>i. 0x101010101010000 + word_of_nat i) (filter (\<lambda>i. 6 \<le> i \<and> i < 160) [0..<240])"
    unfolding demo_slots_def NSLOTS_def filter_map
    by (intro map_cong filter_cong refl)
      (auto simp: demo_slots_exec in_exec_def [of _ _ 0] simp del: upt_rec_numeral split: if_splits)
  also have "filter (\<lambda>i. 6 \<le> i \<and> i < 160) [0..<240] = [6..<160]" by code_simp
  finally show ?thesis by (simp add: enough_slots_def demo_slots_def NSLOTS_def del: upt_rec_numeral)
qed

theorem env_command_round_trip_witness:
  "\<exists>out. offsetsFromFile demo_unmarshal (runEnv_loop (\<lambda>_. Some scan_demo_maps) [dump_bytes (\<lambda>_. 0) demo_dump]) = Some out \<and>
     0x101010101010006 - 0x7000 \<in> dom out"
proof -
  have len: "length (d_slots demo_dump) = NSLOTS" by (simp add: demo_dump_def demo_slots_def)
  have slots: "d_slots demo_dump = demo_slots" by (simp add: demo_dump_def)
  have run: "runEnv_loop (\<lambda>_. Some scan_demo_maps) (map (dump_bytes (\<lambda>_. 0)) [demo_dump]) = Some (json_object demo_pairs)"
    using demo_slots_enough
    by (simp add: read_dump_bytes [OF len] dump_mirror_def slots scan_demo_maps_parse env_file_def demo_pairs_def)
  have json: "json_decodes demo_unmarshal (map (env_pair base (d_slots d)) (env_keys lo hi (d_slots d)))"
    if "d \<in> set [demo_dump]" "libartBase (Some scan_demo_maps) = Some (base, lo, hi)" for d base lo hi
    using that by (auto simp: scan_demo_maps_parse slots json_decodes_def demo_unmarshal_def
        demo_pairs_def [symmetric])
  have six: "d_slots demo_dump ! 6 = 0x101010101010006" using demo_slots_nth [of 6] by (simp add: demo_dump_def)
  then have exec: "in_exec 0x101010101010000 0x101010101020000 (d_slots demo_dump ! 6)"
    using demo_slots_exec [of 6] by simp
  obtain d base lo hi out where d: "d \<in> set [demo_dump]"
    "libartBase (Some scan_demo_maps) = Some (base, lo, hi)"
    "offsetsFromFile demo_unmarshal (Some (json_object demo_pairs)) = Some out"
    "\<forall>i < 233. in_exec lo hi (d_slots d ! i) \<longrightarrow> d_slots d ! i - base \<in> dom out"
    using env_command_round_trip [OF _ run json] len by fastforce
  from d(4) have "in_exec lo hi (d_slots d ! 6) \<longrightarrow> d_slots d ! 6 - base \<in> dom out" by simp
  with d(1,2) exec six have "0x101010101010006 - 0x7000 \<in> dom out" by (simp add: scan_demo_maps_parse)
  with d(3) run show ?thesis by auto
qed

end
