(* ===== verification/CTypes.thy ===== *)
theory CTypes
  imports Prelude
begin

text \<open>
  The C types of \<^verbatim>\<open>vmlinux.h\<close> and their layout for the target the BPF programs are compiled for
  (LP64, little endian, natural alignment). A type is a value of \<open>ctyp\<close>, with the members of
  structures and unions in source order; what a pointer points to is kept as the text of its type and
  plays no part in the layout. \<open>talign\<close> and \<open>tsize\<close> are the compiler's alignment and size in
  bytes, \<open>place\<close> its choice of the position of a member in bits. The lemmas say what every layout
  has in common: alignments are powers of two that divide sizes, the members of a structure follow
  each other without overlap, aligned and inside it, a bit-field stays within one storage unit, and
  the members of a union all start at 0. \<open>field\<close> finds a member by its name, also inside unnamed
  members.
\<close>

named_theorems layout

section \<open>Types\<close>

datatype ctyp =
    CInt bool nat
  | CPtr string
  | CFn
  | CEnum "(string \<times> int) list"
  | CArr ctyp nat
  | CStruct bool "cmember list"
  | CUnion bool "cmember list"
and cmember =
    Mem string ctyp
  | Bits string ctyp nat

text \<open>
  \<open>CInt signed bytes\<close>; \<open>CFn\<close> is a pointer to a function; the flag of a structure or union is
  \<^verbatim>\<open>__attribute__((packed))\<close>; \<open>Bits\<close> is a bit-field of the given width and declared type, with
  the empty name when it is padding; an unnamed member has the empty name.
\<close>

abbreviation c_bool :: ctyp where "c_bool \<equiv> CInt False 1"
abbreviation c_char :: ctyp where "c_char \<equiv> CInt True 1"
abbreviation c_schar :: ctyp where "c_schar \<equiv> CInt True 1"
abbreviation c_uchar :: ctyp where "c_uchar \<equiv> CInt False 1"
abbreviation c_short :: ctyp where "c_short \<equiv> CInt True 2"
abbreviation c_ushort :: ctyp where "c_ushort \<equiv> CInt False 2"
abbreviation c_int :: ctyp where "c_int \<equiv> CInt True 4"
abbreviation c_uint :: ctyp where "c_uint \<equiv> CInt False 4"
abbreviation c_long :: ctyp where "c_long \<equiv> CInt True 8"
abbreviation c_ulong :: ctyp where "c_ulong \<equiv> CInt False 8"
abbreviation c_llong :: ctyp where "c_llong \<equiv> CInt True 8"
abbreviation c_ullong :: ctyp where "c_ullong \<equiv> CInt False 8"
abbreviation c_uint128 :: ctyp where "c_uint128 \<equiv> CInt False 16"

text \<open>The header writes gaps of whole words as unnamed \<^verbatim>\<open>long: 64;\<close> members, one per line.\<close>

abbreviation gap :: "nat \<Rightarrow> cmember" where "gap w \<equiv> Bits '''' c_long w"
abbreviation gaps :: "nat \<Rightarrow> cmember list" where "gaps n \<equiv> replicate n (gap 64)"

section \<open>Layout\<close>

definition up :: "nat \<Rightarrow> nat \<Rightarrow> nat" where
  "up a x = (if x mod a = 0 then x else x + (a - x mod a))"

text \<open>An enumeration is an \<^verbatim>\<open>int\<close> unless a value needs more than 32 bits.\<close>

definition enum_width :: "(string \<times> int) list \<Rightarrow> nat" where
  "enum_width es =
     (if list_all (\<lambda>e. - (2 ^ 31) \<le> snd e \<and> snd e < 2 ^ 31) es \<or>
         list_all (\<lambda>e. 0 \<le> snd e \<and> snd e < 2 ^ 32) es then 4 else 8)"

fun talign :: "ctyp \<Rightarrow> nat"
  and malign :: "cmember \<Rightarrow> nat"
  and aligns :: "cmember list \<Rightarrow> nat" where
  "talign (CInt _ n) = n"
| "talign (CPtr _) = 8"
| "talign CFn = 8"
| "talign (CEnum es) = enum_width es"
| "talign (CArr t _) = talign t"
| "talign (CStruct packed ms) = (if packed then 1 else aligns ms)"
| "talign (CUnion packed ms) = (if packed then 1 else aligns ms)"
| "malign (Mem _ t) = talign t"
| "malign (Bits nm t _) = (if nm = [] then 1 else talign t)"
| "aligns [] = 1"
| "aligns (m # ms) = max (malign m) (aligns ms)"

text \<open>
  \<open>place packed sz m x\<close>: the bit at which a member goes when the members before it end at bit \<open>x\<close>
  (\<open>sz\<close> is the width of its storage unit in bits). A bit-field of width 0 closes the unit; another
  one starts a new unit when it would not fit in the current one.
\<close>

fun place :: "bool \<Rightarrow> nat \<Rightarrow> cmember \<Rightarrow> nat \<Rightarrow> nat" where
  "place packed sz (Mem _ t) x = up (if packed then 8 else 8 * talign t) x"
| "place packed sz (Bits _ t w) x =
     (if w = 0 \<or> \<not> packed \<and> x mod (8 * talign t) + w > sz then up (8 * talign t) x else x)"

fun tsize :: "ctyp \<Rightarrow> nat"
  and mbits :: "cmember \<Rightarrow> nat"
  and munit :: "cmember \<Rightarrow> nat"
  and ends :: "bool \<Rightarrow> nat \<Rightarrow> cmember list \<Rightarrow> nat"
  and widest :: "cmember list \<Rightarrow> nat" where
  "tsize (CInt _ n) = n"
| "tsize (CPtr _) = 8"
| "tsize CFn = 8"
| "tsize (CEnum es) = enum_width es"
| "tsize (CArr t n) = tsize t * n"
| "tsize (CStruct packed ms) = up (if packed then 1 else aligns ms) ((ends packed 0 ms + 7) div 8)"
| "tsize (CUnion packed ms) = up (if packed then 1 else aligns ms) ((widest ms + 7) div 8)"
| "mbits (Mem _ t) = 8 * tsize t"
| "mbits (Bits _ _ w) = w"
| "munit (Mem _ t) = 0"
| "munit (Bits _ t _) = 8 * tsize t"
| "ends packed x [] = x"
| "ends packed x (m # ms) = ends packed (place packed (munit m) m x + mbits m) ms"
| "widest [] = 0"
| "widest (m # ms) = max (mbits m) (widest ms)"

fun starts :: "bool \<Rightarrow> nat \<Rightarrow> cmember list \<Rightarrow> nat list" where
  "starts packed x [] = []"
| "starts packed x (m # ms) =
     place packed (munit m) m x # starts packed (place packed (munit m) m x + mbits m) ms"

fun members :: "ctyp \<Rightarrow> (cmember \<times> nat) list" where
  "members (CStruct packed ms) = zip ms (starts packed 0 ms)"
| "members (CUnion packed ms) = map (\<lambda>m. (m, 0)) ms"
| "members _ = []"

section \<open>Access to a member\<close>

text \<open>
  \<open>field nm t\<close> is the bit at which member \<open>nm\<close> of \<open>t\<close> starts, and its type; members of unnamed
  structures and unions are members of the type around them.
\<close>

fun field :: "string \<Rightarrow> ctyp \<Rightarrow> (nat \<times> ctyp) option"
  and inside :: "string \<Rightarrow> cmember \<Rightarrow> (nat \<times> ctyp) option"
  and struct_field :: "string \<Rightarrow> bool \<Rightarrow> nat \<Rightarrow> cmember list \<Rightarrow> (nat \<times> ctyp) option"
  and union_field :: "string \<Rightarrow> cmember list \<Rightarrow> (nat \<times> ctyp) option" where
  "field nm (CStruct packed ms) = struct_field nm packed 0 ms"
| "field nm (CUnion packed ms) = union_field nm ms"
| "field nm (CInt _ _) = None"
| "field nm (CPtr _) = None"
| "field nm CFn = None"
| "field nm (CEnum _) = None"
| "field nm (CArr _ _) = None"
| "inside nm (Mem n t) = (if n = nm then Some (0, t) else if n = [] then field nm t else None)"
| "inside nm (Bits n t w) = None"
| "struct_field nm packed x [] = None"
| "struct_field nm packed x (m # ms) =
     (case inside nm m of
        Some (y, t) \<Rightarrow> Some (place packed (munit m) m x + y, t)
      | None \<Rightarrow> struct_field nm packed (place packed (munit m) m x + mbits m) ms)"
| "union_field nm [] = None"
| "union_field nm (m # ms) = (case inside nm m of Some r \<Rightarrow> Some r | None \<Rightarrow> union_field nm ms)"

definition offsetof :: "ctyp \<Rightarrow> string \<Rightarrow> nat option" where
  "offsetof t nm = map_option (\<lambda>r. fst r div 8) (field nm t)"

section \<open>Well-formed types\<close>

text \<open>Integers have a size the target knows; a bit-field has an integer type at least as wide.\<close>

fun wft :: "ctyp \<Rightarrow> bool"
  and wfm :: "cmember \<Rightarrow> bool"
  and wfms :: "cmember list \<Rightarrow> bool" where
  "wft (CInt _ n) = (n \<in> {1, 2, 4, 8, 16})"
| "wft (CPtr _) = True"
| "wft CFn = True"
| "wft (CEnum _) = True"
| "wft (CArr t _) = wft t"
| "wft (CStruct _ ms) = wfms ms"
| "wft (CUnion _ ms) = wfms ms"
| "wfm (Mem _ t) = wft t"
| "wfm (Bits _ t w) = (wft t \<and> tsize t = talign t \<and> w \<le> 8 * tsize t)"
| "wfms [] = True"
| "wfms (m # ms) = (wfm m \<and> wfms ms)"

lemma wfms_all: "wfms ms = list_all wfm ms"
  by (induction ms) auto

lemma enum_width_cases: "enum_width es = 4 \<or> enum_width es = 8"
  by (simp add: enum_width_def)

lemma pow2_max: "a = 2 ^ i \<Longrightarrow> b = 2 ^ j \<Longrightarrow> \<exists>k. max a b = (2 :: nat) ^ k"
  by (metis max_def)

lemma pow2_max': "\<exists>k. a = 2 ^ k \<Longrightarrow> \<exists>k. b = 2 ^ k \<Longrightarrow> \<exists>k. max a b = (2 :: nat) ^ k"
  using pow2_max by blast

lemma pow2_small: "\<exists>k. 1 = (2 :: nat) ^ k" "\<exists>k. 2 = (2 :: nat) ^ k" "\<exists>k. 4 = (2 :: nat) ^ k"
    "\<exists>k. 8 = (2 :: nat) ^ k" "\<exists>k. 16 = (2 :: nat) ^ k"
  by (rule exI [of _ 0], simp) (rule exI [of _ 1], simp, rule exI [of _ 2], simp,
      rule exI [of _ 3], simp, rule exI [of _ 4], simp)

lemma talign_pow2:
  "wft t \<Longrightarrow> \<exists>k. talign t = 2 ^ k"
  "wfm m \<Longrightarrow> \<exists>k. malign m = 2 ^ k"
  "wfms ms \<Longrightarrow> \<exists>k. aligns ms = 2 ^ k"
proof (induction t and m and ms rule: talign_malign_aligns.induct)
  case (1 b n)
  then show ?case using pow2_small by auto
next
  case (4 es)
  then show ?case using enum_width_cases [of es] pow2_small(3,4) by auto
next
  case (11 m ms)
  then show ?case by (simp add: pow2_max')
qed (use pow2_small in auto)

lemma talign_pos: "wft t \<Longrightarrow> 0 < talign t" "wfm m \<Longrightarrow> 0 < malign m" "wfms ms \<Longrightarrow> 0 < aligns ms"
  using talign_pow2(1) [of t] talign_pow2(2) [of m] talign_pow2(3) [of ms] by auto

section \<open>Rounding\<close>

lemma up_ge: "x \<le> up a x"
  by (simp add: up_def)

lemma up_dvd: "0 < a \<Longrightarrow> a dvd up a x"
proof -
  assume "0 < a"
  then have "x mod a < a" by simp
  then have "x + (a - x mod a) = (x div a + 1) * a"
    using div_mult_mod_eq [of x a] by (simp only: distrib_right)
  then have "a dvd x + (a - x mod a)" by (metis dvd_triv_right)
  then show ?thesis by (auto simp: up_def)
qed

lemma up_less: "0 < a \<Longrightarrow> up a x < x + a"
  by (simp add: up_def)

lemma up_id: "a dvd x \<Longrightarrow> up a x = x"
  by (simp add: up_def)

text \<open>Numerals stay numerals in \<^const>\<open>max\<close>.\<close>

declare max_numeral_Suc [simp del] max_Suc_numeral [simp del]

lemma max_one [simp]: "max (numeral k) (Suc 0) = numeral k" "max (Suc 0) (numeral k) = numeral k"
  by (simp_all add: max_def)

lemma up_one [simp]: "up (Suc 0) x = x"
  by (simp add: up_def)

section \<open>Alignments divide\<close>

lemma pow2_dvd:
  assumes "\<exists>k. a = (2 :: nat) ^ k" and "\<exists>k. b = (2 :: nat) ^ k" and "a \<le> b"
  shows "a dvd b"
  using assms by (auto dest: power_le_imp_le_exp [rotated] intro: le_imp_power_dvd)

lemma malign_le: "m \<in> set ms \<Longrightarrow> malign m \<le> aligns ms"
  by (induction ms) auto

lemma malign_dvd: "wfms ms \<Longrightarrow> m \<in> set ms \<Longrightarrow> malign m dvd aligns ms"
  using talign_pow2(2) [of m] talign_pow2(3) [of ms] malign_le [of m ms]
  by (auto simp: wfms_all list_all_iff intro: pow2_dvd)

lemma talign_dvd_tsize_all:
  "wft t \<Longrightarrow> talign t dvd tsize t"
  "wfm m \<Longrightarrow> \<forall>nm t. m = Mem nm t \<longrightarrow> 8 * talign t dvd mbits m"
  "wfms ms \<Longrightarrow> \<forall>nm t. Mem nm t \<in> set ms \<longrightarrow> talign t dvd tsize t"
  by (induction t and m and ms rule: talign_malign_aligns.induct)
    (auto simp: talign_pos up_dvd)

lemmas talign_dvd_tsize = talign_dvd_tsize_all(1)

section \<open>Where the members are\<close>

lemma place_ge: "x \<le> place packed sz m x"
  by (cases m) (auto simp: up_ge)

lemma ends_ge: "x \<le> ends packed x ms"
proof (induction ms arbitrary: x)
  case (Cons m ms)
  have "x \<le> place packed (munit m) m x + mbits m" using place_ge le_add1 order.trans by blast
  also have "\<dots> \<le> ends packed (place packed (munit m) m x + mbits m) ms" by (rule Cons.IH)
  finally show ?case by simp
qed simp

lemma length_starts [simp]: "length (starts packed x ms) = length ms"
  by (induction ms arbitrary: x) (auto simp: Let_def)

lemma starts_bounds:
  "(m, p) \<in> set (zip ms (starts packed x ms)) \<Longrightarrow> x \<le> p \<and> p + mbits m \<le> ends packed x ms"
proof (induction ms arbitrary: x)
  case (Cons m' ms)
  let ?p = "place packed (munit m') m' x"
  have x: "x \<le> ?p" by (rule place_ge)
  from Cons.prems consider "m = m'" "p = ?p" | "(m, p) \<in> set (zip ms (starts packed (?p + mbits m') ms))"
    by (auto simp: Let_def)
  then show ?case
  proof cases
    case 1
    then show ?thesis using x ends_ge by simp
  next
    case 2
    from Cons.IH [OF this] x show ?thesis by simp
  qed
qed simp

lemma starts_ordered:
  "sorted_wrt (\<lambda>(m, p) (m', p'). p + mbits m \<le> p') (zip ms (starts packed x ms))"
  by (induction ms arbitrary: x) (auto simp: Let_def dest: starts_bounds)

lemma starts_place:
  "(m, p) \<in> set (zip ms (starts packed x ms)) \<Longrightarrow> \<exists>y. p = place packed (munit m) m y"
  by (induction ms arbitrary: x) (auto simp: Let_def)

lemma member_aligned:
  assumes "(Mem nm t, p) \<in> set (zip ms (starts False x ms))" and "wft t"
  shows "8 * talign t dvd p"
  using starts_place [OF assms(1)] talign_pos(1) [OF assms(2)] by (auto simp: up_dvd)

lemma bits_in_unit:
  assumes "(Bits nm t w, p) \<in> set (zip ms (starts False x ms))" and "wfm (Bits nm t w)"
  shows "p mod (8 * tsize t) + w \<le> 8 * tsize t"
proof -
  from assms(2) have u: "talign t = tsize t" "w \<le> 8 * tsize t" "0 < tsize t"
    using talign_pos(1) [of t] by auto
  obtain y where "p = place False (munit (Bits nm t w)) (Bits nm t w) y"
    using starts_place [OF assms(1)] by blast
  with u up_dvd [of "8 * tsize t" y] show ?thesis
    by (auto simp: mod_eq_0_iff_dvd split: if_splits)
qed

lemma ends_tsize: "ends packed 0 ms \<le> 8 * tsize (CStruct packed ms)"
proof -
  let ?n = "(ends packed 0 ms + 7) div 8"
  have "ends packed 0 ms \<le> 8 * ?n" by linarith
  also have "\<dots> \<le> 8 * tsize (CStruct packed ms)"
    using up_ge [of ?n "if packed then 1 else aligns ms"] by simp
  finally show ?thesis .
qed

lemma mbits_tsize_union: "m \<in> set ms \<Longrightarrow> mbits m \<le> 8 * tsize (CUnion packed ms)"
proof -
  assume "m \<in> set ms"
  then have "mbits m \<le> widest ms" by (induction ms) auto
  also have "\<dots> \<le> 8 * ((widest ms + 7) div 8)" by linarith
  also have "\<dots> \<le> 8 * tsize (CUnion packed ms)"
    using up_ge [of "(widest ms + 7) div 8" "if packed then 1 else aligns ms"] by simp
  finally show ?thesis .
qed

section \<open>A member lies inside its object, at a multiple of its alignment\<close>

text \<open>\<open>natural t\<close>: no structure or union within \<open>t\<close> is packed.\<close>

fun natural :: "ctyp \<Rightarrow> bool"
  and naturalm :: "cmember \<Rightarrow> bool"
  and naturals :: "cmember list \<Rightarrow> bool" where
  "natural (CArr t _) = natural t"
| "natural (CStruct packed ms) = (\<not> packed \<and> naturals ms)"
| "natural (CUnion packed ms) = (\<not> packed \<and> naturals ms)"
| "natural (CInt _ _) = True"
| "natural (CPtr _) = True"
| "natural CFn = True"
| "natural (CEnum _) = True"
| "naturalm (Mem _ t) = natural t"
| "naturalm (Bits _ t w) = True"
| "naturals [] = True"
| "naturals (m # ms) = (naturalm m \<and> naturals ms)"

lemma field_inside_all:
  "field nm t = Some (x, t') \<Longrightarrow> x + 8 * tsize t' \<le> 8 * tsize t"
  "inside nm m = Some (x, t') \<Longrightarrow> x + 8 * tsize t' \<le> mbits m"
  "struct_field nm packed z ms = Some (x, t') \<Longrightarrow> x + 8 * tsize t' \<le> ends packed z ms"
  "union_field nm ms = Some (x, t') \<Longrightarrow> x + 8 * tsize t' \<le> widest ms"
proof (induction nm t and nm m and nm packed z ms and nm ms arbitrary: x and x and x and x
    rule: field_inside_struct_field_union_field.induct)
  case (1 nm packed ms)
  then have "x + 8 * tsize t' \<le> ends packed 0 ms" by simp
  then show ?case using ends_tsize [of packed ms] by (rule order.trans)
next
  case (2 nm packed ms)
  then have "x + 8 * tsize t' \<le> widest ms" by simp
  also have "\<dots> \<le> 8 * tsize (CUnion packed ms)"
    using up_ge [of "(widest ms + 7) div 8" "if packed then 1 else aligns ms"] by simp
  finally show ?case .
next
  case (8 nm n t)
  then show ?case by (auto split: if_splits)
next
  case (11 nm packed z m ms)
  let ?p = "place packed (munit m) m z"
  show ?case
  proof (cases "inside nm m")
    case None
    with 11 show ?thesis by (auto simp: Let_def)
  next
    case (Some r)
    with 11(1) [of "fst r"] 11(3) ends_ge [of "?p + mbits m" packed ms]
    show ?thesis by (cases r) (auto simp: Let_def)
  qed
next
  case (13 nm m ms)
  show ?case
  proof (cases "inside nm m")
    case None
    with 13(2) 13(3) show ?thesis by fastforce
  next
    case (Some r)
    with 13(1) [of "fst r"] 13(3) show ?thesis by (cases r) auto
  qed
qed auto

lemmas field_inside = field_inside_all(1)

lemma dvd_max_pow2:
  assumes "d dvd a" and "wfm m" and "wfms ms" and "a = malign m \<or> a = aligns ms"
  shows "d dvd max (malign m) (aligns ms)"
proof -
  have "malign m dvd max (malign m) (aligns ms)" "aligns ms dvd max (malign m) (aligns ms)"
    using malign_dvd [of "m # ms" m] pow2_dvd [of "aligns ms" "aligns (m # ms)"]
      talign_pow2(3) [of ms] talign_pow2(3) [of "m # ms"] assms by auto
  with assms show ?thesis by (auto intro: dvd_trans)
qed

lemma field_aligned_all:
  "\<lbrakk>field nm t = Some (x, t'); wft t; natural t\<rbrakk>
     \<Longrightarrow> 8 * talign t' dvd x \<and> talign t' dvd talign t"
  "\<lbrakk>inside nm m = Some (x, t'); wfm m; naturalm m\<rbrakk>
     \<Longrightarrow> 8 * talign t' dvd x \<and> talign t' dvd malign m"
  "\<lbrakk>struct_field nm packed z ms = Some (x, t'); \<not> packed; wfms ms; naturals ms\<rbrakk>
     \<Longrightarrow> 8 * talign t' dvd x \<and> talign t' dvd aligns ms"
  "\<lbrakk>union_field nm ms = Some (x, t'); wfms ms; naturals ms\<rbrakk>
     \<Longrightarrow> 8 * talign t' dvd x \<and> talign t' dvd aligns ms"
proof (induction nm t and nm m and nm packed z ms and nm ms arbitrary: x and x and x and x
    rule: field_inside_struct_field_union_field.induct)
  case (8 nm n t)
  then show ?case by (auto split: if_splits)
next
  case (11 nm packed z m ms)
  let ?p = "place packed (munit m) m z"
  show ?case
  proof (cases "inside nm m")
    case None
    with 11 have "8 * talign t' dvd x \<and> talign t' dvd aligns ms" by (auto simp: Let_def)
    with 11 show ?thesis by (auto intro: dvd_max_pow2)
  next
    case (Some r)
    then obtain y where y: "inside nm m = Some (y, t')" "x = ?p + y"
      using 11 by (cases r) (auto simp: Let_def)
    with 11 have i: "8 * talign t' dvd y \<and> talign t' dvd malign m" by auto
    from y obtain n t where m: "m = Mem n t" by (cases m) auto
    with 11 have "8 * talign t dvd ?p" using talign_pos(1) [of t] by (simp add: up_dvd)
    with i m have "8 * talign t' dvd ?p" by (metis dvd_trans malign.simps(1) mult_dvd_mono dvd_refl)
    with i y 11 show ?thesis by (auto intro: dvd_max_pow2)
  qed
next
  case (13 nm m ms)
  show ?case
  proof (cases "inside nm m")
    case None
    with 13 have "8 * talign t' dvd x \<and> talign t' dvd aligns ms" by auto
    with 13 show ?thesis by (auto intro: dvd_max_pow2)
  next
    case (Some r)
    with 13 have "8 * talign t' dvd x \<and> talign t' dvd malign m" by auto
    with 13 show ?thesis by (auto intro: dvd_max_pow2)
  qed
qed auto

lemmas field_aligned = field_aligned_all(1)

section \<open>Gaps\<close>

text \<open>A run of unnamed words advances to the next word boundary and past the run.\<close>

lemma place_gap: "place False 64 (gap 64) x = up 64 x"
  by (simp add: up_def)

lemma gap_bits: "munit (gap 64) = 64" "mbits (gap 64) = 64" "malign (gap 64) = 1" "inside nm (gap 64) = None"
  by simp_all

lemma up_step: "up 64 (up 64 x + 64 * n) = up 64 x + 64 * n"
  using up_dvd [of 64 x] by (intro up_id) simp

lemma ends_gaps_Suc: "ends False x (gaps (Suc n) @ ms) = ends False (up 64 x + 64 * Suc n) ms"
proof (induction n arbitrary: x)
  case (Suc n)
  have "ends False x (gaps (Suc (Suc n)) @ ms) = ends False (up 64 x + 64) (gaps (Suc n) @ ms)"
    by (simp del: place.simps add: place_gap)
  also have "\<dots> = ends False (up 64 x + 64 * Suc (Suc n)) ms"
    unfolding Suc using up_step [of x 1] by (simp add: ac_simps)
  finally show ?case .
qed (simp del: place.simps add: place_gap)

lemma field_gaps_Suc:
  "struct_field nm False x (gaps (Suc n) @ ms) = struct_field nm False (up 64 x + 64 * Suc n) ms"
proof (induction n arbitrary: x)
  case (Suc n)
  have "struct_field nm False x (gaps (Suc (Suc n)) @ ms) =
      struct_field nm False (up 64 x + 64) (gaps (Suc n) @ ms)"
    by (simp del: place.simps add: place_gap Let_def)
  also have "\<dots> = struct_field nm False (up 64 x + 64 * Suc (Suc n)) ms"
    unfolding Suc using up_step [of x 1] by (simp add: ac_simps)
  finally show ?case .
qed (simp del: place.simps add: place_gap Let_def)

lemma aligns_gaps: "0 < aligns ms \<Longrightarrow> aligns (gaps n @ ms) = aligns ms"
  by (induction n) auto

lemma aligns_pos: "0 < aligns ms"
  by (induction ms) auto

lemma layout_gaps:
  "ends False x (gaps (numeral k) @ ms) = ends False (up 64 x + 64 * numeral k) ms"
  "struct_field nm False x (gaps (numeral k) @ ms) = struct_field nm False (up 64 x + 64 * numeral k) ms"
  "aligns (gaps n @ ms) = aligns ms"
  "ends False x (gaps (numeral k)) = up 64 x + 64 * numeral k"
  "struct_field nm False x (gaps (numeral k)) = None"
  "aligns (gaps n) = 1"
  using ends_gaps_Suc [of x "pred_numeral k" ms] field_gaps_Suc [of nm x "pred_numeral k" ms]
    ends_gaps_Suc [of x "pred_numeral k" "[]"] field_gaps_Suc [of nm x "pred_numeral k" "[]"]
    aligns_gaps [OF aligns_pos, of n ms] aligns_gaps [of "[]" n]
  by (simp_all add: numeral_eq_Suc [symmetric] del: replicate_Suc)

lemma wf_gaps:
  "wfms (gaps n)" "naturals (gaps n)" "wfms (xs @ ys) = (wfms xs \<and> wfms ys)"
  "naturals (xs @ ys) = (naturals xs \<and> naturals ys)"
proof -
  show "wfms (gaps n)" by (induction n) auto
  show "naturals (gaps n)" by (induction n) auto
  show "wfms (xs @ ys) = (wfms xs \<and> wfms ys)" by (induction xs) auto
  show "naturals (xs @ ys) = (naturals xs \<and> naturals ys)" by (induction xs) auto
qed

text \<open>
  Evaluation of a layout: \<open>layout\<close> collects the sizes and alignments of the types already laid
  out, so that each type is evaluated over those it contains and never unfolded further.
\<close>

lemmas layout_simps = layout_gaps wf_gaps up_def offsetof_def

end
