(* ===== verification/KernelEnums.thy ===== *)
theory KernelEnums
  imports CTypes
begin

text \<open>
  The enumerations of \<^verbatim>\<open>vmlinux.h\<close> that the BPF machinery uses: map and program
  types, commands, attach points, helper numbers, flags of maps and of the ring buffer, states of
  the verifier and of perf events. One list of constants with their values per declaration, in
  source order; an enumeration without a tag is named after its first constant.
\<close>

section \<open>Enumerations\<close>

definition enum_perf_event_state :: "(string \<times> int) list" where
  "enum_perf_event_state =
    [(''PERF_EVENT_STATE_DEAD'', 4294967292), (''PERF_EVENT_STATE_EXIT'', 4294967293),
     (''PERF_EVENT_STATE_ERROR'', 4294967294), (''PERF_EVENT_STATE_OFF'', 4294967295),
     (''PERF_EVENT_STATE_INACTIVE'', 0), (''PERF_EVENT_STATE_ACTIVE'', 1)]"

definition enum_uprobe_task_state :: "(string \<times> int) list" where
  "enum_uprobe_task_state =
    [(''UTASK_RUNNING'', 0), (''UTASK_SSTEP'', 1), (''UTASK_SSTEP_ACK'', 2),
     (''UTASK_SSTEP_TRAPPED'', 3)]"

definition enum_pid_type :: "(string \<times> int) list" where
  "enum_pid_type =
    [(''PIDTYPE_PID'', 0), (''PIDTYPE_TGID'', 1), (''PIDTYPE_PGID'', 2), (''PIDTYPE_SID'', 3),
     (''PIDTYPE_MAX'', 4)]"

definition enum_zone_type :: "(string \<times> int) list" where
  "enum_zone_type =
    [(''ZONE_DMA32'', 0), (''ZONE_NORMAL'', 1), (''ZONE_MOVABLE'', 2), (''__MAX_NR_ZONES'', 3)]"

definition enum_bpf_prog_type :: "(string \<times> int) list" where
  "enum_bpf_prog_type =
    [(''BPF_PROG_TYPE_UNSPEC'', 0), (''BPF_PROG_TYPE_SOCKET_FILTER'', 1),
     (''BPF_PROG_TYPE_KPROBE'', 2), (''BPF_PROG_TYPE_SCHED_CLS'', 3),
     (''BPF_PROG_TYPE_SCHED_ACT'', 4), (''BPF_PROG_TYPE_TRACEPOINT'', 5), (''BPF_PROG_TYPE_XDP'',
     6), (''BPF_PROG_TYPE_PERF_EVENT'', 7), (''BPF_PROG_TYPE_CGROUP_SKB'', 8),
     (''BPF_PROG_TYPE_CGROUP_SOCK'', 9), (''BPF_PROG_TYPE_LWT_IN'', 10),
     (''BPF_PROG_TYPE_LWT_OUT'', 11), (''BPF_PROG_TYPE_LWT_XMIT'', 12),
     (''BPF_PROG_TYPE_SOCK_OPS'', 13), (''BPF_PROG_TYPE_SK_SKB'', 14),
     (''BPF_PROG_TYPE_CGROUP_DEVICE'', 15), (''BPF_PROG_TYPE_SK_MSG'', 16),
     (''BPF_PROG_TYPE_RAW_TRACEPOINT'', 17), (''BPF_PROG_TYPE_CGROUP_SOCK_ADDR'', 18),
     (''BPF_PROG_TYPE_LWT_SEG6LOCAL'', 19), (''BPF_PROG_TYPE_LIRC_MODE2'', 20),
     (''BPF_PROG_TYPE_SK_REUSEPORT'', 21), (''BPF_PROG_TYPE_FLOW_DISSECTOR'', 22),
     (''BPF_PROG_TYPE_CGROUP_SYSCTL'', 23), (''BPF_PROG_TYPE_RAW_TRACEPOINT_WRITABLE'', 24),
     (''BPF_PROG_TYPE_CGROUP_SOCKOPT'', 25), (''BPF_PROG_TYPE_TRACING'', 26),
     (''BPF_PROG_TYPE_STRUCT_OPS'', 27), (''BPF_PROG_TYPE_EXT'', 28), (''BPF_PROG_TYPE_LSM'', 29),
     (''BPF_PROG_TYPE_SK_LOOKUP'', 30), (''BPF_PROG_TYPE_FUSE'', 31)]"

definition enum_bpf_attach_type :: "(string \<times> int) list" where
  "enum_bpf_attach_type =
    [(''BPF_CGROUP_INET_INGRESS'', 0), (''BPF_CGROUP_INET_EGRESS'', 1),
     (''BPF_CGROUP_INET_SOCK_CREATE'', 2), (''BPF_CGROUP_SOCK_OPS'', 3),
     (''BPF_SK_SKB_STREAM_PARSER'', 4), (''BPF_SK_SKB_STREAM_VERDICT'', 5),
     (''BPF_CGROUP_DEVICE'', 6), (''BPF_SK_MSG_VERDICT'', 7), (''BPF_CGROUP_INET4_BIND'', 8),
     (''BPF_CGROUP_INET6_BIND'', 9), (''BPF_CGROUP_INET4_CONNECT'', 10),
     (''BPF_CGROUP_INET6_CONNECT'', 11), (''BPF_CGROUP_INET4_POST_BIND'', 12),
     (''BPF_CGROUP_INET6_POST_BIND'', 13), (''BPF_CGROUP_UDP4_SENDMSG'', 14),
     (''BPF_CGROUP_UDP6_SENDMSG'', 15), (''BPF_LIRC_MODE2'', 16), (''BPF_FLOW_DISSECTOR'', 17),
     (''BPF_CGROUP_SYSCTL'', 18), (''BPF_CGROUP_UDP4_RECVMSG'', 19), (''BPF_CGROUP_UDP6_RECVMSG'',
     20), (''BPF_CGROUP_GETSOCKOPT'', 21), (''BPF_CGROUP_SETSOCKOPT'', 22), (''BPF_TRACE_RAW_TP'',
     23), (''BPF_TRACE_FENTRY'', 24), (''BPF_TRACE_FEXIT'', 25), (''BPF_MODIFY_RETURN'', 26),
     (''BPF_LSM_MAC'', 27), (''BPF_TRACE_ITER'', 28), (''BPF_CGROUP_INET4_GETPEERNAME'', 29),
     (''BPF_CGROUP_INET6_GETPEERNAME'', 30), (''BPF_CGROUP_INET4_GETSOCKNAME'', 31),
     (''BPF_CGROUP_INET6_GETSOCKNAME'', 32), (''BPF_XDP_DEVMAP'', 33),
     (''BPF_CGROUP_INET_SOCK_RELEASE'', 34), (''BPF_XDP_CPUMAP'', 35), (''BPF_SK_LOOKUP'', 36),
     (''BPF_XDP'', 37), (''__MAX_BPF_ATTACH_TYPE'', 38)]"

definition enum_bpf_reg_type :: "(string \<times> int) list" where
  "enum_bpf_reg_type =
    [(''NOT_INIT'', 0), (''SCALAR_VALUE'', 1), (''PTR_TO_CTX'', 2), (''CONST_PTR_TO_MAP'', 3),
     (''PTR_TO_MAP_VALUE'', 4), (''PTR_TO_MAP_VALUE_OR_NULL'', 5), (''PTR_TO_STACK'', 6),
     (''PTR_TO_PACKET_META'', 7), (''PTR_TO_PACKET'', 8), (''PTR_TO_PACKET_END'', 9),
     (''PTR_TO_FLOW_KEYS'', 10), (''PTR_TO_SOCKET'', 11), (''PTR_TO_SOCKET_OR_NULL'', 12),
     (''PTR_TO_SOCK_COMMON'', 13), (''PTR_TO_SOCK_COMMON_OR_NULL'', 14), (''PTR_TO_TCP_SOCK'',
     15), (''PTR_TO_TCP_SOCK_OR_NULL'', 16), (''PTR_TO_TP_BUFFER'', 17), (''PTR_TO_XDP_SOCK'',
     18), (''PTR_TO_BTF_ID'', 19), (''PTR_TO_BTF_ID_OR_NULL'', 20), (''PTR_TO_MEM'', 21),
     (''PTR_TO_MEM_OR_NULL'', 22), (''PTR_TO_RDONLY_BUF'', 23), (''PTR_TO_RDONLY_BUF_OR_NULL'',
     24), (''PTR_TO_RDWR_BUF'', 25), (''PTR_TO_RDWR_BUF_OR_NULL'', 26), (''PTR_TO_PERCPU_BTF_ID'',
     27)]"

definition enum_bpf_map_type :: "(string \<times> int) list" where
  "enum_bpf_map_type =
    [(''BPF_MAP_TYPE_UNSPEC'', 0), (''BPF_MAP_TYPE_HASH'', 1), (''BPF_MAP_TYPE_ARRAY'', 2),
     (''BPF_MAP_TYPE_PROG_ARRAY'', 3), (''BPF_MAP_TYPE_PERF_EVENT_ARRAY'', 4),
     (''BPF_MAP_TYPE_PERCPU_HASH'', 5), (''BPF_MAP_TYPE_PERCPU_ARRAY'', 6),
     (''BPF_MAP_TYPE_STACK_TRACE'', 7), (''BPF_MAP_TYPE_CGROUP_ARRAY'', 8),
     (''BPF_MAP_TYPE_LRU_HASH'', 9), (''BPF_MAP_TYPE_LRU_PERCPU_HASH'', 10),
     (''BPF_MAP_TYPE_LPM_TRIE'', 11), (''BPF_MAP_TYPE_ARRAY_OF_MAPS'', 12),
     (''BPF_MAP_TYPE_HASH_OF_MAPS'', 13), (''BPF_MAP_TYPE_DEVMAP'', 14),
     (''BPF_MAP_TYPE_SOCKMAP'', 15), (''BPF_MAP_TYPE_CPUMAP'', 16), (''BPF_MAP_TYPE_XSKMAP'', 17),
     (''BPF_MAP_TYPE_SOCKHASH'', 18), (''BPF_MAP_TYPE_CGROUP_STORAGE'', 19),
     (''BPF_MAP_TYPE_REUSEPORT_SOCKARRAY'', 20), (''BPF_MAP_TYPE_PERCPU_CGROUP_STORAGE'', 21),
     (''BPF_MAP_TYPE_QUEUE'', 22), (''BPF_MAP_TYPE_STACK'', 23), (''BPF_MAP_TYPE_SK_STORAGE'',
     24), (''BPF_MAP_TYPE_DEVMAP_HASH'', 25), (''BPF_MAP_TYPE_STRUCT_OPS'', 26),
     (''BPF_MAP_TYPE_RINGBUF'', 27), (''BPF_MAP_TYPE_INODE_STORAGE'', 28)]"

definition enum_bpf_netdev_command :: "(string \<times> int) list" where
  "enum_bpf_netdev_command =
    [(''XDP_SETUP_PROG'', 0), (''XDP_SETUP_PROG_HW'', 1), (''BPF_OFFLOAD_MAP_ALLOC'', 2),
     (''BPF_OFFLOAD_MAP_FREE'', 3), (''XDP_SETUP_XSK_POOL'', 4)]"

definition enum_perf_type_id :: "(string \<times> int) list" where
  "enum_perf_type_id =
    [(''PERF_TYPE_HARDWARE'', 0), (''PERF_TYPE_SOFTWARE'', 1), (''PERF_TYPE_TRACEPOINT'', 2),
     (''PERF_TYPE_HW_CACHE'', 3), (''PERF_TYPE_RAW'', 4), (''PERF_TYPE_BREAKPOINT'', 5),
     (''PERF_TYPE_MAX'', 6)]"

definition enum_perf_event_arm_regs :: "(string \<times> int) list" where
  "enum_perf_event_arm_regs =
    [(''PERF_REG_ARM64_X0'', 0), (''PERF_REG_ARM64_X1'', 1), (''PERF_REG_ARM64_X2'', 2),
     (''PERF_REG_ARM64_X3'', 3), (''PERF_REG_ARM64_X4'', 4), (''PERF_REG_ARM64_X5'', 5),
     (''PERF_REG_ARM64_X6'', 6), (''PERF_REG_ARM64_X7'', 7), (''PERF_REG_ARM64_X8'', 8),
     (''PERF_REG_ARM64_X9'', 9), (''PERF_REG_ARM64_X10'', 10), (''PERF_REG_ARM64_X11'', 11),
     (''PERF_REG_ARM64_X12'', 12), (''PERF_REG_ARM64_X13'', 13), (''PERF_REG_ARM64_X14'', 14),
     (''PERF_REG_ARM64_X15'', 15), (''PERF_REG_ARM64_X16'', 16), (''PERF_REG_ARM64_X17'', 17),
     (''PERF_REG_ARM64_X18'', 18), (''PERF_REG_ARM64_X19'', 19), (''PERF_REG_ARM64_X20'', 20),
     (''PERF_REG_ARM64_X21'', 21), (''PERF_REG_ARM64_X22'', 22), (''PERF_REG_ARM64_X23'', 23),
     (''PERF_REG_ARM64_X24'', 24), (''PERF_REG_ARM64_X25'', 25), (''PERF_REG_ARM64_X26'', 26),
     (''PERF_REG_ARM64_X27'', 27), (''PERF_REG_ARM64_X28'', 28), (''PERF_REG_ARM64_X29'', 29),
     (''PERF_REG_ARM64_LR'', 30), (''PERF_REG_ARM64_SP'', 31), (''PERF_REG_ARM64_PC'', 32),
     (''PERF_REG_ARM64_MAX'', 33)]"

definition enum_perf_sample_regs_abi :: "(string \<times> int) list" where
  "enum_perf_sample_regs_abi =
    [(''PERF_SAMPLE_REGS_ABI_NONE'', 0), (''PERF_SAMPLE_REGS_ABI_32'', 1),
     (''PERF_SAMPLE_REGS_ABI_64'', 2)]"

definition enum_perf_sw_ids :: "(string \<times> int) list" where
  "enum_perf_sw_ids =
    [(''PERF_COUNT_SW_CPU_CLOCK'', 0), (''PERF_COUNT_SW_TASK_CLOCK'', 1),
     (''PERF_COUNT_SW_PAGE_FAULTS'', 2), (''PERF_COUNT_SW_CONTEXT_SWITCHES'', 3),
     (''PERF_COUNT_SW_CPU_MIGRATIONS'', 4), (''PERF_COUNT_SW_PAGE_FAULTS_MIN'', 5),
     (''PERF_COUNT_SW_PAGE_FAULTS_MAJ'', 6), (''PERF_COUNT_SW_ALIGNMENT_FAULTS'', 7),
     (''PERF_COUNT_SW_EMULATION_FAULTS'', 8), (''PERF_COUNT_SW_DUMMY'', 9),
     (''PERF_COUNT_SW_BPF_OUTPUT'', 10), (''PERF_COUNT_SW_MAX'', 11)]"

definition enum_of_BPF_REG_0 :: "(string \<times> int) list" where
  "enum_of_BPF_REG_0 =
    [(''BPF_REG_0'', 0), (''BPF_REG_1'', 1), (''BPF_REG_2'', 2), (''BPF_REG_3'', 3),
     (''BPF_REG_4'', 4), (''BPF_REG_5'', 5), (''BPF_REG_6'', 6), (''BPF_REG_7'', 7),
     (''BPF_REG_8'', 8), (''BPF_REG_9'', 9), (''BPF_REG_10'', 10), (''__MAX_BPF_REG'', 11)]"

definition enum_ftrace_dump_mode :: "(string \<times> int) list" where
  "enum_ftrace_dump_mode =
    [(''DUMP_NONE'', 0), (''DUMP_ALL'', 1), (''DUMP_ORIG'', 2)]"

definition enum_bpf_link_type :: "(string \<times> int) list" where
  "enum_bpf_link_type =
    [(''BPF_LINK_TYPE_UNSPEC'', 0), (''BPF_LINK_TYPE_RAW_TRACEPOINT'', 1),
     (''BPF_LINK_TYPE_TRACING'', 2), (''BPF_LINK_TYPE_CGROUP'', 3), (''BPF_LINK_TYPE_ITER'', 4),
     (''BPF_LINK_TYPE_NETNS'', 5), (''BPF_LINK_TYPE_XDP'', 6), (''MAX_BPF_LINK_TYPE'', 7)]"

definition enum_perf_record_ksymbol_type :: "(string \<times> int) list" where
  "enum_perf_record_ksymbol_type =
    [(''PERF_RECORD_KSYMBOL_TYPE_UNKNOWN'', 0), (''PERF_RECORD_KSYMBOL_TYPE_BPF'', 1),
     (''PERF_RECORD_KSYMBOL_TYPE_OOL'', 2), (''PERF_RECORD_KSYMBOL_TYPE_MAX'', 3)]"

definition enum_perf_event_sample_format :: "(string \<times> int) list" where
  "enum_perf_event_sample_format =
    [(''PERF_SAMPLE_IP'', 1), (''PERF_SAMPLE_TID'', 2), (''PERF_SAMPLE_TIME'', 4),
     (''PERF_SAMPLE_ADDR'', 8), (''PERF_SAMPLE_READ'', 16), (''PERF_SAMPLE_CALLCHAIN'', 32),
     (''PERF_SAMPLE_ID'', 64), (''PERF_SAMPLE_CPU'', 128), (''PERF_SAMPLE_PERIOD'', 256),
     (''PERF_SAMPLE_STREAM_ID'', 512), (''PERF_SAMPLE_RAW'', 1024), (''PERF_SAMPLE_BRANCH_STACK'',
     2048), (''PERF_SAMPLE_REGS_USER'', 4096), (''PERF_SAMPLE_STACK_USER'', 8192),
     (''PERF_SAMPLE_WEIGHT'', 16384), (''PERF_SAMPLE_DATA_SRC'', 32768),
     (''PERF_SAMPLE_IDENTIFIER'', 65536), (''PERF_SAMPLE_TRANSACTION'', 131072),
     (''PERF_SAMPLE_REGS_INTR'', 262144), (''PERF_SAMPLE_PHYS_ADDR'', 524288),
     (''PERF_SAMPLE_AUX'', 1048576), (''PERF_SAMPLE_CGROUP'', 2097152), (''PERF_SAMPLE_MAX'',
     4194304), (''__PERF_SAMPLE_CALLCHAIN_EARLY'', 0)]"

definition enum_bpf_return_type :: "(string \<times> int) list" where
  "enum_bpf_return_type =
    [(''RET_INTEGER'', 0), (''RET_VOID'', 1), (''RET_PTR_TO_MAP_VALUE'', 2),
     (''RET_PTR_TO_MAP_VALUE_OR_NULL'', 3), (''RET_PTR_TO_SOCKET_OR_NULL'', 4),
     (''RET_PTR_TO_TCP_SOCK_OR_NULL'', 5), (''RET_PTR_TO_SOCK_COMMON_OR_NULL'', 6),
     (''RET_PTR_TO_ALLOC_MEM_OR_NULL'', 7), (''RET_PTR_TO_BTF_ID_OR_NULL'', 8),
     (''RET_PTR_TO_MEM_OR_BTF_ID_OR_NULL'', 9), (''RET_PTR_TO_MEM_OR_BTF_ID'', 10)]"

definition enum_bpf_arg_type :: "(string \<times> int) list" where
  "enum_bpf_arg_type =
    [(''ARG_DONTCARE'', 0), (''ARG_CONST_MAP_PTR'', 1), (''ARG_PTR_TO_MAP_KEY'', 2),
     (''ARG_PTR_TO_MAP_VALUE'', 3), (''ARG_PTR_TO_UNINIT_MAP_VALUE'', 4),
     (''ARG_PTR_TO_MAP_VALUE_OR_NULL'', 5), (''ARG_PTR_TO_MEM'', 6), (''ARG_PTR_TO_MEM_OR_NULL'',
     7), (''ARG_PTR_TO_UNINIT_MEM'', 8), (''ARG_CONST_SIZE'', 9), (''ARG_CONST_SIZE_OR_ZERO'',
     10), (''ARG_PTR_TO_CTX'', 11), (''ARG_PTR_TO_CTX_OR_NULL'', 12), (''ARG_ANYTHING'', 13),
     (''ARG_PTR_TO_SPIN_LOCK'', 14), (''ARG_PTR_TO_SOCK_COMMON'', 15), (''ARG_PTR_TO_INT'', 16),
     (''ARG_PTR_TO_LONG'', 17), (''ARG_PTR_TO_SOCKET'', 18), (''ARG_PTR_TO_SOCKET_OR_NULL'', 19),
     (''ARG_PTR_TO_BTF_ID'', 20), (''ARG_PTR_TO_ALLOC_MEM'', 21),
     (''ARG_PTR_TO_ALLOC_MEM_OR_NULL'', 22), (''ARG_CONST_ALLOC_SIZE_OR_ZERO'', 23),
     (''ARG_PTR_TO_BTF_ID_SOCK_COMMON'', 24), (''ARG_PTR_TO_PERCPU_BTF_ID'', 25),
     (''__BPF_ARG_TYPE_MAX'', 26)]"

definition enum_bpf_func_id_lo :: "(string \<times> int) list" where
  "enum_bpf_func_id_lo =
    [(''BPF_FUNC_unspec'', 0), (''BPF_FUNC_map_lookup_elem'', 1), (''BPF_FUNC_map_update_elem'',
     2), (''BPF_FUNC_map_delete_elem'', 3), (''BPF_FUNC_probe_read'', 4),
     (''BPF_FUNC_ktime_get_ns'', 5), (''BPF_FUNC_trace_printk'', 6),
     (''BPF_FUNC_get_prandom_u32'', 7), (''BPF_FUNC_get_smp_processor_id'', 8),
     (''BPF_FUNC_skb_store_bytes'', 9), (''BPF_FUNC_l3_csum_replace'', 10),
     (''BPF_FUNC_l4_csum_replace'', 11), (''BPF_FUNC_tail_call'', 12),
     (''BPF_FUNC_clone_redirect'', 13), (''BPF_FUNC_get_current_pid_tgid'', 14),
     (''BPF_FUNC_get_current_uid_gid'', 15), (''BPF_FUNC_get_current_comm'', 16),
     (''BPF_FUNC_get_cgroup_classid'', 17), (''BPF_FUNC_skb_vlan_push'', 18),
     (''BPF_FUNC_skb_vlan_pop'', 19), (''BPF_FUNC_skb_get_tunnel_key'', 20),
     (''BPF_FUNC_skb_set_tunnel_key'', 21), (''BPF_FUNC_perf_event_read'', 22),
     (''BPF_FUNC_redirect'', 23), (''BPF_FUNC_get_route_realm'', 24),
     (''BPF_FUNC_perf_event_output'', 25), (''BPF_FUNC_skb_load_bytes'', 26),
     (''BPF_FUNC_get_stackid'', 27), (''BPF_FUNC_csum_diff'', 28),
     (''BPF_FUNC_skb_get_tunnel_opt'', 29), (''BPF_FUNC_skb_set_tunnel_opt'', 30),
     (''BPF_FUNC_skb_change_proto'', 31), (''BPF_FUNC_skb_change_type'', 32),
     (''BPF_FUNC_skb_under_cgroup'', 33), (''BPF_FUNC_get_hash_recalc'', 34),
     (''BPF_FUNC_get_current_task'', 35), (''BPF_FUNC_probe_write_user'', 36),
     (''BPF_FUNC_current_task_under_cgroup'', 37), (''BPF_FUNC_skb_change_tail'', 38),
     (''BPF_FUNC_skb_pull_data'', 39), (''BPF_FUNC_csum_update'', 40),
     (''BPF_FUNC_set_hash_invalid'', 41), (''BPF_FUNC_get_numa_node_id'', 42),
     (''BPF_FUNC_skb_change_head'', 43), (''BPF_FUNC_xdp_adjust_head'', 44),
     (''BPF_FUNC_probe_read_str'', 45), (''BPF_FUNC_get_socket_cookie'', 46),
     (''BPF_FUNC_get_socket_uid'', 47), (''BPF_FUNC_set_hash'', 48), (''BPF_FUNC_setsockopt'',
     49), (''BPF_FUNC_skb_adjust_room'', 50), (''BPF_FUNC_redirect_map'', 51),
     (''BPF_FUNC_sk_redirect_map'', 52), (''BPF_FUNC_sock_map_update'', 53),
     (''BPF_FUNC_xdp_adjust_meta'', 54), (''BPF_FUNC_perf_event_read_value'', 55),
     (''BPF_FUNC_perf_prog_read_value'', 56), (''BPF_FUNC_getsockopt'', 57),
     (''BPF_FUNC_override_return'', 58), (''BPF_FUNC_sock_ops_cb_flags_set'', 59),
     (''BPF_FUNC_msg_redirect_map'', 60), (''BPF_FUNC_msg_apply_bytes'', 61),
     (''BPF_FUNC_msg_cork_bytes'', 62), (''BPF_FUNC_msg_pull_data'', 63), (''BPF_FUNC_bind'', 64),
     (''BPF_FUNC_xdp_adjust_tail'', 65), (''BPF_FUNC_skb_get_xfrm_state'', 66),
     (''BPF_FUNC_get_stack'', 67), (''BPF_FUNC_skb_load_bytes_relative'', 68),
     (''BPF_FUNC_fib_lookup'', 69), (''BPF_FUNC_sock_hash_update'', 70),
     (''BPF_FUNC_msg_redirect_hash'', 71), (''BPF_FUNC_sk_redirect_hash'', 72),
     (''BPF_FUNC_lwt_push_encap'', 73), (''BPF_FUNC_lwt_seg6_store_bytes'', 74),
     (''BPF_FUNC_lwt_seg6_adjust_srh'', 75), (''BPF_FUNC_lwt_seg6_action'', 76),
     (''BPF_FUNC_rc_repeat'', 77), (''BPF_FUNC_rc_keydown'', 78)]"

definition enum_bpf_func_id_hi :: "(string \<times> int) list" where
  "enum_bpf_func_id_hi =
    [(''BPF_FUNC_skb_cgroup_id'', 79), (''BPF_FUNC_get_current_cgroup_id'', 80),
     (''BPF_FUNC_get_local_storage'', 81), (''BPF_FUNC_sk_select_reuseport'', 82),
     (''BPF_FUNC_skb_ancestor_cgroup_id'', 83), (''BPF_FUNC_sk_lookup_tcp'', 84),
     (''BPF_FUNC_sk_lookup_udp'', 85), (''BPF_FUNC_sk_release'', 86), (''BPF_FUNC_map_push_elem'',
     87), (''BPF_FUNC_map_pop_elem'', 88), (''BPF_FUNC_map_peek_elem'', 89),
     (''BPF_FUNC_msg_push_data'', 90), (''BPF_FUNC_msg_pop_data'', 91),
     (''BPF_FUNC_rc_pointer_rel'', 92), (''BPF_FUNC_spin_lock'', 93), (''BPF_FUNC_spin_unlock'',
     94), (''BPF_FUNC_sk_fullsock'', 95), (''BPF_FUNC_tcp_sock'', 96),
     (''BPF_FUNC_skb_ecn_set_ce'', 97), (''BPF_FUNC_get_listener_sock'', 98),
     (''BPF_FUNC_skc_lookup_tcp'', 99), (''BPF_FUNC_tcp_check_syncookie'', 100),
     (''BPF_FUNC_sysctl_get_name'', 101), (''BPF_FUNC_sysctl_get_current_value'', 102),
     (''BPF_FUNC_sysctl_get_new_value'', 103), (''BPF_FUNC_sysctl_set_new_value'', 104),
     (''BPF_FUNC_strtol'', 105), (''BPF_FUNC_strtoul'', 106), (''BPF_FUNC_sk_storage_get'', 107),
     (''BPF_FUNC_sk_storage_delete'', 108), (''BPF_FUNC_send_signal'', 109),
     (''BPF_FUNC_tcp_gen_syncookie'', 110), (''BPF_FUNC_skb_output'', 111),
     (''BPF_FUNC_probe_read_user'', 112), (''BPF_FUNC_probe_read_kernel'', 113),
     (''BPF_FUNC_probe_read_user_str'', 114), (''BPF_FUNC_probe_read_kernel_str'', 115),
     (''BPF_FUNC_tcp_send_ack'', 116), (''BPF_FUNC_send_signal_thread'', 117),
     (''BPF_FUNC_jiffies64'', 118), (''BPF_FUNC_read_branch_records'', 119),
     (''BPF_FUNC_get_ns_current_pid_tgid'', 120), (''BPF_FUNC_xdp_output'', 121),
     (''BPF_FUNC_get_netns_cookie'', 122), (''BPF_FUNC_get_current_ancestor_cgroup_id'', 123),
     (''BPF_FUNC_sk_assign'', 124), (''BPF_FUNC_ktime_get_boot_ns'', 125),
     (''BPF_FUNC_seq_printf'', 126), (''BPF_FUNC_seq_write'', 127), (''BPF_FUNC_sk_cgroup_id'',
     128), (''BPF_FUNC_sk_ancestor_cgroup_id'', 129), (''BPF_FUNC_ringbuf_output'', 130),
     (''BPF_FUNC_ringbuf_reserve'', 131), (''BPF_FUNC_ringbuf_submit'', 132),
     (''BPF_FUNC_ringbuf_discard'', 133), (''BPF_FUNC_ringbuf_query'', 134),
     (''BPF_FUNC_csum_level'', 135), (''BPF_FUNC_skc_to_tcp6_sock'', 136),
     (''BPF_FUNC_skc_to_tcp_sock'', 137), (''BPF_FUNC_skc_to_tcp_timewait_sock'', 138),
     (''BPF_FUNC_skc_to_tcp_request_sock'', 139), (''BPF_FUNC_skc_to_udp6_sock'', 140),
     (''BPF_FUNC_get_task_stack'', 141), (''BPF_FUNC_load_hdr_opt'', 142),
     (''BPF_FUNC_store_hdr_opt'', 143), (''BPF_FUNC_reserve_hdr_opt'', 144),
     (''BPF_FUNC_inode_storage_get'', 145), (''BPF_FUNC_inode_storage_delete'', 146),
     (''BPF_FUNC_d_path'', 147), (''BPF_FUNC_copy_from_user'', 148), (''BPF_FUNC_snprintf_btf'',
     149), (''BPF_FUNC_seq_printf_btf'', 150), (''BPF_FUNC_skb_cgroup_classid'', 151),
     (''BPF_FUNC_redirect_neigh'', 152), (''BPF_FUNC_per_cpu_ptr'', 153),
     (''BPF_FUNC_this_cpu_ptr'', 154), (''BPF_FUNC_redirect_peer'', 155), (''__BPF_FUNC_MAX_ID'',
     156)]"

definition enum_bpf_func_id :: "(string \<times> int) list" where
  "enum_bpf_func_id = enum_bpf_func_id_lo @ enum_bpf_func_id_hi"

definition enum_bpf_access_type :: "(string \<times> int) list" where
  "enum_bpf_access_type =
    [(''BPF_READ'', 1), (''BPF_WRITE'', 2)]"

definition enum_bpf_task_fd_type :: "(string \<times> int) list" where
  "enum_bpf_task_fd_type =
    [(''BPF_FD_TYPE_RAW_TRACEPOINT'', 0), (''BPF_FD_TYPE_TRACEPOINT'', 1),
     (''BPF_FD_TYPE_KPROBE'', 2), (''BPF_FD_TYPE_KRETPROBE'', 3), (''BPF_FD_TYPE_UPROBE'', 4),
     (''BPF_FD_TYPE_URETPROBE'', 5)]"

definition enum_of_BTF_F_COMPACT :: "(string \<times> int) list" where
  "enum_of_BTF_F_COMPACT =
    [(''BTF_F_COMPACT'', 1), (''BTF_F_NONAME'', 2), (''BTF_F_PTR_RAW'', 4), (''BTF_F_ZERO'', 8)]"

definition enum_of_BPF_F_INDEX_MASK :: "(string \<times> int) list" where
  "enum_of_BPF_F_INDEX_MASK =
    [(''BPF_F_INDEX_MASK'', 4294967295), (''BPF_F_CURRENT_CPU'', 4294967295),
     (''BPF_F_CTXLEN_MASK'', 0)]"

definition enum_of_BPF_F_GET_BRANCH_RECORDS_SIZE :: "(string \<times> int) list" where
  "enum_of_BPF_F_GET_BRANCH_RECORDS_SIZE =
    [(''BPF_F_GET_BRANCH_RECORDS_SIZE'', 1)]"

definition enum_uprobe_filter_ctx :: "(string \<times> int) list" where
  "enum_uprobe_filter_ctx =
    [(''UPROBE_FILTER_REGISTER'', 0), (''UPROBE_FILTER_UNREGISTER'', 1), (''UPROBE_FILTER_MMAP'',
     2)]"

definition enum_bpf_text_poke_type :: "(string \<times> int) list" where
  "enum_bpf_text_poke_type =
    [(''BPF_MOD_CALL'', 0), (''BPF_MOD_JUMP'', 1)]"

definition enum_of_BPF_F_NO_PREALLOC :: "(string \<times> int) list" where
  "enum_of_BPF_F_NO_PREALLOC =
    [(''BPF_F_NO_PREALLOC'', 1), (''BPF_F_NO_COMMON_LRU'', 2), (''BPF_F_NUMA_NODE'', 4),
     (''BPF_F_RDONLY'', 8), (''BPF_F_WRONLY'', 16), (''BPF_F_STACK_BUILD_ID'', 32),
     (''BPF_F_ZERO_SEED'', 64), (''BPF_F_RDONLY_PROG'', 128), (''BPF_F_WRONLY_PROG'', 256),
     (''BPF_F_CLONE'', 512), (''BPF_F_MMAPABLE'', 1024), (''BPF_F_PRESERVE_ELEMS'', 2048),
     (''BPF_F_INNER_MAP'', 4096)]"

definition enum_of_BPF_ANY :: "(string \<times> int) list" where
  "enum_of_BPF_ANY =
    [(''BPF_ANY'', 0), (''BPF_NOEXIST'', 1), (''BPF_EXIST'', 2), (''BPF_F_LOCK'', 4)]"

definition enum_perf_bpf_event_type :: "(string \<times> int) list" where
  "enum_perf_bpf_event_type =
    [(''PERF_BPF_EVENT_UNKNOWN'', 0), (''PERF_BPF_EVENT_PROG_LOAD'', 1),
     (''PERF_BPF_EVENT_PROG_UNLOAD'', 2), (''PERF_BPF_EVENT_MAX'', 3)]"

definition enum_bpf_audit :: "(string \<times> int) list" where
  "enum_bpf_audit =
    [(''BPF_AUDIT_LOAD'', 0), (''BPF_AUDIT_UNLOAD'', 1), (''BPF_AUDIT_MAX'', 2)]"

definition enum_bpf_cmd :: "(string \<times> int) list" where
  "enum_bpf_cmd =
    [(''BPF_MAP_CREATE'', 0), (''BPF_MAP_LOOKUP_ELEM'', 1), (''BPF_MAP_UPDATE_ELEM'', 2),
     (''BPF_MAP_DELETE_ELEM'', 3), (''BPF_MAP_GET_NEXT_KEY'', 4), (''BPF_PROG_LOAD'', 5),
     (''BPF_OBJ_PIN'', 6), (''BPF_OBJ_GET'', 7), (''BPF_PROG_ATTACH'', 8), (''BPF_PROG_DETACH'',
     9), (''BPF_PROG_TEST_RUN'', 10), (''BPF_PROG_GET_NEXT_ID'', 11), (''BPF_MAP_GET_NEXT_ID'',
     12), (''BPF_PROG_GET_FD_BY_ID'', 13), (''BPF_MAP_GET_FD_BY_ID'', 14),
     (''BPF_OBJ_GET_INFO_BY_FD'', 15), (''BPF_PROG_QUERY'', 16), (''BPF_RAW_TRACEPOINT_OPEN'',
     17), (''BPF_BTF_LOAD'', 18), (''BPF_BTF_GET_FD_BY_ID'', 19), (''BPF_TASK_FD_QUERY'', 20),
     (''BPF_MAP_LOOKUP_AND_DELETE_ELEM'', 21), (''BPF_MAP_FREEZE'', 22), (''BPF_BTF_GET_NEXT_ID'',
     23), (''BPF_MAP_LOOKUP_BATCH'', 24), (''BPF_MAP_LOOKUP_AND_DELETE_BATCH'', 25),
     (''BPF_MAP_UPDATE_BATCH'', 26), (''BPF_MAP_DELETE_BATCH'', 27), (''BPF_LINK_CREATE'', 28),
     (''BPF_LINK_UPDATE'', 29), (''BPF_LINK_GET_FD_BY_ID'', 30), (''BPF_LINK_GET_NEXT_ID'', 31),
     (''BPF_ENABLE_STATS'', 32), (''BPF_ITER_CREATE'', 33), (''BPF_LINK_DETACH'', 34),
     (''BPF_PROG_BIND_MAP'', 35)]"

definition enum_bpf_reg_liveness :: "(string \<times> int) list" where
  "enum_bpf_reg_liveness =
    [(''REG_LIVE_NONE'', 0), (''REG_LIVE_READ32'', 1), (''REG_LIVE_READ64'', 2),
     (''REG_LIVE_READ'', 3), (''REG_LIVE_WRITTEN'', 4), (''REG_LIVE_DONE'', 8)]"

definition enum_btf_func_linkage :: "(string \<times> int) list" where
  "enum_btf_func_linkage =
    [(''BTF_FUNC_STATIC'', 0), (''BTF_FUNC_GLOBAL'', 1), (''BTF_FUNC_EXTERN'', 2)]"

definition enum_bpf_stack_slot_type :: "(string \<times> int) list" where
  "enum_bpf_stack_slot_type =
    [(''STACK_INVALID'', 0), (''STACK_SPILL'', 1), (''STACK_MISC'', 2), (''STACK_ZERO'', 3)]"

definition enum_bpf_jit_poke_reason :: "(string \<times> int) list" where
  "enum_bpf_jit_poke_reason =
    [(''BPF_POKE_REASON_TAIL_CALL'', 0)]"

definition enum_bpf_type :: "(string \<times> int) list" where
  "enum_bpf_type =
    [(''BPF_TYPE_UNSPEC'', 0), (''BPF_TYPE_PROG'', 1), (''BPF_TYPE_MAP'', 2), (''BPF_TYPE_LINK'',
     3)]"

definition enum_bpf_cgroup_storage_type :: "(string \<times> int) list" where
  "enum_bpf_cgroup_storage_type =
    [(''BPF_CGROUP_STORAGE_SHARED'', 0), (''BPF_CGROUP_STORAGE_PERCPU'', 1),
     (''__BPF_CGROUP_STORAGE_MAX'', 2)]"

definition enum_bpf_lru_list_type :: "(string \<times> int) list" where
  "enum_bpf_lru_list_type =
    [(''BPF_LRU_LIST_T_ACTIVE'', 0), (''BPF_LRU_LIST_T_INACTIVE'', 1), (''BPF_LRU_LIST_T_FREE'',
     2), (''BPF_LRU_LOCAL_LIST_T_FREE'', 3), (''BPF_LRU_LOCAL_LIST_T_PENDING'', 4)]"

definition enum_of_BPF_RINGBUF_BUSY_BIT :: "(string \<times> int) list" where
  "enum_of_BPF_RINGBUF_BUSY_BIT =
    [(''BPF_RINGBUF_BUSY_BIT'', 2147483648), (''BPF_RINGBUF_DISCARD_BIT'', 1073741824),
     (''BPF_RINGBUF_HDR_SZ'', 8)]"

definition enum_of_BPF_RB_NO_WAKEUP :: "(string \<times> int) list" where
  "enum_of_BPF_RB_NO_WAKEUP =
    [(''BPF_RB_NO_WAKEUP'', 1), (''BPF_RB_FORCE_WAKEUP'', 2)]"

definition enum_bpf_tramp_prog_type :: "(string \<times> int) list" where
  "enum_bpf_tramp_prog_type =
    [(''BPF_TRAMP_FENTRY'', 0), (''BPF_TRAMP_FEXIT'', 1), (''BPF_TRAMP_MODIFY_RETURN'', 2),
     (''BPF_TRAMP_MAX'', 3), (''BPF_TRAMP_REPLACE'', 4)]"

definition enum_bpf_struct_walk_result :: "(string \<times> int) list" where
  "enum_bpf_struct_walk_result =
    [(''WALK_SCALAR'', 0), (''WALK_PTR'', 1), (''WALK_STRUCT'', 2)]"

definition enum_of_BTF_VAR_STATIC :: "(string \<times> int) list" where
  "enum_of_BTF_VAR_STATIC =
    [(''BTF_VAR_STATIC'', 0), (''BTF_VAR_GLOBAL_ALLOCATED'', 1), (''BTF_VAR_GLOBAL_EXTERN'', 2)]"

definition enum_of_BPF_F_SKIP_FIELD_MASK :: "(string \<times> int) list" where
  "enum_of_BPF_F_SKIP_FIELD_MASK =
    [(''BPF_F_SKIP_FIELD_MASK'', 255), (''BPF_F_USER_STACK'', 256), (''BPF_F_FAST_STACK_CMP'',
     512), (''BPF_F_REUSE_STACKID'', 1024), (''BPF_F_USER_BUILD_ID'', 2048)]"

definition enum_bpf_stack_build_id_status :: "(string \<times> int) list" where
  "enum_bpf_stack_build_id_status =
    [(''BPF_STACK_BUILD_ID_EMPTY'', 0), (''BPF_STACK_BUILD_ID_VALID'', 1),
     (''BPF_STACK_BUILD_ID_IP'', 2)]"

definition enum_perf_callchain_context :: "(string \<times> int) list" where
  "enum_perf_callchain_context =
    [(''PERF_CONTEXT_HV'', 4294967264), (''PERF_CONTEXT_KERNEL'', 4294967168),
     (''PERF_CONTEXT_USER'', 4294966784), (''PERF_CONTEXT_GUEST'', 4294965248),
     (''PERF_CONTEXT_GUEST_KERNEL'', 4294965120), (''PERF_CONTEXT_GUEST_USER'', 4294964736),
     (''PERF_CONTEXT_MAX'', 4294963201)]"

definition enum_of_BPF_F_SYSCTL_BASE_NAME :: "(string \<times> int) list" where
  "enum_of_BPF_F_SYSCTL_BASE_NAME =
    [(''BPF_F_SYSCTL_BASE_NAME'', 1)]"

definition enum_bpf_struct_ops_state :: "(string \<times> int) list" where
  "enum_bpf_struct_ops_state =
    [(''BPF_STRUCT_OPS_STATE_INIT'', 0), (''BPF_STRUCT_OPS_STATE_INUSE'', 1),
     (''BPF_STRUCT_OPS_STATE_TOBEFREE'', 2)]"

definition enum_perf_addr_filter_action_t :: "(string \<times> int) list" where
  "enum_perf_addr_filter_action_t =
    [(''PERF_ADDR_FILTER_ACTION_STOP'', 0), (''PERF_ADDR_FILTER_ACTION_START'', 1),
     (''PERF_ADDR_FILTER_ACTION_FILTER'', 2)]"

definition enum_perf_event_task_context :: "(string \<times> int) list" where
  "enum_perf_event_task_context =
    [(''perf_invalid_context'', 4294967295), (''perf_hw_context'', 0), (''perf_sw_context'', 1),
     (''perf_nr_task_contexts'', 2)]"

definition enum_perf_event_type :: "(string \<times> int) list" where
  "enum_perf_event_type =
    [(''PERF_RECORD_MMAP'', 1), (''PERF_RECORD_LOST'', 2), (''PERF_RECORD_COMM'', 3),
     (''PERF_RECORD_EXIT'', 4), (''PERF_RECORD_THROTTLE'', 5), (''PERF_RECORD_UNTHROTTLE'', 6),
     (''PERF_RECORD_FORK'', 7), (''PERF_RECORD_READ'', 8), (''PERF_RECORD_SAMPLE'', 9),
     (''PERF_RECORD_MMAP2'', 10), (''PERF_RECORD_AUX'', 11), (''PERF_RECORD_ITRACE_START'', 12),
     (''PERF_RECORD_LOST_SAMPLES'', 13), (''PERF_RECORD_SWITCH'', 14),
     (''PERF_RECORD_SWITCH_CPU_WIDE'', 15), (''PERF_RECORD_NAMESPACES'', 16),
     (''PERF_RECORD_KSYMBOL'', 17), (''PERF_RECORD_BPF_EVENT'', 18), (''PERF_RECORD_CGROUP'', 19),
     (''PERF_RECORD_TEXT_POKE'', 20), (''PERF_RECORD_MAX'', 21)]"

definition enum_perf_event_read_format :: "(string \<times> int) list" where
  "enum_perf_event_read_format =
    [(''PERF_FORMAT_TOTAL_TIME_ENABLED'', 1), (''PERF_FORMAT_TOTAL_TIME_RUNNING'', 2),
     (''PERF_FORMAT_ID'', 4), (''PERF_FORMAT_GROUP'', 8), (''PERF_FORMAT_MAX'', 16)]"

definition enum_perf_probe_config :: "(string \<times> int) list" where
  "enum_perf_probe_config =
    [(''PERF_PROBE_CONFIG_IS_RETPROBE'', 1), (''PERF_UPROBE_REF_CTR_OFFSET_BITS'', 32),
     (''PERF_UPROBE_REF_CTR_OFFSET_SHIFT'', 32)]"

definition enum_perf_branch_sample_type :: "(string \<times> int) list" where
  "enum_perf_branch_sample_type =
    [(''PERF_SAMPLE_BRANCH_USER'', 1), (''PERF_SAMPLE_BRANCH_KERNEL'', 2),
     (''PERF_SAMPLE_BRANCH_HV'', 4), (''PERF_SAMPLE_BRANCH_ANY'', 8),
     (''PERF_SAMPLE_BRANCH_ANY_CALL'', 16), (''PERF_SAMPLE_BRANCH_ANY_RETURN'', 32),
     (''PERF_SAMPLE_BRANCH_IND_CALL'', 64), (''PERF_SAMPLE_BRANCH_ABORT_TX'', 128),
     (''PERF_SAMPLE_BRANCH_IN_TX'', 256), (''PERF_SAMPLE_BRANCH_NO_TX'', 512),
     (''PERF_SAMPLE_BRANCH_COND'', 1024), (''PERF_SAMPLE_BRANCH_CALL_STACK'', 2048),
     (''PERF_SAMPLE_BRANCH_IND_JUMP'', 4096), (''PERF_SAMPLE_BRANCH_CALL'', 8192),
     (''PERF_SAMPLE_BRANCH_NO_FLAGS'', 16384), (''PERF_SAMPLE_BRANCH_NO_CYCLES'', 32768),
     (''PERF_SAMPLE_BRANCH_TYPE_SAVE'', 65536), (''PERF_SAMPLE_BRANCH_HW_INDEX'', 131072),
     (''PERF_SAMPLE_BRANCH_MAX'', 262144)]"

definition enum_perf_event_ioc_flags :: "(string \<times> int) list" where
  "enum_perf_event_ioc_flags =
    [(''PERF_IOC_FLAG_GROUP'', 1)]"

definition enum_perf_hw_id :: "(string \<times> int) list" where
  "enum_perf_hw_id =
    [(''PERF_COUNT_HW_CPU_CYCLES'', 0), (''PERF_COUNT_HW_INSTRUCTIONS'', 1),
     (''PERF_COUNT_HW_CACHE_REFERENCES'', 2), (''PERF_COUNT_HW_CACHE_MISSES'', 3),
     (''PERF_COUNT_HW_BRANCH_INSTRUCTIONS'', 4), (''PERF_COUNT_HW_BRANCH_MISSES'', 5),
     (''PERF_COUNT_HW_BUS_CYCLES'', 6), (''PERF_COUNT_HW_STALLED_CYCLES_FRONTEND'', 7),
     (''PERF_COUNT_HW_STALLED_CYCLES_BACKEND'', 8), (''PERF_COUNT_HW_REF_CPU_CYCLES'', 9),
     (''PERF_COUNT_HW_MAX'', 10)]"

definition enum_perf_hw_cache_id :: "(string \<times> int) list" where
  "enum_perf_hw_cache_id =
    [(''PERF_COUNT_HW_CACHE_L1D'', 0), (''PERF_COUNT_HW_CACHE_L1I'', 1),
     (''PERF_COUNT_HW_CACHE_LL'', 2), (''PERF_COUNT_HW_CACHE_DTLB'', 3),
     (''PERF_COUNT_HW_CACHE_ITLB'', 4), (''PERF_COUNT_HW_CACHE_BPU'', 5),
     (''PERF_COUNT_HW_CACHE_NODE'', 6), (''PERF_COUNT_HW_CACHE_MAX'', 7)]"

definition enum_perf_hw_cache_op_id :: "(string \<times> int) list" where
  "enum_perf_hw_cache_op_id =
    [(''PERF_COUNT_HW_CACHE_OP_READ'', 0), (''PERF_COUNT_HW_CACHE_OP_WRITE'', 1),
     (''PERF_COUNT_HW_CACHE_OP_PREFETCH'', 2), (''PERF_COUNT_HW_CACHE_OP_MAX'', 3)]"

definition enum_perf_hw_cache_op_result_id :: "(string \<times> int) list" where
  "enum_perf_hw_cache_op_result_id =
    [(''PERF_COUNT_HW_CACHE_RESULT_ACCESS'', 0), (''PERF_COUNT_HW_CACHE_RESULT_MISS'', 1),
     (''PERF_COUNT_HW_CACHE_RESULT_MAX'', 2)]"

definition enum_bpf_ret_code :: "(string \<times> int) list" where
  "enum_bpf_ret_code =
    [(''BPF_OK'', 0), (''BPF_DROP'', 2), (''BPF_REDIRECT'', 7), (''BPF_LWT_REROUTE'', 128)]"

definition enum_bpf_xdp_mode :: "(string \<times> int) list" where
  "enum_bpf_xdp_mode =
    [(''XDP_MODE_SKB'', 0), (''XDP_MODE_DRV'', 1), (''XDP_MODE_HW'', 2), (''__MAX_XDP_MODE'', 3)]"

definition enum_of_BPF_F_NEIGH :: "(string \<times> int) list" where
  "enum_of_BPF_F_NEIGH =
    [(''BPF_F_NEIGH'', 2), (''BPF_F_PEER'', 4), (''BPF_F_NEXTHOP'', 8)]"

definition enum_of_BPF_F_RECOMPUTE_CSUM :: "(string \<times> int) list" where
  "enum_of_BPF_F_RECOMPUTE_CSUM =
    [(''BPF_F_RECOMPUTE_CSUM'', 1), (''BPF_F_INVALIDATE_HASH'', 2)]"

definition enum_of_BPF_F_HDR_FIELD_MASK :: "(string \<times> int) list" where
  "enum_of_BPF_F_HDR_FIELD_MASK =
    [(''BPF_F_HDR_FIELD_MASK'', 15)]"

definition enum_of_BPF_F_PSEUDO_HDR :: "(string \<times> int) list" where
  "enum_of_BPF_F_PSEUDO_HDR =
    [(''BPF_F_PSEUDO_HDR'', 16), (''BPF_F_MARK_MANGLED_0'', 32), (''BPF_F_MARK_ENFORCE'', 64)]"

definition enum_of_BPF_F_INGRESS :: "(string \<times> int) list" where
  "enum_of_BPF_F_INGRESS =
    [(''BPF_F_INGRESS'', 1)]"

definition enum_of_BPF_F_ADJ_ROOM_FIXED_GSO :: "(string \<times> int) list" where
  "enum_of_BPF_F_ADJ_ROOM_FIXED_GSO =
    [(''BPF_F_ADJ_ROOM_FIXED_GSO'', 1), (''BPF_F_ADJ_ROOM_ENCAP_L3_IPV4'', 2),
     (''BPF_F_ADJ_ROOM_ENCAP_L3_IPV6'', 4), (''BPF_F_ADJ_ROOM_ENCAP_L4_GRE'', 8),
     (''BPF_F_ADJ_ROOM_ENCAP_L4_UDP'', 16), (''BPF_F_ADJ_ROOM_NO_CSUM_RESET'', 32)]"

definition enum_of_BPF_ADJ_ROOM_ENCAP_L2_MASK :: "(string \<times> int) list" where
  "enum_of_BPF_ADJ_ROOM_ENCAP_L2_MASK =
    [(''BPF_ADJ_ROOM_ENCAP_L2_MASK'', 255), (''BPF_ADJ_ROOM_ENCAP_L2_SHIFT'', 56)]"

definition enum_of_BPF_F_TUNINFO_IPV6 :: "(string \<times> int) list" where
  "enum_of_BPF_F_TUNINFO_IPV6 =
    [(''BPF_F_TUNINFO_IPV6'', 1)]"

definition enum_of_BPF_F_ZERO_CSUM_TX :: "(string \<times> int) list" where
  "enum_of_BPF_F_ZERO_CSUM_TX =
    [(''BPF_F_ZERO_CSUM_TX'', 2), (''BPF_F_DONT_FRAGMENT'', 4), (''BPF_F_SEQ_NUMBER'', 8)]"

definition enum_of_BPF_SOCK_OPS_RTO_CB_FLAG :: "(string \<times> int) list" where
  "enum_of_BPF_SOCK_OPS_RTO_CB_FLAG =
    [(''BPF_SOCK_OPS_RTO_CB_FLAG'', 1), (''BPF_SOCK_OPS_RETRANS_CB_FLAG'', 2),
     (''BPF_SOCK_OPS_STATE_CB_FLAG'', 4), (''BPF_SOCK_OPS_RTT_CB_FLAG'', 8),
     (''BPF_SOCK_OPS_PARSE_ALL_HDR_OPT_CB_FLAG'', 16),
     (''BPF_SOCK_OPS_PARSE_UNKNOWN_HDR_OPT_CB_FLAG'', 32),
     (''BPF_SOCK_OPS_WRITE_HDR_OPT_CB_FLAG'', 64), (''BPF_SOCK_OPS_ALL_CB_FLAGS'', 127)]"

definition enum_of_BPF_FIB_LOOKUP_DIRECT :: "(string \<times> int) list" where
  "enum_of_BPF_FIB_LOOKUP_DIRECT =
    [(''BPF_FIB_LOOKUP_DIRECT'', 1), (''BPF_FIB_LOOKUP_OUTPUT'', 2)]"

definition enum_of_BPF_FIB_LKUP_RET_SUCCESS :: "(string \<times> int) list" where
  "enum_of_BPF_FIB_LKUP_RET_SUCCESS =
    [(''BPF_FIB_LKUP_RET_SUCCESS'', 0), (''BPF_FIB_LKUP_RET_BLACKHOLE'', 1),
     (''BPF_FIB_LKUP_RET_UNREACHABLE'', 2), (''BPF_FIB_LKUP_RET_PROHIBIT'', 3),
     (''BPF_FIB_LKUP_RET_NOT_FWDED'', 4), (''BPF_FIB_LKUP_RET_FWD_DISABLED'', 5),
     (''BPF_FIB_LKUP_RET_UNSUPP_LWT'', 6), (''BPF_FIB_LKUP_RET_NO_NEIGH'', 7),
     (''BPF_FIB_LKUP_RET_FRAG_NEEDED'', 8)]"

definition enum_of_BPF_LOAD_HDR_OPT_TCP_SYN :: "(string \<times> int) list" where
  "enum_of_BPF_LOAD_HDR_OPT_TCP_SYN =
    [(''BPF_LOAD_HDR_OPT_TCP_SYN'', 1)]"

definition enum_of_BPF_SOCK_OPS_VOID :: "(string \<times> int) list" where
  "enum_of_BPF_SOCK_OPS_VOID =
    [(''BPF_SOCK_OPS_VOID'', 0), (''BPF_SOCK_OPS_TIMEOUT_INIT'', 1), (''BPF_SOCK_OPS_RWND_INIT'',
     2), (''BPF_SOCK_OPS_TCP_CONNECT_CB'', 3), (''BPF_SOCK_OPS_ACTIVE_ESTABLISHED_CB'', 4),
     (''BPF_SOCK_OPS_PASSIVE_ESTABLISHED_CB'', 5), (''BPF_SOCK_OPS_NEEDS_ECN'', 6),
     (''BPF_SOCK_OPS_BASE_RTT'', 7), (''BPF_SOCK_OPS_RTO_CB'', 8), (''BPF_SOCK_OPS_RETRANS_CB'',
     9), (''BPF_SOCK_OPS_STATE_CB'', 10), (''BPF_SOCK_OPS_TCP_LISTEN_CB'', 11),
     (''BPF_SOCK_OPS_RTT_CB'', 12), (''BPF_SOCK_OPS_PARSE_HDR_OPT_CB'', 13),
     (''BPF_SOCK_OPS_HDR_OPT_LEN_CB'', 14), (''BPF_SOCK_OPS_WRITE_HDR_OPT_CB'', 15)]"

definition enum_of_BPF_SK_LOOKUP_F_REPLACE :: "(string \<times> int) list" where
  "enum_of_BPF_SK_LOOKUP_F_REPLACE =
    [(''BPF_SK_LOOKUP_F_REPLACE'', 1), (''BPF_SK_LOOKUP_F_NO_REUSEPORT'', 2)]"

definition enum_of_BPF_LOCAL_STORAGE_GET_F_CREATE :: "(string \<times> int) list" where
  "enum_of_BPF_LOCAL_STORAGE_GET_F_CREATE =
    [(''BPF_LOCAL_STORAGE_GET_F_CREATE'', 1), (''BPF_SK_STORAGE_GET_F_CREATE'', 1)]"

definition enum_of_BTF_SOCK_TYPE_INET :: "(string \<times> int) list" where
  "enum_of_BTF_SOCK_TYPE_INET =
    [(''BTF_SOCK_TYPE_INET'', 0), (''BTF_SOCK_TYPE_INET_CONN'', 1), (''BTF_SOCK_TYPE_INET_REQ'',
     2), (''BTF_SOCK_TYPE_INET_TW'', 3), (''BTF_SOCK_TYPE_REQ'', 4), (''BTF_SOCK_TYPE_SOCK'', 5),
     (''BTF_SOCK_TYPE_SOCK_COMMON'', 6), (''BTF_SOCK_TYPE_TCP'', 7), (''BTF_SOCK_TYPE_TCP_REQ'',
     8), (''BTF_SOCK_TYPE_TCP_TW'', 9), (''BTF_SOCK_TYPE_TCP6'', 10), (''BTF_SOCK_TYPE_UDP'', 11),
     (''BTF_SOCK_TYPE_UDP6'', 12), (''MAX_BTF_SOCK_TYPE'', 13)]"

definition enum_of_BPF_WRITE_HDR_TCP_CURRENT_MSS :: "(string \<times> int) list" where
  "enum_of_BPF_WRITE_HDR_TCP_CURRENT_MSS =
    [(''BPF_WRITE_HDR_TCP_CURRENT_MSS'', 1), (''BPF_WRITE_HDR_TCP_SYNACK_COOKIE'', 2)]"

end
