(* ===== verification/KernelBase.thy ===== *)
theory KernelBase
  imports KernelEnums
begin

text \<open>
  The base types of \<^verbatim>\<open>vmlinux.h\<close>: scalar typedefs, the register files a probe
  receives, the AArch64 argument list of variadic calls, list heads, locks, wait queues, work
  items and timers. One definition per declaration, in dependency order, named by its tag.
\<close>

section \<open>Registers, scalars, lists, locks\<close>

definition typedef___u64 :: ctyp where
  "typedef___u64 = c_ullong"

definition struct_user_pt_regs :: ctyp where
  "struct_user_pt_regs =
    CStruct False [Mem ''regs'' (CArr typedef___u64 31), Mem ''sp'' typedef___u64,
     Mem ''pc'' typedef___u64, Mem ''pstate'' typedef___u64]"

definition typedef_u64 :: ctyp where
  "typedef_u64 = typedef___u64"

definition typedef___s32 :: ctyp where
  "typedef___s32 = c_int"

definition typedef_s32 :: ctyp where
  "typedef_s32 = typedef___s32"

definition typedef___u32 :: ctyp where
  "typedef___u32 = c_uint"

definition typedef_u32 :: ctyp where
  "typedef_u32 = typedef___u32"

definition struct_pt_regs :: ctyp where
  "struct_pt_regs =
    CStruct False [Mem '''' (CUnion False [Mem ''user_regs'' struct_user_pt_regs, Mem ''''
     (CStruct False [Mem ''regs'' (CArr typedef_u64 31), Mem ''sp'' typedef_u64,
     Mem ''pc'' typedef_u64, Mem ''pstate'' typedef_u64])]), Mem ''orig_x0'' typedef_u64,
     Mem ''syscallno'' typedef_s32, Mem ''unused2'' typedef_u32,
     Mem ''orig_addr_limit'' typedef_u64, Mem ''pmr_save'' typedef_u64,
     Mem ''stackframe'' (CArr typedef_u64 2), Mem ''lockdep_hardirqs'' typedef_u64,
     Mem ''exit_rcu'' typedef_u64]"

definition struct___va_list :: ctyp where
  "struct___va_list =
    CStruct False [Mem ''__stack'' (CPtr ''void''), Mem ''__gr_top'' (CPtr ''void''),
     Mem ''__vr_top'' (CPtr ''void''), Mem ''__gr_offs'' c_int, Mem ''__vr_offs'' c_int]"

definition struct_list_head :: ctyp where
  "struct_list_head =
    CStruct False [Mem ''next'' (CPtr ''struct list_head''),
     Mem ''prev'' (CPtr ''struct list_head'')]"

definition struct_hlist_node :: ctyp where
  "struct_hlist_node =
    CStruct False [Mem ''next'' (CPtr ''struct hlist_node''),
     Mem ''pprev'' (CPtr ''struct hlist_node *'')]"

definition struct_hlist_head :: ctyp where
  "struct_hlist_head = CStruct False [Mem ''first'' (CPtr ''struct hlist_node'')]"

definition struct_callback_head :: ctyp where
  "struct_callback_head =
    CStruct False [Mem ''next'' (CPtr ''struct callback_head''), Mem ''func'' CFn]"

definition struct_rb_root :: ctyp where
  "struct_rb_root = CStruct False [Mem ''rb_node'' (CPtr ''struct rb_node'')]"

definition typedef___s64 :: ctyp where
  "typedef___s64 = c_llong"

definition typedef_s64 :: ctyp where
  "typedef_s64 = typedef___s64"

definition typedef_atomic64_t :: ctyp where
  "typedef_atomic64_t = CStruct False [Mem ''counter'' typedef_s64]"

definition typedef_atomic_long_t :: ctyp where
  "typedef_atomic_long_t = typedef_atomic64_t"

definition typedef_work_func_t :: ctyp where
  "typedef_work_func_t = CFn"

definition struct_work_struct :: ctyp where
  "struct_work_struct =
    CStruct False [Mem ''data'' typedef_atomic_long_t, Mem ''entry'' struct_list_head,
     Mem ''func'' typedef_work_func_t, Mem ''android_kabi_reserved1'' typedef_u64,
     Mem ''android_kabi_reserved2'' typedef_u64]"

definition struct_timer_list :: ctyp where
  "struct_timer_list =
    CStruct False [Mem ''entry'' struct_hlist_node, Mem ''expires'' c_ulong,
     Mem ''function'' CFn, Mem ''flags'' typedef_u32, Mem ''android_kabi_reserved1'' typedef_u64,
     Mem ''android_kabi_reserved2'' typedef_u64]"

definition struct_delayed_work :: ctyp where
  "struct_delayed_work =
    CStruct False [Mem ''work'' struct_work_struct, Mem ''timer'' struct_timer_list,
     Mem ''wq'' (CPtr ''struct workqueue_struct''), Mem ''cpu'' c_int,
     Mem ''android_kabi_reserved1'' typedef_u64, Mem ''android_kabi_reserved2'' typedef_u64]"

definition typedef_atomic_t :: ctyp where
  "typedef_atomic_t = CStruct False [Mem ''counter'' c_int]"

definition typedef___u8 :: ctyp where
  "typedef___u8 = c_uchar"

definition typedef_u8 :: ctyp where
  "typedef_u8 = typedef___u8"

definition typedef___u16 :: ctyp where
  "typedef___u16 = c_ushort"

definition typedef_u16 :: ctyp where
  "typedef_u16 = typedef___u16"

definition struct_qspinlock :: ctyp where
  "struct_qspinlock =
    CStruct False [Mem '''' (CUnion False [Mem ''val'' typedef_atomic_t, Mem ''''
     (CStruct False [Mem ''locked'' typedef_u8, Mem ''pending'' typedef_u8]), Mem ''''
     (CStruct False [Mem ''locked_pending'' typedef_u16, Mem ''tail'' typedef_u16])])]"

definition typedef_arch_spinlock_t :: ctyp where
  "typedef_arch_spinlock_t = struct_qspinlock"

definition struct_raw_spinlock :: ctyp where
  "struct_raw_spinlock = CStruct False [Mem ''raw_lock'' typedef_arch_spinlock_t]"

definition struct_spinlock :: ctyp where
  "struct_spinlock =
    CStruct False [Mem '''' (CUnion False [Mem ''rlock'' struct_raw_spinlock])]"

definition typedef_spinlock_t :: ctyp where
  "typedef_spinlock_t = struct_spinlock"

definition struct_optimistic_spin_queue :: ctyp where
  "struct_optimistic_spin_queue = CStruct False [Mem ''tail'' typedef_atomic_t]"

definition struct_mutex :: ctyp where
  "struct_mutex =
    CStruct False [Mem ''owner'' typedef_atomic_long_t, Mem ''wait_lock'' typedef_spinlock_t,
     Mem ''osq'' struct_optimistic_spin_queue, Mem ''wait_list'' struct_list_head,
     Mem ''android_oem_data1'' (CArr typedef_u64 2)]"

definition typedef_raw_spinlock_t :: ctyp where
  "typedef_raw_spinlock_t = struct_raw_spinlock"

definition struct_rw_semaphore :: ctyp where
  "struct_rw_semaphore =
    CStruct False [Mem ''count'' typedef_atomic_long_t, Mem ''owner'' typedef_atomic_long_t,
     Mem ''osq'' struct_optimistic_spin_queue, Mem ''wait_lock'' typedef_raw_spinlock_t,
     Mem ''wait_list'' struct_list_head, Mem ''android_vendor_data1'' typedef_u64,
     Mem ''android_oem_data1'' (CArr typedef_u64 2)]"

definition struct_wait_queue_head :: ctyp where
  "struct_wait_queue_head =
    CStruct False [Mem ''lock'' typedef_spinlock_t, Mem ''head'' struct_list_head]"

definition struct_llist_node :: ctyp where
  "struct_llist_node = CStruct False [Mem ''next'' (CPtr ''struct llist_node'')]"

definition struct___call_single_node :: ctyp where
  "struct___call_single_node =
    CStruct False [Mem ''llist'' struct_llist_node, Mem ''''
     (CUnion False [Mem ''u_flags'' c_uint, Mem ''a_flags'' typedef_atomic_t]),
     Mem ''src'' typedef_u16, Mem ''dst'' typedef_u16]"

definition struct_irq_work :: ctyp where
  "struct_irq_work =
    CStruct False [Mem '''' (CUnion False [Mem ''node'' struct___call_single_node, Mem ''''
     (CStruct False [Mem ''llnode'' struct_llist_node, Mem ''flags'' typedef_atomic_t])]),
     Mem ''func'' CFn]"

definition struct_refcount_struct :: ctyp where
  "struct_refcount_struct = CStruct False [Mem ''refs'' typedef_atomic_t]"

definition typedef_refcount_t :: ctyp where
  "typedef_refcount_t = struct_refcount_struct"

definition struct_kref :: ctyp where
  "struct_kref = CStruct False [Mem ''refcount'' typedef_refcount_t]"

definition struct_swait_queue_head :: ctyp where
  "struct_swait_queue_head =
    CStruct False [Mem ''lock'' typedef_raw_spinlock_t, Mem ''task_list'' struct_list_head]"

definition struct_completion :: ctyp where
  "struct_completion =
    CStruct False [Mem ''done'' c_uint, Mem ''wait'' struct_swait_queue_head]"

definition struct_rb_node :: ctyp where
  "struct_rb_node =
    CStruct False [Mem ''__rb_parent_color'' c_ulong, Mem ''rb_right'' (CPtr ''struct rb_node''),
     Mem ''rb_left'' (CPtr ''struct rb_node'')]"

definition struct_hlist_nulls_head :: ctyp where
  "struct_hlist_nulls_head =
    CStruct False [Mem ''first'' (CPtr ''struct hlist_nulls_node'')]"

definition struct_seqcount :: ctyp where
  "struct_seqcount = CStruct False [Mem ''sequence'' c_uint]"

definition struct_percpu_ref :: ctyp where
  "struct_percpu_ref =
    CStruct False [Mem ''percpu_count_ptr'' c_ulong,
     Mem ''data'' (CPtr ''struct percpu_ref_data'')]"

definition typedef_ktime_t :: ctyp where
  "typedef_ktime_t = typedef_s64"

definition struct_timerqueue_node :: ctyp where
  "struct_timerqueue_node =
    CStruct False [Mem ''node'' struct_rb_node, Mem ''expires'' typedef_ktime_t]"

definition struct_hrtimer :: ctyp where
  "struct_hrtimer =
    CStruct False [Mem ''node'' struct_timerqueue_node, Mem ''_softexpires'' typedef_ktime_t,
     Mem ''function'' CFn, Mem ''base'' (CPtr ''struct hrtimer_clock_base''),
     Mem ''state'' typedef_u8, Mem ''is_rel'' typedef_u8, Mem ''is_soft'' typedef_u8,
     Mem ''is_hard'' typedef_u8, Mem ''android_kabi_reserved1'' typedef_u64]"

definition struct_kobject :: ctyp where
  "struct_kobject =
    CStruct False [Mem ''name'' (CPtr ''const char''), Mem ''entry'' struct_list_head,
     Mem ''parent'' (CPtr ''struct kobject''), Mem ''kset'' (CPtr ''struct kset''),
     Mem ''ktype'' (CPtr ''struct kobj_type''), Mem ''sd'' (CPtr ''struct kernfs_node''),
     Mem ''kref'' struct_kref, Bits ''state_initialized'' c_uint 1,
     Bits ''state_in_sysfs'' c_uint 1, Bits ''state_add_uevent_sent'' c_uint 1,
     Bits ''state_remove_uevent_sent'' c_uint 1, Bits ''uevent_suppress'' c_uint 1,
     Mem ''android_kabi_reserved1'' typedef_u64, Mem ''android_kabi_reserved2'' typedef_u64,
     Mem ''android_kabi_reserved3'' typedef_u64, Mem ''android_kabi_reserved4'' typedef_u64]"

definition enum_module_state :: "(string \<times> int) list" where
  "enum_module_state =
    [(''MODULE_STATE_LIVE'', 0), (''MODULE_STATE_COMING'', 1), (''MODULE_STATE_GOING'', 2),
     (''MODULE_STATE_UNFORMED'', 3)]"

definition struct_module_kobject :: ctyp where
  "struct_module_kobject =
    CStruct False [Mem ''kobj'' struct_kobject, Mem ''mod'' (CPtr ''struct module''),
     Mem ''drivers_dir'' (CPtr ''struct kobject''),
     Mem ''mp'' (CPtr ''struct module_param_attrs''),
     Mem ''kobj_completion'' (CPtr ''struct completion'')]"

definition typedef_cfi_check_fn :: ctyp where
  "typedef_cfi_check_fn = CFn"

definition typedef_bool :: ctyp where
  "typedef_bool = c_bool"

definition struct_latch_tree_node :: ctyp where
  "struct_latch_tree_node = CStruct False [Mem ''node'' (CArr struct_rb_node 2)]"

definition struct_mod_tree_node :: ctyp where
  "struct_mod_tree_node =
    CStruct False [Mem ''mod'' (CPtr ''struct module''), Mem ''node'' struct_latch_tree_node]"

definition struct_module_layout :: ctyp where
  "struct_module_layout =
    CStruct False [Mem ''base'' (CPtr ''void''), Mem ''size'' c_uint, Mem ''text_size'' c_uint,
     Mem ''ro_size'' c_uint, Mem ''ro_after_init_size'' c_uint, Mem ''mtn'' struct_mod_tree_node]"

definition struct_mod_plt_sec :: ctyp where
  "struct_mod_plt_sec =
    CStruct False [Mem ''plt_shndx'' c_int, Mem ''plt_num_entries'' c_int,
     Mem ''plt_max_entries'' c_int]"

definition struct_mod_arch_specific :: ctyp where
  "struct_mod_arch_specific =
    CStruct False [Mem ''core'' struct_mod_plt_sec, Mem ''init'' struct_mod_plt_sec,
     Mem ''ftrace_trampolines'' (CPtr ''struct plt_entry'')]"

definition struct_mod_kallsyms :: ctyp where
  "struct_mod_kallsyms =
    CStruct False [Mem ''symtab'' (CPtr ''Elf64_Sym''), Mem ''num_symtab'' c_uint,
     Mem ''strtab'' (CPtr ''char''), Mem ''typetab'' (CPtr ''char'')]"

definition struct_module :: ctyp where
  "struct_module =
    CStruct False ([Mem ''state'' (CEnum enum_module_state), Mem ''list'' struct_list_head,
     Mem ''name'' (CArr c_char 56), Mem ''mkobj'' struct_module_kobject,
     Mem ''modinfo_attrs'' (CPtr ''struct module_attribute''),
     Mem ''version'' (CPtr ''const char''), Mem ''srcversion'' (CPtr ''const char''),
     Mem ''scmversion'' (CPtr ''const char''), Mem ''holders_dir'' (CPtr ''struct kobject''),
     Mem ''syms'' (CPtr ''const struct kernel_symbol''), Mem ''crcs'' (CPtr ''const s32''),
     Mem ''num_syms'' c_uint, Mem ''cfi_check'' typedef_cfi_check_fn,
     Mem ''param_lock'' struct_mutex, Mem ''kp'' (CPtr ''struct kernel_param''),
     Mem ''num_kp'' c_uint, Mem ''num_gpl_syms'' c_uint,
     Mem ''gpl_syms'' (CPtr ''const struct kernel_symbol''),
     Mem ''gpl_crcs'' (CPtr ''const s32''), Mem ''using_gplonly_symbols'' typedef_bool,
     Mem ''sig_ok'' typedef_bool, Mem ''async_probe_requested'' typedef_bool,
     Mem ''gpl_future_syms'' (CPtr ''const struct kernel_symbol''),
     Mem ''gpl_future_crcs'' (CPtr ''const s32''), Mem ''num_gpl_future_syms'' c_uint,
     Mem ''num_exentries'' c_uint, Mem ''extable'' (CPtr ''struct exception_table_entry''),
     Mem ''init'' CFn] @ gaps 5 @ [Mem ''core_layout'' struct_module_layout,
     Mem ''init_layout'' struct_module_layout, Mem ''arch'' struct_mod_arch_specific,
     Mem ''taints'' c_ulong, Mem ''num_bugs'' c_uint, Mem ''bug_list'' struct_list_head,
     Mem ''bug_table'' (CPtr ''struct bug_entry''),
     Mem ''kallsyms'' (CPtr ''struct mod_kallsyms''), Mem ''core_kallsyms'' struct_mod_kallsyms,
     Mem ''sect_attrs'' (CPtr ''struct module_sect_attrs''),
     Mem ''notes_attrs'' (CPtr ''struct module_notes_attrs''), Mem ''args'' (CPtr ''char''),
     Mem ''percpu'' (CPtr ''void''), Mem ''percpu_size'' c_uint,
     Mem ''noinstr_text_start'' (CPtr ''void''), Mem ''noinstr_text_size'' c_uint,
     Mem ''num_tracepoints'' c_uint, Mem ''tracepoints_ptrs'' (CPtr ''tracepoint_ptr_t''),
     Mem ''num_srcu_structs'' c_uint, Mem ''srcu_struct_ptrs'' (CPtr ''struct srcu_struct *''),
     Mem ''num_bpf_raw_events'' c_uint,
     Mem ''bpf_raw_events'' (CPtr ''struct bpf_raw_event_map''),
     Mem ''jump_entries'' (CPtr ''struct jump_entry''), Mem ''num_jump_entries'' c_uint,
     Mem ''num_trace_bprintk_fmt'' c_uint,
     Mem ''trace_bprintk_fmt_start'' (CPtr ''const char *''),
     Mem ''trace_events'' (CPtr ''struct trace_event_call *''), Mem ''num_trace_events'' c_uint,
     Mem ''trace_evals'' (CPtr ''struct trace_eval_map *''), Mem ''num_trace_evals'' c_uint,
     Mem ''kprobes_text_start'' (CPtr ''void''), Mem ''kprobes_text_size'' c_uint,
     Mem ''kprobe_blacklist'' (CPtr ''unsigned long''), Mem ''num_kprobe_blacklist'' c_uint,
     Mem ''source_list'' struct_list_head, Mem ''target_list'' struct_list_head, Mem ''exit'' CFn,
     Mem ''refcnt'' typedef_atomic_t, Mem ''ei_funcs'' (CPtr ''struct error_injection_entry''),
     Mem ''num_ei_funcs'' c_uint, Mem ''android_kabi_reserved1'' typedef_u64,
     Mem ''android_kabi_reserved2'' typedef_u64, Mem ''android_kabi_reserved3'' typedef_u64,
     Mem ''android_kabi_reserved4'' typedef_u64] @ gaps 3)"

lemmas kernelBase_types =
  typedef___u64_def struct_user_pt_regs_def typedef_u64_def typedef___s32_def typedef_s32_def
  typedef___u32_def typedef_u32_def struct_pt_regs_def struct___va_list_def struct_list_head_def
  struct_hlist_node_def struct_hlist_head_def struct_callback_head_def struct_rb_root_def
  typedef___s64_def typedef_s64_def typedef_atomic64_t_def typedef_atomic_long_t_def
  typedef_work_func_t_def struct_work_struct_def struct_timer_list_def struct_delayed_work_def
  typedef_atomic_t_def typedef___u8_def typedef_u8_def typedef___u16_def typedef_u16_def
  struct_qspinlock_def typedef_arch_spinlock_t_def struct_raw_spinlock_def struct_spinlock_def
  typedef_spinlock_t_def struct_optimistic_spin_queue_def struct_mutex_def
  typedef_raw_spinlock_t_def struct_rw_semaphore_def struct_wait_queue_head_def
  struct_llist_node_def struct___call_single_node_def struct_irq_work_def
  struct_refcount_struct_def typedef_refcount_t_def struct_kref_def struct_swait_queue_head_def
  struct_completion_def struct_rb_node_def struct_hlist_nulls_head_def struct_seqcount_def
  struct_percpu_ref_def typedef_ktime_t_def struct_timerqueue_node_def struct_hrtimer_def
  struct_kobject_def struct_module_kobject_def typedef_cfi_check_fn_def typedef_bool_def
  struct_latch_tree_node_def struct_mod_tree_node_def struct_module_layout_def
  struct_mod_plt_sec_def struct_mod_arch_specific_def struct_mod_kallsyms_def struct_module_def

end
