(* ===== verification/KernelMaps.thy ===== *)
theory KernelMaps
  imports KernelBase
begin

text \<open>
  The kernel side of the maps the programs use: the common part, the operations, and the array,
  hash, stack-trace and ring-buffer maps with the records they are made of, as
  \<^verbatim>\<open>vmlinux.h\<close> declares them.
\<close>

section \<open>Maps and the ring buffer\<close>

definition struct_bpf_map_memory :: ctyp where
  "struct_bpf_map_memory =
    CStruct False [Mem ''pages'' typedef_u32, Mem ''user'' (CPtr ''struct user_struct'')]"

definition struct_bpf_map :: ctyp where
  "struct_bpf_map =
    CStruct False [Mem ''ops'' (CPtr ''const struct bpf_map_ops''),
     Mem ''inner_map_meta'' (CPtr ''struct bpf_map''), Mem ''security'' (CPtr ''void''),
     Mem ''map_type'' (CEnum enum_bpf_map_type), Mem ''key_size'' typedef_u32,
     Mem ''value_size'' typedef_u32, Mem ''max_entries'' typedef_u32,
     Mem ''map_flags'' typedef_u32, Mem ''spin_lock_off'' c_int, Mem ''id'' typedef_u32,
     Mem ''numa_node'' c_int, Mem ''btf_key_type_id'' typedef_u32,
     Mem ''btf_value_type_id'' typedef_u32, Mem ''btf'' (CPtr ''struct btf''),
     Mem ''memory'' struct_bpf_map_memory, Mem ''name'' (CArr c_char 16),
     Mem ''btf_vmlinux_value_type_id'' typedef_u32, Mem ''bypass_spec_v1'' typedef_bool,
     Mem ''frozen'' typedef_bool, gap 64, gap 64, Mem ''refcnt'' typedef_atomic64_t,
     Mem ''usercnt'' typedef_atomic64_t, Mem ''work'' struct_work_struct,
     Mem ''freeze_mutex'' struct_mutex, Mem ''writecnt'' typedef_atomic64_t, gap 64]"

definition struct_bpf_array :: ctyp where
  "struct_bpf_array =
    CStruct False ([Mem ''map'' struct_bpf_map, Mem ''elem_size'' typedef_u32,
     Mem ''index_mask'' typedef_u32, Mem ''aux'' (CPtr ''struct bpf_array_aux''), Mem ''''
     (CUnion False [Mem ''value'' (CArr c_char 0), Mem ''ptrs'' (CArr (CPtr ''void'') 0),
     Mem ''pptrs'' (CArr (CPtr ''void'') 0)])] @ gaps 6)"

definition struct_pcpu_freelist_head :: ctyp where
  "struct_pcpu_freelist_head =
    CStruct False [Mem ''first'' (CPtr ''struct pcpu_freelist_node''),
     Mem ''lock'' typedef_raw_spinlock_t]"

definition struct_pcpu_freelist :: ctyp where
  "struct_pcpu_freelist =
    CStruct False [Mem ''freelist'' (CPtr ''struct pcpu_freelist_head''),
     Mem ''extralist'' struct_pcpu_freelist_head]"

definition struct_bpf_lru_list :: ctyp where
  "struct_bpf_lru_list =
    CStruct False ([Mem ''lists'' (CArr struct_list_head 3), Mem ''counts'' (CArr c_uint 2),
     Mem ''next_inactive_rotation'' (CPtr ''struct list_head''),
     Mem ''lock'' typedef_raw_spinlock_t] @ gaps 7)"

definition struct_bpf_common_lru :: ctyp where
  "struct_bpf_common_lru =
    CStruct False ([Mem ''lru_list'' struct_bpf_lru_list,
     Mem ''local_list'' (CPtr ''struct bpf_lru_locallist'')] @ gaps 7)"

definition typedef_del_from_htab_func :: ctyp where
  "typedef_del_from_htab_func = CFn"

definition struct_bpf_lru :: ctyp where
  "struct_bpf_lru =
    CStruct False ([Mem '''' (CUnion False [Mem ''common_lru'' struct_bpf_common_lru,
     Mem ''percpu_lru'' (CPtr ''struct bpf_lru_list'')]),
     Mem ''del_from_htab'' typedef_del_from_htab_func, Mem ''del_arg'' (CPtr ''void''),
     Mem ''hash_offset'' c_uint, Mem ''nr_scans'' c_uint, Mem ''percpu'' typedef_bool] @ gaps 4)"

definition struct_bpf_htab :: ctyp where
  "struct_bpf_htab =
    CStruct False ([Mem ''map'' struct_bpf_map, Mem ''buckets'' (CPtr ''struct bucket''),
     Mem ''elems'' (CPtr ''void'')] @ gaps 6 @ [Mem ''''
     (CUnion False [Mem ''freelist'' struct_pcpu_freelist, Mem ''lru'' struct_bpf_lru]),
     Mem ''extra_elems'' (CPtr ''struct htab_elem *''), Mem ''count'' typedef_atomic_t,
     Mem ''n_buckets'' typedef_u32, Mem ''elem_size'' typedef_u32, Mem ''hashrnd'' typedef_u32] @
     gaps 5)"

definition struct_hlist_nulls_node :: ctyp where
  "struct_hlist_nulls_node =
    CStruct False [Mem ''next'' (CPtr ''struct hlist_nulls_node''),
     Mem ''pprev'' (CPtr ''struct hlist_nulls_node *'')]"

definition struct_pcpu_freelist_node :: ctyp where
  "struct_pcpu_freelist_node =
    CStruct False [Mem ''next'' (CPtr ''struct pcpu_freelist_node'')]"

definition struct_bpf_lru_node :: ctyp where
  "struct_bpf_lru_node =
    CStruct False [Mem ''list'' struct_list_head, Mem ''cpu'' typedef_u16,
     Mem ''type'' typedef_u8, Mem ''ref'' typedef_u8]"

definition struct_htab_elem :: ctyp where
  "struct_htab_elem =
    CStruct False [Mem '''' (CUnion False [Mem ''hash_node'' struct_hlist_nulls_node, Mem ''''
     (CStruct False [Mem ''padding'' (CPtr ''void''), Mem ''''
     (CUnion False [Mem ''htab'' (CPtr ''struct bpf_htab''),
     Mem ''fnode'' struct_pcpu_freelist_node,
     Mem ''batch_flink'' (CPtr ''struct htab_elem'')])])]), Mem ''''
     (CUnion False [Mem ''rcu'' struct_callback_head, Mem ''lru_node'' struct_bpf_lru_node]),
     Mem ''hash'' typedef_u32, gap 0, Mem ''key'' (CArr c_char 0)]"

definition typedef_wait_queue_head_t :: ctyp where
  "typedef_wait_queue_head_t = struct_wait_queue_head"

definition struct_bpf_ringbuf :: ctyp where
  "struct_bpf_ringbuf =
    CStruct False ([Mem ''waitq'' typedef_wait_queue_head_t, Mem ''work'' struct_irq_work,
     Mem ''mask'' typedef_u64, Mem ''pages'' (CPtr ''struct page *''), Mem ''nr_pages'' c_int] @
     gaps 7 @ [Mem ''spinlock'' typedef_spinlock_t] @ gaps 495 @ [Mem ''consumer_pos'' c_ulong] @
     gaps 511 @ [Mem ''producer_pos'' c_ulong] @ gaps 511 @ [Mem ''data'' (CArr c_char 0)])"

definition struct_bpf_ringbuf_map :: ctyp where
  "struct_bpf_ringbuf_map =
    CStruct False ([Mem ''map'' struct_bpf_map, Mem ''memory'' struct_bpf_map_memory,
     Mem ''rb'' (CPtr ''struct bpf_ringbuf'')] @ gaps 5)"

definition struct_bpf_ringbuf_hdr :: ctyp where
  "struct_bpf_ringbuf_hdr =
    CStruct False [Mem ''len'' typedef_u32, Mem ''pg_off'' typedef_u32]"

definition struct_bpf_stack_map :: ctyp where
  "struct_bpf_stack_map =
    CStruct False ([Mem ''map'' struct_bpf_map, Mem ''elems'' (CPtr ''void''),
     Mem ''freelist'' struct_pcpu_freelist, Mem ''n_buckets'' typedef_u32,
     Mem ''buckets'' (CArr (CPtr ''struct stack_map_bucket'') 0)] @ gaps 3)"

definition struct_stack_map_bucket :: ctyp where
  "struct_stack_map_bucket =
    CStruct False [Mem ''fnode'' struct_pcpu_freelist_node, Mem ''hash'' typedef_u32,
     Mem ''nr'' typedef_u32, Mem ''data'' (CArr typedef_u64 0)]"

definition struct_bpf_map_ops :: ctyp where
  "struct_bpf_map_ops =
    CStruct False [Mem ''map_alloc_check'' CFn, Mem ''map_alloc'' CFn, Mem ''map_release'' CFn,
     Mem ''map_free'' CFn, Mem ''map_get_next_key'' CFn, Mem ''map_release_uref'' CFn,
     Mem ''map_lookup_elem_sys_only'' CFn, Mem ''map_lookup_batch'' CFn,
     Mem ''map_lookup_and_delete_batch'' CFn, Mem ''map_update_batch'' CFn,
     Mem ''map_delete_batch'' CFn, Mem ''map_lookup_elem'' CFn, Mem ''map_update_elem'' CFn,
     Mem ''map_delete_elem'' CFn, Mem ''map_push_elem'' CFn, Mem ''map_pop_elem'' CFn,
     Mem ''map_peek_elem'' CFn, Mem ''map_fd_get_ptr'' CFn, Mem ''map_fd_put_ptr'' CFn,
     Mem ''map_gen_lookup'' CFn, Mem ''map_fd_sys_lookup_elem'' CFn,
     Mem ''map_seq_show_elem'' CFn, Mem ''map_check_btf'' CFn, Mem ''map_poke_track'' CFn,
     Mem ''map_poke_untrack'' CFn, Mem ''map_poke_run'' CFn, Mem ''map_direct_value_addr'' CFn,
     Mem ''map_direct_value_meta'' CFn, Mem ''map_mmap'' CFn, Mem ''map_poll'' CFn,
     Mem ''map_local_storage_charge'' CFn, Mem ''map_local_storage_uncharge'' CFn,
     Mem ''map_owner_storage_ptr'' CFn, Mem ''map_meta_equal'' CFn,
     Mem ''map_btf_name'' (CPtr ''const char''), Mem ''map_btf_id'' (CPtr ''int''),
     Mem ''iter_seq_info'' (CPtr ''const struct bpf_iter_seq_info''),
     Mem ''android_kabi_reserved1'' typedef_u64, Mem ''android_kabi_reserved2'' typedef_u64]"

definition struct_bucket :: ctyp where
  "struct_bucket =
    CStruct False [Mem ''head'' struct_hlist_nulls_head, Mem ''''
     (CUnion False [Mem ''raw_lock'' typedef_raw_spinlock_t, Mem ''lock'' typedef_spinlock_t])]"

definition struct_bpf_map_info :: ctyp where
  "struct_bpf_map_info =
    CStruct False [Mem ''type'' typedef___u32, Mem ''id'' typedef___u32,
     Mem ''key_size'' typedef___u32, Mem ''value_size'' typedef___u32,
     Mem ''max_entries'' typedef___u32, Mem ''map_flags'' typedef___u32,
     Mem ''name'' (CArr c_char 16), Mem ''ifindex'' typedef___u32,
     Mem ''btf_vmlinux_value_type_id'' typedef___u32, Mem ''netns_dev'' typedef___u64,
     Mem ''netns_ino'' typedef___u64, Mem ''btf_id'' typedef___u32,
     Mem ''btf_key_type_id'' typedef___u32, Mem ''btf_value_type_id'' typedef___u32]"

lemmas kernelMaps_types =
  struct_bpf_map_memory_def struct_bpf_map_def struct_bpf_array_def struct_pcpu_freelist_head_def
  struct_pcpu_freelist_def struct_bpf_lru_list_def struct_bpf_common_lru_def
  typedef_del_from_htab_func_def struct_bpf_lru_def struct_bpf_htab_def
  struct_hlist_nulls_node_def struct_pcpu_freelist_node_def struct_bpf_lru_node_def
  struct_htab_elem_def typedef_wait_queue_head_t_def struct_bpf_ringbuf_def
  struct_bpf_ringbuf_map_def struct_bpf_ringbuf_hdr_def struct_bpf_stack_map_def
  struct_stack_map_bucket_def struct_bpf_map_ops_def struct_bucket_def struct_bpf_map_info_def

end
