(* ===== verification/KernelProgs.thy ===== *)
theory KernelProgs
  imports KernelMaps
begin

text \<open>
  Programs, links, the verifier and the BTF type information, with the types they contain by
  value, as \<^verbatim>\<open>vmlinux.h\<close> declares them. These are the kernel objects that hold a
  loaded probe program.
\<close>

section \<open>Programs, verifier, type information\<close>

definition struct_sock_filter :: ctyp where
  "struct_sock_filter =
    CStruct False [Mem ''code'' typedef___u16, Mem ''jt'' typedef___u8, Mem ''jf'' typedef___u8,
     Mem ''k'' typedef___u32]"

definition typedef___s16 :: ctyp where
  "typedef___s16 = c_short"

definition struct_bpf_insn :: ctyp where
  "struct_bpf_insn =
    CStruct False [Mem ''code'' typedef___u8, Bits ''dst_reg'' typedef___u8 4,
     Bits ''src_reg'' typedef___u8 4, Mem ''off'' typedef___s16, Mem ''imm'' typedef___s32]"

definition struct_bpf_prog :: ctyp where
  "struct_bpf_prog =
    CStruct False [Mem ''pages'' typedef_u16, Bits ''jited'' typedef_u16 1,
     Bits ''jit_requested'' typedef_u16 1, Bits ''gpl_compatible'' typedef_u16 1,
     Bits ''cb_access'' typedef_u16 1, Bits ''dst_needed'' typedef_u16 1,
     Bits ''blinded'' typedef_u16 1, Bits ''is_func'' typedef_u16 1,
     Bits ''kprobe_override'' typedef_u16 1, Bits ''has_callchain_buf'' typedef_u16 1,
     Bits ''enforce_expected_attach_type'' typedef_u16 1, Bits ''call_get_stack'' typedef_u16 1,
     Mem ''type'' (CEnum enum_bpf_prog_type),
     Mem ''expected_attach_type'' (CEnum enum_bpf_attach_type), Mem ''len'' typedef_u32,
     Mem ''jited_len'' typedef_u32, Mem ''tag'' (CArr typedef_u8 8),
     Mem ''aux'' (CPtr ''struct bpf_prog_aux''),
     Mem ''orig_prog'' (CPtr ''struct sock_fprog_kern''), Mem ''bpf_func'' CFn,
     Mem ''insns'' (CArr struct_sock_filter 0), Mem ''insnsi'' (CArr struct_bpf_insn 0)]"

definition struct_bpf_ksym :: ctyp where
  "struct_bpf_ksym =
    CStruct False [Mem ''start'' c_ulong, Mem ''end'' c_ulong, Mem ''name'' (CArr c_char 128),
     Mem ''lnode'' struct_list_head, Mem ''tnode'' struct_latch_tree_node,
     Mem ''prog'' typedef_bool]"

definition struct_bpf_prog_aux :: ctyp where
  "struct_bpf_prog_aux =
    CStruct False [Mem ''refcnt'' typedef_atomic64_t, Mem ''used_map_cnt'' typedef_u32,
     Mem ''max_ctx_offset'' typedef_u32, Mem ''max_pkt_offset'' typedef_u32,
     Mem ''max_tp_access'' typedef_u32, Mem ''stack_depth'' typedef_u32, Mem ''id'' typedef_u32,
     Mem ''func_cnt'' typedef_u32, Mem ''func_idx'' typedef_u32,
     Mem ''attach_btf_id'' typedef_u32, Mem ''ctx_arg_info_size'' typedef_u32,
     Mem ''max_rdonly_access'' typedef_u32, Mem ''max_rdwr_access'' typedef_u32,
     Mem ''ctx_arg_info'' (CPtr ''const struct bpf_ctx_arg_aux''), Mem ''dst_mutex'' struct_mutex,
     Mem ''dst_prog'' (CPtr ''struct bpf_prog''),
     Mem ''dst_trampoline'' (CPtr ''struct bpf_trampoline''),
     Mem ''saved_dst_prog_type'' (CEnum enum_bpf_prog_type),
     Mem ''saved_dst_attach_type'' (CEnum enum_bpf_attach_type),
     Mem ''verifier_zext'' typedef_bool, Mem ''offload_requested'' typedef_bool,
     Mem ''attach_btf_trace'' typedef_bool, Mem ''func_proto_unreliable'' typedef_bool,
     Mem ''sleepable'' typedef_bool, Mem ''tail_call_reachable'' typedef_bool,
     Mem ''tramp_hlist'' struct_hlist_node,
     Mem ''attach_func_proto'' (CPtr ''const struct btf_type''),
     Mem ''attach_func_name'' (CPtr ''const char''), Mem ''func'' (CPtr ''struct bpf_prog *''),
     Mem ''jit_data'' (CPtr ''void''), Mem ''poke_tab'' (CPtr ''struct bpf_jit_poke_descriptor''),
     Mem ''size_poke_tab'' typedef_u32, Mem ''ksym'' struct_bpf_ksym,
     Mem ''ops'' (CPtr ''const struct bpf_prog_ops''),
     Mem ''used_maps'' (CPtr ''struct bpf_map *''), Mem ''used_maps_mutex'' struct_mutex,
     Mem ''prog'' (CPtr ''struct bpf_prog''), Mem ''user'' (CPtr ''struct user_struct''),
     Mem ''load_time'' typedef_u64, Mem ''cgroup_storage'' (CArr (CPtr ''struct bpf_map'') 2),
     Mem ''name'' (CArr c_char 16), Mem ''security'' (CPtr ''void''),
     Mem ''offload'' (CPtr ''struct bpf_prog_offload''), Mem ''btf'' (CPtr ''struct btf''),
     Mem ''func_info'' (CPtr ''struct bpf_func_info''),
     Mem ''func_info_aux'' (CPtr ''struct bpf_func_info_aux''),
     Mem ''linfo'' (CPtr ''struct bpf_line_info''), Mem ''jited_linfo'' (CPtr ''void *''),
     Mem ''func_info_cnt'' typedef_u32, Mem ''nr_linfo'' typedef_u32,
     Mem ''linfo_idx'' typedef_u32, Mem ''num_exentries'' typedef_u32,
     Mem ''extable'' (CPtr ''struct exception_table_entry''),
     Mem ''stats'' (CPtr ''struct bpf_prog_stats''), Mem ''''
     (CUnion False [Mem ''work'' struct_work_struct, Mem ''rcu'' struct_callback_head]),
     Mem ''android_kabi_reserved1'' typedef_u64]"

definition struct_bpf_verifier_log :: ctyp where
  "struct_bpf_verifier_log =
    CStruct False [Mem ''level'' typedef_u32, Mem ''kbuf'' (CArr c_char 1024),
     Mem ''ubuf'' (CPtr ''char''), Mem ''len_used'' typedef_u32, Mem ''len_total'' typedef_u32]"

definition struct_bpf_subprog_info :: ctyp where
  "struct_bpf_subprog_info =
    CStruct False [Mem ''start'' typedef_u32, Mem ''linfo_idx'' typedef_u32,
     Mem ''stack_depth'' typedef_u16, Mem ''has_tail_call'' typedef_bool,
     Mem ''tail_call_reachable'' typedef_bool, Mem ''has_ld_abs'' typedef_bool,
     Mem ''android_kabi_reserved1'' typedef_u64]"

definition struct_bpf_id_pair :: ctyp where
  "struct_bpf_id_pair =
    CStruct False [Mem ''old'' typedef_u32, Mem ''cur'' typedef_u32]"

definition struct_bpf_verifier_env :: ctyp where
  "struct_bpf_verifier_env =
    CStruct False [Mem ''insn_idx'' typedef_u32, Mem ''prev_insn_idx'' typedef_u32,
     Mem ''prog'' (CPtr ''struct bpf_prog''),
     Mem ''ops'' (CPtr ''const struct bpf_verifier_ops''),
     Mem ''head'' (CPtr ''struct bpf_verifier_stack_elem''), Mem ''stack_size'' c_int,
     Mem ''strict_alignment'' typedef_bool, Mem ''test_state_freq'' typedef_bool,
     Mem ''cur_state'' (CPtr ''struct bpf_verifier_state''),
     Mem ''explored_states'' (CPtr ''struct bpf_verifier_state_list *''),
     Mem ''free_list'' (CPtr ''struct bpf_verifier_state_list''),
     Mem ''used_maps'' (CArr (CPtr ''struct bpf_map'') 64), Mem ''used_map_cnt'' typedef_u32,
     Mem ''id_gen'' typedef_u32, Mem ''explore_alu_limits'' typedef_bool,
     Mem ''allow_ptr_leaks'' typedef_bool, Mem ''allow_uninit_stack'' typedef_bool,
     Mem ''allow_ptr_to_map_access'' typedef_bool, Mem ''bpf_capable'' typedef_bool,
     Mem ''bypass_spec_v1'' typedef_bool, Mem ''bypass_spec_v4'' typedef_bool,
     Mem ''seen_direct_write'' typedef_bool,
     Mem ''insn_aux_data'' (CPtr ''struct bpf_insn_aux_data''),
     Mem ''prev_linfo'' (CPtr ''const struct bpf_line_info''),
     Mem ''log'' struct_bpf_verifier_log, Mem ''subprog_info'' (CArr struct_bpf_subprog_info 257),
     Mem ''idmap_scratch'' (CArr struct_bpf_id_pair 75), Mem ''cfg''
     (CStruct False [Mem ''insn_state'' (CPtr ''int''), Mem ''insn_stack'' (CPtr ''int''),
     Mem ''cur_stack'' c_int]), Mem ''pass_cnt'' typedef_u32, Mem ''subprog_cnt'' typedef_u32,
     Mem ''prev_insn_processed'' typedef_u32, Mem ''insn_processed'' typedef_u32,
     Mem ''prev_jmps_processed'' typedef_u32, Mem ''jmps_processed'' typedef_u32,
     Mem ''verification_time'' typedef_u64, Mem ''max_states_per_insn'' typedef_u32,
     Mem ''total_states'' typedef_u32, Mem ''peak_states'' typedef_u32,
     Mem ''longest_mark_read_walk'' typedef_u32, Mem ''android_kabi_reserved1'' typedef_u64,
     Mem ''android_kabi_reserved2'' typedef_u64]"

definition struct_bpf_func_proto :: ctyp where
  "struct_bpf_func_proto =
    CStruct False [Mem ''func'' CFn, Mem ''gpl_only'' typedef_bool,
     Mem ''pkt_access'' typedef_bool, Mem ''ret_type'' (CEnum enum_bpf_return_type), Mem ''''
     (CUnion False [Mem '''' (CStruct False [Mem ''arg1_type'' (CEnum enum_bpf_arg_type),
     Mem ''arg2_type'' (CEnum enum_bpf_arg_type), Mem ''arg3_type'' (CEnum enum_bpf_arg_type),
     Mem ''arg4_type'' (CEnum enum_bpf_arg_type), Mem ''arg5_type'' (CEnum enum_bpf_arg_type)]),
     Mem ''arg_type'' (CArr (CEnum enum_bpf_arg_type) 5)]), Mem '''' (CUnion False [Mem ''''
     (CStruct False [Mem ''arg1_btf_id'' (CPtr ''u32''), Mem ''arg2_btf_id'' (CPtr ''u32''),
     Mem ''arg3_btf_id'' (CPtr ''u32''), Mem ''arg4_btf_id'' (CPtr ''u32''),
     Mem ''arg5_btf_id'' (CPtr ''u32'')]), Mem ''arg_btf_id'' (CArr (CPtr ''u32'') 5)]),
     Mem ''ret_btf_id'' (CPtr ''int''), Mem ''allowed'' CFn]"

definition struct_bpf_prog_info :: ctyp where
  "struct_bpf_prog_info =
    CStruct False [Mem ''type'' typedef___u32, Mem ''id'' typedef___u32,
     Mem ''tag'' (CArr typedef___u8 8), Mem ''jited_prog_len'' typedef___u32,
     Mem ''xlated_prog_len'' typedef___u32, Mem ''jited_prog_insns'' typedef___u64,
     Mem ''xlated_prog_insns'' typedef___u64, Mem ''load_time'' typedef___u64,
     Mem ''created_by_uid'' typedef___u32, Mem ''nr_map_ids'' typedef___u32,
     Mem ''map_ids'' typedef___u64, Mem ''name'' (CArr c_char 16), Mem ''ifindex'' typedef___u32,
     Bits ''gpl_compatible'' typedef___u32 1, Mem ''netns_dev'' typedef___u64,
     Mem ''netns_ino'' typedef___u64, Mem ''nr_jited_ksyms'' typedef___u32,
     Mem ''nr_jited_func_lens'' typedef___u32, Mem ''jited_ksyms'' typedef___u64,
     Mem ''jited_func_lens'' typedef___u64, Mem ''btf_id'' typedef___u32,
     Mem ''func_info_rec_size'' typedef___u32, Mem ''func_info'' typedef___u64,
     Mem ''nr_func_info'' typedef___u32, Mem ''nr_line_info'' typedef___u32,
     Mem ''line_info'' typedef___u64, Mem ''jited_line_info'' typedef___u64,
     Mem ''nr_jited_line_info'' typedef___u32, Mem ''line_info_rec_size'' typedef___u32,
     Mem ''jited_line_info_rec_size'' typedef___u32, Mem ''nr_prog_tags'' typedef___u32,
     Mem ''prog_tags'' typedef___u64, Mem ''run_time_ns'' typedef___u64,
     Mem ''run_cnt'' typedef___u64]"

definition struct_bpf_link_info :: ctyp where
  "struct_bpf_link_info =
    CStruct False [Mem ''type'' typedef___u32, Mem ''id'' typedef___u32,
     Mem ''prog_id'' typedef___u32, Mem '''' (CUnion False [Mem ''raw_tracepoint''
     (CStruct False [Mem ''tp_name'' typedef___u64, Mem ''tp_name_len'' typedef___u32]),
     Mem ''tracing'' (CStruct False [Mem ''attach_type'' typedef___u32]), Mem ''cgroup''
     (CStruct False [Mem ''cgroup_id'' typedef___u64, Mem ''attach_type'' typedef___u32]),
     Mem ''iter'' (CStruct False [Mem ''target_name'' typedef___u64,
     Mem ''target_name_len'' typedef___u32, Mem '''' (CUnion False [Mem ''map''
     (CStruct False [Mem ''map_id'' typedef___u32])])]), Mem ''netns''
     (CStruct False [Mem ''netns_ino'' typedef___u32, Mem ''attach_type'' typedef___u32]),
     Mem ''xdp'' (CStruct False [Mem ''ifindex'' typedef___u32])])]"

definition union_bpf_attr :: ctyp where
  "union_bpf_attr =
    CUnion False [Mem '''' (CStruct False [Mem ''map_type'' typedef___u32,
     Mem ''key_size'' typedef___u32, Mem ''value_size'' typedef___u32,
     Mem ''max_entries'' typedef___u32, Mem ''map_flags'' typedef___u32,
     Mem ''inner_map_fd'' typedef___u32, Mem ''numa_node'' typedef___u32,
     Mem ''map_name'' (CArr c_char 16), Mem ''map_ifindex'' typedef___u32,
     Mem ''btf_fd'' typedef___u32, Mem ''btf_key_type_id'' typedef___u32,
     Mem ''btf_value_type_id'' typedef___u32, Mem ''btf_vmlinux_value_type_id'' typedef___u32]),
     Mem '''' (CStruct False [Mem ''map_fd'' typedef___u32, Mem ''key'' typedef___u64, Mem ''''
     (CUnion False [Mem ''value'' typedef___u64, Mem ''next_key'' typedef___u64]),
     Mem ''flags'' typedef___u64]), Mem ''batch'' (CStruct False [Mem ''in_batch'' typedef___u64,
     Mem ''out_batch'' typedef___u64, Mem ''keys'' typedef___u64, Mem ''values'' typedef___u64,
     Mem ''count'' typedef___u32, Mem ''map_fd'' typedef___u32, Mem ''elem_flags'' typedef___u64,
     Mem ''flags'' typedef___u64]), Mem '''' (CStruct False [Mem ''prog_type'' typedef___u32,
     Mem ''insn_cnt'' typedef___u32, Mem ''insns'' typedef___u64, Mem ''license'' typedef___u64,
     Mem ''log_level'' typedef___u32, Mem ''log_size'' typedef___u32,
     Mem ''log_buf'' typedef___u64, Mem ''kern_version'' typedef___u32,
     Mem ''prog_flags'' typedef___u32, Mem ''prog_name'' (CArr c_char 16),
     Mem ''prog_ifindex'' typedef___u32, Mem ''expected_attach_type'' typedef___u32,
     Mem ''prog_btf_fd'' typedef___u32, Mem ''func_info_rec_size'' typedef___u32,
     Mem ''func_info'' typedef___u64, Mem ''func_info_cnt'' typedef___u32,
     Mem ''line_info_rec_size'' typedef___u32, Mem ''line_info'' typedef___u64,
     Mem ''line_info_cnt'' typedef___u32, Mem ''attach_btf_id'' typedef___u32,
     Mem ''attach_prog_fd'' typedef___u32]), Mem ''''
     (CStruct False [Mem ''pathname'' typedef___u64, Mem ''bpf_fd'' typedef___u32,
     Mem ''file_flags'' typedef___u32]), Mem '''' (CStruct False [Mem ''target_fd'' typedef___u32,
     Mem ''attach_bpf_fd'' typedef___u32, Mem ''attach_type'' typedef___u32,
     Mem ''attach_flags'' typedef___u32, Mem ''replace_bpf_fd'' typedef___u32]), Mem ''test''
     (CStruct False [Mem ''prog_fd'' typedef___u32, Mem ''retval'' typedef___u32,
     Mem ''data_size_in'' typedef___u32, Mem ''data_size_out'' typedef___u32,
     Mem ''data_in'' typedef___u64, Mem ''data_out'' typedef___u64, Mem ''repeat'' typedef___u32,
     Mem ''duration'' typedef___u32, Mem ''ctx_size_in'' typedef___u32,
     Mem ''ctx_size_out'' typedef___u32, Mem ''ctx_in'' typedef___u64,
     Mem ''ctx_out'' typedef___u64, Mem ''flags'' typedef___u32, Mem ''cpu'' typedef___u32]),
     Mem '''' (CStruct False [Mem '''' (CUnion False [Mem ''start_id'' typedef___u32,
     Mem ''prog_id'' typedef___u32, Mem ''map_id'' typedef___u32, Mem ''btf_id'' typedef___u32,
     Mem ''link_id'' typedef___u32]), Mem ''next_id'' typedef___u32,
     Mem ''open_flags'' typedef___u32]), Mem ''info''
     (CStruct False [Mem ''bpf_fd'' typedef___u32, Mem ''info_len'' typedef___u32,
     Mem ''info'' typedef___u64]), Mem ''query'' (CStruct False [Mem ''target_fd'' typedef___u32,
     Mem ''attach_type'' typedef___u32, Mem ''query_flags'' typedef___u32,
     Mem ''attach_flags'' typedef___u32, Mem ''prog_ids'' typedef___u64,
     Mem ''prog_cnt'' typedef___u32]), Mem ''raw_tracepoint''
     (CStruct False [Mem ''name'' typedef___u64, Mem ''prog_fd'' typedef___u32]), Mem ''''
     (CStruct False [Mem ''btf'' typedef___u64, Mem ''btf_log_buf'' typedef___u64,
     Mem ''btf_size'' typedef___u32, Mem ''btf_log_size'' typedef___u32,
     Mem ''btf_log_level'' typedef___u32]), Mem ''task_fd_query''
     (CStruct False [Mem ''pid'' typedef___u32, Mem ''fd'' typedef___u32,
     Mem ''flags'' typedef___u32, Mem ''buf_len'' typedef___u32, Mem ''buf'' typedef___u64,
     Mem ''prog_id'' typedef___u32, Mem ''fd_type'' typedef___u32,
     Mem ''probe_offset'' typedef___u64, Mem ''probe_addr'' typedef___u64]), Mem ''link_create''
     (CStruct False [Mem ''prog_fd'' typedef___u32, Mem ''''
     (CUnion False [Mem ''target_fd'' typedef___u32, Mem ''target_ifindex'' typedef___u32]),
     Mem ''attach_type'' typedef___u32, Mem ''flags'' typedef___u32, Mem ''''
     (CUnion False [Mem ''target_btf_id'' typedef___u32, Mem ''''
     (CStruct False [Mem ''iter_info'' typedef___u64, Mem ''iter_info_len'' typedef___u32])])]),
     Mem ''link_update'' (CStruct False [Mem ''link_fd'' typedef___u32,
     Mem ''new_prog_fd'' typedef___u32, Mem ''flags'' typedef___u32,
     Mem ''old_prog_fd'' typedef___u32]), Mem ''link_detach''
     (CStruct False [Mem ''link_fd'' typedef___u32]), Mem ''enable_stats''
     (CStruct False [Mem ''type'' typedef___u32]), Mem ''iter_create''
     (CStruct False [Mem ''link_fd'' typedef___u32, Mem ''flags'' typedef___u32]),
     Mem ''prog_bind_map'' (CStruct False [Mem ''prog_fd'' typedef___u32,
     Mem ''map_fd'' typedef___u32, Mem ''flags'' typedef___u32])]"

definition struct_bpf_prog_array_item :: ctyp where
  "struct_bpf_prog_array_item =
    CStruct False [Mem ''prog'' (CPtr ''struct bpf_prog''),
     Mem ''cgroup_storage'' (CArr (CPtr ''struct bpf_cgroup_storage'') 2)]"

definition struct_bpf_prog_array :: ctyp where
  "struct_bpf_prog_array =
    CStruct False [Mem ''rcu'' struct_callback_head,
     Mem ''items'' (CArr struct_bpf_prog_array_item 0)]"

definition struct_bpf_cgroup_storage_key :: ctyp where
  "struct_bpf_cgroup_storage_key =
    CStruct False [Mem ''cgroup_inode_id'' typedef___u64, Mem ''attach_type'' typedef___u32]"

definition struct_bpf_cgroup_storage :: ctyp where
  "struct_bpf_cgroup_storage =
    CStruct False [Mem '''' (CUnion False [Mem ''buf'' (CPtr ''struct bpf_storage_buffer''),
     Mem ''percpu_buf'' (CPtr ''void'')]), Mem ''map'' (CPtr ''struct bpf_cgroup_storage_map''),
     Mem ''key'' struct_bpf_cgroup_storage_key, Mem ''list_map'' struct_list_head,
     Mem ''list_cg'' struct_list_head, Mem ''node'' struct_rb_node,
     Mem ''rcu'' struct_callback_head]"

definition struct_bpf_raw_event_map :: ctyp where
  "struct_bpf_raw_event_map =
    CStruct False [Mem ''tp'' (CPtr ''struct tracepoint''), Mem ''bpf_func'' (CPtr ''void''),
     Mem ''num_args'' typedef_u32, Mem ''writable_size'' typedef_u32, gap 64]"

definition struct_bpf_ctx_arg_aux :: ctyp where
  "struct_bpf_ctx_arg_aux =
    CStruct False [Mem ''offset'' typedef_u32, Mem ''reg_type'' (CEnum enum_bpf_reg_type),
     Mem ''btf_id'' typedef_u32]"

definition struct_btf_func_model :: ctyp where
  "struct_btf_func_model =
    CStruct False [Mem ''ret_size'' typedef_u8, Mem ''nr_args'' typedef_u8,
     Mem ''arg_size'' (CArr typedef_u8 12)]"

definition struct_bpf_trampoline :: ctyp where
  "struct_bpf_trampoline =
    CStruct False [Mem ''hlist'' struct_hlist_node, Mem ''mutex'' struct_mutex,
     Mem ''refcnt'' typedef_refcount_t, Mem ''key'' typedef_u64, Mem ''func''
     (CStruct False [Mem ''model'' struct_btf_func_model, Mem ''addr'' (CPtr ''void''),
     Mem ''ftrace_managed'' typedef_bool]), Mem ''extension_prog'' (CPtr ''struct bpf_prog''),
     Mem ''progs_hlist'' (CArr struct_hlist_head 3), Mem ''progs_cnt'' (CArr c_int 3),
     Mem ''cur_image'' (CPtr ''struct bpf_tramp_image''), Mem ''selector'' typedef_u64]"

definition struct_bpf_tramp_image :: ctyp where
  "struct_bpf_tramp_image =
    CStruct False [Mem ''image'' (CPtr ''void''), Mem ''ksym'' struct_bpf_ksym,
     Mem ''pcref'' struct_percpu_ref, Mem ''ip_after_call'' (CPtr ''void''),
     Mem ''ip_epilogue'' (CPtr ''void''), Mem ''''
     (CUnion False [Mem ''rcu'' struct_callback_head, Mem ''work'' struct_work_struct])]"

definition struct_bpf_jit_poke_descriptor :: ctyp where
  "struct_bpf_jit_poke_descriptor =
    CStruct False [Mem ''tailcall_target'' (CPtr ''void''),
     Mem ''tailcall_bypass'' (CPtr ''void''), Mem ''bypass_addr'' (CPtr ''void''),
     Mem ''aux'' (CPtr ''void''), Mem '''' (CUnion False [Mem ''tail_call''
     (CStruct False [Mem ''map'' (CPtr ''struct bpf_map''), Mem ''key'' typedef_u32])]),
     Mem ''tailcall_target_stable'' typedef_bool, Mem ''adj_off'' typedef_u8,
     Mem ''reason'' typedef_u16, Mem ''insn_idx'' typedef_u32]"

definition typedef_bpf_iter_init_seq_priv_t :: ctyp where
  "typedef_bpf_iter_init_seq_priv_t = CFn"

definition typedef_bpf_iter_fini_seq_priv_t :: ctyp where
  "typedef_bpf_iter_fini_seq_priv_t = CFn"

definition struct_bpf_iter_seq_info :: ctyp where
  "struct_bpf_iter_seq_info =
    CStruct False [Mem ''seq_ops'' (CPtr ''const struct seq_operations''),
     Mem ''init_seq_private'' typedef_bpf_iter_init_seq_priv_t,
     Mem ''fini_seq_private'' typedef_bpf_iter_fini_seq_priv_t, Mem ''seq_priv_size'' typedef_u32]"

definition struct_bpf_iter_aux_info :: ctyp where
  "struct_bpf_iter_aux_info = CStruct False [Mem ''map'' (CPtr ''struct bpf_map'')]"

definition struct_bpf_prog_ops :: ctyp where
  "struct_bpf_prog_ops = CStruct False [Mem ''test_run'' CFn]"

definition struct_bpf_prog_offload :: ctyp where
  "struct_bpf_prog_offload =
    CStruct False [Mem ''prog'' (CPtr ''struct bpf_prog''),
     Mem ''netdev'' (CPtr ''struct net_device''),
     Mem ''offdev'' (CPtr ''struct bpf_offload_dev''), Mem ''dev_priv'' (CPtr ''void''),
     Mem ''offloads'' struct_list_head, Mem ''dev_state'' typedef_bool,
     Mem ''opt_failed'' typedef_bool, Mem ''jited_image'' (CPtr ''void''),
     Mem ''jited_len'' typedef_u32]"

definition struct_bpf_offloaded_map :: ctyp where
  "struct_bpf_offloaded_map =
    CStruct False ([Mem ''map'' struct_bpf_map, Mem ''netdev'' (CPtr ''struct net_device''),
     Mem ''dev_ops'' (CPtr ''const struct bpf_map_dev_ops''), Mem ''dev_priv'' (CPtr ''void''),
     Mem ''offloads'' struct_list_head] @ gaps 3)"

definition struct_bpf_func_info :: ctyp where
  "struct_bpf_func_info =
    CStruct False [Mem ''insn_off'' typedef___u32, Mem ''type_id'' typedef___u32]"

definition struct_bpf_func_info_aux :: ctyp where
  "struct_bpf_func_info_aux =
    CStruct False [Mem ''linkage'' typedef_u16, Mem ''unreliable'' typedef_bool]"

definition struct_u64_stats_sync :: ctyp where
  "struct_u64_stats_sync = CStruct False []"

definition struct_bpf_prog_stats :: ctyp where
  "struct_bpf_prog_stats =
    CStruct False [Mem ''cnt'' typedef_u64, Mem ''nsecs'' typedef_u64,
     Mem ''syncp'' struct_u64_stats_sync]"

definition struct_bpf_binary_header :: ctyp where
  "struct_bpf_binary_header =
    CStruct False [Mem ''pages'' typedef_u32, gap 0, Mem ''image'' (CArr typedef_u8 0)]"

definition struct_bpf_link :: ctyp where
  "struct_bpf_link =
    CStruct False [Mem ''refcnt'' typedef_atomic64_t, Mem ''id'' typedef_u32,
     Mem ''type'' (CEnum enum_bpf_link_type), Mem ''ops'' (CPtr ''const struct bpf_link_ops''),
     Mem ''prog'' (CPtr ''struct bpf_prog''), Mem ''work'' struct_work_struct]"

definition struct_bpf_cgroup_link :: ctyp where
  "struct_bpf_cgroup_link =
    CStruct False [Mem ''link'' struct_bpf_link, Mem ''cgroup'' (CPtr ''struct cgroup''),
     Mem ''type'' (CEnum enum_bpf_attach_type)]"

definition struct_bpf_link_ops :: ctyp where
  "struct_bpf_link_ops =
    CStruct False [Mem ''release'' CFn, Mem ''dealloc'' CFn, Mem ''detach'' CFn,
     Mem ''update_prog'' CFn, Mem ''show_fdinfo'' CFn, Mem ''fill_link_info'' CFn]"

definition struct_bpf_verifier_ops :: ctyp where
  "struct_bpf_verifier_ops =
    CStruct False [Mem ''get_func_proto'' CFn, Mem ''is_valid_access'' CFn,
     Mem ''gen_prologue'' CFn, Mem ''gen_ld_abs'' CFn, Mem ''convert_ctx_access'' CFn,
     Mem ''btf_struct_access'' CFn, Mem ''android_kabi_reserved1'' typedef_u64]"

definition struct_bpf_insn_access_aux :: ctyp where
  "struct_bpf_insn_access_aux =
    CStruct False [Mem ''reg_type'' (CEnum enum_bpf_reg_type), Mem ''''
     (CUnion False [Mem ''ctx_field_size'' c_int, Mem ''btf_id'' typedef_u32]),
     Mem ''log'' (CPtr ''struct bpf_verifier_log'')]"

definition union_perf_mem_data_src :: ctyp where
  "union_perf_mem_data_src =
    CUnion False [Mem ''val'' typedef___u64, Mem ''''
     (CStruct False [Bits ''mem_op'' typedef___u64 5, Bits ''mem_lvl'' typedef___u64 14,
     Bits ''mem_snoop'' typedef___u64 5, Bits ''mem_lock'' typedef___u64 2,
     Bits ''mem_dtlb'' typedef___u64 7, Bits ''mem_lvl_num'' typedef___u64 4,
     Bits ''mem_remote'' typedef___u64 1, Bits ''mem_snoopx'' typedef___u64 2,
     Bits ''mem_rsvd'' typedef___u64 24])]"

definition struct_perf_regs :: ctyp where
  "struct_perf_regs =
    CStruct False [Mem ''abi'' typedef___u64, Mem ''regs'' (CPtr ''struct pt_regs'')]"

definition struct_perf_sample_data :: ctyp where
  "struct_perf_sample_data =
    CStruct False [Mem ''addr'' typedef_u64, Mem ''raw'' (CPtr ''struct perf_raw_record''),
     Mem ''br_stack'' (CPtr ''struct perf_branch_stack''), Mem ''period'' typedef_u64,
     Mem ''weight'' typedef_u64, Mem ''txn'' typedef_u64,
     Mem ''data_src'' union_perf_mem_data_src, Mem ''type'' typedef_u64, Mem ''ip'' typedef_u64,
     Mem ''tid_entry'' (CStruct False [Mem ''pid'' typedef_u32, Mem ''tid'' typedef_u32]),
     Mem ''time'' typedef_u64, Mem ''id'' typedef_u64, Mem ''stream_id'' typedef_u64,
     Mem ''cpu_entry'' (CStruct False [Mem ''cpu'' typedef_u32, Mem ''reserved'' typedef_u32]),
     Mem ''callchain'' (CPtr ''struct perf_callchain_entry''), Mem ''aux_size'' typedef_u64,
     Mem ''regs_user'' struct_perf_regs, Mem ''regs_intr'' struct_perf_regs,
     Mem ''stack_user_size'' typedef_u64, Mem ''phys_addr'' typedef_u64,
     Mem ''cgroup'' typedef_u64, gap 64]"

definition struct_bpf_trace_sample_data :: ctyp where
  "struct_bpf_trace_sample_data =
    CStruct False [Mem ''sds'' (CArr struct_perf_sample_data 3)]"

definition struct_bpf_seq_printf_buf :: ctyp where
  "struct_bpf_seq_printf_buf = CStruct False [Mem ''buf'' (CArr c_char 768)]"

definition struct_bpf_raw_tp_regs :: ctyp where
  "struct_bpf_raw_tp_regs = CStruct False [Mem ''regs'' (CArr struct_pt_regs 3)]"

definition struct_bpf_perf_event_value :: ctyp where
  "struct_bpf_perf_event_value =
    CStruct False [Mem ''counter'' typedef___u64, Mem ''enabled'' typedef___u64,
     Mem ''running'' typedef___u64]"

definition struct_bpf_perf_event_data_kern :: ctyp where
  "struct_bpf_perf_event_data_kern =
    CStruct False [Mem ''regs'' (CPtr ''bpf_user_pt_regs_t''),
     Mem ''data'' (CPtr ''struct perf_sample_data''), Mem ''event'' (CPtr ''struct perf_event'')]"

definition struct_bpf_raw_tracepoint_args :: ctyp where
  "struct_bpf_raw_tracepoint_args = CStruct False [Mem ''args'' (CArr typedef___u64 0)]"

definition struct_bpf_array_aux :: ctyp where
  "struct_bpf_array_aux =
    CStruct False [Mem ''owner'' (CStruct False [Mem ''lock'' typedef_spinlock_t,
     Mem ''type'' (CEnum enum_bpf_prog_type), Mem ''jited'' typedef_bool]),
     Mem ''poke_progs'' struct_list_head, Mem ''map'' (CPtr ''struct bpf_map''),
     Mem ''poke_mutex'' struct_mutex, Mem ''work'' struct_work_struct]"

definition struct_bpf_trace_module :: ctyp where
  "struct_bpf_trace_module =
    CStruct False [Mem ''module'' (CPtr ''struct module''), Mem ''list'' struct_list_head]"

definition struct_bpf_event_entry :: ctyp where
  "struct_bpf_event_entry =
    CStruct False [Mem ''event'' (CPtr ''struct perf_event''),
     Mem ''perf_file'' (CPtr ''struct file''), Mem ''map_file'' (CPtr ''struct file''),
     Mem ''rcu'' struct_callback_head]"

definition struct_bpf_prog_dummy :: ctyp where
  "struct_bpf_prog_dummy = CStruct False [Mem ''prog'' struct_bpf_prog]"

definition struct_bpf_raw_tp_link :: ctyp where
  "struct_bpf_raw_tp_link =
    CStruct False [Mem ''link'' struct_bpf_link, Mem ''btp'' (CPtr ''struct bpf_raw_event_map'')]"

definition struct_bpf_btf_info :: ctyp where
  "struct_bpf_btf_info =
    CStruct False [Mem ''btf'' typedef___u64, Mem ''btf_size'' typedef___u32,
     Mem ''id'' typedef___u32]"

definition struct_bpf_link_primer :: ctyp where
  "struct_bpf_link_primer =
    CStruct False [Mem ''link'' (CPtr ''struct bpf_link''), Mem ''file'' (CPtr ''struct file''),
     Mem ''fd'' c_int, Mem ''id'' typedef_u32]"

definition struct_bpf_reg_types :: ctyp where
  "struct_bpf_reg_types =
    CStruct False [Mem ''types'' (CArr (CEnum enum_bpf_reg_type) 10),
     Mem ''btf_id'' (CPtr ''u32'')]"

definition struct_bpf_verifier_state :: ctyp where
  "struct_bpf_verifier_state =
    CStruct False [Mem ''frame'' (CArr (CPtr ''struct bpf_func_state'') 8),
     Mem ''parent'' (CPtr ''struct bpf_verifier_state''), Mem ''branches'' typedef_u32,
     Mem ''insn_idx'' typedef_u32, Mem ''curframe'' typedef_u32,
     Mem ''active_spin_lock'' typedef_u32, Mem ''speculative'' typedef_bool,
     Mem ''first_insn_idx'' typedef_u32, Mem ''last_insn_idx'' typedef_u32,
     Mem ''jmp_history'' (CPtr ''struct bpf_idx_pair''), Mem ''jmp_history_cnt'' typedef_u32]"

definition struct_bpf_verifier_stack_elem :: ctyp where
  "struct_bpf_verifier_stack_elem =
    CStruct False [Mem ''st'' struct_bpf_verifier_state, Mem ''insn_idx'' c_int,
     Mem ''prev_insn_idx'' c_int, Mem ''next'' (CPtr ''struct bpf_verifier_stack_elem''),
     Mem ''log_pos'' typedef_u32]"

definition struct_tnum :: ctyp where
  "struct_tnum =
    CStruct False [Mem ''value'' typedef_u64, Mem ''mask'' typedef_u64]"

definition struct_bpf_reg_state :: ctyp where
  "struct_bpf_reg_state =
    CStruct False [Mem ''type'' (CEnum enum_bpf_reg_type), Mem ''''
     (CUnion False [Mem ''range'' typedef_u16, Mem ''map_ptr'' (CPtr ''struct bpf_map''),
     Mem ''btf_id'' typedef_u32, Mem ''mem_size'' typedef_u32, Mem ''raw'' c_ulong]),
     Mem ''off'' typedef_s32, Mem ''id'' typedef_u32, Mem ''ref_obj_id'' typedef_u32,
     Mem ''var_off'' struct_tnum, Mem ''smin_value'' typedef_s64, Mem ''smax_value'' typedef_s64,
     Mem ''umin_value'' typedef_u64, Mem ''umax_value'' typedef_u64,
     Mem ''s32_min_value'' typedef_s32, Mem ''s32_max_value'' typedef_s32,
     Mem ''u32_min_value'' typedef_u32, Mem ''u32_max_value'' typedef_u32,
     Mem ''parent'' (CPtr ''struct bpf_reg_state''), Mem ''frameno'' typedef_u32,
     Mem ''subreg_def'' typedef_s32, Mem ''live'' (CEnum enum_bpf_reg_liveness),
     Mem ''precise'' typedef_bool]"

definition struct_bpf_func_state :: ctyp where
  "struct_bpf_func_state =
    CStruct False [Mem ''regs'' (CArr struct_bpf_reg_state 11), Mem ''callsite'' c_int,
     Mem ''frameno'' typedef_u32, Mem ''subprogno'' typedef_u32, Mem ''acquired_refs'' c_int,
     Mem ''refs'' (CPtr ''struct bpf_reference_state''), Mem ''allocated_stack'' c_int,
     Mem ''stack'' (CPtr ''struct bpf_stack_state'')]"

definition struct_bpf_stack_state :: ctyp where
  "struct_bpf_stack_state =
    CStruct False [Mem ''spilled_ptr'' struct_bpf_reg_state,
     Mem ''slot_type'' (CArr typedef_u8 8)]"

definition struct_bpf_idx_pair :: ctyp where
  "struct_bpf_idx_pair =
    CStruct False [Mem ''prev_idx'' typedef_u32, Mem ''idx'' typedef_u32]"

definition struct_bpf_verifier_state_list :: ctyp where
  "struct_bpf_verifier_state_list =
    CStruct False [Mem ''state'' struct_bpf_verifier_state,
     Mem ''next'' (CPtr ''struct bpf_verifier_state_list''), Mem ''miss_cnt'' c_int,
     Mem ''hit_cnt'' c_int]"

definition struct_bpf_insn_aux_data :: ctyp where
  "struct_bpf_insn_aux_data =
    CStruct False [Mem '''' (CUnion False [Mem ''ptr_type'' (CEnum enum_bpf_reg_type),
     Mem ''map_ptr_state'' c_ulong, Mem ''call_imm'' typedef_s32, Mem ''alu_limit'' typedef_u32,
     Mem '''' (CStruct False [Mem ''map_index'' typedef_u32, Mem ''map_off'' typedef_u32]),
     Mem ''btf_var'' (CStruct False [Mem ''reg_type'' (CEnum enum_bpf_reg_type), Mem ''''
     (CUnion False [Mem ''btf_id'' typedef_u32, Mem ''mem_size'' typedef_u32])])]),
     Mem ''map_key_state'' typedef_u64, Mem ''ctx_field_size'' c_int, Mem ''seen'' typedef_u32,
     Mem ''sanitize_stack_spill'' typedef_bool, Mem ''zext_dst'' typedef_bool,
     Mem ''alu_state'' typedef_u8, Mem ''orig_idx'' c_uint, Mem ''prune_point'' typedef_bool]"

definition struct_bpf_struct_ops :: ctyp where
  "struct_bpf_struct_ops =
    CStruct False [Mem ''verifier_ops'' (CPtr ''const struct bpf_verifier_ops''),
     Mem ''init'' CFn, Mem ''check_member'' CFn, Mem ''init_member'' CFn, Mem ''reg'' CFn,
     Mem ''unreg'' CFn, Mem ''type'' (CPtr ''const struct btf_type''),
     Mem ''value_type'' (CPtr ''const struct btf_type''), Mem ''name'' (CPtr ''const char''),
     Mem ''func_models'' (CArr struct_btf_func_model 64), Mem ''type_id'' typedef_u32,
     Mem ''value_id'' typedef_u32]"

definition typedef_bpf_insn_print_t :: ctyp where
  "typedef_bpf_insn_print_t = CFn"

definition typedef_bpf_insn_revmap_call_t :: ctyp where
  "typedef_bpf_insn_revmap_call_t = CFn"

definition typedef_bpf_insn_print_imm_t :: ctyp where
  "typedef_bpf_insn_print_imm_t = CFn"

definition struct_bpf_insn_cbs :: ctyp where
  "struct_bpf_insn_cbs =
    CStruct False [Mem ''cb_print'' typedef_bpf_insn_print_t,
     Mem ''cb_call'' typedef_bpf_insn_revmap_call_t, Mem ''cb_imm'' typedef_bpf_insn_print_imm_t,
     Mem ''private_data'' (CPtr ''void'')]"

definition struct_bpf_pidns_info :: ctyp where
  "struct_bpf_pidns_info =
    CStruct False [Mem ''pid'' typedef___u32, Mem ''tgid'' typedef___u32]"

definition struct_bpf_iter_target_info :: ctyp where
  "struct_bpf_iter_target_info =
    CStruct False [Mem ''list'' struct_list_head,
     Mem ''reg_info'' (CPtr ''const struct bpf_iter_reg''), Mem ''btf_id'' typedef_u32]"

definition typedef_bpf_iter_attach_target_t :: ctyp where
  "typedef_bpf_iter_attach_target_t = CFn"

definition typedef_bpf_iter_detach_target_t :: ctyp where
  "typedef_bpf_iter_detach_target_t = CFn"

definition typedef_bpf_iter_show_fdinfo_t :: ctyp where
  "typedef_bpf_iter_show_fdinfo_t = CFn"

definition typedef_bpf_iter_fill_link_info_t :: ctyp where
  "typedef_bpf_iter_fill_link_info_t = CFn"

definition struct_bpf_iter_reg :: ctyp where
  "struct_bpf_iter_reg =
    CStruct False [Mem ''target'' (CPtr ''const char''),
     Mem ''attach_target'' typedef_bpf_iter_attach_target_t,
     Mem ''detach_target'' typedef_bpf_iter_detach_target_t,
     Mem ''show_fdinfo'' typedef_bpf_iter_show_fdinfo_t,
     Mem ''fill_link_info'' typedef_bpf_iter_fill_link_info_t,
     Mem ''ctx_arg_info_size'' typedef_u32, Mem ''ctx_arg_info'' (CArr struct_bpf_ctx_arg_aux 2),
     Mem ''seq_info'' (CPtr ''const struct bpf_iter_seq_info'')]"

definition struct_bpf_iter_link :: ctyp where
  "struct_bpf_iter_link =
    CStruct False [Mem ''link'' struct_bpf_link, Mem ''aux'' struct_bpf_iter_aux_info,
     Mem ''tinfo'' (CPtr ''struct bpf_iter_target_info'')]"

definition struct_bpf_iter_priv_data :: ctyp where
  "struct_bpf_iter_priv_data =
    CStruct False [Mem ''tinfo'' (CPtr ''struct bpf_iter_target_info''),
     Mem ''seq_info'' (CPtr ''const struct bpf_iter_seq_info''),
     Mem ''prog'' (CPtr ''struct bpf_prog''), Mem ''session_id'' typedef_u64,
     Mem ''seq_num'' typedef_u64, Mem ''done_stop'' typedef_bool, gap 0,
     Mem ''target_private'' (CArr typedef_u8 0)]"

definition struct_bpf_iter_meta :: ctyp where
  "struct_bpf_iter_meta =
    CStruct False [Mem '''' (CUnion False [Mem ''seq'' (CPtr ''struct seq_file'')]),
     Mem ''session_id'' typedef_u64, Mem ''seq_num'' typedef_u64]"

definition struct_bpf_iter__bpf_map :: ctyp where
  "struct_bpf_iter__bpf_map =
    CStruct False [Mem '''' (CUnion False [Mem ''meta'' (CPtr ''struct bpf_iter_meta'')]),
     Mem '''' (CUnion False [Mem ''map'' (CPtr ''struct bpf_map'')])]"

definition struct_bpf_iter_seq_map_info :: ctyp where
  "struct_bpf_iter_seq_map_info = CStruct False [Mem ''map_id'' typedef_u32]"

definition struct_bpf_iter__task_file :: ctyp where
  "struct_bpf_iter__task_file =
    CStruct False [Mem '''' (CUnion False [Mem ''meta'' (CPtr ''struct bpf_iter_meta'')]),
     Mem '''' (CUnion False [Mem ''task'' (CPtr ''struct task_struct'')]), Mem ''fd'' typedef_u32,
     Mem '''' (CUnion False [Mem ''file'' (CPtr ''struct file'')])]"

definition struct_bpf_iter_seq_task_common :: ctyp where
  "struct_bpf_iter_seq_task_common = CStruct False [Mem ''ns'' (CPtr ''struct pid_namespace'')]"

definition struct_bpf_iter_seq_task_file_info :: ctyp where
  "struct_bpf_iter_seq_task_file_info =
    CStruct False [Mem ''common'' struct_bpf_iter_seq_task_common,
     Mem ''task'' (CPtr ''struct task_struct''), Mem ''files'' (CPtr ''struct files_struct''),
     Mem ''tid'' typedef_u32, Mem ''fd'' typedef_u32]"

definition struct_bpf_iter__task :: ctyp where
  "struct_bpf_iter__task =
    CStruct False [Mem '''' (CUnion False [Mem ''meta'' (CPtr ''struct bpf_iter_meta'')]),
     Mem '''' (CUnion False [Mem ''task'' (CPtr ''struct task_struct'')])]"

definition struct_bpf_iter_seq_task_info :: ctyp where
  "struct_bpf_iter_seq_task_info =
    CStruct False [Mem ''common'' struct_bpf_iter_seq_task_common, Mem ''tid'' typedef_u32]"

definition struct_bpf_iter__bpf_prog :: ctyp where
  "struct_bpf_iter__bpf_prog =
    CStruct False [Mem '''' (CUnion False [Mem ''meta'' (CPtr ''struct bpf_iter_meta'')]),
     Mem '''' (CUnion False [Mem ''prog'' (CPtr ''struct bpf_prog'')])]"

definition struct_bpf_iter_seq_prog_info :: ctyp where
  "struct_bpf_iter_seq_prog_info = CStruct False [Mem ''prog_id'' typedef_u32]"

definition struct_bpf_lru_locallist :: ctyp where
  "struct_bpf_lru_locallist =
    CStruct False [Mem ''lists'' (CArr struct_list_head 2), Mem ''next_steal'' typedef_u16,
     Mem ''lock'' typedef_raw_spinlock_t]"

definition struct_bpf_iter_seq_hash_map_info :: ctyp where
  "struct_bpf_iter_seq_hash_map_info =
    CStruct False [Mem ''map'' (CPtr ''struct bpf_map''),
     Mem ''htab'' (CPtr ''struct bpf_htab''), Mem ''percpu_value_buf'' (CPtr ''void''),
     Mem ''bucket_id'' typedef_u32, Mem ''skip_elems'' typedef_u32]"

definition struct_bpf_iter__bpf_map_elem :: ctyp where
  "struct_bpf_iter__bpf_map_elem =
    CStruct False [Mem '''' (CUnion False [Mem ''meta'' (CPtr ''struct bpf_iter_meta'')]),
     Mem '''' (CUnion False [Mem ''map'' (CPtr ''struct bpf_map'')]), Mem ''''
     (CUnion False [Mem ''key'' (CPtr ''void'')]), Mem ''''
     (CUnion False [Mem ''value'' (CPtr ''void'')])]"

definition struct_bpf_iter_seq_array_map_info :: ctyp where
  "struct_bpf_iter_seq_array_map_info =
    CStruct False [Mem ''map'' (CPtr ''struct bpf_map''),
     Mem ''percpu_value_buf'' (CPtr ''void''), Mem ''index'' typedef_u32]"

definition struct_bpf_cgroup_storage_map :: ctyp where
  "struct_bpf_cgroup_storage_map =
    CStruct False ([Mem ''map'' struct_bpf_map, Mem ''lock'' typedef_spinlock_t,
     Mem ''root'' struct_rb_root, Mem ''list'' struct_list_head] @ gaps 4)"

definition struct_bpf_cgroup_storage_info :: ctyp where
  "struct_bpf_cgroup_storage_info =
    CStruct False [Mem ''task'' (CPtr ''struct task_struct''),
     Mem ''storage'' (CArr (CPtr ''struct bpf_cgroup_storage'') 2)]"

definition struct_bpf_tramp_progs :: ctyp where
  "struct_bpf_tramp_progs =
    CStruct False [Mem ''progs'' (CArr (CPtr ''struct bpf_prog'') 40), Mem ''nr_progs'' c_int]"

definition typedef_bpf_user_pt_regs_t :: ctyp where
  "typedef_bpf_user_pt_regs_t = struct_user_pt_regs"

definition struct_bpf_perf_event_data :: ctyp where
  "struct_bpf_perf_event_data =
    CStruct False [Mem ''regs'' typedef_bpf_user_pt_regs_t, Mem ''sample_period'' typedef___u64,
     Mem ''addr'' typedef___u64]"

definition struct_bpf_cgroup_dev_ctx :: ctyp where
  "struct_bpf_cgroup_dev_ctx =
    CStruct False [Mem ''access_type'' typedef___u32, Mem ''major'' typedef___u32,
     Mem ''minor'' typedef___u32]"

definition struct___sk_buff :: ctyp where
  "struct___sk_buff =
    CStruct False [Mem ''len'' typedef___u32, Mem ''pkt_type'' typedef___u32,
     Mem ''mark'' typedef___u32, Mem ''queue_mapping'' typedef___u32,
     Mem ''protocol'' typedef___u32, Mem ''vlan_present'' typedef___u32,
     Mem ''vlan_tci'' typedef___u32, Mem ''vlan_proto'' typedef___u32,
     Mem ''priority'' typedef___u32, Mem ''ingress_ifindex'' typedef___u32,
     Mem ''ifindex'' typedef___u32, Mem ''tc_index'' typedef___u32,
     Mem ''cb'' (CArr typedef___u32 5), Mem ''hash'' typedef___u32,
     Mem ''tc_classid'' typedef___u32, Mem ''data'' typedef___u32, Mem ''data_end'' typedef___u32,
     Mem ''napi_id'' typedef___u32, Mem ''family'' typedef___u32,
     Mem ''remote_ip4'' typedef___u32, Mem ''local_ip4'' typedef___u32,
     Mem ''remote_ip6'' (CArr typedef___u32 4), Mem ''local_ip6'' (CArr typedef___u32 4),
     Mem ''remote_port'' typedef___u32, Mem ''local_port'' typedef___u32,
     Mem ''data_meta'' typedef___u32, Mem ''''
     (CUnion False [Mem ''flow_keys'' (CPtr ''struct bpf_flow_keys'')]),
     Mem ''tstamp'' typedef___u64, Mem ''wire_len'' typedef___u32, Mem ''gso_segs'' typedef___u32,
     Mem '''' (CUnion False [Mem ''sk'' (CPtr ''struct bpf_sock'')]),
     Mem ''gso_size'' typedef___u32]"

definition typedef___wsum :: ctyp where
  "typedef___wsum = typedef___u32"

definition typedef___be16 :: ctyp where
  "typedef___be16 = typedef___u16"

definition typedef_sk_buff_data_t :: ctyp where
  "typedef_sk_buff_data_t = c_uint"

definition struct_sk_buff :: ctyp where
  "struct_sk_buff =
    CStruct False [Mem '''' (CUnion False [Mem ''''
     (CStruct False [Mem ''next'' (CPtr ''struct sk_buff''),
     Mem ''prev'' (CPtr ''struct sk_buff''), Mem ''''
     (CUnion False [Mem ''dev'' (CPtr ''struct net_device''), Mem ''dev_scratch'' c_ulong])]),
     Mem ''rbnode'' struct_rb_node, Mem ''list'' struct_list_head]), Mem ''''
     (CUnion False [Mem ''sk'' (CPtr ''struct sock''), Mem ''ip_defrag_offset'' c_int]), Mem ''''
     (CUnion False [Mem ''tstamp'' typedef_ktime_t, Mem ''skb_mstamp_ns'' typedef_u64]),
     Mem ''cb'' (CArr c_char 48), Mem '''' (CUnion False [Mem ''''
     (CStruct False [Mem ''_skb_refdst'' c_ulong, Mem ''destructor'' CFn]),
     Mem ''tcp_tsorted_anchor'' struct_list_head]), Mem ''_nfct'' c_ulong, Mem ''len'' c_uint,
     Mem ''data_len'' c_uint, Mem ''mac_len'' typedef___u16, Mem ''hdr_len'' typedef___u16,
     Mem ''queue_mapping'' typedef___u16, Mem ''__cloned_offset'' (CArr typedef___u8 0),
     Bits ''cloned'' typedef___u8 1, Bits ''nohdr'' typedef___u8 1,
     Bits ''fclone'' typedef___u8 2, Bits ''peeked'' typedef___u8 1,
     Bits ''head_frag'' typedef___u8 1, Bits ''pfmemalloc'' typedef___u8 1,
     Mem ''active_extensions'' typedef___u8, Mem ''headers_start'' (CArr typedef___u32 0),
     Mem ''__pkt_type_offset'' (CArr typedef___u8 0), Bits ''pkt_type'' typedef___u8 3,
     Bits ''ignore_df'' typedef___u8 1, Bits ''nf_trace'' typedef___u8 1,
     Bits ''ip_summed'' typedef___u8 2, Bits ''ooo_okay'' typedef___u8 1,
     Bits ''l4_hash'' typedef___u8 1, Bits ''sw_hash'' typedef___u8 1,
     Bits ''wifi_acked_valid'' typedef___u8 1, Bits ''wifi_acked'' typedef___u8 1,
     Bits ''no_fcs'' typedef___u8 1, Bits ''encapsulation'' typedef___u8 1,
     Bits ''encap_hdr_csum'' typedef___u8 1, Bits ''csum_valid'' typedef___u8 1,
     Mem ''__pkt_vlan_present_offset'' (CArr typedef___u8 0),
     Bits ''vlan_present'' typedef___u8 1, Bits ''csum_complete_sw'' typedef___u8 1,
     Bits ''csum_level'' typedef___u8 2, Bits ''csum_not_inet'' typedef___u8 1,
     Bits ''dst_pending_confirm'' typedef___u8 1, Bits ''ndisc_nodetype'' typedef___u8 2,
     Bits ''ipvs_property'' typedef___u8 1, Bits ''inner_protocol_type'' typedef___u8 1,
     Bits ''remcsum_offload'' typedef___u8 1, Bits ''tc_skip_classify'' typedef___u8 1,
     Bits ''tc_at_ingress'' typedef___u8 1, Bits ''redirected'' typedef___u8 1,
     Bits ''from_ingress'' typedef___u8 1, Mem ''tc_index'' typedef___u16, Mem ''''
     (CUnion False [Mem ''csum'' typedef___wsum, Mem ''''
     (CStruct False [Mem ''csum_start'' typedef___u16, Mem ''csum_offset'' typedef___u16])]),
     Mem ''priority'' typedef___u32, Mem ''skb_iif'' c_int, Mem ''hash'' typedef___u32,
     Mem ''vlan_proto'' typedef___be16, Mem ''vlan_tci'' typedef___u16, Mem ''''
     (CUnion False [Mem ''napi_id'' c_uint, Mem ''sender_cpu'' c_uint]),
     Mem ''secmark'' typedef___u32, Mem '''' (CUnion False [Mem ''mark'' typedef___u32,
     Mem ''reserved_tailroom'' typedef___u32]), Mem ''''
     (CUnion False [Mem ''inner_protocol'' typedef___be16, Mem ''inner_ipproto'' typedef___u8]),
     Mem ''inner_transport_header'' typedef___u16, Mem ''inner_network_header'' typedef___u16,
     Mem ''inner_mac_header'' typedef___u16, Mem ''protocol'' typedef___be16,
     Mem ''transport_header'' typedef___u16, Mem ''network_header'' typedef___u16,
     Mem ''mac_header'' typedef___u16, Mem ''headers_end'' (CArr typedef___u32 0),
     Mem ''android_kabi_reserved1'' typedef_u64, Mem ''android_kabi_reserved2'' typedef_u64,
     Mem ''tail'' typedef_sk_buff_data_t, Mem ''end'' typedef_sk_buff_data_t,
     Mem ''head'' (CPtr ''unsigned char''), Mem ''data'' (CPtr ''unsigned char''),
     Mem ''truesize'' c_uint, Mem ''users'' typedef_refcount_t,
     Mem ''extensions'' (CPtr ''struct skb_ext'')]"

definition struct_xdp_md :: ctyp where
  "struct_xdp_md =
    CStruct False [Mem ''data'' typedef___u32, Mem ''data_end'' typedef___u32,
     Mem ''data_meta'' typedef___u32, Mem ''ingress_ifindex'' typedef___u32,
     Mem ''rx_queue_index'' typedef___u32, Mem ''egress_ifindex'' typedef___u32]"

definition struct_xdp_buff :: ctyp where
  "struct_xdp_buff =
    CStruct False [Mem ''data'' (CPtr ''void''), Mem ''data_end'' (CPtr ''void''),
     Mem ''data_meta'' (CPtr ''void''), Mem ''data_hard_start'' (CPtr ''void''),
     Mem ''rxq'' (CPtr ''struct xdp_rxq_info''), Mem ''txq'' (CPtr ''struct xdp_txq_info''),
     Mem ''frame_sz'' typedef_u32]"

definition struct_bpf_sock :: ctyp where
  "struct_bpf_sock =
    CStruct False [Mem ''bound_dev_if'' typedef___u32, Mem ''family'' typedef___u32,
     Mem ''type'' typedef___u32, Mem ''protocol'' typedef___u32, Mem ''mark'' typedef___u32,
     Mem ''priority'' typedef___u32, Mem ''src_ip4'' typedef___u32,
     Mem ''src_ip6'' (CArr typedef___u32 4), Mem ''src_port'' typedef___u32,
     Mem ''dst_port'' typedef___u32, Mem ''dst_ip4'' typedef___u32,
     Mem ''dst_ip6'' (CArr typedef___u32 4), Mem ''state'' typedef___u32,
     Mem ''rx_queue_mapping'' typedef___s32]"

definition typedef___addrpair :: ctyp where
  "typedef___addrpair = typedef___u64"

definition typedef___be32 :: ctyp where
  "typedef___be32 = typedef___u32"

definition typedef___portpair :: ctyp where
  "typedef___portpair = typedef___u32"

definition typedef_possible_net_t :: ctyp where
  "typedef_possible_net_t = CStruct False [Mem ''net'' (CPtr ''struct net'')]"

definition struct_in6_addr :: ctyp where
  "struct_in6_addr =
    CStruct False [Mem ''in6_u'' (CUnion False [Mem ''u6_addr8'' (CArr typedef___u8 16),
     Mem ''u6_addr16'' (CArr typedef___be16 8), Mem ''u6_addr32'' (CArr typedef___be32 4)])]"

definition struct_sock_common :: ctyp where
  "struct_sock_common =
    CStruct False [Mem '''' (CUnion False [Mem ''skc_addrpair'' typedef___addrpair, Mem ''''
     (CStruct False [Mem ''skc_daddr'' typedef___be32, Mem ''skc_rcv_saddr'' typedef___be32])]),
     Mem '''' (CUnion False [Mem ''skc_hash'' c_uint,
     Mem ''skc_u16hashes'' (CArr typedef___u16 2)]), Mem ''''
     (CUnion False [Mem ''skc_portpair'' typedef___portpair, Mem ''''
     (CStruct False [Mem ''skc_dport'' typedef___be16, Mem ''skc_num'' typedef___u16])]),
     Mem ''skc_family'' c_ushort, Mem ''skc_state'' c_uchar, Bits ''skc_reuse'' c_uchar 4,
     Bits ''skc_reuseport'' c_uchar 1, Bits ''skc_ipv6only'' c_uchar 1,
     Bits ''skc_net_refcnt'' c_uchar 1, Mem ''skc_bound_dev_if'' c_int, Mem ''''
     (CUnion False [Mem ''skc_bind_node'' struct_hlist_node,
     Mem ''skc_portaddr_node'' struct_hlist_node]), Mem ''skc_prot'' (CPtr ''struct proto''),
     Mem ''skc_net'' typedef_possible_net_t, Mem ''skc_v6_daddr'' struct_in6_addr,
     Mem ''skc_v6_rcv_saddr'' struct_in6_addr, Mem ''skc_cookie'' typedef_atomic64_t, Mem ''''
     (CUnion False [Mem ''skc_flags'' c_ulong, Mem ''skc_listener'' (CPtr ''struct sock''),
     Mem ''skc_tw_dr'' (CPtr ''struct inet_timewait_death_row'')]),
     Mem ''skc_dontcopy_begin'' (CArr c_int 0), Mem ''''
     (CUnion False [Mem ''skc_node'' struct_hlist_node,
     Mem ''skc_nulls_node'' struct_hlist_nulls_node]), Mem ''skc_tx_queue_mapping'' c_ushort,
     Mem ''skc_rx_queue_mapping'' c_ushort, Mem ''''
     (CUnion False [Mem ''skc_incoming_cpu'' c_int, Mem ''skc_rcv_wnd'' typedef_u32,
     Mem ''skc_tw_rcv_nxt'' typedef_u32]), Mem ''skc_refcnt'' typedef_refcount_t,
     Mem ''skc_dontcopy_end'' (CArr c_int 0), Mem ''''
     (CUnion False [Mem ''skc_rxhash'' typedef_u32, Mem ''skc_window_clamp'' typedef_u32,
     Mem ''skc_tw_snd_nxt'' typedef_u32])]"

definition typedef_socket_lock_t :: ctyp where
  "typedef_socket_lock_t =
    CStruct False [Mem ''slock'' typedef_spinlock_t, Mem ''owned'' c_int,
     Mem ''wq'' typedef_wait_queue_head_t]"

definition struct_sk_buff_head :: ctyp where
  "struct_sk_buff_head =
    CStruct False [Mem ''next'' (CPtr ''struct sk_buff''),
     Mem ''prev'' (CPtr ''struct sk_buff''), Mem ''qlen'' typedef___u32,
     Mem ''lock'' typedef_spinlock_t]"

definition struct_page_frag :: ctyp where
  "struct_page_frag =
    CStruct False [Mem ''page'' (CPtr ''struct page''), Mem ''offset'' typedef___u32,
     Mem ''size'' typedef___u32]"

definition typedef_netdev_features_t :: ctyp where
  "typedef_netdev_features_t = typedef_u64"

definition typedef_gfp_t :: ctyp where
  "typedef_gfp_t = c_uint"

definition struct_qrwlock :: ctyp where
  "struct_qrwlock =
    CStruct False [Mem '''' (CUnion False [Mem ''cnts'' typedef_atomic_t, Mem ''''
     (CStruct False [Mem ''wlocked'' typedef_u8, Mem ''__lstate'' (CArr typedef_u8 3)])]),
     Mem ''wait_lock'' typedef_arch_spinlock_t]"

definition typedef_arch_rwlock_t :: ctyp where
  "typedef_arch_rwlock_t = struct_qrwlock"

definition typedef_rwlock_t :: ctyp where
  "typedef_rwlock_t = CStruct False [Mem ''raw_lock'' typedef_arch_rwlock_t]"

definition typedef___kernel_uid32_t :: ctyp where
  "typedef___kernel_uid32_t = c_uint"

definition typedef_uid_t :: ctyp where
  "typedef_uid_t = typedef___kernel_uid32_t"

definition typedef_kuid_t :: ctyp where
  "typedef_kuid_t = CStruct False [Mem ''val'' typedef_uid_t]"

definition struct_sock_cgroup_data :: ctyp where
  "struct_sock_cgroup_data =
    CStruct False [Mem '''' (CUnion False [Mem ''''
     (CStruct False [Bits ''is_data'' typedef_u8 1, Bits ''no_refcnt'' typedef_u8 1,
     Bits ''unused'' typedef_u8 6, Mem ''padding'' typedef_u8, Mem ''prioidx'' typedef_u16,
     Mem ''classid'' typedef_u32]), Mem ''val'' typedef_u64])]"

definition struct_sock :: ctyp where
  "struct_sock =
    CStruct False [Mem ''__sk_common'' struct_sock_common, Mem ''sk_lock'' typedef_socket_lock_t,
     Mem ''sk_drops'' typedef_atomic_t, Mem ''sk_rcvlowat'' c_int,
     Mem ''sk_error_queue'' struct_sk_buff_head,
     Mem ''sk_rx_skb_cache'' (CPtr ''struct sk_buff''),
     Mem ''sk_receive_queue'' struct_sk_buff_head, Mem ''sk_backlog''
     (CStruct False [Mem ''rmem_alloc'' typedef_atomic_t, Mem ''len'' c_int,
     Mem ''head'' (CPtr ''struct sk_buff''), Mem ''tail'' (CPtr ''struct sk_buff'')]),
     Mem ''sk_forward_alloc'' c_int, Mem ''sk_ll_usec'' c_uint, Mem ''sk_napi_id'' c_uint,
     Mem ''sk_rcvbuf'' c_int, Mem ''sk_filter'' (CPtr ''struct sk_filter''), Mem ''''
     (CUnion False [Mem ''sk_wq'' (CPtr ''struct socket_wq''),
     Mem ''sk_wq_raw'' (CPtr ''struct socket_wq'')]),
     Mem ''sk_policy'' (CArr (CPtr ''struct xfrm_policy'') 2),
     Mem ''sk_rx_dst'' (CPtr ''struct dst_entry''),
     Mem ''sk_dst_cache'' (CPtr ''struct dst_entry''), Mem ''sk_omem_alloc'' typedef_atomic_t,
     Mem ''sk_sndbuf'' c_int, Mem ''sk_wmem_queued'' c_int,
     Mem ''sk_wmem_alloc'' typedef_refcount_t, Mem ''sk_tsq_flags'' c_ulong, Mem ''''
     (CUnion False [Mem ''sk_send_head'' (CPtr ''struct sk_buff''),
     Mem ''tcp_rtx_queue'' struct_rb_root]), Mem ''sk_tx_skb_cache'' (CPtr ''struct sk_buff''),
     Mem ''sk_write_queue'' struct_sk_buff_head, Mem ''sk_peek_off'' typedef___s32,
     Mem ''sk_write_pending'' c_int, Mem ''sk_dst_pending_confirm'' typedef___u32,
     Mem ''sk_pacing_status'' typedef_u32, Mem ''sk_sndtimeo'' c_long,
     Mem ''sk_timer'' struct_timer_list, Mem ''sk_priority'' typedef___u32,
     Mem ''sk_mark'' typedef___u32, Mem ''sk_pacing_rate'' c_ulong,
     Mem ''sk_max_pacing_rate'' c_ulong, Mem ''sk_frag'' struct_page_frag,
     Mem ''sk_route_caps'' typedef_netdev_features_t,
     Mem ''sk_route_nocaps'' typedef_netdev_features_t,
     Mem ''sk_route_forced_caps'' typedef_netdev_features_t, Mem ''sk_gso_type'' c_int,
     Mem ''sk_gso_max_size'' c_uint, Mem ''sk_allocation'' typedef_gfp_t,
     Mem ''sk_txhash'' typedef___u32, Bits ''sk_padding'' typedef_u8 1,
     Bits ''sk_kern_sock'' typedef_u8 1, Bits ''sk_no_check_tx'' typedef_u8 1,
     Bits ''sk_no_check_rx'' typedef_u8 1, Bits ''sk_userlocks'' typedef_u8 4,
     Mem ''sk_pacing_shift'' typedef_u8, Mem ''sk_type'' typedef_u16,
     Mem ''sk_protocol'' typedef_u16, Mem ''sk_gso_max_segs'' typedef_u16,
     Mem ''sk_lingertime'' c_ulong, Mem ''sk_prot_creator'' (CPtr ''struct proto''),
     Mem ''sk_callback_lock'' typedef_rwlock_t, Mem ''sk_err'' c_int, Mem ''sk_err_soft'' c_int,
     Mem ''sk_ack_backlog'' typedef_u32, Mem ''sk_max_ack_backlog'' typedef_u32,
     Mem ''sk_uid'' typedef_kuid_t, Mem ''sk_peer_lock'' typedef_spinlock_t,
     Mem ''sk_peer_pid'' (CPtr ''struct pid''), Mem ''sk_peer_cred'' (CPtr ''const struct cred''),
     Mem ''sk_rcvtimeo'' c_long, Mem ''sk_stamp'' typedef_ktime_t, Mem ''sk_tsflags'' typedef_u16,
     Mem ''sk_shutdown'' typedef_u8, Mem ''sk_tskey'' typedef_u32,
     Mem ''sk_zckey'' typedef_atomic_t, Mem ''sk_clockid'' typedef_u8,
     Bits ''sk_txtime_deadline_mode'' typedef_u8 1, Bits ''sk_txtime_report_errors'' typedef_u8 1,
     Bits ''sk_txtime_unused'' typedef_u8 6, Mem ''sk_socket'' (CPtr ''struct socket''),
     Mem ''sk_user_data'' (CPtr ''void''), Mem ''sk_security'' (CPtr ''void''),
     Mem ''sk_cgrp_data'' struct_sock_cgroup_data, Mem ''sk_memcg'' (CPtr ''struct mem_cgroup''),
     Mem ''sk_state_change'' CFn, Mem ''sk_data_ready'' CFn, Mem ''sk_write_space'' CFn,
     Mem ''sk_error_report'' CFn, Mem ''sk_backlog_rcv'' CFn, Mem ''sk_destruct'' CFn,
     Mem ''sk_reuseport_cb'' (CPtr ''struct sock_reuseport''),
     Mem ''sk_bpf_storage'' (CPtr ''struct bpf_local_storage''),
     Mem ''sk_rcu'' struct_callback_head, Mem ''android_kabi_reserved1'' typedef_u64,
     Mem ''android_kabi_reserved2'' typedef_u64, Mem ''android_kabi_reserved3'' typedef_u64,
     Mem ''android_kabi_reserved4'' typedef_u64, Mem ''android_kabi_reserved5'' typedef_u64,
     Mem ''android_kabi_reserved6'' typedef_u64, Mem ''android_kabi_reserved7'' typedef_u64,
     Mem ''android_kabi_reserved8'' typedef_u64, Mem ''android_oem_data1'' typedef_u64]"

definition struct_bpf_sock_addr :: ctyp where
  "struct_bpf_sock_addr =
    CStruct False [Mem ''user_family'' typedef___u32, Mem ''user_ip4'' typedef___u32,
     Mem ''user_ip6'' (CArr typedef___u32 4), Mem ''user_port'' typedef___u32,
     Mem ''family'' typedef___u32, Mem ''type'' typedef___u32, Mem ''protocol'' typedef___u32,
     Mem ''msg_src_ip4'' typedef___u32, Mem ''msg_src_ip6'' (CArr typedef___u32 4), Mem ''''
     (CUnion False [Mem ''sk'' (CPtr ''struct bpf_sock'')])]"

definition struct_bpf_sock_addr_kern :: ctyp where
  "struct_bpf_sock_addr_kern =
    CStruct False [Mem ''sk'' (CPtr ''struct sock''), Mem ''uaddr'' (CPtr ''struct sockaddr''),
     Mem ''tmp_reg'' typedef_u64, Mem ''t_ctx'' (CPtr ''void'')]"

definition struct_bpf_sock_ops :: ctyp where
  "struct_bpf_sock_ops =
    CStruct False [Mem ''op'' typedef___u32, Mem ''''
     (CUnion False [Mem ''args'' (CArr typedef___u32 4), Mem ''reply'' typedef___u32,
     Mem ''replylong'' (CArr typedef___u32 4)]), Mem ''family'' typedef___u32,
     Mem ''remote_ip4'' typedef___u32, Mem ''local_ip4'' typedef___u32,
     Mem ''remote_ip6'' (CArr typedef___u32 4), Mem ''local_ip6'' (CArr typedef___u32 4),
     Mem ''remote_port'' typedef___u32, Mem ''local_port'' typedef___u32,
     Mem ''is_fullsock'' typedef___u32, Mem ''snd_cwnd'' typedef___u32,
     Mem ''srtt_us'' typedef___u32, Mem ''bpf_sock_ops_cb_flags'' typedef___u32,
     Mem ''state'' typedef___u32, Mem ''rtt_min'' typedef___u32,
     Mem ''snd_ssthresh'' typedef___u32, Mem ''rcv_nxt'' typedef___u32,
     Mem ''snd_nxt'' typedef___u32, Mem ''snd_una'' typedef___u32,
     Mem ''mss_cache'' typedef___u32, Mem ''ecn_flags'' typedef___u32,
     Mem ''rate_delivered'' typedef___u32, Mem ''rate_interval_us'' typedef___u32,
     Mem ''packets_out'' typedef___u32, Mem ''retrans_out'' typedef___u32,
     Mem ''total_retrans'' typedef___u32, Mem ''segs_in'' typedef___u32,
     Mem ''data_segs_in'' typedef___u32, Mem ''segs_out'' typedef___u32,
     Mem ''data_segs_out'' typedef___u32, Mem ''lost_out'' typedef___u32,
     Mem ''sacked_out'' typedef___u32, Mem ''sk_txhash'' typedef___u32,
     Mem ''bytes_received'' typedef___u64, Mem ''bytes_acked'' typedef___u64, Mem ''''
     (CUnion False [Mem ''sk'' (CPtr ''struct bpf_sock'')]), Mem ''''
     (CUnion False [Mem ''skb_data'' (CPtr ''void'')]), Mem ''''
     (CUnion False [Mem ''skb_data_end'' (CPtr ''void'')]), Mem ''skb_len'' typedef___u32,
     Mem ''skb_tcp_flags'' typedef___u32]"

definition struct_bpf_sock_ops_kern :: ctyp where
  "struct_bpf_sock_ops_kern =
    CStruct False [Mem ''sk'' (CPtr ''struct sock''), Mem ''''
     (CUnion False [Mem ''args'' (CArr typedef_u32 4), Mem ''reply'' typedef_u32,
     Mem ''replylong'' (CArr typedef_u32 4)]), Mem ''syn_skb'' (CPtr ''struct sk_buff''),
     Mem ''skb'' (CPtr ''struct sk_buff''), Mem ''skb_data_end'' (CPtr ''void''),
     Mem ''op'' typedef_u8, Mem ''is_fullsock'' typedef_u8, Mem ''remaining_opt_len'' typedef_u8,
     Mem ''temp'' typedef_u64]"

definition struct_sk_msg_md :: ctyp where
  "struct_sk_msg_md =
    CStruct False [Mem '''' (CUnion False [Mem ''data'' (CPtr ''void'')]), Mem ''''
     (CUnion False [Mem ''data_end'' (CPtr ''void'')]), Mem ''family'' typedef___u32,
     Mem ''remote_ip4'' typedef___u32, Mem ''local_ip4'' typedef___u32,
     Mem ''remote_ip6'' (CArr typedef___u32 4), Mem ''local_ip6'' (CArr typedef___u32 4),
     Mem ''remote_port'' typedef___u32, Mem ''local_port'' typedef___u32,
     Mem ''size'' typedef___u32, Mem '''' (CUnion False [Mem ''sk'' (CPtr ''struct bpf_sock'')])]"

definition typedef_dma_addr_t :: ctyp where
  "typedef_dma_addr_t = typedef_u64"

definition struct_scatterlist :: ctyp where
  "struct_scatterlist =
    CStruct False [Mem ''page_link'' c_ulong, Mem ''offset'' c_uint, Mem ''length'' c_uint,
     Mem ''dma_address'' typedef_dma_addr_t, Mem ''dma_length'' c_uint]"

definition struct_sk_msg_sg :: ctyp where
  "struct_sk_msg_sg =
    CStruct False [Mem ''start'' typedef_u32, Mem ''curr'' typedef_u32, Mem ''end'' typedef_u32,
     Mem ''size'' typedef_u32, Mem ''copybreak'' typedef_u32, Mem ''copy'' c_ulong,
     Mem ''data'' (CArr struct_scatterlist 19)]"

definition struct_sk_msg :: ctyp where
  "struct_sk_msg =
    CStruct False [Mem ''sg'' struct_sk_msg_sg, Mem ''data'' (CPtr ''void''),
     Mem ''data_end'' (CPtr ''void''), Mem ''apply_bytes'' typedef_u32,
     Mem ''cork_bytes'' typedef_u32, Mem ''flags'' typedef_u32,
     Mem ''skb'' (CPtr ''struct sk_buff''), Mem ''sk_redir'' (CPtr ''struct sock''),
     Mem ''sk'' (CPtr ''struct sock''), Mem ''list'' struct_list_head]"

definition struct_bpf_flow_dissector :: ctyp where
  "struct_bpf_flow_dissector =
    CStruct False [Mem ''flow_keys'' (CPtr ''struct bpf_flow_keys''),
     Mem ''skb'' (CPtr ''const struct sk_buff''), Mem ''data'' (CPtr ''void''),
     Mem ''data_end'' (CPtr ''void'')]"

definition struct_bpf_sysctl :: ctyp where
  "struct_bpf_sysctl =
    CStruct False [Mem ''write'' typedef___u32, Mem ''file_pos'' typedef___u32]"

definition typedef___kernel_ulong_t :: ctyp where
  "typedef___kernel_ulong_t = c_ulong"

definition typedef___kernel_size_t :: ctyp where
  "typedef___kernel_size_t = typedef___kernel_ulong_t"

definition typedef_size_t :: ctyp where
  "typedef_size_t = typedef___kernel_size_t"

definition struct_bpf_sysctl_kern :: ctyp where
  "struct_bpf_sysctl_kern =
    CStruct False [Mem ''head'' (CPtr ''struct ctl_table_header''),
     Mem ''table'' (CPtr ''struct ctl_table''), Mem ''cur_val'' (CPtr ''void''),
     Mem ''cur_len'' typedef_size_t, Mem ''new_val'' (CPtr ''void''),
     Mem ''new_len'' typedef_size_t, Mem ''new_updated'' c_int, Mem ''write'' c_int,
     Mem ''ppos'' (CPtr ''loff_t''), Mem ''tmp_reg'' typedef_u64]"

definition struct_bpf_sockopt :: ctyp where
  "struct_bpf_sockopt =
    CStruct False [Mem '''' (CUnion False [Mem ''sk'' (CPtr ''struct bpf_sock'')]), Mem ''''
     (CUnion False [Mem ''optval'' (CPtr ''void'')]), Mem ''''
     (CUnion False [Mem ''optval_end'' (CPtr ''void'')]), Mem ''level'' typedef___s32,
     Mem ''optname'' typedef___s32, Mem ''optlen'' typedef___s32, Mem ''retval'' typedef___s32]"

definition struct_bpf_sockopt_kern :: ctyp where
  "struct_bpf_sockopt_kern =
    CStruct False [Mem ''sk'' (CPtr ''struct sock''), Mem ''optval'' (CPtr ''u8''),
     Mem ''optval_end'' (CPtr ''u8''), Mem ''level'' typedef_s32, Mem ''optname'' typedef_s32,
     Mem ''optlen'' typedef_s32, Mem ''retval'' typedef_s32]"

definition struct_sk_reuseport_md :: ctyp where
  "struct_sk_reuseport_md =
    CStruct False [Mem '''' (CUnion False [Mem ''data'' (CPtr ''void'')]), Mem ''''
     (CUnion False [Mem ''data_end'' (CPtr ''void'')]), Mem ''len'' typedef___u32,
     Mem ''eth_protocol'' typedef___u32, Mem ''ip_protocol'' typedef___u32,
     Mem ''bind_inany'' typedef___u32, Mem ''hash'' typedef___u32]"

definition struct_sk_reuseport_kern :: ctyp where
  "struct_sk_reuseport_kern =
    CStruct False [Mem ''skb'' (CPtr ''struct sk_buff''), Mem ''sk'' (CPtr ''struct sock''),
     Mem ''selected_sk'' (CPtr ''struct sock''), Mem ''data_end'' (CPtr ''void''),
     Mem ''hash'' typedef_u32, Mem ''reuseport_id'' typedef_u32, Mem ''bind_inany'' typedef_bool]"

definition struct_bpf_sk_lookup :: ctyp where
  "struct_bpf_sk_lookup =
    CStruct False [Mem '''' (CUnion False [Mem ''sk'' (CPtr ''struct bpf_sock'')]),
     Mem ''family'' typedef___u32, Mem ''protocol'' typedef___u32,
     Mem ''remote_ip4'' typedef___u32, Mem ''remote_ip6'' (CArr typedef___u32 4),
     Mem ''remote_port'' typedef___u32, Mem ''local_ip4'' typedef___u32,
     Mem ''local_ip6'' (CArr typedef___u32 4), Mem ''local_port'' typedef___u32]"

definition struct_bpf_sk_lookup_kern :: ctyp where
  "struct_bpf_sk_lookup_kern =
    CStruct False [Mem ''family'' typedef_u16, Mem ''protocol'' typedef_u16,
     Mem ''sport'' typedef___be16, Mem ''dport'' typedef_u16, Mem ''v4''
     (CStruct False [Mem ''saddr'' typedef___be32, Mem ''daddr'' typedef___be32]), Mem ''v6''
     (CStruct False [Mem ''saddr'' (CPtr ''const struct in6_addr''),
     Mem ''daddr'' (CPtr ''const struct in6_addr'')]), Mem ''selected_sk'' (CPtr ''struct sock''),
     Mem ''no_reuseport'' typedef_bool]"

definition typedef_uint64_t :: ctyp where
  "typedef_uint64_t = typedef_u64"

definition typedef_uint32_t :: ctyp where
  "typedef_uint32_t = typedef_u32"

definition struct_fuse_bpf_in_arg :: ctyp where
  "struct_fuse_bpf_in_arg =
    CStruct False [Mem ''size'' typedef_uint32_t, Mem ''value'' (CPtr ''const void''),
     Mem ''end_offset'' (CPtr ''const void'')]"

definition struct_fuse_bpf_arg :: ctyp where
  "struct_fuse_bpf_arg =
    CStruct False [Mem ''size'' typedef_uint32_t, Mem ''value'' (CPtr ''void''),
     Mem ''end_offset'' (CPtr ''void'')]"

definition struct_fuse_bpf_args :: ctyp where
  "struct_fuse_bpf_args =
    CStruct False [Mem ''nodeid'' typedef_uint64_t, Mem ''opcode'' typedef_uint32_t,
     Mem ''error_in'' typedef_uint32_t, Mem ''in_numargs'' typedef_uint32_t,
     Mem ''out_numargs'' typedef_uint32_t, Mem ''flags'' typedef_uint32_t,
     Mem ''in_args'' (CArr struct_fuse_bpf_in_arg 5),
     Mem ''out_args'' (CArr struct_fuse_bpf_arg 3)]"

definition struct_bpf_ctx_convert :: ctyp where
  "struct_bpf_ctx_convert =
    CStruct False [Mem ''BPF_PROG_TYPE_SOCKET_FILTER_prog'' struct___sk_buff,
     Mem ''BPF_PROG_TYPE_SOCKET_FILTER_kern'' struct_sk_buff,
     Mem ''BPF_PROG_TYPE_SCHED_CLS_prog'' struct___sk_buff,
     Mem ''BPF_PROG_TYPE_SCHED_CLS_kern'' struct_sk_buff,
     Mem ''BPF_PROG_TYPE_SCHED_ACT_prog'' struct___sk_buff,
     Mem ''BPF_PROG_TYPE_SCHED_ACT_kern'' struct_sk_buff,
     Mem ''BPF_PROG_TYPE_XDP_prog'' struct_xdp_md, Mem ''BPF_PROG_TYPE_XDP_kern'' struct_xdp_buff,
     Mem ''BPF_PROG_TYPE_CGROUP_SKB_prog'' struct___sk_buff,
     Mem ''BPF_PROG_TYPE_CGROUP_SKB_kern'' struct_sk_buff,
     Mem ''BPF_PROG_TYPE_CGROUP_SOCK_prog'' struct_bpf_sock,
     Mem ''BPF_PROG_TYPE_CGROUP_SOCK_kern'' struct_sock,
     Mem ''BPF_PROG_TYPE_CGROUP_SOCK_ADDR_prog'' struct_bpf_sock_addr,
     Mem ''BPF_PROG_TYPE_CGROUP_SOCK_ADDR_kern'' struct_bpf_sock_addr_kern,
     Mem ''BPF_PROG_TYPE_LWT_IN_prog'' struct___sk_buff,
     Mem ''BPF_PROG_TYPE_LWT_IN_kern'' struct_sk_buff,
     Mem ''BPF_PROG_TYPE_LWT_OUT_prog'' struct___sk_buff,
     Mem ''BPF_PROG_TYPE_LWT_OUT_kern'' struct_sk_buff,
     Mem ''BPF_PROG_TYPE_LWT_XMIT_prog'' struct___sk_buff,
     Mem ''BPF_PROG_TYPE_LWT_XMIT_kern'' struct_sk_buff,
     Mem ''BPF_PROG_TYPE_LWT_SEG6LOCAL_prog'' struct___sk_buff,
     Mem ''BPF_PROG_TYPE_LWT_SEG6LOCAL_kern'' struct_sk_buff,
     Mem ''BPF_PROG_TYPE_SOCK_OPS_prog'' struct_bpf_sock_ops,
     Mem ''BPF_PROG_TYPE_SOCK_OPS_kern'' struct_bpf_sock_ops_kern,
     Mem ''BPF_PROG_TYPE_SK_SKB_prog'' struct___sk_buff,
     Mem ''BPF_PROG_TYPE_SK_SKB_kern'' struct_sk_buff,
     Mem ''BPF_PROG_TYPE_SK_MSG_prog'' struct_sk_msg_md,
     Mem ''BPF_PROG_TYPE_SK_MSG_kern'' struct_sk_msg,
     Mem ''BPF_PROG_TYPE_FLOW_DISSECTOR_prog'' struct___sk_buff,
     Mem ''BPF_PROG_TYPE_FLOW_DISSECTOR_kern'' struct_bpf_flow_dissector,
     Mem ''BPF_PROG_TYPE_KPROBE_prog'' typedef_bpf_user_pt_regs_t,
     Mem ''BPF_PROG_TYPE_KPROBE_kern'' struct_pt_regs,
     Mem ''BPF_PROG_TYPE_TRACEPOINT_prog'' typedef___u64,
     Mem ''BPF_PROG_TYPE_TRACEPOINT_kern'' typedef_u64,
     Mem ''BPF_PROG_TYPE_PERF_EVENT_prog'' struct_bpf_perf_event_data,
     Mem ''BPF_PROG_TYPE_PERF_EVENT_kern'' struct_bpf_perf_event_data_kern,
     Mem ''BPF_PROG_TYPE_RAW_TRACEPOINT_prog'' struct_bpf_raw_tracepoint_args,
     Mem ''BPF_PROG_TYPE_RAW_TRACEPOINT_kern'' typedef_u64,
     Mem ''BPF_PROG_TYPE_RAW_TRACEPOINT_WRITABLE_prog'' struct_bpf_raw_tracepoint_args,
     Mem ''BPF_PROG_TYPE_RAW_TRACEPOINT_WRITABLE_kern'' typedef_u64,
     Mem ''BPF_PROG_TYPE_TRACING_prog'' (CPtr ''void''),
     Mem ''BPF_PROG_TYPE_TRACING_kern'' (CPtr ''void''),
     Mem ''BPF_PROG_TYPE_CGROUP_DEVICE_prog'' struct_bpf_cgroup_dev_ctx,
     Mem ''BPF_PROG_TYPE_CGROUP_DEVICE_kern'' struct_bpf_cgroup_dev_ctx,
     Mem ''BPF_PROG_TYPE_CGROUP_SYSCTL_prog'' struct_bpf_sysctl,
     Mem ''BPF_PROG_TYPE_CGROUP_SYSCTL_kern'' struct_bpf_sysctl_kern,
     Mem ''BPF_PROG_TYPE_CGROUP_SOCKOPT_prog'' struct_bpf_sockopt,
     Mem ''BPF_PROG_TYPE_CGROUP_SOCKOPT_kern'' struct_bpf_sockopt_kern,
     Mem ''BPF_PROG_TYPE_LIRC_MODE2_prog'' typedef___u32,
     Mem ''BPF_PROG_TYPE_LIRC_MODE2_kern'' typedef_u32,
     Mem ''BPF_PROG_TYPE_SK_REUSEPORT_prog'' struct_sk_reuseport_md,
     Mem ''BPF_PROG_TYPE_SK_REUSEPORT_kern'' struct_sk_reuseport_kern,
     Mem ''BPF_PROG_TYPE_SK_LOOKUP_prog'' struct_bpf_sk_lookup,
     Mem ''BPF_PROG_TYPE_SK_LOOKUP_kern'' struct_bpf_sk_lookup_kern,
     Mem ''BPF_PROG_TYPE_STRUCT_OPS_prog'' (CPtr ''void''),
     Mem ''BPF_PROG_TYPE_STRUCT_OPS_kern'' (CPtr ''void''),
     Mem ''BPF_PROG_TYPE_EXT_prog'' (CPtr ''void''),
     Mem ''BPF_PROG_TYPE_EXT_kern'' (CPtr ''void''),
     Mem ''BPF_PROG_TYPE_FUSE_prog'' struct_fuse_bpf_args,
     Mem ''BPF_PROG_TYPE_FUSE_kern'' struct_fuse_bpf_args]"

definition struct_bpf_dispatcher_prog :: ctyp where
  "struct_bpf_dispatcher_prog =
    CStruct False [Mem ''prog'' (CPtr ''struct bpf_prog''), Mem ''users'' typedef_refcount_t]"

definition struct_bpf_dispatcher :: ctyp where
  "struct_bpf_dispatcher =
    CStruct False [Mem ''mutex'' struct_mutex, Mem ''func'' (CPtr ''void''),
     Mem ''progs'' (CArr struct_bpf_dispatcher_prog 48), Mem ''num_progs'' c_int,
     Mem ''image'' (CPtr ''void''), Mem ''image_off'' typedef_u32, Mem ''ksym'' struct_bpf_ksym]"

definition struct_bpf_offload_dev :: ctyp where
  "struct_bpf_offload_dev =
    CStruct False [Mem ''ops'' (CPtr ''const struct bpf_prog_offload_ops''),
     Mem ''netdevs'' struct_list_head, Mem ''priv'' (CPtr ''void'')]"

definition struct_bpf_prog_offload_ops :: ctyp where
  "struct_bpf_prog_offload_ops =
    CStruct False [Mem ''insn_hook'' CFn, Mem ''finalize'' CFn, Mem ''replace_insn'' CFn,
     Mem ''remove_insns'' CFn, Mem ''prepare'' CFn, Mem ''translate'' CFn, Mem ''destroy'' CFn,
     Mem ''android_kabi_reserved1'' typedef_u64]"

definition struct_rhash_head :: ctyp where
  "struct_rhash_head = CStruct False [Mem ''next'' (CPtr ''struct rhash_head'')]"

definition struct_bpf_offload_netdev :: ctyp where
  "struct_bpf_offload_netdev =
    CStruct False [Mem ''l'' struct_rhash_head, Mem ''netdev'' (CPtr ''struct net_device''),
     Mem ''offdev'' (CPtr ''struct bpf_offload_dev''), Mem ''progs'' struct_list_head,
     Mem ''maps'' struct_list_head, Mem ''offdev_netdevs'' struct_list_head]"

definition struct_bpf_stack_build_id :: ctyp where
  "struct_bpf_stack_build_id =
    CStruct False [Mem ''status'' typedef___s32, Mem ''build_id'' (CArr c_uchar 20), Mem ''''
     (CUnion False [Mem ''offset'' typedef___u64, Mem ''ip'' typedef___u64])]"

definition struct_bpf_prog_list :: ctyp where
  "struct_bpf_prog_list =
    CStruct False [Mem ''node'' struct_list_head, Mem ''prog'' (CPtr ''struct bpf_prog''),
     Mem ''link'' (CPtr ''struct bpf_cgroup_link''),
     Mem ''storage'' (CArr (CPtr ''struct bpf_cgroup_storage'') 2)]"

definition struct_bpf_iter_seq_sk_storage_map_info :: ctyp where
  "struct_bpf_iter_seq_sk_storage_map_info =
    CStruct False [Mem ''map'' (CPtr ''struct bpf_map''), Mem ''bucket_id'' c_uint,
     Mem ''skip_elems'' c_uint]"

definition struct_bpf_iter__bpf_sk_storage_map :: ctyp where
  "struct_bpf_iter__bpf_sk_storage_map =
    CStruct False [Mem '''' (CUnion False [Mem ''meta'' (CPtr ''struct bpf_iter_meta'')]),
     Mem '''' (CUnion False [Mem ''map'' (CPtr ''struct bpf_map'')]), Mem ''''
     (CUnion False [Mem ''sk'' (CPtr ''struct sock'')]), Mem ''''
     (CUnion False [Mem ''value'' (CPtr ''void'')])]"

definition struct_bpf_iter__netlink :: ctyp where
  "struct_bpf_iter__netlink =
    CStruct False [Mem '''' (CUnion False [Mem ''meta'' (CPtr ''struct bpf_iter_meta'')]),
     Mem '''' (CUnion False [Mem ''sk'' (CPtr ''struct netlink_sock'')])]"

definition struct_bpf_raw_tp_test_run_info :: ctyp where
  "struct_bpf_raw_tp_test_run_info =
    CStruct False [Mem ''prog'' (CPtr ''struct bpf_prog''), Mem ''ctx'' (CPtr ''void''),
     Mem ''retval'' typedef_u32]"

definition struct_bpf_iter__tcp :: ctyp where
  "struct_bpf_iter__tcp =
    CStruct False [Mem '''' (CUnion False [Mem ''meta'' (CPtr ''struct bpf_iter_meta'')]),
     Mem '''' (CUnion False [Mem ''sk_common'' (CPtr ''struct sock_common'')]),
     Mem ''uid'' typedef_uid_t]"

definition struct_bpf_iter__udp :: ctyp where
  "struct_bpf_iter__udp =
    CStruct False [Mem '''' (CUnion False [Mem ''meta'' (CPtr ''struct bpf_iter_meta'')]),
     Mem '''' (CUnion False [Mem ''udp_sk'' (CPtr ''struct udp_sock'')]),
     Mem ''uid'' typedef_uid_t, gap 0, Mem ''bucket'' c_int]"

definition struct_bpf_iter__ipv6_route :: ctyp where
  "struct_bpf_iter__ipv6_route =
    CStruct False [Mem '''' (CUnion False [Mem ''meta'' (CPtr ''struct bpf_iter_meta'')]),
     Mem '''' (CUnion False [Mem ''rt'' (CPtr ''struct fib6_info'')])]"

definition struct_btf_type :: ctyp where
  "struct_btf_type =
    CStruct False [Mem ''name_off'' typedef___u32, Mem ''info'' typedef___u32, Mem ''''
     (CUnion False [Mem ''size'' typedef___u32, Mem ''type'' typedef___u32])]"

definition struct_btf_header :: ctyp where
  "struct_btf_header =
    CStruct False [Mem ''magic'' typedef___u16, Mem ''version'' typedef___u8,
     Mem ''flags'' typedef___u8, Mem ''hdr_len'' typedef___u32, Mem ''type_off'' typedef___u32,
     Mem ''type_len'' typedef___u32, Mem ''str_off'' typedef___u32, Mem ''str_len'' typedef___u32]"

definition struct_btf :: ctyp where
  "struct_btf =
    CStruct False [Mem ''data'' (CPtr ''void''), Mem ''types'' (CPtr ''struct btf_type *''),
     Mem ''resolved_ids'' (CPtr ''u32''), Mem ''resolved_sizes'' (CPtr ''u32''),
     Mem ''strings'' (CPtr ''const char''), Mem ''nohdr_data'' (CPtr ''void''),
     Mem ''hdr'' struct_btf_header, Mem ''nr_types'' typedef_u32, Mem ''types_size'' typedef_u32,
     Mem ''data_size'' typedef_u32, Mem ''refcnt'' typedef_refcount_t, Mem ''id'' typedef_u32,
     Mem ''rcu'' struct_callback_head]"

definition struct_btf_ptr :: ctyp where
  "struct_btf_ptr =
    CStruct False [Mem ''ptr'' (CPtr ''void''), Mem ''type_id'' typedef___u32,
     Mem ''flags'' typedef___u32]"

definition struct_btf_member :: ctyp where
  "struct_btf_member =
    CStruct False [Mem ''name_off'' typedef___u32, Mem ''type'' typedef___u32,
     Mem ''offset'' typedef___u32]"

definition struct_btf_var_secinfo :: ctyp where
  "struct_btf_var_secinfo =
    CStruct False [Mem ''type'' typedef___u32, Mem ''offset'' typedef___u32,
     Mem ''size'' typedef___u32]"

definition struct_btf_kind_operations :: ctyp where
  "struct_btf_kind_operations =
    CStruct False [Mem ''check_meta'' CFn, Mem ''resolve'' CFn, Mem ''check_member'' CFn,
     Mem ''check_kflag_member'' CFn, Mem ''log_details'' CFn, Mem ''show'' CFn]"

definition struct_resolve_vertex :: ctyp where
  "struct_resolve_vertex =
    CStruct False [Mem ''t'' (CPtr ''const struct btf_type''), Mem ''type_id'' typedef_u32,
     Mem ''next_member'' typedef_u16]"

definition enum_verifier_phase :: "(string \<times> int) list" where
  "enum_verifier_phase =
    [(''CHECK_META'', 0), (''CHECK_TYPE'', 1)]"

definition enum_resolve_mode :: "(string \<times> int) list" where
  "enum_resolve_mode =
    [(''RESOLVE_TBD'', 0), (''RESOLVE_PTR'', 1), (''RESOLVE_STRUCT_OR_ARRAY'', 2)]"

definition struct_btf_verifier_env :: ctyp where
  "struct_btf_verifier_env =
    CStruct False [Mem ''btf'' (CPtr ''struct btf''), Mem ''visit_states'' (CPtr ''u8''),
     Mem ''stack'' (CArr struct_resolve_vertex 32), Mem ''log'' struct_bpf_verifier_log,
     Mem ''log_type_id'' typedef_u32, Mem ''top_stack'' typedef_u32,
     Mem ''phase'' (CEnum enum_verifier_phase), Mem ''resolve_mode'' (CEnum enum_resolve_mode)]"

definition struct_btf_show :: ctyp where
  "struct_btf_show =
    CStruct False [Mem ''flags'' typedef_u64, Mem ''target'' (CPtr ''void''), Mem ''showfn'' CFn,
     Mem ''btf'' (CPtr ''const struct btf''), Mem ''state''
     (CStruct False [Mem ''depth'' typedef_u8, Mem ''depth_to_show'' typedef_u8,
     Mem ''depth_check'' typedef_u8, Bits ''array_member'' typedef_u8 1,
     Bits ''array_terminated'' typedef_u8 1, Mem ''array_encoding'' typedef_u16,
     Mem ''type_id'' typedef_u32, Mem ''status'' c_int,
     Mem ''type'' (CPtr ''const struct btf_type''),
     Mem ''member'' (CPtr ''const struct btf_member''), Mem ''name'' (CArr c_char 80)]),
     Mem ''obj'' (CStruct False [Mem ''size'' typedef_u32, Mem ''head'' (CPtr ''void''),
     Mem ''data'' (CPtr ''void''), Mem ''safe'' (CArr typedef_u8 32)])]"

definition struct_btf_param :: ctyp where
  "struct_btf_param =
    CStruct False [Mem ''name_off'' typedef___u32, Mem ''type'' typedef___u32]"

definition struct_btf_array :: ctyp where
  "struct_btf_array =
    CStruct False [Mem ''type'' typedef___u32, Mem ''index_type'' typedef___u32,
     Mem ''nelems'' typedef___u32]"

definition struct_btf_sec_info :: ctyp where
  "struct_btf_sec_info =
    CStruct False [Mem ''off'' typedef_u32, Mem ''len'' typedef_u32]"

definition struct_btf_enum :: ctyp where
  "struct_btf_enum =
    CStruct False [Mem ''name_off'' typedef___u32, Mem ''val'' typedef___s32]"

definition struct_btf_var :: ctyp where
  "struct_btf_var = CStruct False [Mem ''linkage'' typedef___u32]"

definition struct_btf_show_snprintf :: ctyp where
  "struct_btf_show_snprintf =
    CStruct False [Mem ''show'' struct_btf_show, Mem ''len_left'' c_int, Mem ''len'' c_int]"

definition struct_btf_id_set :: ctyp where
  "struct_btf_id_set =
    CStruct False [Mem ''cnt'' typedef_u32, Mem ''ids'' (CArr typedef_u32 0)]"

lemmas kernelProgs_types =
  struct_sock_filter_def typedef___s16_def struct_bpf_insn_def struct_bpf_prog_def
  struct_bpf_ksym_def struct_bpf_prog_aux_def struct_bpf_verifier_log_def
  struct_bpf_subprog_info_def struct_bpf_id_pair_def struct_bpf_verifier_env_def
  struct_bpf_func_proto_def struct_bpf_prog_info_def struct_bpf_link_info_def union_bpf_attr_def
  struct_bpf_prog_array_item_def struct_bpf_prog_array_def struct_bpf_cgroup_storage_key_def
  struct_bpf_cgroup_storage_def struct_bpf_raw_event_map_def struct_bpf_ctx_arg_aux_def
  struct_btf_func_model_def struct_bpf_trampoline_def struct_bpf_tramp_image_def
  struct_bpf_jit_poke_descriptor_def typedef_bpf_iter_init_seq_priv_t_def
  typedef_bpf_iter_fini_seq_priv_t_def struct_bpf_iter_seq_info_def struct_bpf_iter_aux_info_def
  struct_bpf_prog_ops_def struct_bpf_prog_offload_def struct_bpf_offloaded_map_def
  struct_bpf_func_info_def struct_bpf_func_info_aux_def struct_u64_stats_sync_def
  struct_bpf_prog_stats_def struct_bpf_binary_header_def struct_bpf_link_def
  struct_bpf_cgroup_link_def struct_bpf_link_ops_def struct_bpf_verifier_ops_def
  struct_bpf_insn_access_aux_def union_perf_mem_data_src_def struct_perf_regs_def
  struct_perf_sample_data_def struct_bpf_trace_sample_data_def struct_bpf_seq_printf_buf_def
  struct_bpf_raw_tp_regs_def struct_bpf_perf_event_value_def struct_bpf_perf_event_data_kern_def
  struct_bpf_raw_tracepoint_args_def struct_bpf_array_aux_def struct_bpf_trace_module_def
  struct_bpf_event_entry_def struct_bpf_prog_dummy_def struct_bpf_raw_tp_link_def
  struct_bpf_btf_info_def struct_bpf_link_primer_def struct_bpf_reg_types_def
  struct_bpf_verifier_state_def struct_bpf_verifier_stack_elem_def struct_tnum_def
  struct_bpf_reg_state_def struct_bpf_func_state_def struct_bpf_stack_state_def
  struct_bpf_idx_pair_def struct_bpf_verifier_state_list_def struct_bpf_insn_aux_data_def
  struct_bpf_struct_ops_def typedef_bpf_insn_print_t_def typedef_bpf_insn_revmap_call_t_def
  typedef_bpf_insn_print_imm_t_def struct_bpf_insn_cbs_def struct_bpf_pidns_info_def
  struct_bpf_iter_target_info_def typedef_bpf_iter_attach_target_t_def
  typedef_bpf_iter_detach_target_t_def typedef_bpf_iter_show_fdinfo_t_def
  typedef_bpf_iter_fill_link_info_t_def struct_bpf_iter_reg_def struct_bpf_iter_link_def
  struct_bpf_iter_priv_data_def struct_bpf_iter_meta_def struct_bpf_iter__bpf_map_def
  struct_bpf_iter_seq_map_info_def struct_bpf_iter__task_file_def
  struct_bpf_iter_seq_task_common_def struct_bpf_iter_seq_task_file_info_def
  struct_bpf_iter__task_def struct_bpf_iter_seq_task_info_def struct_bpf_iter__bpf_prog_def
  struct_bpf_iter_seq_prog_info_def struct_bpf_lru_locallist_def
  struct_bpf_iter_seq_hash_map_info_def struct_bpf_iter__bpf_map_elem_def
  struct_bpf_iter_seq_array_map_info_def struct_bpf_cgroup_storage_map_def
  struct_bpf_cgroup_storage_info_def struct_bpf_tramp_progs_def typedef_bpf_user_pt_regs_t_def
  struct_bpf_perf_event_data_def struct_bpf_cgroup_dev_ctx_def struct___sk_buff_def
  typedef___wsum_def typedef___be16_def typedef_sk_buff_data_t_def struct_sk_buff_def
  struct_xdp_md_def struct_xdp_buff_def struct_bpf_sock_def typedef___addrpair_def
  typedef___be32_def typedef___portpair_def typedef_possible_net_t_def struct_in6_addr_def
  struct_sock_common_def typedef_socket_lock_t_def struct_sk_buff_head_def struct_page_frag_def
  typedef_netdev_features_t_def typedef_gfp_t_def struct_qrwlock_def typedef_arch_rwlock_t_def
  typedef_rwlock_t_def typedef___kernel_uid32_t_def typedef_uid_t_def typedef_kuid_t_def
  struct_sock_cgroup_data_def struct_sock_def struct_bpf_sock_addr_def
  struct_bpf_sock_addr_kern_def struct_bpf_sock_ops_def struct_bpf_sock_ops_kern_def
  struct_sk_msg_md_def typedef_dma_addr_t_def struct_scatterlist_def struct_sk_msg_sg_def
  struct_sk_msg_def struct_bpf_flow_dissector_def struct_bpf_sysctl_def
  typedef___kernel_ulong_t_def typedef___kernel_size_t_def typedef_size_t_def
  struct_bpf_sysctl_kern_def struct_bpf_sockopt_def struct_bpf_sockopt_kern_def
  struct_sk_reuseport_md_def struct_sk_reuseport_kern_def struct_bpf_sk_lookup_def
  struct_bpf_sk_lookup_kern_def typedef_uint64_t_def typedef_uint32_t_def
  struct_fuse_bpf_in_arg_def struct_fuse_bpf_arg_def struct_fuse_bpf_args_def
  struct_bpf_ctx_convert_def struct_bpf_dispatcher_prog_def struct_bpf_dispatcher_def
  struct_bpf_offload_dev_def struct_bpf_prog_offload_ops_def struct_rhash_head_def
  struct_bpf_offload_netdev_def struct_bpf_stack_build_id_def struct_bpf_prog_list_def
  struct_bpf_iter_seq_sk_storage_map_info_def struct_bpf_iter__bpf_sk_storage_map_def
  struct_bpf_iter__netlink_def struct_bpf_raw_tp_test_run_info_def struct_bpf_iter__tcp_def
  struct_bpf_iter__udp_def struct_bpf_iter__ipv6_route_def struct_btf_type_def
  struct_btf_header_def struct_btf_def struct_btf_ptr_def struct_btf_member_def
  struct_btf_var_secinfo_def struct_btf_kind_operations_def struct_resolve_vertex_def
  struct_btf_verifier_env_def struct_btf_show_def struct_btf_param_def struct_btf_array_def
  struct_btf_sec_info_def struct_btf_enum_def struct_btf_var_def struct_btf_show_snprintf_def
  struct_btf_id_set_def

end
