(* ===== verification/KernelTask.thy ===== *)
theory KernelTask
  imports KernelProgs
begin

text \<open>
  What the helpers of the probes look at: the current task with its identifiers and name, its
  address space and memory areas, and the kernel's own records of user probes and of pending
  returns.
\<close>

section \<open>Tasks, memory maps, user probes\<close>

definition typedef_mm_segment_t :: ctyp where
  "typedef_mm_segment_t = c_ulong"

definition struct_thread_info :: ctyp where
  "struct_thread_info =
    CStruct False [Mem ''flags'' c_ulong, Mem ''addr_limit'' typedef_mm_segment_t,
     Mem ''ttbr0'' typedef_u64, Mem '''' (CUnion False [Mem ''preempt_count'' typedef_u64,
     Mem ''preempt'' (CStruct False [Mem ''count'' typedef_u32,
     Mem ''need_resched'' typedef_u32])]), Mem ''scs_base'' (CPtr ''void''),
     Mem ''scs_sp'' (CPtr ''void'')]"

definition struct_load_weight :: ctyp where
  "struct_load_weight =
    CStruct False [Mem ''weight'' c_ulong, Mem ''inv_weight'' typedef_u32]"

definition struct_sched_statistics :: ctyp where
  "struct_sched_statistics =
    CStruct False [Mem ''wait_start'' typedef_u64, Mem ''wait_max'' typedef_u64,
     Mem ''wait_count'' typedef_u64, Mem ''wait_sum'' typedef_u64,
     Mem ''iowait_count'' typedef_u64, Mem ''iowait_sum'' typedef_u64,
     Mem ''sleep_start'' typedef_u64, Mem ''sleep_max'' typedef_u64,
     Mem ''sum_sleep_runtime'' typedef_s64, Mem ''block_start'' typedef_u64,
     Mem ''block_max'' typedef_u64, Mem ''exec_max'' typedef_u64, Mem ''slice_max'' typedef_u64,
     Mem ''nr_migrations_cold'' typedef_u64, Mem ''nr_failed_migrations_affine'' typedef_u64,
     Mem ''nr_failed_migrations_running'' typedef_u64,
     Mem ''nr_failed_migrations_hot'' typedef_u64, Mem ''nr_forced_migrations'' typedef_u64,
     Mem ''nr_wakeups'' typedef_u64, Mem ''nr_wakeups_sync'' typedef_u64,
     Mem ''nr_wakeups_migrate'' typedef_u64, Mem ''nr_wakeups_local'' typedef_u64,
     Mem ''nr_wakeups_remote'' typedef_u64, Mem ''nr_wakeups_affine'' typedef_u64,
     Mem ''nr_wakeups_affine_attempts'' typedef_u64, Mem ''nr_wakeups_passive'' typedef_u64,
     Mem ''nr_wakeups_idle'' typedef_u64]"

definition struct_util_est :: ctyp where
  "struct_util_est =
    CStruct False [Mem ''enqueued'' c_uint, Mem ''ewma'' c_uint]"

definition struct_sched_avg :: ctyp where
  "struct_sched_avg =
    CStruct False [Mem ''last_update_time'' typedef_u64, Mem ''load_sum'' typedef_u64,
     Mem ''runnable_sum'' typedef_u64, Mem ''util_sum'' typedef_u32,
     Mem ''period_contrib'' typedef_u32, Mem ''load_avg'' c_ulong, Mem ''runnable_avg'' c_ulong,
     Mem ''util_avg'' c_ulong, Mem ''util_est'' struct_util_est]"

definition struct_sched_entity :: ctyp where
  "struct_sched_entity =
    CStruct False ([Mem ''load'' struct_load_weight, Mem ''run_node'' struct_rb_node,
     Mem ''group_node'' struct_list_head, Mem ''on_rq'' c_uint, Mem ''exec_start'' typedef_u64,
     Mem ''sum_exec_runtime'' typedef_u64, Mem ''vruntime'' typedef_u64,
     Mem ''prev_sum_exec_runtime'' typedef_u64, Mem ''nr_migrations'' typedef_u64,
     Mem ''statistics'' struct_sched_statistics, Mem ''depth'' c_int,
     Mem ''parent'' (CPtr ''struct sched_entity''), Mem ''cfs_rq'' (CPtr ''struct cfs_rq''),
     Mem ''my_q'' (CPtr ''struct cfs_rq''), Mem ''runnable_weight'' c_ulong] @ gaps 3 @
     [Mem ''avg'' struct_sched_avg, Mem ''android_kabi_reserved1'' typedef_u64,
     Mem ''android_kabi_reserved2'' typedef_u64, Mem ''android_kabi_reserved3'' typedef_u64,
     Mem ''android_kabi_reserved4'' typedef_u64] @ gaps 4)"

definition struct_sched_rt_entity :: ctyp where
  "struct_sched_rt_entity =
    CStruct False [Mem ''run_list'' struct_list_head, Mem ''timeout'' c_ulong,
     Mem ''watchdog_stamp'' c_ulong, Mem ''time_slice'' c_uint, Mem ''on_rq'' c_ushort,
     Mem ''on_list'' c_ushort, Mem ''back'' (CPtr ''struct sched_rt_entity''),
     Mem ''android_kabi_reserved1'' typedef_u64, Mem ''android_kabi_reserved2'' typedef_u64,
     Mem ''android_kabi_reserved3'' typedef_u64, Mem ''android_kabi_reserved4'' typedef_u64]"

definition struct_sched_dl_entity :: ctyp where
  "struct_sched_dl_entity =
    CStruct False [Mem ''rb_node'' struct_rb_node, Mem ''dl_runtime'' typedef_u64,
     Mem ''dl_deadline'' typedef_u64, Mem ''dl_period'' typedef_u64, Mem ''dl_bw'' typedef_u64,
     Mem ''dl_density'' typedef_u64, Mem ''runtime'' typedef_s64, Mem ''deadline'' typedef_u64,
     Mem ''flags'' c_uint, Bits ''dl_throttled'' c_uint 1, Bits ''dl_yielded'' c_uint 1,
     Bits ''dl_non_contending'' c_uint 1, Bits ''dl_overrun'' c_uint 1,
     Mem ''dl_timer'' struct_hrtimer, Mem ''inactive_timer'' struct_hrtimer,
     Mem ''pi_se'' (CPtr ''struct sched_dl_entity'')]"

definition struct_uclamp_se :: ctyp where
  "struct_uclamp_se =
    CStruct False [Bits ''value'' c_uint 11, Bits ''bucket_id'' c_uint 5,
     Bits ''active'' c_uint 1, Bits ''user_defined'' c_uint 1]"

definition struct_cpumask :: ctyp where
  "struct_cpumask = CStruct False [Mem ''bits'' (CArr c_ulong 1)]"

definition typedef_cpumask_t :: ctyp where
  "typedef_cpumask_t = struct_cpumask"

definition union_rcu_special :: ctyp where
  "union_rcu_special =
    CUnion False [Mem ''b'' (CStruct False [Mem ''blocked'' typedef_u8,
     Mem ''need_qs'' typedef_u8, Mem ''exp_hint'' typedef_u8, Mem ''need_mb'' typedef_u8]),
     Mem ''s'' typedef_u32]"

definition struct_sched_info :: ctyp where
  "struct_sched_info =
    CStruct False [Mem ''pcount'' c_ulong, Mem ''run_delay'' c_ullong,
     Mem ''last_arrival'' c_ullong, Mem ''last_queued'' c_ullong]"

definition struct_plist_node :: ctyp where
  "struct_plist_node =
    CStruct False [Mem ''prio'' c_int, Mem ''prio_list'' struct_list_head,
     Mem ''node_list'' struct_list_head]"

definition struct_vmacache :: ctyp where
  "struct_vmacache =
    CStruct False [Mem ''seqnum'' typedef_u64,
     Mem ''vmas'' (CArr (CPtr ''struct vm_area_struct'') 4)]"

definition struct_task_rss_stat :: ctyp where
  "struct_task_rss_stat =
    CStruct False [Mem ''events'' c_int, Mem ''count'' (CArr c_int 4)]"

definition typedef___kernel_clockid_t :: ctyp where
  "typedef___kernel_clockid_t = c_int"

definition typedef_clockid_t :: ctyp where
  "typedef_clockid_t = typedef___kernel_clockid_t"

definition enum_timespec_type :: "(string \<times> int) list" where
  "enum_timespec_type =
    [(''TT_NONE'', 0), (''TT_NATIVE'', 1), (''TT_COMPAT'', 2)]"

definition struct_restart_block :: ctyp where
  "struct_restart_block =
    CStruct False [Mem ''fn'' CFn, Mem '''' (CUnion False [Mem ''futex''
     (CStruct False [Mem ''uaddr'' (CPtr ''u32''), Mem ''val'' typedef_u32,
     Mem ''flags'' typedef_u32, Mem ''bitset'' typedef_u32, Mem ''time'' typedef_u64,
     Mem ''uaddr2'' (CPtr ''u32'')]), Mem ''nanosleep''
     (CStruct False [Mem ''clockid'' typedef_clockid_t, Mem ''type'' (CEnum enum_timespec_type),
     Mem '''' (CUnion False [Mem ''rmtp'' (CPtr ''struct __kernel_timespec''),
     Mem ''compat_rmtp'' (CPtr ''struct old_timespec32'')]), Mem ''expires'' typedef_u64]),
     Mem ''poll'' (CStruct False [Mem ''ufds'' (CPtr ''struct pollfd''), Mem ''nfds'' c_int,
     Mem ''has_timeout'' c_int, Mem ''tv_sec'' c_ulong, Mem ''tv_nsec'' c_ulong])])]"

definition typedef___kernel_pid_t :: ctyp where
  "typedef___kernel_pid_t = c_int"

definition typedef_pid_t :: ctyp where
  "typedef_pid_t = typedef___kernel_pid_t"

definition struct_prev_cputime :: ctyp where
  "struct_prev_cputime =
    CStruct False [Mem ''utime'' typedef_u64, Mem ''stime'' typedef_u64,
     Mem ''lock'' typedef_raw_spinlock_t]"

definition struct_rb_root_cached :: ctyp where
  "struct_rb_root_cached =
    CStruct False [Mem ''rb_root'' struct_rb_root, Mem ''rb_leftmost'' (CPtr ''struct rb_node'')]"

definition struct_timerqueue_head :: ctyp where
  "struct_timerqueue_head = CStruct False [Mem ''rb_root'' struct_rb_root_cached]"

definition struct_posix_cputimer_base :: ctyp where
  "struct_posix_cputimer_base =
    CStruct False [Mem ''nextevt'' typedef_u64, Mem ''tqhead'' struct_timerqueue_head]"

definition struct_posix_cputimers :: ctyp where
  "struct_posix_cputimers =
    CStruct False [Mem ''bases'' (CArr struct_posix_cputimer_base 3),
     Mem ''timers_active'' c_uint, Mem ''expiry_active'' c_uint]"

definition typedef_sigset_t :: ctyp where
  "typedef_sigset_t = CStruct False [Mem ''sig'' (CArr c_ulong 1)]"

definition struct_sigpending :: ctyp where
  "struct_sigpending =
    CStruct False [Mem ''list'' struct_list_head, Mem ''signal'' typedef_sigset_t]"

definition struct_seccomp :: ctyp where
  "struct_seccomp =
    CStruct False [Mem ''mode'' c_int, Mem ''filter_count'' typedef_atomic_t,
     Mem ''filter'' (CPtr ''struct seccomp_filter'')]"

definition struct_wake_q_node :: ctyp where
  "struct_wake_q_node = CStruct False [Mem ''next'' (CPtr ''struct wake_q_node'')]"

definition struct_task_io_accounting :: ctyp where
  "struct_task_io_accounting =
    CStruct False [Mem ''rchar'' typedef_u64, Mem ''wchar'' typedef_u64,
     Mem ''syscr'' typedef_u64, Mem ''syscw'' typedef_u64, Mem ''syscfs'' typedef_u64,
     Mem ''read_bytes'' typedef_u64, Mem ''write_bytes'' typedef_u64,
     Mem ''cancelled_write_bytes'' typedef_u64]"

definition typedef_nodemask_t :: ctyp where
  "typedef_nodemask_t = CStruct False [Mem ''bits'' (CArr c_ulong 1)]"

definition typedef_seqcount_t :: ctyp where
  "typedef_seqcount_t = struct_seqcount"

definition struct_seqcount_spinlock :: ctyp where
  "struct_seqcount_spinlock = CStruct False [Mem ''seqcount'' typedef_seqcount_t]"

definition typedef_seqcount_spinlock_t :: ctyp where
  "typedef_seqcount_spinlock_t = struct_seqcount_spinlock"

definition struct_tlbflush_unmap_batch :: ctyp where
  "struct_tlbflush_unmap_batch = CStruct False []"

definition struct_cpu_context :: ctyp where
  "struct_cpu_context =
    CStruct False [Mem ''x19'' c_ulong, Mem ''x20'' c_ulong, Mem ''x21'' c_ulong,
     Mem ''x22'' c_ulong, Mem ''x23'' c_ulong, Mem ''x24'' c_ulong, Mem ''x25'' c_ulong,
     Mem ''x26'' c_ulong, Mem ''x27'' c_ulong, Mem ''x28'' c_ulong, Mem ''fp'' c_ulong,
     Mem ''sp'' c_ulong, Mem ''pc'' c_ulong]"

definition typedef___uint128_t :: ctyp where
  "typedef___uint128_t = c_uint128"

definition struct_user_fpsimd_state :: ctyp where
  "struct_user_fpsimd_state =
    CStruct False [Mem ''vregs'' (CArr typedef___uint128_t 32), Mem ''fpsr'' typedef___u32,
     Mem ''fpcr'' typedef___u32, Mem ''__reserved'' (CArr typedef___u32 2)]"

definition struct_debug_info :: ctyp where
  "struct_debug_info =
    CStruct False [Mem ''suspended_step'' c_int, Mem ''bps_disabled'' c_int,
     Mem ''wps_disabled'' c_int, Mem ''hbp_break'' (CArr (CPtr ''struct perf_event'') 16),
     Mem ''hbp_watch'' (CArr (CPtr ''struct perf_event'') 16)]"

definition struct_ptrauth_key :: ctyp where
  "struct_ptrauth_key = CStruct False [Mem ''lo'' c_ulong, Mem ''hi'' c_ulong]"

definition struct_ptrauth_keys_user :: ctyp where
  "struct_ptrauth_keys_user =
    CStruct False [Mem ''apia'' struct_ptrauth_key, Mem ''apib'' struct_ptrauth_key,
     Mem ''apda'' struct_ptrauth_key, Mem ''apdb'' struct_ptrauth_key,
     Mem ''apga'' struct_ptrauth_key]"

definition struct_ptrauth_keys_kernel :: ctyp where
  "struct_ptrauth_keys_kernel = CStruct False [Mem ''apia'' struct_ptrauth_key]"

definition struct_thread_struct :: ctyp where
  "struct_thread_struct =
    CStruct False [Mem ''cpu_context'' struct_cpu_context, gap 64, Mem ''uw''
     (CStruct False [Mem ''tp_value'' c_ulong, Mem ''tp2_value'' c_ulong,
     Mem ''fpsimd_state'' struct_user_fpsimd_state]), Mem ''android_vendor_data1'' typedef_u64,
     Mem ''fpsimd_cpu'' c_uint, Mem ''sve_state'' (CPtr ''void''), Mem ''sve_vl'' c_uint,
     Mem ''sve_vl_onexec'' c_uint, Mem ''fault_address'' c_ulong, Mem ''fault_code'' c_ulong,
     Mem ''debug'' struct_debug_info, Mem ''keys_user'' struct_ptrauth_keys_user,
     Mem ''keys_kernel'' struct_ptrauth_keys_kernel, Mem ''mte_ctrl'' typedef_u64,
     Mem ''sctlr_user'' typedef_u64]"

definition struct_task_struct :: ctyp where
  "struct_task_struct =
    CStruct False ([Mem ''thread_info'' struct_thread_info, Mem ''state'' c_long,
     Mem ''stack'' (CPtr ''void''), Mem ''usage'' typedef_refcount_t, Mem ''flags'' c_uint,
     Mem ''ptrace'' c_uint, Mem ''on_cpu'' c_int, Mem ''wake_entry'' struct___call_single_node,
     Mem ''cpu'' c_uint, Mem ''wakee_flips'' c_uint, Mem ''wakee_flip_decay_ts'' c_ulong,
     Mem ''last_wakee'' (CPtr ''struct task_struct''), Mem ''recent_used_cpu'' c_int,
     Mem ''wake_cpu'' c_int, Mem ''on_rq'' c_int, Mem ''prio'' c_int, Mem ''static_prio'' c_int,
     Mem ''normal_prio'' c_int, Mem ''rt_priority'' c_uint,
     Mem ''sched_class'' (CPtr ''const struct sched_class'')] @ gaps 4 @
     [Mem ''se'' struct_sched_entity, Mem ''rt'' struct_sched_rt_entity,
     Mem ''sched_task_group'' (CPtr ''struct task_group''), Mem ''dl'' struct_sched_dl_entity,
     Mem ''uclamp_req'' (CArr struct_uclamp_se 2), Mem ''uclamp'' (CArr struct_uclamp_se 2),
     Mem ''percpu_kthread_node'' struct_list_head, Mem ''preempt_notifiers'' struct_hlist_head,
     Mem ''policy'' c_uint, Mem ''nr_cpus_allowed'' c_int,
     Mem ''cpus_ptr'' (CPtr ''const cpumask_t''), Mem ''cpus_mask'' typedef_cpumask_t,
     Mem ''rcu_read_lock_nesting'' c_int, Mem ''rcu_read_unlock_special'' union_rcu_special,
     Mem ''rcu_node_entry'' struct_list_head, Mem ''rcu_blocked_node'' (CPtr ''struct rcu_node''),
     Mem ''rcu_tasks_nvcsw'' c_ulong, Mem ''rcu_tasks_holdout'' typedef_u8,
     Mem ''rcu_tasks_idx'' typedef_u8, Mem ''rcu_tasks_idle_cpu'' c_int,
     Mem ''rcu_tasks_holdout_list'' struct_list_head, Mem ''trc_reader_nesting'' c_int,
     Mem ''trc_ipi_to_cpu'' c_int, Mem ''trc_reader_special'' union_rcu_special,
     Mem ''trc_reader_checked'' typedef_bool, Mem ''trc_holdout_list'' struct_list_head,
     Mem ''sched_info'' struct_sched_info, Mem ''tasks'' struct_list_head,
     Mem ''pushable_tasks'' struct_plist_node, Mem ''pushable_dl_tasks'' struct_rb_node,
     Mem ''mm'' (CPtr ''struct mm_struct''), Mem ''active_mm'' (CPtr ''struct mm_struct''),
     Mem ''vmacache'' struct_vmacache, Mem ''rss_stat'' struct_task_rss_stat,
     Mem ''exit_state'' c_int, Mem ''exit_code'' c_int, Mem ''exit_signal'' c_int,
     Mem ''pdeath_signal'' c_int, Mem ''jobctl'' c_ulong, Mem ''personality'' c_uint,
     Bits ''sched_reset_on_fork'' c_uint 1, Bits ''sched_contributes_to_load'' c_uint 1,
     Bits ''sched_migrated'' c_uint 1, Bits ''sched_psi_wake_requeue'' c_uint 1, gap 28,
     Bits ''sched_remote_wakeup'' c_uint 1, Bits ''in_execve'' c_uint 1,
     Bits ''in_iowait'' c_uint 1, Bits ''in_user_fault'' c_uint 1, Bits ''in_lru_fault'' c_uint 1,
     Bits ''no_cgroup_migration'' c_uint 1, Bits ''frozen'' c_uint 1,
     Bits ''use_memdelay'' c_uint 1, Bits ''in_memstall'' c_uint 1, Mem ''atomic_flags'' c_ulong,
     Mem ''restart_block'' struct_restart_block, Mem ''pid'' typedef_pid_t,
     Mem ''tgid'' typedef_pid_t, Mem ''stack_canary'' c_ulong,
     Mem ''real_parent'' (CPtr ''struct task_struct''),
     Mem ''parent'' (CPtr ''struct task_struct''), Mem ''children'' struct_list_head,
     Mem ''sibling'' struct_list_head, Mem ''group_leader'' (CPtr ''struct task_struct''),
     Mem ''ptraced'' struct_list_head, Mem ''ptrace_entry'' struct_list_head,
     Mem ''thread_pid'' (CPtr ''struct pid''), Mem ''pid_links'' (CArr struct_hlist_node 4),
     Mem ''thread_group'' struct_list_head, Mem ''thread_node'' struct_list_head,
     Mem ''vfork_done'' (CPtr ''struct completion''), Mem ''set_child_tid'' (CPtr ''int''),
     Mem ''clear_child_tid'' (CPtr ''int''), Mem ''utime'' typedef_u64, Mem ''stime'' typedef_u64,
     Mem ''gtime'' typedef_u64, Mem ''time_in_state'' (CPtr ''u64''), Mem ''max_state'' c_uint,
     Mem ''prev_cputime'' struct_prev_cputime, Mem ''nvcsw'' c_ulong, Mem ''nivcsw'' c_ulong,
     Mem ''start_time'' typedef_u64, Mem ''start_boottime'' typedef_u64, Mem ''min_flt'' c_ulong,
     Mem ''maj_flt'' c_ulong, Mem ''posix_cputimers'' struct_posix_cputimers,
     Mem ''ptracer_cred'' (CPtr ''const struct cred''),
     Mem ''real_cred'' (CPtr ''const struct cred''), Mem ''cred'' (CPtr ''const struct cred''),
     Mem ''cached_requested_key'' (CPtr ''struct key''), Mem ''comm'' (CArr c_char 16),
     Mem ''nameidata'' (CPtr ''struct nameidata''), Mem ''last_switch_count'' c_ulong,
     Mem ''last_switch_time'' c_ulong, Mem ''fs'' (CPtr ''struct fs_struct''),
     Mem ''files'' (CPtr ''struct files_struct''),
     Mem ''io_uring'' (CPtr ''struct io_uring_task''), Mem ''nsproxy'' (CPtr ''struct nsproxy''),
     Mem ''signal'' (CPtr ''struct signal_struct''),
     Mem ''sighand'' (CPtr ''struct sighand_struct''), Mem ''blocked'' typedef_sigset_t,
     Mem ''real_blocked'' typedef_sigset_t, Mem ''saved_sigmask'' typedef_sigset_t,
     Mem ''pending'' struct_sigpending, Mem ''sas_ss_sp'' c_ulong,
     Mem ''sas_ss_size'' typedef_size_t, Mem ''sas_ss_flags'' c_uint,
     Mem ''task_works'' (CPtr ''struct callback_head''),
     Mem ''audit_context'' (CPtr ''struct audit_context''), Mem ''loginuid'' typedef_kuid_t,
     Mem ''sessionid'' c_uint, Mem ''seccomp'' struct_seccomp, Mem ''parent_exec_id'' typedef_u64,
     Mem ''self_exec_id'' typedef_u64, Mem ''alloc_lock'' typedef_spinlock_t,
     Mem ''pi_lock'' typedef_raw_spinlock_t, Mem ''wake_q'' struct_wake_q_node,
     Mem ''wake_q_count'' c_int, Mem ''pi_waiters'' struct_rb_root_cached,
     Mem ''pi_top_task'' (CPtr ''struct task_struct''),
     Mem ''pi_blocked_on'' (CPtr ''struct rt_mutex_waiter''),
     Mem ''journal_info'' (CPtr ''void''), Mem ''bio_list'' (CPtr ''struct bio_list''),
     Mem ''plug'' (CPtr ''struct blk_plug''),
     Mem ''reclaim_state'' (CPtr ''struct reclaim_state''),
     Mem ''backing_dev_info'' (CPtr ''struct backing_dev_info''),
     Mem ''io_context'' (CPtr ''struct io_context''),
     Mem ''capture_control'' (CPtr ''struct capture_control''), Mem ''ptrace_message'' c_ulong,
     Mem ''last_siginfo'' (CPtr ''kernel_siginfo_t''), Mem ''ioac'' struct_task_io_accounting,
     Mem ''psi_flags'' c_uint, Mem ''acct_rss_mem1'' typedef_u64,
     Mem ''acct_vm_mem1'' typedef_u64, Mem ''acct_timexpd'' typedef_u64,
     Mem ''mems_allowed'' typedef_nodemask_t,
     Mem ''mems_allowed_seq'' typedef_seqcount_spinlock_t, Mem ''cpuset_mem_spread_rotor'' c_int,
     Mem ''cpuset_slab_spread_rotor'' c_int, Mem ''cgroups'' (CPtr ''struct css_set''),
     Mem ''cg_list'' struct_list_head, Mem ''robust_list'' (CPtr ''struct robust_list_head''),
     Mem ''compat_robust_list'' (CPtr ''struct compat_robust_list_head''),
     Mem ''pi_state_list'' struct_list_head,
     Mem ''pi_state_cache'' (CPtr ''struct futex_pi_state''),
     Mem ''futex_exit_mutex'' struct_mutex, Mem ''futex_state'' c_uint,
     Mem ''perf_event_ctxp'' (CArr (CPtr ''struct perf_event_context'') 2),
     Mem ''perf_event_mutex'' struct_mutex, Mem ''perf_event_list'' struct_list_head,
     Mem ''tlb_ubc'' struct_tlbflush_unmap_batch, Mem ''''
     (CUnion False [Mem ''rcu_users'' typedef_refcount_t, Mem ''rcu'' struct_callback_head]),
     Mem ''splice_pipe'' (CPtr ''struct pipe_inode_info''), Mem ''task_frag'' struct_page_frag,
     Mem ''delays'' (CPtr ''struct task_delay_info''), Mem ''nr_dirtied'' c_int,
     Mem ''nr_dirtied_pause'' c_int, Mem ''dirty_paused_when'' c_ulong,
     Mem ''timer_slack_ns'' typedef_u64, Mem ''default_timer_slack_ns'' typedef_u64,
     Mem ''trace'' c_ulong, Mem ''trace_recursion'' c_ulong,
     Mem ''memcg_in_oom'' (CPtr ''struct mem_cgroup''), Mem ''memcg_oom_gfp_mask'' typedef_gfp_t,
     Mem ''memcg_oom_order'' c_int, Mem ''memcg_nr_pages_over_high'' c_uint,
     Mem ''active_memcg'' (CPtr ''struct mem_cgroup''),
     Mem ''throttle_queue'' (CPtr ''struct request_queue''),
     Mem ''utask'' (CPtr ''struct uprobe_task''), Mem ''pagefault_disabled'' c_int,
     Mem ''oom_reaper_list'' (CPtr ''struct task_struct''),
     Mem ''stack_vm_area'' (CPtr ''struct vm_struct''), Mem ''stack_refcount'' typedef_refcount_t,
     Mem ''security'' (CPtr ''void''), Mem ''android_vendor_data1'' (CArr typedef_u64 64),
     Mem ''android_oem_data1'' (CArr typedef_u64 32), Mem ''android_kabi_reserved1'' typedef_u64,
     Mem ''android_kabi_reserved2'' typedef_u64, Mem ''android_kabi_reserved3'' typedef_u64,
     Mem ''android_kabi_reserved4'' typedef_u64, Mem ''android_kabi_reserved5'' typedef_u64,
     Mem ''android_kabi_reserved6'' typedef_u64, Mem ''android_kabi_reserved7'' typedef_u64,
     Mem ''android_kabi_reserved8'' typedef_u64, Mem ''thread'' struct_thread_struct] @ gaps 4)"

definition struct_mm_rss_stat :: ctyp where
  "struct_mm_rss_stat =
    CStruct False [Mem ''count'' (CArr typedef_atomic_long_t 4)]"

definition typedef_mm_context_t :: ctyp where
  "typedef_mm_context_t =
    CStruct False [Mem ''id'' typedef_atomic64_t, Mem ''sigpage'' (CPtr ''void''),
     Mem ''pinned'' typedef_refcount_t, Mem ''vdso'' (CPtr ''void''), Mem ''flags'' c_ulong]"

definition struct_uprobes_state :: ctyp where
  "struct_uprobes_state = CStruct False [Mem ''xol_area'' (CPtr ''struct xol_area'')]"

definition struct_mm_struct :: ctyp where
  "struct_mm_struct =
    CStruct False [Mem '''' (CStruct False [Mem ''mmap'' (CPtr ''struct vm_area_struct''),
     Mem ''mm_rb'' struct_rb_root, Mem ''vmacache_seqnum'' typedef_u64,
     Mem ''mm_rb_lock'' typedef_rwlock_t, Mem ''get_unmapped_area'' CFn,
     Mem ''mmap_base'' c_ulong, Mem ''mmap_legacy_base'' c_ulong, Mem ''task_size'' c_ulong,
     Mem ''highest_vm_end'' c_ulong, Mem ''pgd'' (CPtr ''pgd_t''),
     Mem ''membarrier_state'' typedef_atomic_t, Mem ''mm_users'' typedef_atomic_t,
     Mem ''mm_count'' typedef_atomic_t, Mem ''has_pinned'' typedef_atomic_t,
     Mem ''pgtables_bytes'' typedef_atomic_long_t, Mem ''map_count'' c_int,
     Mem ''page_table_lock'' typedef_spinlock_t, Mem ''mmap_lock'' struct_rw_semaphore,
     Mem ''mmlist'' struct_list_head, Mem ''hiwater_rss'' c_ulong, Mem ''hiwater_vm'' c_ulong,
     Mem ''total_vm'' c_ulong, Mem ''locked_vm'' c_ulong, Mem ''pinned_vm'' typedef_atomic64_t,
     Mem ''data_vm'' c_ulong, Mem ''exec_vm'' c_ulong, Mem ''stack_vm'' c_ulong,
     Mem ''def_flags'' c_ulong, Mem ''write_protect_seq'' typedef_seqcount_t,
     Mem ''arg_lock'' typedef_spinlock_t, Mem ''start_code'' c_ulong, Mem ''end_code'' c_ulong,
     Mem ''start_data'' c_ulong, Mem ''end_data'' c_ulong, Mem ''start_brk'' c_ulong,
     Mem ''brk'' c_ulong, Mem ''start_stack'' c_ulong, Mem ''arg_start'' c_ulong,
     Mem ''arg_end'' c_ulong, Mem ''env_start'' c_ulong, Mem ''env_end'' c_ulong,
     Mem ''saved_auxv'' (CArr c_ulong 46), Mem ''rss_stat'' struct_mm_rss_stat,
     Mem ''binfmt'' (CPtr ''struct linux_binfmt''), Mem ''context'' typedef_mm_context_t,
     Mem ''flags'' c_ulong, Mem ''core_state'' (CPtr ''struct core_state''),
     Mem ''ioctx_lock'' typedef_spinlock_t, Mem ''ioctx_table'' (CPtr ''struct kioctx_table''),
     Mem ''owner'' (CPtr ''struct task_struct''),
     Mem ''user_ns'' (CPtr ''struct user_namespace''), Mem ''exe_file'' (CPtr ''struct file''),
     Mem ''notifier_subscriptions'' (CPtr ''struct mmu_notifier_subscriptions''),
     Mem ''mmu_notifier_lock'' (CPtr ''struct percpu_rw_semaphore''),
     Mem ''tlb_flush_pending'' typedef_atomic_t, Mem ''uprobes_state'' struct_uprobes_state,
     Mem ''async_put_work'' struct_work_struct, Mem ''pasid'' typedef_u32, Mem ''lru_gen''
     (CStruct False [Mem ''list'' struct_list_head, Mem ''memcg'' (CPtr ''struct mem_cgroup''),
     Mem ''nodes'' typedef_nodemask_t]), Mem ''android_kabi_reserved1'' typedef_u64]),
     Mem ''cpu_bitmap'' (CArr c_ulong 0)]"

definition typedef_pteval_t :: ctyp where
  "typedef_pteval_t = typedef_u64"

definition typedef_pgprot_t :: ctyp where
  "typedef_pgprot_t = CStruct False [Mem ''pgprot'' typedef_pteval_t]"

definition struct_vm_userfaultfd_ctx :: ctyp where
  "struct_vm_userfaultfd_ctx =
    CStruct False [Mem ''ctx'' (CPtr ''struct userfaultfd_ctx'')]"

definition struct_vm_area_struct :: ctyp where
  "struct_vm_area_struct =
    CStruct False [Mem ''vm_start'' c_ulong, Mem ''vm_end'' c_ulong,
     Mem ''vm_next'' (CPtr ''struct vm_area_struct''),
     Mem ''vm_prev'' (CPtr ''struct vm_area_struct''), Mem ''vm_rb'' struct_rb_node,
     Mem ''rb_subtree_gap'' c_ulong, Mem ''vm_mm'' (CPtr ''struct mm_struct''),
     Mem ''vm_page_prot'' typedef_pgprot_t, Mem ''vm_flags'' c_ulong, Mem ''''
     (CUnion False [Mem ''shared'' (CStruct False [Mem ''rb'' struct_rb_node,
     Mem ''rb_subtree_last'' c_ulong]), Mem ''anon_name'' (CPtr ''struct anon_vma_name'')]),
     Mem ''anon_vma_chain'' struct_list_head, Mem ''anon_vma'' (CPtr ''struct anon_vma''),
     Mem ''vm_ops'' (CPtr ''const struct vm_operations_struct''), Mem ''vm_pgoff'' c_ulong,
     Mem ''vm_file'' (CPtr ''struct file''), Mem ''vm_private_data'' (CPtr ''void''),
     Mem ''swap_readahead_info'' typedef_atomic_long_t,
     Mem ''vm_userfaultfd_ctx'' struct_vm_userfaultfd_ctx, Mem ''vm_sequence'' typedef_seqcount_t,
     Mem ''vm_ref_count'' typedef_atomic_t, Mem ''android_kabi_reserved1'' typedef_u64,
     Mem ''android_kabi_reserved2'' typedef_u64, Mem ''android_kabi_reserved3'' typedef_u64,
     Mem ''android_kabi_reserved4'' typedef_u64]"

definition typedef___kernel_loff_t :: ctyp where
  "typedef___kernel_loff_t = c_llong"

definition typedef_loff_t :: ctyp where
  "typedef_loff_t = typedef___kernel_loff_t"

definition struct_arch_probe_insn :: ctyp where
  "struct_arch_probe_insn =
    CStruct False [Mem ''insn'' (CPtr ''probe_opcode_t''),
     Mem ''pstate_cc'' (CPtr ''pstate_check_t''), Mem ''handler'' (CPtr ''probes_handler_t''),
     Mem ''restore'' c_ulong]"

definition struct_arch_uprobe :: ctyp where
  "struct_arch_uprobe =
    CStruct False [Mem '''' (CUnion False [Mem ''insn'' (CArr typedef_u8 4),
     Mem ''ixol'' (CArr typedef_u8 4)]), Mem ''api'' struct_arch_probe_insn,
     Mem ''simulate'' typedef_bool]"

definition struct_uprobe :: ctyp where
  "struct_uprobe =
    CStruct False [Mem ''rb_node'' struct_rb_node, Mem ''ref'' typedef_refcount_t,
     Mem ''register_rwsem'' struct_rw_semaphore, Mem ''consumer_rwsem'' struct_rw_semaphore,
     Mem ''pending_list'' struct_list_head, Mem ''consumers'' (CPtr ''struct uprobe_consumer''),
     Mem ''inode'' (CPtr ''struct inode''), Mem ''offset'' typedef_loff_t,
     Mem ''ref_ctr_offset'' typedef_loff_t, Mem ''flags'' c_ulong,
     Mem ''arch'' struct_arch_uprobe]"

definition struct_arch_uprobe_task :: ctyp where
  "struct_arch_uprobe_task = CStruct False []"

definition struct_uprobe_task :: ctyp where
  "struct_uprobe_task =
    CStruct False [Mem ''state'' (CEnum enum_uprobe_task_state), Mem '''' (CUnion False [Mem ''''
     (CStruct False [Mem ''autask'' struct_arch_uprobe_task, Mem ''vaddr'' c_ulong]), Mem ''''
     (CStruct False [Mem ''dup_xol_work'' struct_callback_head, Mem ''dup_xol_addr'' c_ulong])]),
     Mem ''active_uprobe'' (CPtr ''struct uprobe''), Mem ''xol_vaddr'' c_ulong,
     Mem ''return_instances'' (CPtr ''struct return_instance''), Mem ''depth'' c_uint]"

definition struct_return_instance :: ctyp where
  "struct_return_instance =
    CStruct False [Mem ''uprobe'' (CPtr ''struct uprobe''), Mem ''func'' c_ulong,
     Mem ''stack'' c_ulong, Mem ''orig_ret_vaddr'' c_ulong, Mem ''chained'' typedef_bool,
     Mem ''next'' (CPtr ''struct return_instance'')]"

definition struct_uprobe_consumer :: ctyp where
  "struct_uprobe_consumer =
    CStruct False [Mem ''handler'' CFn, Mem ''ret_handler'' CFn, Mem ''filter'' CFn,
     Mem ''next'' (CPtr ''struct uprobe_consumer'')]"

definition struct_vm_special_mapping :: ctyp where
  "struct_vm_special_mapping =
    CStruct False [Mem ''name'' (CPtr ''const char''), Mem ''pages'' (CPtr ''struct page *''),
     Mem ''fault'' CFn, Mem ''mremap'' CFn]"

definition struct_xol_area :: ctyp where
  "struct_xol_area =
    CStruct False [Mem ''wq'' typedef_wait_queue_head_t, Mem ''slot_count'' typedef_atomic_t,
     Mem ''bitmap'' (CPtr ''unsigned long''), Mem ''xol_mapping'' struct_vm_special_mapping,
     Mem ''pages'' (CArr (CPtr ''struct page'') 2), Mem ''vaddr'' c_ulong]"

definition struct_delayed_uprobe :: ctyp where
  "struct_delayed_uprobe =
    CStruct False [Mem ''list'' struct_list_head, Mem ''uprobe'' (CPtr ''struct uprobe''),
     Mem ''mm'' (CPtr ''struct mm_struct'')]"

definition struct_upid :: ctyp where
  "struct_upid =
    CStruct False [Mem ''nr'' c_int, Mem ''ns'' (CPtr ''struct pid_namespace'')]"

definition struct_pid :: ctyp where
  "struct_pid =
    CStruct False [Mem ''count'' typedef_refcount_t, Mem ''level'' c_uint,
     Mem ''lock'' typedef_spinlock_t, Mem ''tasks'' (CArr struct_hlist_head 4),
     Mem ''inodes'' struct_hlist_head, Mem ''wait_pidfd'' typedef_wait_queue_head_t,
     Mem ''rcu'' struct_callback_head, Mem ''numbers'' (CArr struct_upid 1)]"

definition struct_cpu_itimer :: ctyp where
  "struct_cpu_itimer =
    CStruct False [Mem ''expires'' typedef_u64, Mem ''incr'' typedef_u64]"

definition struct_task_cputime_atomic :: ctyp where
  "struct_task_cputime_atomic =
    CStruct False [Mem ''utime'' typedef_atomic64_t, Mem ''stime'' typedef_atomic64_t,
     Mem ''sum_exec_runtime'' typedef_atomic64_t]"

definition struct_thread_group_cputimer :: ctyp where
  "struct_thread_group_cputimer =
    CStruct False [Mem ''cputime_atomic'' struct_task_cputime_atomic]"

definition typedef_seqlock_t :: ctyp where
  "typedef_seqlock_t =
    CStruct False [Mem ''seqcount'' typedef_seqcount_spinlock_t, Mem ''lock'' typedef_spinlock_t]"

definition struct_rlimit :: ctyp where
  "struct_rlimit =
    CStruct False [Mem ''rlim_cur'' typedef___kernel_ulong_t,
     Mem ''rlim_max'' typedef___kernel_ulong_t]"

definition struct_signal_struct :: ctyp where
  "struct_signal_struct =
    CStruct False [Mem ''sigcnt'' typedef_refcount_t, Mem ''live'' typedef_atomic_t,
     Mem ''nr_threads'' c_int, Mem ''thread_head'' struct_list_head,
     Mem ''wait_chldexit'' typedef_wait_queue_head_t,
     Mem ''curr_target'' (CPtr ''struct task_struct''), Mem ''shared_pending'' struct_sigpending,
     Mem ''multiprocess'' struct_hlist_head, Mem ''group_exit_code'' c_int,
     Mem ''notify_count'' c_int, Mem ''group_exit_task'' (CPtr ''struct task_struct''),
     Mem ''group_stop_count'' c_int, Mem ''flags'' c_uint, Bits ''is_child_subreaper'' c_uint 1,
     Bits ''has_child_subreaper'' c_uint 1, Mem ''posix_timer_id'' c_int,
     Mem ''posix_timers'' struct_list_head, Mem ''real_timer'' struct_hrtimer,
     Mem ''it_real_incr'' typedef_ktime_t, Mem ''it'' (CArr struct_cpu_itimer 2),
     Mem ''cputimer'' struct_thread_group_cputimer,
     Mem ''posix_cputimers'' struct_posix_cputimers, Mem ''pids'' (CArr (CPtr ''struct pid'') 4),
     Mem ''tty_old_pgrp'' (CPtr ''struct pid''), Mem ''leader'' c_int,
     Mem ''tty'' (CPtr ''struct tty_struct''), Mem ''stats_lock'' typedef_seqlock_t,
     Mem ''utime'' typedef_u64, Mem ''stime'' typedef_u64, Mem ''cutime'' typedef_u64,
     Mem ''cstime'' typedef_u64, Mem ''gtime'' typedef_u64, Mem ''cgtime'' typedef_u64,
     Mem ''prev_cputime'' struct_prev_cputime, Mem ''nvcsw'' c_ulong, Mem ''nivcsw'' c_ulong,
     Mem ''cnvcsw'' c_ulong, Mem ''cnivcsw'' c_ulong, Mem ''min_flt'' c_ulong,
     Mem ''maj_flt'' c_ulong, Mem ''cmin_flt'' c_ulong, Mem ''cmaj_flt'' c_ulong,
     Mem ''inblock'' c_ulong, Mem ''oublock'' c_ulong, Mem ''cinblock'' c_ulong,
     Mem ''coublock'' c_ulong, Mem ''maxrss'' c_ulong, Mem ''cmaxrss'' c_ulong,
     Mem ''ioac'' struct_task_io_accounting, Mem ''sum_sched_runtime'' c_ullong,
     Mem ''rlim'' (CArr struct_rlimit 16), Mem ''stats'' (CPtr ''struct taskstats''),
     Mem ''audit_tty'' c_uint, Mem ''tty_audit_buf'' (CPtr ''struct tty_audit_buf''),
     Mem ''oom_flag_origin'' typedef_bool, Mem ''oom_score_adj'' c_short,
     Mem ''oom_score_adj_min'' c_short, Mem ''oom_mm'' (CPtr ''struct mm_struct''),
     Mem ''cred_guard_mutex'' struct_mutex, Mem ''exec_update_lock'' struct_rw_semaphore,
     Mem ''android_kabi_reserved1'' typedef_u64, Mem ''android_kabi_reserved2'' typedef_u64,
     Mem ''android_kabi_reserved3'' typedef_u64, Mem ''android_kabi_reserved4'' typedef_u64]"

definition typedef___kernel_gid32_t :: ctyp where
  "typedef___kernel_gid32_t = c_uint"

definition typedef_gid_t :: ctyp where
  "typedef_gid_t = typedef___kernel_gid32_t"

definition typedef_kgid_t :: ctyp where
  "typedef_kgid_t = CStruct False [Mem ''val'' typedef_gid_t]"

definition struct_kernel_cap_struct :: ctyp where
  "struct_kernel_cap_struct = CStruct False [Mem ''cap'' (CArr typedef___u32 2)]"

definition typedef_kernel_cap_t :: ctyp where
  "typedef_kernel_cap_t = struct_kernel_cap_struct"

definition struct_cred :: ctyp where
  "struct_cred =
    CStruct False [Mem ''usage'' typedef_atomic_t, Mem ''uid'' typedef_kuid_t,
     Mem ''gid'' typedef_kgid_t, Mem ''suid'' typedef_kuid_t, Mem ''sgid'' typedef_kgid_t,
     Mem ''euid'' typedef_kuid_t, Mem ''egid'' typedef_kgid_t, Mem ''fsuid'' typedef_kuid_t,
     Mem ''fsgid'' typedef_kgid_t, Mem ''securebits'' c_uint,
     Mem ''cap_inheritable'' typedef_kernel_cap_t, Mem ''cap_permitted'' typedef_kernel_cap_t,
     Mem ''cap_effective'' typedef_kernel_cap_t, Mem ''cap_bset'' typedef_kernel_cap_t,
     Mem ''cap_ambient'' typedef_kernel_cap_t, Mem ''jit_keyring'' c_uchar,
     Mem ''session_keyring'' (CPtr ''struct key''), Mem ''process_keyring'' (CPtr ''struct key''),
     Mem ''thread_keyring'' (CPtr ''struct key''), Mem ''request_key_auth'' (CPtr ''struct key''),
     Mem ''security'' (CPtr ''void''), Mem ''user'' (CPtr ''struct user_struct''),
     Mem ''user_ns'' (CPtr ''struct user_namespace''),
     Mem ''group_info'' (CPtr ''struct group_info''), Mem ''''
     (CUnion False [Mem ''non_rcu'' c_int, Mem ''rcu'' struct_callback_head])]"

lemmas kernelTask_types =
  typedef_mm_segment_t_def struct_thread_info_def struct_load_weight_def
  struct_sched_statistics_def struct_util_est_def struct_sched_avg_def struct_sched_entity_def
  struct_sched_rt_entity_def struct_sched_dl_entity_def struct_uclamp_se_def struct_cpumask_def
  typedef_cpumask_t_def union_rcu_special_def struct_sched_info_def struct_plist_node_def
  struct_vmacache_def struct_task_rss_stat_def typedef___kernel_clockid_t_def
  typedef_clockid_t_def struct_restart_block_def typedef___kernel_pid_t_def typedef_pid_t_def
  struct_prev_cputime_def struct_rb_root_cached_def struct_timerqueue_head_def
  struct_posix_cputimer_base_def struct_posix_cputimers_def typedef_sigset_t_def
  struct_sigpending_def struct_seccomp_def struct_wake_q_node_def struct_task_io_accounting_def
  typedef_nodemask_t_def typedef_seqcount_t_def struct_seqcount_spinlock_def
  typedef_seqcount_spinlock_t_def struct_tlbflush_unmap_batch_def struct_cpu_context_def
  typedef___uint128_t_def struct_user_fpsimd_state_def struct_debug_info_def
  struct_ptrauth_key_def struct_ptrauth_keys_user_def struct_ptrauth_keys_kernel_def
  struct_thread_struct_def struct_task_struct_def struct_mm_rss_stat_def typedef_mm_context_t_def
  struct_uprobes_state_def struct_mm_struct_def typedef_pteval_t_def typedef_pgprot_t_def
  struct_vm_userfaultfd_ctx_def struct_vm_area_struct_def typedef___kernel_loff_t_def
  typedef_loff_t_def struct_arch_probe_insn_def struct_arch_uprobe_def struct_uprobe_def
  struct_arch_uprobe_task_def struct_uprobe_task_def struct_return_instance_def
  struct_uprobe_consumer_def struct_vm_special_mapping_def struct_xol_area_def
  struct_delayed_uprobe_def struct_upid_def struct_pid_def struct_cpu_itimer_def
  struct_task_cputime_atomic_def struct_thread_group_cputimer_def typedef_seqlock_t_def
  struct_rlimit_def struct_signal_struct_def typedef___kernel_gid32_t_def typedef_gid_t_def
  typedef_kgid_t_def struct_kernel_cap_struct_def typedef_kernel_cap_t_def struct_cred_def

end
