(* ===== verification/KernelTrace.thy ===== *)
theory KernelTrace
  imports KernelTask
begin

text \<open>
  Perf events and trace events, through which a probe program is attached, as
  \<^verbatim>\<open>vmlinux.h\<close> declares them.
\<close>

section \<open>Perf and trace events\<close>

definition typedef_local_t :: ctyp where
  "typedef_local_t = CStruct False [Mem ''a'' typedef_atomic_long_t]"

definition typedef_local64_t :: ctyp where
  "typedef_local64_t = CStruct False [Mem ''a'' typedef_local_t]"

definition struct_perf_event_attr :: ctyp where
  "struct_perf_event_attr =
    CStruct False [Mem ''type'' typedef___u32, Mem ''size'' typedef___u32,
     Mem ''config'' typedef___u64, Mem '''' (CUnion False [Mem ''sample_period'' typedef___u64,
     Mem ''sample_freq'' typedef___u64]), Mem ''sample_type'' typedef___u64,
     Mem ''read_format'' typedef___u64, Bits ''disabled'' typedef___u64 1,
     Bits ''inherit'' typedef___u64 1, Bits ''pinned'' typedef___u64 1,
     Bits ''exclusive'' typedef___u64 1, Bits ''exclude_user'' typedef___u64 1,
     Bits ''exclude_kernel'' typedef___u64 1, Bits ''exclude_hv'' typedef___u64 1,
     Bits ''exclude_idle'' typedef___u64 1, Bits ''mmap'' typedef___u64 1,
     Bits ''comm'' typedef___u64 1, Bits ''freq'' typedef___u64 1,
     Bits ''inherit_stat'' typedef___u64 1, Bits ''enable_on_exec'' typedef___u64 1,
     Bits ''task'' typedef___u64 1, Bits ''watermark'' typedef___u64 1,
     Bits ''precise_ip'' typedef___u64 2, Bits ''mmap_data'' typedef___u64 1,
     Bits ''sample_id_all'' typedef___u64 1, Bits ''exclude_host'' typedef___u64 1,
     Bits ''exclude_guest'' typedef___u64 1, Bits ''exclude_callchain_kernel'' typedef___u64 1,
     Bits ''exclude_callchain_user'' typedef___u64 1, Bits ''mmap2'' typedef___u64 1,
     Bits ''comm_exec'' typedef___u64 1, Bits ''use_clockid'' typedef___u64 1,
     Bits ''context_switch'' typedef___u64 1, Bits ''write_backward'' typedef___u64 1,
     Bits ''namespaces'' typedef___u64 1, Bits ''ksymbol'' typedef___u64 1,
     Bits ''bpf_event'' typedef___u64 1, Bits ''aux_output'' typedef___u64 1,
     Bits ''cgroup'' typedef___u64 1, Bits ''text_poke'' typedef___u64 1,
     Bits ''__reserved_1'' typedef___u64 30, Mem ''''
     (CUnion False [Mem ''wakeup_events'' typedef___u32, Mem ''wakeup_watermark'' typedef___u32]),
     Mem ''bp_type'' typedef___u32, Mem '''' (CUnion False [Mem ''bp_addr'' typedef___u64,
     Mem ''kprobe_func'' typedef___u64, Mem ''uprobe_path'' typedef___u64,
     Mem ''config1'' typedef___u64]), Mem '''' (CUnion False [Mem ''bp_len'' typedef___u64,
     Mem ''kprobe_addr'' typedef___u64, Mem ''probe_offset'' typedef___u64,
     Mem ''config2'' typedef___u64]), Mem ''branch_sample_type'' typedef___u64,
     Mem ''sample_regs_user'' typedef___u64, Mem ''sample_stack_user'' typedef___u32,
     Mem ''clockid'' typedef___s32, Mem ''sample_regs_intr'' typedef___u64,
     Mem ''aux_watermark'' typedef___u32, Mem ''sample_max_stack'' typedef___u16,
     Mem ''__reserved_2'' typedef___u16, Mem ''aux_sample_size'' typedef___u32,
     Mem ''__reserved_3'' typedef___u32]"

definition struct_hw_perf_event_extra :: ctyp where
  "struct_hw_perf_event_extra =
    CStruct False [Mem ''config'' typedef_u64, Mem ''reg'' c_uint, Mem ''alloc'' c_int,
     Mem ''idx'' c_int]"

definition struct_arch_hw_breakpoint_ctrl :: ctyp where
  "struct_arch_hw_breakpoint_ctrl =
    CStruct False [Bits ''__reserved'' typedef_u32 19, Bits ''len'' typedef_u32 8,
     Bits ''type'' typedef_u32 2, Bits ''privilege'' typedef_u32 2,
     Bits ''enabled'' typedef_u32 1]"

definition struct_arch_hw_breakpoint :: ctyp where
  "struct_arch_hw_breakpoint =
    CStruct False [Mem ''address'' typedef_u64, Mem ''trigger'' typedef_u64,
     Mem ''ctrl'' struct_arch_hw_breakpoint_ctrl]"

definition struct_hw_perf_event :: ctyp where
  "struct_hw_perf_event =
    CStruct False [Mem '''' (CUnion False [Mem '''' (CStruct False [Mem ''config'' typedef_u64,
     Mem ''last_tag'' typedef_u64, Mem ''config_base'' c_ulong, Mem ''event_base'' c_ulong,
     Mem ''event_base_rdpmc'' c_int, Mem ''idx'' c_int, Mem ''last_cpu'' c_int,
     Mem ''flags'' c_int, Mem ''extra_reg'' struct_hw_perf_event_extra,
     Mem ''branch_reg'' struct_hw_perf_event_extra]), Mem ''''
     (CStruct False [Mem ''hrtimer'' struct_hrtimer]), Mem ''''
     (CStruct False [Mem ''tp_list'' struct_list_head]), Mem ''''
     (CStruct False [Mem ''pwr_acc'' typedef_u64, Mem ''ptsc'' typedef_u64]), Mem ''''
     (CStruct False [Mem ''info'' struct_arch_hw_breakpoint, Mem ''bp_list'' struct_list_head]),
     Mem '''' (CStruct False [Mem ''iommu_bank'' typedef_u8, Mem ''iommu_cntr'' typedef_u8,
     Mem ''padding'' typedef_u16, Mem ''conf'' typedef_u64, Mem ''conf1'' typedef_u64])]),
     Mem ''target'' (CPtr ''struct task_struct''), Mem ''addr_filters'' (CPtr ''void''),
     Mem ''addr_filters_gen'' c_ulong, Mem ''state'' c_int, Mem ''prev_count'' typedef_local64_t,
     Mem ''sample_period'' typedef_u64, Mem '''' (CUnion False [Mem ''''
     (CStruct False [Mem ''last_period'' typedef_u64, Mem ''period_left'' typedef_local64_t]),
     Mem '''' (CStruct False [Mem ''saved_metric'' typedef_u64,
     Mem ''saved_slots'' typedef_u64])]), Mem ''interrupts_seq'' typedef_u64,
     Mem ''interrupts'' typedef_u64, Mem ''freq_time_stamp'' typedef_u64,
     Mem ''freq_count_stamp'' typedef_u64]"

definition struct_perf_addr_filters_head :: ctyp where
  "struct_perf_addr_filters_head =
    CStruct False [Mem ''list'' struct_list_head, Mem ''lock'' typedef_raw_spinlock_t,
     Mem ''nr_file_filters'' c_uint]"

definition typedef_perf_overflow_handler_t :: ctyp where
  "typedef_perf_overflow_handler_t = CFn"

definition struct_perf_event :: ctyp where
  "struct_perf_event =
    CStruct False [Mem ''event_entry'' struct_list_head, Mem ''sibling_list'' struct_list_head,
     Mem ''active_list'' struct_list_head, Mem ''group_node'' struct_rb_node,
     Mem ''group_index'' typedef_u64, Mem ''migrate_entry'' struct_list_head,
     Mem ''hlist_entry'' struct_hlist_node, Mem ''active_entry'' struct_list_head,
     Mem ''nr_siblings'' c_int, Mem ''event_caps'' c_int, Mem ''group_caps'' c_int,
     Mem ''group_leader'' (CPtr ''struct perf_event''), Mem ''pmu'' (CPtr ''struct pmu''),
     Mem ''pmu_private'' (CPtr ''void''), Mem ''state'' (CEnum enum_perf_event_state),
     Mem ''attach_state'' c_uint, Mem ''count'' typedef_local64_t,
     Mem ''child_count'' typedef_atomic64_t, Mem ''total_time_enabled'' typedef_u64,
     Mem ''total_time_running'' typedef_u64, Mem ''tstamp'' typedef_u64,
     Mem ''attr'' struct_perf_event_attr, Mem ''header_size'' typedef_u16,
     Mem ''id_header_size'' typedef_u16, Mem ''read_size'' typedef_u16,
     Mem ''hw'' struct_hw_perf_event, Mem ''ctx'' (CPtr ''struct perf_event_context''),
     Mem ''refcount'' typedef_atomic_long_t, Mem ''child_total_time_enabled'' typedef_atomic64_t,
     Mem ''child_total_time_running'' typedef_atomic64_t, Mem ''child_mutex'' struct_mutex,
     Mem ''child_list'' struct_list_head, Mem ''parent'' (CPtr ''struct perf_event''),
     Mem ''oncpu'' c_int, Mem ''cpu'' c_int, Mem ''owner_entry'' struct_list_head,
     Mem ''owner'' (CPtr ''struct task_struct''), Mem ''mmap_mutex'' struct_mutex,
     Mem ''mmap_count'' typedef_atomic_t, Mem ''rb'' (CPtr ''struct perf_buffer''),
     Mem ''rb_entry'' struct_list_head, Mem ''rcu_batches'' c_ulong, Mem ''rcu_pending'' c_int,
     Mem ''waitq'' typedef_wait_queue_head_t, Mem ''fasync'' (CPtr ''struct fasync_struct''),
     Mem ''pending_wakeup'' c_int, Mem ''pending_kill'' c_int, Mem ''pending_disable'' c_int,
     Mem ''pending'' struct_irq_work, Mem ''event_limit'' typedef_atomic_t,
     Mem ''addr_filters'' struct_perf_addr_filters_head,
     Mem ''addr_filter_ranges'' (CPtr ''struct perf_addr_filter_range''),
     Mem ''addr_filters_gen'' c_ulong, Mem ''aux_event'' (CPtr ''struct perf_event''),
     Mem ''destroy'' CFn, Mem ''callback_head'' struct_callback_head,
     Mem ''ns'' (CPtr ''struct pid_namespace''), Mem ''id'' typedef_u64, Mem ''clock'' CFn,
     Mem ''overflow_handler'' typedef_perf_overflow_handler_t,
     Mem ''overflow_handler_context'' (CPtr ''void''),
     Mem ''orig_overflow_handler'' typedef_perf_overflow_handler_t,
     Mem ''prog'' (CPtr ''struct bpf_prog''), Mem ''tp_event'' (CPtr ''struct trace_event_call''),
     Mem ''filter'' (CPtr ''struct event_filter''), Mem ''security'' (CPtr ''void''),
     Mem ''sb_list'' struct_list_head]"

definition struct_trace_event :: ctyp where
  "struct_trace_event =
    CStruct False [Mem ''node'' struct_hlist_node, Mem ''list'' struct_list_head,
     Mem ''type'' c_int, Mem ''funcs'' (CPtr ''struct trace_event_functions'')]"

definition struct_trace_event_call :: ctyp where
  "struct_trace_event_call =
    CStruct False [Mem ''list'' struct_list_head,
     Mem ''class'' (CPtr ''struct trace_event_class''), Mem ''''
     (CUnion False [Mem ''name'' (CPtr ''char''), Mem ''tp'' (CPtr ''struct tracepoint'')]),
     Mem ''event'' struct_trace_event, Mem ''print_fmt'' (CPtr ''char''),
     Mem ''filter'' (CPtr ''struct event_filter''), Mem ''mod'' (CPtr ''void''),
     Mem ''data'' (CPtr ''void''), Mem ''flags'' c_int, Mem ''perf_refcount'' c_int,
     Mem ''perf_events'' (CPtr ''struct hlist_head''),
     Mem ''prog_array'' (CPtr ''struct bpf_prog_array''), Mem ''perf_perm'' CFn]"

definition struct_dyn_event :: ctyp where
  "struct_dyn_event =
    CStruct False [Mem ''list'' struct_list_head,
     Mem ''ops'' (CPtr ''struct dyn_event_operations'')]"

definition struct_path :: ctyp where
  "struct_path =
    CStruct False [Mem ''mnt'' (CPtr ''struct vfsmount''),
     Mem ''dentry'' (CPtr ''struct dentry'')]"

definition typedef___kernel_long_t :: ctyp where
  "typedef___kernel_long_t = c_long"

definition typedef___kernel_ssize_t :: ctyp where
  "typedef___kernel_ssize_t = typedef___kernel_long_t"

definition typedef_ssize_t :: ctyp where
  "typedef_ssize_t = typedef___kernel_ssize_t"

definition struct_probe_arg :: ctyp where
  "struct_probe_arg =
    CStruct False [Mem ''code'' (CPtr ''struct fetch_insn''), Mem ''dynamic'' typedef_bool,
     Mem ''offset'' c_uint, Mem ''count'' c_uint, Mem ''name'' (CPtr ''const char''),
     Mem ''comm'' (CPtr ''const char''), Mem ''fmt'' (CPtr ''char''),
     Mem ''type'' (CPtr ''const struct fetch_type'')]"

definition struct_trace_probe :: ctyp where
  "struct_trace_probe =
    CStruct False [Mem ''list'' struct_list_head,
     Mem ''event'' (CPtr ''struct trace_probe_event''), Mem ''size'' typedef_ssize_t,
     Mem ''nr_args'' c_uint, Mem ''args'' (CArr struct_probe_arg 0)]"

definition struct_trace_uprobe :: ctyp where
  "struct_trace_uprobe =
    CStruct False [Mem ''devent'' struct_dyn_event, Mem ''consumer'' struct_uprobe_consumer,
     Mem ''path'' struct_path, Mem ''inode'' (CPtr ''struct inode''),
     Mem ''filename'' (CPtr ''char''), Mem ''offset'' c_ulong, Mem ''ref_ctr_offset'' c_ulong,
     Mem ''nhit'' c_ulong, Mem ''tp'' struct_trace_probe]"

definition struct_trace_entry :: ctyp where
  "struct_trace_entry =
    CStruct False [Mem ''type'' c_ushort, Mem ''flags'' c_uchar, Mem ''preempt_count'' c_uchar,
     Mem ''pid'' c_int]"

definition struct_uprobe_trace_entry_head :: ctyp where
  "struct_uprobe_trace_entry_head =
    CStruct False [Mem ''ent'' struct_trace_entry, Mem ''vaddr'' (CArr c_ulong 0)]"

definition struct_uprobe_dispatch_data :: ctyp where
  "struct_uprobe_dispatch_data =
    CStruct False [Mem ''tu'' (CPtr ''struct trace_uprobe''), Mem ''bp_addr'' c_ulong]"

definition struct_uprobe_cpu_buffer :: ctyp where
  "struct_uprobe_cpu_buffer =
    CStruct False [Mem ''mutex'' struct_mutex, Mem ''buf'' (CPtr ''void'')]"

definition struct_trace_uprobe_filter :: ctyp where
  "struct_trace_uprobe_filter =
    CStruct False [Mem ''rwlock'' typedef_rwlock_t, Mem ''nr_systemwide'' c_int,
     Mem ''perf_events'' struct_list_head]"

definition struct_perf_event_groups :: ctyp where
  "struct_perf_event_groups =
    CStruct False [Mem ''tree'' struct_rb_root, Mem ''index'' typedef_u64]"

definition struct_perf_event_context :: ctyp where
  "struct_perf_event_context =
    CStruct False [Mem ''pmu'' (CPtr ''struct pmu''), Mem ''lock'' typedef_raw_spinlock_t,
     Mem ''mutex'' struct_mutex, Mem ''active_ctx_list'' struct_list_head,
     Mem ''pinned_groups'' struct_perf_event_groups,
     Mem ''flexible_groups'' struct_perf_event_groups, Mem ''event_list'' struct_list_head,
     Mem ''pinned_active'' struct_list_head, Mem ''flexible_active'' struct_list_head,
     Mem ''nr_events'' c_int, Mem ''nr_active'' c_int, Mem ''is_active'' c_int,
     Mem ''nr_stat'' c_int, Mem ''nr_freq'' c_int, Mem ''rotate_disable'' c_int,
     Mem ''rotate_necessary'' c_int, Mem ''refcount'' typedef_refcount_t,
     Mem ''task'' (CPtr ''struct task_struct''), Mem ''time'' typedef_u64,
     Mem ''timestamp'' typedef_u64, Mem ''timeoffset'' typedef_u64,
     Mem ''parent_ctx'' (CPtr ''struct perf_event_context''), Mem ''parent_gen'' typedef_u64,
     Mem ''generation'' typedef_u64, Mem ''pin_count'' c_int,
     Mem ''task_ctx_data'' (CPtr ''void''), Mem ''callback_head'' struct_callback_head]"

definition struct_perf_cpu_context :: ctyp where
  "struct_perf_cpu_context =
    CStruct False [Mem ''ctx'' struct_perf_event_context,
     Mem ''task_ctx'' (CPtr ''struct perf_event_context''), Mem ''active_oncpu'' c_int,
     Mem ''exclusive'' c_int, Mem ''hrtimer_lock'' typedef_raw_spinlock_t,
     Mem ''hrtimer'' struct_hrtimer, Mem ''hrtimer_interval'' typedef_ktime_t,
     Mem ''hrtimer_active'' c_uint, Mem ''sched_cb_entry'' struct_list_head,
     Mem ''sched_cb_usage'' c_int, Mem ''online'' c_int, Mem ''heap_size'' c_int,
     Mem ''heap'' (CPtr ''struct perf_event *''),
     Mem ''heap_default'' (CArr (CPtr ''struct perf_event'') 2)]"

definition struct_perf_addr_filter_range :: ctyp where
  "struct_perf_addr_filter_range = CStruct False [Mem ''start'' c_ulong, Mem ''size'' c_ulong]"

definition typedef_perf_copy_f :: ctyp where
  "typedef_perf_copy_f = CFn"

definition struct_perf_raw_frag :: ctyp where
  "struct_perf_raw_frag =
    CStruct True [Mem '''' (CUnion False [Mem ''next'' (CPtr ''struct perf_raw_frag''),
     Mem ''pad'' c_ulong]), Mem ''copy'' typedef_perf_copy_f, Mem ''data'' (CPtr ''void''),
     Mem ''size'' typedef_u32]"

definition struct_perf_raw_record :: ctyp where
  "struct_perf_raw_record =
    CStruct False [Mem ''frag'' struct_perf_raw_frag, Mem ''size'' typedef_u32]"

definition struct_perf_branch_entry :: ctyp where
  "struct_perf_branch_entry =
    CStruct False [Mem ''from'' typedef___u64, Mem ''to'' typedef___u64,
     Bits ''mispred'' typedef___u64 1, Bits ''predicted'' typedef___u64 1,
     Bits ''in_tx'' typedef___u64 1, Bits ''abort'' typedef___u64 1,
     Bits ''cycles'' typedef___u64 16, Bits ''type'' typedef___u64 4,
     Bits ''reserved'' typedef___u64 40]"

definition struct_perf_branch_stack :: ctyp where
  "struct_perf_branch_stack =
    CStruct False [Mem ''nr'' typedef___u64, Mem ''hw_idx'' typedef___u64,
     Mem ''entries'' (CArr struct_perf_branch_entry 0)]"

definition struct_perf_callchain_entry :: ctyp where
  "struct_perf_callchain_entry =
    CStruct False [Mem ''nr'' typedef___u64, Mem ''ip'' (CArr typedef___u64 0)]"

definition struct_perf_output_handle :: ctyp where
  "struct_perf_output_handle =
    CStruct False [Mem ''event'' (CPtr ''struct perf_event''),
     Mem ''rb'' (CPtr ''struct perf_buffer''), Mem ''wakeup'' c_ulong, Mem ''size'' c_ulong,
     Mem ''aux_flags'' typedef_u64, Mem '''' (CUnion False [Mem ''addr'' (CPtr ''void''),
     Mem ''head'' c_ulong]), Mem ''page'' c_int]"

definition struct_perf_guest_info_callbacks :: ctyp where
  "struct_perf_guest_info_callbacks =
    CStruct False [Mem ''is_in_guest'' CFn, Mem ''is_user_mode'' CFn, Mem ''get_guest_ip'' CFn,
     Mem ''handle_intel_pt_intr'' CFn]"

definition struct_perf_callchain_entry_ctx :: ctyp where
  "struct_perf_callchain_entry_ctx =
    CStruct False [Mem ''entry'' (CPtr ''struct perf_callchain_entry''),
     Mem ''max_stack'' typedef_u32, Mem ''nr'' typedef_u32, Mem ''contexts'' c_short,
     Mem ''contexts_maxed'' typedef_bool]"

definition typedef_umode_t :: ctyp where
  "typedef_umode_t = c_ushort"

definition struct_attribute :: ctyp where
  "struct_attribute =
    CStruct False [Mem ''name'' (CPtr ''const char''), Mem ''mode'' typedef_umode_t]"

definition struct_device_attribute :: ctyp where
  "struct_device_attribute =
    CStruct False [Mem ''attr'' struct_attribute, Mem ''show'' CFn, Mem ''store'' CFn]"

definition struct_perf_pmu_events_attr :: ctyp where
  "struct_perf_pmu_events_attr =
    CStruct False [Mem ''attr'' struct_device_attribute, Mem ''id'' typedef_u64,
     Mem ''event_str'' (CPtr ''const char'')]"

definition struct_perf_event_mmap_page :: ctyp where
  "struct_perf_event_mmap_page =
    CStruct False [Mem ''version'' typedef___u32, Mem ''compat_version'' typedef___u32,
     Mem ''lock'' typedef___u32, Mem ''index'' typedef___u32, Mem ''offset'' typedef___s64,
     Mem ''time_enabled'' typedef___u64, Mem ''time_running'' typedef___u64, Mem ''''
     (CUnion False [Mem ''capabilities'' typedef___u64, Mem ''''
     (CStruct False [Bits ''cap_bit0'' typedef___u64 1,
     Bits ''cap_bit0_is_deprecated'' typedef___u64 1, Bits ''cap_user_rdpmc'' typedef___u64 1,
     Bits ''cap_user_time'' typedef___u64 1, Bits ''cap_user_time_zero'' typedef___u64 1,
     Bits ''cap_user_time_short'' typedef___u64 1, Bits ''cap_____res'' typedef___u64 58])]),
     Mem ''pmc_width'' typedef___u16, Mem ''time_shift'' typedef___u16,
     Mem ''time_mult'' typedef___u32, Mem ''time_offset'' typedef___u64,
     Mem ''time_zero'' typedef___u64, Mem ''size'' typedef___u32,
     Mem ''__reserved_1'' typedef___u32, Mem ''time_cycles'' typedef___u64,
     Mem ''time_mask'' typedef___u64, Mem ''__reserved'' (CArr typedef___u8 928),
     Mem ''data_head'' typedef___u64, Mem ''data_tail'' typedef___u64,
     Mem ''data_offset'' typedef___u64, Mem ''data_size'' typedef___u64,
     Mem ''aux_head'' typedef___u64, Mem ''aux_tail'' typedef___u64,
     Mem ''aux_offset'' typedef___u64, Mem ''aux_size'' typedef___u64]"

definition struct_perf_domain :: ctyp where
  "struct_perf_domain =
    CStruct False [Mem ''em_pd'' (CPtr ''struct em_perf_domain''),
     Mem ''next'' (CPtr ''struct perf_domain''), Mem ''rcu'' struct_callback_head]"

definition struct_perf_event_query_bpf :: ctyp where
  "struct_perf_event_query_bpf =
    CStruct False [Mem ''ids_len'' typedef___u32, Mem ''prog_cnt'' typedef___u32,
     Mem ''ids'' (CArr typedef___u32 0)]"

definition struct_perf_buffer :: ctyp where
  "struct_perf_buffer =
    CStruct False [Mem ''refcount'' typedef_refcount_t,
     Mem ''callback_head'' struct_callback_head, Mem ''nr_pages'' c_int, Mem ''overwrite'' c_int,
     Mem ''paused'' c_int, Mem ''poll'' typedef_atomic_t, Mem ''head'' typedef_local_t,
     Mem ''nest'' c_uint, Mem ''events'' typedef_local_t, Mem ''wakeup'' typedef_local_t,
     Mem ''lost'' typedef_local_t, Mem ''watermark'' c_long, Mem ''aux_watermark'' c_long,
     Mem ''event_lock'' typedef_spinlock_t, Mem ''event_list'' struct_list_head,
     Mem ''mmap_count'' typedef_atomic_t, Mem ''mmap_locked'' c_ulong,
     Mem ''mmap_user'' (CPtr ''struct user_struct''), Mem ''aux_head'' c_long,
     Mem ''aux_nest'' c_uint, Mem ''aux_wakeup'' c_long, Mem ''aux_pgoff'' c_ulong,
     Mem ''aux_nr_pages'' c_int, Mem ''aux_overwrite'' c_int,
     Mem ''aux_mmap_count'' typedef_atomic_t, Mem ''aux_mmap_locked'' c_ulong,
     Mem ''free_aux'' CFn, Mem ''aux_refcount'' typedef_refcount_t, Mem ''aux_in_sampling'' c_int,
     Mem ''aux_pages'' (CPtr ''void *''), Mem ''aux_priv'' (CPtr ''void''),
     Mem ''user_page'' (CPtr ''struct perf_event_mmap_page''),
     Mem ''data_pages'' (CArr (CPtr ''void'') 0)]"

definition struct_perf_addr_filter :: ctyp where
  "struct_perf_addr_filter =
    CStruct False [Mem ''entry'' struct_list_head, Mem ''path'' struct_path,
     Mem ''offset'' c_ulong, Mem ''size'' c_ulong,
     Mem ''action'' (CEnum enum_perf_addr_filter_action_t)]"

definition struct_perf_event_header :: ctyp where
  "struct_perf_event_header =
    CStruct False [Mem ''type'' typedef___u32, Mem ''misc'' typedef___u16,
     Mem ''size'' typedef___u16]"

definition struct_perf_aux_event :: ctyp where
  "struct_perf_aux_event =
    CStruct False [Mem ''header'' struct_perf_event_header, Mem ''pid'' typedef_u32,
     Mem ''tid'' typedef_u32]"

definition struct_perf_switch_event :: ctyp where
  "struct_perf_switch_event =
    CStruct False [Mem ''task'' (CPtr ''struct task_struct''),
     Mem ''next_prev'' (CPtr ''struct task_struct''), Mem ''event_id''
     (CStruct False [Mem ''header'' struct_perf_event_header, Mem ''next_prev_pid'' typedef_u32,
     Mem ''next_prev_tid'' typedef_u32])]"

definition struct_perf_task_event :: ctyp where
  "struct_perf_task_event =
    CStruct False [Mem ''task'' (CPtr ''struct task_struct''),
     Mem ''task_ctx'' (CPtr ''struct perf_event_context''), Mem ''event_id''
     (CStruct False [Mem ''header'' struct_perf_event_header, Mem ''pid'' typedef_u32,
     Mem ''ppid'' typedef_u32, Mem ''tid'' typedef_u32, Mem ''ptid'' typedef_u32,
     Mem ''time'' typedef_u64])]"

definition struct_perf_ns_link_info :: ctyp where
  "struct_perf_ns_link_info =
    CStruct False [Mem ''dev'' typedef___u64, Mem ''ino'' typedef___u64]"

definition struct_perf_comm_event :: ctyp where
  "struct_perf_comm_event =
    CStruct False [Mem ''task'' (CPtr ''struct task_struct''), Mem ''comm'' (CPtr ''char''),
     Mem ''comm_size'' c_int, Mem ''event_id''
     (CStruct False [Mem ''header'' struct_perf_event_header, Mem ''pid'' typedef_u32,
     Mem ''tid'' typedef_u32])]"

definition struct_perf_mmap_event :: ctyp where
  "struct_perf_mmap_event =
    CStruct False [Mem ''vma'' (CPtr ''struct vm_area_struct''),
     Mem ''file_name'' (CPtr ''const char''), Mem ''file_size'' c_int, Mem ''maj'' c_int,
     Mem ''min'' c_int, Mem ''ino'' typedef_u64, Mem ''ino_generation'' typedef_u64,
     Mem ''prot'' typedef_u32, Mem ''flags'' typedef_u32, Mem ''event_id''
     (CStruct False [Mem ''header'' struct_perf_event_header, Mem ''pid'' typedef_u32,
     Mem ''tid'' typedef_u32, Mem ''start'' typedef_u64, Mem ''len'' typedef_u64,
     Mem ''pgoff'' typedef_u64])]"

definition struct_perf_aux_event___2 :: ctyp where
  "struct_perf_aux_event___2 =
    CStruct False [Mem ''header'' struct_perf_event_header, Mem ''offset'' typedef_u64,
     Mem ''size'' typedef_u64, Mem ''flags'' typedef_u64]"

definition struct_perf_read_event :: ctyp where
  "struct_perf_read_event =
    CStruct False [Mem ''header'' struct_perf_event_header, Mem ''pid'' typedef_u32,
     Mem ''tid'' typedef_u32]"

definition struct_perf_read_data :: ctyp where
  "struct_perf_read_data =
    CStruct False [Mem ''event'' (CPtr ''struct perf_event''), Mem ''group'' typedef_bool,
     Mem ''ret'' c_int]"

definition struct_perf_namespaces_event :: ctyp where
  "struct_perf_namespaces_event =
    CStruct False [Mem ''task'' (CPtr ''struct task_struct''), Mem ''event_id''
     (CStruct False [Mem ''header'' struct_perf_event_header, Mem ''pid'' typedef_u32,
     Mem ''tid'' typedef_u32, Mem ''nr_namespaces'' typedef_u64,
     Mem ''link_info'' (CArr struct_perf_ns_link_info 7)])]"

definition struct_perf_ksymbol_event :: ctyp where
  "struct_perf_ksymbol_event =
    CStruct False [Mem ''name'' (CPtr ''const char''), Mem ''name_len'' c_int, Mem ''event_id''
     (CStruct False [Mem ''header'' struct_perf_event_header, Mem ''addr'' typedef_u64,
     Mem ''len'' typedef_u32, Mem ''ksym_type'' typedef_u16, Mem ''flags'' typedef_u16])]"

definition struct_perf_bpf_event :: ctyp where
  "struct_perf_bpf_event =
    CStruct False [Mem ''prog'' (CPtr ''struct bpf_prog''), Mem ''event_id''
     (CStruct False [Mem ''header'' struct_perf_event_header, Mem ''type'' typedef_u16,
     Mem ''flags'' typedef_u16, Mem ''id'' typedef_u32, Mem ''tag'' (CArr typedef_u8 8)])]"

definition struct_perf_text_poke_event :: ctyp where
  "struct_perf_text_poke_event =
    CStruct False [Mem ''old_bytes'' (CPtr ''const void''),
     Mem ''new_bytes'' (CPtr ''const void''), Mem ''pad'' typedef_size_t,
     Mem ''old_len'' typedef_u16, Mem ''new_len'' typedef_u16, Mem ''event_id''
     (CStruct False [Mem ''header'' struct_perf_event_header, Mem ''addr'' typedef_u64])]"

definition struct_perf_event_security_struct :: ctyp where
  "struct_perf_event_security_struct = CStruct False [Mem ''sid'' typedef_u32]"

definition struct_scmi_opp :: ctyp where
  "struct_scmi_opp =
    CStruct False [Mem ''perf'' typedef_u32, Mem ''power'' typedef_u32,
     Mem ''trans_latency_us'' typedef_u32]"

definition struct_perf_dom_info :: ctyp where
  "struct_perf_dom_info =
    CStruct False [Mem ''set_limits'' typedef_bool, Mem ''set_perf'' typedef_bool,
     Mem ''perf_limit_notify'' typedef_bool, Mem ''perf_level_notify'' typedef_bool,
     Mem ''perf_fastchannels'' typedef_bool, Mem ''opp_count'' typedef_u32,
     Mem ''sustained_freq_khz'' typedef_u32, Mem ''sustained_perf_level'' typedef_u32,
     Mem ''mult_factor'' typedef_u32, Mem ''name'' (CArr c_char 16),
     Mem ''opp'' (CArr struct_scmi_opp 16), Mem ''fc_info'' (CPtr ''struct scmi_fc_info'')]"

definition typedef_kprobe_pre_handler_t :: ctyp where
  "typedef_kprobe_pre_handler_t = CFn"

definition typedef_kprobe_post_handler_t :: ctyp where
  "typedef_kprobe_post_handler_t = CFn"

definition typedef_kprobe_fault_handler_t :: ctyp where
  "typedef_kprobe_fault_handler_t = CFn"

definition typedef_kprobe_opcode_t :: ctyp where
  "typedef_kprobe_opcode_t = typedef_u32"

definition struct_arch_specific_insn :: ctyp where
  "struct_arch_specific_insn = CStruct False [Mem ''api'' struct_arch_probe_insn]"

definition struct_kprobe :: ctyp where
  "struct_kprobe =
    CStruct False [Mem ''hlist'' struct_hlist_node, Mem ''list'' struct_list_head,
     Mem ''nmissed'' c_ulong, Mem ''addr'' (CPtr ''kprobe_opcode_t''),
     Mem ''symbol_name'' (CPtr ''const char''), Mem ''offset'' c_uint,
     Mem ''pre_handler'' typedef_kprobe_pre_handler_t,
     Mem ''post_handler'' typedef_kprobe_post_handler_t,
     Mem ''fault_handler'' typedef_kprobe_fault_handler_t, Mem ''opcode'' typedef_kprobe_opcode_t,
     Mem ''ainsn'' struct_arch_specific_insn, Mem ''flags'' typedef_u32]"

definition struct_kprobe_step_ctx :: ctyp where
  "struct_kprobe_step_ctx =
    CStruct False [Mem ''ss_pending'' c_ulong, Mem ''match_addr'' c_ulong]"

definition struct_prev_kprobe :: ctyp where
  "struct_prev_kprobe =
    CStruct False [Mem ''kp'' (CPtr ''struct kprobe''), Mem ''status'' c_uint]"

definition struct_kprobe_ctlblk :: ctyp where
  "struct_kprobe_ctlblk =
    CStruct False [Mem ''kprobe_status'' c_uint, Mem ''saved_irqflag'' c_ulong,
     Mem ''prev_kprobe'' struct_prev_kprobe, Mem ''ss_ctx'' struct_kprobe_step_ctx]"

definition struct_kretprobe_instance :: ctyp where
  "struct_kretprobe_instance =
    CStruct False [Mem '''' (CUnion False [Mem ''hlist'' struct_hlist_node,
     Mem ''rcu'' struct_callback_head]), Mem ''rp'' (CPtr ''struct kretprobe''),
     Mem ''ret_addr'' (CPtr ''kprobe_opcode_t''), Mem ''task'' (CPtr ''struct task_struct''),
     Mem ''fp'' (CPtr ''void''), Mem ''data'' (CArr c_char 0)]"

definition typedef_kretprobe_handler_t :: ctyp where
  "typedef_kretprobe_handler_t = CFn"

definition struct_kretprobe :: ctyp where
  "struct_kretprobe =
    CStruct False [Mem ''kp'' struct_kprobe, Mem ''handler'' typedef_kretprobe_handler_t,
     Mem ''entry_handler'' typedef_kretprobe_handler_t, Mem ''maxactive'' c_int,
     Mem ''nmissed'' c_int, Mem ''data_size'' typedef_size_t,
     Mem ''free_instances'' struct_hlist_head, Mem ''lock'' typedef_raw_spinlock_t]"

definition struct_kprobe_insn_cache :: ctyp where
  "struct_kprobe_insn_cache =
    CStruct False [Mem ''mutex'' struct_mutex, Mem ''alloc'' CFn, Mem ''free'' CFn,
     Mem ''sym'' (CPtr ''const char''), Mem ''pages'' struct_list_head,
     Mem ''insn_size'' typedef_size_t, Mem ''nr_garbage'' c_int]"

definition struct_kprobe_insn_page :: ctyp where
  "struct_kprobe_insn_page =
    CStruct False [Mem ''list'' struct_list_head, Mem ''insns'' (CPtr ''kprobe_opcode_t''),
     Mem ''cache'' (CPtr ''struct kprobe_insn_cache''), Mem ''nused'' c_int,
     Mem ''ngarbage'' c_int, Mem ''slot_used'' (CArr c_char 0)]"

definition struct_kprobe_blacklist_entry :: ctyp where
  "struct_kprobe_blacklist_entry =
    CStruct False [Mem ''list'' struct_list_head, Mem ''start_addr'' c_ulong,
     Mem ''end_addr'' c_ulong]"

definition struct_kretprobe_trace_entry_head :: ctyp where
  "struct_kretprobe_trace_entry_head =
    CStruct False [Mem ''ent'' struct_trace_entry, Mem ''func'' c_ulong, Mem ''ret_ip'' c_ulong]"

definition struct_kprobe_trace_entry_head :: ctyp where
  "struct_kprobe_trace_entry_head =
    CStruct False [Mem ''ent'' struct_trace_entry, Mem ''ip'' c_ulong]"

lemmas kernelTrace_types =
  typedef_local_t_def typedef_local64_t_def struct_perf_event_attr_def
  struct_hw_perf_event_extra_def struct_arch_hw_breakpoint_ctrl_def struct_arch_hw_breakpoint_def
  struct_hw_perf_event_def struct_perf_addr_filters_head_def typedef_perf_overflow_handler_t_def
  struct_perf_event_def struct_trace_event_def struct_trace_event_call_def struct_dyn_event_def
  struct_path_def typedef___kernel_long_t_def typedef___kernel_ssize_t_def typedef_ssize_t_def
  struct_probe_arg_def struct_trace_probe_def struct_trace_uprobe_def struct_trace_entry_def
  struct_uprobe_trace_entry_head_def struct_uprobe_dispatch_data_def struct_uprobe_cpu_buffer_def
  struct_trace_uprobe_filter_def struct_perf_event_groups_def struct_perf_event_context_def
  struct_perf_cpu_context_def struct_perf_addr_filter_range_def typedef_perf_copy_f_def
  struct_perf_raw_frag_def struct_perf_raw_record_def struct_perf_branch_entry_def
  struct_perf_branch_stack_def struct_perf_callchain_entry_def struct_perf_output_handle_def
  struct_perf_guest_info_callbacks_def struct_perf_callchain_entry_ctx_def typedef_umode_t_def
  struct_attribute_def struct_device_attribute_def struct_perf_pmu_events_attr_def
  struct_perf_event_mmap_page_def struct_perf_domain_def struct_perf_event_query_bpf_def
  struct_perf_buffer_def struct_perf_addr_filter_def struct_perf_event_header_def
  struct_perf_aux_event_def struct_perf_switch_event_def struct_perf_task_event_def
  struct_perf_ns_link_info_def struct_perf_comm_event_def struct_perf_mmap_event_def
  struct_perf_aux_event___2_def struct_perf_read_event_def struct_perf_read_data_def
  struct_perf_namespaces_event_def struct_perf_ksymbol_event_def struct_perf_bpf_event_def
  struct_perf_text_poke_event_def struct_perf_event_security_struct_def struct_scmi_opp_def
  struct_perf_dom_info_def typedef_kprobe_pre_handler_t_def typedef_kprobe_post_handler_t_def
  typedef_kprobe_fault_handler_t_def typedef_kprobe_opcode_t_def struct_arch_specific_insn_def
  struct_kprobe_def struct_kprobe_step_ctx_def struct_prev_kprobe_def struct_kprobe_ctlblk_def
  struct_kretprobe_instance_def typedef_kretprobe_handler_t_def struct_kretprobe_def
  struct_kprobe_insn_cache_def struct_kprobe_insn_page_def struct_kprobe_blacklist_entry_def
  struct_kretprobe_trace_entry_head_def struct_kprobe_trace_entry_head_def

end
