(* ===== verification/KernelProcess.thy ===== *)
theory KernelProcess
  imports KernelTrace
begin

text \<open>
  What the records of tasks and user probes point to in \<^verbatim>\<open>vmlinux.h\<close>: the file, inode
  and address space of a probed library, the files, signal handlers, name spaces and control
  groups of a task, the run queue it waits in, the records of an ELF file, and the trace instances
  and tracers behind trace events.
\<close>

section \<open>Files, name spaces, scheduling, tracing\<close>

definition enum_rw_hint :: "(string \<times> int) list" where
  "enum_rw_hint =
    [(''WRITE_LIFE_NOT_SET'', 0), (''WRITE_LIFE_NONE'', 1), (''WRITE_LIFE_SHORT'', 2),
     (''WRITE_LIFE_MEDIUM'', 3), (''WRITE_LIFE_LONG'', 4), (''WRITE_LIFE_EXTREME'', 5)]"

definition typedef_fmode_t :: ctyp where
  "typedef_fmode_t = c_uint"

definition struct_fown_struct :: ctyp where
  "struct_fown_struct =
    CStruct False [Mem ''lock'' typedef_rwlock_t, Mem ''pid'' (CPtr ''struct pid''),
     Mem ''pid_type'' (CEnum enum_pid_type), Mem ''uid'' typedef_kuid_t,
     Mem ''euid'' typedef_kuid_t, Mem ''signum'' c_int]"

definition struct_file_ra_state :: ctyp where
  "struct_file_ra_state =
    CStruct False [Mem ''start'' c_ulong, Mem ''size'' c_uint, Mem ''async_size'' c_uint,
     Mem ''ra_pages'' c_uint, Mem ''mmap_miss'' c_uint, Mem ''prev_pos'' typedef_loff_t]"

definition typedef_errseq_t :: ctyp where
  "typedef_errseq_t = typedef_u32"

definition struct_file :: ctyp where
  "struct_file =
    CStruct False [Mem ''f_u'' (CUnion False [Mem ''fu_llist'' struct_llist_node,
     Mem ''fu_rcuhead'' struct_callback_head]), Mem ''f_path'' struct_path,
     Mem ''f_inode'' (CPtr ''struct inode''),
     Mem ''f_op'' (CPtr ''const struct file_operations''), Mem ''f_lock'' typedef_spinlock_t,
     Mem ''f_write_hint'' (CEnum enum_rw_hint), Mem ''f_count'' typedef_atomic_long_t,
     Mem ''f_flags'' c_uint, Mem ''f_mode'' typedef_fmode_t, Mem ''f_pos_lock'' struct_mutex,
     Mem ''f_pos'' typedef_loff_t, Mem ''f_owner'' struct_fown_struct,
     Mem ''f_cred'' (CPtr ''const struct cred''), Mem ''f_ra'' struct_file_ra_state,
     Mem ''f_version'' typedef_u64, Mem ''f_security'' (CPtr ''void''),
     Mem ''private_data'' (CPtr ''void''), Mem ''f_ep_links'' struct_list_head,
     Mem ''f_tfile_llink'' struct_list_head, Mem ''f_mapping'' (CPtr ''struct address_space''),
     Mem ''f_wb_err'' typedef_errseq_t, Mem ''f_sb_err'' typedef_errseq_t,
     Mem ''android_kabi_reserved1'' typedef_u64, Mem ''android_kabi_reserved2'' typedef_u64,
     Mem ''android_oem_data1'' typedef_u64]"

definition typedef___kernel_dev_t :: ctyp where
  "typedef___kernel_dev_t = typedef_u32"

definition typedef_dev_t :: ctyp where
  "typedef_dev_t = typedef___kernel_dev_t"

definition typedef_time64_t :: ctyp where
  "typedef_time64_t = typedef___s64"

definition struct_timespec64 :: ctyp where
  "struct_timespec64 =
    CStruct False [Mem ''tv_sec'' typedef_time64_t, Mem ''tv_nsec'' c_long]"

definition typedef_blkcnt_t :: ctyp where
  "typedef_blkcnt_t = typedef_u64"

definition struct_xarray :: ctyp where
  "struct_xarray =
    CStruct False [Mem ''xa_lock'' typedef_spinlock_t, Mem ''xa_flags'' typedef_gfp_t,
     Mem ''xa_head'' (CPtr ''void'')]"

definition struct_address_space :: ctyp where
  "struct_address_space =
    CStruct False [Mem ''host'' (CPtr ''struct inode''), Mem ''i_pages'' struct_xarray,
     Mem ''gfp_mask'' typedef_gfp_t, Mem ''i_mmap_writable'' typedef_atomic_t,
     Mem ''nr_thps'' typedef_atomic_t, Mem ''i_mmap'' struct_rb_root_cached,
     Mem ''i_mmap_rwsem'' struct_rw_semaphore, Mem ''nrpages'' c_ulong,
     Mem ''nrexceptional'' c_ulong, Mem ''writeback_index'' c_ulong,
     Mem ''a_ops'' (CPtr ''const struct address_space_operations''), Mem ''flags'' c_ulong,
     Mem ''wb_err'' typedef_errseq_t, Mem ''private_lock'' typedef_spinlock_t,
     Mem ''private_list'' struct_list_head, Mem ''private_data'' (CPtr ''void''),
     Mem ''android_kabi_reserved1'' typedef_u64, Mem ''android_kabi_reserved2'' typedef_u64,
     Mem ''android_kabi_reserved3'' typedef_u64, Mem ''android_kabi_reserved4'' typedef_u64]"

definition struct_inode :: ctyp where
  "struct_inode =
    CStruct False [Mem ''i_mode'' typedef_umode_t, Mem ''i_opflags'' c_ushort,
     Mem ''i_uid'' typedef_kuid_t, Mem ''i_gid'' typedef_kgid_t, Mem ''i_flags'' c_uint,
     Mem ''i_acl'' (CPtr ''struct posix_acl''), Mem ''i_default_acl'' (CPtr ''struct posix_acl''),
     Mem ''i_op'' (CPtr ''const struct inode_operations''),
     Mem ''i_sb'' (CPtr ''struct super_block''),
     Mem ''i_mapping'' (CPtr ''struct address_space''), Mem ''i_security'' (CPtr ''void''),
     Mem ''i_ino'' c_ulong, Mem '''' (CUnion False [Mem ''i_nlink'' c_uint,
     Mem ''__i_nlink'' c_uint]), Mem ''i_rdev'' typedef_dev_t, Mem ''i_size'' typedef_loff_t,
     Mem ''i_atime'' struct_timespec64, Mem ''i_mtime'' struct_timespec64,
     Mem ''i_ctime'' struct_timespec64, Mem ''i_lock'' typedef_spinlock_t,
     Mem ''i_bytes'' c_ushort, Mem ''i_blkbits'' typedef_u8, Mem ''i_write_hint'' typedef_u8,
     Mem ''i_blocks'' typedef_blkcnt_t, Mem ''i_state'' c_ulong,
     Mem ''i_rwsem'' struct_rw_semaphore, Mem ''dirtied_when'' c_ulong,
     Mem ''dirtied_time_when'' c_ulong, Mem ''i_hash'' struct_hlist_node,
     Mem ''i_io_list'' struct_list_head, Mem ''i_wb'' (CPtr ''struct bdi_writeback''),
     Mem ''i_wb_frn_winner'' c_int, Mem ''i_wb_frn_avg_time'' typedef_u16,
     Mem ''i_wb_frn_history'' typedef_u16, Mem ''i_lru'' struct_list_head,
     Mem ''i_sb_list'' struct_list_head, Mem ''i_wb_list'' struct_list_head, Mem ''''
     (CUnion False [Mem ''i_dentry'' struct_hlist_head, Mem ''i_rcu'' struct_callback_head]),
     Mem ''i_version'' typedef_atomic64_t, Mem ''i_sequence'' typedef_atomic64_t,
     Mem ''i_count'' typedef_atomic_t, Mem ''i_dio_count'' typedef_atomic_t,
     Mem ''i_writecount'' typedef_atomic_t, Mem ''i_readcount'' typedef_atomic_t, Mem ''''
     (CUnion False [Mem ''i_fop'' (CPtr ''const struct file_operations''),
     Mem ''free_inode'' CFn]), Mem ''i_flctx'' (CPtr ''struct file_lock_context''),
     Mem ''i_data'' struct_address_space, Mem ''i_devices'' struct_list_head, Mem ''''
     (CUnion False [Mem ''i_pipe'' (CPtr ''struct pipe_inode_info''),
     Mem ''i_bdev'' (CPtr ''struct block_device''), Mem ''i_cdev'' (CPtr ''struct cdev''),
     Mem ''i_link'' (CPtr ''char''), Mem ''i_dir_seq'' c_uint]),
     Mem ''i_generation'' typedef___u32, Mem ''i_fsnotify_mask'' typedef___u32,
     Mem ''i_fsnotify_marks'' (CPtr ''struct fsnotify_mark_connector''),
     Mem ''i_crypt_info'' (CPtr ''struct fscrypt_info''),
     Mem ''i_verity_info'' (CPtr ''struct fsverity_info''), Mem ''i_private'' (CPtr ''void''),
     Mem ''android_kabi_reserved1'' typedef_u64, Mem ''android_kabi_reserved2'' typedef_u64]"

definition struct_hlist_bl_node :: ctyp where
  "struct_hlist_bl_node =
    CStruct False [Mem ''next'' (CPtr ''struct hlist_bl_node''),
     Mem ''pprev'' (CPtr ''struct hlist_bl_node *'')]"

definition struct_qstr :: ctyp where
  "struct_qstr =
    CStruct False [Mem '''' (CUnion False [Mem '''' (CStruct False [Mem ''hash'' typedef_u32,
     Mem ''len'' typedef_u32]), Mem ''hash_len'' typedef_u64]),
     Mem ''name'' (CPtr ''const unsigned char'')]"

definition struct_lockref :: ctyp where
  "struct_lockref =
    CStruct False [Mem '''' (CUnion False [Mem ''lock_count'' typedef___u64, Mem ''''
     (CStruct False [Mem ''lock'' typedef_spinlock_t, Mem ''count'' c_int])])]"

definition struct_dentry :: ctyp where
  "struct_dentry =
    CStruct False [Mem ''d_flags'' c_uint, Mem ''d_seq'' typedef_seqcount_spinlock_t,
     Mem ''d_hash'' struct_hlist_bl_node, Mem ''d_parent'' (CPtr ''struct dentry''),
     Mem ''d_name'' struct_qstr, Mem ''d_inode'' (CPtr ''struct inode''),
     Mem ''d_iname'' (CArr c_uchar 32), Mem ''d_lockref'' struct_lockref,
     Mem ''d_op'' (CPtr ''const struct dentry_operations''),
     Mem ''d_sb'' (CPtr ''struct super_block''), Mem ''d_time'' c_ulong,
     Mem ''d_fsdata'' (CPtr ''void''), Mem '''' (CUnion False [Mem ''d_lru'' struct_list_head,
     Mem ''d_wait'' (CPtr ''wait_queue_head_t'')]), Mem ''d_child'' struct_list_head,
     Mem ''d_subdirs'' struct_list_head, Mem ''d_u''
     (CUnion False [Mem ''d_alias'' struct_hlist_node,
     Mem ''d_in_lookup_hash'' struct_hlist_bl_node, Mem ''d_rcu'' struct_callback_head]),
     Mem ''android_kabi_reserved1'' typedef_u64, Mem ''android_kabi_reserved2'' typedef_u64]"

definition struct_hlist_bl_head :: ctyp where
  "struct_hlist_bl_head =
    CStruct False [Mem ''first'' (CPtr ''struct hlist_bl_node'')]"

definition typedef_qsize_t :: ctyp where
  "typedef_qsize_t = c_llong"

definition struct_mem_dqinfo :: ctyp where
  "struct_mem_dqinfo =
    CStruct False [Mem ''dqi_format'' (CPtr ''struct quota_format_type''),
     Mem ''dqi_fmt_id'' c_int, Mem ''dqi_dirty_list'' struct_list_head, Mem ''dqi_flags'' c_ulong,
     Mem ''dqi_bgrace'' c_uint, Mem ''dqi_igrace'' c_uint,
     Mem ''dqi_max_spc_limit'' typedef_qsize_t, Mem ''dqi_max_ino_limit'' typedef_qsize_t,
     Mem ''dqi_priv'' (CPtr ''void'')]"

definition struct_quota_info :: ctyp where
  "struct_quota_info =
    CStruct False [Mem ''flags'' c_uint, Mem ''dqio_sem'' struct_rw_semaphore,
     Mem ''files'' (CArr (CPtr ''struct inode'') 3), Mem ''info'' (CArr struct_mem_dqinfo 3),
     Mem ''ops'' (CArr (CPtr ''const struct quota_format_ops'') 3)]"

definition struct_rcu_sync :: ctyp where
  "struct_rcu_sync =
    CStruct False [Mem ''gp_state'' c_int, Mem ''gp_count'' c_int,
     Mem ''gp_wait'' typedef_wait_queue_head_t, Mem ''cb_head'' struct_callback_head]"

definition struct_rcuwait :: ctyp where
  "struct_rcuwait = CStruct False [Mem ''task'' (CPtr ''struct task_struct'')]"

definition struct_percpu_rw_semaphore :: ctyp where
  "struct_percpu_rw_semaphore =
    CStruct False [Mem ''rss'' struct_rcu_sync, Mem ''read_count'' (CPtr ''unsigned int''),
     Mem ''writer'' struct_rcuwait, Mem ''''
     (CUnion False [Mem ''waiters'' typedef_wait_queue_head_t,
     Mem ''destroy_list_entry'' struct_list_head]), Mem ''block'' typedef_atomic_t]"

definition struct_sb_writers :: ctyp where
  "struct_sb_writers =
    CStruct False [Mem ''frozen'' c_int, Mem ''wait_unfrozen'' typedef_wait_queue_head_t,
     Mem ''rw_sem'' (CArr struct_percpu_rw_semaphore 3)]"

definition typedef_uuid_t :: ctyp where
  "typedef_uuid_t = CStruct False [Mem ''b'' (CArr typedef___u8 16)]"

definition struct_shrinker :: ctyp where
  "struct_shrinker =
    CStruct False [Mem ''count_objects'' CFn, Mem ''scan_objects'' CFn, Mem ''batch'' c_long,
     Mem ''seeks'' c_int, Mem ''flags'' c_uint, Mem ''list'' struct_list_head, Mem ''id'' c_int,
     Mem ''nr_deferred'' (CPtr ''atomic_long_t'')]"

definition struct_list_lru :: ctyp where
  "struct_list_lru =
    CStruct False [Mem ''node'' (CPtr ''struct list_lru_node''), Mem ''list'' struct_list_head,
     Mem ''shrinker_id'' c_int, Mem ''memcg_aware'' typedef_bool]"

definition struct_super_block :: ctyp where
  "struct_super_block =
    CStruct False ([Mem ''s_list'' struct_list_head, Mem ''s_dev'' typedef_dev_t,
     Mem ''s_blocksize_bits'' c_uchar, Mem ''s_blocksize'' c_ulong,
     Mem ''s_maxbytes'' typedef_loff_t, Mem ''s_type'' (CPtr ''struct file_system_type''),
     Mem ''s_op'' (CPtr ''const struct super_operations''),
     Mem ''dq_op'' (CPtr ''const struct dquot_operations''),
     Mem ''s_qcop'' (CPtr ''const struct quotactl_ops''),
     Mem ''s_export_op'' (CPtr ''const struct export_operations''), Mem ''s_flags'' c_ulong,
     Mem ''s_iflags'' c_ulong, Mem ''s_magic'' c_ulong, Mem ''s_root'' (CPtr ''struct dentry''),
     Mem ''s_umount'' struct_rw_semaphore, Mem ''s_count'' c_int,
     Mem ''s_active'' typedef_atomic_t, Mem ''s_security'' (CPtr ''void''),
     Mem ''s_xattr'' (CPtr ''const struct xattr_handler *''),
     Mem ''s_cop'' (CPtr ''const struct fscrypt_operations''),
     Mem ''s_master_keys'' (CPtr ''struct key''),
     Mem ''s_vop'' (CPtr ''const struct fsverity_operations''),
     Mem ''s_encoding'' (CPtr ''struct unicode_map''), Mem ''s_encoding_flags'' typedef___u16,
     Mem ''s_roots'' struct_hlist_bl_head, Mem ''s_mounts'' struct_list_head,
     Mem ''s_bdev'' (CPtr ''struct block_device''),
     Mem ''s_bdi'' (CPtr ''struct backing_dev_info''), Mem ''s_mtd'' (CPtr ''struct mtd_info''),
     Mem ''s_instances'' struct_hlist_node, Mem ''s_quota_types'' c_uint,
     Mem ''s_dquot'' struct_quota_info, Mem ''s_writers'' struct_sb_writers,
     Mem ''s_fs_info'' (CPtr ''void''), Mem ''s_time_gran'' typedef_u32,
     Mem ''s_time_min'' typedef_time64_t, Mem ''s_time_max'' typedef_time64_t,
     Mem ''s_fsnotify_mask'' typedef___u32,
     Mem ''s_fsnotify_marks'' (CPtr ''struct fsnotify_mark_connector''),
     Mem ''s_id'' (CArr c_char 32), Mem ''s_uuid'' typedef_uuid_t, Mem ''s_max_links'' c_uint,
     Mem ''s_mode'' typedef_fmode_t, Mem ''s_vfs_rename_mutex'' struct_mutex,
     Mem ''s_subtype'' (CPtr ''const char''),
     Mem ''s_d_op'' (CPtr ''const struct dentry_operations''), Mem ''cleancache_poolid'' c_int,
     Mem ''s_shrink'' struct_shrinker, Mem ''s_remove_count'' typedef_atomic_long_t,
     Mem ''s_fsnotify_inode_refs'' typedef_atomic_long_t, Mem ''s_readonly_remount'' c_int,
     Mem ''s_wb_err'' typedef_errseq_t, Mem ''s_dio_done_wq'' (CPtr ''struct workqueue_struct''),
     Mem ''s_pins'' struct_hlist_head, Mem ''s_user_ns'' (CPtr ''struct user_namespace''),
     Mem ''s_dentry_lru'' struct_list_lru, Mem ''s_inode_lru'' struct_list_lru,
     Mem ''rcu'' struct_callback_head, Mem ''destroy_work'' struct_work_struct,
     Mem ''s_sync_lock'' struct_mutex, Mem ''s_stack_depth'' c_int] @ gaps 4 @
     [Mem ''s_inode_list_lock'' typedef_spinlock_t, Mem ''s_inodes'' struct_list_head,
     Mem ''s_inode_wblist_lock'' typedef_spinlock_t, Mem ''s_inodes_wb'' struct_list_head,
     Mem ''android_kabi_reserved1'' typedef_u64, Mem ''android_kabi_reserved2'' typedef_u64,
     Mem ''android_kabi_reserved3'' typedef_u64, Mem ''android_kabi_reserved4'' typedef_u64] @
     gaps 6)"

definition typedef_pgtable_t :: ctyp where
  "typedef_pgtable_t = CPtr ''struct page''"

definition struct_page :: ctyp where
  "struct_page =
    CStruct False [Mem ''flags'' c_ulong, Mem '''' (CUnion False [Mem ''''
     (CStruct False [Mem ''lru'' struct_list_head,
     Mem ''mapping'' (CPtr ''struct address_space''), Mem ''index'' c_ulong,
     Mem ''private'' c_ulong]), Mem '''' (CStruct False [Mem ''dma_addr'' (CArr c_ulong 2)]),
     Mem '''' (CStruct False [Mem '''' (CUnion False [Mem ''slab_list'' struct_list_head, Mem ''''
     (CStruct False [Mem ''next'' (CPtr ''struct page''), Mem ''pages'' c_int,
     Mem ''pobjects'' c_int])]), Mem ''slab_cache'' (CPtr ''struct kmem_cache''),
     Mem ''freelist'' (CPtr ''void''), Mem '''' (CUnion False [Mem ''s_mem'' (CPtr ''void''),
     Mem ''counters'' c_ulong, Mem '''' (CStruct False [Bits ''inuse'' c_uint 16,
     Bits ''objects'' c_uint 15, Bits ''frozen'' c_uint 1])])]), Mem ''''
     (CStruct False [Mem ''compound_head'' c_ulong, Mem ''compound_dtor'' c_uchar,
     Mem ''compound_order'' c_uchar, Mem ''compound_mapcount'' typedef_atomic_t,
     Mem ''compound_nr'' c_uint]), Mem '''' (CStruct False [Mem ''_compound_pad_1'' c_ulong,
     Mem ''hpage_pinned_refcount'' typedef_atomic_t, Mem ''deferred_list'' struct_list_head]),
     Mem '''' (CStruct False [Mem ''_pt_pad_1'' c_ulong, Mem ''pmd_huge_pte'' typedef_pgtable_t,
     Mem ''_pt_pad_2'' c_ulong, Mem '''' (CUnion False [Mem ''pt_mm'' (CPtr ''struct mm_struct''),
     Mem ''pt_frag_refcount'' typedef_atomic_t]), Mem ''ptl'' typedef_spinlock_t]), Mem ''''
     (CStruct False [Mem ''pgmap'' (CPtr ''struct dev_pagemap''),
     Mem ''zone_device_data'' (CPtr ''void'')]), Mem ''callback_head'' struct_callback_head]),
     Mem '''' (CUnion False [Mem ''_mapcount'' typedef_atomic_t, Mem ''page_type'' c_uint,
     Mem ''active'' c_uint, Mem ''units'' c_int]), Mem ''_refcount'' typedef_atomic_t, Mem ''''
     (CUnion False [Mem ''mem_cgroup'' (CPtr ''struct mem_cgroup''),
     Mem ''obj_cgroups'' (CPtr ''struct obj_cgroup *'')])]"

definition struct_vfsmount :: ctyp where
  "struct_vfsmount =
    CStruct False [Mem ''mnt_root'' (CPtr ''struct dentry''),
     Mem ''mnt_sb'' (CPtr ''struct super_block''), Mem ''mnt_flags'' c_int,
     Mem ''android_kabi_reserved1'' typedef_u64, Mem ''android_kabi_reserved2'' typedef_u64,
     Mem ''android_kabi_reserved3'' typedef_u64, Mem ''android_kabi_reserved4'' typedef_u64]"

definition struct_fdtable :: ctyp where
  "struct_fdtable =
    CStruct False [Mem ''max_fds'' c_uint, Mem ''fd'' (CPtr ''struct file *''),
     Mem ''close_on_exec'' (CPtr ''unsigned long''), Mem ''open_fds'' (CPtr ''unsigned long''),
     Mem ''full_fds_bits'' (CPtr ''unsigned long''), Mem ''rcu'' struct_callback_head]"

definition struct_files_struct :: ctyp where
  "struct_files_struct =
    CStruct False ([Mem ''count'' typedef_atomic_t, Mem ''resize_in_progress'' typedef_bool,
     Mem ''resize_wait'' typedef_wait_queue_head_t, Mem ''fdt'' (CPtr ''struct fdtable''),
     Mem ''fdtab'' struct_fdtable] @ gaps 4 @ [Mem ''file_lock'' typedef_spinlock_t,
     Mem ''next_fd'' c_uint, Mem ''close_on_exec_init'' (CArr c_ulong 1),
     Mem ''open_fds_init'' (CArr c_ulong 1), Mem ''full_fds_bits_init'' (CArr c_ulong 1),
     Mem ''fd_array'' (CArr (CPtr ''struct file'') 64)] @ gaps 4)"

definition struct_fs_struct :: ctyp where
  "struct_fs_struct =
    CStruct False [Mem ''users'' c_int, Mem ''lock'' typedef_spinlock_t,
     Mem ''seq'' typedef_seqcount_spinlock_t, Mem ''umask'' c_int, Mem ''in_exec'' c_int,
     Mem ''root'' struct_path, Mem ''pwd'' struct_path]"

definition struct_nsproxy :: ctyp where
  "struct_nsproxy =
    CStruct False [Mem ''count'' typedef_atomic_t,
     Mem ''uts_ns'' (CPtr ''struct uts_namespace''),
     Mem ''ipc_ns'' (CPtr ''struct ipc_namespace''),
     Mem ''mnt_ns'' (CPtr ''struct mnt_namespace''),
     Mem ''pid_ns_for_children'' (CPtr ''struct pid_namespace''),
     Mem ''net_ns'' (CPtr ''struct net''), Mem ''time_ns'' (CPtr ''struct time_namespace''),
     Mem ''time_ns_for_children'' (CPtr ''struct time_namespace''),
     Mem ''cgroup_ns'' (CPtr ''struct cgroup_namespace'')]"

definition struct_uid_gid_extent :: ctyp where
  "struct_uid_gid_extent =
    CStruct False [Mem ''first'' typedef_u32, Mem ''lower_first'' typedef_u32,
     Mem ''count'' typedef_u32]"

definition struct_uid_gid_map :: ctyp where
  "struct_uid_gid_map =
    CStruct False [Mem ''nr_extents'' typedef_u32, Mem ''''
     (CUnion False [Mem ''extent'' (CArr struct_uid_gid_extent 5), Mem ''''
     (CStruct False [Mem ''forward'' (CPtr ''struct uid_gid_extent''),
     Mem ''reverse'' (CPtr ''struct uid_gid_extent'')])])]"

definition struct_ns_common :: ctyp where
  "struct_ns_common =
    CStruct False [Mem ''stashed'' typedef_atomic_long_t,
     Mem ''ops'' (CPtr ''const struct proc_ns_operations''), Mem ''inum'' c_uint]"

definition struct_ctl_table_header :: ctyp where
  "struct_ctl_table_header =
    CStruct False [Mem '''' (CUnion False [Mem ''''
     (CStruct False [Mem ''ctl_table'' (CPtr ''struct ctl_table''), Mem ''used'' c_int,
     Mem ''count'' c_int, Mem ''nreg'' c_int]), Mem ''rcu'' struct_callback_head]),
     Mem ''unregistering'' (CPtr ''struct completion''),
     Mem ''ctl_table_arg'' (CPtr ''struct ctl_table''),
     Mem ''root'' (CPtr ''struct ctl_table_root''), Mem ''set'' (CPtr ''struct ctl_table_set''),
     Mem ''parent'' (CPtr ''struct ctl_dir''), Mem ''node'' (CPtr ''struct ctl_node''),
     Mem ''inodes'' struct_hlist_head]"

definition struct_ctl_dir :: ctyp where
  "struct_ctl_dir =
    CStruct False [Mem ''header'' struct_ctl_table_header, Mem ''root'' struct_rb_root]"

definition struct_ctl_table_set :: ctyp where
  "struct_ctl_table_set =
    CStruct False [Mem ''is_seen'' CFn, Mem ''dir'' struct_ctl_dir]"

definition struct_user_namespace :: ctyp where
  "struct_user_namespace =
    CStruct False [Mem ''uid_map'' struct_uid_gid_map, Mem ''gid_map'' struct_uid_gid_map,
     Mem ''projid_map'' struct_uid_gid_map, Mem ''count'' typedef_atomic_t,
     Mem ''parent'' (CPtr ''struct user_namespace''), Mem ''level'' c_int,
     Mem ''owner'' typedef_kuid_t, Mem ''group'' typedef_kgid_t, Mem ''ns'' struct_ns_common,
     Mem ''flags'' c_ulong, Mem ''parent_could_setfcap'' typedef_bool,
     Mem ''keyring_name_list'' struct_list_head,
     Mem ''user_keyring_register'' (CPtr ''struct key''), Mem ''keyring_sem'' struct_rw_semaphore,
     Mem ''work'' struct_work_struct, Mem ''set'' struct_ctl_table_set,
     Mem ''sysctls'' (CPtr ''struct ctl_table_header''),
     Mem ''ucounts'' (CPtr ''struct ucounts''), Mem ''ucount_max'' (CArr c_int 10),
     Mem ''android_kabi_reserved1'' typedef_u64, Mem ''android_kabi_reserved2'' typedef_u64]"

definition struct_idr :: ctyp where
  "struct_idr =
    CStruct False [Mem ''idr_rt'' struct_xarray, Mem ''idr_base'' c_uint,
     Mem ''idr_next'' c_uint]"

definition struct_pid_namespace :: ctyp where
  "struct_pid_namespace =
    CStruct False [Mem ''kref'' struct_kref, Mem ''idr'' struct_idr,
     Mem ''rcu'' struct_callback_head, Mem ''pid_allocated'' c_uint,
     Mem ''child_reaper'' (CPtr ''struct task_struct''),
     Mem ''pid_cachep'' (CPtr ''struct kmem_cache''), Mem ''level'' c_uint,
     Mem ''parent'' (CPtr ''struct pid_namespace''),
     Mem ''user_ns'' (CPtr ''struct user_namespace''), Mem ''ucounts'' (CPtr ''struct ucounts''),
     Mem ''reboot'' c_int, Mem ''ns'' struct_ns_common]"

definition typedef___sighandler_t :: ctyp where
  "typedef___sighandler_t = CPtr ''__signalfn_t''"

definition typedef___sigrestore_t :: ctyp where
  "typedef___sigrestore_t = CPtr ''__restorefn_t''"

definition struct_sigaction :: ctyp where
  "struct_sigaction =
    CStruct False [Mem ''sa_handler'' typedef___sighandler_t, Mem ''sa_flags'' c_ulong,
     Mem ''sa_restorer'' typedef___sigrestore_t, Mem ''sa_mask'' typedef_sigset_t]"

definition struct_k_sigaction :: ctyp where
  "struct_k_sigaction = CStruct False [Mem ''sa'' struct_sigaction]"

definition struct_sighand_struct :: ctyp where
  "struct_sighand_struct =
    CStruct False [Mem ''siglock'' typedef_spinlock_t, Mem ''count'' typedef_refcount_t,
     Mem ''signalfd_wqh'' typedef_wait_queue_head_t, Mem ''action'' (CArr struct_k_sigaction 64)]"

definition typedef___kernel_timer_t :: ctyp where
  "typedef___kernel_timer_t = c_int"

definition union_sigval :: ctyp where
  "union_sigval =
    CUnion False [Mem ''sival_int'' c_int, Mem ''sival_ptr'' (CPtr ''void'')]"

definition typedef_sigval_t :: ctyp where
  "typedef_sigval_t = union_sigval"

definition typedef___kernel_clock_t :: ctyp where
  "typedef___kernel_clock_t = typedef___kernel_long_t"

definition union___sifields :: ctyp where
  "union___sifields =
    CUnion False [Mem ''_kill'' (CStruct False [Mem ''_pid'' typedef___kernel_pid_t,
     Mem ''_uid'' typedef___kernel_uid32_t]), Mem ''_timer''
     (CStruct False [Mem ''_tid'' typedef___kernel_timer_t, Mem ''_overrun'' c_int,
     Mem ''_sigval'' typedef_sigval_t, Mem ''_sys_private'' c_int]), Mem ''_rt''
     (CStruct False [Mem ''_pid'' typedef___kernel_pid_t, Mem ''_uid'' typedef___kernel_uid32_t,
     Mem ''_sigval'' typedef_sigval_t]), Mem ''_sigchld''
     (CStruct False [Mem ''_pid'' typedef___kernel_pid_t, Mem ''_uid'' typedef___kernel_uid32_t,
     Mem ''_status'' c_int, Mem ''_utime'' typedef___kernel_clock_t,
     Mem ''_stime'' typedef___kernel_clock_t]), Mem ''_sigfault''
     (CStruct False [Mem ''_addr'' (CPtr ''void''), Mem ''''
     (CUnion False [Mem ''_addr_lsb'' c_short, Mem ''_addr_bnd''
     (CStruct False [Mem ''_dummy_bnd'' (CArr c_char 8), Mem ''_lower'' (CPtr ''void''),
     Mem ''_upper'' (CPtr ''void'')]), Mem ''_addr_pkey''
     (CStruct False [Mem ''_dummy_pkey'' (CArr c_char 8), Mem ''_pkey'' typedef___u32])])]),
     Mem ''_sigpoll'' (CStruct False [Mem ''_band'' c_long, Mem ''_fd'' c_int]), Mem ''_sigsys''
     (CStruct False [Mem ''_call_addr'' (CPtr ''void''), Mem ''_syscall'' c_int,
     Mem ''_arch'' c_uint])]"

definition struct_kernel_siginfo :: ctyp where
  "struct_kernel_siginfo =
    CStruct False [Mem '''' (CStruct False [Mem ''si_signo'' c_int, Mem ''si_errno'' c_int,
     Mem ''si_code'' c_int, Mem ''_sifields'' union___sifields])]"

definition struct_linux_binprm :: ctyp where
  "struct_linux_binprm =
    CStruct False [Mem ''vma'' (CPtr ''struct vm_area_struct''), Mem ''vma_pages'' c_ulong,
     Mem ''mm'' (CPtr ''struct mm_struct''), Mem ''p'' c_ulong, Mem ''argmin'' c_ulong,
     Bits ''have_execfd'' c_uint 1, Bits ''execfd_creds'' c_uint 1, Bits ''secureexec'' c_uint 1,
     Bits ''point_of_no_return'' c_uint 1, Mem ''executable'' (CPtr ''struct file''),
     Mem ''interpreter'' (CPtr ''struct file''), Mem ''file'' (CPtr ''struct file''),
     Mem ''cred'' (CPtr ''struct cred''), Mem ''unsafe'' c_int, Mem ''per_clear'' c_uint,
     Mem ''argc'' c_int, Mem ''envc'' c_int, Mem ''filename'' (CPtr ''const char''),
     Mem ''interp'' (CPtr ''const char''), Mem ''fdpath'' (CPtr ''const char''),
     Mem ''interp_flags'' c_uint, Mem ''execfd'' c_int, Mem ''loader'' c_ulong,
     Mem ''exec'' c_ulong, Mem ''rlim_stack'' struct_rlimit, Mem ''buf'' (CArr c_char 256)]"

definition struct_seq_file :: ctyp where
  "struct_seq_file =
    CStruct False [Mem ''buf'' (CPtr ''char''), Mem ''size'' typedef_size_t,
     Mem ''from'' typedef_size_t, Mem ''count'' typedef_size_t, Mem ''pad_until'' typedef_size_t,
     Mem ''index'' typedef_loff_t, Mem ''read_pos'' typedef_loff_t, Mem ''lock'' struct_mutex,
     Mem ''op'' (CPtr ''const struct seq_operations''), Mem ''poll_event'' c_int,
     Mem ''file'' (CPtr ''const struct file''), Mem ''private'' (CPtr ''void'')]"

definition struct_file_operations :: ctyp where
  "struct_file_operations =
    CStruct False [Mem ''owner'' (CPtr ''struct module''), Mem ''llseek'' CFn, Mem ''read'' CFn,
     Mem ''write'' CFn, Mem ''read_iter'' CFn, Mem ''write_iter'' CFn, Mem ''iopoll'' CFn,
     Mem ''iterate'' CFn, Mem ''iterate_shared'' CFn, Mem ''poll'' CFn,
     Mem ''unlocked_ioctl'' CFn, Mem ''compat_ioctl'' CFn, Mem ''mmap'' CFn,
     Mem ''mmap_supported_flags'' c_ulong, Mem ''open'' CFn, Mem ''flush'' CFn,
     Mem ''release'' CFn, Mem ''fsync'' CFn, Mem ''fasync'' CFn, Mem ''lock'' CFn,
     Mem ''sendpage'' CFn, Mem ''get_unmapped_area'' CFn, Mem ''check_flags'' CFn,
     Mem ''flock'' CFn, Mem ''splice_write'' CFn, Mem ''splice_read'' CFn, Mem ''setlease'' CFn,
     Mem ''fallocate'' CFn, Mem ''show_fdinfo'' CFn, Mem ''copy_file_range'' CFn,
     Mem ''remap_file_range'' CFn, Mem ''fadvise'' CFn,
     Mem ''android_kabi_reserved1'' typedef_u64, Mem ''android_kabi_reserved2'' typedef_u64,
     Mem ''android_kabi_reserved3'' typedef_u64, Mem ''android_kabi_reserved4'' typedef_u64]"

definition struct_inode_operations :: ctyp where
  "struct_inode_operations =
    CStruct False ([Mem ''lookup'' CFn, Mem ''get_link'' CFn, Mem ''permission'' CFn,
     Mem ''get_acl'' CFn, Mem ''readlink'' CFn, Mem ''create'' CFn, Mem ''link'' CFn,
     Mem ''unlink'' CFn, Mem ''symlink'' CFn, Mem ''mkdir'' CFn, Mem ''rmdir'' CFn,
     Mem ''mknod'' CFn, Mem ''rename'' CFn, Mem ''setattr'' CFn, Mem ''getattr'' CFn,
     Mem ''listxattr'' CFn, Mem ''fiemap'' CFn, Mem ''update_time'' CFn, Mem ''atomic_open'' CFn,
     Mem ''tmpfile'' CFn, Mem ''set_acl'' CFn, Mem ''android_kabi_reserved1'' typedef_u64,
     Mem ''android_kabi_reserved2'' typedef_u64, Mem ''android_kabi_reserved3'' typedef_u64,
     Mem ''android_kabi_reserved4'' typedef_u64] @ gaps 7)"

definition struct_vm_operations_struct :: ctyp where
  "struct_vm_operations_struct =
    CStruct False [Mem ''open'' CFn, Mem ''close'' CFn, Mem ''split'' CFn, Mem ''mremap'' CFn,
     Mem ''fault'' CFn, Mem ''huge_fault'' CFn, Mem ''map_pages'' CFn, Mem ''pagesize'' CFn,
     Mem ''page_mkwrite'' CFn, Mem ''pfn_mkwrite'' CFn, Mem ''access'' CFn, Mem ''name'' CFn,
     Mem ''find_special_page'' CFn, Mem ''allow_speculation'' CFn,
     Mem ''android_kabi_reserved1'' typedef_u64, Mem ''android_kabi_reserved2'' typedef_u64,
     Mem ''android_kabi_reserved3'' typedef_u64, Mem ''android_kabi_reserved4'' typedef_u64]"

definition typedef_Elf64_Half :: ctyp where
  "typedef_Elf64_Half = typedef___u16"

definition typedef_Elf64_Word :: ctyp where
  "typedef_Elf64_Word = typedef___u32"

definition typedef_Elf64_Addr :: ctyp where
  "typedef_Elf64_Addr = typedef___u64"

definition typedef_Elf64_Off :: ctyp where
  "typedef_Elf64_Off = typedef___u64"

definition struct_elf64_hdr :: ctyp where
  "struct_elf64_hdr =
    CStruct False [Mem ''e_ident'' (CArr c_uchar 16), Mem ''e_type'' typedef_Elf64_Half,
     Mem ''e_machine'' typedef_Elf64_Half, Mem ''e_version'' typedef_Elf64_Word,
     Mem ''e_entry'' typedef_Elf64_Addr, Mem ''e_phoff'' typedef_Elf64_Off,
     Mem ''e_shoff'' typedef_Elf64_Off, Mem ''e_flags'' typedef_Elf64_Word,
     Mem ''e_ehsize'' typedef_Elf64_Half, Mem ''e_phentsize'' typedef_Elf64_Half,
     Mem ''e_phnum'' typedef_Elf64_Half, Mem ''e_shentsize'' typedef_Elf64_Half,
     Mem ''e_shnum'' typedef_Elf64_Half, Mem ''e_shstrndx'' typedef_Elf64_Half]"

definition typedef_Elf64_Xword :: ctyp where
  "typedef_Elf64_Xword = typedef___u64"

definition struct_elf64_shdr :: ctyp where
  "struct_elf64_shdr =
    CStruct False [Mem ''sh_name'' typedef_Elf64_Word, Mem ''sh_type'' typedef_Elf64_Word,
     Mem ''sh_flags'' typedef_Elf64_Xword, Mem ''sh_addr'' typedef_Elf64_Addr,
     Mem ''sh_offset'' typedef_Elf64_Off, Mem ''sh_size'' typedef_Elf64_Xword,
     Mem ''sh_link'' typedef_Elf64_Word, Mem ''sh_info'' typedef_Elf64_Word,
     Mem ''sh_addralign'' typedef_Elf64_Xword, Mem ''sh_entsize'' typedef_Elf64_Xword]"

definition struct_elf64_sym :: ctyp where
  "struct_elf64_sym =
    CStruct False [Mem ''st_name'' typedef_Elf64_Word, Mem ''st_info'' c_uchar,
     Mem ''st_other'' c_uchar, Mem ''st_shndx'' typedef_Elf64_Half,
     Mem ''st_value'' typedef_Elf64_Addr, Mem ''st_size'' typedef_Elf64_Xword]"

definition struct_elf_siginfo :: ctyp where
  "struct_elf_siginfo =
    CStruct False [Mem ''si_signo'' c_int, Mem ''si_code'' c_int, Mem ''si_errno'' c_int]"

definition struct___kernel_old_timeval :: ctyp where
  "struct___kernel_old_timeval =
    CStruct False [Mem ''tv_sec'' typedef___kernel_long_t,
     Mem ''tv_usec'' typedef___kernel_long_t]"

definition typedef_elf_greg_t :: ctyp where
  "typedef_elf_greg_t = c_ulong"

definition typedef_elf_gregset_t :: ctyp where
  "typedef_elf_gregset_t = CArr typedef_elf_greg_t 34"

definition struct_elf_prstatus :: ctyp where
  "struct_elf_prstatus =
    CStruct False [Mem ''pr_info'' struct_elf_siginfo, Mem ''pr_cursig'' c_short,
     Mem ''pr_sigpend'' c_ulong, Mem ''pr_sighold'' c_ulong, Mem ''pr_pid'' typedef_pid_t,
     Mem ''pr_ppid'' typedef_pid_t, Mem ''pr_pgrp'' typedef_pid_t, Mem ''pr_sid'' typedef_pid_t,
     Mem ''pr_utime'' struct___kernel_old_timeval, Mem ''pr_stime'' struct___kernel_old_timeval,
     Mem ''pr_cutime'' struct___kernel_old_timeval, Mem ''pr_cstime'' struct___kernel_old_timeval,
     Mem ''pr_reg'' typedef_elf_gregset_t, Mem ''pr_fpvalid'' c_int]"

definition struct_seccomp_data :: ctyp where
  "struct_seccomp_data =
    CStruct False [Mem ''nr'' c_int, Mem ''arch'' typedef___u32,
     Mem ''instruction_pointer'' typedef___u64, Mem ''args'' (CArr typedef___u64 6)]"

definition struct_sched_class :: ctyp where
  "struct_sched_class =
    CStruct False ([Mem ''uclamp_enabled'' c_int, Mem ''enqueue_task'' CFn,
     Mem ''dequeue_task'' CFn, Mem ''yield_task'' CFn, Mem ''yield_to_task'' CFn,
     Mem ''check_preempt_curr'' CFn, Mem ''pick_next_task'' CFn, Mem ''put_prev_task'' CFn,
     Mem ''set_next_task'' CFn, Mem ''balance'' CFn, Mem ''select_task_rq'' CFn,
     Mem ''migrate_task_rq'' CFn, Mem ''task_woken'' CFn, Mem ''set_cpus_allowed'' CFn,
     Mem ''rq_online'' CFn, Mem ''rq_offline'' CFn, Mem ''task_tick'' CFn, Mem ''task_fork'' CFn,
     Mem ''task_dead'' CFn, Mem ''switched_from'' CFn, Mem ''switched_to'' CFn,
     Mem ''prio_changed'' CFn, Mem ''get_rr_interval'' CFn, Mem ''update_curr'' CFn,
     Mem ''task_change_group'' CFn] @ gaps 3)"

definition struct_cfs_rq :: ctyp where
  "struct_cfs_rq =
    CStruct False ([Mem ''load'' struct_load_weight, Mem ''nr_running'' c_uint,
     Mem ''h_nr_running'' c_uint, Mem ''idle_h_nr_running'' c_uint,
     Mem ''exec_clock'' typedef_u64, Mem ''min_vruntime'' typedef_u64,
     Mem ''tasks_timeline'' struct_rb_root_cached, Mem ''curr'' (CPtr ''struct sched_entity''),
     Mem ''next'' (CPtr ''struct sched_entity''), Mem ''last'' (CPtr ''struct sched_entity''),
     Mem ''skip'' (CPtr ''struct sched_entity''), Mem ''nr_spread_over'' c_uint] @ gaps 3 @
     [Mem ''avg'' struct_sched_avg, Mem ''removed''
     (CStruct False ([Mem ''lock'' typedef_raw_spinlock_t, Mem ''nr'' c_int,
     Mem ''load_avg'' c_ulong, Mem ''util_avg'' c_ulong, Mem ''runnable_avg'' c_ulong] @ gaps 4)),
     Mem ''tg_load_avg_contrib'' c_ulong, Mem ''propagate'' c_long,
     Mem ''prop_runnable_sum'' c_long, Mem ''h_load'' c_ulong,
     Mem ''last_h_load_update'' typedef_u64, Mem ''h_load_next'' (CPtr ''struct sched_entity''),
     Mem ''rq'' (CPtr ''struct rq''), Mem ''on_list'' c_int,
     Mem ''leaf_cfs_rq_list'' struct_list_head, Mem ''tg'' (CPtr ''struct task_group''),
     Mem ''android_vendor_data1'' (CArr typedef_u64 16)] @ gaps 5)"

definition typedef_smp_call_func_t :: ctyp where
  "typedef_smp_call_func_t = CFn"

definition struct___call_single_data :: ctyp where
  "struct___call_single_data =
    CStruct False [Mem '''' (CUnion False [Mem ''node'' struct___call_single_node, Mem ''''
     (CStruct False [Mem ''llist'' struct_llist_node, Mem ''flags'' c_uint,
     Mem ''src'' typedef_u16, Mem ''dst'' typedef_u16])]), Mem ''func'' typedef_smp_call_func_t,
     Mem ''info'' (CPtr ''void'')]"

definition typedef_call_single_data_t :: ctyp where
  "typedef_call_single_data_t = struct___call_single_data"

definition struct_uclamp_bucket :: ctyp where
  "struct_uclamp_bucket =
    CStruct False [Bits ''value'' c_ulong 11, Bits ''tasks'' c_ulong 53]"

definition struct_uclamp_rq :: ctyp where
  "struct_uclamp_rq =
    CStruct False [Mem ''value'' c_uint, Mem ''bucket'' (CArr struct_uclamp_bucket 20)]"

definition struct_rt_prio_array :: ctyp where
  "struct_rt_prio_array =
    CStruct False [Mem ''bitmap'' (CArr c_ulong 2), Mem ''queue'' (CArr struct_list_head 100)]"

definition struct_plist_head :: ctyp where
  "struct_plist_head = CStruct False [Mem ''node_list'' struct_list_head]"

definition struct_rt_rq :: ctyp where
  "struct_rt_rq =
    CStruct False [Mem ''active'' struct_rt_prio_array, Mem ''rt_nr_running'' c_uint,
     Mem ''rr_nr_running'' c_uint, Mem ''highest_prio'' (CStruct False [Mem ''curr'' c_int,
     Mem ''next'' c_int]), Mem ''rt_nr_migratory'' c_ulong, Mem ''rt_nr_total'' c_ulong,
     Mem ''overloaded'' c_int, Mem ''pushable_tasks'' struct_plist_head, Mem ''rt_queued'' c_int,
     Mem ''rt_throttled'' c_int, Mem ''rt_time'' typedef_u64, Mem ''rt_runtime'' typedef_u64,
     Mem ''rt_runtime_lock'' typedef_raw_spinlock_t]"

definition struct_dl_rq :: ctyp where
  "struct_dl_rq =
    CStruct False [Mem ''root'' struct_rb_root_cached, Mem ''dl_nr_running'' c_ulong,
     Mem ''earliest_dl'' (CStruct False [Mem ''curr'' typedef_u64, Mem ''next'' typedef_u64]),
     Mem ''dl_nr_migratory'' c_ulong, Mem ''overloaded'' c_int,
     Mem ''pushable_dl_tasks_root'' struct_rb_root_cached, Mem ''running_bw'' typedef_u64,
     Mem ''this_bw'' typedef_u64, Mem ''extra_bw'' typedef_u64, Mem ''bw_ratio'' typedef_u64]"

definition typedef_cpu_stop_fn_t :: ctyp where
  "typedef_cpu_stop_fn_t = CFn"

definition struct_cpu_stop_work :: ctyp where
  "struct_cpu_stop_work =
    CStruct False [Mem ''list'' struct_list_head, Mem ''fn'' typedef_cpu_stop_fn_t,
     Mem ''arg'' (CPtr ''void''), Mem ''done'' (CPtr ''struct cpu_stop_done'')]"

definition struct_cpu_stop_done :: ctyp where
  "struct_cpu_stop_done =
    CStruct False [Mem ''nr_todo'' typedef_atomic_t, Mem ''ret'' c_int,
     Mem ''completion'' struct_completion]"

definition struct_rq :: ctyp where
  "struct_rq =
    CStruct False ([Mem ''lock'' typedef_raw_spinlock_t, Mem ''nr_running'' c_uint,
     Mem ''last_blocked_load_update_tick'' c_ulong, Mem ''has_blocked_load'' c_uint, gap 64,
     Mem ''nohz_csd'' typedef_call_single_data_t, Mem ''nohz_tick_stopped'' c_uint,
     Mem ''nohz_flags'' typedef_atomic_t, Mem ''ttwu_pending'' c_uint,
     Mem ''nr_switches'' typedef_u64] @ gaps 5 @ [Mem ''uclamp'' (CArr struct_uclamp_rq 2),
     Mem ''uclamp_flags'' c_uint] @ gaps 5 @ [Mem ''cfs'' struct_cfs_rq, Mem ''rt'' struct_rt_rq,
     Mem ''dl'' struct_dl_rq, Mem ''leaf_cfs_rq_list'' struct_list_head,
     Mem ''tmp_alone_branch'' (CPtr ''struct list_head''), Mem ''nr_uninterruptible'' c_ulong,
     Mem ''curr'' (CPtr ''struct task_struct''), Mem ''idle'' (CPtr ''struct task_struct''),
     Mem ''stop'' (CPtr ''struct task_struct''), Mem ''next_balance'' c_ulong,
     Mem ''prev_mm'' (CPtr ''struct mm_struct''), Mem ''clock_update_flags'' c_uint,
     Mem ''clock'' typedef_u64] @ gaps 3 @ [Mem ''clock_task'' typedef_u64,
     Mem ''clock_pelt'' typedef_u64, Mem ''lost_idle_time'' c_ulong,
     Mem ''nr_iowait'' typedef_atomic_t, Mem ''membarrier_state'' c_int,
     Mem ''rd'' (CPtr ''struct root_domain''), Mem ''sd'' (CPtr ''struct sched_domain''),
     Mem ''cpu_capacity'' c_ulong, Mem ''cpu_capacity_orig'' c_ulong,
     Mem ''balance_callback'' (CPtr ''struct callback_head''), Mem ''nohz_idle_balance'' c_uchar,
     Mem ''idle_balance'' c_uchar, Mem ''misfit_task_load'' c_ulong, Mem ''active_balance'' c_int,
     Mem ''push_cpu'' c_int, Mem ''active_balance_work'' struct_cpu_stop_work, Mem ''cpu'' c_int,
     Mem ''online'' c_int, Mem ''cfs_tasks'' struct_list_head] @ gaps 4 @
     [Mem ''avg_rt'' struct_sched_avg, Mem ''avg_dl'' struct_sched_avg,
     Mem ''avg_irq'' struct_sched_avg, Mem ''avg_thermal'' struct_sched_avg,
     Mem ''idle_stamp'' typedef_u64, Mem ''avg_idle'' typedef_u64,
     Mem ''max_idle_balance_cost'' typedef_u64, Mem ''prev_irq_time'' typedef_u64,
     Mem ''prev_steal_time'' typedef_u64, Mem ''calc_load_update'' c_ulong,
     Mem ''calc_load_active'' c_long, gap 64, Mem ''hrtick_csd'' typedef_call_single_data_t,
     Mem ''hrtick_timer'' struct_hrtimer, Mem ''hrtick_time'' typedef_ktime_t,
     Mem ''rq_sched_info'' struct_sched_info, Mem ''rq_cpu_time'' c_ullong,
     Mem ''yld_count'' c_uint, Mem ''sched_count'' c_uint, Mem ''sched_goidle'' c_uint,
     Mem ''ttwu_count'' c_uint, Mem ''ttwu_local'' c_uint, Mem ''drain'' struct_cpu_stop_work,
     Mem ''drain_done'' struct_cpu_stop_done, Mem ''idle_state'' (CPtr ''struct cpuidle_state''),
     Mem ''android_vendor_data1'' (CArr typedef_u64 96),
     Mem ''android_oem_data1'' (CArr typedef_u64 16), Mem ''android_kabi_reserved1'' typedef_u64,
     Mem ''android_kabi_reserved2'' typedef_u64, Mem ''android_kabi_reserved3'' typedef_u64,
     Mem ''android_kabi_reserved4'' typedef_u64] @ gaps 3)"

definition struct_rcu_work :: ctyp where
  "struct_rcu_work =
    CStruct False [Mem ''work'' struct_work_struct, Mem ''rcu'' struct_callback_head,
     Mem ''wq'' (CPtr ''struct workqueue_struct'')]"

definition struct_cgroup_subsys_state :: ctyp where
  "struct_cgroup_subsys_state =
    CStruct False [Mem ''cgroup'' (CPtr ''struct cgroup''),
     Mem ''ss'' (CPtr ''struct cgroup_subsys''), Mem ''refcnt'' struct_percpu_ref,
     Mem ''sibling'' struct_list_head, Mem ''children'' struct_list_head,
     Mem ''rstat_css_node'' struct_list_head, Mem ''id'' c_int, Mem ''flags'' c_uint,
     Mem ''serial_nr'' typedef_u64, Mem ''online_cnt'' typedef_atomic_t,
     Mem ''destroy_work'' struct_work_struct, Mem ''destroy_rwork'' struct_rcu_work,
     Mem ''parent'' (CPtr ''struct cgroup_subsys_state'')]"

definition struct_cgroup_file :: ctyp where
  "struct_cgroup_file =
    CStruct False [Mem ''kn'' (CPtr ''struct kernfs_node''), Mem ''notified_at'' c_ulong,
     Mem ''notify_timer'' struct_timer_list]"

definition struct_task_cputime :: ctyp where
  "struct_task_cputime =
    CStruct False [Mem ''stime'' typedef_u64, Mem ''utime'' typedef_u64,
     Mem ''sum_exec_runtime'' c_ullong]"

definition struct_cgroup_base_stat :: ctyp where
  "struct_cgroup_base_stat = CStruct False [Mem ''cputime'' struct_task_cputime]"

definition struct_psi_group :: ctyp where
  "struct_psi_group =
    CStruct False [Mem ''avgs_lock'' struct_mutex, Mem ''pcpu'' (CPtr ''struct psi_group_cpu''),
     Mem ''avg_total'' (CArr typedef_u64 5), Mem ''avg_last_update'' typedef_u64,
     Mem ''avg_next_update'' typedef_u64, Mem ''avgs_work'' struct_delayed_work,
     Mem ''total'' (CArr typedef_u64 10), Mem ''avg'' (CArr c_ulong 15),
     Mem ''poll_task'' (CPtr ''struct task_struct''), Mem ''poll_timer'' struct_timer_list,
     Mem ''poll_wait'' typedef_wait_queue_head_t, Mem ''poll_wakeup'' typedef_atomic_t,
     Mem ''poll_scheduled'' typedef_atomic_t, Mem ''trigger_lock'' struct_mutex,
     Mem ''triggers'' struct_list_head, Mem ''nr_triggers'' (CArr typedef_u32 5),
     Mem ''poll_states'' typedef_u32, Mem ''poll_min_period'' typedef_u64,
     Mem ''polling_total'' (CArr typedef_u64 5), Mem ''polling_next_update'' typedef_u64,
     Mem ''polling_until'' typedef_u64]"

definition struct_cgroup_bpf :: ctyp where
  "struct_cgroup_bpf =
    CStruct False [Mem ''effective'' (CArr (CPtr ''struct bpf_prog_array'') 38),
     Mem ''progs'' (CArr struct_list_head 38), Mem ''flags'' (CArr typedef_u32 38),
     Mem ''storages'' struct_list_head, Mem ''inactive'' (CPtr ''struct bpf_prog_array''),
     Mem ''refcnt'' struct_percpu_ref, Mem ''release_work'' struct_work_struct]"

definition struct_cgroup_freezer_state :: ctyp where
  "struct_cgroup_freezer_state =
    CStruct False [Mem ''freeze'' typedef_bool, Mem ''e_freeze'' c_int,
     Mem ''nr_frozen_descendants'' c_int, Mem ''nr_frozen_tasks'' c_int]"

definition struct_cgroup :: ctyp where
  "struct_cgroup =
    CStruct False [Mem ''self'' struct_cgroup_subsys_state, Mem ''flags'' c_ulong,
     Mem ''level'' c_int, Mem ''max_depth'' c_int, Mem ''nr_descendants'' c_int,
     Mem ''nr_dying_descendants'' c_int, Mem ''max_descendants'' c_int,
     Mem ''nr_populated_csets'' c_int, Mem ''nr_populated_domain_children'' c_int,
     Mem ''nr_populated_threaded_children'' c_int, Mem ''nr_threaded_children'' c_int,
     Mem ''kn'' (CPtr ''struct kernfs_node''), Mem ''procs_file'' struct_cgroup_file,
     Mem ''events_file'' struct_cgroup_file, Mem ''subtree_control'' typedef_u16,
     Mem ''subtree_ss_mask'' typedef_u16, Mem ''old_subtree_control'' typedef_u16,
     Mem ''old_subtree_ss_mask'' typedef_u16,
     Mem ''subsys'' (CArr (CPtr ''struct cgroup_subsys_state'') 7),
     Mem ''root'' (CPtr ''struct cgroup_root''), Mem ''cset_links'' struct_list_head,
     Mem ''e_csets'' (CArr struct_list_head 7), Mem ''dom_cgrp'' (CPtr ''struct cgroup''),
     Mem ''old_dom_cgrp'' (CPtr ''struct cgroup''),
     Mem ''rstat_cpu'' (CPtr ''struct cgroup_rstat_cpu''),
     Mem ''rstat_css_list'' struct_list_head, Mem ''last_bstat'' struct_cgroup_base_stat,
     Mem ''bstat'' struct_cgroup_base_stat, Mem ''prev_cputime'' struct_prev_cputime,
     Mem ''pidlists'' struct_list_head, Mem ''pidlist_mutex'' struct_mutex,
     Mem ''offline_waitq'' typedef_wait_queue_head_t,
     Mem ''release_agent_work'' struct_work_struct, Mem ''psi'' struct_psi_group,
     Mem ''bpf'' struct_cgroup_bpf, Mem ''congestion_count'' typedef_atomic_t,
     Mem ''freezer'' struct_cgroup_freezer_state, Mem ''ancestor_ids'' (CArr typedef_u64 0)]"

definition struct_mem_cgroup_id :: ctyp where
  "struct_mem_cgroup_id =
    CStruct False [Mem ''id'' c_int, Mem ''ref'' typedef_refcount_t]"

definition struct_page_counter :: ctyp where
  "struct_page_counter =
    CStruct False [Mem ''usage'' typedef_atomic_long_t, Mem ''min'' c_ulong, Mem ''low'' c_ulong,
     Mem ''high'' c_ulong, Mem ''max'' c_ulong, Mem ''parent'' (CPtr ''struct page_counter''),
     Mem ''emin'' c_ulong, Mem ''min_usage'' typedef_atomic_long_t,
     Mem ''children_min_usage'' typedef_atomic_long_t, Mem ''elow'' c_ulong,
     Mem ''low_usage'' typedef_atomic_long_t, Mem ''children_low_usage'' typedef_atomic_long_t,
     Mem ''watermark'' c_ulong, Mem ''failcnt'' c_ulong]"

definition struct_vmpressure :: ctyp where
  "struct_vmpressure =
    CStruct False [Mem ''scanned'' c_ulong, Mem ''reclaimed'' c_ulong,
     Mem ''tree_scanned'' c_ulong, Mem ''tree_reclaimed'' c_ulong,
     Mem ''sr_lock'' typedef_spinlock_t, Mem ''events'' struct_list_head,
     Mem ''events_lock'' struct_mutex, Mem ''work'' struct_work_struct]"

definition struct_mem_cgroup_thresholds :: ctyp where
  "struct_mem_cgroup_thresholds =
    CStruct False [Mem ''primary'' (CPtr ''struct mem_cgroup_threshold_ary''),
     Mem ''spare'' (CPtr ''struct mem_cgroup_threshold_ary'')]"

definition struct_memcg_padding :: ctyp where
  "struct_memcg_padding = CStruct False [Mem ''x'' (CArr c_char 0)]"

definition enum_memcg_kmem_state :: "(string \<times> int) list" where
  "enum_memcg_kmem_state =
    [(''KMEM_NONE'', 0), (''KMEM_ALLOCATED'', 1), (''KMEM_ONLINE'', 2)]"

definition struct_percpu_counter :: ctyp where
  "struct_percpu_counter =
    CStruct False [Mem ''lock'' typedef_raw_spinlock_t, Mem ''count'' typedef_s64,
     Mem ''list'' struct_list_head, Mem ''counters'' (CPtr ''s32'')]"

definition struct_fprop_global :: ctyp where
  "struct_fprop_global =
    CStruct False [Mem ''events'' struct_percpu_counter, Mem ''period'' c_uint,
     Mem ''sequence'' typedef_seqcount_t]"

definition struct_wb_domain :: ctyp where
  "struct_wb_domain =
    CStruct False [Mem ''lock'' typedef_spinlock_t, Mem ''completions'' struct_fprop_global,
     Mem ''period_timer'' struct_timer_list, Mem ''period_time'' c_ulong,
     Mem ''dirty_limit_tstamp'' c_ulong, Mem ''dirty_limit'' c_ulong]"

definition struct_wb_completion :: ctyp where
  "struct_wb_completion =
    CStruct False [Mem ''cnt'' typedef_atomic_t, Mem ''waitq'' (CPtr ''wait_queue_head_t'')]"

definition struct_memcg_cgwb_frn :: ctyp where
  "struct_memcg_cgwb_frn =
    CStruct False [Mem ''bdi_id'' typedef_u64, Mem ''memcg_id'' c_int, Mem ''at'' typedef_u64,
     Mem ''done'' struct_wb_completion]"

definition struct_deferred_split :: ctyp where
  "struct_deferred_split =
    CStruct False [Mem ''split_queue_lock'' typedef_spinlock_t,
     Mem ''split_queue'' struct_list_head, Mem ''split_queue_len'' c_ulong]"

definition struct_lru_gen_mm_list :: ctyp where
  "struct_lru_gen_mm_list =
    CStruct False [Mem ''fifo'' struct_list_head, Mem ''lock'' typedef_spinlock_t]"

definition struct_mem_cgroup :: ctyp where
  "struct_mem_cgroup =
    CStruct False ([Mem ''css'' struct_cgroup_subsys_state, Mem ''id'' struct_mem_cgroup_id,
     Mem ''memory'' struct_page_counter, Mem '''' (CUnion False [Mem ''swap'' struct_page_counter,
     Mem ''memsw'' struct_page_counter]), Mem ''kmem'' struct_page_counter,
     Mem ''tcpmem'' struct_page_counter, Mem ''high_work'' struct_work_struct,
     Mem ''soft_limit'' c_ulong, Mem ''vmpressure'' struct_vmpressure,
     Mem ''use_hierarchy'' typedef_bool, Mem ''oom_group'' typedef_bool,
     Mem ''oom_lock'' typedef_bool, Mem ''under_oom'' c_int, Mem ''swappiness'' c_int,
     Mem ''oom_kill_disable'' c_int, Mem ''events_file'' struct_cgroup_file,
     Mem ''events_local_file'' struct_cgroup_file, Mem ''swap_events_file'' struct_cgroup_file,
     Mem ''thresholds_lock'' struct_mutex, Mem ''thresholds'' struct_mem_cgroup_thresholds,
     Mem ''memsw_thresholds'' struct_mem_cgroup_thresholds, Mem ''oom_notify'' struct_list_head,
     Mem ''move_charge_at_immigrate'' c_ulong, Mem ''move_lock'' typedef_spinlock_t,
     Mem ''move_lock_flags'' c_ulong] @ gaps 4 @ [Mem ''_pad1_'' struct_memcg_padding,
     Mem ''vmstats'' (CArr typedef_atomic_long_t 41),
     Mem ''vmevents'' (CArr typedef_atomic_long_t 88),
     Mem ''memory_events'' (CArr typedef_atomic_long_t 8),
     Mem ''memory_events_local'' (CArr typedef_atomic_long_t 8), Mem ''socket_pressure'' c_ulong,
     Mem ''tcpmem_active'' typedef_bool, Mem ''tcpmem_pressure'' c_int, Mem ''kmemcg_id'' c_int,
     Mem ''kmem_state'' (CEnum enum_memcg_kmem_state), Mem ''objcg'' (CPtr ''struct obj_cgroup''),
     Mem ''objcg_list'' struct_list_head, gap 64, Mem ''_pad2_'' struct_memcg_padding,
     Mem ''moving_account'' typedef_atomic_t,
     Mem ''move_lock_task'' (CPtr ''struct task_struct''),
     Mem ''vmstats_local'' (CPtr ''struct memcg_vmstats_percpu''),
     Mem ''vmstats_percpu'' (CPtr ''struct memcg_vmstats_percpu''),
     Mem ''cgwb_list'' struct_list_head, Mem ''cgwb_domain'' struct_wb_domain,
     Mem ''cgwb_frn'' (CArr struct_memcg_cgwb_frn 4), Mem ''event_list'' struct_list_head,
     Mem ''event_list_lock'' typedef_spinlock_t,
     Mem ''deferred_split_queue'' struct_deferred_split, Mem ''mm_list'' struct_lru_gen_mm_list,
     Mem ''android_oem_data1'' typedef_u64,
     Mem ''nodeinfo'' (CArr (CPtr ''struct mem_cgroup_per_node'') 0), gap 64, gap 64])"

definition struct_pmu :: ctyp where
  "struct_pmu =
    CStruct False [Mem ''entry'' struct_list_head, Mem ''module'' (CPtr ''struct module''),
     Mem ''dev'' (CPtr ''struct device''),
     Mem ''attr_groups'' (CPtr ''const struct attribute_group *''),
     Mem ''attr_update'' (CPtr ''const struct attribute_group *''),
     Mem ''name'' (CPtr ''const char''), Mem ''type'' c_int, Mem ''capabilities'' c_int,
     Mem ''pmu_disable_count'' (CPtr ''int''),
     Mem ''pmu_cpu_context'' (CPtr ''struct perf_cpu_context''),
     Mem ''exclusive_cnt'' typedef_atomic_t, Mem ''task_ctx_nr'' c_int,
     Mem ''hrtimer_interval_ms'' c_int, Mem ''nr_addr_filters'' c_uint, Mem ''pmu_enable'' CFn,
     Mem ''pmu_disable'' CFn, Mem ''event_init'' CFn, Mem ''event_mapped'' CFn,
     Mem ''event_unmapped'' CFn, Mem ''add'' CFn, Mem ''del'' CFn, Mem ''start'' CFn,
     Mem ''stop'' CFn, Mem ''read'' CFn, Mem ''start_txn'' CFn, Mem ''commit_txn'' CFn,
     Mem ''cancel_txn'' CFn, Mem ''event_idx'' CFn, Mem ''sched_task'' CFn,
     Mem ''task_ctx_cache'' (CPtr ''struct kmem_cache''), Mem ''swap_task_ctx'' CFn,
     Mem ''setup_aux'' CFn, Mem ''free_aux'' CFn, Mem ''snapshot_aux'' CFn,
     Mem ''addr_filters_validate'' CFn, Mem ''addr_filters_sync'' CFn,
     Mem ''aux_output_match'' CFn, Mem ''filter_match'' CFn, Mem ''check_period'' CFn]"

definition struct_static_key :: ctyp where
  "struct_static_key =
    CStruct False [Mem ''enabled'' typedef_atomic_t, Mem ''''
     (CUnion False [Mem ''type'' c_ulong, Mem ''entries'' (CPtr ''struct jump_entry''),
     Mem ''next'' (CPtr ''struct static_key_mod'')])]"

definition struct_tracepoint :: ctyp where
  "struct_tracepoint =
    CStruct False [Mem ''name'' (CPtr ''const char''), Mem ''key'' struct_static_key,
     Mem ''static_call_key'' (CPtr ''struct static_call_key''),
     Mem ''static_call_tramp'' (CPtr ''void''), Mem ''iterator'' (CPtr ''void''),
     Mem ''regfunc'' CFn, Mem ''unregfunc'' CFn, Mem ''funcs'' (CPtr ''struct tracepoint_func'')]"

definition struct_array_buffer :: ctyp where
  "struct_array_buffer =
    CStruct False [Mem ''tr'' (CPtr ''struct trace_array''),
     Mem ''buffer'' (CPtr ''struct trace_buffer''),
     Mem ''data'' (CPtr ''struct trace_array_cpu''), Mem ''time_start'' typedef_u64,
     Mem ''cpu'' c_int]"

definition typedef_cpumask_var_t :: ctyp where
  "typedef_cpumask_var_t = CArr struct_cpumask 1"

definition struct_trace_array :: ctyp where
  "struct_trace_array =
    CStruct False [Mem ''list'' struct_list_head, Mem ''name'' (CPtr ''char''),
     Mem ''array_buffer'' struct_array_buffer,
     Mem ''filtered_pids'' (CPtr ''struct trace_pid_list''),
     Mem ''filtered_no_pids'' (CPtr ''struct trace_pid_list''),
     Mem ''max_lock'' typedef_arch_spinlock_t, Mem ''buffer_disabled'' c_int,
     Mem ''stop_count'' c_int, Mem ''clock_id'' c_int, Mem ''nr_topts'' c_int,
     Mem ''clear_trace'' typedef_bool, Mem ''buffer_percent'' c_int,
     Mem ''n_err_log_entries'' c_uint, Mem ''current_trace'' (CPtr ''struct tracer''),
     Mem ''trace_flags'' c_uint, Mem ''trace_flags_index'' (CArr c_uchar 32),
     Mem ''flags'' c_uint, Mem ''start_lock'' typedef_raw_spinlock_t,
     Mem ''err_log'' struct_list_head, Mem ''dir'' (CPtr ''struct dentry''),
     Mem ''options'' (CPtr ''struct dentry''), Mem ''percpu_dir'' (CPtr ''struct dentry''),
     Mem ''event_dir'' (CPtr ''struct dentry''), Mem ''topts'' (CPtr ''struct trace_options''),
     Mem ''systems'' struct_list_head, Mem ''events'' struct_list_head,
     Mem ''trace_marker_file'' (CPtr ''struct trace_event_file''),
     Mem ''tracing_cpumask'' typedef_cpumask_var_t, Mem ''ref'' c_int, Mem ''trace_ref'' c_int,
     Mem ''time_stamp_abs_ref'' c_int, Mem ''hist_vars'' struct_list_head]"

definition struct_seq_buf :: ctyp where
  "struct_seq_buf =
    CStruct False [Mem ''buffer'' (CPtr ''char''), Mem ''size'' typedef_size_t,
     Mem ''len'' typedef_size_t, Mem ''readpos'' typedef_loff_t]"

definition struct_trace_seq :: ctyp where
  "struct_trace_seq =
    CStruct False [Mem ''buffer'' (CArr c_char 4096), Mem ''seq'' struct_seq_buf,
     Mem ''full'' c_int]"

definition struct_trace_iterator :: ctyp where
  "struct_trace_iterator =
    CStruct False [Mem ''tr'' (CPtr ''struct trace_array''),
     Mem ''trace'' (CPtr ''struct tracer''), Mem ''array_buffer'' (CPtr ''struct array_buffer''),
     Mem ''private'' (CPtr ''void''), Mem ''cpu_file'' c_int, Mem ''mutex'' struct_mutex,
     Mem ''buffer_iter'' (CPtr ''struct ring_buffer_iter *''), Mem ''iter_flags'' c_ulong,
     Mem ''temp'' (CPtr ''void''), Mem ''temp_size'' c_uint, Mem ''tmp_seq'' struct_trace_seq,
     Mem ''started'' typedef_cpumask_var_t, Mem ''snapshot'' typedef_bool,
     Mem ''seq'' struct_trace_seq, Mem ''ent'' (CPtr ''struct trace_entry''),
     Mem ''lost_events'' c_ulong, Mem ''leftover'' c_int, Mem ''ent_size'' c_int,
     Mem ''cpu'' c_int, Mem ''ts'' typedef_u64, Mem ''pos'' typedef_loff_t, Mem ''idx'' c_long]"

definition struct_tracer :: ctyp where
  "struct_tracer =
    CStruct False [Mem ''name'' (CPtr ''const char''), Mem ''init'' CFn, Mem ''reset'' CFn,
     Mem ''start'' CFn, Mem ''stop'' CFn, Mem ''update_thresh'' CFn, Mem ''open'' CFn,
     Mem ''pipe_open'' CFn, Mem ''close'' CFn, Mem ''pipe_close'' CFn, Mem ''read'' CFn,
     Mem ''splice_read'' CFn, Mem ''print_header'' CFn, Mem ''print_line'' CFn,
     Mem ''set_flag'' CFn, Mem ''flag_changed'' CFn, Mem ''next'' (CPtr ''struct tracer''),
     Mem ''flags'' (CPtr ''struct tracer_flags''), Mem ''enabled'' c_int,
     Mem ''print_max'' typedef_bool, Mem ''allow_instances'' typedef_bool,
     Mem ''noboot'' typedef_bool]"

lemmas kernelProcess_types =
  typedef_fmode_t_def struct_fown_struct_def struct_file_ra_state_def typedef_errseq_t_def
  struct_file_def typedef___kernel_dev_t_def typedef_dev_t_def typedef_time64_t_def
  struct_timespec64_def typedef_blkcnt_t_def struct_xarray_def struct_address_space_def
  struct_inode_def struct_hlist_bl_node_def struct_qstr_def struct_lockref_def struct_dentry_def
  struct_hlist_bl_head_def typedef_qsize_t_def struct_mem_dqinfo_def struct_quota_info_def
  struct_rcu_sync_def struct_rcuwait_def struct_percpu_rw_semaphore_def struct_sb_writers_def
  typedef_uuid_t_def struct_shrinker_def struct_list_lru_def struct_super_block_def
  typedef_pgtable_t_def struct_page_def struct_vfsmount_def struct_fdtable_def
  struct_files_struct_def struct_fs_struct_def struct_nsproxy_def struct_uid_gid_extent_def
  struct_uid_gid_map_def struct_ns_common_def struct_ctl_table_header_def struct_ctl_dir_def
  struct_ctl_table_set_def struct_user_namespace_def struct_idr_def struct_pid_namespace_def
  typedef___sighandler_t_def typedef___sigrestore_t_def struct_sigaction_def
  struct_k_sigaction_def struct_sighand_struct_def typedef___kernel_timer_t_def union_sigval_def
  typedef_sigval_t_def typedef___kernel_clock_t_def union___sifields_def struct_kernel_siginfo_def
  struct_linux_binprm_def struct_seq_file_def struct_file_operations_def
  struct_inode_operations_def struct_vm_operations_struct_def typedef_Elf64_Half_def
  typedef_Elf64_Word_def typedef_Elf64_Addr_def typedef_Elf64_Off_def struct_elf64_hdr_def
  typedef_Elf64_Xword_def struct_elf64_shdr_def struct_elf64_sym_def struct_elf_siginfo_def
  struct___kernel_old_timeval_def typedef_elf_greg_t_def typedef_elf_gregset_t_def
  struct_elf_prstatus_def struct_seccomp_data_def struct_sched_class_def struct_cfs_rq_def
  typedef_smp_call_func_t_def struct___call_single_data_def typedef_call_single_data_t_def
  struct_uclamp_bucket_def struct_uclamp_rq_def struct_rt_prio_array_def struct_plist_head_def
  struct_rt_rq_def struct_dl_rq_def typedef_cpu_stop_fn_t_def struct_cpu_stop_work_def
  struct_cpu_stop_done_def struct_rq_def struct_rcu_work_def struct_cgroup_subsys_state_def
  struct_cgroup_file_def struct_task_cputime_def struct_cgroup_base_stat_def struct_psi_group_def
  struct_cgroup_bpf_def struct_cgroup_freezer_state_def struct_cgroup_def struct_mem_cgroup_id_def
  struct_page_counter_def struct_vmpressure_def struct_mem_cgroup_thresholds_def
  struct_memcg_padding_def struct_percpu_counter_def struct_fprop_global_def struct_wb_domain_def
  struct_wb_completion_def struct_memcg_cgwb_frn_def struct_deferred_split_def
  struct_lru_gen_mm_list_def struct_mem_cgroup_def struct_pmu_def struct_static_key_def
  struct_tracepoint_def struct_array_buffer_def typedef_cpumask_var_t_def struct_trace_array_def
  struct_seq_buf_def struct_trace_seq_def struct_trace_iterator_def struct_tracer_def

end
