(* ===== verification/KernelContexts.thy ===== *)
theory KernelContexts
  imports KernelProcess
begin

text \<open>
  The remaining types of the BPF machinery in \<^verbatim>\<open>vmlinux.h\<close>, with the types they
  contain by value: the contexts that programs attached to sockets, packets, cgroups and iterators
  receive, and the maps of sockets, devices and prefixes.
\<close>

section \<open>Contexts of the other programs\<close>

definition struct_bpf_storage_buffer :: ctyp where
  "struct_bpf_storage_buffer =
    CStruct False [Mem ''rcu'' struct_callback_head, Mem ''data'' (CArr c_char 0)]"

definition struct_bpf_xdp_entity :: ctyp where
  "struct_bpf_xdp_entity =
    CStruct False [Mem ''prog'' (CPtr ''struct bpf_prog''),
     Mem ''link'' (CPtr ''struct bpf_xdp_link'')]"

definition struct_bpf_map_dev_ops :: ctyp where
  "struct_bpf_map_dev_ops =
    CStruct False [Mem ''map_get_next_key'' CFn, Mem ''map_lookup_elem'' CFn,
     Mem ''map_update_elem'' CFn, Mem ''map_delete_elem'' CFn,
     Mem ''android_kabi_reserved1'' typedef_u64]"

definition struct_xdp_mem_info :: ctyp where
  "struct_xdp_mem_info =
    CStruct False [Mem ''type'' typedef_u32, Mem ''id'' typedef_u32]"

definition struct_xdp_frame :: ctyp where
  "struct_xdp_frame =
    CStruct False [Mem ''data'' (CPtr ''void''), Mem ''len'' typedef_u16,
     Mem ''headroom'' typedef_u16, Bits ''metasize'' typedef_u32 8,
     Bits ''frame_sz'' typedef_u32 24, Mem ''mem'' struct_xdp_mem_info,
     Mem ''dev_rx'' (CPtr ''struct net_device'')]"

definition struct_xdp_rxq_info :: ctyp where
  "struct_xdp_rxq_info =
    CStruct False ([Mem ''dev'' (CPtr ''struct net_device''), Mem ''queue_index'' typedef_u32,
     Mem ''reg_state'' typedef_u32, Mem ''mem'' struct_xdp_mem_info] @ gaps 5)"

definition struct_bpf_line_info :: ctyp where
  "struct_bpf_line_info =
    CStruct False [Mem ''insn_off'' typedef___u32, Mem ''file_name_off'' typedef___u32,
     Mem ''line_off'' typedef___u32, Mem ''line_col'' typedef___u32]"

definition struct_bpf_nested_pt_regs :: ctyp where
  "struct_bpf_nested_pt_regs = CStruct False [Mem ''regs'' (CArr struct_pt_regs 3)]"

definition struct_xdp_cpumap_stats :: ctyp where
  "struct_xdp_cpumap_stats =
    CStruct False [Mem ''redirect'' c_uint, Mem ''pass'' c_uint, Mem ''drop'' c_uint]"

definition struct_xdp_mem_allocator :: ctyp where
  "struct_xdp_mem_allocator =
    CStruct False [Mem ''mem'' struct_xdp_mem_info, Mem ''''
     (CUnion False [Mem ''allocator'' (CPtr ''void''),
     Mem ''page_pool'' (CPtr ''struct page_pool''),
     Mem ''zc_alloc'' (CPtr ''struct zero_copy_allocator'')]), Mem ''node'' struct_rhash_head,
     Mem ''rcu'' struct_callback_head]"

definition enum_xdp_action :: "(string \<times> int) list" where
  "enum_xdp_action =
    [(''XDP_ABORTED'', 0), (''XDP_DROP'', 1), (''XDP_PASS'', 2), (''XDP_TX'', 3),
     (''XDP_REDIRECT'', 4)]"

definition struct_bpf_spin_lock :: ctyp where
  "struct_bpf_spin_lock = CStruct False [Mem ''val'' typedef___u32]"

definition struct_bpf_tracing_link :: ctyp where
  "struct_bpf_tracing_link =
    CStruct False [Mem ''link'' struct_bpf_link,
     Mem ''attach_type'' (CEnum enum_bpf_attach_type),
     Mem ''trampoline'' (CPtr ''struct bpf_trampoline''),
     Mem ''tgt_prog'' (CPtr ''struct bpf_prog'')]"

definition struct_bpf_attach_target_info :: ctyp where
  "struct_bpf_attach_target_info =
    CStruct False [Mem ''fmodel'' struct_btf_func_model, Mem ''tgt_addr'' c_long,
     Mem ''tgt_name'' (CPtr ''const char''), Mem ''tgt_type'' (CPtr ''const struct btf_type'')]"

definition struct_bpf_reference_state :: ctyp where
  "struct_bpf_reference_state = CStruct False [Mem ''id'' c_int, Mem ''insn_idx'' c_int]"

definition struct_bpf_call_arg_meta :: ctyp where
  "struct_bpf_call_arg_meta =
    CStruct False [Mem ''map_ptr'' (CPtr ''struct bpf_map''), Mem ''raw_mode'' typedef_bool,
     Mem ''pkt_access'' typedef_bool, Mem ''regno'' c_int, Mem ''access_size'' c_int,
     Mem ''mem_size'' c_int, Mem ''msize_max_value'' typedef_u64, Mem ''ref_obj_id'' c_int,
     Mem ''func_id'' c_int, Mem ''btf_id'' typedef_u32, Mem ''ret_btf_id'' typedef_u32]"

definition struct_bpf_sanitize_info :: ctyp where
  "struct_bpf_sanitize_info =
    CStruct False [Mem ''aux'' struct_bpf_insn_aux_data, Mem ''mask_to_left'' typedef_bool]"

definition struct_umd_info :: ctyp where
  "struct_umd_info =
    CStruct False [Mem ''driver_name'' (CPtr ''const char''),
     Mem ''pipe_to_umh'' (CPtr ''struct file''), Mem ''pipe_from_umh'' (CPtr ''struct file''),
     Mem ''wd'' struct_path, Mem ''tgid'' (CPtr ''struct pid'')]"

definition struct_bpf_preload_ops :: ctyp where
  "struct_bpf_preload_ops =
    CStruct False [Mem ''info'' struct_umd_info, Mem ''preload'' CFn, Mem ''finish'' CFn,
     Mem ''owner'' (CPtr ''struct module'')]"

definition struct_bpf_preload_info :: ctyp where
  "struct_bpf_preload_info =
    CStruct False [Mem ''link_name'' (CArr c_char 16), Mem ''link_id'' c_int]"

definition struct_bpf_mount_opts :: ctyp where
  "struct_bpf_mount_opts = CStruct False [Mem ''mode'' typedef_umode_t]"

definition union_bpf_iter_link_info :: ctyp where
  "union_bpf_iter_link_info =
    CUnion False [Mem ''map'' (CStruct False [Mem ''map_fd'' typedef___u32])]"

definition struct_bpf_lpm_trie_key :: ctyp where
  "struct_bpf_lpm_trie_key =
    CStruct False [Mem ''prefixlen'' typedef___u32, Mem ''data'' (CArr typedef___u8 0)]"

definition struct_bpf_queue_stack :: ctyp where
  "struct_bpf_queue_stack =
    CStruct False ([Mem ''map'' struct_bpf_map, Mem ''lock'' typedef_raw_spinlock_t,
     Mem ''head'' typedef_u32, Mem ''tail'' typedef_u32, Mem ''size'' typedef_u32,
     Mem ''elements'' (CArr c_char 0)] @ gaps 6)"

definition struct_bpf_flow_keys :: ctyp where
  "struct_bpf_flow_keys =
    CStruct False [Mem ''nhoff'' typedef___u16, Mem ''thoff'' typedef___u16,
     Mem ''addr_proto'' typedef___u16, Mem ''is_frag'' typedef___u8,
     Mem ''is_first_frag'' typedef___u8, Mem ''is_encap'' typedef___u8,
     Mem ''ip_proto'' typedef___u8, Mem ''n_proto'' typedef___be16, Mem ''sport'' typedef___be16,
     Mem ''dport'' typedef___be16, Mem '''' (CUnion False [Mem ''''
     (CStruct False [Mem ''ipv4_src'' typedef___be32, Mem ''ipv4_dst'' typedef___be32]), Mem ''''
     (CStruct False [Mem ''ipv6_src'' (CArr typedef___u32 4),
     Mem ''ipv6_dst'' (CArr typedef___u32 4)])]), Mem ''flags'' typedef___u32,
     Mem ''flow_label'' typedef___be32]"

definition struct_xdp_txq_info :: ctyp where
  "struct_xdp_txq_info = CStruct False [Mem ''dev'' (CPtr ''struct net_device'')]"

definition struct_xdp_dev_bulk_queue :: ctyp where
  "struct_xdp_dev_bulk_queue =
    CStruct False [Mem ''q'' (CArr (CPtr ''struct xdp_frame'') 16),
     Mem ''flush_node'' struct_list_head, Mem ''dev'' (CPtr ''struct net_device''),
     Mem ''dev_rx'' (CPtr ''struct net_device''), Mem ''count'' c_uint]"

definition enum_xdp_mem_type :: "(string \<times> int) list" where
  "enum_xdp_mem_type =
    [(''MEM_TYPE_PAGE_SHARED'', 0), (''MEM_TYPE_PAGE_ORDER0'', 1), (''MEM_TYPE_PAGE_POOL'', 2),
     (''MEM_TYPE_XSK_BUFF_POOL'', 3), (''MEM_TYPE_MAX'', 4)]"

definition struct_bpf_dtab :: ctyp where
  "struct_bpf_dtab =
    CStruct False [Mem ''map'' struct_bpf_map,
     Mem ''netdev_map'' (CPtr ''struct bpf_dtab_netdev *''), Mem ''list'' struct_list_head,
     Mem ''dev_index_head'' (CPtr ''struct hlist_head''), Mem ''index_lock'' typedef_spinlock_t,
     Mem ''items'' c_uint, Mem ''n_buckets'' typedef_u32, gap 64, gap 64]"

definition struct_bpf_devmap_val :: ctyp where
  "struct_bpf_devmap_val =
    CStruct False [Mem ''ifindex'' typedef___u32, Mem ''bpf_prog''
     (CUnion False [Mem ''fd'' c_int, Mem ''id'' typedef___u32])]"

definition struct_bpf_dtab_netdev :: ctyp where
  "struct_bpf_dtab_netdev =
    CStruct False [Mem ''dev'' (CPtr ''struct net_device''),
     Mem ''index_hlist'' struct_hlist_node, Mem ''dtab'' (CPtr ''struct bpf_dtab''),
     Mem ''xdp_prog'' (CPtr ''struct bpf_prog''), Mem ''rcu'' struct_callback_head,
     Mem ''idx'' c_uint, Mem ''val'' struct_bpf_devmap_val]"

definition struct_bpf_cpu_map :: ctyp where
  "struct_bpf_cpu_map =
    CStruct False ([Mem ''map'' struct_bpf_map,
     Mem ''cpu_map'' (CPtr ''struct bpf_cpu_map_entry *'')] @ gaps 7)"

definition struct_bpf_cpumap_val :: ctyp where
  "struct_bpf_cpumap_val =
    CStruct False [Mem ''qsize'' typedef___u32, Mem ''bpf_prog'' (CUnion False [Mem ''fd'' c_int,
     Mem ''id'' typedef___u32])]"

definition struct_bpf_cpu_map_entry :: ctyp where
  "struct_bpf_cpu_map_entry =
    CStruct False [Mem ''cpu'' typedef_u32, Mem ''map_id'' c_int,
     Mem ''bulkq'' (CPtr ''struct xdp_bulk_queue''), Mem ''cmap'' (CPtr ''struct bpf_cpu_map''),
     Mem ''queue'' (CPtr ''struct ptr_ring''), Mem ''kthread'' (CPtr ''struct task_struct''),
     Mem ''value'' struct_bpf_cpumap_val, Mem ''prog'' (CPtr ''struct bpf_prog''),
     Mem ''refcnt'' typedef_atomic_t, Mem ''rcu'' struct_callback_head,
     Mem ''kthread_stop_wq'' struct_work_struct]"

definition struct_xdp_bulk_queue :: ctyp where
  "struct_xdp_bulk_queue =
    CStruct False [Mem ''q'' (CArr (CPtr ''void'') 8), Mem ''flush_node'' struct_list_head,
     Mem ''obj'' (CPtr ''struct bpf_cpu_map_entry''), Mem ''count'' c_uint]"

definition struct_bpf_nh_params :: ctyp where
  "struct_bpf_nh_params =
    CStruct False [Mem ''nh_family'' typedef_u32, Mem ''''
     (CUnion False [Mem ''ipv4_nh'' typedef_u32, Mem ''ipv6_nh'' struct_in6_addr])]"

definition struct_bpf_redirect_info :: ctyp where
  "struct_bpf_redirect_info =
    CStruct False [Mem ''flags'' typedef_u32, Mem ''tgt_index'' typedef_u32,
     Mem ''tgt_value'' (CPtr ''void''), Mem ''map'' (CPtr ''struct bpf_map''),
     Mem ''kern_flags'' typedef_u32, Mem ''nh'' struct_bpf_nh_params]"

definition struct_bpf_local_storage_map :: ctyp where
  "struct_bpf_local_storage_map =
    CStruct False ([Mem ''map'' struct_bpf_map,
     Mem ''buckets'' (CPtr ''struct bpf_local_storage_map_bucket''),
     Mem ''bucket_log'' typedef_u32, Mem ''elem_size'' typedef_u16, Mem ''cache_idx'' typedef_u16]
     @ gaps 6)"

definition struct_bpf_local_storage_map_bucket :: ctyp where
  "struct_bpf_local_storage_map_bucket =
    CStruct False [Mem ''list'' struct_hlist_head, Mem ''lock'' typedef_raw_spinlock_t]"

definition struct_bpf_local_storage :: ctyp where
  "struct_bpf_local_storage =
    CStruct False [Mem ''cache'' (CArr (CPtr ''struct bpf_local_storage_data'') 16),
     Mem ''list'' struct_hlist_head, Mem ''owner'' (CPtr ''void''),
     Mem ''rcu'' struct_callback_head, Mem ''lock'' typedef_raw_spinlock_t]"

definition struct_bpf_local_storage_data :: ctyp where
  "struct_bpf_local_storage_data =
    CStruct False [Mem ''smap'' (CPtr ''struct bpf_local_storage_map''),
     Mem ''data'' (CArr typedef_u8 0)]"

definition struct_bpf_local_storage_elem :: ctyp where
  "struct_bpf_local_storage_elem =
    CStruct False ([Mem ''map_node'' struct_hlist_node, Mem ''snode'' struct_hlist_node,
     Mem ''local_storage'' (CPtr ''struct bpf_local_storage''), Mem ''rcu'' struct_callback_head,
     gap 64, Mem ''sdata'' struct_bpf_local_storage_data] @ gaps 7)"

definition struct_bpf_local_storage_cache :: ctyp where
  "struct_bpf_local_storage_cache =
    CStruct False [Mem ''idx_lock'' typedef_spinlock_t,
     Mem ''idx_usage_counts'' (CArr typedef_u64 16)]"

definition enum_netns_bpf_attach_type :: "(string \<times> int) list" where
  "enum_netns_bpf_attach_type =
    [(''NETNS_BPF_INVALID'', 4294967295), (''NETNS_BPF_FLOW_DISSECTOR'', 0),
     (''NETNS_BPF_SK_LOOKUP'', 1), (''MAX_NETNS_BPF_ATTACH_TYPE'', 2)]"

definition struct_bpf_netns_link :: ctyp where
  "struct_bpf_netns_link =
    CStruct False [Mem ''link'' struct_bpf_link, Mem ''type'' (CEnum enum_bpf_attach_type),
     Mem ''netns_type'' (CEnum enum_netns_bpf_attach_type), Mem ''net'' (CPtr ''struct net''),
     Mem ''node'' struct_list_head]"

definition struct_qdisc_skb_cb :: ctyp where
  "struct_qdisc_skb_cb =
    CStruct False [Mem '''' (CStruct False [Mem ''pkt_len'' c_uint,
     Mem ''slave_dev_queue_mapping'' typedef_u16, Mem ''tc_classid'' typedef_u16]),
     Mem ''data'' (CArr c_uchar 20), Mem ''mru'' typedef_u16]"

definition struct_bpf_skb_data_end :: ctyp where
  "struct_bpf_skb_data_end =
    CStruct False [Mem ''qdisc_cb'' struct_qdisc_skb_cb, Mem ''data_meta'' (CPtr ''void''),
     Mem ''data_end'' (CPtr ''void'')]"

definition struct_tcp_congestion_ops :: ctyp where
  "struct_tcp_congestion_ops =
    CStruct False [Mem ''list'' struct_list_head, Mem ''key'' typedef_u32,
     Mem ''flags'' typedef_u32, Mem ''init'' CFn, Mem ''release'' CFn, Mem ''ssthresh'' CFn,
     Mem ''cong_avoid'' CFn, Mem ''set_state'' CFn, Mem ''cwnd_event'' CFn,
     Mem ''in_ack_event'' CFn, Mem ''undo_cwnd'' CFn, Mem ''pkts_acked'' CFn,
     Mem ''min_tso_segs'' CFn, Mem ''sndbuf_expand'' CFn, Mem ''cong_control'' CFn,
     Mem ''get_info'' CFn, Mem ''name'' (CArr c_char 16), Mem ''owner'' (CPtr ''struct module'')]"

definition struct_bpf_struct_ops_tcp_congestion_ops :: ctyp where
  "struct_bpf_struct_ops_tcp_congestion_ops =
    CStruct False ([Mem ''refcnt'' typedef_refcount_t,
     Mem ''state'' (CEnum enum_bpf_struct_ops_state)] @ gaps 7 @
     [Mem ''data'' struct_tcp_congestion_ops] @ gaps 5)"

definition struct_bpf_struct_ops_value :: ctyp where
  "struct_bpf_struct_ops_value =
    CStruct False ([Mem ''refcnt'' typedef_refcount_t,
     Mem ''state'' (CEnum enum_bpf_struct_ops_state)] @ gaps 7 @ [Mem ''data'' (CArr c_char 0)])"

definition struct_bpf_struct_ops_map :: ctyp where
  "struct_bpf_struct_ops_map =
    CStruct False ([Mem ''map'' struct_bpf_map,
     Mem ''st_ops'' (CPtr ''const struct bpf_struct_ops''), Mem ''lock'' struct_mutex,
     Mem ''progs'' (CPtr ''struct bpf_prog *''), Mem ''image'' (CPtr ''void''),
     Mem ''uvalue'' (CPtr ''struct bpf_struct_ops_value'')] @ gaps 6 @
     [Mem ''kvalue'' struct_bpf_struct_ops_value])"

definition struct_bpf_security_struct :: ctyp where
  "struct_bpf_security_struct = CStruct False [Mem ''sid'' typedef_u32]"

definition struct_bpf_xdp_link :: ctyp where
  "struct_bpf_xdp_link =
    CStruct False [Mem ''link'' struct_bpf_link, Mem ''dev'' (CPtr ''struct net_device''),
     Mem ''flags'' c_int]"

definition struct_bpf_scratchpad :: ctyp where
  "struct_bpf_scratchpad =
    CStruct False [Mem '''' (CUnion False [Mem ''diff'' (CArr typedef___be32 128),
     Mem ''buff'' (CArr typedef_u8 512)])]"

definition struct_xdp_umem :: ctyp where
  "struct_xdp_umem =
    CStruct False [Mem ''addrs'' (CPtr ''void''), Mem ''size'' typedef_u64,
     Mem ''headroom'' typedef_u32, Mem ''chunk_size'' typedef_u32, Mem ''chunks'' typedef_u32,
     Mem ''npgs'' typedef_u32, Mem ''user'' (CPtr ''struct user_struct''),
     Mem ''users'' typedef_refcount_t, Mem ''flags'' typedef_u8, Mem ''zc'' typedef_bool,
     Mem ''pgs'' (CPtr ''struct page *''), Mem ''id'' c_int,
     Mem ''xsk_dma_list'' struct_list_head, Mem ''work'' struct_work_struct]"

definition struct_bpf_redir_neigh :: ctyp where
  "struct_bpf_redir_neigh =
    CStruct False [Mem ''nh_family'' typedef___u32, Mem ''''
     (CUnion False [Mem ''ipv4_nh'' typedef___be32, Mem ''ipv6_nh'' (CArr typedef___u32 4)])]"

definition struct_bpf_tunnel_key :: ctyp where
  "struct_bpf_tunnel_key =
    CStruct False [Mem ''tunnel_id'' typedef___u32, Mem ''''
     (CUnion False [Mem ''remote_ipv4'' typedef___u32,
     Mem ''remote_ipv6'' (CArr typedef___u32 4)]), Mem ''tunnel_tos'' typedef___u8,
     Mem ''tunnel_ttl'' typedef___u8, Mem ''tunnel_ext'' typedef___u16,
     Mem ''tunnel_label'' typedef___u32]"

definition struct_bpf_xfrm_state :: ctyp where
  "struct_bpf_xfrm_state =
    CStruct False [Mem ''reqid'' typedef___u32, Mem ''spi'' typedef___u32,
     Mem ''family'' typedef___u16, Mem ''ext'' typedef___u16, Mem ''''
     (CUnion False [Mem ''remote_ipv4'' typedef___u32,
     Mem ''remote_ipv6'' (CArr typedef___u32 4)])]"

definition struct_bpf_fib_lookup :: ctyp where
  "struct_bpf_fib_lookup =
    CStruct False [Mem ''family'' typedef___u8, Mem ''l4_protocol'' typedef___u8,
     Mem ''sport'' typedef___be16, Mem ''dport'' typedef___be16, Mem ''tot_len'' typedef___u16,
     Mem ''ifindex'' typedef___u32, Mem '''' (CUnion False [Mem ''tos'' typedef___u8,
     Mem ''flowinfo'' typedef___be32, Mem ''rt_metric'' typedef___u32]), Mem ''''
     (CUnion False [Mem ''ipv4_src'' typedef___be32, Mem ''ipv6_src'' (CArr typedef___u32 4)]),
     Mem '''' (CUnion False [Mem ''ipv4_dst'' typedef___be32,
     Mem ''ipv6_dst'' (CArr typedef___u32 4)]), Mem ''h_vlan_proto'' typedef___be16,
     Mem ''h_vlan_TCI'' typedef___be16, Mem ''smac'' (CArr typedef___u8 6),
     Mem ''dmac'' (CArr typedef___u8 6)]"

definition struct_bpf_sock_tuple :: ctyp where
  "struct_bpf_sock_tuple =
    CStruct False [Mem '''' (CUnion False [Mem ''ipv4''
     (CStruct False [Mem ''saddr'' typedef___be32, Mem ''daddr'' typedef___be32,
     Mem ''sport'' typedef___be16, Mem ''dport'' typedef___be16]), Mem ''ipv6''
     (CStruct False [Mem ''saddr'' (CArr typedef___be32 4), Mem ''daddr'' (CArr typedef___be32 4),
     Mem ''sport'' typedef___be16, Mem ''dport'' typedef___be16])])]"

definition struct_xdp_buff_xsk :: ctyp where
  "struct_xdp_buff_xsk =
    CStruct False [Mem ''xdp'' struct_xdp_buff, Mem ''dma'' typedef_dma_addr_t,
     Mem ''frame_dma'' typedef_dma_addr_t, Mem ''pool'' (CPtr ''struct xsk_buff_pool''),
     Mem ''unaligned'' typedef_bool, Mem ''orig_addr'' typedef_u64,
     Mem ''free_list_node'' struct_list_head]"

definition struct_xdp_attachment_info :: ctyp where
  "struct_xdp_attachment_info =
    CStruct False [Mem ''prog'' (CPtr ''struct bpf_prog''), Mem ''flags'' typedef_u32]"

definition struct_bpf_sk_storage_diag :: ctyp where
  "struct_bpf_sk_storage_diag =
    CStruct False [Mem ''nr_maps'' typedef_u32, Mem ''maps'' (CArr (CPtr ''struct bpf_map'') 0)]"

definition struct_bpf_fentry_test_t :: ctyp where
  "struct_bpf_fentry_test_t =
    CStruct False [Mem ''a'' (CPtr ''struct bpf_fentry_test_t'')]"

definition struct_xdp_ring :: ctyp where
  "struct_xdp_ring =
    CStruct False ([Mem ''producer'' typedef_u32] @ gaps 7 @ [Mem ''pad'' typedef_u32] @ gaps 7 @
     [Mem ''consumer'' typedef_u32, Mem ''flags'' typedef_u32] @ gaps 7)"

definition struct_xdp_desc :: ctyp where
  "struct_xdp_desc =
    CStruct False [Mem ''addr'' typedef___u64, Mem ''len'' typedef___u32,
     Mem ''options'' typedef___u32]"

definition struct_xdp_rxtx_ring :: ctyp where
  "struct_xdp_rxtx_ring =
    CStruct False [Mem ''ptrs'' struct_xdp_ring, Mem ''desc'' (CArr struct_xdp_desc 0)]"

definition struct_xdp_umem_ring :: ctyp where
  "struct_xdp_umem_ring =
    CStruct False [Mem ''ptrs'' struct_xdp_ring, Mem ''desc'' (CArr typedef_u64 0)]"

definition struct_xdp_ring_offset_v1 :: ctyp where
  "struct_xdp_ring_offset_v1 =
    CStruct False [Mem ''producer'' typedef___u64, Mem ''consumer'' typedef___u64,
     Mem ''desc'' typedef___u64]"

definition struct_xdp_umem_reg :: ctyp where
  "struct_xdp_umem_reg =
    CStruct False [Mem ''addr'' typedef___u64, Mem ''len'' typedef___u64,
     Mem ''chunk_size'' typedef___u32, Mem ''headroom'' typedef___u32,
     Mem ''flags'' typedef___u32]"

definition struct_xdp_statistics :: ctyp where
  "struct_xdp_statistics =
    CStruct False [Mem ''rx_dropped'' typedef___u64, Mem ''rx_invalid_descs'' typedef___u64,
     Mem ''tx_invalid_descs'' typedef___u64, Mem ''rx_ring_full'' typedef___u64,
     Mem ''rx_fill_ring_empty_descs'' typedef___u64, Mem ''tx_ring_empty_descs'' typedef___u64]"

definition struct_xdp_ring_offset :: ctyp where
  "struct_xdp_ring_offset =
    CStruct False [Mem ''producer'' typedef___u64, Mem ''consumer'' typedef___u64,
     Mem ''desc'' typedef___u64, Mem ''flags'' typedef___u64]"

definition struct_xdp_mmap_offsets :: ctyp where
  "struct_xdp_mmap_offsets =
    CStruct False [Mem ''rx'' struct_xdp_ring_offset, Mem ''tx'' struct_xdp_ring_offset,
     Mem ''fr'' struct_xdp_ring_offset, Mem ''cr'' struct_xdp_ring_offset]"

definition struct_xdp_mmap_offsets_v1 :: ctyp where
  "struct_xdp_mmap_offsets_v1 =
    CStruct False [Mem ''rx'' struct_xdp_ring_offset_v1, Mem ''tx'' struct_xdp_ring_offset_v1,
     Mem ''fr'' struct_xdp_ring_offset_v1, Mem ''cr'' struct_xdp_ring_offset_v1]"

definition struct_xdp_options :: ctyp where
  "struct_xdp_options = CStruct False [Mem ''flags'' typedef___u32]"

lemmas kernelContexts_types =
  struct_bpf_storage_buffer_def struct_bpf_xdp_entity_def struct_bpf_map_dev_ops_def
  struct_xdp_mem_info_def struct_xdp_frame_def struct_xdp_rxq_info_def struct_bpf_line_info_def
  struct_bpf_nested_pt_regs_def struct_xdp_cpumap_stats_def struct_xdp_mem_allocator_def
  struct_bpf_spin_lock_def struct_bpf_tracing_link_def struct_bpf_attach_target_info_def
  struct_bpf_reference_state_def struct_bpf_call_arg_meta_def struct_bpf_sanitize_info_def
  struct_umd_info_def struct_bpf_preload_ops_def struct_bpf_preload_info_def
  struct_bpf_mount_opts_def union_bpf_iter_link_info_def struct_bpf_lpm_trie_key_def
  struct_bpf_queue_stack_def struct_bpf_flow_keys_def struct_xdp_txq_info_def
  struct_xdp_dev_bulk_queue_def struct_bpf_dtab_def struct_bpf_devmap_val_def
  struct_bpf_dtab_netdev_def struct_bpf_cpu_map_def struct_bpf_cpumap_val_def
  struct_bpf_cpu_map_entry_def struct_xdp_bulk_queue_def struct_bpf_nh_params_def
  struct_bpf_redirect_info_def struct_bpf_local_storage_map_def
  struct_bpf_local_storage_map_bucket_def struct_bpf_local_storage_def
  struct_bpf_local_storage_data_def struct_bpf_local_storage_elem_def
  struct_bpf_local_storage_cache_def struct_bpf_netns_link_def struct_qdisc_skb_cb_def
  struct_bpf_skb_data_end_def struct_tcp_congestion_ops_def
  struct_bpf_struct_ops_tcp_congestion_ops_def struct_bpf_struct_ops_value_def
  struct_bpf_struct_ops_map_def struct_bpf_security_struct_def struct_bpf_xdp_link_def
  struct_bpf_scratchpad_def struct_xdp_umem_def struct_bpf_redir_neigh_def
  struct_bpf_tunnel_key_def struct_bpf_xfrm_state_def struct_bpf_fib_lookup_def
  struct_bpf_sock_tuple_def struct_xdp_buff_xsk_def struct_xdp_attachment_info_def
  struct_bpf_sk_storage_diag_def struct_bpf_fentry_test_t_def struct_xdp_ring_def
  struct_xdp_desc_def struct_xdp_rxtx_ring_def struct_xdp_umem_ring_def
  struct_xdp_ring_offset_v1_def struct_xdp_umem_reg_def struct_xdp_statistics_def
  struct_xdp_ring_offset_def struct_xdp_mmap_offsets_def struct_xdp_mmap_offsets_v1_def
  struct_xdp_options_def

end
