(* ===== verification/KernelLayout.thy ===== *)
theory KernelLayout
  imports KernelContexts
begin

text \<open>
  The layout of every type of \<^verbatim>\<open>vmlinux.h\<close> modelled here: its alignment and size in bytes,
  that it is well formed and that nothing in it is packed. Each lemma evaluates the layout over the
  layouts of the contained types, in the order of the declarations, and adds its result to the
  collection \<open>layout\<close>.
\<close>

section \<open>Enumerations used as members\<close>

lemma enum_module_state_width [layout]: "enum_width enum_module_state = 4"
  by (simp add: enum_width_def enum_module_state_def)

lemma enum_bpf_map_type_width [layout]: "enum_width enum_bpf_map_type = 4"
  by (simp add: enum_width_def enum_bpf_map_type_def)

lemma enum_bpf_prog_type_width [layout]: "enum_width enum_bpf_prog_type = 4"
  by (simp add: enum_width_def enum_bpf_prog_type_def)

lemma enum_bpf_attach_type_width [layout]: "enum_width enum_bpf_attach_type = 4"
  by (simp add: enum_width_def enum_bpf_attach_type_def)

lemma enum_bpf_return_type_width [layout]: "enum_width enum_bpf_return_type = 4"
  by (simp add: enum_width_def enum_bpf_return_type_def)

lemma enum_bpf_arg_type_width [layout]: "enum_width enum_bpf_arg_type = 4"
  by (simp add: enum_width_def enum_bpf_arg_type_def)

lemma enum_bpf_reg_type_width [layout]: "enum_width enum_bpf_reg_type = 4"
  by (simp add: enum_width_def enum_bpf_reg_type_def)

lemma enum_bpf_link_type_width [layout]: "enum_width enum_bpf_link_type = 4"
  by (simp add: enum_width_def enum_bpf_link_type_def)

lemma enum_bpf_reg_liveness_width [layout]: "enum_width enum_bpf_reg_liveness = 4"
  by (simp add: enum_width_def enum_bpf_reg_liveness_def)

lemma enum_verifier_phase_width [layout]: "enum_width enum_verifier_phase = 4"
  by (simp add: enum_width_def enum_verifier_phase_def)

lemma enum_resolve_mode_width [layout]: "enum_width enum_resolve_mode = 4"
  by (simp add: enum_width_def enum_resolve_mode_def)

lemma enum_timespec_type_width [layout]: "enum_width enum_timespec_type = 4"
  by (simp add: enum_width_def enum_timespec_type_def)

lemma enum_uprobe_task_state_width [layout]: "enum_width enum_uprobe_task_state = 4"
  by (simp add: enum_width_def enum_uprobe_task_state_def)

lemma enum_perf_event_state_width [layout]: "enum_width enum_perf_event_state = 4"
  by (simp add: enum_width_def enum_perf_event_state_def)

lemma enum_perf_addr_filter_action_t_width [layout]: "enum_width enum_perf_addr_filter_action_t = 4"
  by (simp add: enum_width_def enum_perf_addr_filter_action_t_def)

lemma enum_pid_type_width [layout]: "enum_width enum_pid_type = 4"
  by (simp add: enum_width_def enum_pid_type_def)

lemma enum_rw_hint_width [layout]: "enum_width enum_rw_hint = 4"
  by (simp add: enum_width_def enum_rw_hint_def)

lemma enum_memcg_kmem_state_width [layout]: "enum_width enum_memcg_kmem_state = 4"
  by (simp add: enum_width_def enum_memcg_kmem_state_def)

lemma enum_netns_bpf_attach_type_width [layout]: "enum_width enum_netns_bpf_attach_type = 4"
  by (simp add: enum_width_def enum_netns_bpf_attach_type_def)

lemma enum_bpf_struct_ops_state_width [layout]: "enum_width enum_bpf_struct_ops_state = 4"
  by (simp add: enum_width_def enum_bpf_struct_ops_state_def)

section \<open>Types\<close>

lemma typedef___u64_layout [layout]:
  "talign typedef___u64 = 8" "tsize typedef___u64 = 8" "wft typedef___u64" "natural typedef___u64"
  by (simp_all add: layout layout_simps typedef___u64_def)

lemma struct_user_pt_regs_layout [layout]:
  "talign struct_user_pt_regs = 8" "tsize struct_user_pt_regs = 272"
    "wft struct_user_pt_regs" "natural struct_user_pt_regs"
  by (simp_all add: layout layout_simps struct_user_pt_regs_def)

lemma typedef_u64_layout [layout]:
  "talign typedef_u64 = 8" "tsize typedef_u64 = 8" "wft typedef_u64" "natural typedef_u64"
  by (simp_all add: layout layout_simps typedef_u64_def)

lemma typedef___s32_layout [layout]:
  "talign typedef___s32 = 4" "tsize typedef___s32 = 4" "wft typedef___s32" "natural typedef___s32"
  by (simp_all add: layout layout_simps typedef___s32_def)

lemma typedef_s32_layout [layout]:
  "talign typedef_s32 = 4" "tsize typedef_s32 = 4" "wft typedef_s32" "natural typedef_s32"
  by (simp_all add: layout layout_simps typedef_s32_def)

lemma typedef___u32_layout [layout]:
  "talign typedef___u32 = 4" "tsize typedef___u32 = 4" "wft typedef___u32" "natural typedef___u32"
  by (simp_all add: layout layout_simps typedef___u32_def)

lemma typedef_u32_layout [layout]:
  "talign typedef_u32 = 4" "tsize typedef_u32 = 4" "wft typedef_u32" "natural typedef_u32"
  by (simp_all add: layout layout_simps typedef_u32_def)

lemma struct_pt_regs_layout [layout]:
  "talign struct_pt_regs = 8" "tsize struct_pt_regs = 336"
    "wft struct_pt_regs" "natural struct_pt_regs"
  by (simp_all add: layout layout_simps struct_pt_regs_def)

lemma struct___va_list_layout [layout]:
  "talign struct___va_list = 8" "tsize struct___va_list = 32"
    "wft struct___va_list" "natural struct___va_list"
  by (simp_all add: layout layout_simps struct___va_list_def)

lemma struct_list_head_layout [layout]:
  "talign struct_list_head = 8" "tsize struct_list_head = 16"
    "wft struct_list_head" "natural struct_list_head"
  by (simp_all add: layout layout_simps struct_list_head_def)

lemma struct_hlist_node_layout [layout]:
  "talign struct_hlist_node = 8" "tsize struct_hlist_node = 16"
    "wft struct_hlist_node" "natural struct_hlist_node"
  by (simp_all add: layout layout_simps struct_hlist_node_def)

lemma struct_hlist_head_layout [layout]:
  "talign struct_hlist_head = 8" "tsize struct_hlist_head = 8"
    "wft struct_hlist_head" "natural struct_hlist_head"
  by (simp_all add: layout layout_simps struct_hlist_head_def)

lemma struct_callback_head_layout [layout]:
  "talign struct_callback_head = 8" "tsize struct_callback_head = 16"
    "wft struct_callback_head" "natural struct_callback_head"
  by (simp_all add: layout layout_simps struct_callback_head_def)

lemma struct_rb_root_layout [layout]:
  "talign struct_rb_root = 8" "tsize struct_rb_root = 8"
    "wft struct_rb_root" "natural struct_rb_root"
  by (simp_all add: layout layout_simps struct_rb_root_def)

lemma typedef___s64_layout [layout]:
  "talign typedef___s64 = 8" "tsize typedef___s64 = 8" "wft typedef___s64" "natural typedef___s64"
  by (simp_all add: layout layout_simps typedef___s64_def)

lemma typedef_s64_layout [layout]:
  "talign typedef_s64 = 8" "tsize typedef_s64 = 8" "wft typedef_s64" "natural typedef_s64"
  by (simp_all add: layout layout_simps typedef_s64_def)

lemma typedef_atomic64_t_layout [layout]:
  "talign typedef_atomic64_t = 8" "tsize typedef_atomic64_t = 8"
    "wft typedef_atomic64_t" "natural typedef_atomic64_t"
  by (simp_all add: layout layout_simps typedef_atomic64_t_def)

lemma typedef_atomic_long_t_layout [layout]:
  "talign typedef_atomic_long_t = 8" "tsize typedef_atomic_long_t = 8"
    "wft typedef_atomic_long_t" "natural typedef_atomic_long_t"
  by (simp_all add: layout layout_simps typedef_atomic_long_t_def)

lemma typedef_work_func_t_layout [layout]:
  "talign typedef_work_func_t = 8" "tsize typedef_work_func_t = 8"
    "wft typedef_work_func_t" "natural typedef_work_func_t"
  by (simp_all add: layout layout_simps typedef_work_func_t_def)

lemma struct_work_struct_layout [layout]:
  "talign struct_work_struct = 8" "tsize struct_work_struct = 48"
    "wft struct_work_struct" "natural struct_work_struct"
  by (simp_all add: layout layout_simps struct_work_struct_def)

lemma struct_timer_list_layout [layout]:
  "talign struct_timer_list = 8" "tsize struct_timer_list = 56"
    "wft struct_timer_list" "natural struct_timer_list"
  by (simp_all add: layout layout_simps struct_timer_list_def)

lemma struct_delayed_work_layout [layout]:
  "talign struct_delayed_work = 8" "tsize struct_delayed_work = 136"
    "wft struct_delayed_work" "natural struct_delayed_work"
  by (simp_all add: layout layout_simps struct_delayed_work_def)

lemma typedef_atomic_t_layout [layout]:
  "talign typedef_atomic_t = 4" "tsize typedef_atomic_t = 4"
    "wft typedef_atomic_t" "natural typedef_atomic_t"
  by (simp_all add: layout layout_simps typedef_atomic_t_def)

lemma typedef___u8_layout [layout]:
  "talign typedef___u8 = 1" "tsize typedef___u8 = 1" "wft typedef___u8" "natural typedef___u8"
  by (simp_all add: layout layout_simps typedef___u8_def)

lemma typedef_u8_layout [layout]:
  "talign typedef_u8 = 1" "tsize typedef_u8 = 1" "wft typedef_u8" "natural typedef_u8"
  by (simp_all add: layout layout_simps typedef_u8_def)

lemma typedef___u16_layout [layout]:
  "talign typedef___u16 = 2" "tsize typedef___u16 = 2" "wft typedef___u16" "natural typedef___u16"
  by (simp_all add: layout layout_simps typedef___u16_def)

lemma typedef_u16_layout [layout]:
  "talign typedef_u16 = 2" "tsize typedef_u16 = 2" "wft typedef_u16" "natural typedef_u16"
  by (simp_all add: layout layout_simps typedef_u16_def)

lemma struct_qspinlock_layout [layout]:
  "talign struct_qspinlock = 4" "tsize struct_qspinlock = 4"
    "wft struct_qspinlock" "natural struct_qspinlock"
  by (simp_all add: layout layout_simps struct_qspinlock_def)

lemma typedef_arch_spinlock_t_layout [layout]:
  "talign typedef_arch_spinlock_t = 4" "tsize typedef_arch_spinlock_t = 4"
    "wft typedef_arch_spinlock_t" "natural typedef_arch_spinlock_t"
  by (simp_all add: layout layout_simps typedef_arch_spinlock_t_def)

lemma struct_raw_spinlock_layout [layout]:
  "talign struct_raw_spinlock = 4" "tsize struct_raw_spinlock = 4"
    "wft struct_raw_spinlock" "natural struct_raw_spinlock"
  by (simp_all add: layout layout_simps struct_raw_spinlock_def)

lemma struct_spinlock_layout [layout]:
  "talign struct_spinlock = 4" "tsize struct_spinlock = 4"
    "wft struct_spinlock" "natural struct_spinlock"
  by (simp_all add: layout layout_simps struct_spinlock_def)

lemma typedef_spinlock_t_layout [layout]:
  "talign typedef_spinlock_t = 4" "tsize typedef_spinlock_t = 4"
    "wft typedef_spinlock_t" "natural typedef_spinlock_t"
  by (simp_all add: layout layout_simps typedef_spinlock_t_def)

lemma struct_optimistic_spin_queue_layout [layout]:
  "talign struct_optimistic_spin_queue = 4" "tsize struct_optimistic_spin_queue = 4"
    "wft struct_optimistic_spin_queue" "natural struct_optimistic_spin_queue"
  by (simp_all add: layout layout_simps struct_optimistic_spin_queue_def)

lemma struct_mutex_layout [layout]:
  "talign struct_mutex = 8" "tsize struct_mutex = 48" "wft struct_mutex" "natural struct_mutex"
  by (simp_all add: layout layout_simps struct_mutex_def)

lemma typedef_raw_spinlock_t_layout [layout]:
  "talign typedef_raw_spinlock_t = 4" "tsize typedef_raw_spinlock_t = 4"
    "wft typedef_raw_spinlock_t" "natural typedef_raw_spinlock_t"
  by (simp_all add: layout layout_simps typedef_raw_spinlock_t_def)

lemma struct_rw_semaphore_layout [layout]:
  "talign struct_rw_semaphore = 8" "tsize struct_rw_semaphore = 64"
    "wft struct_rw_semaphore" "natural struct_rw_semaphore"
  by (simp_all add: layout layout_simps struct_rw_semaphore_def)

lemma struct_wait_queue_head_layout [layout]:
  "talign struct_wait_queue_head = 8" "tsize struct_wait_queue_head = 24"
    "wft struct_wait_queue_head" "natural struct_wait_queue_head"
  by (simp_all add: layout layout_simps struct_wait_queue_head_def)

lemma struct_llist_node_layout [layout]:
  "talign struct_llist_node = 8" "tsize struct_llist_node = 8"
    "wft struct_llist_node" "natural struct_llist_node"
  by (simp_all add: layout layout_simps struct_llist_node_def)

lemma struct___call_single_node_layout [layout]:
  "talign struct___call_single_node = 8" "tsize struct___call_single_node = 16"
    "wft struct___call_single_node" "natural struct___call_single_node"
  by (simp_all add: layout layout_simps struct___call_single_node_def)

lemma struct_irq_work_layout [layout]:
  "talign struct_irq_work = 8" "tsize struct_irq_work = 24"
    "wft struct_irq_work" "natural struct_irq_work"
  by (simp_all add: layout layout_simps struct_irq_work_def)

lemma struct_refcount_struct_layout [layout]:
  "talign struct_refcount_struct = 4" "tsize struct_refcount_struct = 4"
    "wft struct_refcount_struct" "natural struct_refcount_struct"
  by (simp_all add: layout layout_simps struct_refcount_struct_def)

lemma typedef_refcount_t_layout [layout]:
  "talign typedef_refcount_t = 4" "tsize typedef_refcount_t = 4"
    "wft typedef_refcount_t" "natural typedef_refcount_t"
  by (simp_all add: layout layout_simps typedef_refcount_t_def)

lemma struct_kref_layout [layout]:
  "talign struct_kref = 4" "tsize struct_kref = 4" "wft struct_kref" "natural struct_kref"
  by (simp_all add: layout layout_simps struct_kref_def)

lemma struct_swait_queue_head_layout [layout]:
  "talign struct_swait_queue_head = 8" "tsize struct_swait_queue_head = 24"
    "wft struct_swait_queue_head" "natural struct_swait_queue_head"
  by (simp_all add: layout layout_simps struct_swait_queue_head_def)

lemma struct_completion_layout [layout]:
  "talign struct_completion = 8" "tsize struct_completion = 32"
    "wft struct_completion" "natural struct_completion"
  by (simp_all add: layout layout_simps struct_completion_def)

lemma struct_rb_node_layout [layout]:
  "talign struct_rb_node = 8" "tsize struct_rb_node = 24"
    "wft struct_rb_node" "natural struct_rb_node"
  by (simp_all add: layout layout_simps struct_rb_node_def)

lemma struct_hlist_nulls_head_layout [layout]:
  "talign struct_hlist_nulls_head = 8" "tsize struct_hlist_nulls_head = 8"
    "wft struct_hlist_nulls_head" "natural struct_hlist_nulls_head"
  by (simp_all add: layout layout_simps struct_hlist_nulls_head_def)

lemma struct_seqcount_layout [layout]:
  "talign struct_seqcount = 4" "tsize struct_seqcount = 4"
    "wft struct_seqcount" "natural struct_seqcount"
  by (simp_all add: layout layout_simps struct_seqcount_def)

lemma struct_percpu_ref_layout [layout]:
  "talign struct_percpu_ref = 8" "tsize struct_percpu_ref = 16"
    "wft struct_percpu_ref" "natural struct_percpu_ref"
  by (simp_all add: layout layout_simps struct_percpu_ref_def)

lemma typedef_ktime_t_layout [layout]:
  "talign typedef_ktime_t = 8" "tsize typedef_ktime_t = 8"
    "wft typedef_ktime_t" "natural typedef_ktime_t"
  by (simp_all add: layout layout_simps typedef_ktime_t_def)

lemma struct_timerqueue_node_layout [layout]:
  "talign struct_timerqueue_node = 8" "tsize struct_timerqueue_node = 32"
    "wft struct_timerqueue_node" "natural struct_timerqueue_node"
  by (simp_all add: layout layout_simps struct_timerqueue_node_def)

lemma struct_hrtimer_layout [layout]:
  "talign struct_hrtimer = 8" "tsize struct_hrtimer = 72"
    "wft struct_hrtimer" "natural struct_hrtimer"
  by (simp_all add: layout layout_simps struct_hrtimer_def)

lemma struct_kobject_layout [layout]:
  "talign struct_kobject = 8" "tsize struct_kobject = 96"
    "wft struct_kobject" "natural struct_kobject"
  by (simp_all add: layout layout_simps struct_kobject_def)

lemma struct_module_kobject_layout [layout]:
  "talign struct_module_kobject = 8" "tsize struct_module_kobject = 128"
    "wft struct_module_kobject" "natural struct_module_kobject"
  by (simp_all add: layout layout_simps struct_module_kobject_def)

lemma typedef_cfi_check_fn_layout [layout]:
  "talign typedef_cfi_check_fn = 8" "tsize typedef_cfi_check_fn = 8"
    "wft typedef_cfi_check_fn" "natural typedef_cfi_check_fn"
  by (simp_all add: layout layout_simps typedef_cfi_check_fn_def)

lemma typedef_bool_layout [layout]:
  "talign typedef_bool = 1" "tsize typedef_bool = 1" "wft typedef_bool" "natural typedef_bool"
  by (simp_all add: layout layout_simps typedef_bool_def)

lemma struct_latch_tree_node_layout [layout]:
  "talign struct_latch_tree_node = 8" "tsize struct_latch_tree_node = 48"
    "wft struct_latch_tree_node" "natural struct_latch_tree_node"
  by (simp_all add: layout layout_simps struct_latch_tree_node_def)

lemma struct_mod_tree_node_layout [layout]:
  "talign struct_mod_tree_node = 8" "tsize struct_mod_tree_node = 56"
    "wft struct_mod_tree_node" "natural struct_mod_tree_node"
  by (simp_all add: layout layout_simps struct_mod_tree_node_def)

lemma struct_module_layout_layout [layout]:
  "talign struct_module_layout = 8" "tsize struct_module_layout = 80"
    "wft struct_module_layout" "natural struct_module_layout"
  by (simp_all add: layout layout_simps struct_module_layout_def)

lemma struct_mod_plt_sec_layout [layout]:
  "talign struct_mod_plt_sec = 4" "tsize struct_mod_plt_sec = 12"
    "wft struct_mod_plt_sec" "natural struct_mod_plt_sec"
  by (simp_all add: layout layout_simps struct_mod_plt_sec_def)

lemma struct_mod_arch_specific_layout [layout]:
  "talign struct_mod_arch_specific = 8" "tsize struct_mod_arch_specific = 32"
    "wft struct_mod_arch_specific" "natural struct_mod_arch_specific"
  by (simp_all add: layout layout_simps struct_mod_arch_specific_def)

lemma struct_mod_kallsyms_layout [layout]:
  "talign struct_mod_kallsyms = 8" "tsize struct_mod_kallsyms = 32"
    "wft struct_mod_kallsyms" "natural struct_mod_kallsyms"
  by (simp_all add: layout layout_simps struct_mod_kallsyms_def)

lemma struct_module_layout [layout]:
  "talign struct_module = 8" "tsize struct_module = 1024"
    "wft struct_module" "natural struct_module"
  by (simp_all add: layout layout_simps struct_module_def)

lemma struct_bpf_map_memory_layout [layout]:
  "talign struct_bpf_map_memory = 8" "tsize struct_bpf_map_memory = 16"
    "wft struct_bpf_map_memory" "natural struct_bpf_map_memory"
  by (simp_all add: layout layout_simps struct_bpf_map_memory_def)

lemma struct_bpf_map_layout [layout]:
  "talign struct_bpf_map = 8" "tsize struct_bpf_map = 256"
    "wft struct_bpf_map" "natural struct_bpf_map"
  by (simp_all add: layout layout_simps struct_bpf_map_def)

lemma struct_bpf_array_layout [layout]:
  "talign struct_bpf_array = 8" "tsize struct_bpf_array = 320"
    "wft struct_bpf_array" "natural struct_bpf_array"
  by (simp_all add: layout layout_simps struct_bpf_array_def)

lemma struct_pcpu_freelist_head_layout [layout]:
  "talign struct_pcpu_freelist_head = 8" "tsize struct_pcpu_freelist_head = 16"
    "wft struct_pcpu_freelist_head" "natural struct_pcpu_freelist_head"
  by (simp_all add: layout layout_simps struct_pcpu_freelist_head_def)

lemma struct_pcpu_freelist_layout [layout]:
  "talign struct_pcpu_freelist = 8" "tsize struct_pcpu_freelist = 24"
    "wft struct_pcpu_freelist" "natural struct_pcpu_freelist"
  by (simp_all add: layout layout_simps struct_pcpu_freelist_def)

lemma struct_bpf_lru_list_layout [layout]:
  "talign struct_bpf_lru_list = 8" "tsize struct_bpf_lru_list = 128"
    "wft struct_bpf_lru_list" "natural struct_bpf_lru_list"
  by (simp_all add: layout layout_simps struct_bpf_lru_list_def)

lemma struct_bpf_common_lru_layout [layout]:
  "talign struct_bpf_common_lru = 8" "tsize struct_bpf_common_lru = 192"
    "wft struct_bpf_common_lru" "natural struct_bpf_common_lru"
  by (simp_all add: layout layout_simps struct_bpf_common_lru_def)

lemma typedef_del_from_htab_func_layout [layout]:
  "talign typedef_del_from_htab_func = 8" "tsize typedef_del_from_htab_func = 8"
    "wft typedef_del_from_htab_func" "natural typedef_del_from_htab_func"
  by (simp_all add: layout layout_simps typedef_del_from_htab_func_def)

lemma struct_bpf_lru_layout [layout]:
  "talign struct_bpf_lru = 8" "tsize struct_bpf_lru = 256"
    "wft struct_bpf_lru" "natural struct_bpf_lru"
  by (simp_all add: layout layout_simps struct_bpf_lru_def)

lemma struct_bpf_htab_layout [layout]:
  "talign struct_bpf_htab = 8" "tsize struct_bpf_htab = 640"
    "wft struct_bpf_htab" "natural struct_bpf_htab"
  by (simp_all add: layout layout_simps struct_bpf_htab_def)

lemma struct_hlist_nulls_node_layout [layout]:
  "talign struct_hlist_nulls_node = 8" "tsize struct_hlist_nulls_node = 16"
    "wft struct_hlist_nulls_node" "natural struct_hlist_nulls_node"
  by (simp_all add: layout layout_simps struct_hlist_nulls_node_def)

lemma struct_pcpu_freelist_node_layout [layout]:
  "talign struct_pcpu_freelist_node = 8" "tsize struct_pcpu_freelist_node = 8"
    "wft struct_pcpu_freelist_node" "natural struct_pcpu_freelist_node"
  by (simp_all add: layout layout_simps struct_pcpu_freelist_node_def)

lemma struct_bpf_lru_node_layout [layout]:
  "talign struct_bpf_lru_node = 8" "tsize struct_bpf_lru_node = 24"
    "wft struct_bpf_lru_node" "natural struct_bpf_lru_node"
  by (simp_all add: layout layout_simps struct_bpf_lru_node_def)

lemma struct_htab_elem_layout [layout]:
  "talign struct_htab_elem = 8" "tsize struct_htab_elem = 48"
    "wft struct_htab_elem" "natural struct_htab_elem"
  by (simp_all add: layout layout_simps struct_htab_elem_def)

lemma typedef_wait_queue_head_t_layout [layout]:
  "talign typedef_wait_queue_head_t = 8" "tsize typedef_wait_queue_head_t = 24"
    "wft typedef_wait_queue_head_t" "natural typedef_wait_queue_head_t"
  by (simp_all add: layout layout_simps typedef_wait_queue_head_t_def)

lemma struct_bpf_ringbuf_layout [layout]:
  "talign struct_bpf_ringbuf = 8" "tsize struct_bpf_ringbuf = 12288"
    "wft struct_bpf_ringbuf" "natural struct_bpf_ringbuf"
  by (simp_all add: layout layout_simps struct_bpf_ringbuf_def)

lemma struct_bpf_ringbuf_map_layout [layout]:
  "talign struct_bpf_ringbuf_map = 8" "tsize struct_bpf_ringbuf_map = 320"
    "wft struct_bpf_ringbuf_map" "natural struct_bpf_ringbuf_map"
  by (simp_all add: layout layout_simps struct_bpf_ringbuf_map_def)

lemma struct_bpf_ringbuf_hdr_layout [layout]:
  "talign struct_bpf_ringbuf_hdr = 4" "tsize struct_bpf_ringbuf_hdr = 8"
    "wft struct_bpf_ringbuf_hdr" "natural struct_bpf_ringbuf_hdr"
  by (simp_all add: layout layout_simps struct_bpf_ringbuf_hdr_def)

lemma struct_bpf_stack_map_layout [layout]:
  "talign struct_bpf_stack_map = 8" "tsize struct_bpf_stack_map = 320"
    "wft struct_bpf_stack_map" "natural struct_bpf_stack_map"
  by (simp_all add: layout layout_simps struct_bpf_stack_map_def)

lemma struct_stack_map_bucket_layout [layout]:
  "talign struct_stack_map_bucket = 8" "tsize struct_stack_map_bucket = 16"
    "wft struct_stack_map_bucket" "natural struct_stack_map_bucket"
  by (simp_all add: layout layout_simps struct_stack_map_bucket_def)

lemma struct_bpf_map_ops_layout [layout]:
  "talign struct_bpf_map_ops = 8" "tsize struct_bpf_map_ops = 312"
    "wft struct_bpf_map_ops" "natural struct_bpf_map_ops"
  by (simp_all add: layout layout_simps struct_bpf_map_ops_def)

lemma struct_bucket_layout [layout]:
  "talign struct_bucket = 8" "tsize struct_bucket = 16" "wft struct_bucket" "natural struct_bucket"
  by (simp_all add: layout layout_simps struct_bucket_def)

lemma struct_bpf_map_info_layout [layout]:
  "talign struct_bpf_map_info = 8" "tsize struct_bpf_map_info = 80"
    "wft struct_bpf_map_info" "natural struct_bpf_map_info"
  by (simp_all add: layout layout_simps struct_bpf_map_info_def)

lemma struct_sock_filter_layout [layout]:
  "talign struct_sock_filter = 4" "tsize struct_sock_filter = 8"
    "wft struct_sock_filter" "natural struct_sock_filter"
  by (simp_all add: layout layout_simps struct_sock_filter_def)

lemma typedef___s16_layout [layout]:
  "talign typedef___s16 = 2" "tsize typedef___s16 = 2" "wft typedef___s16" "natural typedef___s16"
  by (simp_all add: layout layout_simps typedef___s16_def)

lemma struct_bpf_insn_layout [layout]:
  "talign struct_bpf_insn = 4" "tsize struct_bpf_insn = 8"
    "wft struct_bpf_insn" "natural struct_bpf_insn"
  by (simp_all add: layout layout_simps struct_bpf_insn_def)

lemma struct_bpf_prog_layout [layout]:
  "talign struct_bpf_prog = 8" "tsize struct_bpf_prog = 56"
    "wft struct_bpf_prog" "natural struct_bpf_prog"
  by (simp_all add: layout layout_simps struct_bpf_prog_def)

lemma struct_bpf_ksym_layout [layout]:
  "talign struct_bpf_ksym = 8" "tsize struct_bpf_ksym = 216"
    "wft struct_bpf_ksym" "natural struct_bpf_ksym"
  by (simp_all add: layout layout_simps struct_bpf_ksym_def)

lemma struct_bpf_prog_aux_layout [layout]:
  "talign struct_bpf_prog_aux = 8" "tsize struct_bpf_prog_aux = 688"
    "wft struct_bpf_prog_aux" "natural struct_bpf_prog_aux"
  by (simp_all add: layout layout_simps struct_bpf_prog_aux_def)

lemma struct_bpf_verifier_log_layout [layout]:
  "talign struct_bpf_verifier_log = 8" "tsize struct_bpf_verifier_log = 1048"
    "wft struct_bpf_verifier_log" "natural struct_bpf_verifier_log"
  by (simp_all add: layout layout_simps struct_bpf_verifier_log_def)

lemma struct_bpf_subprog_info_layout [layout]:
  "talign struct_bpf_subprog_info = 8" "tsize struct_bpf_subprog_info = 24"
    "wft struct_bpf_subprog_info" "natural struct_bpf_subprog_info"
  by (simp_all add: layout layout_simps struct_bpf_subprog_info_def)

lemma struct_bpf_id_pair_layout [layout]:
  "talign struct_bpf_id_pair = 4" "tsize struct_bpf_id_pair = 8"
    "wft struct_bpf_id_pair" "natural struct_bpf_id_pair"
  by (simp_all add: layout layout_simps struct_bpf_id_pair_def)

lemma struct_bpf_verifier_env_layout [layout]:
  "talign struct_bpf_verifier_env = 8" "tsize struct_bpf_verifier_env = 8512"
    "wft struct_bpf_verifier_env" "natural struct_bpf_verifier_env"
  by (simp_all add: layout layout_simps struct_bpf_verifier_env_def)

lemma struct_bpf_func_proto_layout [layout]:
  "talign struct_bpf_func_proto = 8" "tsize struct_bpf_func_proto = 96"
    "wft struct_bpf_func_proto" "natural struct_bpf_func_proto"
  by (simp_all add: layout layout_simps struct_bpf_func_proto_def)

lemma struct_bpf_prog_info_layout [layout]:
  "talign struct_bpf_prog_info = 8" "tsize struct_bpf_prog_info = 208"
    "wft struct_bpf_prog_info" "natural struct_bpf_prog_info"
  by (simp_all add: layout layout_simps struct_bpf_prog_info_def)

lemma struct_bpf_link_info_layout [layout]:
  "talign struct_bpf_link_info = 8" "tsize struct_bpf_link_info = 32"
    "wft struct_bpf_link_info" "natural struct_bpf_link_info"
  by (simp_all add: layout layout_simps struct_bpf_link_info_def)

lemma union_bpf_attr_layout [layout]:
  "talign union_bpf_attr = 8" "tsize union_bpf_attr = 120"
    "wft union_bpf_attr" "natural union_bpf_attr"
  by (simp_all add: layout layout_simps union_bpf_attr_def)

lemma struct_bpf_prog_array_item_layout [layout]:
  "talign struct_bpf_prog_array_item = 8" "tsize struct_bpf_prog_array_item = 24"
    "wft struct_bpf_prog_array_item" "natural struct_bpf_prog_array_item"
  by (simp_all add: layout layout_simps struct_bpf_prog_array_item_def)

lemma struct_bpf_prog_array_layout [layout]:
  "talign struct_bpf_prog_array = 8" "tsize struct_bpf_prog_array = 16"
    "wft struct_bpf_prog_array" "natural struct_bpf_prog_array"
  by (simp_all add: layout layout_simps struct_bpf_prog_array_def)

lemma struct_bpf_cgroup_storage_key_layout [layout]:
  "talign struct_bpf_cgroup_storage_key = 8" "tsize struct_bpf_cgroup_storage_key = 16"
    "wft struct_bpf_cgroup_storage_key" "natural struct_bpf_cgroup_storage_key"
  by (simp_all add: layout layout_simps struct_bpf_cgroup_storage_key_def)

lemma struct_bpf_cgroup_storage_layout [layout]:
  "talign struct_bpf_cgroup_storage = 8" "tsize struct_bpf_cgroup_storage = 104"
    "wft struct_bpf_cgroup_storage" "natural struct_bpf_cgroup_storage"
  by (simp_all add: layout layout_simps struct_bpf_cgroup_storage_def)

lemma struct_bpf_raw_event_map_layout [layout]:
  "talign struct_bpf_raw_event_map = 8" "tsize struct_bpf_raw_event_map = 32"
    "wft struct_bpf_raw_event_map" "natural struct_bpf_raw_event_map"
  by (simp_all add: layout layout_simps struct_bpf_raw_event_map_def)

lemma struct_bpf_ctx_arg_aux_layout [layout]:
  "talign struct_bpf_ctx_arg_aux = 4" "tsize struct_bpf_ctx_arg_aux = 12"
    "wft struct_bpf_ctx_arg_aux" "natural struct_bpf_ctx_arg_aux"
  by (simp_all add: layout layout_simps struct_bpf_ctx_arg_aux_def)

lemma struct_btf_func_model_layout [layout]:
  "talign struct_btf_func_model = 1" "tsize struct_btf_func_model = 14"
    "wft struct_btf_func_model" "natural struct_btf_func_model"
  by (simp_all add: layout layout_simps struct_btf_func_model_def)

lemma struct_bpf_trampoline_layout [layout]:
  "talign struct_bpf_trampoline = 8" "tsize struct_bpf_trampoline = 176"
    "wft struct_bpf_trampoline" "natural struct_bpf_trampoline"
  by (simp_all add: layout layout_simps struct_bpf_trampoline_def)

lemma struct_bpf_tramp_image_layout [layout]:
  "talign struct_bpf_tramp_image = 8" "tsize struct_bpf_tramp_image = 304"
    "wft struct_bpf_tramp_image" "natural struct_bpf_tramp_image"
  by (simp_all add: layout layout_simps struct_bpf_tramp_image_def)

lemma struct_bpf_jit_poke_descriptor_layout [layout]:
  "talign struct_bpf_jit_poke_descriptor = 8" "tsize struct_bpf_jit_poke_descriptor = 56"
    "wft struct_bpf_jit_poke_descriptor" "natural struct_bpf_jit_poke_descriptor"
  by (simp_all add: layout layout_simps struct_bpf_jit_poke_descriptor_def)

lemma typedef_bpf_iter_init_seq_priv_t_layout [layout]:
  "talign typedef_bpf_iter_init_seq_priv_t = 8" "tsize typedef_bpf_iter_init_seq_priv_t = 8"
    "wft typedef_bpf_iter_init_seq_priv_t" "natural typedef_bpf_iter_init_seq_priv_t"
  by (simp_all add: layout layout_simps typedef_bpf_iter_init_seq_priv_t_def)

lemma typedef_bpf_iter_fini_seq_priv_t_layout [layout]:
  "talign typedef_bpf_iter_fini_seq_priv_t = 8" "tsize typedef_bpf_iter_fini_seq_priv_t = 8"
    "wft typedef_bpf_iter_fini_seq_priv_t" "natural typedef_bpf_iter_fini_seq_priv_t"
  by (simp_all add: layout layout_simps typedef_bpf_iter_fini_seq_priv_t_def)

lemma struct_bpf_iter_seq_info_layout [layout]:
  "talign struct_bpf_iter_seq_info = 8" "tsize struct_bpf_iter_seq_info = 32"
    "wft struct_bpf_iter_seq_info" "natural struct_bpf_iter_seq_info"
  by (simp_all add: layout layout_simps struct_bpf_iter_seq_info_def)

lemma struct_bpf_iter_aux_info_layout [layout]:
  "talign struct_bpf_iter_aux_info = 8" "tsize struct_bpf_iter_aux_info = 8"
    "wft struct_bpf_iter_aux_info" "natural struct_bpf_iter_aux_info"
  by (simp_all add: layout layout_simps struct_bpf_iter_aux_info_def)

lemma struct_bpf_prog_ops_layout [layout]:
  "talign struct_bpf_prog_ops = 8" "tsize struct_bpf_prog_ops = 8"
    "wft struct_bpf_prog_ops" "natural struct_bpf_prog_ops"
  by (simp_all add: layout layout_simps struct_bpf_prog_ops_def)

lemma struct_bpf_prog_offload_layout [layout]:
  "talign struct_bpf_prog_offload = 8" "tsize struct_bpf_prog_offload = 72"
    "wft struct_bpf_prog_offload" "natural struct_bpf_prog_offload"
  by (simp_all add: layout layout_simps struct_bpf_prog_offload_def)

lemma struct_bpf_offloaded_map_layout [layout]:
  "talign struct_bpf_offloaded_map = 8" "tsize struct_bpf_offloaded_map = 320"
    "wft struct_bpf_offloaded_map" "natural struct_bpf_offloaded_map"
  by (simp_all add: layout layout_simps struct_bpf_offloaded_map_def)

lemma struct_bpf_func_info_layout [layout]:
  "talign struct_bpf_func_info = 4" "tsize struct_bpf_func_info = 8"
    "wft struct_bpf_func_info" "natural struct_bpf_func_info"
  by (simp_all add: layout layout_simps struct_bpf_func_info_def)

lemma struct_bpf_func_info_aux_layout [layout]:
  "talign struct_bpf_func_info_aux = 2" "tsize struct_bpf_func_info_aux = 4"
    "wft struct_bpf_func_info_aux" "natural struct_bpf_func_info_aux"
  by (simp_all add: layout layout_simps struct_bpf_func_info_aux_def)

lemma struct_u64_stats_sync_layout [layout]:
  "talign struct_u64_stats_sync = 1" "tsize struct_u64_stats_sync = 0"
    "wft struct_u64_stats_sync" "natural struct_u64_stats_sync"
  by (simp_all add: layout layout_simps struct_u64_stats_sync_def)

lemma struct_bpf_prog_stats_layout [layout]:
  "talign struct_bpf_prog_stats = 8" "tsize struct_bpf_prog_stats = 16"
    "wft struct_bpf_prog_stats" "natural struct_bpf_prog_stats"
  by (simp_all add: layout layout_simps struct_bpf_prog_stats_def)

lemma struct_bpf_binary_header_layout [layout]:
  "talign struct_bpf_binary_header = 4" "tsize struct_bpf_binary_header = 8"
    "wft struct_bpf_binary_header" "natural struct_bpf_binary_header"
  by (simp_all add: layout layout_simps struct_bpf_binary_header_def)

lemma struct_bpf_link_layout [layout]:
  "talign struct_bpf_link = 8" "tsize struct_bpf_link = 80"
    "wft struct_bpf_link" "natural struct_bpf_link"
  by (simp_all add: layout layout_simps struct_bpf_link_def)

lemma struct_bpf_cgroup_link_layout [layout]:
  "talign struct_bpf_cgroup_link = 8" "tsize struct_bpf_cgroup_link = 96"
    "wft struct_bpf_cgroup_link" "natural struct_bpf_cgroup_link"
  by (simp_all add: layout layout_simps struct_bpf_cgroup_link_def)

lemma struct_bpf_link_ops_layout [layout]:
  "talign struct_bpf_link_ops = 8" "tsize struct_bpf_link_ops = 48"
    "wft struct_bpf_link_ops" "natural struct_bpf_link_ops"
  by (simp_all add: layout layout_simps struct_bpf_link_ops_def)

lemma struct_bpf_verifier_ops_layout [layout]:
  "talign struct_bpf_verifier_ops = 8" "tsize struct_bpf_verifier_ops = 56"
    "wft struct_bpf_verifier_ops" "natural struct_bpf_verifier_ops"
  by (simp_all add: layout layout_simps struct_bpf_verifier_ops_def)

lemma struct_bpf_insn_access_aux_layout [layout]:
  "talign struct_bpf_insn_access_aux = 8" "tsize struct_bpf_insn_access_aux = 16"
    "wft struct_bpf_insn_access_aux" "natural struct_bpf_insn_access_aux"
  by (simp_all add: layout layout_simps struct_bpf_insn_access_aux_def)

lemma union_perf_mem_data_src_layout [layout]:
  "talign union_perf_mem_data_src = 8" "tsize union_perf_mem_data_src = 8"
    "wft union_perf_mem_data_src" "natural union_perf_mem_data_src"
  by (simp_all add: layout layout_simps union_perf_mem_data_src_def)

lemma struct_perf_regs_layout [layout]:
  "talign struct_perf_regs = 8" "tsize struct_perf_regs = 16"
    "wft struct_perf_regs" "natural struct_perf_regs"
  by (simp_all add: layout layout_simps struct_perf_regs_def)

lemma struct_perf_sample_data_layout [layout]:
  "talign struct_perf_sample_data = 8" "tsize struct_perf_sample_data = 192"
    "wft struct_perf_sample_data" "natural struct_perf_sample_data"
  by (simp_all add: layout layout_simps struct_perf_sample_data_def)

lemma struct_bpf_trace_sample_data_layout [layout]:
  "talign struct_bpf_trace_sample_data = 8" "tsize struct_bpf_trace_sample_data = 576"
    "wft struct_bpf_trace_sample_data" "natural struct_bpf_trace_sample_data"
  by (simp_all add: layout layout_simps struct_bpf_trace_sample_data_def)

lemma struct_bpf_seq_printf_buf_layout [layout]:
  "talign struct_bpf_seq_printf_buf = 1" "tsize struct_bpf_seq_printf_buf = 768"
    "wft struct_bpf_seq_printf_buf" "natural struct_bpf_seq_printf_buf"
  by (simp_all add: layout layout_simps struct_bpf_seq_printf_buf_def)

lemma struct_bpf_raw_tp_regs_layout [layout]:
  "talign struct_bpf_raw_tp_regs = 8" "tsize struct_bpf_raw_tp_regs = 1008"
    "wft struct_bpf_raw_tp_regs" "natural struct_bpf_raw_tp_regs"
  by (simp_all add: layout layout_simps struct_bpf_raw_tp_regs_def)

lemma struct_bpf_perf_event_value_layout [layout]:
  "talign struct_bpf_perf_event_value = 8" "tsize struct_bpf_perf_event_value = 24"
    "wft struct_bpf_perf_event_value" "natural struct_bpf_perf_event_value"
  by (simp_all add: layout layout_simps struct_bpf_perf_event_value_def)

lemma struct_bpf_perf_event_data_kern_layout [layout]:
  "talign struct_bpf_perf_event_data_kern = 8" "tsize struct_bpf_perf_event_data_kern = 24"
    "wft struct_bpf_perf_event_data_kern" "natural struct_bpf_perf_event_data_kern"
  by (simp_all add: layout layout_simps struct_bpf_perf_event_data_kern_def)

lemma struct_bpf_raw_tracepoint_args_layout [layout]:
  "talign struct_bpf_raw_tracepoint_args = 8" "tsize struct_bpf_raw_tracepoint_args = 0"
    "wft struct_bpf_raw_tracepoint_args" "natural struct_bpf_raw_tracepoint_args"
  by (simp_all add: layout layout_simps struct_bpf_raw_tracepoint_args_def)

lemma struct_bpf_array_aux_layout [layout]:
  "talign struct_bpf_array_aux = 8" "tsize struct_bpf_array_aux = 136"
    "wft struct_bpf_array_aux" "natural struct_bpf_array_aux"
  by (simp_all add: layout layout_simps struct_bpf_array_aux_def)

lemma struct_bpf_trace_module_layout [layout]:
  "talign struct_bpf_trace_module = 8" "tsize struct_bpf_trace_module = 24"
    "wft struct_bpf_trace_module" "natural struct_bpf_trace_module"
  by (simp_all add: layout layout_simps struct_bpf_trace_module_def)

lemma struct_bpf_event_entry_layout [layout]:
  "talign struct_bpf_event_entry = 8" "tsize struct_bpf_event_entry = 40"
    "wft struct_bpf_event_entry" "natural struct_bpf_event_entry"
  by (simp_all add: layout layout_simps struct_bpf_event_entry_def)

lemma struct_bpf_prog_dummy_layout [layout]:
  "talign struct_bpf_prog_dummy = 8" "tsize struct_bpf_prog_dummy = 56"
    "wft struct_bpf_prog_dummy" "natural struct_bpf_prog_dummy"
  by (simp_all add: layout layout_simps struct_bpf_prog_dummy_def)

lemma struct_bpf_raw_tp_link_layout [layout]:
  "talign struct_bpf_raw_tp_link = 8" "tsize struct_bpf_raw_tp_link = 88"
    "wft struct_bpf_raw_tp_link" "natural struct_bpf_raw_tp_link"
  by (simp_all add: layout layout_simps struct_bpf_raw_tp_link_def)

lemma struct_bpf_btf_info_layout [layout]:
  "talign struct_bpf_btf_info = 8" "tsize struct_bpf_btf_info = 16"
    "wft struct_bpf_btf_info" "natural struct_bpf_btf_info"
  by (simp_all add: layout layout_simps struct_bpf_btf_info_def)

lemma struct_bpf_link_primer_layout [layout]:
  "talign struct_bpf_link_primer = 8" "tsize struct_bpf_link_primer = 24"
    "wft struct_bpf_link_primer" "natural struct_bpf_link_primer"
  by (simp_all add: layout layout_simps struct_bpf_link_primer_def)

lemma struct_bpf_reg_types_layout [layout]:
  "talign struct_bpf_reg_types = 8" "tsize struct_bpf_reg_types = 48"
    "wft struct_bpf_reg_types" "natural struct_bpf_reg_types"
  by (simp_all add: layout layout_simps struct_bpf_reg_types_def)

lemma struct_bpf_verifier_state_layout [layout]:
  "talign struct_bpf_verifier_state = 8" "tsize struct_bpf_verifier_state = 120"
    "wft struct_bpf_verifier_state" "natural struct_bpf_verifier_state"
  by (simp_all add: layout layout_simps struct_bpf_verifier_state_def)

lemma struct_bpf_verifier_stack_elem_layout [layout]:
  "talign struct_bpf_verifier_stack_elem = 8" "tsize struct_bpf_verifier_stack_elem = 144"
    "wft struct_bpf_verifier_stack_elem" "natural struct_bpf_verifier_stack_elem"
  by (simp_all add: layout layout_simps struct_bpf_verifier_stack_elem_def)

lemma struct_tnum_layout [layout]:
  "talign struct_tnum = 8" "tsize struct_tnum = 16" "wft struct_tnum" "natural struct_tnum"
  by (simp_all add: layout layout_simps struct_tnum_def)

lemma struct_bpf_reg_state_layout [layout]:
  "talign struct_bpf_reg_state = 8" "tsize struct_bpf_reg_state = 120"
    "wft struct_bpf_reg_state" "natural struct_bpf_reg_state"
  by (simp_all add: layout layout_simps struct_bpf_reg_state_def)

lemma struct_bpf_func_state_layout [layout]:
  "talign struct_bpf_func_state = 8" "tsize struct_bpf_func_state = 1360"
    "wft struct_bpf_func_state" "natural struct_bpf_func_state"
  by (simp_all add: layout layout_simps struct_bpf_func_state_def)

lemma struct_bpf_stack_state_layout [layout]:
  "talign struct_bpf_stack_state = 8" "tsize struct_bpf_stack_state = 128"
    "wft struct_bpf_stack_state" "natural struct_bpf_stack_state"
  by (simp_all add: layout layout_simps struct_bpf_stack_state_def)

lemma struct_bpf_idx_pair_layout [layout]:
  "talign struct_bpf_idx_pair = 4" "tsize struct_bpf_idx_pair = 8"
    "wft struct_bpf_idx_pair" "natural struct_bpf_idx_pair"
  by (simp_all add: layout layout_simps struct_bpf_idx_pair_def)

lemma struct_bpf_verifier_state_list_layout [layout]:
  "talign struct_bpf_verifier_state_list = 8" "tsize struct_bpf_verifier_state_list = 136"
    "wft struct_bpf_verifier_state_list" "natural struct_bpf_verifier_state_list"
  by (simp_all add: layout layout_simps struct_bpf_verifier_state_list_def)

lemma struct_bpf_insn_aux_data_layout [layout]:
  "talign struct_bpf_insn_aux_data = 8" "tsize struct_bpf_insn_aux_data = 40"
    "wft struct_bpf_insn_aux_data" "natural struct_bpf_insn_aux_data"
  by (simp_all add: layout layout_simps struct_bpf_insn_aux_data_def)

lemma struct_bpf_struct_ops_layout [layout]:
  "talign struct_bpf_struct_ops = 8" "tsize struct_bpf_struct_ops = 976"
    "wft struct_bpf_struct_ops" "natural struct_bpf_struct_ops"
  by (simp_all add: layout layout_simps struct_bpf_struct_ops_def)

lemma typedef_bpf_insn_print_t_layout [layout]:
  "talign typedef_bpf_insn_print_t = 8" "tsize typedef_bpf_insn_print_t = 8"
    "wft typedef_bpf_insn_print_t" "natural typedef_bpf_insn_print_t"
  by (simp_all add: layout layout_simps typedef_bpf_insn_print_t_def)

lemma typedef_bpf_insn_revmap_call_t_layout [layout]:
  "talign typedef_bpf_insn_revmap_call_t = 8" "tsize typedef_bpf_insn_revmap_call_t = 8"
    "wft typedef_bpf_insn_revmap_call_t" "natural typedef_bpf_insn_revmap_call_t"
  by (simp_all add: layout layout_simps typedef_bpf_insn_revmap_call_t_def)

lemma typedef_bpf_insn_print_imm_t_layout [layout]:
  "talign typedef_bpf_insn_print_imm_t = 8" "tsize typedef_bpf_insn_print_imm_t = 8"
    "wft typedef_bpf_insn_print_imm_t" "natural typedef_bpf_insn_print_imm_t"
  by (simp_all add: layout layout_simps typedef_bpf_insn_print_imm_t_def)

lemma struct_bpf_insn_cbs_layout [layout]:
  "talign struct_bpf_insn_cbs = 8" "tsize struct_bpf_insn_cbs = 32"
    "wft struct_bpf_insn_cbs" "natural struct_bpf_insn_cbs"
  by (simp_all add: layout layout_simps struct_bpf_insn_cbs_def)

lemma struct_bpf_pidns_info_layout [layout]:
  "talign struct_bpf_pidns_info = 4" "tsize struct_bpf_pidns_info = 8"
    "wft struct_bpf_pidns_info" "natural struct_bpf_pidns_info"
  by (simp_all add: layout layout_simps struct_bpf_pidns_info_def)

lemma struct_bpf_iter_target_info_layout [layout]:
  "talign struct_bpf_iter_target_info = 8" "tsize struct_bpf_iter_target_info = 32"
    "wft struct_bpf_iter_target_info" "natural struct_bpf_iter_target_info"
  by (simp_all add: layout layout_simps struct_bpf_iter_target_info_def)

lemma typedef_bpf_iter_attach_target_t_layout [layout]:
  "talign typedef_bpf_iter_attach_target_t = 8" "tsize typedef_bpf_iter_attach_target_t = 8"
    "wft typedef_bpf_iter_attach_target_t" "natural typedef_bpf_iter_attach_target_t"
  by (simp_all add: layout layout_simps typedef_bpf_iter_attach_target_t_def)

lemma typedef_bpf_iter_detach_target_t_layout [layout]:
  "talign typedef_bpf_iter_detach_target_t = 8" "tsize typedef_bpf_iter_detach_target_t = 8"
    "wft typedef_bpf_iter_detach_target_t" "natural typedef_bpf_iter_detach_target_t"
  by (simp_all add: layout layout_simps typedef_bpf_iter_detach_target_t_def)

lemma typedef_bpf_iter_show_fdinfo_t_layout [layout]:
  "talign typedef_bpf_iter_show_fdinfo_t = 8" "tsize typedef_bpf_iter_show_fdinfo_t = 8"
    "wft typedef_bpf_iter_show_fdinfo_t" "natural typedef_bpf_iter_show_fdinfo_t"
  by (simp_all add: layout layout_simps typedef_bpf_iter_show_fdinfo_t_def)

lemma typedef_bpf_iter_fill_link_info_t_layout [layout]:
  "talign typedef_bpf_iter_fill_link_info_t = 8" "tsize typedef_bpf_iter_fill_link_info_t = 8"
    "wft typedef_bpf_iter_fill_link_info_t" "natural typedef_bpf_iter_fill_link_info_t"
  by (simp_all add: layout layout_simps typedef_bpf_iter_fill_link_info_t_def)

lemma struct_bpf_iter_reg_layout [layout]:
  "talign struct_bpf_iter_reg = 8" "tsize struct_bpf_iter_reg = 80"
    "wft struct_bpf_iter_reg" "natural struct_bpf_iter_reg"
  by (simp_all add: layout layout_simps struct_bpf_iter_reg_def)

lemma struct_bpf_iter_link_layout [layout]:
  "talign struct_bpf_iter_link = 8" "tsize struct_bpf_iter_link = 96"
    "wft struct_bpf_iter_link" "natural struct_bpf_iter_link"
  by (simp_all add: layout layout_simps struct_bpf_iter_link_def)

lemma struct_bpf_iter_priv_data_layout [layout]:
  "talign struct_bpf_iter_priv_data = 8" "tsize struct_bpf_iter_priv_data = 48"
    "wft struct_bpf_iter_priv_data" "natural struct_bpf_iter_priv_data"
  by (simp_all add: layout layout_simps struct_bpf_iter_priv_data_def)

lemma struct_bpf_iter_meta_layout [layout]:
  "talign struct_bpf_iter_meta = 8" "tsize struct_bpf_iter_meta = 24"
    "wft struct_bpf_iter_meta" "natural struct_bpf_iter_meta"
  by (simp_all add: layout layout_simps struct_bpf_iter_meta_def)

lemma struct_bpf_iter__bpf_map_layout [layout]:
  "talign struct_bpf_iter__bpf_map = 8" "tsize struct_bpf_iter__bpf_map = 16"
    "wft struct_bpf_iter__bpf_map" "natural struct_bpf_iter__bpf_map"
  by (simp_all add: layout layout_simps struct_bpf_iter__bpf_map_def)

lemma struct_bpf_iter_seq_map_info_layout [layout]:
  "talign struct_bpf_iter_seq_map_info = 4" "tsize struct_bpf_iter_seq_map_info = 4"
    "wft struct_bpf_iter_seq_map_info" "natural struct_bpf_iter_seq_map_info"
  by (simp_all add: layout layout_simps struct_bpf_iter_seq_map_info_def)

lemma struct_bpf_iter__task_file_layout [layout]:
  "talign struct_bpf_iter__task_file = 8" "tsize struct_bpf_iter__task_file = 32"
    "wft struct_bpf_iter__task_file" "natural struct_bpf_iter__task_file"
  by (simp_all add: layout layout_simps struct_bpf_iter__task_file_def)

lemma struct_bpf_iter_seq_task_common_layout [layout]:
  "talign struct_bpf_iter_seq_task_common = 8" "tsize struct_bpf_iter_seq_task_common = 8"
    "wft struct_bpf_iter_seq_task_common" "natural struct_bpf_iter_seq_task_common"
  by (simp_all add: layout layout_simps struct_bpf_iter_seq_task_common_def)

lemma struct_bpf_iter_seq_task_file_info_layout [layout]:
  "talign struct_bpf_iter_seq_task_file_info = 8" "tsize struct_bpf_iter_seq_task_file_info = 32"
    "wft struct_bpf_iter_seq_task_file_info" "natural struct_bpf_iter_seq_task_file_info"
  by (simp_all add: layout layout_simps struct_bpf_iter_seq_task_file_info_def)

lemma struct_bpf_iter__task_layout [layout]:
  "talign struct_bpf_iter__task = 8" "tsize struct_bpf_iter__task = 16"
    "wft struct_bpf_iter__task" "natural struct_bpf_iter__task"
  by (simp_all add: layout layout_simps struct_bpf_iter__task_def)

lemma struct_bpf_iter_seq_task_info_layout [layout]:
  "talign struct_bpf_iter_seq_task_info = 8" "tsize struct_bpf_iter_seq_task_info = 16"
    "wft struct_bpf_iter_seq_task_info" "natural struct_bpf_iter_seq_task_info"
  by (simp_all add: layout layout_simps struct_bpf_iter_seq_task_info_def)

lemma struct_bpf_iter__bpf_prog_layout [layout]:
  "talign struct_bpf_iter__bpf_prog = 8" "tsize struct_bpf_iter__bpf_prog = 16"
    "wft struct_bpf_iter__bpf_prog" "natural struct_bpf_iter__bpf_prog"
  by (simp_all add: layout layout_simps struct_bpf_iter__bpf_prog_def)

lemma struct_bpf_iter_seq_prog_info_layout [layout]:
  "talign struct_bpf_iter_seq_prog_info = 4" "tsize struct_bpf_iter_seq_prog_info = 4"
    "wft struct_bpf_iter_seq_prog_info" "natural struct_bpf_iter_seq_prog_info"
  by (simp_all add: layout layout_simps struct_bpf_iter_seq_prog_info_def)

lemma struct_bpf_lru_locallist_layout [layout]:
  "talign struct_bpf_lru_locallist = 8" "tsize struct_bpf_lru_locallist = 40"
    "wft struct_bpf_lru_locallist" "natural struct_bpf_lru_locallist"
  by (simp_all add: layout layout_simps struct_bpf_lru_locallist_def)

lemma struct_bpf_iter_seq_hash_map_info_layout [layout]:
  "talign struct_bpf_iter_seq_hash_map_info = 8" "tsize struct_bpf_iter_seq_hash_map_info = 32"
    "wft struct_bpf_iter_seq_hash_map_info" "natural struct_bpf_iter_seq_hash_map_info"
  by (simp_all add: layout layout_simps struct_bpf_iter_seq_hash_map_info_def)

lemma struct_bpf_iter__bpf_map_elem_layout [layout]:
  "talign struct_bpf_iter__bpf_map_elem = 8" "tsize struct_bpf_iter__bpf_map_elem = 32"
    "wft struct_bpf_iter__bpf_map_elem" "natural struct_bpf_iter__bpf_map_elem"
  by (simp_all add: layout layout_simps struct_bpf_iter__bpf_map_elem_def)

lemma struct_bpf_iter_seq_array_map_info_layout [layout]:
  "talign struct_bpf_iter_seq_array_map_info = 8" "tsize struct_bpf_iter_seq_array_map_info = 24"
    "wft struct_bpf_iter_seq_array_map_info" "natural struct_bpf_iter_seq_array_map_info"
  by (simp_all add: layout layout_simps struct_bpf_iter_seq_array_map_info_def)

lemma struct_bpf_cgroup_storage_map_layout [layout]:
  "talign struct_bpf_cgroup_storage_map = 8" "tsize struct_bpf_cgroup_storage_map = 320"
    "wft struct_bpf_cgroup_storage_map" "natural struct_bpf_cgroup_storage_map"
  by (simp_all add: layout layout_simps struct_bpf_cgroup_storage_map_def)

lemma struct_bpf_cgroup_storage_info_layout [layout]:
  "talign struct_bpf_cgroup_storage_info = 8" "tsize struct_bpf_cgroup_storage_info = 24"
    "wft struct_bpf_cgroup_storage_info" "natural struct_bpf_cgroup_storage_info"
  by (simp_all add: layout layout_simps struct_bpf_cgroup_storage_info_def)

lemma struct_bpf_tramp_progs_layout [layout]:
  "talign struct_bpf_tramp_progs = 8" "tsize struct_bpf_tramp_progs = 328"
    "wft struct_bpf_tramp_progs" "natural struct_bpf_tramp_progs"
  by (simp_all add: layout layout_simps struct_bpf_tramp_progs_def)

lemma typedef_bpf_user_pt_regs_t_layout [layout]:
  "talign typedef_bpf_user_pt_regs_t = 8" "tsize typedef_bpf_user_pt_regs_t = 272"
    "wft typedef_bpf_user_pt_regs_t" "natural typedef_bpf_user_pt_regs_t"
  by (simp_all add: layout layout_simps typedef_bpf_user_pt_regs_t_def)

lemma struct_bpf_perf_event_data_layout [layout]:
  "talign struct_bpf_perf_event_data = 8" "tsize struct_bpf_perf_event_data = 288"
    "wft struct_bpf_perf_event_data" "natural struct_bpf_perf_event_data"
  by (simp_all add: layout layout_simps struct_bpf_perf_event_data_def)

lemma struct_bpf_cgroup_dev_ctx_layout [layout]:
  "talign struct_bpf_cgroup_dev_ctx = 4" "tsize struct_bpf_cgroup_dev_ctx = 12"
    "wft struct_bpf_cgroup_dev_ctx" "natural struct_bpf_cgroup_dev_ctx"
  by (simp_all add: layout layout_simps struct_bpf_cgroup_dev_ctx_def)

lemma struct___sk_buff_layout [layout]:
  "talign struct___sk_buff = 8" "tsize struct___sk_buff = 184"
    "wft struct___sk_buff" "natural struct___sk_buff"
  by (simp_all add: layout layout_simps struct___sk_buff_def)

lemma typedef___wsum_layout [layout]:
  "talign typedef___wsum = 4" "tsize typedef___wsum = 4"
    "wft typedef___wsum" "natural typedef___wsum"
  by (simp_all add: layout layout_simps typedef___wsum_def)

lemma typedef___be16_layout [layout]:
  "talign typedef___be16 = 2" "tsize typedef___be16 = 2"
    "wft typedef___be16" "natural typedef___be16"
  by (simp_all add: layout layout_simps typedef___be16_def)

lemma typedef_sk_buff_data_t_layout [layout]:
  "talign typedef_sk_buff_data_t = 4" "tsize typedef_sk_buff_data_t = 4"
    "wft typedef_sk_buff_data_t" "natural typedef_sk_buff_data_t"
  by (simp_all add: layout layout_simps typedef_sk_buff_data_t_def)

lemma struct_sk_buff_layout [layout]:
  "talign struct_sk_buff = 8" "tsize struct_sk_buff = 240"
    "wft struct_sk_buff" "natural struct_sk_buff"
  by (simp_all add: layout layout_simps struct_sk_buff_def)

lemma struct_xdp_md_layout [layout]:
  "talign struct_xdp_md = 4" "tsize struct_xdp_md = 24" "wft struct_xdp_md" "natural struct_xdp_md"
  by (simp_all add: layout layout_simps struct_xdp_md_def)

lemma struct_xdp_buff_layout [layout]:
  "talign struct_xdp_buff = 8" "tsize struct_xdp_buff = 56"
    "wft struct_xdp_buff" "natural struct_xdp_buff"
  by (simp_all add: layout layout_simps struct_xdp_buff_def)

lemma struct_bpf_sock_layout [layout]:
  "talign struct_bpf_sock = 4" "tsize struct_bpf_sock = 80"
    "wft struct_bpf_sock" "natural struct_bpf_sock"
  by (simp_all add: layout layout_simps struct_bpf_sock_def)

lemma typedef___addrpair_layout [layout]:
  "talign typedef___addrpair = 8" "tsize typedef___addrpair = 8"
    "wft typedef___addrpair" "natural typedef___addrpair"
  by (simp_all add: layout layout_simps typedef___addrpair_def)

lemma typedef___be32_layout [layout]:
  "talign typedef___be32 = 4" "tsize typedef___be32 = 4"
    "wft typedef___be32" "natural typedef___be32"
  by (simp_all add: layout layout_simps typedef___be32_def)

lemma typedef___portpair_layout [layout]:
  "talign typedef___portpair = 4" "tsize typedef___portpair = 4"
    "wft typedef___portpair" "natural typedef___portpair"
  by (simp_all add: layout layout_simps typedef___portpair_def)

lemma typedef_possible_net_t_layout [layout]:
  "talign typedef_possible_net_t = 8" "tsize typedef_possible_net_t = 8"
    "wft typedef_possible_net_t" "natural typedef_possible_net_t"
  by (simp_all add: layout layout_simps typedef_possible_net_t_def)

lemma struct_in6_addr_layout [layout]:
  "talign struct_in6_addr = 4" "tsize struct_in6_addr = 16"
    "wft struct_in6_addr" "natural struct_in6_addr"
  by (simp_all add: layout layout_simps struct_in6_addr_def)

lemma struct_sock_common_layout [layout]:
  "talign struct_sock_common = 8" "tsize struct_sock_common = 136"
    "wft struct_sock_common" "natural struct_sock_common"
  by (simp_all add: layout layout_simps struct_sock_common_def)

lemma typedef_socket_lock_t_layout [layout]:
  "talign typedef_socket_lock_t = 8" "tsize typedef_socket_lock_t = 32"
    "wft typedef_socket_lock_t" "natural typedef_socket_lock_t"
  by (simp_all add: layout layout_simps typedef_socket_lock_t_def)

lemma struct_sk_buff_head_layout [layout]:
  "talign struct_sk_buff_head = 8" "tsize struct_sk_buff_head = 24"
    "wft struct_sk_buff_head" "natural struct_sk_buff_head"
  by (simp_all add: layout layout_simps struct_sk_buff_head_def)

lemma struct_page_frag_layout [layout]:
  "talign struct_page_frag = 8" "tsize struct_page_frag = 16"
    "wft struct_page_frag" "natural struct_page_frag"
  by (simp_all add: layout layout_simps struct_page_frag_def)

lemma typedef_netdev_features_t_layout [layout]:
  "talign typedef_netdev_features_t = 8" "tsize typedef_netdev_features_t = 8"
    "wft typedef_netdev_features_t" "natural typedef_netdev_features_t"
  by (simp_all add: layout layout_simps typedef_netdev_features_t_def)

lemma typedef_gfp_t_layout [layout]:
  "talign typedef_gfp_t = 4" "tsize typedef_gfp_t = 4" "wft typedef_gfp_t" "natural typedef_gfp_t"
  by (simp_all add: layout layout_simps typedef_gfp_t_def)

lemma struct_qrwlock_layout [layout]:
  "talign struct_qrwlock = 4" "tsize struct_qrwlock = 8"
    "wft struct_qrwlock" "natural struct_qrwlock"
  by (simp_all add: layout layout_simps struct_qrwlock_def)

lemma typedef_arch_rwlock_t_layout [layout]:
  "talign typedef_arch_rwlock_t = 4" "tsize typedef_arch_rwlock_t = 8"
    "wft typedef_arch_rwlock_t" "natural typedef_arch_rwlock_t"
  by (simp_all add: layout layout_simps typedef_arch_rwlock_t_def)

lemma typedef_rwlock_t_layout [layout]:
  "talign typedef_rwlock_t = 4" "tsize typedef_rwlock_t = 8"
    "wft typedef_rwlock_t" "natural typedef_rwlock_t"
  by (simp_all add: layout layout_simps typedef_rwlock_t_def)

lemma typedef___kernel_uid32_t_layout [layout]:
  "talign typedef___kernel_uid32_t = 4" "tsize typedef___kernel_uid32_t = 4"
    "wft typedef___kernel_uid32_t" "natural typedef___kernel_uid32_t"
  by (simp_all add: layout layout_simps typedef___kernel_uid32_t_def)

lemma typedef_uid_t_layout [layout]:
  "talign typedef_uid_t = 4" "tsize typedef_uid_t = 4" "wft typedef_uid_t" "natural typedef_uid_t"
  by (simp_all add: layout layout_simps typedef_uid_t_def)

lemma typedef_kuid_t_layout [layout]:
  "talign typedef_kuid_t = 4" "tsize typedef_kuid_t = 4"
    "wft typedef_kuid_t" "natural typedef_kuid_t"
  by (simp_all add: layout layout_simps typedef_kuid_t_def)

lemma struct_sock_cgroup_data_layout [layout]:
  "talign struct_sock_cgroup_data = 8" "tsize struct_sock_cgroup_data = 8"
    "wft struct_sock_cgroup_data" "natural struct_sock_cgroup_data"
  by (simp_all add: layout layout_simps struct_sock_cgroup_data_def)

lemma struct_sock_layout [layout]:
  "talign struct_sock = 8" "tsize struct_sock = 840" "wft struct_sock" "natural struct_sock"
  by (simp_all add: layout layout_simps struct_sock_def)

lemma struct_bpf_sock_addr_layout [layout]:
  "talign struct_bpf_sock_addr = 8" "tsize struct_bpf_sock_addr = 72"
    "wft struct_bpf_sock_addr" "natural struct_bpf_sock_addr"
  by (simp_all add: layout layout_simps struct_bpf_sock_addr_def)

lemma struct_bpf_sock_addr_kern_layout [layout]:
  "talign struct_bpf_sock_addr_kern = 8" "tsize struct_bpf_sock_addr_kern = 32"
    "wft struct_bpf_sock_addr_kern" "natural struct_bpf_sock_addr_kern"
  by (simp_all add: layout layout_simps struct_bpf_sock_addr_kern_def)

lemma struct_bpf_sock_ops_layout [layout]:
  "talign struct_bpf_sock_ops = 8" "tsize struct_bpf_sock_ops = 216"
    "wft struct_bpf_sock_ops" "natural struct_bpf_sock_ops"
  by (simp_all add: layout layout_simps struct_bpf_sock_ops_def)

lemma struct_bpf_sock_ops_kern_layout [layout]:
  "talign struct_bpf_sock_ops_kern = 8" "tsize struct_bpf_sock_ops_kern = 64"
    "wft struct_bpf_sock_ops_kern" "natural struct_bpf_sock_ops_kern"
  by (simp_all add: layout layout_simps struct_bpf_sock_ops_kern_def)

lemma struct_sk_msg_md_layout [layout]:
  "talign struct_sk_msg_md = 8" "tsize struct_sk_msg_md = 80"
    "wft struct_sk_msg_md" "natural struct_sk_msg_md"
  by (simp_all add: layout layout_simps struct_sk_msg_md_def)

lemma typedef_dma_addr_t_layout [layout]:
  "talign typedef_dma_addr_t = 8" "tsize typedef_dma_addr_t = 8"
    "wft typedef_dma_addr_t" "natural typedef_dma_addr_t"
  by (simp_all add: layout layout_simps typedef_dma_addr_t_def)

lemma struct_scatterlist_layout [layout]:
  "talign struct_scatterlist = 8" "tsize struct_scatterlist = 32"
    "wft struct_scatterlist" "natural struct_scatterlist"
  by (simp_all add: layout layout_simps struct_scatterlist_def)

lemma struct_sk_msg_sg_layout [layout]:
  "talign struct_sk_msg_sg = 8" "tsize struct_sk_msg_sg = 640"
    "wft struct_sk_msg_sg" "natural struct_sk_msg_sg"
  by (simp_all add: layout layout_simps struct_sk_msg_sg_def)

lemma struct_sk_msg_layout [layout]:
  "talign struct_sk_msg = 8" "tsize struct_sk_msg = 712" "wft struct_sk_msg" "natural struct_sk_msg"
  by (simp_all add: layout layout_simps struct_sk_msg_def)

lemma struct_bpf_flow_dissector_layout [layout]:
  "talign struct_bpf_flow_dissector = 8" "tsize struct_bpf_flow_dissector = 32"
    "wft struct_bpf_flow_dissector" "natural struct_bpf_flow_dissector"
  by (simp_all add: layout layout_simps struct_bpf_flow_dissector_def)

lemma struct_bpf_sysctl_layout [layout]:
  "talign struct_bpf_sysctl = 4" "tsize struct_bpf_sysctl = 8"
    "wft struct_bpf_sysctl" "natural struct_bpf_sysctl"
  by (simp_all add: layout layout_simps struct_bpf_sysctl_def)

lemma typedef___kernel_ulong_t_layout [layout]:
  "talign typedef___kernel_ulong_t = 8" "tsize typedef___kernel_ulong_t = 8"
    "wft typedef___kernel_ulong_t" "natural typedef___kernel_ulong_t"
  by (simp_all add: layout layout_simps typedef___kernel_ulong_t_def)

lemma typedef___kernel_size_t_layout [layout]:
  "talign typedef___kernel_size_t = 8" "tsize typedef___kernel_size_t = 8"
    "wft typedef___kernel_size_t" "natural typedef___kernel_size_t"
  by (simp_all add: layout layout_simps typedef___kernel_size_t_def)

lemma typedef_size_t_layout [layout]:
  "talign typedef_size_t = 8" "tsize typedef_size_t = 8"
    "wft typedef_size_t" "natural typedef_size_t"
  by (simp_all add: layout layout_simps typedef_size_t_def)

lemma struct_bpf_sysctl_kern_layout [layout]:
  "talign struct_bpf_sysctl_kern = 8" "tsize struct_bpf_sysctl_kern = 72"
    "wft struct_bpf_sysctl_kern" "natural struct_bpf_sysctl_kern"
  by (simp_all add: layout layout_simps struct_bpf_sysctl_kern_def)

lemma struct_bpf_sockopt_layout [layout]:
  "talign struct_bpf_sockopt = 8" "tsize struct_bpf_sockopt = 40"
    "wft struct_bpf_sockopt" "natural struct_bpf_sockopt"
  by (simp_all add: layout layout_simps struct_bpf_sockopt_def)

lemma struct_bpf_sockopt_kern_layout [layout]:
  "talign struct_bpf_sockopt_kern = 8" "tsize struct_bpf_sockopt_kern = 40"
    "wft struct_bpf_sockopt_kern" "natural struct_bpf_sockopt_kern"
  by (simp_all add: layout layout_simps struct_bpf_sockopt_kern_def)

lemma struct_sk_reuseport_md_layout [layout]:
  "talign struct_sk_reuseport_md = 8" "tsize struct_sk_reuseport_md = 40"
    "wft struct_sk_reuseport_md" "natural struct_sk_reuseport_md"
  by (simp_all add: layout layout_simps struct_sk_reuseport_md_def)

lemma struct_sk_reuseport_kern_layout [layout]:
  "talign struct_sk_reuseport_kern = 8" "tsize struct_sk_reuseport_kern = 48"
    "wft struct_sk_reuseport_kern" "natural struct_sk_reuseport_kern"
  by (simp_all add: layout layout_simps struct_sk_reuseport_kern_def)

lemma struct_bpf_sk_lookup_layout [layout]:
  "talign struct_bpf_sk_lookup = 8" "tsize struct_bpf_sk_lookup = 64"
    "wft struct_bpf_sk_lookup" "natural struct_bpf_sk_lookup"
  by (simp_all add: layout layout_simps struct_bpf_sk_lookup_def)

lemma struct_bpf_sk_lookup_kern_layout [layout]:
  "talign struct_bpf_sk_lookup_kern = 8" "tsize struct_bpf_sk_lookup_kern = 48"
    "wft struct_bpf_sk_lookup_kern" "natural struct_bpf_sk_lookup_kern"
  by (simp_all add: layout layout_simps struct_bpf_sk_lookup_kern_def)

lemma typedef_uint64_t_layout [layout]:
  "talign typedef_uint64_t = 8" "tsize typedef_uint64_t = 8"
    "wft typedef_uint64_t" "natural typedef_uint64_t"
  by (simp_all add: layout layout_simps typedef_uint64_t_def)

lemma typedef_uint32_t_layout [layout]:
  "talign typedef_uint32_t = 4" "tsize typedef_uint32_t = 4"
    "wft typedef_uint32_t" "natural typedef_uint32_t"
  by (simp_all add: layout layout_simps typedef_uint32_t_def)

lemma struct_fuse_bpf_in_arg_layout [layout]:
  "talign struct_fuse_bpf_in_arg = 8" "tsize struct_fuse_bpf_in_arg = 24"
    "wft struct_fuse_bpf_in_arg" "natural struct_fuse_bpf_in_arg"
  by (simp_all add: layout layout_simps struct_fuse_bpf_in_arg_def)

lemma struct_fuse_bpf_arg_layout [layout]:
  "talign struct_fuse_bpf_arg = 8" "tsize struct_fuse_bpf_arg = 24"
    "wft struct_fuse_bpf_arg" "natural struct_fuse_bpf_arg"
  by (simp_all add: layout layout_simps struct_fuse_bpf_arg_def)

lemma struct_fuse_bpf_args_layout [layout]:
  "talign struct_fuse_bpf_args = 8" "tsize struct_fuse_bpf_args = 224"
    "wft struct_fuse_bpf_args" "natural struct_fuse_bpf_args"
  by (simp_all add: layout layout_simps struct_fuse_bpf_args_def)

lemma struct_bpf_ctx_convert_layout [layout]:
  "talign struct_bpf_ctx_convert = 8" "tsize struct_bpf_ctx_convert = 8048"
    "wft struct_bpf_ctx_convert" "natural struct_bpf_ctx_convert"
  by (simp_all add: layout layout_simps struct_bpf_ctx_convert_def)

lemma struct_bpf_dispatcher_prog_layout [layout]:
  "talign struct_bpf_dispatcher_prog = 8" "tsize struct_bpf_dispatcher_prog = 16"
    "wft struct_bpf_dispatcher_prog" "natural struct_bpf_dispatcher_prog"
  by (simp_all add: layout layout_simps struct_bpf_dispatcher_prog_def)

lemma struct_bpf_dispatcher_layout [layout]:
  "talign struct_bpf_dispatcher = 8" "tsize struct_bpf_dispatcher = 1064"
    "wft struct_bpf_dispatcher" "natural struct_bpf_dispatcher"
  by (simp_all add: layout layout_simps struct_bpf_dispatcher_def)

lemma struct_bpf_offload_dev_layout [layout]:
  "talign struct_bpf_offload_dev = 8" "tsize struct_bpf_offload_dev = 32"
    "wft struct_bpf_offload_dev" "natural struct_bpf_offload_dev"
  by (simp_all add: layout layout_simps struct_bpf_offload_dev_def)

lemma struct_bpf_prog_offload_ops_layout [layout]:
  "talign struct_bpf_prog_offload_ops = 8" "tsize struct_bpf_prog_offload_ops = 64"
    "wft struct_bpf_prog_offload_ops" "natural struct_bpf_prog_offload_ops"
  by (simp_all add: layout layout_simps struct_bpf_prog_offload_ops_def)

lemma struct_rhash_head_layout [layout]:
  "talign struct_rhash_head = 8" "tsize struct_rhash_head = 8"
    "wft struct_rhash_head" "natural struct_rhash_head"
  by (simp_all add: layout layout_simps struct_rhash_head_def)

lemma struct_bpf_offload_netdev_layout [layout]:
  "talign struct_bpf_offload_netdev = 8" "tsize struct_bpf_offload_netdev = 72"
    "wft struct_bpf_offload_netdev" "natural struct_bpf_offload_netdev"
  by (simp_all add: layout layout_simps struct_bpf_offload_netdev_def)

lemma struct_bpf_stack_build_id_layout [layout]:
  "talign struct_bpf_stack_build_id = 8" "tsize struct_bpf_stack_build_id = 32"
    "wft struct_bpf_stack_build_id" "natural struct_bpf_stack_build_id"
  by (simp_all add: layout layout_simps struct_bpf_stack_build_id_def)

lemma struct_bpf_prog_list_layout [layout]:
  "talign struct_bpf_prog_list = 8" "tsize struct_bpf_prog_list = 48"
    "wft struct_bpf_prog_list" "natural struct_bpf_prog_list"
  by (simp_all add: layout layout_simps struct_bpf_prog_list_def)

lemma struct_bpf_iter_seq_sk_storage_map_info_layout [layout]:
  "talign struct_bpf_iter_seq_sk_storage_map_info = 8" "tsize struct_bpf_iter_seq_sk_storage_map_info = 16"
    "wft struct_bpf_iter_seq_sk_storage_map_info" "natural struct_bpf_iter_seq_sk_storage_map_info"
  by (simp_all add: layout layout_simps struct_bpf_iter_seq_sk_storage_map_info_def)

lemma struct_bpf_iter__bpf_sk_storage_map_layout [layout]:
  "talign struct_bpf_iter__bpf_sk_storage_map = 8" "tsize struct_bpf_iter__bpf_sk_storage_map = 32"
    "wft struct_bpf_iter__bpf_sk_storage_map" "natural struct_bpf_iter__bpf_sk_storage_map"
  by (simp_all add: layout layout_simps struct_bpf_iter__bpf_sk_storage_map_def)

lemma struct_bpf_iter__netlink_layout [layout]:
  "talign struct_bpf_iter__netlink = 8" "tsize struct_bpf_iter__netlink = 16"
    "wft struct_bpf_iter__netlink" "natural struct_bpf_iter__netlink"
  by (simp_all add: layout layout_simps struct_bpf_iter__netlink_def)

lemma struct_bpf_raw_tp_test_run_info_layout [layout]:
  "talign struct_bpf_raw_tp_test_run_info = 8" "tsize struct_bpf_raw_tp_test_run_info = 24"
    "wft struct_bpf_raw_tp_test_run_info" "natural struct_bpf_raw_tp_test_run_info"
  by (simp_all add: layout layout_simps struct_bpf_raw_tp_test_run_info_def)

lemma struct_bpf_iter__tcp_layout [layout]:
  "talign struct_bpf_iter__tcp = 8" "tsize struct_bpf_iter__tcp = 24"
    "wft struct_bpf_iter__tcp" "natural struct_bpf_iter__tcp"
  by (simp_all add: layout layout_simps struct_bpf_iter__tcp_def)

lemma struct_bpf_iter__udp_layout [layout]:
  "talign struct_bpf_iter__udp = 8" "tsize struct_bpf_iter__udp = 32"
    "wft struct_bpf_iter__udp" "natural struct_bpf_iter__udp"
  by (simp_all add: layout layout_simps struct_bpf_iter__udp_def)

lemma struct_bpf_iter__ipv6_route_layout [layout]:
  "talign struct_bpf_iter__ipv6_route = 8" "tsize struct_bpf_iter__ipv6_route = 16"
    "wft struct_bpf_iter__ipv6_route" "natural struct_bpf_iter__ipv6_route"
  by (simp_all add: layout layout_simps struct_bpf_iter__ipv6_route_def)

lemma struct_btf_type_layout [layout]:
  "talign struct_btf_type = 4" "tsize struct_btf_type = 12"
    "wft struct_btf_type" "natural struct_btf_type"
  by (simp_all add: layout layout_simps struct_btf_type_def)

lemma struct_btf_header_layout [layout]:
  "talign struct_btf_header = 4" "tsize struct_btf_header = 24"
    "wft struct_btf_header" "natural struct_btf_header"
  by (simp_all add: layout layout_simps struct_btf_header_def)

lemma struct_btf_layout [layout]:
  "talign struct_btf = 8" "tsize struct_btf = 112" "wft struct_btf" "natural struct_btf"
  by (simp_all add: layout layout_simps struct_btf_def)

lemma struct_btf_ptr_layout [layout]:
  "talign struct_btf_ptr = 8" "tsize struct_btf_ptr = 16"
    "wft struct_btf_ptr" "natural struct_btf_ptr"
  by (simp_all add: layout layout_simps struct_btf_ptr_def)

lemma struct_btf_member_layout [layout]:
  "talign struct_btf_member = 4" "tsize struct_btf_member = 12"
    "wft struct_btf_member" "natural struct_btf_member"
  by (simp_all add: layout layout_simps struct_btf_member_def)

lemma struct_btf_var_secinfo_layout [layout]:
  "talign struct_btf_var_secinfo = 4" "tsize struct_btf_var_secinfo = 12"
    "wft struct_btf_var_secinfo" "natural struct_btf_var_secinfo"
  by (simp_all add: layout layout_simps struct_btf_var_secinfo_def)

lemma struct_btf_kind_operations_layout [layout]:
  "talign struct_btf_kind_operations = 8" "tsize struct_btf_kind_operations = 48"
    "wft struct_btf_kind_operations" "natural struct_btf_kind_operations"
  by (simp_all add: layout layout_simps struct_btf_kind_operations_def)

lemma struct_resolve_vertex_layout [layout]:
  "talign struct_resolve_vertex = 8" "tsize struct_resolve_vertex = 16"
    "wft struct_resolve_vertex" "natural struct_resolve_vertex"
  by (simp_all add: layout layout_simps struct_resolve_vertex_def)

lemma struct_btf_verifier_env_layout [layout]:
  "talign struct_btf_verifier_env = 8" "tsize struct_btf_verifier_env = 1592"
    "wft struct_btf_verifier_env" "natural struct_btf_verifier_env"
  by (simp_all add: layout layout_simps struct_btf_verifier_env_def)

lemma struct_btf_show_layout [layout]:
  "talign struct_btf_show = 8" "tsize struct_btf_show = 200"
    "wft struct_btf_show" "natural struct_btf_show"
  by (simp_all add: layout layout_simps struct_btf_show_def)

lemma struct_btf_param_layout [layout]:
  "talign struct_btf_param = 4" "tsize struct_btf_param = 8"
    "wft struct_btf_param" "natural struct_btf_param"
  by (simp_all add: layout layout_simps struct_btf_param_def)

lemma struct_btf_array_layout [layout]:
  "talign struct_btf_array = 4" "tsize struct_btf_array = 12"
    "wft struct_btf_array" "natural struct_btf_array"
  by (simp_all add: layout layout_simps struct_btf_array_def)

lemma struct_btf_sec_info_layout [layout]:
  "talign struct_btf_sec_info = 4" "tsize struct_btf_sec_info = 8"
    "wft struct_btf_sec_info" "natural struct_btf_sec_info"
  by (simp_all add: layout layout_simps struct_btf_sec_info_def)

lemma struct_btf_enum_layout [layout]:
  "talign struct_btf_enum = 4" "tsize struct_btf_enum = 8"
    "wft struct_btf_enum" "natural struct_btf_enum"
  by (simp_all add: layout layout_simps struct_btf_enum_def)

lemma struct_btf_var_layout [layout]:
  "talign struct_btf_var = 4" "tsize struct_btf_var = 4"
    "wft struct_btf_var" "natural struct_btf_var"
  by (simp_all add: layout layout_simps struct_btf_var_def)

lemma struct_btf_show_snprintf_layout [layout]:
  "talign struct_btf_show_snprintf = 8" "tsize struct_btf_show_snprintf = 208"
    "wft struct_btf_show_snprintf" "natural struct_btf_show_snprintf"
  by (simp_all add: layout layout_simps struct_btf_show_snprintf_def)

lemma struct_btf_id_set_layout [layout]:
  "talign struct_btf_id_set = 4" "tsize struct_btf_id_set = 4"
    "wft struct_btf_id_set" "natural struct_btf_id_set"
  by (simp_all add: layout layout_simps struct_btf_id_set_def)

lemma typedef_mm_segment_t_layout [layout]:
  "talign typedef_mm_segment_t = 8" "tsize typedef_mm_segment_t = 8"
    "wft typedef_mm_segment_t" "natural typedef_mm_segment_t"
  by (simp_all add: layout layout_simps typedef_mm_segment_t_def)

lemma struct_thread_info_layout [layout]:
  "talign struct_thread_info = 8" "tsize struct_thread_info = 48"
    "wft struct_thread_info" "natural struct_thread_info"
  by (simp_all add: layout layout_simps struct_thread_info_def)

lemma struct_load_weight_layout [layout]:
  "talign struct_load_weight = 8" "tsize struct_load_weight = 16"
    "wft struct_load_weight" "natural struct_load_weight"
  by (simp_all add: layout layout_simps struct_load_weight_def)

lemma struct_sched_statistics_layout [layout]:
  "talign struct_sched_statistics = 8" "tsize struct_sched_statistics = 216"
    "wft struct_sched_statistics" "natural struct_sched_statistics"
  by (simp_all add: layout layout_simps struct_sched_statistics_def)

lemma struct_util_est_layout [layout]:
  "talign struct_util_est = 4" "tsize struct_util_est = 8"
    "wft struct_util_est" "natural struct_util_est"
  by (simp_all add: layout layout_simps struct_util_est_def)

lemma struct_sched_avg_layout [layout]:
  "talign struct_sched_avg = 8" "tsize struct_sched_avg = 64"
    "wft struct_sched_avg" "natural struct_sched_avg"
  by (simp_all add: layout layout_simps struct_sched_avg_def)

lemma struct_sched_entity_layout [layout]:
  "talign struct_sched_entity = 8" "tsize struct_sched_entity = 512"
    "wft struct_sched_entity" "natural struct_sched_entity"
  by (simp_all add: layout layout_simps struct_sched_entity_def)

lemma struct_sched_rt_entity_layout [layout]:
  "talign struct_sched_rt_entity = 8" "tsize struct_sched_rt_entity = 80"
    "wft struct_sched_rt_entity" "natural struct_sched_rt_entity"
  by (simp_all add: layout layout_simps struct_sched_rt_entity_def)

lemma struct_sched_dl_entity_layout [layout]:
  "talign struct_sched_dl_entity = 8" "tsize struct_sched_dl_entity = 240"
    "wft struct_sched_dl_entity" "natural struct_sched_dl_entity"
  by (simp_all add: layout layout_simps struct_sched_dl_entity_def)

lemma struct_uclamp_se_layout [layout]:
  "talign struct_uclamp_se = 4" "tsize struct_uclamp_se = 4"
    "wft struct_uclamp_se" "natural struct_uclamp_se"
  by (simp_all add: layout layout_simps struct_uclamp_se_def)

lemma struct_cpumask_layout [layout]:
  "talign struct_cpumask = 8" "tsize struct_cpumask = 8"
    "wft struct_cpumask" "natural struct_cpumask"
  by (simp_all add: layout layout_simps struct_cpumask_def)

lemma typedef_cpumask_t_layout [layout]:
  "talign typedef_cpumask_t = 8" "tsize typedef_cpumask_t = 8"
    "wft typedef_cpumask_t" "natural typedef_cpumask_t"
  by (simp_all add: layout layout_simps typedef_cpumask_t_def)

lemma union_rcu_special_layout [layout]:
  "talign union_rcu_special = 4" "tsize union_rcu_special = 4"
    "wft union_rcu_special" "natural union_rcu_special"
  by (simp_all add: layout layout_simps union_rcu_special_def)

lemma struct_sched_info_layout [layout]:
  "talign struct_sched_info = 8" "tsize struct_sched_info = 32"
    "wft struct_sched_info" "natural struct_sched_info"
  by (simp_all add: layout layout_simps struct_sched_info_def)

lemma struct_plist_node_layout [layout]:
  "talign struct_plist_node = 8" "tsize struct_plist_node = 40"
    "wft struct_plist_node" "natural struct_plist_node"
  by (simp_all add: layout layout_simps struct_plist_node_def)

lemma struct_vmacache_layout [layout]:
  "talign struct_vmacache = 8" "tsize struct_vmacache = 40"
    "wft struct_vmacache" "natural struct_vmacache"
  by (simp_all add: layout layout_simps struct_vmacache_def)

lemma struct_task_rss_stat_layout [layout]:
  "talign struct_task_rss_stat = 4" "tsize struct_task_rss_stat = 20"
    "wft struct_task_rss_stat" "natural struct_task_rss_stat"
  by (simp_all add: layout layout_simps struct_task_rss_stat_def)

lemma typedef___kernel_clockid_t_layout [layout]:
  "talign typedef___kernel_clockid_t = 4" "tsize typedef___kernel_clockid_t = 4"
    "wft typedef___kernel_clockid_t" "natural typedef___kernel_clockid_t"
  by (simp_all add: layout layout_simps typedef___kernel_clockid_t_def)

lemma typedef_clockid_t_layout [layout]:
  "talign typedef_clockid_t = 4" "tsize typedef_clockid_t = 4"
    "wft typedef_clockid_t" "natural typedef_clockid_t"
  by (simp_all add: layout layout_simps typedef_clockid_t_def)

lemma struct_restart_block_layout [layout]:
  "talign struct_restart_block = 8" "tsize struct_restart_block = 48"
    "wft struct_restart_block" "natural struct_restart_block"
  by (simp_all add: layout layout_simps struct_restart_block_def)

lemma typedef___kernel_pid_t_layout [layout]:
  "talign typedef___kernel_pid_t = 4" "tsize typedef___kernel_pid_t = 4"
    "wft typedef___kernel_pid_t" "natural typedef___kernel_pid_t"
  by (simp_all add: layout layout_simps typedef___kernel_pid_t_def)

lemma typedef_pid_t_layout [layout]:
  "talign typedef_pid_t = 4" "tsize typedef_pid_t = 4" "wft typedef_pid_t" "natural typedef_pid_t"
  by (simp_all add: layout layout_simps typedef_pid_t_def)

lemma struct_prev_cputime_layout [layout]:
  "talign struct_prev_cputime = 8" "tsize struct_prev_cputime = 24"
    "wft struct_prev_cputime" "natural struct_prev_cputime"
  by (simp_all add: layout layout_simps struct_prev_cputime_def)

lemma struct_rb_root_cached_layout [layout]:
  "talign struct_rb_root_cached = 8" "tsize struct_rb_root_cached = 16"
    "wft struct_rb_root_cached" "natural struct_rb_root_cached"
  by (simp_all add: layout layout_simps struct_rb_root_cached_def)

lemma struct_timerqueue_head_layout [layout]:
  "talign struct_timerqueue_head = 8" "tsize struct_timerqueue_head = 16"
    "wft struct_timerqueue_head" "natural struct_timerqueue_head"
  by (simp_all add: layout layout_simps struct_timerqueue_head_def)

lemma struct_posix_cputimer_base_layout [layout]:
  "talign struct_posix_cputimer_base = 8" "tsize struct_posix_cputimer_base = 24"
    "wft struct_posix_cputimer_base" "natural struct_posix_cputimer_base"
  by (simp_all add: layout layout_simps struct_posix_cputimer_base_def)

lemma struct_posix_cputimers_layout [layout]:
  "talign struct_posix_cputimers = 8" "tsize struct_posix_cputimers = 80"
    "wft struct_posix_cputimers" "natural struct_posix_cputimers"
  by (simp_all add: layout layout_simps struct_posix_cputimers_def)

lemma typedef_sigset_t_layout [layout]:
  "talign typedef_sigset_t = 8" "tsize typedef_sigset_t = 8"
    "wft typedef_sigset_t" "natural typedef_sigset_t"
  by (simp_all add: layout layout_simps typedef_sigset_t_def)

lemma struct_sigpending_layout [layout]:
  "talign struct_sigpending = 8" "tsize struct_sigpending = 24"
    "wft struct_sigpending" "natural struct_sigpending"
  by (simp_all add: layout layout_simps struct_sigpending_def)

lemma struct_seccomp_layout [layout]:
  "talign struct_seccomp = 8" "tsize struct_seccomp = 16"
    "wft struct_seccomp" "natural struct_seccomp"
  by (simp_all add: layout layout_simps struct_seccomp_def)

lemma struct_wake_q_node_layout [layout]:
  "talign struct_wake_q_node = 8" "tsize struct_wake_q_node = 8"
    "wft struct_wake_q_node" "natural struct_wake_q_node"
  by (simp_all add: layout layout_simps struct_wake_q_node_def)

lemma struct_task_io_accounting_layout [layout]:
  "talign struct_task_io_accounting = 8" "tsize struct_task_io_accounting = 64"
    "wft struct_task_io_accounting" "natural struct_task_io_accounting"
  by (simp_all add: layout layout_simps struct_task_io_accounting_def)

lemma typedef_nodemask_t_layout [layout]:
  "talign typedef_nodemask_t = 8" "tsize typedef_nodemask_t = 8"
    "wft typedef_nodemask_t" "natural typedef_nodemask_t"
  by (simp_all add: layout layout_simps typedef_nodemask_t_def)

lemma typedef_seqcount_t_layout [layout]:
  "talign typedef_seqcount_t = 4" "tsize typedef_seqcount_t = 4"
    "wft typedef_seqcount_t" "natural typedef_seqcount_t"
  by (simp_all add: layout layout_simps typedef_seqcount_t_def)

lemma struct_seqcount_spinlock_layout [layout]:
  "talign struct_seqcount_spinlock = 4" "tsize struct_seqcount_spinlock = 4"
    "wft struct_seqcount_spinlock" "natural struct_seqcount_spinlock"
  by (simp_all add: layout layout_simps struct_seqcount_spinlock_def)

lemma typedef_seqcount_spinlock_t_layout [layout]:
  "talign typedef_seqcount_spinlock_t = 4" "tsize typedef_seqcount_spinlock_t = 4"
    "wft typedef_seqcount_spinlock_t" "natural typedef_seqcount_spinlock_t"
  by (simp_all add: layout layout_simps typedef_seqcount_spinlock_t_def)

lemma struct_tlbflush_unmap_batch_layout [layout]:
  "talign struct_tlbflush_unmap_batch = 1" "tsize struct_tlbflush_unmap_batch = 0"
    "wft struct_tlbflush_unmap_batch" "natural struct_tlbflush_unmap_batch"
  by (simp_all add: layout layout_simps struct_tlbflush_unmap_batch_def)

lemma struct_cpu_context_layout [layout]:
  "talign struct_cpu_context = 8" "tsize struct_cpu_context = 104"
    "wft struct_cpu_context" "natural struct_cpu_context"
  by (simp_all add: layout layout_simps struct_cpu_context_def)

lemma typedef___uint128_t_layout [layout]:
  "talign typedef___uint128_t = 16" "tsize typedef___uint128_t = 16"
    "wft typedef___uint128_t" "natural typedef___uint128_t"
  by (simp_all add: layout layout_simps typedef___uint128_t_def)

lemma struct_user_fpsimd_state_layout [layout]:
  "talign struct_user_fpsimd_state = 16" "tsize struct_user_fpsimd_state = 528"
    "wft struct_user_fpsimd_state" "natural struct_user_fpsimd_state"
  by (simp_all add: layout layout_simps struct_user_fpsimd_state_def)

lemma struct_debug_info_layout [layout]:
  "talign struct_debug_info = 8" "tsize struct_debug_info = 272"
    "wft struct_debug_info" "natural struct_debug_info"
  by (simp_all add: layout layout_simps struct_debug_info_def)

lemma struct_ptrauth_key_layout [layout]:
  "talign struct_ptrauth_key = 8" "tsize struct_ptrauth_key = 16"
    "wft struct_ptrauth_key" "natural struct_ptrauth_key"
  by (simp_all add: layout layout_simps struct_ptrauth_key_def)

lemma struct_ptrauth_keys_user_layout [layout]:
  "talign struct_ptrauth_keys_user = 8" "tsize struct_ptrauth_keys_user = 80"
    "wft struct_ptrauth_keys_user" "natural struct_ptrauth_keys_user"
  by (simp_all add: layout layout_simps struct_ptrauth_keys_user_def)

lemma struct_ptrauth_keys_kernel_layout [layout]:
  "talign struct_ptrauth_keys_kernel = 8" "tsize struct_ptrauth_keys_kernel = 16"
    "wft struct_ptrauth_keys_kernel" "natural struct_ptrauth_keys_kernel"
  by (simp_all add: layout layout_simps struct_ptrauth_keys_kernel_def)

lemma struct_thread_struct_layout [layout]:
  "talign struct_thread_struct = 16" "tsize struct_thread_struct = 1088"
    "wft struct_thread_struct" "natural struct_thread_struct"
  by (simp_all add: layout layout_simps struct_thread_struct_def)

lemma struct_task_struct_layout [layout]:
  "talign struct_task_struct = 16" "tsize struct_task_struct = 4736"
    "wft struct_task_struct" "natural struct_task_struct"
  by (simp_all add: layout layout_simps struct_task_struct_def)

lemma struct_mm_rss_stat_layout [layout]:
  "talign struct_mm_rss_stat = 8" "tsize struct_mm_rss_stat = 32"
    "wft struct_mm_rss_stat" "natural struct_mm_rss_stat"
  by (simp_all add: layout layout_simps struct_mm_rss_stat_def)

lemma typedef_mm_context_t_layout [layout]:
  "talign typedef_mm_context_t = 8" "tsize typedef_mm_context_t = 40"
    "wft typedef_mm_context_t" "natural typedef_mm_context_t"
  by (simp_all add: layout layout_simps typedef_mm_context_t_def)

lemma struct_uprobes_state_layout [layout]:
  "talign struct_uprobes_state = 8" "tsize struct_uprobes_state = 8"
    "wft struct_uprobes_state" "natural struct_uprobes_state"
  by (simp_all add: layout layout_simps struct_uprobes_state_def)

lemma struct_mm_struct_layout [layout]:
  "talign struct_mm_struct = 8" "tsize struct_mm_struct = 992"
    "wft struct_mm_struct" "natural struct_mm_struct"
  by (simp_all add: layout layout_simps struct_mm_struct_def)

lemma typedef_pteval_t_layout [layout]:
  "talign typedef_pteval_t = 8" "tsize typedef_pteval_t = 8"
    "wft typedef_pteval_t" "natural typedef_pteval_t"
  by (simp_all add: layout layout_simps typedef_pteval_t_def)

lemma typedef_pgprot_t_layout [layout]:
  "talign typedef_pgprot_t = 8" "tsize typedef_pgprot_t = 8"
    "wft typedef_pgprot_t" "natural typedef_pgprot_t"
  by (simp_all add: layout layout_simps typedef_pgprot_t_def)

lemma struct_vm_userfaultfd_ctx_layout [layout]:
  "talign struct_vm_userfaultfd_ctx = 8" "tsize struct_vm_userfaultfd_ctx = 8"
    "wft struct_vm_userfaultfd_ctx" "natural struct_vm_userfaultfd_ctx"
  by (simp_all add: layout layout_simps struct_vm_userfaultfd_ctx_def)

lemma struct_vm_area_struct_layout [layout]:
  "talign struct_vm_area_struct = 8" "tsize struct_vm_area_struct = 232"
    "wft struct_vm_area_struct" "natural struct_vm_area_struct"
  by (simp_all add: layout layout_simps struct_vm_area_struct_def)

lemma typedef___kernel_loff_t_layout [layout]:
  "talign typedef___kernel_loff_t = 8" "tsize typedef___kernel_loff_t = 8"
    "wft typedef___kernel_loff_t" "natural typedef___kernel_loff_t"
  by (simp_all add: layout layout_simps typedef___kernel_loff_t_def)

lemma typedef_loff_t_layout [layout]:
  "talign typedef_loff_t = 8" "tsize typedef_loff_t = 8"
    "wft typedef_loff_t" "natural typedef_loff_t"
  by (simp_all add: layout layout_simps typedef_loff_t_def)

lemma struct_arch_probe_insn_layout [layout]:
  "talign struct_arch_probe_insn = 8" "tsize struct_arch_probe_insn = 32"
    "wft struct_arch_probe_insn" "natural struct_arch_probe_insn"
  by (simp_all add: layout layout_simps struct_arch_probe_insn_def)

lemma struct_arch_uprobe_layout [layout]:
  "talign struct_arch_uprobe = 8" "tsize struct_arch_uprobe = 48"
    "wft struct_arch_uprobe" "natural struct_arch_uprobe"
  by (simp_all add: layout layout_simps struct_arch_uprobe_def)

lemma struct_uprobe_layout [layout]:
  "talign struct_uprobe = 8" "tsize struct_uprobe = 264" "wft struct_uprobe" "natural struct_uprobe"
  by (simp_all add: layout layout_simps struct_uprobe_def)

lemma struct_arch_uprobe_task_layout [layout]:
  "talign struct_arch_uprobe_task = 1" "tsize struct_arch_uprobe_task = 0"
    "wft struct_arch_uprobe_task" "natural struct_arch_uprobe_task"
  by (simp_all add: layout layout_simps struct_arch_uprobe_task_def)

lemma struct_uprobe_task_layout [layout]:
  "talign struct_uprobe_task = 8" "tsize struct_uprobe_task = 64"
    "wft struct_uprobe_task" "natural struct_uprobe_task"
  by (simp_all add: layout layout_simps struct_uprobe_task_def)

lemma struct_return_instance_layout [layout]:
  "talign struct_return_instance = 8" "tsize struct_return_instance = 48"
    "wft struct_return_instance" "natural struct_return_instance"
  by (simp_all add: layout layout_simps struct_return_instance_def)

lemma struct_uprobe_consumer_layout [layout]:
  "talign struct_uprobe_consumer = 8" "tsize struct_uprobe_consumer = 32"
    "wft struct_uprobe_consumer" "natural struct_uprobe_consumer"
  by (simp_all add: layout layout_simps struct_uprobe_consumer_def)

lemma struct_vm_special_mapping_layout [layout]:
  "talign struct_vm_special_mapping = 8" "tsize struct_vm_special_mapping = 32"
    "wft struct_vm_special_mapping" "natural struct_vm_special_mapping"
  by (simp_all add: layout layout_simps struct_vm_special_mapping_def)

lemma struct_xol_area_layout [layout]:
  "talign struct_xol_area = 8" "tsize struct_xol_area = 96"
    "wft struct_xol_area" "natural struct_xol_area"
  by (simp_all add: layout layout_simps struct_xol_area_def)

lemma struct_delayed_uprobe_layout [layout]:
  "talign struct_delayed_uprobe = 8" "tsize struct_delayed_uprobe = 32"
    "wft struct_delayed_uprobe" "natural struct_delayed_uprobe"
  by (simp_all add: layout layout_simps struct_delayed_uprobe_def)

lemma struct_upid_layout [layout]:
  "talign struct_upid = 8" "tsize struct_upid = 16" "wft struct_upid" "natural struct_upid"
  by (simp_all add: layout layout_simps struct_upid_def)

lemma struct_pid_layout [layout]:
  "talign struct_pid = 8" "tsize struct_pid = 112" "wft struct_pid" "natural struct_pid"
  by (simp_all add: layout layout_simps struct_pid_def)

lemma struct_cpu_itimer_layout [layout]:
  "talign struct_cpu_itimer = 8" "tsize struct_cpu_itimer = 16"
    "wft struct_cpu_itimer" "natural struct_cpu_itimer"
  by (simp_all add: layout layout_simps struct_cpu_itimer_def)

lemma struct_task_cputime_atomic_layout [layout]:
  "talign struct_task_cputime_atomic = 8" "tsize struct_task_cputime_atomic = 24"
    "wft struct_task_cputime_atomic" "natural struct_task_cputime_atomic"
  by (simp_all add: layout layout_simps struct_task_cputime_atomic_def)

lemma struct_thread_group_cputimer_layout [layout]:
  "talign struct_thread_group_cputimer = 8" "tsize struct_thread_group_cputimer = 24"
    "wft struct_thread_group_cputimer" "natural struct_thread_group_cputimer"
  by (simp_all add: layout layout_simps struct_thread_group_cputimer_def)

lemma typedef_seqlock_t_layout [layout]:
  "talign typedef_seqlock_t = 4" "tsize typedef_seqlock_t = 8"
    "wft typedef_seqlock_t" "natural typedef_seqlock_t"
  by (simp_all add: layout layout_simps typedef_seqlock_t_def)

lemma struct_rlimit_layout [layout]:
  "talign struct_rlimit = 8" "tsize struct_rlimit = 16" "wft struct_rlimit" "natural struct_rlimit"
  by (simp_all add: layout layout_simps struct_rlimit_def)

lemma struct_signal_struct_layout [layout]:
  "talign struct_signal_struct = 8" "tsize struct_signal_struct = 1120"
    "wft struct_signal_struct" "natural struct_signal_struct"
  by (simp_all add: layout layout_simps struct_signal_struct_def)

lemma typedef___kernel_gid32_t_layout [layout]:
  "talign typedef___kernel_gid32_t = 4" "tsize typedef___kernel_gid32_t = 4"
    "wft typedef___kernel_gid32_t" "natural typedef___kernel_gid32_t"
  by (simp_all add: layout layout_simps typedef___kernel_gid32_t_def)

lemma typedef_gid_t_layout [layout]:
  "talign typedef_gid_t = 4" "tsize typedef_gid_t = 4" "wft typedef_gid_t" "natural typedef_gid_t"
  by (simp_all add: layout layout_simps typedef_gid_t_def)

lemma typedef_kgid_t_layout [layout]:
  "talign typedef_kgid_t = 4" "tsize typedef_kgid_t = 4"
    "wft typedef_kgid_t" "natural typedef_kgid_t"
  by (simp_all add: layout layout_simps typedef_kgid_t_def)

lemma struct_kernel_cap_struct_layout [layout]:
  "talign struct_kernel_cap_struct = 4" "tsize struct_kernel_cap_struct = 8"
    "wft struct_kernel_cap_struct" "natural struct_kernel_cap_struct"
  by (simp_all add: layout layout_simps struct_kernel_cap_struct_def)

lemma typedef_kernel_cap_t_layout [layout]:
  "talign typedef_kernel_cap_t = 4" "tsize typedef_kernel_cap_t = 8"
    "wft typedef_kernel_cap_t" "natural typedef_kernel_cap_t"
  by (simp_all add: layout layout_simps typedef_kernel_cap_t_def)

lemma struct_cred_layout [layout]:
  "talign struct_cred = 8" "tsize struct_cred = 168" "wft struct_cred" "natural struct_cred"
  by (simp_all add: layout layout_simps struct_cred_def)

lemma typedef_local_t_layout [layout]:
  "talign typedef_local_t = 8" "tsize typedef_local_t = 8"
    "wft typedef_local_t" "natural typedef_local_t"
  by (simp_all add: layout layout_simps typedef_local_t_def)

lemma typedef_local64_t_layout [layout]:
  "talign typedef_local64_t = 8" "tsize typedef_local64_t = 8"
    "wft typedef_local64_t" "natural typedef_local64_t"
  by (simp_all add: layout layout_simps typedef_local64_t_def)

lemma struct_perf_event_attr_layout [layout]:
  "talign struct_perf_event_attr = 8" "tsize struct_perf_event_attr = 120"
    "wft struct_perf_event_attr" "natural struct_perf_event_attr"
  by (simp_all add: layout layout_simps struct_perf_event_attr_def)

lemma struct_hw_perf_event_extra_layout [layout]:
  "talign struct_hw_perf_event_extra = 8" "tsize struct_hw_perf_event_extra = 24"
    "wft struct_hw_perf_event_extra" "natural struct_hw_perf_event_extra"
  by (simp_all add: layout layout_simps struct_hw_perf_event_extra_def)

lemma struct_arch_hw_breakpoint_ctrl_layout [layout]:
  "talign struct_arch_hw_breakpoint_ctrl = 4" "tsize struct_arch_hw_breakpoint_ctrl = 4"
    "wft struct_arch_hw_breakpoint_ctrl" "natural struct_arch_hw_breakpoint_ctrl"
  by (simp_all add: layout layout_simps struct_arch_hw_breakpoint_ctrl_def)

lemma struct_arch_hw_breakpoint_layout [layout]:
  "talign struct_arch_hw_breakpoint = 8" "tsize struct_arch_hw_breakpoint = 24"
    "wft struct_arch_hw_breakpoint" "natural struct_arch_hw_breakpoint"
  by (simp_all add: layout layout_simps struct_arch_hw_breakpoint_def)

lemma struct_hw_perf_event_layout [layout]:
  "talign struct_hw_perf_event = 8" "tsize struct_hw_perf_event = 192"
    "wft struct_hw_perf_event" "natural struct_hw_perf_event"
  by (simp_all add: layout layout_simps struct_hw_perf_event_def)

lemma struct_perf_addr_filters_head_layout [layout]:
  "talign struct_perf_addr_filters_head = 8" "tsize struct_perf_addr_filters_head = 24"
    "wft struct_perf_addr_filters_head" "natural struct_perf_addr_filters_head"
  by (simp_all add: layout layout_simps struct_perf_addr_filters_head_def)

lemma typedef_perf_overflow_handler_t_layout [layout]:
  "talign typedef_perf_overflow_handler_t = 8" "tsize typedef_perf_overflow_handler_t = 8"
    "wft typedef_perf_overflow_handler_t" "natural typedef_perf_overflow_handler_t"
  by (simp_all add: layout layout_simps typedef_perf_overflow_handler_t_def)

lemma struct_perf_event_layout [layout]:
  "talign struct_perf_event = 8" "tsize struct_perf_event = 1016"
    "wft struct_perf_event" "natural struct_perf_event"
  by (simp_all add: layout layout_simps struct_perf_event_def)

lemma struct_trace_event_layout [layout]:
  "talign struct_trace_event = 8" "tsize struct_trace_event = 48"
    "wft struct_trace_event" "natural struct_trace_event"
  by (simp_all add: layout layout_simps struct_trace_event_def)

lemma struct_trace_event_call_layout [layout]:
  "talign struct_trace_event_call = 8" "tsize struct_trace_event_call = 144"
    "wft struct_trace_event_call" "natural struct_trace_event_call"
  by (simp_all add: layout layout_simps struct_trace_event_call_def)

lemma struct_dyn_event_layout [layout]:
  "talign struct_dyn_event = 8" "tsize struct_dyn_event = 24"
    "wft struct_dyn_event" "natural struct_dyn_event"
  by (simp_all add: layout layout_simps struct_dyn_event_def)

lemma struct_path_layout [layout]:
  "talign struct_path = 8" "tsize struct_path = 16" "wft struct_path" "natural struct_path"
  by (simp_all add: layout layout_simps struct_path_def)

lemma typedef___kernel_long_t_layout [layout]:
  "talign typedef___kernel_long_t = 8" "tsize typedef___kernel_long_t = 8"
    "wft typedef___kernel_long_t" "natural typedef___kernel_long_t"
  by (simp_all add: layout layout_simps typedef___kernel_long_t_def)

lemma typedef___kernel_ssize_t_layout [layout]:
  "talign typedef___kernel_ssize_t = 8" "tsize typedef___kernel_ssize_t = 8"
    "wft typedef___kernel_ssize_t" "natural typedef___kernel_ssize_t"
  by (simp_all add: layout layout_simps typedef___kernel_ssize_t_def)

lemma typedef_ssize_t_layout [layout]:
  "talign typedef_ssize_t = 8" "tsize typedef_ssize_t = 8"
    "wft typedef_ssize_t" "natural typedef_ssize_t"
  by (simp_all add: layout layout_simps typedef_ssize_t_def)

lemma struct_probe_arg_layout [layout]:
  "talign struct_probe_arg = 8" "tsize struct_probe_arg = 56"
    "wft struct_probe_arg" "natural struct_probe_arg"
  by (simp_all add: layout layout_simps struct_probe_arg_def)

lemma struct_trace_probe_layout [layout]:
  "talign struct_trace_probe = 8" "tsize struct_trace_probe = 40"
    "wft struct_trace_probe" "natural struct_trace_probe"
  by (simp_all add: layout layout_simps struct_trace_probe_def)

lemma struct_trace_uprobe_layout [layout]:
  "talign struct_trace_uprobe = 8" "tsize struct_trace_uprobe = 152"
    "wft struct_trace_uprobe" "natural struct_trace_uprobe"
  by (simp_all add: layout layout_simps struct_trace_uprobe_def)

lemma struct_trace_entry_layout [layout]:
  "talign struct_trace_entry = 4" "tsize struct_trace_entry = 8"
    "wft struct_trace_entry" "natural struct_trace_entry"
  by (simp_all add: layout layout_simps struct_trace_entry_def)

lemma struct_uprobe_trace_entry_head_layout [layout]:
  "talign struct_uprobe_trace_entry_head = 8" "tsize struct_uprobe_trace_entry_head = 8"
    "wft struct_uprobe_trace_entry_head" "natural struct_uprobe_trace_entry_head"
  by (simp_all add: layout layout_simps struct_uprobe_trace_entry_head_def)

lemma struct_uprobe_dispatch_data_layout [layout]:
  "talign struct_uprobe_dispatch_data = 8" "tsize struct_uprobe_dispatch_data = 16"
    "wft struct_uprobe_dispatch_data" "natural struct_uprobe_dispatch_data"
  by (simp_all add: layout layout_simps struct_uprobe_dispatch_data_def)

lemma struct_uprobe_cpu_buffer_layout [layout]:
  "talign struct_uprobe_cpu_buffer = 8" "tsize struct_uprobe_cpu_buffer = 56"
    "wft struct_uprobe_cpu_buffer" "natural struct_uprobe_cpu_buffer"
  by (simp_all add: layout layout_simps struct_uprobe_cpu_buffer_def)

lemma struct_trace_uprobe_filter_layout [layout]:
  "talign struct_trace_uprobe_filter = 8" "tsize struct_trace_uprobe_filter = 32"
    "wft struct_trace_uprobe_filter" "natural struct_trace_uprobe_filter"
  by (simp_all add: layout layout_simps struct_trace_uprobe_filter_def)

lemma struct_perf_event_groups_layout [layout]:
  "talign struct_perf_event_groups = 8" "tsize struct_perf_event_groups = 16"
    "wft struct_perf_event_groups" "natural struct_perf_event_groups"
  by (simp_all add: layout layout_simps struct_perf_event_groups_def)

lemma struct_perf_event_context_layout [layout]:
  "talign struct_perf_event_context = 8" "tsize struct_perf_event_context = 280"
    "wft struct_perf_event_context" "natural struct_perf_event_context"
  by (simp_all add: layout layout_simps struct_perf_event_context_def)

lemma struct_perf_cpu_context_layout [layout]:
  "talign struct_perf_cpu_context = 8" "tsize struct_perf_cpu_context = 448"
    "wft struct_perf_cpu_context" "natural struct_perf_cpu_context"
  by (simp_all add: layout layout_simps struct_perf_cpu_context_def)

lemma struct_perf_addr_filter_range_layout [layout]:
  "talign struct_perf_addr_filter_range = 8" "tsize struct_perf_addr_filter_range = 16"
    "wft struct_perf_addr_filter_range" "natural struct_perf_addr_filter_range"
  by (simp_all add: layout layout_simps struct_perf_addr_filter_range_def)

lemma typedef_perf_copy_f_layout [layout]:
  "talign typedef_perf_copy_f = 8" "tsize typedef_perf_copy_f = 8"
    "wft typedef_perf_copy_f" "natural typedef_perf_copy_f"
  by (simp_all add: layout layout_simps typedef_perf_copy_f_def)

lemma struct_perf_raw_frag_layout [layout]:
  "talign struct_perf_raw_frag = 1" "tsize struct_perf_raw_frag = 28"
    "wft struct_perf_raw_frag" "\<not> natural struct_perf_raw_frag"
  by (simp_all add: layout layout_simps struct_perf_raw_frag_def)

lemma struct_perf_raw_record_layout [layout]:
  "talign struct_perf_raw_record = 4" "tsize struct_perf_raw_record = 32"
    "wft struct_perf_raw_record" "\<not> natural struct_perf_raw_record"
  by (simp_all add: layout layout_simps struct_perf_raw_record_def)

lemma struct_perf_branch_entry_layout [layout]:
  "talign struct_perf_branch_entry = 8" "tsize struct_perf_branch_entry = 24"
    "wft struct_perf_branch_entry" "natural struct_perf_branch_entry"
  by (simp_all add: layout layout_simps struct_perf_branch_entry_def)

lemma struct_perf_branch_stack_layout [layout]:
  "talign struct_perf_branch_stack = 8" "tsize struct_perf_branch_stack = 16"
    "wft struct_perf_branch_stack" "natural struct_perf_branch_stack"
  by (simp_all add: layout layout_simps struct_perf_branch_stack_def)

lemma struct_perf_callchain_entry_layout [layout]:
  "talign struct_perf_callchain_entry = 8" "tsize struct_perf_callchain_entry = 8"
    "wft struct_perf_callchain_entry" "natural struct_perf_callchain_entry"
  by (simp_all add: layout layout_simps struct_perf_callchain_entry_def)

lemma struct_perf_output_handle_layout [layout]:
  "talign struct_perf_output_handle = 8" "tsize struct_perf_output_handle = 56"
    "wft struct_perf_output_handle" "natural struct_perf_output_handle"
  by (simp_all add: layout layout_simps struct_perf_output_handle_def)

lemma struct_perf_guest_info_callbacks_layout [layout]:
  "talign struct_perf_guest_info_callbacks = 8" "tsize struct_perf_guest_info_callbacks = 32"
    "wft struct_perf_guest_info_callbacks" "natural struct_perf_guest_info_callbacks"
  by (simp_all add: layout layout_simps struct_perf_guest_info_callbacks_def)

lemma struct_perf_callchain_entry_ctx_layout [layout]:
  "talign struct_perf_callchain_entry_ctx = 8" "tsize struct_perf_callchain_entry_ctx = 24"
    "wft struct_perf_callchain_entry_ctx" "natural struct_perf_callchain_entry_ctx"
  by (simp_all add: layout layout_simps struct_perf_callchain_entry_ctx_def)

lemma typedef_umode_t_layout [layout]:
  "talign typedef_umode_t = 2" "tsize typedef_umode_t = 2"
    "wft typedef_umode_t" "natural typedef_umode_t"
  by (simp_all add: layout layout_simps typedef_umode_t_def)

lemma struct_attribute_layout [layout]:
  "talign struct_attribute = 8" "tsize struct_attribute = 16"
    "wft struct_attribute" "natural struct_attribute"
  by (simp_all add: layout layout_simps struct_attribute_def)

lemma struct_device_attribute_layout [layout]:
  "talign struct_device_attribute = 8" "tsize struct_device_attribute = 32"
    "wft struct_device_attribute" "natural struct_device_attribute"
  by (simp_all add: layout layout_simps struct_device_attribute_def)

lemma struct_perf_pmu_events_attr_layout [layout]:
  "talign struct_perf_pmu_events_attr = 8" "tsize struct_perf_pmu_events_attr = 48"
    "wft struct_perf_pmu_events_attr" "natural struct_perf_pmu_events_attr"
  by (simp_all add: layout layout_simps struct_perf_pmu_events_attr_def)

lemma struct_perf_event_mmap_page_layout [layout]:
  "talign struct_perf_event_mmap_page = 8" "tsize struct_perf_event_mmap_page = 1088"
    "wft struct_perf_event_mmap_page" "natural struct_perf_event_mmap_page"
  by (simp_all add: layout layout_simps struct_perf_event_mmap_page_def)

lemma struct_perf_domain_layout [layout]:
  "talign struct_perf_domain = 8" "tsize struct_perf_domain = 32"
    "wft struct_perf_domain" "natural struct_perf_domain"
  by (simp_all add: layout layout_simps struct_perf_domain_def)

lemma struct_perf_event_query_bpf_layout [layout]:
  "talign struct_perf_event_query_bpf = 4" "tsize struct_perf_event_query_bpf = 8"
    "wft struct_perf_event_query_bpf" "natural struct_perf_event_query_bpf"
  by (simp_all add: layout layout_simps struct_perf_event_query_bpf_def)

lemma struct_perf_buffer_layout [layout]:
  "talign struct_perf_buffer = 8" "tsize struct_perf_buffer = 240"
    "wft struct_perf_buffer" "natural struct_perf_buffer"
  by (simp_all add: layout layout_simps struct_perf_buffer_def)

lemma struct_perf_addr_filter_layout [layout]:
  "talign struct_perf_addr_filter = 8" "tsize struct_perf_addr_filter = 56"
    "wft struct_perf_addr_filter" "natural struct_perf_addr_filter"
  by (simp_all add: layout layout_simps struct_perf_addr_filter_def)

lemma struct_perf_event_header_layout [layout]:
  "talign struct_perf_event_header = 4" "tsize struct_perf_event_header = 8"
    "wft struct_perf_event_header" "natural struct_perf_event_header"
  by (simp_all add: layout layout_simps struct_perf_event_header_def)

lemma struct_perf_aux_event_layout [layout]:
  "talign struct_perf_aux_event = 4" "tsize struct_perf_aux_event = 16"
    "wft struct_perf_aux_event" "natural struct_perf_aux_event"
  by (simp_all add: layout layout_simps struct_perf_aux_event_def)

lemma struct_perf_switch_event_layout [layout]:
  "talign struct_perf_switch_event = 8" "tsize struct_perf_switch_event = 32"
    "wft struct_perf_switch_event" "natural struct_perf_switch_event"
  by (simp_all add: layout layout_simps struct_perf_switch_event_def)

lemma struct_perf_task_event_layout [layout]:
  "talign struct_perf_task_event = 8" "tsize struct_perf_task_event = 48"
    "wft struct_perf_task_event" "natural struct_perf_task_event"
  by (simp_all add: layout layout_simps struct_perf_task_event_def)

lemma struct_perf_ns_link_info_layout [layout]:
  "talign struct_perf_ns_link_info = 8" "tsize struct_perf_ns_link_info = 16"
    "wft struct_perf_ns_link_info" "natural struct_perf_ns_link_info"
  by (simp_all add: layout layout_simps struct_perf_ns_link_info_def)

lemma struct_perf_comm_event_layout [layout]:
  "talign struct_perf_comm_event = 8" "tsize struct_perf_comm_event = 40"
    "wft struct_perf_comm_event" "natural struct_perf_comm_event"
  by (simp_all add: layout layout_simps struct_perf_comm_event_def)

lemma struct_perf_mmap_event_layout [layout]:
  "talign struct_perf_mmap_event = 8" "tsize struct_perf_mmap_event = 96"
    "wft struct_perf_mmap_event" "natural struct_perf_mmap_event"
  by (simp_all add: layout layout_simps struct_perf_mmap_event_def)

lemma struct_perf_aux_event___2_layout [layout]:
  "talign struct_perf_aux_event___2 = 8" "tsize struct_perf_aux_event___2 = 32"
    "wft struct_perf_aux_event___2" "natural struct_perf_aux_event___2"
  by (simp_all add: layout layout_simps struct_perf_aux_event___2_def)

lemma struct_perf_read_event_layout [layout]:
  "talign struct_perf_read_event = 4" "tsize struct_perf_read_event = 16"
    "wft struct_perf_read_event" "natural struct_perf_read_event"
  by (simp_all add: layout layout_simps struct_perf_read_event_def)

lemma struct_perf_read_data_layout [layout]:
  "talign struct_perf_read_data = 8" "tsize struct_perf_read_data = 16"
    "wft struct_perf_read_data" "natural struct_perf_read_data"
  by (simp_all add: layout layout_simps struct_perf_read_data_def)

lemma struct_perf_namespaces_event_layout [layout]:
  "talign struct_perf_namespaces_event = 8" "tsize struct_perf_namespaces_event = 144"
    "wft struct_perf_namespaces_event" "natural struct_perf_namespaces_event"
  by (simp_all add: layout layout_simps struct_perf_namespaces_event_def)

lemma struct_perf_ksymbol_event_layout [layout]:
  "talign struct_perf_ksymbol_event = 8" "tsize struct_perf_ksymbol_event = 40"
    "wft struct_perf_ksymbol_event" "natural struct_perf_ksymbol_event"
  by (simp_all add: layout layout_simps struct_perf_ksymbol_event_def)

lemma struct_perf_bpf_event_layout [layout]:
  "talign struct_perf_bpf_event = 8" "tsize struct_perf_bpf_event = 32"
    "wft struct_perf_bpf_event" "natural struct_perf_bpf_event"
  by (simp_all add: layout layout_simps struct_perf_bpf_event_def)

lemma struct_perf_text_poke_event_layout [layout]:
  "talign struct_perf_text_poke_event = 8" "tsize struct_perf_text_poke_event = 48"
    "wft struct_perf_text_poke_event" "natural struct_perf_text_poke_event"
  by (simp_all add: layout layout_simps struct_perf_text_poke_event_def)

lemma struct_perf_event_security_struct_layout [layout]:
  "talign struct_perf_event_security_struct = 4" "tsize struct_perf_event_security_struct = 4"
    "wft struct_perf_event_security_struct" "natural struct_perf_event_security_struct"
  by (simp_all add: layout layout_simps struct_perf_event_security_struct_def)

lemma struct_scmi_opp_layout [layout]:
  "talign struct_scmi_opp = 4" "tsize struct_scmi_opp = 12"
    "wft struct_scmi_opp" "natural struct_scmi_opp"
  by (simp_all add: layout layout_simps struct_scmi_opp_def)

lemma struct_perf_dom_info_layout [layout]:
  "talign struct_perf_dom_info = 8" "tsize struct_perf_dom_info = 240"
    "wft struct_perf_dom_info" "natural struct_perf_dom_info"
  by (simp_all add: layout layout_simps struct_perf_dom_info_def)

lemma typedef_kprobe_pre_handler_t_layout [layout]:
  "talign typedef_kprobe_pre_handler_t = 8" "tsize typedef_kprobe_pre_handler_t = 8"
    "wft typedef_kprobe_pre_handler_t" "natural typedef_kprobe_pre_handler_t"
  by (simp_all add: layout layout_simps typedef_kprobe_pre_handler_t_def)

lemma typedef_kprobe_post_handler_t_layout [layout]:
  "talign typedef_kprobe_post_handler_t = 8" "tsize typedef_kprobe_post_handler_t = 8"
    "wft typedef_kprobe_post_handler_t" "natural typedef_kprobe_post_handler_t"
  by (simp_all add: layout layout_simps typedef_kprobe_post_handler_t_def)

lemma typedef_kprobe_fault_handler_t_layout [layout]:
  "talign typedef_kprobe_fault_handler_t = 8" "tsize typedef_kprobe_fault_handler_t = 8"
    "wft typedef_kprobe_fault_handler_t" "natural typedef_kprobe_fault_handler_t"
  by (simp_all add: layout layout_simps typedef_kprobe_fault_handler_t_def)

lemma typedef_kprobe_opcode_t_layout [layout]:
  "talign typedef_kprobe_opcode_t = 4" "tsize typedef_kprobe_opcode_t = 4"
    "wft typedef_kprobe_opcode_t" "natural typedef_kprobe_opcode_t"
  by (simp_all add: layout layout_simps typedef_kprobe_opcode_t_def)

lemma struct_arch_specific_insn_layout [layout]:
  "talign struct_arch_specific_insn = 8" "tsize struct_arch_specific_insn = 32"
    "wft struct_arch_specific_insn" "natural struct_arch_specific_insn"
  by (simp_all add: layout layout_simps struct_arch_specific_insn_def)

lemma struct_kprobe_layout [layout]:
  "talign struct_kprobe = 8" "tsize struct_kprobe = 136" "wft struct_kprobe" "natural struct_kprobe"
  by (simp_all add: layout layout_simps struct_kprobe_def)

lemma struct_kprobe_step_ctx_layout [layout]:
  "talign struct_kprobe_step_ctx = 8" "tsize struct_kprobe_step_ctx = 16"
    "wft struct_kprobe_step_ctx" "natural struct_kprobe_step_ctx"
  by (simp_all add: layout layout_simps struct_kprobe_step_ctx_def)

lemma struct_prev_kprobe_layout [layout]:
  "talign struct_prev_kprobe = 8" "tsize struct_prev_kprobe = 16"
    "wft struct_prev_kprobe" "natural struct_prev_kprobe"
  by (simp_all add: layout layout_simps struct_prev_kprobe_def)

lemma struct_kprobe_ctlblk_layout [layout]:
  "talign struct_kprobe_ctlblk = 8" "tsize struct_kprobe_ctlblk = 48"
    "wft struct_kprobe_ctlblk" "natural struct_kprobe_ctlblk"
  by (simp_all add: layout layout_simps struct_kprobe_ctlblk_def)

lemma struct_kretprobe_instance_layout [layout]:
  "talign struct_kretprobe_instance = 8" "tsize struct_kretprobe_instance = 48"
    "wft struct_kretprobe_instance" "natural struct_kretprobe_instance"
  by (simp_all add: layout layout_simps struct_kretprobe_instance_def)

lemma typedef_kretprobe_handler_t_layout [layout]:
  "talign typedef_kretprobe_handler_t = 8" "tsize typedef_kretprobe_handler_t = 8"
    "wft typedef_kretprobe_handler_t" "natural typedef_kretprobe_handler_t"
  by (simp_all add: layout layout_simps typedef_kretprobe_handler_t_def)

lemma struct_kretprobe_layout [layout]:
  "talign struct_kretprobe = 8" "tsize struct_kretprobe = 184"
    "wft struct_kretprobe" "natural struct_kretprobe"
  by (simp_all add: layout layout_simps struct_kretprobe_def)

lemma struct_kprobe_insn_cache_layout [layout]:
  "talign struct_kprobe_insn_cache = 8" "tsize struct_kprobe_insn_cache = 104"
    "wft struct_kprobe_insn_cache" "natural struct_kprobe_insn_cache"
  by (simp_all add: layout layout_simps struct_kprobe_insn_cache_def)

lemma struct_kprobe_insn_page_layout [layout]:
  "talign struct_kprobe_insn_page = 8" "tsize struct_kprobe_insn_page = 40"
    "wft struct_kprobe_insn_page" "natural struct_kprobe_insn_page"
  by (simp_all add: layout layout_simps struct_kprobe_insn_page_def)

lemma struct_kprobe_blacklist_entry_layout [layout]:
  "talign struct_kprobe_blacklist_entry = 8" "tsize struct_kprobe_blacklist_entry = 32"
    "wft struct_kprobe_blacklist_entry" "natural struct_kprobe_blacklist_entry"
  by (simp_all add: layout layout_simps struct_kprobe_blacklist_entry_def)

lemma struct_kretprobe_trace_entry_head_layout [layout]:
  "talign struct_kretprobe_trace_entry_head = 8" "tsize struct_kretprobe_trace_entry_head = 24"
    "wft struct_kretprobe_trace_entry_head" "natural struct_kretprobe_trace_entry_head"
  by (simp_all add: layout layout_simps struct_kretprobe_trace_entry_head_def)

lemma struct_kprobe_trace_entry_head_layout [layout]:
  "talign struct_kprobe_trace_entry_head = 8" "tsize struct_kprobe_trace_entry_head = 16"
    "wft struct_kprobe_trace_entry_head" "natural struct_kprobe_trace_entry_head"
  by (simp_all add: layout layout_simps struct_kprobe_trace_entry_head_def)

lemma typedef_fmode_t_layout [layout]:
  "talign typedef_fmode_t = 4" "tsize typedef_fmode_t = 4"
    "wft typedef_fmode_t" "natural typedef_fmode_t"
  by (simp_all add: layout layout_simps typedef_fmode_t_def)

lemma struct_fown_struct_layout [layout]:
  "talign struct_fown_struct = 8" "tsize struct_fown_struct = 32"
    "wft struct_fown_struct" "natural struct_fown_struct"
  by (simp_all add: layout layout_simps struct_fown_struct_def)

lemma struct_file_ra_state_layout [layout]:
  "talign struct_file_ra_state = 8" "tsize struct_file_ra_state = 32"
    "wft struct_file_ra_state" "natural struct_file_ra_state"
  by (simp_all add: layout layout_simps struct_file_ra_state_def)

lemma typedef_errseq_t_layout [layout]:
  "talign typedef_errseq_t = 4" "tsize typedef_errseq_t = 4"
    "wft typedef_errseq_t" "natural typedef_errseq_t"
  by (simp_all add: layout layout_simps typedef_errseq_t_def)

lemma struct_file_layout [layout]:
  "talign struct_file = 8" "tsize struct_file = 296" "wft struct_file" "natural struct_file"
  by (simp_all add: layout layout_simps struct_file_def)

lemma typedef___kernel_dev_t_layout [layout]:
  "talign typedef___kernel_dev_t = 4" "tsize typedef___kernel_dev_t = 4"
    "wft typedef___kernel_dev_t" "natural typedef___kernel_dev_t"
  by (simp_all add: layout layout_simps typedef___kernel_dev_t_def)

lemma typedef_dev_t_layout [layout]:
  "talign typedef_dev_t = 4" "tsize typedef_dev_t = 4" "wft typedef_dev_t" "natural typedef_dev_t"
  by (simp_all add: layout layout_simps typedef_dev_t_def)

lemma typedef_time64_t_layout [layout]:
  "talign typedef_time64_t = 8" "tsize typedef_time64_t = 8"
    "wft typedef_time64_t" "natural typedef_time64_t"
  by (simp_all add: layout layout_simps typedef_time64_t_def)

lemma struct_timespec64_layout [layout]:
  "talign struct_timespec64 = 8" "tsize struct_timespec64 = 16"
    "wft struct_timespec64" "natural struct_timespec64"
  by (simp_all add: layout layout_simps struct_timespec64_def)

lemma typedef_blkcnt_t_layout [layout]:
  "talign typedef_blkcnt_t = 8" "tsize typedef_blkcnt_t = 8"
    "wft typedef_blkcnt_t" "natural typedef_blkcnt_t"
  by (simp_all add: layout layout_simps typedef_blkcnt_t_def)

lemma struct_xarray_layout [layout]:
  "talign struct_xarray = 8" "tsize struct_xarray = 16" "wft struct_xarray" "natural struct_xarray"
  by (simp_all add: layout layout_simps struct_xarray_def)

lemma struct_address_space_layout [layout]:
  "talign struct_address_space = 8" "tsize struct_address_space = 224"
    "wft struct_address_space" "natural struct_address_space"
  by (simp_all add: layout layout_simps struct_address_space_def)

lemma struct_inode_layout [layout]:
  "talign struct_inode = 8" "tsize struct_inode = 704" "wft struct_inode" "natural struct_inode"
  by (simp_all add: layout layout_simps struct_inode_def)

lemma struct_hlist_bl_node_layout [layout]:
  "talign struct_hlist_bl_node = 8" "tsize struct_hlist_bl_node = 16"
    "wft struct_hlist_bl_node" "natural struct_hlist_bl_node"
  by (simp_all add: layout layout_simps struct_hlist_bl_node_def)

lemma struct_qstr_layout [layout]:
  "talign struct_qstr = 8" "tsize struct_qstr = 16" "wft struct_qstr" "natural struct_qstr"
  by (simp_all add: layout layout_simps struct_qstr_def)

lemma struct_lockref_layout [layout]:
  "talign struct_lockref = 8" "tsize struct_lockref = 8"
    "wft struct_lockref" "natural struct_lockref"
  by (simp_all add: layout layout_simps struct_lockref_def)

lemma struct_dentry_layout [layout]:
  "talign struct_dentry = 8" "tsize struct_dentry = 208" "wft struct_dentry" "natural struct_dentry"
  by (simp_all add: layout layout_simps struct_dentry_def)

lemma struct_hlist_bl_head_layout [layout]:
  "talign struct_hlist_bl_head = 8" "tsize struct_hlist_bl_head = 8"
    "wft struct_hlist_bl_head" "natural struct_hlist_bl_head"
  by (simp_all add: layout layout_simps struct_hlist_bl_head_def)

lemma typedef_qsize_t_layout [layout]:
  "talign typedef_qsize_t = 8" "tsize typedef_qsize_t = 8"
    "wft typedef_qsize_t" "natural typedef_qsize_t"
  by (simp_all add: layout layout_simps typedef_qsize_t_def)

lemma struct_mem_dqinfo_layout [layout]:
  "talign struct_mem_dqinfo = 8" "tsize struct_mem_dqinfo = 72"
    "wft struct_mem_dqinfo" "natural struct_mem_dqinfo"
  by (simp_all add: layout layout_simps struct_mem_dqinfo_def)

lemma struct_quota_info_layout [layout]:
  "talign struct_quota_info = 8" "tsize struct_quota_info = 336"
    "wft struct_quota_info" "natural struct_quota_info"
  by (simp_all add: layout layout_simps struct_quota_info_def)

lemma struct_rcu_sync_layout [layout]:
  "talign struct_rcu_sync = 8" "tsize struct_rcu_sync = 48"
    "wft struct_rcu_sync" "natural struct_rcu_sync"
  by (simp_all add: layout layout_simps struct_rcu_sync_def)

lemma struct_rcuwait_layout [layout]:
  "talign struct_rcuwait = 8" "tsize struct_rcuwait = 8"
    "wft struct_rcuwait" "natural struct_rcuwait"
  by (simp_all add: layout layout_simps struct_rcuwait_def)

lemma struct_percpu_rw_semaphore_layout [layout]:
  "talign struct_percpu_rw_semaphore = 8" "tsize struct_percpu_rw_semaphore = 96"
    "wft struct_percpu_rw_semaphore" "natural struct_percpu_rw_semaphore"
  by (simp_all add: layout layout_simps struct_percpu_rw_semaphore_def)

lemma struct_sb_writers_layout [layout]:
  "talign struct_sb_writers = 8" "tsize struct_sb_writers = 320"
    "wft struct_sb_writers" "natural struct_sb_writers"
  by (simp_all add: layout layout_simps struct_sb_writers_def)

lemma typedef_uuid_t_layout [layout]:
  "talign typedef_uuid_t = 1" "tsize typedef_uuid_t = 16"
    "wft typedef_uuid_t" "natural typedef_uuid_t"
  by (simp_all add: layout layout_simps typedef_uuid_t_def)

lemma struct_shrinker_layout [layout]:
  "talign struct_shrinker = 8" "tsize struct_shrinker = 64"
    "wft struct_shrinker" "natural struct_shrinker"
  by (simp_all add: layout layout_simps struct_shrinker_def)

lemma struct_list_lru_layout [layout]:
  "talign struct_list_lru = 8" "tsize struct_list_lru = 32"
    "wft struct_list_lru" "natural struct_list_lru"
  by (simp_all add: layout layout_simps struct_list_lru_def)

lemma struct_super_block_layout [layout]:
  "talign struct_super_block = 8" "tsize struct_super_block = 1600"
    "wft struct_super_block" "natural struct_super_block"
  by (simp_all add: layout layout_simps struct_super_block_def)

lemma typedef_pgtable_t_layout [layout]:
  "talign typedef_pgtable_t = 8" "tsize typedef_pgtable_t = 8"
    "wft typedef_pgtable_t" "natural typedef_pgtable_t"
  by (simp_all add: layout layout_simps typedef_pgtable_t_def)

lemma struct_page_layout [layout]:
  "talign struct_page = 8" "tsize struct_page = 64" "wft struct_page" "natural struct_page"
  by (simp_all add: layout layout_simps struct_page_def)

lemma struct_vfsmount_layout [layout]:
  "talign struct_vfsmount = 8" "tsize struct_vfsmount = 56"
    "wft struct_vfsmount" "natural struct_vfsmount"
  by (simp_all add: layout layout_simps struct_vfsmount_def)

lemma struct_fdtable_layout [layout]:
  "talign struct_fdtable = 8" "tsize struct_fdtable = 56"
    "wft struct_fdtable" "natural struct_fdtable"
  by (simp_all add: layout layout_simps struct_fdtable_def)

lemma struct_files_struct_layout [layout]:
  "talign struct_files_struct = 8" "tsize struct_files_struct = 704"
    "wft struct_files_struct" "natural struct_files_struct"
  by (simp_all add: layout layout_simps struct_files_struct_def)

lemma struct_fs_struct_layout [layout]:
  "talign struct_fs_struct = 8" "tsize struct_fs_struct = 56"
    "wft struct_fs_struct" "natural struct_fs_struct"
  by (simp_all add: layout layout_simps struct_fs_struct_def)

lemma struct_nsproxy_layout [layout]:
  "talign struct_nsproxy = 8" "tsize struct_nsproxy = 72"
    "wft struct_nsproxy" "natural struct_nsproxy"
  by (simp_all add: layout layout_simps struct_nsproxy_def)

lemma struct_uid_gid_extent_layout [layout]:
  "talign struct_uid_gid_extent = 4" "tsize struct_uid_gid_extent = 12"
    "wft struct_uid_gid_extent" "natural struct_uid_gid_extent"
  by (simp_all add: layout layout_simps struct_uid_gid_extent_def)

lemma struct_uid_gid_map_layout [layout]:
  "talign struct_uid_gid_map = 8" "tsize struct_uid_gid_map = 72"
    "wft struct_uid_gid_map" "natural struct_uid_gid_map"
  by (simp_all add: layout layout_simps struct_uid_gid_map_def)

lemma struct_ns_common_layout [layout]:
  "talign struct_ns_common = 8" "tsize struct_ns_common = 24"
    "wft struct_ns_common" "natural struct_ns_common"
  by (simp_all add: layout layout_simps struct_ns_common_def)

lemma struct_ctl_table_header_layout [layout]:
  "talign struct_ctl_table_header = 8" "tsize struct_ctl_table_header = 80"
    "wft struct_ctl_table_header" "natural struct_ctl_table_header"
  by (simp_all add: layout layout_simps struct_ctl_table_header_def)

lemma struct_ctl_dir_layout [layout]:
  "talign struct_ctl_dir = 8" "tsize struct_ctl_dir = 88"
    "wft struct_ctl_dir" "natural struct_ctl_dir"
  by (simp_all add: layout layout_simps struct_ctl_dir_def)

lemma struct_ctl_table_set_layout [layout]:
  "talign struct_ctl_table_set = 8" "tsize struct_ctl_table_set = 96"
    "wft struct_ctl_table_set" "natural struct_ctl_table_set"
  by (simp_all add: layout layout_simps struct_ctl_table_set_def)

lemma struct_user_namespace_layout [layout]:
  "talign struct_user_namespace = 8" "tsize struct_user_namespace = 592"
    "wft struct_user_namespace" "natural struct_user_namespace"
  by (simp_all add: layout layout_simps struct_user_namespace_def)

lemma struct_idr_layout [layout]:
  "talign struct_idr = 8" "tsize struct_idr = 24" "wft struct_idr" "natural struct_idr"
  by (simp_all add: layout layout_simps struct_idr_def)

lemma struct_pid_namespace_layout [layout]:
  "talign struct_pid_namespace = 8" "tsize struct_pid_namespace = 136"
    "wft struct_pid_namespace" "natural struct_pid_namespace"
  by (simp_all add: layout layout_simps struct_pid_namespace_def)

lemma typedef___sighandler_t_layout [layout]:
  "talign typedef___sighandler_t = 8" "tsize typedef___sighandler_t = 8"
    "wft typedef___sighandler_t" "natural typedef___sighandler_t"
  by (simp_all add: layout layout_simps typedef___sighandler_t_def)

lemma typedef___sigrestore_t_layout [layout]:
  "talign typedef___sigrestore_t = 8" "tsize typedef___sigrestore_t = 8"
    "wft typedef___sigrestore_t" "natural typedef___sigrestore_t"
  by (simp_all add: layout layout_simps typedef___sigrestore_t_def)

lemma struct_sigaction_layout [layout]:
  "talign struct_sigaction = 8" "tsize struct_sigaction = 32"
    "wft struct_sigaction" "natural struct_sigaction"
  by (simp_all add: layout layout_simps struct_sigaction_def)

lemma struct_k_sigaction_layout [layout]:
  "talign struct_k_sigaction = 8" "tsize struct_k_sigaction = 32"
    "wft struct_k_sigaction" "natural struct_k_sigaction"
  by (simp_all add: layout layout_simps struct_k_sigaction_def)

lemma struct_sighand_struct_layout [layout]:
  "talign struct_sighand_struct = 8" "tsize struct_sighand_struct = 2080"
    "wft struct_sighand_struct" "natural struct_sighand_struct"
  by (simp_all add: layout layout_simps struct_sighand_struct_def)

lemma typedef___kernel_timer_t_layout [layout]:
  "talign typedef___kernel_timer_t = 4" "tsize typedef___kernel_timer_t = 4"
    "wft typedef___kernel_timer_t" "natural typedef___kernel_timer_t"
  by (simp_all add: layout layout_simps typedef___kernel_timer_t_def)

lemma union_sigval_layout [layout]:
  "talign union_sigval = 8" "tsize union_sigval = 8" "wft union_sigval" "natural union_sigval"
  by (simp_all add: layout layout_simps union_sigval_def)

lemma typedef_sigval_t_layout [layout]:
  "talign typedef_sigval_t = 8" "tsize typedef_sigval_t = 8"
    "wft typedef_sigval_t" "natural typedef_sigval_t"
  by (simp_all add: layout layout_simps typedef_sigval_t_def)

lemma typedef___kernel_clock_t_layout [layout]:
  "talign typedef___kernel_clock_t = 8" "tsize typedef___kernel_clock_t = 8"
    "wft typedef___kernel_clock_t" "natural typedef___kernel_clock_t"
  by (simp_all add: layout layout_simps typedef___kernel_clock_t_def)

lemma union___sifields_layout [layout]:
  "talign union___sifields = 8" "tsize union___sifields = 32"
    "wft union___sifields" "natural union___sifields"
  by (simp_all add: layout layout_simps union___sifields_def)

lemma struct_kernel_siginfo_layout [layout]:
  "talign struct_kernel_siginfo = 8" "tsize struct_kernel_siginfo = 48"
    "wft struct_kernel_siginfo" "natural struct_kernel_siginfo"
  by (simp_all add: layout layout_simps struct_kernel_siginfo_def)

lemma struct_linux_binprm_layout [layout]:
  "talign struct_linux_binprm = 8" "tsize struct_linux_binprm = 416"
    "wft struct_linux_binprm" "natural struct_linux_binprm"
  by (simp_all add: layout layout_simps struct_linux_binprm_def)

lemma struct_seq_file_layout [layout]:
  "talign struct_seq_file = 8" "tsize struct_seq_file = 136"
    "wft struct_seq_file" "natural struct_seq_file"
  by (simp_all add: layout layout_simps struct_seq_file_def)

lemma struct_file_operations_layout [layout]:
  "talign struct_file_operations = 8" "tsize struct_file_operations = 288"
    "wft struct_file_operations" "natural struct_file_operations"
  by (simp_all add: layout layout_simps struct_file_operations_def)

lemma struct_inode_operations_layout [layout]:
  "talign struct_inode_operations = 8" "tsize struct_inode_operations = 256"
    "wft struct_inode_operations" "natural struct_inode_operations"
  by (simp_all add: layout layout_simps struct_inode_operations_def)

lemma struct_vm_operations_struct_layout [layout]:
  "talign struct_vm_operations_struct = 8" "tsize struct_vm_operations_struct = 144"
    "wft struct_vm_operations_struct" "natural struct_vm_operations_struct"
  by (simp_all add: layout layout_simps struct_vm_operations_struct_def)

lemma typedef_Elf64_Half_layout [layout]:
  "talign typedef_Elf64_Half = 2" "tsize typedef_Elf64_Half = 2"
    "wft typedef_Elf64_Half" "natural typedef_Elf64_Half"
  by (simp_all add: layout layout_simps typedef_Elf64_Half_def)

lemma typedef_Elf64_Word_layout [layout]:
  "talign typedef_Elf64_Word = 4" "tsize typedef_Elf64_Word = 4"
    "wft typedef_Elf64_Word" "natural typedef_Elf64_Word"
  by (simp_all add: layout layout_simps typedef_Elf64_Word_def)

lemma typedef_Elf64_Addr_layout [layout]:
  "talign typedef_Elf64_Addr = 8" "tsize typedef_Elf64_Addr = 8"
    "wft typedef_Elf64_Addr" "natural typedef_Elf64_Addr"
  by (simp_all add: layout layout_simps typedef_Elf64_Addr_def)

lemma typedef_Elf64_Off_layout [layout]:
  "talign typedef_Elf64_Off = 8" "tsize typedef_Elf64_Off = 8"
    "wft typedef_Elf64_Off" "natural typedef_Elf64_Off"
  by (simp_all add: layout layout_simps typedef_Elf64_Off_def)

lemma struct_elf64_hdr_layout [layout]:
  "talign struct_elf64_hdr = 8" "tsize struct_elf64_hdr = 64"
    "wft struct_elf64_hdr" "natural struct_elf64_hdr"
  by (simp_all add: layout layout_simps struct_elf64_hdr_def)

lemma typedef_Elf64_Xword_layout [layout]:
  "talign typedef_Elf64_Xword = 8" "tsize typedef_Elf64_Xword = 8"
    "wft typedef_Elf64_Xword" "natural typedef_Elf64_Xword"
  by (simp_all add: layout layout_simps typedef_Elf64_Xword_def)

lemma struct_elf64_shdr_layout [layout]:
  "talign struct_elf64_shdr = 8" "tsize struct_elf64_shdr = 64"
    "wft struct_elf64_shdr" "natural struct_elf64_shdr"
  by (simp_all add: layout layout_simps struct_elf64_shdr_def)

lemma struct_elf64_sym_layout [layout]:
  "talign struct_elf64_sym = 8" "tsize struct_elf64_sym = 24"
    "wft struct_elf64_sym" "natural struct_elf64_sym"
  by (simp_all add: layout layout_simps struct_elf64_sym_def)

lemma struct_elf_siginfo_layout [layout]:
  "talign struct_elf_siginfo = 4" "tsize struct_elf_siginfo = 12"
    "wft struct_elf_siginfo" "natural struct_elf_siginfo"
  by (simp_all add: layout layout_simps struct_elf_siginfo_def)

lemma struct___kernel_old_timeval_layout [layout]:
  "talign struct___kernel_old_timeval = 8" "tsize struct___kernel_old_timeval = 16"
    "wft struct___kernel_old_timeval" "natural struct___kernel_old_timeval"
  by (simp_all add: layout layout_simps struct___kernel_old_timeval_def)

lemma typedef_elf_greg_t_layout [layout]:
  "talign typedef_elf_greg_t = 8" "tsize typedef_elf_greg_t = 8"
    "wft typedef_elf_greg_t" "natural typedef_elf_greg_t"
  by (simp_all add: layout layout_simps typedef_elf_greg_t_def)

lemma typedef_elf_gregset_t_layout [layout]:
  "talign typedef_elf_gregset_t = 8" "tsize typedef_elf_gregset_t = 272"
    "wft typedef_elf_gregset_t" "natural typedef_elf_gregset_t"
  by (simp_all add: layout layout_simps typedef_elf_gregset_t_def)

lemma struct_elf_prstatus_layout [layout]:
  "talign struct_elf_prstatus = 8" "tsize struct_elf_prstatus = 392"
    "wft struct_elf_prstatus" "natural struct_elf_prstatus"
  by (simp_all add: layout layout_simps struct_elf_prstatus_def)

lemma struct_seccomp_data_layout [layout]:
  "talign struct_seccomp_data = 8" "tsize struct_seccomp_data = 64"
    "wft struct_seccomp_data" "natural struct_seccomp_data"
  by (simp_all add: layout layout_simps struct_seccomp_data_def)

lemma struct_sched_class_layout [layout]:
  "talign struct_sched_class = 8" "tsize struct_sched_class = 224"
    "wft struct_sched_class" "natural struct_sched_class"
  by (simp_all add: layout layout_simps struct_sched_class_def)

lemma struct_cfs_rq_layout [layout]:
  "talign struct_cfs_rq = 8" "tsize struct_cfs_rq = 512" "wft struct_cfs_rq" "natural struct_cfs_rq"
  by (simp_all add: layout layout_simps struct_cfs_rq_def)

lemma typedef_smp_call_func_t_layout [layout]:
  "talign typedef_smp_call_func_t = 8" "tsize typedef_smp_call_func_t = 8"
    "wft typedef_smp_call_func_t" "natural typedef_smp_call_func_t"
  by (simp_all add: layout layout_simps typedef_smp_call_func_t_def)

lemma struct___call_single_data_layout [layout]:
  "talign struct___call_single_data = 8" "tsize struct___call_single_data = 32"
    "wft struct___call_single_data" "natural struct___call_single_data"
  by (simp_all add: layout layout_simps struct___call_single_data_def)

lemma typedef_call_single_data_t_layout [layout]:
  "talign typedef_call_single_data_t = 8" "tsize typedef_call_single_data_t = 32"
    "wft typedef_call_single_data_t" "natural typedef_call_single_data_t"
  by (simp_all add: layout layout_simps typedef_call_single_data_t_def)

lemma struct_uclamp_bucket_layout [layout]:
  "talign struct_uclamp_bucket = 8" "tsize struct_uclamp_bucket = 8"
    "wft struct_uclamp_bucket" "natural struct_uclamp_bucket"
  by (simp_all add: layout layout_simps struct_uclamp_bucket_def)

lemma struct_uclamp_rq_layout [layout]:
  "talign struct_uclamp_rq = 8" "tsize struct_uclamp_rq = 168"
    "wft struct_uclamp_rq" "natural struct_uclamp_rq"
  by (simp_all add: layout layout_simps struct_uclamp_rq_def)

lemma struct_rt_prio_array_layout [layout]:
  "talign struct_rt_prio_array = 8" "tsize struct_rt_prio_array = 1616"
    "wft struct_rt_prio_array" "natural struct_rt_prio_array"
  by (simp_all add: layout layout_simps struct_rt_prio_array_def)

lemma struct_plist_head_layout [layout]:
  "talign struct_plist_head = 8" "tsize struct_plist_head = 16"
    "wft struct_plist_head" "natural struct_plist_head"
  by (simp_all add: layout layout_simps struct_plist_head_def)

lemma struct_rt_rq_layout [layout]:
  "talign struct_rt_rq = 8" "tsize struct_rt_rq = 1704" "wft struct_rt_rq" "natural struct_rt_rq"
  by (simp_all add: layout layout_simps struct_rt_rq_def)

lemma struct_dl_rq_layout [layout]:
  "talign struct_dl_rq = 8" "tsize struct_dl_rq = 104" "wft struct_dl_rq" "natural struct_dl_rq"
  by (simp_all add: layout layout_simps struct_dl_rq_def)

lemma typedef_cpu_stop_fn_t_layout [layout]:
  "talign typedef_cpu_stop_fn_t = 8" "tsize typedef_cpu_stop_fn_t = 8"
    "wft typedef_cpu_stop_fn_t" "natural typedef_cpu_stop_fn_t"
  by (simp_all add: layout layout_simps typedef_cpu_stop_fn_t_def)

lemma struct_cpu_stop_work_layout [layout]:
  "talign struct_cpu_stop_work = 8" "tsize struct_cpu_stop_work = 40"
    "wft struct_cpu_stop_work" "natural struct_cpu_stop_work"
  by (simp_all add: layout layout_simps struct_cpu_stop_work_def)

lemma struct_cpu_stop_done_layout [layout]:
  "talign struct_cpu_stop_done = 8" "tsize struct_cpu_stop_done = 40"
    "wft struct_cpu_stop_done" "natural struct_cpu_stop_done"
  by (simp_all add: layout layout_simps struct_cpu_stop_done_def)

lemma struct_rq_layout [layout]:
  "talign struct_rq = 8" "tsize struct_rq = 4672" "wft struct_rq" "natural struct_rq"
  by (simp_all add: layout layout_simps struct_rq_def)

lemma struct_rcu_work_layout [layout]:
  "talign struct_rcu_work = 8" "tsize struct_rcu_work = 72"
    "wft struct_rcu_work" "natural struct_rcu_work"
  by (simp_all add: layout layout_simps struct_rcu_work_def)

lemma struct_cgroup_subsys_state_layout [layout]:
  "talign struct_cgroup_subsys_state = 8" "tsize struct_cgroup_subsys_state = 232"
    "wft struct_cgroup_subsys_state" "natural struct_cgroup_subsys_state"
  by (simp_all add: layout layout_simps struct_cgroup_subsys_state_def)

lemma struct_cgroup_file_layout [layout]:
  "talign struct_cgroup_file = 8" "tsize struct_cgroup_file = 72"
    "wft struct_cgroup_file" "natural struct_cgroup_file"
  by (simp_all add: layout layout_simps struct_cgroup_file_def)

lemma struct_task_cputime_layout [layout]:
  "talign struct_task_cputime = 8" "tsize struct_task_cputime = 24"
    "wft struct_task_cputime" "natural struct_task_cputime"
  by (simp_all add: layout layout_simps struct_task_cputime_def)

lemma struct_cgroup_base_stat_layout [layout]:
  "talign struct_cgroup_base_stat = 8" "tsize struct_cgroup_base_stat = 24"
    "wft struct_cgroup_base_stat" "natural struct_cgroup_base_stat"
  by (simp_all add: layout layout_simps struct_cgroup_base_stat_def)

lemma struct_psi_group_layout [layout]:
  "talign struct_psi_group = 8" "tsize struct_psi_group = 696"
    "wft struct_psi_group" "natural struct_psi_group"
  by (simp_all add: layout layout_simps struct_psi_group_def)

lemma struct_cgroup_bpf_layout [layout]:
  "talign struct_cgroup_bpf = 8" "tsize struct_cgroup_bpf = 1152"
    "wft struct_cgroup_bpf" "natural struct_cgroup_bpf"
  by (simp_all add: layout layout_simps struct_cgroup_bpf_def)

lemma struct_cgroup_freezer_state_layout [layout]:
  "talign struct_cgroup_freezer_state = 4" "tsize struct_cgroup_freezer_state = 16"
    "wft struct_cgroup_freezer_state" "natural struct_cgroup_freezer_state"
  by (simp_all add: layout layout_simps struct_cgroup_freezer_state_def)

lemma struct_cgroup_layout [layout]:
  "talign struct_cgroup = 8" "tsize struct_cgroup = 2752"
    "wft struct_cgroup" "natural struct_cgroup"
  by (simp_all add: layout layout_simps struct_cgroup_def)

lemma struct_mem_cgroup_id_layout [layout]:
  "talign struct_mem_cgroup_id = 4" "tsize struct_mem_cgroup_id = 8"
    "wft struct_mem_cgroup_id" "natural struct_mem_cgroup_id"
  by (simp_all add: layout layout_simps struct_mem_cgroup_id_def)

lemma struct_page_counter_layout [layout]:
  "talign struct_page_counter = 8" "tsize struct_page_counter = 112"
    "wft struct_page_counter" "natural struct_page_counter"
  by (simp_all add: layout layout_simps struct_page_counter_def)

lemma struct_vmpressure_layout [layout]:
  "talign struct_vmpressure = 8" "tsize struct_vmpressure = 152"
    "wft struct_vmpressure" "natural struct_vmpressure"
  by (simp_all add: layout layout_simps struct_vmpressure_def)

lemma struct_mem_cgroup_thresholds_layout [layout]:
  "talign struct_mem_cgroup_thresholds = 8" "tsize struct_mem_cgroup_thresholds = 16"
    "wft struct_mem_cgroup_thresholds" "natural struct_mem_cgroup_thresholds"
  by (simp_all add: layout layout_simps struct_mem_cgroup_thresholds_def)

lemma struct_memcg_padding_layout [layout]:
  "talign struct_memcg_padding = 1" "tsize struct_memcg_padding = 0"
    "wft struct_memcg_padding" "natural struct_memcg_padding"
  by (simp_all add: layout layout_simps struct_memcg_padding_def)

lemma struct_percpu_counter_layout [layout]:
  "talign struct_percpu_counter = 8" "tsize struct_percpu_counter = 40"
    "wft struct_percpu_counter" "natural struct_percpu_counter"
  by (simp_all add: layout layout_simps struct_percpu_counter_def)

lemma struct_fprop_global_layout [layout]:
  "talign struct_fprop_global = 8" "tsize struct_fprop_global = 48"
    "wft struct_fprop_global" "natural struct_fprop_global"
  by (simp_all add: layout layout_simps struct_fprop_global_def)

lemma struct_wb_domain_layout [layout]:
  "talign struct_wb_domain = 8" "tsize struct_wb_domain = 136"
    "wft struct_wb_domain" "natural struct_wb_domain"
  by (simp_all add: layout layout_simps struct_wb_domain_def)

lemma struct_wb_completion_layout [layout]:
  "talign struct_wb_completion = 8" "tsize struct_wb_completion = 16"
    "wft struct_wb_completion" "natural struct_wb_completion"
  by (simp_all add: layout layout_simps struct_wb_completion_def)

lemma struct_memcg_cgwb_frn_layout [layout]:
  "talign struct_memcg_cgwb_frn = 8" "tsize struct_memcg_cgwb_frn = 40"
    "wft struct_memcg_cgwb_frn" "natural struct_memcg_cgwb_frn"
  by (simp_all add: layout layout_simps struct_memcg_cgwb_frn_def)

lemma struct_deferred_split_layout [layout]:
  "talign struct_deferred_split = 8" "tsize struct_deferred_split = 32"
    "wft struct_deferred_split" "natural struct_deferred_split"
  by (simp_all add: layout layout_simps struct_deferred_split_def)

lemma struct_lru_gen_mm_list_layout [layout]:
  "talign struct_lru_gen_mm_list = 8" "tsize struct_lru_gen_mm_list = 24"
    "wft struct_lru_gen_mm_list" "natural struct_lru_gen_mm_list"
  by (simp_all add: layout layout_simps struct_lru_gen_mm_list_def)

lemma struct_mem_cgroup_layout [layout]:
  "talign struct_mem_cgroup = 8" "tsize struct_mem_cgroup = 2944"
    "wft struct_mem_cgroup" "natural struct_mem_cgroup"
  by (simp_all add: layout layout_simps struct_mem_cgroup_def)

lemma struct_pmu_layout [layout]:
  "talign struct_pmu = 8" "tsize struct_pmu = 296" "wft struct_pmu" "natural struct_pmu"
  by (simp_all add: layout layout_simps struct_pmu_def)

lemma struct_static_key_layout [layout]:
  "talign struct_static_key = 8" "tsize struct_static_key = 16"
    "wft struct_static_key" "natural struct_static_key"
  by (simp_all add: layout layout_simps struct_static_key_def)

lemma struct_tracepoint_layout [layout]:
  "talign struct_tracepoint = 8" "tsize struct_tracepoint = 72"
    "wft struct_tracepoint" "natural struct_tracepoint"
  by (simp_all add: layout layout_simps struct_tracepoint_def)

lemma struct_array_buffer_layout [layout]:
  "talign struct_array_buffer = 8" "tsize struct_array_buffer = 40"
    "wft struct_array_buffer" "natural struct_array_buffer"
  by (simp_all add: layout layout_simps struct_array_buffer_def)

lemma typedef_cpumask_var_t_layout [layout]:
  "talign typedef_cpumask_var_t = 8" "tsize typedef_cpumask_var_t = 8"
    "wft typedef_cpumask_var_t" "natural typedef_cpumask_var_t"
  by (simp_all add: layout layout_simps typedef_cpumask_var_t_def)

lemma struct_trace_array_layout [layout]:
  "talign struct_trace_array = 8" "tsize struct_trace_array = 304"
    "wft struct_trace_array" "natural struct_trace_array"
  by (simp_all add: layout layout_simps struct_trace_array_def)

lemma struct_seq_buf_layout [layout]:
  "talign struct_seq_buf = 8" "tsize struct_seq_buf = 32"
    "wft struct_seq_buf" "natural struct_seq_buf"
  by (simp_all add: layout layout_simps struct_seq_buf_def)

lemma struct_trace_seq_layout [layout]:
  "talign struct_trace_seq = 8" "tsize struct_trace_seq = 4136"
    "wft struct_trace_seq" "natural struct_trace_seq"
  by (simp_all add: layout layout_simps struct_trace_seq_def)

lemma struct_trace_iterator_layout [layout]:
  "talign struct_trace_iterator = 8" "tsize struct_trace_iterator = 8464"
    "wft struct_trace_iterator" "natural struct_trace_iterator"
  by (simp_all add: layout layout_simps struct_trace_iterator_def)

lemma struct_tracer_layout [layout]:
  "talign struct_tracer = 8" "tsize struct_tracer = 152" "wft struct_tracer" "natural struct_tracer"
  by (simp_all add: layout layout_simps struct_tracer_def)

lemma struct_bpf_storage_buffer_layout [layout]:
  "talign struct_bpf_storage_buffer = 8" "tsize struct_bpf_storage_buffer = 16"
    "wft struct_bpf_storage_buffer" "natural struct_bpf_storage_buffer"
  by (simp_all add: layout layout_simps struct_bpf_storage_buffer_def)

lemma struct_bpf_xdp_entity_layout [layout]:
  "talign struct_bpf_xdp_entity = 8" "tsize struct_bpf_xdp_entity = 16"
    "wft struct_bpf_xdp_entity" "natural struct_bpf_xdp_entity"
  by (simp_all add: layout layout_simps struct_bpf_xdp_entity_def)

lemma struct_bpf_map_dev_ops_layout [layout]:
  "talign struct_bpf_map_dev_ops = 8" "tsize struct_bpf_map_dev_ops = 40"
    "wft struct_bpf_map_dev_ops" "natural struct_bpf_map_dev_ops"
  by (simp_all add: layout layout_simps struct_bpf_map_dev_ops_def)

lemma struct_xdp_mem_info_layout [layout]:
  "talign struct_xdp_mem_info = 4" "tsize struct_xdp_mem_info = 8"
    "wft struct_xdp_mem_info" "natural struct_xdp_mem_info"
  by (simp_all add: layout layout_simps struct_xdp_mem_info_def)

lemma struct_xdp_frame_layout [layout]:
  "talign struct_xdp_frame = 8" "tsize struct_xdp_frame = 32"
    "wft struct_xdp_frame" "natural struct_xdp_frame"
  by (simp_all add: layout layout_simps struct_xdp_frame_def)

lemma struct_xdp_rxq_info_layout [layout]:
  "talign struct_xdp_rxq_info = 8" "tsize struct_xdp_rxq_info = 64"
    "wft struct_xdp_rxq_info" "natural struct_xdp_rxq_info"
  by (simp_all add: layout layout_simps struct_xdp_rxq_info_def)

lemma struct_bpf_line_info_layout [layout]:
  "talign struct_bpf_line_info = 4" "tsize struct_bpf_line_info = 16"
    "wft struct_bpf_line_info" "natural struct_bpf_line_info"
  by (simp_all add: layout layout_simps struct_bpf_line_info_def)

lemma struct_bpf_nested_pt_regs_layout [layout]:
  "talign struct_bpf_nested_pt_regs = 8" "tsize struct_bpf_nested_pt_regs = 1008"
    "wft struct_bpf_nested_pt_regs" "natural struct_bpf_nested_pt_regs"
  by (simp_all add: layout layout_simps struct_bpf_nested_pt_regs_def)

lemma struct_xdp_cpumap_stats_layout [layout]:
  "talign struct_xdp_cpumap_stats = 4" "tsize struct_xdp_cpumap_stats = 12"
    "wft struct_xdp_cpumap_stats" "natural struct_xdp_cpumap_stats"
  by (simp_all add: layout layout_simps struct_xdp_cpumap_stats_def)

lemma struct_xdp_mem_allocator_layout [layout]:
  "talign struct_xdp_mem_allocator = 8" "tsize struct_xdp_mem_allocator = 40"
    "wft struct_xdp_mem_allocator" "natural struct_xdp_mem_allocator"
  by (simp_all add: layout layout_simps struct_xdp_mem_allocator_def)

lemma struct_bpf_spin_lock_layout [layout]:
  "talign struct_bpf_spin_lock = 4" "tsize struct_bpf_spin_lock = 4"
    "wft struct_bpf_spin_lock" "natural struct_bpf_spin_lock"
  by (simp_all add: layout layout_simps struct_bpf_spin_lock_def)

lemma struct_bpf_tracing_link_layout [layout]:
  "talign struct_bpf_tracing_link = 8" "tsize struct_bpf_tracing_link = 104"
    "wft struct_bpf_tracing_link" "natural struct_bpf_tracing_link"
  by (simp_all add: layout layout_simps struct_bpf_tracing_link_def)

lemma struct_bpf_attach_target_info_layout [layout]:
  "talign struct_bpf_attach_target_info = 8" "tsize struct_bpf_attach_target_info = 40"
    "wft struct_bpf_attach_target_info" "natural struct_bpf_attach_target_info"
  by (simp_all add: layout layout_simps struct_bpf_attach_target_info_def)

lemma struct_bpf_reference_state_layout [layout]:
  "talign struct_bpf_reference_state = 4" "tsize struct_bpf_reference_state = 8"
    "wft struct_bpf_reference_state" "natural struct_bpf_reference_state"
  by (simp_all add: layout layout_simps struct_bpf_reference_state_def)

lemma struct_bpf_call_arg_meta_layout [layout]:
  "talign struct_bpf_call_arg_meta = 8" "tsize struct_bpf_call_arg_meta = 48"
    "wft struct_bpf_call_arg_meta" "natural struct_bpf_call_arg_meta"
  by (simp_all add: layout layout_simps struct_bpf_call_arg_meta_def)

lemma struct_bpf_sanitize_info_layout [layout]:
  "talign struct_bpf_sanitize_info = 8" "tsize struct_bpf_sanitize_info = 48"
    "wft struct_bpf_sanitize_info" "natural struct_bpf_sanitize_info"
  by (simp_all add: layout layout_simps struct_bpf_sanitize_info_def)

lemma struct_umd_info_layout [layout]:
  "talign struct_umd_info = 8" "tsize struct_umd_info = 48"
    "wft struct_umd_info" "natural struct_umd_info"
  by (simp_all add: layout layout_simps struct_umd_info_def)

lemma struct_bpf_preload_ops_layout [layout]:
  "talign struct_bpf_preload_ops = 8" "tsize struct_bpf_preload_ops = 72"
    "wft struct_bpf_preload_ops" "natural struct_bpf_preload_ops"
  by (simp_all add: layout layout_simps struct_bpf_preload_ops_def)

lemma struct_bpf_preload_info_layout [layout]:
  "talign struct_bpf_preload_info = 4" "tsize struct_bpf_preload_info = 20"
    "wft struct_bpf_preload_info" "natural struct_bpf_preload_info"
  by (simp_all add: layout layout_simps struct_bpf_preload_info_def)

lemma struct_bpf_mount_opts_layout [layout]:
  "talign struct_bpf_mount_opts = 2" "tsize struct_bpf_mount_opts = 2"
    "wft struct_bpf_mount_opts" "natural struct_bpf_mount_opts"
  by (simp_all add: layout layout_simps struct_bpf_mount_opts_def)

lemma union_bpf_iter_link_info_layout [layout]:
  "talign union_bpf_iter_link_info = 4" "tsize union_bpf_iter_link_info = 4"
    "wft union_bpf_iter_link_info" "natural union_bpf_iter_link_info"
  by (simp_all add: layout layout_simps union_bpf_iter_link_info_def)

lemma struct_bpf_lpm_trie_key_layout [layout]:
  "talign struct_bpf_lpm_trie_key = 4" "tsize struct_bpf_lpm_trie_key = 4"
    "wft struct_bpf_lpm_trie_key" "natural struct_bpf_lpm_trie_key"
  by (simp_all add: layout layout_simps struct_bpf_lpm_trie_key_def)

lemma struct_bpf_queue_stack_layout [layout]:
  "talign struct_bpf_queue_stack = 8" "tsize struct_bpf_queue_stack = 320"
    "wft struct_bpf_queue_stack" "natural struct_bpf_queue_stack"
  by (simp_all add: layout layout_simps struct_bpf_queue_stack_def)

lemma struct_bpf_flow_keys_layout [layout]:
  "talign struct_bpf_flow_keys = 4" "tsize struct_bpf_flow_keys = 56"
    "wft struct_bpf_flow_keys" "natural struct_bpf_flow_keys"
  by (simp_all add: layout layout_simps struct_bpf_flow_keys_def)

lemma struct_xdp_txq_info_layout [layout]:
  "talign struct_xdp_txq_info = 8" "tsize struct_xdp_txq_info = 8"
    "wft struct_xdp_txq_info" "natural struct_xdp_txq_info"
  by (simp_all add: layout layout_simps struct_xdp_txq_info_def)

lemma struct_xdp_dev_bulk_queue_layout [layout]:
  "talign struct_xdp_dev_bulk_queue = 8" "tsize struct_xdp_dev_bulk_queue = 168"
    "wft struct_xdp_dev_bulk_queue" "natural struct_xdp_dev_bulk_queue"
  by (simp_all add: layout layout_simps struct_xdp_dev_bulk_queue_def)

lemma struct_bpf_dtab_layout [layout]:
  "talign struct_bpf_dtab = 8" "tsize struct_bpf_dtab = 320"
    "wft struct_bpf_dtab" "natural struct_bpf_dtab"
  by (simp_all add: layout layout_simps struct_bpf_dtab_def)

lemma struct_bpf_devmap_val_layout [layout]:
  "talign struct_bpf_devmap_val = 4" "tsize struct_bpf_devmap_val = 8"
    "wft struct_bpf_devmap_val" "natural struct_bpf_devmap_val"
  by (simp_all add: layout layout_simps struct_bpf_devmap_val_def)

lemma struct_bpf_dtab_netdev_layout [layout]:
  "talign struct_bpf_dtab_netdev = 8" "tsize struct_bpf_dtab_netdev = 72"
    "wft struct_bpf_dtab_netdev" "natural struct_bpf_dtab_netdev"
  by (simp_all add: layout layout_simps struct_bpf_dtab_netdev_def)

lemma struct_bpf_cpu_map_layout [layout]:
  "talign struct_bpf_cpu_map = 8" "tsize struct_bpf_cpu_map = 320"
    "wft struct_bpf_cpu_map" "natural struct_bpf_cpu_map"
  by (simp_all add: layout layout_simps struct_bpf_cpu_map_def)

lemma struct_bpf_cpumap_val_layout [layout]:
  "talign struct_bpf_cpumap_val = 4" "tsize struct_bpf_cpumap_val = 8"
    "wft struct_bpf_cpumap_val" "natural struct_bpf_cpumap_val"
  by (simp_all add: layout layout_simps struct_bpf_cpumap_val_def)

lemma struct_bpf_cpu_map_entry_layout [layout]:
  "talign struct_bpf_cpu_map_entry = 8" "tsize struct_bpf_cpu_map_entry = 128"
    "wft struct_bpf_cpu_map_entry" "natural struct_bpf_cpu_map_entry"
  by (simp_all add: layout layout_simps struct_bpf_cpu_map_entry_def)

lemma struct_xdp_bulk_queue_layout [layout]:
  "talign struct_xdp_bulk_queue = 8" "tsize struct_xdp_bulk_queue = 96"
    "wft struct_xdp_bulk_queue" "natural struct_xdp_bulk_queue"
  by (simp_all add: layout layout_simps struct_xdp_bulk_queue_def)

lemma struct_bpf_nh_params_layout [layout]:
  "talign struct_bpf_nh_params = 4" "tsize struct_bpf_nh_params = 20"
    "wft struct_bpf_nh_params" "natural struct_bpf_nh_params"
  by (simp_all add: layout layout_simps struct_bpf_nh_params_def)

lemma struct_bpf_redirect_info_layout [layout]:
  "talign struct_bpf_redirect_info = 8" "tsize struct_bpf_redirect_info = 48"
    "wft struct_bpf_redirect_info" "natural struct_bpf_redirect_info"
  by (simp_all add: layout layout_simps struct_bpf_redirect_info_def)

lemma struct_bpf_local_storage_map_layout [layout]:
  "talign struct_bpf_local_storage_map = 8" "tsize struct_bpf_local_storage_map = 320"
    "wft struct_bpf_local_storage_map" "natural struct_bpf_local_storage_map"
  by (simp_all add: layout layout_simps struct_bpf_local_storage_map_def)

lemma struct_bpf_local_storage_map_bucket_layout [layout]:
  "talign struct_bpf_local_storage_map_bucket = 8" "tsize struct_bpf_local_storage_map_bucket = 16"
    "wft struct_bpf_local_storage_map_bucket" "natural struct_bpf_local_storage_map_bucket"
  by (simp_all add: layout layout_simps struct_bpf_local_storage_map_bucket_def)

lemma struct_bpf_local_storage_layout [layout]:
  "talign struct_bpf_local_storage = 8" "tsize struct_bpf_local_storage = 168"
    "wft struct_bpf_local_storage" "natural struct_bpf_local_storage"
  by (simp_all add: layout layout_simps struct_bpf_local_storage_def)

lemma struct_bpf_local_storage_data_layout [layout]:
  "talign struct_bpf_local_storage_data = 8" "tsize struct_bpf_local_storage_data = 8"
    "wft struct_bpf_local_storage_data" "natural struct_bpf_local_storage_data"
  by (simp_all add: layout layout_simps struct_bpf_local_storage_data_def)

lemma struct_bpf_local_storage_elem_layout [layout]:
  "talign struct_bpf_local_storage_elem = 8" "tsize struct_bpf_local_storage_elem = 128"
    "wft struct_bpf_local_storage_elem" "natural struct_bpf_local_storage_elem"
  by (simp_all add: layout layout_simps struct_bpf_local_storage_elem_def)

lemma struct_bpf_local_storage_cache_layout [layout]:
  "talign struct_bpf_local_storage_cache = 8" "tsize struct_bpf_local_storage_cache = 136"
    "wft struct_bpf_local_storage_cache" "natural struct_bpf_local_storage_cache"
  by (simp_all add: layout layout_simps struct_bpf_local_storage_cache_def)

lemma struct_bpf_netns_link_layout [layout]:
  "talign struct_bpf_netns_link = 8" "tsize struct_bpf_netns_link = 112"
    "wft struct_bpf_netns_link" "natural struct_bpf_netns_link"
  by (simp_all add: layout layout_simps struct_bpf_netns_link_def)

lemma struct_qdisc_skb_cb_layout [layout]:
  "talign struct_qdisc_skb_cb = 4" "tsize struct_qdisc_skb_cb = 32"
    "wft struct_qdisc_skb_cb" "natural struct_qdisc_skb_cb"
  by (simp_all add: layout layout_simps struct_qdisc_skb_cb_def)

lemma struct_bpf_skb_data_end_layout [layout]:
  "talign struct_bpf_skb_data_end = 8" "tsize struct_bpf_skb_data_end = 48"
    "wft struct_bpf_skb_data_end" "natural struct_bpf_skb_data_end"
  by (simp_all add: layout layout_simps struct_bpf_skb_data_end_def)

lemma struct_tcp_congestion_ops_layout [layout]:
  "talign struct_tcp_congestion_ops = 8" "tsize struct_tcp_congestion_ops = 152"
    "wft struct_tcp_congestion_ops" "natural struct_tcp_congestion_ops"
  by (simp_all add: layout layout_simps struct_tcp_congestion_ops_def)

lemma struct_bpf_struct_ops_tcp_congestion_ops_layout [layout]:
  "talign struct_bpf_struct_ops_tcp_congestion_ops = 8" "tsize struct_bpf_struct_ops_tcp_congestion_ops = 256"
    "wft struct_bpf_struct_ops_tcp_congestion_ops" "natural struct_bpf_struct_ops_tcp_congestion_ops"
  by (simp_all add: layout layout_simps struct_bpf_struct_ops_tcp_congestion_ops_def)

lemma struct_bpf_struct_ops_value_layout [layout]:
  "talign struct_bpf_struct_ops_value = 4" "tsize struct_bpf_struct_ops_value = 64"
    "wft struct_bpf_struct_ops_value" "natural struct_bpf_struct_ops_value"
  by (simp_all add: layout layout_simps struct_bpf_struct_ops_value_def)

lemma struct_bpf_struct_ops_map_layout [layout]:
  "talign struct_bpf_struct_ops_map = 8" "tsize struct_bpf_struct_ops_map = 448"
    "wft struct_bpf_struct_ops_map" "natural struct_bpf_struct_ops_map"
  by (simp_all add: layout layout_simps struct_bpf_struct_ops_map_def)

lemma struct_bpf_security_struct_layout [layout]:
  "talign struct_bpf_security_struct = 4" "tsize struct_bpf_security_struct = 4"
    "wft struct_bpf_security_struct" "natural struct_bpf_security_struct"
  by (simp_all add: layout layout_simps struct_bpf_security_struct_def)

lemma struct_bpf_xdp_link_layout [layout]:
  "talign struct_bpf_xdp_link = 8" "tsize struct_bpf_xdp_link = 96"
    "wft struct_bpf_xdp_link" "natural struct_bpf_xdp_link"
  by (simp_all add: layout layout_simps struct_bpf_xdp_link_def)

lemma struct_bpf_scratchpad_layout [layout]:
  "talign struct_bpf_scratchpad = 4" "tsize struct_bpf_scratchpad = 512"
    "wft struct_bpf_scratchpad" "natural struct_bpf_scratchpad"
  by (simp_all add: layout layout_simps struct_bpf_scratchpad_def)

lemma struct_xdp_umem_layout [layout]:
  "talign struct_xdp_umem = 8" "tsize struct_xdp_umem = 128"
    "wft struct_xdp_umem" "natural struct_xdp_umem"
  by (simp_all add: layout layout_simps struct_xdp_umem_def)

lemma struct_bpf_redir_neigh_layout [layout]:
  "talign struct_bpf_redir_neigh = 4" "tsize struct_bpf_redir_neigh = 20"
    "wft struct_bpf_redir_neigh" "natural struct_bpf_redir_neigh"
  by (simp_all add: layout layout_simps struct_bpf_redir_neigh_def)

lemma struct_bpf_tunnel_key_layout [layout]:
  "talign struct_bpf_tunnel_key = 4" "tsize struct_bpf_tunnel_key = 28"
    "wft struct_bpf_tunnel_key" "natural struct_bpf_tunnel_key"
  by (simp_all add: layout layout_simps struct_bpf_tunnel_key_def)

lemma struct_bpf_xfrm_state_layout [layout]:
  "talign struct_bpf_xfrm_state = 4" "tsize struct_bpf_xfrm_state = 28"
    "wft struct_bpf_xfrm_state" "natural struct_bpf_xfrm_state"
  by (simp_all add: layout layout_simps struct_bpf_xfrm_state_def)

lemma struct_bpf_fib_lookup_layout [layout]:
  "talign struct_bpf_fib_lookup = 4" "tsize struct_bpf_fib_lookup = 64"
    "wft struct_bpf_fib_lookup" "natural struct_bpf_fib_lookup"
  by (simp_all add: layout layout_simps struct_bpf_fib_lookup_def)

lemma struct_bpf_sock_tuple_layout [layout]:
  "talign struct_bpf_sock_tuple = 4" "tsize struct_bpf_sock_tuple = 36"
    "wft struct_bpf_sock_tuple" "natural struct_bpf_sock_tuple"
  by (simp_all add: layout layout_simps struct_bpf_sock_tuple_def)

lemma struct_xdp_buff_xsk_layout [layout]:
  "talign struct_xdp_buff_xsk = 8" "tsize struct_xdp_buff_xsk = 112"
    "wft struct_xdp_buff_xsk" "natural struct_xdp_buff_xsk"
  by (simp_all add: layout layout_simps struct_xdp_buff_xsk_def)

lemma struct_xdp_attachment_info_layout [layout]:
  "talign struct_xdp_attachment_info = 8" "tsize struct_xdp_attachment_info = 16"
    "wft struct_xdp_attachment_info" "natural struct_xdp_attachment_info"
  by (simp_all add: layout layout_simps struct_xdp_attachment_info_def)

lemma struct_bpf_sk_storage_diag_layout [layout]:
  "talign struct_bpf_sk_storage_diag = 8" "tsize struct_bpf_sk_storage_diag = 8"
    "wft struct_bpf_sk_storage_diag" "natural struct_bpf_sk_storage_diag"
  by (simp_all add: layout layout_simps struct_bpf_sk_storage_diag_def)

lemma struct_bpf_fentry_test_t_layout [layout]:
  "talign struct_bpf_fentry_test_t = 8" "tsize struct_bpf_fentry_test_t = 8"
    "wft struct_bpf_fentry_test_t" "natural struct_bpf_fentry_test_t"
  by (simp_all add: layout layout_simps struct_bpf_fentry_test_t_def)

lemma struct_xdp_ring_layout [layout]:
  "talign struct_xdp_ring = 4" "tsize struct_xdp_ring = 192"
    "wft struct_xdp_ring" "natural struct_xdp_ring"
  by (simp_all add: layout layout_simps struct_xdp_ring_def)

lemma struct_xdp_desc_layout [layout]:
  "talign struct_xdp_desc = 8" "tsize struct_xdp_desc = 16"
    "wft struct_xdp_desc" "natural struct_xdp_desc"
  by (simp_all add: layout layout_simps struct_xdp_desc_def)

lemma struct_xdp_rxtx_ring_layout [layout]:
  "talign struct_xdp_rxtx_ring = 8" "tsize struct_xdp_rxtx_ring = 192"
    "wft struct_xdp_rxtx_ring" "natural struct_xdp_rxtx_ring"
  by (simp_all add: layout layout_simps struct_xdp_rxtx_ring_def)

lemma struct_xdp_umem_ring_layout [layout]:
  "talign struct_xdp_umem_ring = 8" "tsize struct_xdp_umem_ring = 192"
    "wft struct_xdp_umem_ring" "natural struct_xdp_umem_ring"
  by (simp_all add: layout layout_simps struct_xdp_umem_ring_def)

lemma struct_xdp_ring_offset_v1_layout [layout]:
  "talign struct_xdp_ring_offset_v1 = 8" "tsize struct_xdp_ring_offset_v1 = 24"
    "wft struct_xdp_ring_offset_v1" "natural struct_xdp_ring_offset_v1"
  by (simp_all add: layout layout_simps struct_xdp_ring_offset_v1_def)

lemma struct_xdp_umem_reg_layout [layout]:
  "talign struct_xdp_umem_reg = 8" "tsize struct_xdp_umem_reg = 32"
    "wft struct_xdp_umem_reg" "natural struct_xdp_umem_reg"
  by (simp_all add: layout layout_simps struct_xdp_umem_reg_def)

lemma struct_xdp_statistics_layout [layout]:
  "talign struct_xdp_statistics = 8" "tsize struct_xdp_statistics = 48"
    "wft struct_xdp_statistics" "natural struct_xdp_statistics"
  by (simp_all add: layout layout_simps struct_xdp_statistics_def)

lemma struct_xdp_ring_offset_layout [layout]:
  "talign struct_xdp_ring_offset = 8" "tsize struct_xdp_ring_offset = 32"
    "wft struct_xdp_ring_offset" "natural struct_xdp_ring_offset"
  by (simp_all add: layout layout_simps struct_xdp_ring_offset_def)

lemma struct_xdp_mmap_offsets_layout [layout]:
  "talign struct_xdp_mmap_offsets = 8" "tsize struct_xdp_mmap_offsets = 128"
    "wft struct_xdp_mmap_offsets" "natural struct_xdp_mmap_offsets"
  by (simp_all add: layout layout_simps struct_xdp_mmap_offsets_def)

lemma struct_xdp_mmap_offsets_v1_layout [layout]:
  "talign struct_xdp_mmap_offsets_v1 = 8" "tsize struct_xdp_mmap_offsets_v1 = 96"
    "wft struct_xdp_mmap_offsets_v1" "natural struct_xdp_mmap_offsets_v1"
  by (simp_all add: layout layout_simps struct_xdp_mmap_offsets_v1_def)

lemma struct_xdp_options_layout [layout]:
  "talign struct_xdp_options = 4" "tsize struct_xdp_options = 4"
    "wft struct_xdp_options" "natural struct_xdp_options"
  by (simp_all add: layout layout_simps struct_xdp_options_def)

end
