(* ===== verification/KernelHelpers.thy ===== *)
theory KernelHelpers
  imports KernelLayout
begin

text \<open>
  The types of the helper functions of the kernel, as \<^verbatim>\<open>vmlinux.h\<close> declares them for BTF:
  one definition per \<^verbatim>\<open>typedef u64 (*btf_bpf_x)(...)\<close>, in source order, with the type of the
  result and those of the arguments. A program calls helper \<open>x\<close> by its number in
  \<^verbatim>\<open>enum bpf_func_id\<close>, with the arguments in the registers r1 to r5 and the result in r0.
\<close>

section \<open>Types of the helpers\<close>

datatype helper_type = Helper (result_type: ctyp) (argument_types: "ctyp list")

definition typedef_btf_bpf_probe_read_user :: helper_type where
  "typedef_btf_bpf_probe_read_user =
    Helper typedef_u64 [CPtr ''void'', typedef_u32, CPtr ''const void'']"

definition typedef_btf_bpf_probe_read_user_str :: helper_type where
  "typedef_btf_bpf_probe_read_user_str =
    Helper typedef_u64 [CPtr ''void'', typedef_u32, CPtr ''const void'']"

definition typedef_btf_bpf_probe_read_kernel :: helper_type where
  "typedef_btf_bpf_probe_read_kernel =
    Helper typedef_u64 [CPtr ''void'', typedef_u32, CPtr ''const void'']"

definition typedef_btf_bpf_probe_read_kernel_str :: helper_type where
  "typedef_btf_bpf_probe_read_kernel_str =
    Helper typedef_u64 [CPtr ''void'', typedef_u32, CPtr ''const void'']"

definition typedef_btf_bpf_probe_read_compat :: helper_type where
  "typedef_btf_bpf_probe_read_compat =
    Helper typedef_u64 [CPtr ''void'', typedef_u32, CPtr ''const void'']"

definition typedef_btf_bpf_probe_read_compat_str :: helper_type where
  "typedef_btf_bpf_probe_read_compat_str =
    Helper typedef_u64 [CPtr ''void'', typedef_u32, CPtr ''const void'']"

definition typedef_btf_bpf_probe_write_user :: helper_type where
  "typedef_btf_bpf_probe_write_user =
    Helper typedef_u64 [CPtr ''void'', CPtr ''const void'', typedef_u32]"

definition typedef_btf_bpf_trace_printk :: helper_type where
  "typedef_btf_bpf_trace_printk =
    Helper typedef_u64 [CPtr ''char'', typedef_u32, typedef_u64, typedef_u64, typedef_u64]"

definition typedef_btf_bpf_seq_printf :: helper_type where
  "typedef_btf_bpf_seq_printf =
    Helper typedef_u64 [CPtr ''struct seq_file'', CPtr ''char'', typedef_u32, CPtr ''const void'',
     typedef_u32]"

definition typedef_btf_bpf_seq_write :: helper_type where
  "typedef_btf_bpf_seq_write =
    Helper typedef_u64 [CPtr ''struct seq_file'', CPtr ''const void'', typedef_u32]"

definition typedef_btf_bpf_seq_printf_btf :: helper_type where
  "typedef_btf_bpf_seq_printf_btf =
    Helper typedef_u64 [CPtr ''struct seq_file'', CPtr ''struct btf_ptr'', typedef_u32,
     typedef_u64]"

definition typedef_btf_bpf_perf_event_read :: helper_type where
  "typedef_btf_bpf_perf_event_read = Helper typedef_u64 [CPtr ''struct bpf_map'', typedef_u64]"

definition typedef_btf_bpf_perf_event_read_value :: helper_type where
  "typedef_btf_bpf_perf_event_read_value =
    Helper typedef_u64 [CPtr ''struct bpf_map'', typedef_u64,
     CPtr ''struct bpf_perf_event_value'', typedef_u32]"

definition typedef_btf_bpf_perf_event_output :: helper_type where
  "typedef_btf_bpf_perf_event_output =
    Helper typedef_u64 [CPtr ''struct pt_regs'', CPtr ''struct bpf_map'', typedef_u64,
     CPtr ''void'', typedef_u64]"

definition typedef_btf_bpf_get_current_task :: helper_type where
  "typedef_btf_bpf_get_current_task = Helper typedef_u64 []"

definition typedef_btf_bpf_current_task_under_cgroup :: helper_type where
  "typedef_btf_bpf_current_task_under_cgroup =
    Helper typedef_u64 [CPtr ''struct bpf_map'', typedef_u32]"

definition typedef_btf_bpf_send_signal :: helper_type where
  "typedef_btf_bpf_send_signal = Helper typedef_u64 [typedef_u32]"

definition typedef_btf_bpf_send_signal_thread :: helper_type where
  "typedef_btf_bpf_send_signal_thread = Helper typedef_u64 [typedef_u32]"

definition typedef_btf_bpf_d_path :: helper_type where
  "typedef_btf_bpf_d_path = Helper typedef_u64 [CPtr ''struct path'', CPtr ''char'', typedef_u32]"

definition typedef_btf_bpf_snprintf_btf :: helper_type where
  "typedef_btf_bpf_snprintf_btf =
    Helper typedef_u64 [CPtr ''char'', typedef_u32, CPtr ''struct btf_ptr'', typedef_u32,
     typedef_u64]"

definition typedef_btf_bpf_perf_event_output_tp :: helper_type where
  "typedef_btf_bpf_perf_event_output_tp =
    Helper typedef_u64 [CPtr ''void'', CPtr ''struct bpf_map'', typedef_u64, CPtr ''void'',
     typedef_u64]"

definition typedef_btf_bpf_get_stackid_tp :: helper_type where
  "typedef_btf_bpf_get_stackid_tp =
    Helper typedef_u64 [CPtr ''void'', CPtr ''struct bpf_map'', typedef_u64]"

definition typedef_btf_bpf_get_stack_tp :: helper_type where
  "typedef_btf_bpf_get_stack_tp =
    Helper typedef_u64 [CPtr ''void'', CPtr ''void'', typedef_u32, typedef_u64]"

definition typedef_btf_bpf_perf_prog_read_value :: helper_type where
  "typedef_btf_bpf_perf_prog_read_value =
    Helper typedef_u64 [CPtr ''struct bpf_perf_event_data_kern'',
     CPtr ''struct bpf_perf_event_value'', typedef_u32]"

definition typedef_btf_bpf_read_branch_records :: helper_type where
  "typedef_btf_bpf_read_branch_records =
    Helper typedef_u64 [CPtr ''struct bpf_perf_event_data_kern'', CPtr ''void'', typedef_u32,
     typedef_u64]"

definition typedef_btf_bpf_perf_event_output_raw_tp :: helper_type where
  "typedef_btf_bpf_perf_event_output_raw_tp =
    Helper typedef_u64 [CPtr ''struct bpf_raw_tracepoint_args'', CPtr ''struct bpf_map'',
     typedef_u64, CPtr ''void'', typedef_u64]"

definition typedef_btf_bpf_get_stackid_raw_tp :: helper_type where
  "typedef_btf_bpf_get_stackid_raw_tp =
    Helper typedef_u64 [CPtr ''struct bpf_raw_tracepoint_args'', CPtr ''struct bpf_map'',
     typedef_u64]"

definition typedef_btf_bpf_get_stack_raw_tp :: helper_type where
  "typedef_btf_bpf_get_stack_raw_tp =
    Helper typedef_u64 [CPtr ''struct bpf_raw_tracepoint_args'', CPtr ''void'', typedef_u32,
     typedef_u64]"

definition typedef_btf_bpf_user_rnd_u32 :: helper_type where
  "typedef_btf_bpf_user_rnd_u32 = Helper typedef_u64 []"

definition typedef_btf_bpf_get_raw_cpu_id :: helper_type where
  "typedef_btf_bpf_get_raw_cpu_id = Helper typedef_u64 []"

definition typedef_btf_bpf_map_lookup_elem :: helper_type where
  "typedef_btf_bpf_map_lookup_elem = Helper typedef_u64 [CPtr ''struct bpf_map'', CPtr ''void'']"

definition typedef_btf_bpf_map_update_elem :: helper_type where
  "typedef_btf_bpf_map_update_elem =
    Helper typedef_u64 [CPtr ''struct bpf_map'', CPtr ''void'', CPtr ''void'', typedef_u64]"

definition typedef_btf_bpf_map_delete_elem :: helper_type where
  "typedef_btf_bpf_map_delete_elem = Helper typedef_u64 [CPtr ''struct bpf_map'', CPtr ''void'']"

definition typedef_btf_bpf_map_push_elem :: helper_type where
  "typedef_btf_bpf_map_push_elem =
    Helper typedef_u64 [CPtr ''struct bpf_map'', CPtr ''void'', typedef_u64]"

definition typedef_btf_bpf_map_pop_elem :: helper_type where
  "typedef_btf_bpf_map_pop_elem = Helper typedef_u64 [CPtr ''struct bpf_map'', CPtr ''void'']"

definition typedef_btf_bpf_map_peek_elem :: helper_type where
  "typedef_btf_bpf_map_peek_elem = Helper typedef_u64 [CPtr ''struct bpf_map'', CPtr ''void'']"

definition typedef_btf_bpf_get_smp_processor_id :: helper_type where
  "typedef_btf_bpf_get_smp_processor_id = Helper typedef_u64 []"

definition typedef_btf_bpf_get_numa_node_id :: helper_type where
  "typedef_btf_bpf_get_numa_node_id = Helper typedef_u64 []"

definition typedef_btf_bpf_ktime_get_ns :: helper_type where
  "typedef_btf_bpf_ktime_get_ns = Helper typedef_u64 []"

definition typedef_btf_bpf_ktime_get_boot_ns :: helper_type where
  "typedef_btf_bpf_ktime_get_boot_ns = Helper typedef_u64 []"

definition typedef_btf_bpf_get_current_pid_tgid :: helper_type where
  "typedef_btf_bpf_get_current_pid_tgid = Helper typedef_u64 []"

definition typedef_btf_bpf_get_current_uid_gid :: helper_type where
  "typedef_btf_bpf_get_current_uid_gid = Helper typedef_u64 []"

definition typedef_btf_bpf_get_current_comm :: helper_type where
  "typedef_btf_bpf_get_current_comm = Helper typedef_u64 [CPtr ''char'', typedef_u32]"

definition typedef_btf_bpf_spin_lock :: helper_type where
  "typedef_btf_bpf_spin_lock = Helper typedef_u64 [CPtr ''struct bpf_spin_lock'']"

definition typedef_btf_bpf_spin_unlock :: helper_type where
  "typedef_btf_bpf_spin_unlock = Helper typedef_u64 [CPtr ''struct bpf_spin_lock'']"

definition typedef_btf_bpf_jiffies64 :: helper_type where
  "typedef_btf_bpf_jiffies64 = Helper typedef_u64 []"

definition typedef_btf_bpf_get_current_cgroup_id :: helper_type where
  "typedef_btf_bpf_get_current_cgroup_id = Helper typedef_u64 []"

definition typedef_btf_bpf_get_current_ancestor_cgroup_id :: helper_type where
  "typedef_btf_bpf_get_current_ancestor_cgroup_id = Helper typedef_u64 [c_int]"

definition typedef_btf_bpf_get_local_storage :: helper_type where
  "typedef_btf_bpf_get_local_storage = Helper typedef_u64 [CPtr ''struct bpf_map'', typedef_u64]"

definition typedef_btf_bpf_strtol :: helper_type where
  "typedef_btf_bpf_strtol =
    Helper typedef_u64 [CPtr ''const char'', typedef_size_t, typedef_u64, CPtr ''long'']"

definition typedef_btf_bpf_strtoul :: helper_type where
  "typedef_btf_bpf_strtoul =
    Helper typedef_u64 [CPtr ''const char'', typedef_size_t, typedef_u64, CPtr ''unsigned long'']"

definition typedef_btf_bpf_get_ns_current_pid_tgid :: helper_type where
  "typedef_btf_bpf_get_ns_current_pid_tgid =
    Helper typedef_u64 [typedef_u64, typedef_u64, CPtr ''struct bpf_pidns_info'', typedef_u32]"

definition typedef_btf_bpf_event_output_data :: helper_type where
  "typedef_btf_bpf_event_output_data =
    Helper typedef_u64 [CPtr ''void'', CPtr ''struct bpf_map'', typedef_u64, CPtr ''void'',
     typedef_u64]"

definition typedef_btf_bpf_copy_from_user :: helper_type where
  "typedef_btf_bpf_copy_from_user =
    Helper typedef_u64 [CPtr ''void'', typedef_u32, CPtr ''const void'']"

definition typedef_btf_bpf_per_cpu_ptr :: helper_type where
  "typedef_btf_bpf_per_cpu_ptr = Helper typedef_u64 [CPtr ''const void'', typedef_u32]"

definition typedef_btf_bpf_this_cpu_ptr :: helper_type where
  "typedef_btf_bpf_this_cpu_ptr = Helper typedef_u64 [CPtr ''const void'']"

definition typedef_btf_bpf_ringbuf_reserve :: helper_type where
  "typedef_btf_bpf_ringbuf_reserve =
    Helper typedef_u64 [CPtr ''struct bpf_map'', typedef_u64, typedef_u64]"

definition typedef_btf_bpf_ringbuf_submit :: helper_type where
  "typedef_btf_bpf_ringbuf_submit = Helper typedef_u64 [CPtr ''void'', typedef_u64]"

definition typedef_btf_bpf_ringbuf_discard :: helper_type where
  "typedef_btf_bpf_ringbuf_discard = Helper typedef_u64 [CPtr ''void'', typedef_u64]"

definition typedef_btf_bpf_ringbuf_output :: helper_type where
  "typedef_btf_bpf_ringbuf_output =
    Helper typedef_u64 [CPtr ''struct bpf_map'', CPtr ''void'', typedef_u64, typedef_u64]"

definition typedef_btf_bpf_ringbuf_query :: helper_type where
  "typedef_btf_bpf_ringbuf_query = Helper typedef_u64 [CPtr ''struct bpf_map'', typedef_u64]"

definition typedef_btf_bpf_get_stackid :: helper_type where
  "typedef_btf_bpf_get_stackid =
    Helper typedef_u64 [CPtr ''struct pt_regs'', CPtr ''struct bpf_map'', typedef_u64]"

definition typedef_btf_bpf_get_stackid_pe :: helper_type where
  "typedef_btf_bpf_get_stackid_pe =
    Helper typedef_u64 [CPtr ''struct bpf_perf_event_data_kern'', CPtr ''struct bpf_map'',
     typedef_u64]"

definition typedef_btf_bpf_get_stack :: helper_type where
  "typedef_btf_bpf_get_stack =
    Helper typedef_u64 [CPtr ''struct pt_regs'', CPtr ''void'', typedef_u32, typedef_u64]"

definition typedef_btf_bpf_get_task_stack :: helper_type where
  "typedef_btf_bpf_get_task_stack =
    Helper typedef_u64 [CPtr ''struct task_struct'', CPtr ''void'', typedef_u32, typedef_u64]"

definition typedef_btf_bpf_get_stack_pe :: helper_type where
  "typedef_btf_bpf_get_stack_pe =
    Helper typedef_u64 [CPtr ''struct bpf_perf_event_data_kern'', CPtr ''void'', typedef_u32,
     typedef_u64]"

definition typedef_btf_bpf_sysctl_get_name :: helper_type where
  "typedef_btf_bpf_sysctl_get_name =
    Helper typedef_u64 [CPtr ''struct bpf_sysctl_kern'', CPtr ''char'', typedef_size_t,
     typedef_u64]"

definition typedef_btf_bpf_sysctl_get_current_value :: helper_type where
  "typedef_btf_bpf_sysctl_get_current_value =
    Helper typedef_u64 [CPtr ''struct bpf_sysctl_kern'', CPtr ''char'', typedef_size_t]"

definition typedef_btf_bpf_sysctl_get_new_value :: helper_type where
  "typedef_btf_bpf_sysctl_get_new_value =
    Helper typedef_u64 [CPtr ''struct bpf_sysctl_kern'', CPtr ''char'', typedef_size_t]"

definition typedef_btf_bpf_sysctl_set_new_value :: helper_type where
  "typedef_btf_bpf_sysctl_set_new_value =
    Helper typedef_u64 [CPtr ''struct bpf_sysctl_kern'', CPtr ''const char'', typedef_size_t]"

definition typedef_btf_bpf_rc_repeat :: helper_type where
  "typedef_btf_bpf_rc_repeat = Helper typedef_u64 [CPtr ''u32'']"

definition typedef_btf_bpf_rc_keydown :: helper_type where
  "typedef_btf_bpf_rc_keydown =
    Helper typedef_u64 [CPtr ''u32'', typedef_u32, typedef_u64, typedef_u32]"

definition typedef_btf_bpf_rc_pointer_rel :: helper_type where
  "typedef_btf_bpf_rc_pointer_rel = Helper typedef_u64 [CPtr ''u32'', typedef_s32, typedef_s32]"

definition typedef_btf_bpf_skb_get_pay_offset :: helper_type where
  "typedef_btf_bpf_skb_get_pay_offset = Helper typedef_u64 [CPtr ''struct sk_buff'']"

definition typedef_btf_bpf_skb_get_nlattr :: helper_type where
  "typedef_btf_bpf_skb_get_nlattr =
    Helper typedef_u64 [CPtr ''struct sk_buff'', typedef_u32, typedef_u32]"

definition typedef_btf_bpf_skb_get_nlattr_nest :: helper_type where
  "typedef_btf_bpf_skb_get_nlattr_nest =
    Helper typedef_u64 [CPtr ''struct sk_buff'', typedef_u32, typedef_u32]"

definition typedef_btf_bpf_skb_load_helper_8 :: helper_type where
  "typedef_btf_bpf_skb_load_helper_8 =
    Helper typedef_u64 [CPtr ''const struct sk_buff'', CPtr ''const void'', c_int, c_int]"

definition typedef_btf_bpf_skb_load_helper_8_no_cache :: helper_type where
  "typedef_btf_bpf_skb_load_helper_8_no_cache =
    Helper typedef_u64 [CPtr ''const struct sk_buff'', c_int]"

definition typedef_btf_bpf_skb_load_helper_16 :: helper_type where
  "typedef_btf_bpf_skb_load_helper_16 =
    Helper typedef_u64 [CPtr ''const struct sk_buff'', CPtr ''const void'', c_int, c_int]"

definition typedef_btf_bpf_skb_load_helper_16_no_cache :: helper_type where
  "typedef_btf_bpf_skb_load_helper_16_no_cache =
    Helper typedef_u64 [CPtr ''const struct sk_buff'', c_int]"

definition typedef_btf_bpf_skb_load_helper_32 :: helper_type where
  "typedef_btf_bpf_skb_load_helper_32 =
    Helper typedef_u64 [CPtr ''const struct sk_buff'', CPtr ''const void'', c_int, c_int]"

definition typedef_btf_bpf_skb_load_helper_32_no_cache :: helper_type where
  "typedef_btf_bpf_skb_load_helper_32_no_cache =
    Helper typedef_u64 [CPtr ''const struct sk_buff'', c_int]"

definition typedef_btf_bpf_skb_store_bytes :: helper_type where
  "typedef_btf_bpf_skb_store_bytes =
    Helper typedef_u64 [CPtr ''struct sk_buff'', typedef_u32, CPtr ''const void'', typedef_u32,
     typedef_u64]"

definition typedef_btf_bpf_skb_load_bytes :: helper_type where
  "typedef_btf_bpf_skb_load_bytes =
    Helper typedef_u64 [CPtr ''const struct sk_buff'', typedef_u32, CPtr ''void'', typedef_u32]"

definition typedef_btf_bpf_flow_dissector_load_bytes :: helper_type where
  "typedef_btf_bpf_flow_dissector_load_bytes =
    Helper typedef_u64 [CPtr ''const struct bpf_flow_dissector'', typedef_u32, CPtr ''void'',
     typedef_u32]"

definition typedef_btf_bpf_skb_load_bytes_relative :: helper_type where
  "typedef_btf_bpf_skb_load_bytes_relative =
    Helper typedef_u64 [CPtr ''const struct sk_buff'', typedef_u32, CPtr ''void'', typedef_u32,
     typedef_u32]"

definition typedef_btf_bpf_skb_pull_data :: helper_type where
  "typedef_btf_bpf_skb_pull_data = Helper typedef_u64 [CPtr ''struct sk_buff'', typedef_u32]"

definition typedef_btf_bpf_sk_fullsock :: helper_type where
  "typedef_btf_bpf_sk_fullsock = Helper typedef_u64 [CPtr ''struct sock'']"

definition typedef_btf_bpf_l3_csum_replace :: helper_type where
  "typedef_btf_bpf_l3_csum_replace =
    Helper typedef_u64 [CPtr ''struct sk_buff'', typedef_u32, typedef_u64, typedef_u64,
     typedef_u64]"

definition typedef_btf_bpf_l4_csum_replace :: helper_type where
  "typedef_btf_bpf_l4_csum_replace =
    Helper typedef_u64 [CPtr ''struct sk_buff'', typedef_u32, typedef_u64, typedef_u64,
     typedef_u64]"

definition typedef_btf_bpf_csum_diff :: helper_type where
  "typedef_btf_bpf_csum_diff =
    Helper typedef_u64 [CPtr ''__be32'', typedef_u32, CPtr ''__be32'', typedef_u32, typedef___wsum]"

definition typedef_btf_bpf_csum_update :: helper_type where
  "typedef_btf_bpf_csum_update = Helper typedef_u64 [CPtr ''struct sk_buff'', typedef___wsum]"

definition typedef_btf_bpf_csum_level :: helper_type where
  "typedef_btf_bpf_csum_level = Helper typedef_u64 [CPtr ''struct sk_buff'', typedef_u64]"

definition typedef_btf_bpf_clone_redirect :: helper_type where
  "typedef_btf_bpf_clone_redirect =
    Helper typedef_u64 [CPtr ''struct sk_buff'', typedef_u32, typedef_u64]"

definition typedef_btf_bpf_redirect :: helper_type where
  "typedef_btf_bpf_redirect = Helper typedef_u64 [typedef_u32, typedef_u64]"

definition typedef_btf_bpf_redirect_peer :: helper_type where
  "typedef_btf_bpf_redirect_peer = Helper typedef_u64 [typedef_u32, typedef_u64]"

definition typedef_btf_bpf_redirect_neigh :: helper_type where
  "typedef_btf_bpf_redirect_neigh =
    Helper typedef_u64 [typedef_u32, CPtr ''struct bpf_redir_neigh'', c_int, typedef_u64]"

definition typedef_btf_bpf_msg_apply_bytes :: helper_type where
  "typedef_btf_bpf_msg_apply_bytes = Helper typedef_u64 [CPtr ''struct sk_msg'', typedef_u32]"

definition typedef_btf_bpf_msg_cork_bytes :: helper_type where
  "typedef_btf_bpf_msg_cork_bytes = Helper typedef_u64 [CPtr ''struct sk_msg'', typedef_u32]"

definition typedef_btf_bpf_msg_pull_data :: helper_type where
  "typedef_btf_bpf_msg_pull_data =
    Helper typedef_u64 [CPtr ''struct sk_msg'', typedef_u32, typedef_u32, typedef_u64]"

definition typedef_btf_bpf_msg_push_data :: helper_type where
  "typedef_btf_bpf_msg_push_data =
    Helper typedef_u64 [CPtr ''struct sk_msg'', typedef_u32, typedef_u32, typedef_u64]"

definition typedef_btf_bpf_msg_pop_data :: helper_type where
  "typedef_btf_bpf_msg_pop_data =
    Helper typedef_u64 [CPtr ''struct sk_msg'', typedef_u32, typedef_u32, typedef_u64]"

definition typedef_btf_bpf_get_cgroup_classid :: helper_type where
  "typedef_btf_bpf_get_cgroup_classid = Helper typedef_u64 [CPtr ''const struct sk_buff'']"

definition typedef_btf_bpf_get_route_realm :: helper_type where
  "typedef_btf_bpf_get_route_realm = Helper typedef_u64 [CPtr ''const struct sk_buff'']"

definition typedef_btf_bpf_get_hash_recalc :: helper_type where
  "typedef_btf_bpf_get_hash_recalc = Helper typedef_u64 [CPtr ''struct sk_buff'']"

definition typedef_btf_bpf_set_hash_invalid :: helper_type where
  "typedef_btf_bpf_set_hash_invalid = Helper typedef_u64 [CPtr ''struct sk_buff'']"

definition typedef_btf_bpf_set_hash :: helper_type where
  "typedef_btf_bpf_set_hash = Helper typedef_u64 [CPtr ''struct sk_buff'', typedef_u32]"

definition typedef_btf_bpf_skb_vlan_push :: helper_type where
  "typedef_btf_bpf_skb_vlan_push =
    Helper typedef_u64 [CPtr ''struct sk_buff'', typedef___be16, typedef_u16]"

definition typedef_btf_bpf_skb_vlan_pop :: helper_type where
  "typedef_btf_bpf_skb_vlan_pop = Helper typedef_u64 [CPtr ''struct sk_buff'']"

definition typedef_btf_bpf_skb_change_proto :: helper_type where
  "typedef_btf_bpf_skb_change_proto =
    Helper typedef_u64 [CPtr ''struct sk_buff'', typedef___be16, typedef_u64]"

definition typedef_btf_bpf_skb_change_type :: helper_type where
  "typedef_btf_bpf_skb_change_type = Helper typedef_u64 [CPtr ''struct sk_buff'', typedef_u32]"

definition typedef_btf_bpf_skb_adjust_room :: helper_type where
  "typedef_btf_bpf_skb_adjust_room =
    Helper typedef_u64 [CPtr ''struct sk_buff'', typedef_s32, typedef_u32, typedef_u64]"

definition typedef_btf_bpf_skb_change_tail :: helper_type where
  "typedef_btf_bpf_skb_change_tail =
    Helper typedef_u64 [CPtr ''struct sk_buff'', typedef_u32, typedef_u64]"

definition typedef_btf_bpf_skb_change_head :: helper_type where
  "typedef_btf_bpf_skb_change_head =
    Helper typedef_u64 [CPtr ''struct sk_buff'', typedef_u32, typedef_u64]"

definition typedef_btf_bpf_xdp_adjust_head :: helper_type where
  "typedef_btf_bpf_xdp_adjust_head = Helper typedef_u64 [CPtr ''struct xdp_buff'', c_int]"

definition typedef_btf_bpf_xdp_adjust_tail :: helper_type where
  "typedef_btf_bpf_xdp_adjust_tail = Helper typedef_u64 [CPtr ''struct xdp_buff'', c_int]"

definition typedef_btf_bpf_xdp_adjust_meta :: helper_type where
  "typedef_btf_bpf_xdp_adjust_meta = Helper typedef_u64 [CPtr ''struct xdp_buff'', c_int]"

definition typedef_btf_bpf_xdp_redirect :: helper_type where
  "typedef_btf_bpf_xdp_redirect = Helper typedef_u64 [typedef_u32, typedef_u64]"

definition typedef_btf_bpf_xdp_redirect_map :: helper_type where
  "typedef_btf_bpf_xdp_redirect_map =
    Helper typedef_u64 [CPtr ''struct bpf_map'', typedef_u32, typedef_u64]"

definition typedef_btf_bpf_skb_event_output :: helper_type where
  "typedef_btf_bpf_skb_event_output =
    Helper typedef_u64 [CPtr ''struct sk_buff'', CPtr ''struct bpf_map'', typedef_u64,
     CPtr ''void'', typedef_u64]"

definition typedef_btf_bpf_skb_get_tunnel_key :: helper_type where
  "typedef_btf_bpf_skb_get_tunnel_key =
    Helper typedef_u64 [CPtr ''struct sk_buff'', CPtr ''struct bpf_tunnel_key'', typedef_u32,
     typedef_u64]"

definition typedef_btf_bpf_skb_get_tunnel_opt :: helper_type where
  "typedef_btf_bpf_skb_get_tunnel_opt =
    Helper typedef_u64 [CPtr ''struct sk_buff'', CPtr ''u8'', typedef_u32]"

definition typedef_btf_bpf_skb_set_tunnel_key :: helper_type where
  "typedef_btf_bpf_skb_set_tunnel_key =
    Helper typedef_u64 [CPtr ''struct sk_buff'', CPtr ''const struct bpf_tunnel_key'',
     typedef_u32, typedef_u64]"

definition typedef_btf_bpf_skb_set_tunnel_opt :: helper_type where
  "typedef_btf_bpf_skb_set_tunnel_opt =
    Helper typedef_u64 [CPtr ''struct sk_buff'', CPtr ''const u8'', typedef_u32]"

definition typedef_btf_bpf_skb_under_cgroup :: helper_type where
  "typedef_btf_bpf_skb_under_cgroup =
    Helper typedef_u64 [CPtr ''struct sk_buff'', CPtr ''struct bpf_map'', typedef_u32]"

definition typedef_btf_bpf_skb_cgroup_id :: helper_type where
  "typedef_btf_bpf_skb_cgroup_id = Helper typedef_u64 [CPtr ''const struct sk_buff'']"

definition typedef_btf_bpf_skb_ancestor_cgroup_id :: helper_type where
  "typedef_btf_bpf_skb_ancestor_cgroup_id =
    Helper typedef_u64 [CPtr ''const struct sk_buff'', c_int]"

definition typedef_btf_bpf_sk_cgroup_id :: helper_type where
  "typedef_btf_bpf_sk_cgroup_id = Helper typedef_u64 [CPtr ''struct sock'']"

definition typedef_btf_bpf_sk_ancestor_cgroup_id :: helper_type where
  "typedef_btf_bpf_sk_ancestor_cgroup_id = Helper typedef_u64 [CPtr ''struct sock'', c_int]"

definition typedef_btf_bpf_xdp_event_output :: helper_type where
  "typedef_btf_bpf_xdp_event_output =
    Helper typedef_u64 [CPtr ''struct xdp_buff'', CPtr ''struct bpf_map'', typedef_u64,
     CPtr ''void'', typedef_u64]"

definition typedef_btf_bpf_get_socket_cookie :: helper_type where
  "typedef_btf_bpf_get_socket_cookie = Helper typedef_u64 [CPtr ''struct sk_buff'']"

definition typedef_btf_bpf_get_socket_cookie_sock_addr :: helper_type where
  "typedef_btf_bpf_get_socket_cookie_sock_addr =
    Helper typedef_u64 [CPtr ''struct bpf_sock_addr_kern'']"

definition typedef_btf_bpf_get_socket_cookie_sock :: helper_type where
  "typedef_btf_bpf_get_socket_cookie_sock = Helper typedef_u64 [CPtr ''struct sock'']"

definition typedef_btf_bpf_get_socket_cookie_sock_ops :: helper_type where
  "typedef_btf_bpf_get_socket_cookie_sock_ops =
    Helper typedef_u64 [CPtr ''struct bpf_sock_ops_kern'']"

definition typedef_btf_bpf_get_netns_cookie_sock :: helper_type where
  "typedef_btf_bpf_get_netns_cookie_sock = Helper typedef_u64 [CPtr ''struct sock'']"

definition typedef_btf_bpf_get_netns_cookie_sock_addr :: helper_type where
  "typedef_btf_bpf_get_netns_cookie_sock_addr =
    Helper typedef_u64 [CPtr ''struct bpf_sock_addr_kern'']"

definition typedef_btf_bpf_get_socket_uid :: helper_type where
  "typedef_btf_bpf_get_socket_uid = Helper typedef_u64 [CPtr ''struct sk_buff'']"

definition typedef_btf_bpf_sock_addr_setsockopt :: helper_type where
  "typedef_btf_bpf_sock_addr_setsockopt =
    Helper typedef_u64 [CPtr ''struct bpf_sock_addr_kern'', c_int, c_int, CPtr ''char'', c_int]"

definition typedef_btf_bpf_sock_addr_getsockopt :: helper_type where
  "typedef_btf_bpf_sock_addr_getsockopt =
    Helper typedef_u64 [CPtr ''struct bpf_sock_addr_kern'', c_int, c_int, CPtr ''char'', c_int]"

definition typedef_btf_bpf_sock_ops_setsockopt :: helper_type where
  "typedef_btf_bpf_sock_ops_setsockopt =
    Helper typedef_u64 [CPtr ''struct bpf_sock_ops_kern'', c_int, c_int, CPtr ''char'', c_int]"

definition typedef_btf_bpf_sock_ops_getsockopt :: helper_type where
  "typedef_btf_bpf_sock_ops_getsockopt =
    Helper typedef_u64 [CPtr ''struct bpf_sock_ops_kern'', c_int, c_int, CPtr ''char'', c_int]"

definition typedef_btf_bpf_sock_ops_cb_flags_set :: helper_type where
  "typedef_btf_bpf_sock_ops_cb_flags_set =
    Helper typedef_u64 [CPtr ''struct bpf_sock_ops_kern'', c_int]"

definition typedef_btf_bpf_bind :: helper_type where
  "typedef_btf_bpf_bind =
    Helper typedef_u64 [CPtr ''struct bpf_sock_addr_kern'', CPtr ''struct sockaddr'', c_int]"

definition typedef_btf_bpf_skb_get_xfrm_state :: helper_type where
  "typedef_btf_bpf_skb_get_xfrm_state =
    Helper typedef_u64 [CPtr ''struct sk_buff'', typedef_u32, CPtr ''struct bpf_xfrm_state'',
     typedef_u32, typedef_u64]"

definition typedef_btf_bpf_xdp_fib_lookup :: helper_type where
  "typedef_btf_bpf_xdp_fib_lookup =
    Helper typedef_u64 [CPtr ''struct xdp_buff'', CPtr ''struct bpf_fib_lookup'', c_int,
     typedef_u32]"

definition typedef_btf_bpf_skb_fib_lookup :: helper_type where
  "typedef_btf_bpf_skb_fib_lookup =
    Helper typedef_u64 [CPtr ''struct sk_buff'', CPtr ''struct bpf_fib_lookup'', c_int,
     typedef_u32]"

definition typedef_btf_bpf_lwt_in_push_encap :: helper_type where
  "typedef_btf_bpf_lwt_in_push_encap =
    Helper typedef_u64 [CPtr ''struct sk_buff'', typedef_u32, CPtr ''void'', typedef_u32]"

definition typedef_btf_bpf_lwt_xmit_push_encap :: helper_type where
  "typedef_btf_bpf_lwt_xmit_push_encap =
    Helper typedef_u64 [CPtr ''struct sk_buff'', typedef_u32, CPtr ''void'', typedef_u32]"

definition typedef_btf_bpf_skc_lookup_tcp :: helper_type where
  "typedef_btf_bpf_skc_lookup_tcp =
    Helper typedef_u64 [CPtr ''struct sk_buff'', CPtr ''struct bpf_sock_tuple'', typedef_u32,
     typedef_u64, typedef_u64]"

definition typedef_btf_bpf_sk_lookup_tcp :: helper_type where
  "typedef_btf_bpf_sk_lookup_tcp =
    Helper typedef_u64 [CPtr ''struct sk_buff'', CPtr ''struct bpf_sock_tuple'', typedef_u32,
     typedef_u64, typedef_u64]"

definition typedef_btf_bpf_sk_lookup_udp :: helper_type where
  "typedef_btf_bpf_sk_lookup_udp =
    Helper typedef_u64 [CPtr ''struct sk_buff'', CPtr ''struct bpf_sock_tuple'', typedef_u32,
     typedef_u64, typedef_u64]"

definition typedef_btf_bpf_sk_release :: helper_type where
  "typedef_btf_bpf_sk_release = Helper typedef_u64 [CPtr ''struct sock'']"

definition typedef_btf_bpf_xdp_sk_lookup_udp :: helper_type where
  "typedef_btf_bpf_xdp_sk_lookup_udp =
    Helper typedef_u64 [CPtr ''struct xdp_buff'', CPtr ''struct bpf_sock_tuple'', typedef_u32,
     typedef_u32, typedef_u64]"

definition typedef_btf_bpf_xdp_skc_lookup_tcp :: helper_type where
  "typedef_btf_bpf_xdp_skc_lookup_tcp =
    Helper typedef_u64 [CPtr ''struct xdp_buff'', CPtr ''struct bpf_sock_tuple'', typedef_u32,
     typedef_u32, typedef_u64]"

definition typedef_btf_bpf_xdp_sk_lookup_tcp :: helper_type where
  "typedef_btf_bpf_xdp_sk_lookup_tcp =
    Helper typedef_u64 [CPtr ''struct xdp_buff'', CPtr ''struct bpf_sock_tuple'', typedef_u32,
     typedef_u32, typedef_u64]"

definition typedef_btf_bpf_sock_addr_skc_lookup_tcp :: helper_type where
  "typedef_btf_bpf_sock_addr_skc_lookup_tcp =
    Helper typedef_u64 [CPtr ''struct bpf_sock_addr_kern'', CPtr ''struct bpf_sock_tuple'',
     typedef_u32, typedef_u64, typedef_u64]"

definition typedef_btf_bpf_sock_addr_sk_lookup_tcp :: helper_type where
  "typedef_btf_bpf_sock_addr_sk_lookup_tcp =
    Helper typedef_u64 [CPtr ''struct bpf_sock_addr_kern'', CPtr ''struct bpf_sock_tuple'',
     typedef_u32, typedef_u64, typedef_u64]"

definition typedef_btf_bpf_sock_addr_sk_lookup_udp :: helper_type where
  "typedef_btf_bpf_sock_addr_sk_lookup_udp =
    Helper typedef_u64 [CPtr ''struct bpf_sock_addr_kern'', CPtr ''struct bpf_sock_tuple'',
     typedef_u32, typedef_u64, typedef_u64]"

definition typedef_btf_bpf_tcp_sock :: helper_type where
  "typedef_btf_bpf_tcp_sock = Helper typedef_u64 [CPtr ''struct sock'']"

definition typedef_btf_bpf_get_listener_sock :: helper_type where
  "typedef_btf_bpf_get_listener_sock = Helper typedef_u64 [CPtr ''struct sock'']"

definition typedef_btf_bpf_skb_ecn_set_ce :: helper_type where
  "typedef_btf_bpf_skb_ecn_set_ce = Helper typedef_u64 [CPtr ''struct sk_buff'']"

definition typedef_btf_bpf_tcp_check_syncookie :: helper_type where
  "typedef_btf_bpf_tcp_check_syncookie =
    Helper typedef_u64 [CPtr ''struct sock'', CPtr ''void'', typedef_u32, CPtr ''struct tcphdr'',
     typedef_u32]"

definition typedef_btf_bpf_tcp_gen_syncookie :: helper_type where
  "typedef_btf_bpf_tcp_gen_syncookie =
    Helper typedef_u64 [CPtr ''struct sock'', CPtr ''void'', typedef_u32, CPtr ''struct tcphdr'',
     typedef_u32]"

definition typedef_btf_bpf_sk_assign :: helper_type where
  "typedef_btf_bpf_sk_assign =
    Helper typedef_u64 [CPtr ''struct sk_buff'', CPtr ''struct sock'', typedef_u64]"

definition typedef_btf_bpf_sock_ops_load_hdr_opt :: helper_type where
  "typedef_btf_bpf_sock_ops_load_hdr_opt =
    Helper typedef_u64 [CPtr ''struct bpf_sock_ops_kern'', CPtr ''void'', typedef_u32, typedef_u64]"

definition typedef_btf_bpf_sock_ops_store_hdr_opt :: helper_type where
  "typedef_btf_bpf_sock_ops_store_hdr_opt =
    Helper typedef_u64 [CPtr ''struct bpf_sock_ops_kern'', CPtr ''const void'', typedef_u32,
     typedef_u64]"

definition typedef_btf_bpf_sock_ops_reserve_hdr_opt :: helper_type where
  "typedef_btf_bpf_sock_ops_reserve_hdr_opt =
    Helper typedef_u64 [CPtr ''struct bpf_sock_ops_kern'', typedef_u32, typedef_u64]"

definition typedef_btf_bpf_sk_lookup_assign :: helper_type where
  "typedef_btf_bpf_sk_lookup_assign =
    Helper typedef_u64 [CPtr ''struct bpf_sk_lookup_kern'', CPtr ''struct sock'', typedef_u64]"

definition typedef_btf_bpf_skc_to_tcp6_sock :: helper_type where
  "typedef_btf_bpf_skc_to_tcp6_sock = Helper typedef_u64 [CPtr ''struct sock'']"

definition typedef_btf_bpf_skc_to_tcp_sock :: helper_type where
  "typedef_btf_bpf_skc_to_tcp_sock = Helper typedef_u64 [CPtr ''struct sock'']"

definition typedef_btf_bpf_skc_to_tcp_timewait_sock :: helper_type where
  "typedef_btf_bpf_skc_to_tcp_timewait_sock = Helper typedef_u64 [CPtr ''struct sock'']"

definition typedef_btf_bpf_skc_to_tcp_request_sock :: helper_type where
  "typedef_btf_bpf_skc_to_tcp_request_sock = Helper typedef_u64 [CPtr ''struct sock'']"

definition typedef_btf_bpf_skc_to_udp6_sock :: helper_type where
  "typedef_btf_bpf_skc_to_udp6_sock = Helper typedef_u64 [CPtr ''struct sock'']"

definition typedef_btf_bpf_sk_storage_get :: helper_type where
  "typedef_btf_bpf_sk_storage_get =
    Helper typedef_u64 [CPtr ''struct bpf_map'', CPtr ''struct sock'', CPtr ''void'', typedef_u64]"

definition typedef_btf_bpf_sk_storage_delete :: helper_type where
  "typedef_btf_bpf_sk_storage_delete =
    Helper typedef_u64 [CPtr ''struct bpf_map'', CPtr ''struct sock'']"

definition typedef_btf_bpf_tcp_send_ack :: helper_type where
  "typedef_btf_bpf_tcp_send_ack = Helper typedef_u64 [CPtr ''struct tcp_sock'', typedef_u32]"

section \<open>All helpers of the header\<close>

definition helper_types :: "helper_type list" where
  "helper_types =
    [typedef_btf_bpf_probe_read_user, typedef_btf_bpf_probe_read_user_str,
     typedef_btf_bpf_probe_read_kernel, typedef_btf_bpf_probe_read_kernel_str,
     typedef_btf_bpf_probe_read_compat, typedef_btf_bpf_probe_read_compat_str,
     typedef_btf_bpf_probe_write_user, typedef_btf_bpf_trace_printk, typedef_btf_bpf_seq_printf,
     typedef_btf_bpf_seq_write, typedef_btf_bpf_seq_printf_btf, typedef_btf_bpf_perf_event_read,
     typedef_btf_bpf_perf_event_read_value, typedef_btf_bpf_perf_event_output,
     typedef_btf_bpf_get_current_task, typedef_btf_bpf_current_task_under_cgroup,
     typedef_btf_bpf_send_signal, typedef_btf_bpf_send_signal_thread, typedef_btf_bpf_d_path,
     typedef_btf_bpf_snprintf_btf, typedef_btf_bpf_perf_event_output_tp,
     typedef_btf_bpf_get_stackid_tp, typedef_btf_bpf_get_stack_tp,
     typedef_btf_bpf_perf_prog_read_value, typedef_btf_bpf_read_branch_records,
     typedef_btf_bpf_perf_event_output_raw_tp, typedef_btf_bpf_get_stackid_raw_tp,
     typedef_btf_bpf_get_stack_raw_tp, typedef_btf_bpf_user_rnd_u32,
     typedef_btf_bpf_get_raw_cpu_id, typedef_btf_bpf_map_lookup_elem,
     typedef_btf_bpf_map_update_elem, typedef_btf_bpf_map_delete_elem,
     typedef_btf_bpf_map_push_elem, typedef_btf_bpf_map_pop_elem, typedef_btf_bpf_map_peek_elem,
     typedef_btf_bpf_get_smp_processor_id, typedef_btf_bpf_get_numa_node_id,
     typedef_btf_bpf_ktime_get_ns, typedef_btf_bpf_ktime_get_boot_ns,
     typedef_btf_bpf_get_current_pid_tgid, typedef_btf_bpf_get_current_uid_gid,
     typedef_btf_bpf_get_current_comm, typedef_btf_bpf_spin_lock, typedef_btf_bpf_spin_unlock,
     typedef_btf_bpf_jiffies64, typedef_btf_bpf_get_current_cgroup_id,
     typedef_btf_bpf_get_current_ancestor_cgroup_id, typedef_btf_bpf_get_local_storage,
     typedef_btf_bpf_strtol, typedef_btf_bpf_strtoul, typedef_btf_bpf_get_ns_current_pid_tgid,
     typedef_btf_bpf_event_output_data, typedef_btf_bpf_copy_from_user,
     typedef_btf_bpf_per_cpu_ptr, typedef_btf_bpf_this_cpu_ptr, typedef_btf_bpf_ringbuf_reserve,
     typedef_btf_bpf_ringbuf_submit, typedef_btf_bpf_ringbuf_discard,
     typedef_btf_bpf_ringbuf_output, typedef_btf_bpf_ringbuf_query, typedef_btf_bpf_get_stackid,
     typedef_btf_bpf_get_stackid_pe, typedef_btf_bpf_get_stack, typedef_btf_bpf_get_task_stack,
     typedef_btf_bpf_get_stack_pe, typedef_btf_bpf_sysctl_get_name,
     typedef_btf_bpf_sysctl_get_current_value, typedef_btf_bpf_sysctl_get_new_value,
     typedef_btf_bpf_sysctl_set_new_value, typedef_btf_bpf_rc_repeat, typedef_btf_bpf_rc_keydown,
     typedef_btf_bpf_rc_pointer_rel, typedef_btf_bpf_skb_get_pay_offset,
     typedef_btf_bpf_skb_get_nlattr, typedef_btf_bpf_skb_get_nlattr_nest,
     typedef_btf_bpf_skb_load_helper_8, typedef_btf_bpf_skb_load_helper_8_no_cache,
     typedef_btf_bpf_skb_load_helper_16, typedef_btf_bpf_skb_load_helper_16_no_cache,
     typedef_btf_bpf_skb_load_helper_32, typedef_btf_bpf_skb_load_helper_32_no_cache,
     typedef_btf_bpf_skb_store_bytes, typedef_btf_bpf_skb_load_bytes,
     typedef_btf_bpf_flow_dissector_load_bytes, typedef_btf_bpf_skb_load_bytes_relative,
     typedef_btf_bpf_skb_pull_data, typedef_btf_bpf_sk_fullsock, typedef_btf_bpf_l3_csum_replace,
     typedef_btf_bpf_l4_csum_replace, typedef_btf_bpf_csum_diff, typedef_btf_bpf_csum_update,
     typedef_btf_bpf_csum_level, typedef_btf_bpf_clone_redirect, typedef_btf_bpf_redirect,
     typedef_btf_bpf_redirect_peer, typedef_btf_bpf_redirect_neigh,
     typedef_btf_bpf_msg_apply_bytes, typedef_btf_bpf_msg_cork_bytes,
     typedef_btf_bpf_msg_pull_data, typedef_btf_bpf_msg_push_data, typedef_btf_bpf_msg_pop_data,
     typedef_btf_bpf_get_cgroup_classid, typedef_btf_bpf_get_route_realm,
     typedef_btf_bpf_get_hash_recalc, typedef_btf_bpf_set_hash_invalid, typedef_btf_bpf_set_hash,
     typedef_btf_bpf_skb_vlan_push, typedef_btf_bpf_skb_vlan_pop,
     typedef_btf_bpf_skb_change_proto, typedef_btf_bpf_skb_change_type,
     typedef_btf_bpf_skb_adjust_room, typedef_btf_bpf_skb_change_tail,
     typedef_btf_bpf_skb_change_head, typedef_btf_bpf_xdp_adjust_head,
     typedef_btf_bpf_xdp_adjust_tail, typedef_btf_bpf_xdp_adjust_meta,
     typedef_btf_bpf_xdp_redirect, typedef_btf_bpf_xdp_redirect_map,
     typedef_btf_bpf_skb_event_output, typedef_btf_bpf_skb_get_tunnel_key,
     typedef_btf_bpf_skb_get_tunnel_opt, typedef_btf_bpf_skb_set_tunnel_key,
     typedef_btf_bpf_skb_set_tunnel_opt, typedef_btf_bpf_skb_under_cgroup,
     typedef_btf_bpf_skb_cgroup_id, typedef_btf_bpf_skb_ancestor_cgroup_id,
     typedef_btf_bpf_sk_cgroup_id, typedef_btf_bpf_sk_ancestor_cgroup_id,
     typedef_btf_bpf_xdp_event_output, typedef_btf_bpf_get_socket_cookie,
     typedef_btf_bpf_get_socket_cookie_sock_addr, typedef_btf_bpf_get_socket_cookie_sock,
     typedef_btf_bpf_get_socket_cookie_sock_ops, typedef_btf_bpf_get_netns_cookie_sock,
     typedef_btf_bpf_get_netns_cookie_sock_addr, typedef_btf_bpf_get_socket_uid,
     typedef_btf_bpf_sock_addr_setsockopt, typedef_btf_bpf_sock_addr_getsockopt,
     typedef_btf_bpf_sock_ops_setsockopt, typedef_btf_bpf_sock_ops_getsockopt,
     typedef_btf_bpf_sock_ops_cb_flags_set, typedef_btf_bpf_bind,
     typedef_btf_bpf_skb_get_xfrm_state, typedef_btf_bpf_xdp_fib_lookup,
     typedef_btf_bpf_skb_fib_lookup, typedef_btf_bpf_lwt_in_push_encap,
     typedef_btf_bpf_lwt_xmit_push_encap, typedef_btf_bpf_skc_lookup_tcp,
     typedef_btf_bpf_sk_lookup_tcp, typedef_btf_bpf_sk_lookup_udp, typedef_btf_bpf_sk_release,
     typedef_btf_bpf_xdp_sk_lookup_udp, typedef_btf_bpf_xdp_skc_lookup_tcp,
     typedef_btf_bpf_xdp_sk_lookup_tcp, typedef_btf_bpf_sock_addr_skc_lookup_tcp,
     typedef_btf_bpf_sock_addr_sk_lookup_tcp, typedef_btf_bpf_sock_addr_sk_lookup_udp,
     typedef_btf_bpf_tcp_sock, typedef_btf_bpf_get_listener_sock, typedef_btf_bpf_skb_ecn_set_ce,
     typedef_btf_bpf_tcp_check_syncookie, typedef_btf_bpf_tcp_gen_syncookie,
     typedef_btf_bpf_sk_assign, typedef_btf_bpf_sock_ops_load_hdr_opt,
     typedef_btf_bpf_sock_ops_store_hdr_opt, typedef_btf_bpf_sock_ops_reserve_hdr_opt,
     typedef_btf_bpf_sk_lookup_assign, typedef_btf_bpf_skc_to_tcp6_sock,
     typedef_btf_bpf_skc_to_tcp_sock, typedef_btf_bpf_skc_to_tcp_timewait_sock,
     typedef_btf_bpf_skc_to_tcp_request_sock, typedef_btf_bpf_skc_to_udp6_sock,
     typedef_btf_bpf_sk_storage_get, typedef_btf_bpf_sk_storage_delete,
     typedef_btf_bpf_tcp_send_ack]"

lemmas helper_type_defs =
  typedef_btf_bpf_probe_read_user_def typedef_btf_bpf_probe_read_user_str_def
  typedef_btf_bpf_probe_read_kernel_def typedef_btf_bpf_probe_read_kernel_str_def
  typedef_btf_bpf_probe_read_compat_def typedef_btf_bpf_probe_read_compat_str_def
  typedef_btf_bpf_probe_write_user_def typedef_btf_bpf_trace_printk_def
  typedef_btf_bpf_seq_printf_def typedef_btf_bpf_seq_write_def typedef_btf_bpf_seq_printf_btf_def
  typedef_btf_bpf_perf_event_read_def typedef_btf_bpf_perf_event_read_value_def
  typedef_btf_bpf_perf_event_output_def typedef_btf_bpf_get_current_task_def
  typedef_btf_bpf_current_task_under_cgroup_def typedef_btf_bpf_send_signal_def
  typedef_btf_bpf_send_signal_thread_def typedef_btf_bpf_d_path_def
  typedef_btf_bpf_snprintf_btf_def typedef_btf_bpf_perf_event_output_tp_def
  typedef_btf_bpf_get_stackid_tp_def typedef_btf_bpf_get_stack_tp_def
  typedef_btf_bpf_perf_prog_read_value_def typedef_btf_bpf_read_branch_records_def
  typedef_btf_bpf_perf_event_output_raw_tp_def typedef_btf_bpf_get_stackid_raw_tp_def
  typedef_btf_bpf_get_stack_raw_tp_def typedef_btf_bpf_user_rnd_u32_def
  typedef_btf_bpf_get_raw_cpu_id_def typedef_btf_bpf_map_lookup_elem_def
  typedef_btf_bpf_map_update_elem_def typedef_btf_bpf_map_delete_elem_def
  typedef_btf_bpf_map_push_elem_def typedef_btf_bpf_map_pop_elem_def
  typedef_btf_bpf_map_peek_elem_def typedef_btf_bpf_get_smp_processor_id_def
  typedef_btf_bpf_get_numa_node_id_def typedef_btf_bpf_ktime_get_ns_def
  typedef_btf_bpf_ktime_get_boot_ns_def typedef_btf_bpf_get_current_pid_tgid_def
  typedef_btf_bpf_get_current_uid_gid_def typedef_btf_bpf_get_current_comm_def
  typedef_btf_bpf_spin_lock_def typedef_btf_bpf_spin_unlock_def typedef_btf_bpf_jiffies64_def
  typedef_btf_bpf_get_current_cgroup_id_def typedef_btf_bpf_get_current_ancestor_cgroup_id_def
  typedef_btf_bpf_get_local_storage_def typedef_btf_bpf_strtol_def typedef_btf_bpf_strtoul_def
  typedef_btf_bpf_get_ns_current_pid_tgid_def typedef_btf_bpf_event_output_data_def
  typedef_btf_bpf_copy_from_user_def typedef_btf_bpf_per_cpu_ptr_def
  typedef_btf_bpf_this_cpu_ptr_def typedef_btf_bpf_ringbuf_reserve_def
  typedef_btf_bpf_ringbuf_submit_def typedef_btf_bpf_ringbuf_discard_def
  typedef_btf_bpf_ringbuf_output_def typedef_btf_bpf_ringbuf_query_def
  typedef_btf_bpf_get_stackid_def typedef_btf_bpf_get_stackid_pe_def typedef_btf_bpf_get_stack_def
  typedef_btf_bpf_get_task_stack_def typedef_btf_bpf_get_stack_pe_def
  typedef_btf_bpf_sysctl_get_name_def typedef_btf_bpf_sysctl_get_current_value_def
  typedef_btf_bpf_sysctl_get_new_value_def typedef_btf_bpf_sysctl_set_new_value_def
  typedef_btf_bpf_rc_repeat_def typedef_btf_bpf_rc_keydown_def typedef_btf_bpf_rc_pointer_rel_def
  typedef_btf_bpf_skb_get_pay_offset_def typedef_btf_bpf_skb_get_nlattr_def
  typedef_btf_bpf_skb_get_nlattr_nest_def typedef_btf_bpf_skb_load_helper_8_def
  typedef_btf_bpf_skb_load_helper_8_no_cache_def typedef_btf_bpf_skb_load_helper_16_def
  typedef_btf_bpf_skb_load_helper_16_no_cache_def typedef_btf_bpf_skb_load_helper_32_def
  typedef_btf_bpf_skb_load_helper_32_no_cache_def typedef_btf_bpf_skb_store_bytes_def
  typedef_btf_bpf_skb_load_bytes_def typedef_btf_bpf_flow_dissector_load_bytes_def
  typedef_btf_bpf_skb_load_bytes_relative_def typedef_btf_bpf_skb_pull_data_def
  typedef_btf_bpf_sk_fullsock_def typedef_btf_bpf_l3_csum_replace_def
  typedef_btf_bpf_l4_csum_replace_def typedef_btf_bpf_csum_diff_def
  typedef_btf_bpf_csum_update_def typedef_btf_bpf_csum_level_def
  typedef_btf_bpf_clone_redirect_def typedef_btf_bpf_redirect_def
  typedef_btf_bpf_redirect_peer_def typedef_btf_bpf_redirect_neigh_def
  typedef_btf_bpf_msg_apply_bytes_def typedef_btf_bpf_msg_cork_bytes_def
  typedef_btf_bpf_msg_pull_data_def typedef_btf_bpf_msg_push_data_def
  typedef_btf_bpf_msg_pop_data_def typedef_btf_bpf_get_cgroup_classid_def
  typedef_btf_bpf_get_route_realm_def typedef_btf_bpf_get_hash_recalc_def
  typedef_btf_bpf_set_hash_invalid_def typedef_btf_bpf_set_hash_def
  typedef_btf_bpf_skb_vlan_push_def typedef_btf_bpf_skb_vlan_pop_def
  typedef_btf_bpf_skb_change_proto_def typedef_btf_bpf_skb_change_type_def
  typedef_btf_bpf_skb_adjust_room_def typedef_btf_bpf_skb_change_tail_def
  typedef_btf_bpf_skb_change_head_def typedef_btf_bpf_xdp_adjust_head_def
  typedef_btf_bpf_xdp_adjust_tail_def typedef_btf_bpf_xdp_adjust_meta_def
  typedef_btf_bpf_xdp_redirect_def typedef_btf_bpf_xdp_redirect_map_def
  typedef_btf_bpf_skb_event_output_def typedef_btf_bpf_skb_get_tunnel_key_def
  typedef_btf_bpf_skb_get_tunnel_opt_def typedef_btf_bpf_skb_set_tunnel_key_def
  typedef_btf_bpf_skb_set_tunnel_opt_def typedef_btf_bpf_skb_under_cgroup_def
  typedef_btf_bpf_skb_cgroup_id_def typedef_btf_bpf_skb_ancestor_cgroup_id_def
  typedef_btf_bpf_sk_cgroup_id_def typedef_btf_bpf_sk_ancestor_cgroup_id_def
  typedef_btf_bpf_xdp_event_output_def typedef_btf_bpf_get_socket_cookie_def
  typedef_btf_bpf_get_socket_cookie_sock_addr_def typedef_btf_bpf_get_socket_cookie_sock_def
  typedef_btf_bpf_get_socket_cookie_sock_ops_def typedef_btf_bpf_get_netns_cookie_sock_def
  typedef_btf_bpf_get_netns_cookie_sock_addr_def typedef_btf_bpf_get_socket_uid_def
  typedef_btf_bpf_sock_addr_setsockopt_def typedef_btf_bpf_sock_addr_getsockopt_def
  typedef_btf_bpf_sock_ops_setsockopt_def typedef_btf_bpf_sock_ops_getsockopt_def
  typedef_btf_bpf_sock_ops_cb_flags_set_def typedef_btf_bpf_bind_def
  typedef_btf_bpf_skb_get_xfrm_state_def typedef_btf_bpf_xdp_fib_lookup_def
  typedef_btf_bpf_skb_fib_lookup_def typedef_btf_bpf_lwt_in_push_encap_def
  typedef_btf_bpf_lwt_xmit_push_encap_def typedef_btf_bpf_skc_lookup_tcp_def
  typedef_btf_bpf_sk_lookup_tcp_def typedef_btf_bpf_sk_lookup_udp_def
  typedef_btf_bpf_sk_release_def typedef_btf_bpf_xdp_sk_lookup_udp_def
  typedef_btf_bpf_xdp_skc_lookup_tcp_def typedef_btf_bpf_xdp_sk_lookup_tcp_def
  typedef_btf_bpf_sock_addr_skc_lookup_tcp_def typedef_btf_bpf_sock_addr_sk_lookup_tcp_def
  typedef_btf_bpf_sock_addr_sk_lookup_udp_def typedef_btf_bpf_tcp_sock_def
  typedef_btf_bpf_get_listener_sock_def typedef_btf_bpf_skb_ecn_set_ce_def
  typedef_btf_bpf_tcp_check_syncookie_def typedef_btf_bpf_tcp_gen_syncookie_def
  typedef_btf_bpf_sk_assign_def typedef_btf_bpf_sock_ops_load_hdr_opt_def
  typedef_btf_bpf_sock_ops_store_hdr_opt_def typedef_btf_bpf_sock_ops_reserve_hdr_opt_def
  typedef_btf_bpf_sk_lookup_assign_def typedef_btf_bpf_skc_to_tcp6_sock_def
  typedef_btf_bpf_skc_to_tcp_sock_def typedef_btf_bpf_skc_to_tcp_timewait_sock_def
  typedef_btf_bpf_skc_to_tcp_request_sock_def typedef_btf_bpf_skc_to_udp6_sock_def
  typedef_btf_bpf_sk_storage_get_def typedef_btf_bpf_sk_storage_delete_def
  typedef_btf_bpf_tcp_send_ack_def

text \<open>A value that travels in one register: an integer or a pointer of at most 8 bytes.\<close>

fun in_register :: "ctyp \<Rightarrow> bool" where
  "in_register (CInt s b) = (b \<le> 8)"
| "in_register (CPtr t) = True"
| "in_register (CEnum e) = True"
| "in_register t = False"

definition fits_registers :: "helper_type \<Rightarrow> bool" where
  "fits_registers h = (in_register (result_type h) \<and> length (argument_types h) \<le> 5 \<and>
     list_all in_register (argument_types h))"

lemma scalar_registers:
  "in_register typedef_u64" "in_register typedef_u32" "in_register typedef_s32" "in_register typedef_u16"
  "in_register typedef_size_t" "in_register typedef___wsum" "in_register typedef___be16"
  by (simp_all add: typedef_u64_def typedef___u64_def typedef_u32_def typedef___u32_def typedef_s32_def
      typedef___s32_def typedef_u16_def typedef___u16_def typedef_size_t_def typedef___kernel_size_t_def
      typedef___kernel_ulong_t_def typedef___wsum_def typedef___be16_def)

lemma helpers_fit_registers: "list_all fits_registers helper_types"
  by (simp add: helper_types_def helper_type_defs fits_registers_def scalar_registers)

end
