(* ===== verification/Capture.thy ===== *)
theory Capture
  imports Recon
begin

text \<open>
  What the argument snapshot of \<^verbatim>\<open>bpf/recon.bpf.c\<close> holds: for a \<^verbatim>\<open>jvalue\<close> array, for an
  AArch64 \<^verbatim>\<open>va_list\<close> (\<^verbatim>\<open>struct __va_list\<close> of \<^verbatim>\<open>vmlinux.h\<close>) and for register arguments;
  the shape of every submitted event; and its independence of the stale contents of the ring buffer.
\<close>

section \<open>Words in memory\<close>

lemma le_val_append: "le_val (xs @ ys) = le_val xs + 256 ^ length xs * le_val ys"
  by (induction xs) (simp_all add: algebra_simps)

lemma le_val_put32: "le_val (put32 w) = unat w"
proof -
  have "unat w < 4294967296" using unsigned_less [of w] by simp
  then show ?thesis by (simp add: put32_def le_val_le_bytes)
qed

lemma unat_ucast_eq_mod_num:
  "unat (ucast (word_of_nat n :: u64) :: u32) = n mod 2 ^ 32"
  by (simp add: unsigned_ucast_eq unsigned_of_nat take_bit_nat_def mod_mod_cancel)

lemma get64_two_words: "(ucast (get64 (put32 a @ put32 b)) :: u32) = a"
proof -
  have "unat a < 2 ^ 32" using unsigned_less [of a] by simp
  then have "unat (ucast (get64 (put32 a @ put32 b)) :: u32) = unat a"
    unfolding get64_def le_val_append le_val_put32 unat_ucast_eq_mod_num by simp
  then show ?thesis by (simp add: word_unat_eq_iff)
qed

definition word_at :: "mem \<Rightarrow> u64 \<Rightarrow> u64 \<Rightarrow> bool" where
  "word_at m a v = (read_mem m a 8 = Some (put64 v))"

lemma rd64_word_at: "word_at m a v \<Longrightarrow> rd64 m a = v"
  by (simp add: word_at_def rd64_def)

lemma length_snapshot [simp]: "length (snapshot m p) = NCAP"
  by (simp add: snapshot_def)

lemma snapshot_nth: "i < NCAP \<Longrightarrow> snapshot m p ! i = rd64 m (p + word_of_nat i * 8)"
  by (simp add: snapshot_def)

section \<open>The variable argument list\<close>

record va_list =
  va_stack :: u64
  va_gr_top :: u64
  va_vr_top :: u64
  va_gr_offs :: s32
  va_vr_offs :: s32

definition va_list_bytes :: "va_list \<Rightarrow> u8 list" where
  "va_list_bytes v = put64 (va_stack v) @ put64 (va_gr_top v) @ put64 (va_vr_top v) @
     put32 (va_gr_offs v) @ put32 (va_vr_offs v)"

definition va_list_at :: "mem \<Rightarrow> u64 \<Rightarrow> va_list \<Rightarrow> bool" where
  "va_list_at m p v = (read_mem m p 32 = Some (va_list_bytes v))"

lemma read_va_list_at:
  assumes "va_list_at m p v"
  shows "read_va_list m p ! 0 = va_stack v" and "read_va_list m p ! 1 = va_gr_top v"
    and "(ucast (read_va_list m p ! 3) :: s32) = va_gr_offs v"
  using assms get64_two_words [of "va_gr_offs v" "va_vr_offs v"]
  by (simp_all add: read_va_list_def va_list_at_def va_list_bytes_def)

section \<open>Snapshots\<close>

lemma capture_jvalues:
  "ev_cap (capture m e p 1 ix) = snapshot m p" "ev_argkind (capture m e p 1 ix) = 1"
  by (simp_all add: capture_def Let_def)

lemma capture_va_list:
  assumes "va_list_at m p v"
  shows "ev_vstk (capture m e p 2 ix) = va_stack v" and "ev_vgr (capture m e p 2 ix) = va_gr_top v"
    and "ev_vgoff (capture m e p 2 ix) = scast (va_gr_offs v)"
    and "ev_cap (capture m e p 2 ix) = snapshot m (va_gr_top v - 128)"
    and "ev_cap2 (capture m e p 2 ix) = snapshot m (va_stack v)"
    and "ev_argkind (capture m e p 2 ix) = 2"
  using read_va_list_at [OF assms] by (simp_all add: capture_def Let_def)

section \<open>Shape of an event\<close>

definition evt_shape :: "evt_t \<Rightarrow> bool" where
  "evt_shape e = (length (ev_a e) = NARGS \<and> length (ev_cap e) = NCAP \<and> length (ev_cap2 e) = NCAP)"

definition mem_shape :: "evt_t kenv \<Rightarrow> bool" where
  "mem_shape K = (case rb_mem K of None \<Rightarrow> True
     | Some g \<Rightarrow> length (ev_cap g) = NCAP \<and> length (ev_cap2 g) = NCAP)"

lemma capture_shape: "evt_shape e \<Longrightarrow> evt_shape (capture m e p k ix)"
  by (simp add: evt_shape_def capture_def Let_def)

text \<open>The event \<^verbatim>\<open>up_all\<close> submits, as one expression.\<close>

definition entry_event :: "evt_t kenv \<Rightarrow> pt_regs \<Rightarrow> rmaps \<Rightarrow> evt_t \<Rightarrow> evt_t" where
  "entry_event K ctx s g =
     (case array_lookup (cfg s) 0 of None \<Rightarrow> init_entry K ctx g
      | Some base \<Rightarrow>
          (let off = PT_REGS_IP ctx - base
           in snap_stack K ctx s (snap_args K off s
                (fst (track_entry K off (init_entry K ctx g) s)))))"

lemma snap_stack_cong: "cfg s' = cfg s \<Longrightarrow> snap_stack K ctx s' e = snap_stack K ctx s e"
  by (simp add: snap_stack_def)

lemma snap_args_cong:
  "argkind s' = argkind s \<Longrightarrow> argidx s' = argidx s \<Longrightarrow> snap_args K off s' e = snap_args K off s e"
  by (simp add: snap_args_def)

lemma track_entry_maps:
  "track_entry K off e s = (e', s') \<Longrightarrow>
     cfg s' = cfg s \<and> argkind s' = argkind s \<and> argidx s' = argidx s \<and> events s' = events s"
  by (auto simp: track_entry_def Let_def split: option.splits prod.splits)

lemma events_up_all:
  assumes "rb_mem K = Some g"
  shows "events (up_all K ctx s) = events s @ [entry_event K ctx s g]"
proof (cases "array_lookup (cfg s) 0")
  case None
  with assms show ?thesis by (simp add: up_all_def entry_event_def)
next
  case (Some base)
  let ?off = "PT_REGS_IP ctx - base" and ?e = "init_entry K ctx g"
  obtain e' s' where t: "track_entry K ?off ?e s = (e', s')" by fastforce
  moreover have "ev_ip ?e = PT_REGS_IP ctx" by (simp add: init_entry_def)
  ultimately show ?thesis using assms Some track_entry_maps [OF t]
    by (simp add: up_all_def entry_event_def Let_def
        snap_args_cong [of s' s] snap_stack_cong [of s' s])
qed

lemma track_entry_frame [simp]:
  "ev_a (fst (track_entry K off e s)) = ev_a e" "ev_cap (fst (track_entry K off e s)) = ev_cap e"
  "ev_cap2 (fst (track_entry K off e s)) = ev_cap2 e"
  by (simp_all add: track_entry_def Let_def split: option.splits prod.splits)

lemma init_entry_shape:
  "length (ev_cap g) = NCAP \<Longrightarrow> length (ev_cap2 g) = NCAP \<Longrightarrow> evt_shape (init_entry K ctx g)"
  by (simp add: evt_shape_def init_entry_def NARGS_def)

lemma snap_args_shape: "evt_shape e \<Longrightarrow> evt_shape (snap_args K off s e)"
  using snap_args_cases [of K off s e] capture_shape by metis

lemma snap_stack_shape: "evt_shape (snap_stack K ctx s e) = evt_shape e"
  by (simp add: evt_shape_def)

lemma entry_event_shape:
  assumes "length (ev_cap g) = NCAP" and "length (ev_cap2 g) = NCAP"
  shows "evt_shape (entry_event K ctx s g)"
proof (cases "array_lookup (cfg s) 0")
  case None
  with assms show ?thesis by (simp add: entry_event_def init_entry_shape)
next
  case (Some base)
  have "evt_shape (fst (track_entry K off (init_entry K ctx g) s))" for off
    using init_entry_shape [OF assms, of K ctx] by (simp add: evt_shape_def)
  with Some show ?thesis
    by (simp add: entry_event_def Let_def snap_stack_shape snap_args_shape)
qed

lemma up_ret_shape:
  assumes "rb_mem K = Some g" and "length (ev_cap g) = NCAP" and "length (ev_cap2 g) = NCAP"
  shows "\<exists>e. events (up_ret K ctx s) = events s @ [e] \<and> evt_shape e"
  using assms by (auto simp: up_ret_def init_return_def Let_def evt_shape_def NARGS_def
      split: prod.splits)

lemma up_all_shape:
  assumes "\<forall>e \<in> set (events s). evt_shape e" and "mem_shape K"
  shows "\<forall>e \<in> set (events (up_all K ctx s)). evt_shape e"
proof (cases "rb_mem K")
  case None
  with assms(1) show ?thesis by (simp add: up_all_drop)
next
  case (Some g)
  with assms show ?thesis by (simp add: mem_shape_def events_up_all entry_event_shape)
qed



section \<open>Independence of stale memory\<close>

text \<open>
  The reserved ring-buffer memory is not cleared, and the probes do not assign every member. The
  members a consumer may read are all scalars but the two reserved ones, and of the snapshots the
  part that the kind of the snapshot announces.
\<close>

definition observable :: "evt_t \<Rightarrow> evt_t" where
  "observable e =
     e\<lparr>ev_res1 := 0, ev_res2 := 0,
       ev_cap := (if ev_argkind e = 1 \<or> ev_argkind e = 2 then ev_cap e
                  else if ev_argkind e = 3 then take 2 (ev_cap e) else []),
       ev_cap2 := (if ev_argkind e = 2 then ev_cap2 e else [])\<rparr>"

definition kinds_ok :: "rmaps \<Rightarrow> bool" where
  "kinds_ok s = (ran (argkind s) \<subseteq> {0, 1, 2, 3})"

text \<open>Replacing exactly the members that come from the reserved memory.\<close>

definition restale :: "evt_t \<Rightarrow> evt_t \<Rightarrow> evt_t" where
  "restale g e = e\<lparr>ev_res1 := ev_res1 g, ev_res2 := ev_res2 g, ev_cap := ev_cap g, ev_cap2 := ev_cap2 g\<rparr>"

lemma init_entry_restale: "init_entry K ctx g' = restale g' (init_entry K ctx g)"
  by (cases g; cases g') (simp add: init_entry_def restale_def)

lemma track_entry_restale:
  "fst (track_entry K off (restale g e) s) = restale g (fst (track_entry K off e s))"
  by (simp add: track_entry_def restale_def Let_def split: option.split prod.split)

lemma observable_restale: "ev_argkind e = 0 \<Longrightarrow> observable (restale g e) = observable e"
  by (simp add: observable_def restale_def)

lemma take_two_updates: "2 \<le> length xs \<Longrightarrow> take 2 (xs[0 := a, Suc 0 := b]) = [a, b]"
  by (cases xs; cases "tl xs") auto

lemma observable_capture_restale:
  assumes "k = 1 \<or> k = 2 \<or> k = 3" and "2 \<le> length (ev_cap e)" and "2 \<le> length (ev_cap g)"
  shows "observable (capture m (restale g e) p k ix) = observable (capture m e p k ix)"
  using assms
  by (elim disjE) (simp_all add: observable_def restale_def capture_def Let_def take_two_updates)

lemma observable_snap_stack:
  "observable (snap_stack K ctx s e) =
     (case array_lookup (cfg s) 1 of None \<Rightarrow> observable e
      | Some ws \<Rightarrow> if ws \<noteq> 0 then (observable e)\<lparr>ev_stackid := ucast (get_stackid K ctx)\<rparr>
                  else observable e)"
  by (simp add: snap_stack_def observable_def split: option.split)

lemma restale_a [simp]: "ev_a (restale g e) = ev_a e"
  by (simp add: restale_def)

lemma observable_snap_args_restale:
  assumes "kinds_ok s" and "ev_argkind e = 0"
    and "2 \<le> length (ev_cap e)" and "2 \<le> length (ev_cap g)"
  shows "observable (snap_args K off s (restale g e)) = observable (snap_args K off s e)"
proof (cases "argkind s off")
  case None
  with assms(2) show ?thesis by (simp add: snap_args_def observable_restale)
next
  case (Some k)
  with assms(1) have "k = 0 \<or> uint k = 1 \<or> uint k = 2 \<or> uint k = 3"
    by (auto simp: kinds_ok_def ran_def)
  with Some assms(2-4) show ?thesis
    by (auto simp: snap_args_def observable_restale observable_capture_restale split: option.split)
qed

lemma track_entry_argkind [simp]: "ev_argkind (fst (track_entry K off e s)) = ev_argkind e"
  by (simp add: track_entry_def Let_def split: option.splits prod.splits)

lemma entry_event_observable:
  assumes "kinds_ok s" and "length (ev_cap g) = NCAP" and "length (ev_cap g') = NCAP"
  shows "observable (entry_event K ctx s g') = observable (entry_event K ctx s g)"
proof -
  have i: "init_entry K ctx g' = restale g' (init_entry K ctx g)" by (rule init_entry_restale)
  have "ev_argkind (init_entry K ctx g) = 0" and "ev_cap (init_entry K ctx g) = ev_cap g"
    by (simp_all add: init_entry_def)
  with assms show ?thesis
    by (simp add: entry_event_def i track_entry_restale Let_def observable_snap_stack
        observable_snap_args_restale observable_restale NCAP_def split: option.split)
qed

definition return_event :: "evt_t kenv \<Rightarrow> pt_regs \<Rightarrow> rmaps \<Rightarrow> evt_t \<Rightarrow> evt_t" where
  "return_event K ctx s g =
     (init_return K ctx g)\<lparr>ev_depth := fst (depth_leave (map_accepts K) (depth s) (cur_tid K))\<rparr>"

lemma events_up_ret:
  "rb_mem K = Some g \<Longrightarrow> events (up_ret K ctx s) = events s @ [return_event K ctx s g]"
  by (simp add: up_ret_def return_event_def init_return_def Let_def split: prod.split)

lemma init_return_restale: "init_return K ctx g' = restale g' (init_return K ctx g)"
  by (cases g; cases g') (simp add: init_return_def restale_def)

lemma return_event_observable:
  "observable (return_event K ctx s g') = observable (return_event K ctx s g)"
proof -
  have "return_event K ctx s g' = restale g' (return_event K ctx s g)"
    by (simp add: return_event_def init_return_restale [of K ctx g' g] restale_def)
  moreover have "ev_argkind (return_event K ctx s g) = 0"
    by (simp add: return_event_def init_return_def)
  ultimately show ?thesis by (simp add: observable_restale)
qed

text \<open>
  C17. No stale kernel memory reaches the consumer: with the snapshot kinds the loader installs, the
  part of a submitted event that the consumer may read does not depend on what the reserved
  ring-buffer memory held before, for the entry probe and for the return probe.
\<close>

theorem events_independent_of_stale_memory:
  assumes "kinds_ok s" and "rb_mem K = Some g"
    and "length (ev_cap g) = NCAP" and "length (ev_cap g') = NCAP"
  shows "observable (last (events (up_all K ctx s))) =
           observable (last (events (up_all (K\<lparr>rb_mem := Some g'\<rparr>) ctx s))) \<and>
         observable (last (events (up_ret K ctx s))) =
           observable (last (events (up_ret (K\<lparr>rb_mem := Some g'\<rparr>) ctx s)))"
proof -
  let ?K = "K\<lparr>rb_mem := Some g'\<rparr>"
  have init: "init_entry ?K ctx g' = init_entry K ctx g'" by (simp add: init_entry_def)
  have track: "track_entry ?K off e s = track_entry K off e s" for off e
    by (simp add: track_entry_def split: option.split)
  have args: "snap_args ?K off s e = snap_args K off s e" for off e
    by (simp add: snap_args_def split: option.split)
  have stack: "snap_stack ?K ctx s e = snap_stack K ctx s e" for e
    by (simp add: snap_stack_def split: option.split)
  have "entry_event ?K ctx s g' = entry_event K ctx s g'"
    by (simp add: entry_event_def init track args stack split: option.split)
  moreover have "return_event ?K ctx s g' = return_event K ctx s g'"
    by (simp add: return_event_def init_return_def)
  moreover have "rb_mem ?K = Some g'" by simp
  ultimately show ?thesis
    using entry_event_observable [OF assms(1,3,4), of K ctx] return_event_observable [of K ctx s g' g]
    by (simp add: events_up_all [OF assms(2)] events_up_ret [OF assms(2)]
        events_up_all [of ?K g'] events_up_ret [of ?K g'])
qed

theorem events_independent_of_stale_memory_witness:
  "observable (last (events (up_all (demo_env (Some (stale 5)) 9) (demo_regs 0x1010 [1]) demo_maps))) =
   observable (last (events (up_all (demo_env (Some (stale 6)) 9) (demo_regs 0x1010 [1]) demo_maps)))"
proof -
  have "kinds_ok demo_maps" by (simp add: kinds_ok_def demo_maps_def)
  moreover have "rb_mem (demo_env (Some (stale 5)) 9) = Some (stale 5)" by (simp add: demo_env_def)
  moreover have "length (ev_cap (stale 5)) = NCAP" "length (ev_cap (stale 6)) = NCAP"
    by (simp_all add: stale_def)
  ultimately show ?thesis
    using events_independent_of_stale_memory [of demo_maps "demo_env (Some (stale 5)) 9"
        "stale 5" "stale 6" "demo_regs 0x1010 [1]"]
    by (simp add: demo_env_def)
qed

end
