(* ===== verification/KernelFacts.thy ===== *)
theory KernelFacts
  imports KernelHelpers Envprobe Smoke Capture
begin

text \<open>
  What the layouts of \<^verbatim>\<open>vmlinux.h\<close> say about the probe programs: the registers the accessors read
  are where the kernel's register frame has them, the words of a \<^verbatim>\<open>va_list\<close> are where the argument
  snapshot takes them, the maps the objects declare are of known types and acceptable sizes, and the
  records of the ring buffer bound how many events can be outstanding. The records of the three BPF
  objects are C types here too, so that their layouts are compared with those the loader decodes.
\<close>

section \<open>The records of the BPF objects as C types\<close>

definition struct_evt_t :: ctyp where
  "struct_evt_t =
    CStruct False [Mem ''pid'' typedef___u32, Mem ''tid'' typedef___u32, Mem ''kind'' typedef___u32,
     Mem ''pad'' typedef___u32, Mem ''ip'' typedef___u64, Mem ''rc'' typedef___u64,
     Mem ''ts'' typedef___u64, Mem ''depth'' typedef___s32, Mem ''pad2'' typedef___u32,
     Mem ''caller'' typedef___u64, Mem ''a'' (CArr typedef___u64 NARGS), Mem ''ncap'' typedef___u32,
     Mem ''argkind'' typedef___u32, Mem ''res1'' typedef___u32, Mem ''res2'' typedef___u32,
     Mem ''cap'' (CArr typedef___u64 NCAP), Mem ''cap2'' (CArr typedef___u64 NCAP),
     Mem ''vgr'' typedef___u64, Mem ''vgoff'' typedef___s64, Mem ''vstk'' typedef___u64,
     Mem ''stackid'' typedef___s32, Mem ''pad3'' typedef___u32]"

definition struct_dump_t :: ctyp where
  "struct_dump_t =
    CStruct False [Mem ''pid'' typedef___u32, Mem ''site'' typedef___u32, Mem ''reg'' typedef___u32,
     Mem ''pad'' typedef___u32, Mem ''env'' typedef___u64, Mem ''table'' typedef___u64,
     Mem ''slots'' (CArr typedef___u64 NSLOTS)]"

definition struct_event_t :: ctyp where
  "struct_event_t =
    CStruct False [Mem ''pid'' typedef___u32, Mem ''pad'' typedef___u32, Mem ''ip'' typedef___u64,
     Mem ''parm1'' typedef___u64, Mem ''parm2'' typedef___u64, Mem ''parm3'' typedef___u64,
     Mem ''tag'' (CArr c_char 16)]"

definition member_bytes :: "ctyp \<Rightarrow> nat list" where
  "member_bytes t = map (\<lambda>(m, p). p div 8) (members t)"

text \<open>
  The two ways a record of the probes is described agree: laid out as a C type with the scalar
  types of the kernel header, the event and the dump have every member where the loader's layout of the
  same record puts it, and their sizes are the 400 and 1952 bytes the loader reads; the smoke event
  has 56 bytes.
\<close>

theorem records_as_c_types:
  "member_bytes struct_evt_t = butlast (go_offsets 0 recon_members) \<and> tsize struct_evt_t = 400 \<and>
   member_bytes struct_dump_t = butlast (go_offsets 0 env_members) \<and> tsize struct_dump_t = 1952 \<and>
   member_bytes struct_event_t = [0, 4, 8, 16, 24, 32, 40] \<and> tsize struct_event_t = 56"
proof -
  have "member_bytes struct_evt_t = [0, 4, 8, 12, 16, 24, 32, 40, 44, 48, 56, 96, 100, 104, 108, 112, 240,
      368, 376, 384, 392, 396]" "tsize struct_evt_t = 400"
    "member_bytes struct_dump_t = [0, 4, 8, 12, 16, 24, 32]" "tsize struct_dump_t = 1952"
    "member_bytes struct_event_t = [0, 4, 8, 16, 24, 32, 40]" "tsize struct_event_t = 56"
    by (simp_all add: member_bytes_def struct_evt_t_def struct_dump_t_def struct_event_t_def NARGS_def
        NCAP_def NSLOTS_def layout layout_simps)
  moreover have "butlast (go_offsets 0 recon_members) = [0, 4, 8, 12, 16, 24, 32, 40, 44, 48, 56, 96, 100,
      104, 108, 112, 240, 368, 376, 384, 392, 396]"
    "butlast (go_offsets 0 env_members) = [0, 4, 8, 12, 16, 24, 32]" by code_simp+
  ultimately show ?thesis by simp
qed

section \<open>Registers\<close>

text \<open>The memory of a \<^verbatim>\<open>struct user_pt_regs\<close> and a 64-bit load from it.\<close>

definition regs_image :: "pt_regs \<Rightarrow> u8 list" where
  "regs_image r = concat (map put64 (regs r)) @ put64 (sp r) @ put64 (pc r) @ put64 (pstate r)"

definition load64 :: "u8 list \<Rightarrow> nat \<Rightarrow> u64" where
  "load64 img p = get64 (take 8 (drop p img))"

definition load32 :: "u8 list \<Rightarrow> nat \<Rightarrow> u32" where
  "load32 img p = get32 (take 4 (drop p img))"

lemma load64_words:
  assumes "i < length ws"
  shows "load64 (concat (map put64 ws) @ r) (8 * i) = ws ! i"
  using assms
proof (induction ws arbitrary: i)
  case (Cons w ws)
  then show ?case by (cases i) (simp_all add: load64_def)
qed simp

lemma length_words: "length (concat (map put64 ws)) = 8 * length ws"
  by (induction ws) simp_all

lemma user_pt_regs_offsets:
  "offsetof struct_user_pt_regs ''regs'' = Some 0" "offsetof struct_user_pt_regs ''sp'' = Some 248"
  "offsetof struct_user_pt_regs ''pc'' = Some 256" "offsetof struct_user_pt_regs ''pstate'' = Some 264"
  "tsize struct_user_pt_regs = 272"
  by (simp_all add: layout layout_simps struct_user_pt_regs_def)

lemma pt_regs_offsets:
  "offsetof struct_pt_regs ''user_regs'' = Some 0"
  "offsetof struct_pt_regs ''regs'' = Some 0" "offsetof struct_pt_regs ''sp'' = Some 248"
  "offsetof struct_pt_regs ''pc'' = Some 256" "offsetof struct_pt_regs ''pstate'' = Some 264"
  by (simp_all add: layout layout_simps struct_pt_regs_def)

lemmas frame_offsets = user_pt_regs_offsets pt_regs_offsets



text \<open>
  The words the argument snapshot takes from a \<^verbatim>\<open>va_list\<close> are the members of the kernel
  header's \<^verbatim>\<open>struct __va_list\<close>: the image of a \<^verbatim>\<open>va_list\<close> has the size of the structure, each
  member is read back at its offset, and the three members used are words 0 and 1 and the low half of
  word 3.
\<close>

theorem va_list_image:
  "length (va_list_bytes v) = tsize struct___va_list \<and>
   load64 (va_list_bytes v) (the (offsetof struct___va_list ''__stack'')) = va_stack v \<and>
   load64 (va_list_bytes v) (the (offsetof struct___va_list ''__gr_top'')) = va_gr_top v \<and>
   load64 (va_list_bytes v) (the (offsetof struct___va_list ''__vr_top'')) = va_vr_top v \<and>
   load32 (va_list_bytes v) (the (offsetof struct___va_list ''__gr_offs'')) = va_gr_offs v \<and>
   load32 (va_list_bytes v) (the (offsetof struct___va_list ''__vr_offs'')) = va_vr_offs v \<and>
   map (offsetof struct___va_list) [''__stack'', ''__gr_top'', ''__gr_offs''] = map (\<lambda>i. Some (8 * i)) [0, 1, 3]"
proof -
  have "tsize struct___va_list = 32"
    "map (offsetof struct___va_list) [''__stack'', ''__gr_top'', ''__vr_top'', ''__gr_offs'', ''__vr_offs''] =
      [Some 0, Some 8, Some 16, Some 24, Some 28]"
    by (simp_all add: layout layout_simps struct___va_list_def)
  then show ?thesis by (simp add: va_list_bytes_def load64_def load32_def)
qed

section \<open>Maps\<close>

lemmas map_defs = events_map_def cfg_map_def stackmap_map_def argkind_map_def argidx_map_def
  hasret_map_def depth_map_def env_events_map_def seen_map_def smoke_events_map_def

text \<open>The ten maps the three objects declare, and the constant of the kernel's enumeration each names.\<close>

definition declared_maps :: "map_def list" where
  "declared_maps = [events_map, cfg_map, stackmap_map, argkind_map, argidx_map, hasret_map, depth_map,
     env_events_map, seen_map, smoke_events_map]"

fun map_type_name :: "map_type \<Rightarrow> string" where
  "map_type_name BPF_MAP_TYPE_RINGBUF = ''BPF_MAP_TYPE_RINGBUF''"
| "map_type_name BPF_MAP_TYPE_ARRAY = ''BPF_MAP_TYPE_ARRAY''"
| "map_type_name BPF_MAP_TYPE_HASH = ''BPF_MAP_TYPE_HASH''"
| "map_type_name BPF_MAP_TYPE_STACK_TRACE = ''BPF_MAP_TYPE_STACK_TRACE''"

definition map_code :: "map_def \<Rightarrow> int option" where
  "map_code d = map_of enum_bpf_map_type (map_type_name (mtype d))"

text \<open>
  The sizes documented for each type of map: a ring buffer has no keys or values and a power of two of
  whole pages; an array is indexed by 32-bit keys; a stack trace is a 32-bit identifier for at most 127
  words; a hash map has keys and values.
\<close>

definition map_sizes_ok :: "map_def \<Rightarrow> bool" where
  "map_sizes_ok d =
     (case mtype d of
        BPF_MAP_TYPE_RINGBUF \<Rightarrow> key_size d = 0 \<and> value_size d = 0 \<and> max_entries d mod 4096 = 0 \<and>
          list_ex (\<lambda>k. max_entries d = 2 ^ k) [12..<31]
      | BPF_MAP_TYPE_ARRAY \<Rightarrow> key_size d = 4 \<and> 0 < value_size d \<and> 0 < max_entries d
      | BPF_MAP_TYPE_HASH \<Rightarrow> 0 < key_size d \<and> 0 < value_size d \<and> 0 < max_entries d
      | BPF_MAP_TYPE_STACK_TRACE \<Rightarrow> key_size d = 4 \<and> 0 < value_size d \<and> value_size d mod 8 = 0 \<and>
          value_size d div 8 \<le> 127 \<and> 0 < max_entries d)"

lemma bpf_map_type_codes: "map snd enum_bpf_map_type = map int [0..<length enum_bpf_map_type]"
  by (simp add: enum_bpf_map_type_def upt_rec)

text \<open>The helpers the programs call, with their numbers and the number of arguments they are called with.\<close>

definition helper_calls :: "(string \<times> int \<times> helper_type \<times> nat) list" where
  "helper_calls =
    [(''BPF_FUNC_map_lookup_elem'', 1, typedef_btf_bpf_map_lookup_elem, 2),
     (''BPF_FUNC_map_update_elem'', 2, typedef_btf_bpf_map_update_elem, 4),
     (''BPF_FUNC_ktime_get_ns'', 5, typedef_btf_bpf_ktime_get_ns, 0),
     (''BPF_FUNC_get_current_pid_tgid'', 14, typedef_btf_bpf_get_current_pid_tgid, 0),
     (''BPF_FUNC_get_stackid'', 27, typedef_btf_bpf_get_stackid, 3),
     (''BPF_FUNC_probe_read_user'', 112, typedef_btf_bpf_probe_read_user, 3),
     (''BPF_FUNC_ringbuf_reserve'', 131, typedef_btf_bpf_ringbuf_reserve, 3),
     (''BPF_FUNC_ringbuf_submit'', 132, typedef_btf_bpf_ringbuf_submit, 2)]"

definition helper_known :: "string \<times> int \<times> helper_type \<times> nat \<Rightarrow> bool" where
  "helper_known c = (case c of (nm, k, h, n) \<Rightarrow>
     map_of enum_bpf_func_id nm = Some k \<and> h \<in> set helper_types \<and> length (argument_types h) = n)"

lemma helper_calls_known: "list_all helper_known helper_calls"
proof -
  have "list_all (\<lambda>(nm, k, h, n). map_of enum_bpf_func_id nm = Some k) helper_calls"
    by code_simp
  moreover have "list_all (\<lambda>(nm, k, h, n). length (argument_types h) = n) helper_calls"
    by (simp add: helper_calls_def helper_type_defs)
  moreover have "(\<lambda>(nm, k, h, n). h) ` set helper_calls \<subseteq> set helper_types"
    by (simp only: helper_calls_def helper_types_def list.set image_insert image_empty prod.case insert_subset
        empty_subsetI insert_iff simp_thms)
  ultimately show ?thesis by (fastforce simp: list_all_iff helper_known_def)
qed


section \<open>The ring buffer\<close>

text \<open>The room a record of \<open>n\<close> bytes takes: its header, rounded up to 8 bytes.\<close>

definition ring_record :: "nat \<Rightarrow> nat" where
  "ring_record n = up 8 (tsize struct_bpf_ringbuf_hdr + n)"

lemma ring_offsets:
  "offsetof struct_bpf_ringbuf ''consumer_pos'' = Some 4096"
  "offsetof struct_bpf_ringbuf ''producer_pos'' = Some 8192"
  "offsetof struct_bpf_ringbuf ''data'' = Some 12288"
  by (simp_all add: layout layout_simps struct_bpf_ringbuf_def)

lemma record_sizes: "tsize struct_evt_t = 400" "tsize struct_dump_t = 1952" "tsize struct_event_t = 56"
  by (simp_all add: struct_evt_t_def struct_dump_t_def struct_event_t_def NARGS_def NCAP_def NSLOTS_def
      layout layout_simps)


section \<open>The objects the programs touch\<close>

definition kernel_objects :: "ctyp list" where
  "kernel_objects = [struct_evt_t, struct_dump_t, struct_event_t, struct_user_pt_regs, struct_pt_regs,
     struct___va_list, struct_bpf_map, struct_bpf_array, struct_bpf_htab, struct_htab_elem,
     struct_bpf_stack_map, struct_stack_map_bucket, struct_bpf_ringbuf, struct_bpf_ringbuf_map,
     struct_bpf_prog, struct_bpf_insn, struct_task_struct, struct_uprobe, struct_return_instance]"

lemma kernel_objects_wf: "t \<in> set kernel_objects \<Longrightarrow> wft t \<and> natural t"
proof -
  have "list_all (\<lambda>t. wft t \<and> natural t) kernel_objects"
    by (simp add: kernel_objects_def layout)
      (simp add: struct_evt_t_def struct_dump_t_def struct_event_t_def layout)
  then show "t \<in> set kernel_objects \<Longrightarrow> wft t \<and> natural t" by (simp add: list_all_iff)
qed



end
