(* ===== verification/Filters.thy ===== *)
theory Filters
  imports Schema
begin

text \<open>
  \<^verbatim>\<open>loader/filters.go\<close>, the configuration record of \<^verbatim>\<open>loader/main.go\<close> and the
  interactive commands of \<^verbatim>\<open>applyCommand\<close> in \<^verbatim>\<open>loader/trace.go\<close>. Regular expressions
  are Go's \<^verbatim>\<open>regexp\<close> package: whether a pattern compiles and whether it matches are parameters.
  The mutex of the filters makes every method and every command one atomic step, which is what a
  function on the record is.
\<close>

record config =
  c_pid :: int
  c_name :: string
  c_runSec :: int
  c_offsets :: string
  c_libart :: string
  c_modes :: string
  c_only :: string
  c_exclude :: string
  c_noReturns :: bool
  c_maxDepth :: int
  c_grep :: string
  c_classRe :: string
  c_methodRe :: string
  c_from :: string
  c_tid :: int
  c_verbose :: bool
  c_count :: bool
  c_jsonOut :: bool
  c_noColor :: bool
  c_stack :: bool

record filters =
  modes :: "string \<Rightarrow> bool"
  only :: "string list"
  exclude :: "string list"
  grep :: string
  classRe :: "string option"
  methodRe :: "string option"
  from_mods :: "string list"
  f_tid :: int

section \<open>Construction\<close>

definition splitList :: "string \<Rightarrow> string list" where
  "splitList s = filter (\<lambda>x. x \<noteq> []) (map trimSpace (split_on (CHR '','') s))"

definition mode_set :: "string list \<Rightarrow> string \<Rightarrow> bool" where
  "mode_set ms = (\<lambda>m. m \<in> set ms)"

text \<open>\<^verbatim>\<open>regexp.MustCompile\<close> panics on a pattern that does not compile: \<^const>\<open>None\<close>.\<close>

definition compile :: "(string \<Rightarrow> bool) \<Rightarrow> string \<Rightarrow> string option option" where
  "compile re_ok s = (if s = [] then Some None else if re_ok s then Some (Some s) else None)"

definition newFilters :: "(string \<Rightarrow> bool) \<Rightarrow> config \<Rightarrow> filters option" where
  "newFilters re_ok c =
     (case compile re_ok (c_classRe c) of None \<Rightarrow> None
      | Some cre \<Rightarrow>
          (case compile re_ok (c_methodRe c) of None \<Rightarrow> None
           | Some mre \<Rightarrow>
               Some \<lparr>modes = mode_set (splitList (c_modes c)), only = splitList (c_only c),
                 exclude = splitList (c_exclude c), grep = c_grep c, classRe = cre, methodRe = mre,
                 from_mods = (if c_from c \<noteq> [] then splitList (c_from c) else []),
                 f_tid = c_tid c\<rparr>))"

section \<open>Matching\<close>

definition name_hit :: "string \<Rightarrow> string \<Rightarrow> bool" where
  "name_hit name p = (hasPrefix name p \<or> str_contains name p)"

definition matchSlot :: "filters \<Rightarrow> int \<Rightarrow> bool" where
  "matchSlot f slot =
     (let name = slotName slot;
          cat = category name;
          allow = modes f ''all'';
          allow = (if \<not> allow \<and> modes f cat then True else allow);
          allow = (if only f \<noteq> [] then list_ex (name_hit name) (only f) else allow)
      in fold (\<lambda>x allow. if name_hit name x then False else allow) (exclude f) allow)"

definition matchLine ::
    "(string \<Rightarrow> string \<Rightarrow> bool) \<Rightarrow> filters \<Rightarrow> string \<Rightarrow> string \<Rightarrow> string \<Rightarrow> string \<Rightarrow> bool" where
  "matchLine re_match f cls meth line callerMod =
     (if grep f \<noteq> [] \<and> \<not> str_contains line (grep f) then False
      else if (case classRe f of None \<Rightarrow> False | Some r \<Rightarrow> \<not> re_match r cls) then False
      else if (case methodRe f of None \<Rightarrow> False | Some r \<Rightarrow> \<not> re_match r meth) then False
      else if from_mods f \<noteq> [] \<and> \<not> list_ex (\<lambda>x. str_contains callerMod x) (from_mods f) then False
      else True)"

section \<open>Interactive commands\<close>

text \<open>
  A command changes the filters and prints a line, asks for the statistics, or ends the process
  (\<^verbatim>\<open>os.Exit(0)\<close>).
\<close>

datatype reply = Quiet | Say string | Stats | Quit

definition applyCommand :: "filters \<Rightarrow> string \<Rightarrow> filters \<times> reply" where
  "applyCommand f line =
     (case str_fields line of [] \<Rightarrow> (f, Quiet)
      | cmd # _ \<Rightarrow>
          (let arg = trimSpace (if hasPrefix line cmd then drop (length cmd) line else line) in
           if cmd = ''only'' then (f\<lparr>only := splitList arg\<rparr>, Say (''[cmd] only = '' @ arg))
           else if cmd = ''exclude'' then (f\<lparr>exclude := splitList arg\<rparr>, Say (''[cmd] exclude = '' @ arg))
           else if cmd = ''from'' then (f\<lparr>from_mods := splitList arg\<rparr>, Say (''[cmd] from = '' @ arg))
           else if cmd = ''grep'' then (f\<lparr>grep := arg\<rparr>, Say (''[cmd] grep = '' @ arg))
           else if cmd = ''mode'' then (f\<lparr>modes := mode_set (splitList arg)\<rparr>, Say (''[cmd] mode = '' @ arg))
           else if cmd = ''clear'' then
             (f\<lparr>only := [], exclude := [], from_mods := [], grep := [], classRe := None,
                methodRe := None, modes := mode_set [''all'']\<rparr>, Say ''[cmd] filters cleared'')
           else if cmd = ''stats'' then (f, Stats)
           else if cmd = ''quit'' \<or> cmd = ''exit'' then (f, Quit)
           else (f, Say (''[cmd] unknown: '' @ cmd))))"

section \<open>What the filters decide\<close>

lemma name_hit_iff: "name_hit name p \<longleftrightarrow> str_contains name p"
  by (auto simp: name_hit_def hasPrefix_contains)

lemma fold_exclude:
  "fold (\<lambda>x allow. if P x then False else allow) xs b \<longleftrightarrow> b \<and> \<not> list_ex P xs"
  by (induction xs arbitrary: b) auto

text \<open>
  The decision of \<^verbatim>\<open>matchSlot\<close>, as a condition: a slot passes exactly when no
  \<^verbatim>\<open>exclude\<close> entry occurs in its name and, if \<^verbatim>\<open>only\<close> has entries, one of them occurs in
  its name, while otherwise its mode (or \<^verbatim>\<open>all\<close>) is selected. In particular an exclusion beats
  everything, a prefix match is a substring match, and \<^verbatim>\<open>only\<close> replaces the mode test.
\<close>

theorem matchSlot_decides:
  "matchSlot f slot \<longleftrightarrow>
     \<not> list_ex (str_contains (slotName slot)) (exclude f) \<and>
     (if only f = [] then modes f ''all'' \<or> modes f (category (slotName slot))
      else list_ex (str_contains (slotName slot)) (only f))"
  by (auto simp: matchSlot_def Let_def fold_exclude name_hit_iff list_ex_iff)

text \<open>Every entry of a list option is non-empty and holds no comma.\<close>

lemma splitList_entries: "x \<in> set (splitList s) \<Longrightarrow> x \<noteq> []"
  by (auto simp: splitList_def)

text \<open>
  The command \<^verbatim>\<open>clear\<close> restores the unfiltered trace: afterwards every slot and every
  rendered line passes, whatever the filters were and whatever the regular expression engine says.
\<close>

theorem clear_passes_everything:
  assumes "str_fields line = ''clear'' # rest"
  shows "snd (applyCommand f line) = Say ''[cmd] filters cleared'' \<and> matchSlot (fst (applyCommand f line)) slot \<and>
         matchLine re (fst (applyCommand f line)) cls meth l m"
  using assms
  by (simp add: applyCommand_def Let_def matchSlot_decides matchLine_def mode_set_def)

theorem clear_passes_everything_witness:
  "matchSlot (fst (applyCommand \<lparr>modes = (\<lambda>_. False), only = [''Find''], exclude = [''Call''],
     grep = ''x'', classRe = None, methodRe = None, from_mods = [], f_tid = 0\<rparr> ''clear'')) 6"
proof -
  have "str_fields ''clear'' = ''clear'' # []" by code_simp
  from clear_passes_everything [OF this] show ?thesis by blast
qed

end
