(* ===== verification/Trace.thy ===== *)
theory Trace
  imports Target Filters Recon "HOL-Library.AList"
begin

text \<open>
  The tracer of the loader, \<^verbatim>\<open>loader/trace.go\<close>: the configuration of the BPF maps, the table of
  frames that pairs entries with returns, the handlers of entry and return events and the lines they
  print. A \<open>tracer\<close> is the state of \<^verbatim>\<open>runProbe\<close> after its setup; a \<open>host\<close> holds what the
  loader reads from outside during one event. Standard output is the list of printed lines.
\<close>

section \<open>Configuring the probes\<close>

definition alwaysWatch :: "string \<Rightarrow> bool" where
  "alwaysWatch nm = (nm \<in> set [''GetMethodID'', ''GetStaticMethodID'', ''GetFieldID'', ''GetStaticFieldID'',
     ''FindClass'', ''GetObjectClass'', ''NewObject'', ''NewObjectV'',
     ''NewObjectA'', ''AllocObject'', ''GetStringUTFChars'', ''NewStringUTF''])"

record probe_setup =
  su_maps :: rmaps
  callSet :: "int \<Rightarrow> bool"
  retSet :: "int \<Rightarrow> bool"

text \<open>
  \<open>ok\<close> says whether a map of the kernel takes a new binding (the result of \<^verbatim>\<open>Put\<close> is
  dropped). The two loops range over a Go map; the list of its entries is the order of the iteration.
\<close>

definition setup_call ::
    "(u64 set \<Rightarrow> u64 \<Rightarrow> bool) \<Rightarrow> config \<Rightarrow> filters \<Rightarrow> u64 \<times> int \<Rightarrow> probe_setup \<Rightarrow> probe_setup" where
  "setup_call ok c f entry s =
     (let (off, slot) = entry;
          nm = slotName slot;
          s = (case isCallMethod nm of None \<Rightarrow> s
               | Some midIdx \<Rightarrow>
                   (let kind = (if hasSuffix nm ''A'' then 1 else if hasSuffix nm ''V'' then 2 else 3 :: u8);
                        m = su_maps s
                    in s\<lparr>callSet := (callSet s)(slot := True),
                         su_maps := m\<lparr>argkind := hash_update ok (argkind m) off kind,
                                     argidx := hash_update ok (argidx m) off (word_of_nat (midIdx + 1))\<rparr>\<rparr>))
      in if alwaysWatch nm then s\<lparr>retSet := (retSet s)(slot := True)\<rparr>
         else if \<not> c_noReturns c \<and> slotRet slot \<noteq> ''void'' \<and> matchSlot f slot
         then s\<lparr>retSet := (retSet s)(slot := True)\<rparr>
         else s)"

definition setup_ret :: "(u64 set \<Rightarrow> u64 \<Rightarrow> bool) \<Rightarrow> u64 \<times> int \<Rightarrow> probe_setup \<Rightarrow> probe_setup" where
  "setup_ret ok entry s =
     (let (off, slot) = entry; m = su_maps s in
      if retSet s slot then s\<lparr>su_maps := m\<lparr>hasret := hash_update ok (hasret m) off 1\<rparr>\<rparr> else s)"

definition initial_maps :: "config \<Rightarrow> u64 \<Rightarrow> rmaps" where
  "initial_maps c base = \<lparr>events = [], cfg = [base, if c_stack c then 1 else 0], argkind = Map.empty,
     argidx = Map.empty, hasret = Map.empty, depth = Map.empty\<rparr>"

definition configure ::
    "(u64 set \<Rightarrow> u64 \<Rightarrow> bool) \<Rightarrow> (u64 set \<Rightarrow> u64 \<Rightarrow> bool) \<Rightarrow> config \<Rightarrow> filters \<Rightarrow> u64 \<Rightarrow>
     (u64 \<times> int) list \<Rightarrow> (u64 \<times> int) list \<Rightarrow> probe_setup" where
  "configure ok ok_ret c f base offsets offsets' =
     fold (setup_ret ok_ret) offsets'
       (fold (setup_call ok c f) offsets
          \<lparr>su_maps = initial_maps c base, callSet = (\<lambda>_. False), retSet = (\<lambda>_. False)\<rparr>)"

text \<open>The offsets at which return probes are attached, in the order of the second loop.\<close>

definition ret_offsets :: "probe_setup \<Rightarrow> (u64 \<times> int) list \<Rightarrow> u64 list" where
  "ret_offsets s offsets' = map fst (filter (\<lambda>(off, slot). retSet s slot) offsets')"

section \<open>The state of the tracer\<close>

record frame =
  fr_slot :: int
  fr_ts :: u64
  fr_call :: string
  fr_caller :: string
  fr_a1 :: u64
  fr_a2 :: u64
  fr_a3 :: u64

record tracer =
  t_conf :: config
  t_base :: u64
  t_offsets :: "u64 \<rightharpoonup> int"
  t_callSet :: "int \<Rightarrow> bool"
  t_retSet :: "int \<Rightarrow> bool"
  t_filters :: filters
  t_mods :: modCache
  t_caches :: caches
  frames :: "u32 \<times> s32 \<rightharpoonup> frame"
  counts :: "(string \<times> int) list"
  t_total :: int
  out_lines :: "string list"
  t_exited :: bool

record host =
  h_fmt :: gofmt
  h_re :: "string \<Rightarrow> string \<Rightarrow> bool"
  h_mem :: memReader
  h_maps :: "string option"
  h_now :: int
  h_stack :: "(u32 \<Rightarrow> u64 list option) option"
  h_order :: "(string \<times> int) list \<Rightarrow> (string \<times> int) list"

definition fr2a :: "frame \<Rightarrow> int \<Rightarrow> u64" where
  "fr2a fr idx = (if idx = 1 then fr_a1 fr else if idx = 2 then fr_a2 fr
     else if idx = 3 then fr_a3 fr else 0)"

definition splitClassMethod :: "string \<Rightarrow> string \<times> string" where
  "splitClassMethod call =
     (case lastIndexByte call (CHR ''.'') of None \<Rightarrow> ('''', call)
      | Some i \<Rightarrow>
          (let rest = drop (i + 1) call in
            case indexByte rest (CHR ''('') of
              Some j \<Rightarrow> (take i call, take j rest)
            | None \<Rightarrow> (take i call, rest)))"

section \<open>Printing\<close>

definition emit :: "gofmt \<Rightarrow> string \<Rightarrow> tracer \<Rightarrow> tracer" where
  "emit F line T =
     (if c_count (t_conf T) then
        T\<lparr>counts := AList.update line ((case map_of (counts T) line of None \<Rightarrow> 0 | Some n \<Rightarrow> n) + 1) (counts T)\<rparr>
      else if c_jsonOut (t_conf T) then T\<lparr>out_lines := out_lines T @ [jsonLine F line]\<rparr>
      else T\<lparr>out_lines := out_lines T @ [line]\<rparr>)"

text \<open>
  \<^verbatim>\<open>printStats\<close>: the entries of the map in the order that the iteration and \<^verbatim>\<open>sort.Slice\<close>
  leave them, which is the argument \<open>ord\<close>.
\<close>

definition stat_line :: "string \<times> int \<Rightarrow> string" where
  "stat_line kv = ''    '' @ pad_left (CHR '' '') 6 (fmt_dec (snd kv)) @ ''  '' @ fst kv"

definition printStats :: "((string \<times> int) list \<Rightarrow> (string \<times> int) list) \<Rightarrow> (string \<times> int) list \<Rightarrow> nat \<Rightarrow> string list" where
  "printStats ord cnts k =
     (if cnts = [] then [] else ''[*] top calls:'' # map stat_line (take k (ord cnts)))"

text \<open>
  The frames of a stack trace: the recorded addresses up to the first zero, with the link register
  \<open>lr\<close> put after the first one.
\<close>

definition stack_frames :: "u64 list \<Rightarrow> u64 \<Rightarrow> u64 list" where
  "stack_frames buf lr =
     (case takeWhile (\<lambda>a. a \<noteq> 0) buf of [] \<Rightarrow> []
      | a # as \<Rightarrow> a # (if lr \<noteq> 0 then [lr] else []) @ as)"

definition stack_line :: "modCache \<Rightarrow> string \<Rightarrow> nat \<Rightarrow> u64 \<Rightarrow> string" where
  "stack_line mc ind idx a =
     (let (nm, b) = mc_lookup mc a in
      if nm \<noteq> '''' then ind @ ''   #'' @ fmt_dec (int idx) @ '' '' @ nm @ ''+0x'' @ fmt_hex (a - b)
      else ind @ ''   #'' @ fmt_dec (int idx) @ '' 0x'' @ fmt_hex a)"

definition printStack :: "host \<Rightarrow> string \<Rightarrow> s32 \<Rightarrow> u64 \<Rightarrow> tracer \<Rightarrow> tracer" where
  "printStack H ind sid lr T =
     (if \<not> c_stack (t_conf T) \<or> c_count (t_conf T) \<or> h_stack H = None \<or> sint sid < 0 then T
      else (case the (h_stack H) sid of None \<Rightarrow> T
        | Some buf \<Rightarrow>
            (let fs = stack_frames buf lr in
             T\<lparr>out_lines := out_lines T @
                 map (\<lambda>n. stack_line (t_mods T) ind n (fs ! n)) [0..<length fs]\<rparr>)))"

section \<open>Return events\<close>

text \<open>What a completed call teaches the name caches.\<close>

definition feed_caches :: "memReader \<Rightarrow> frame \<Rightarrow> u64 \<Rightarrow> caches \<Rightarrow> caches" where
  "feed_caches mr fr rc cs =
     (let nm = slotName (fr_slot fr) in
      if mr = None \<or> rc = 0 then cs
      else if nm \<in> set [''GetMethodID'', ''GetStaticMethodID'', ''GetFieldID'', ''GetStaticFieldID''] then
        (let n = mr_cstr mr (fr2a fr 2); sg = mr_cstr mr (fr2a fr 3);
             cs = (if validName n \<and> validSig sg then cs\<lparr>idName := (idName cs)(rc \<mapsto> n @ sg)\<rparr> else cs)
         in cs\<lparr>idClass := (idClass cs)(rc \<mapsto> fr2a fr 1)\<rparr>)
      else if nm = ''FindClass'' then
        (let n = mr_cstr mr (fr2a fr 1) in
          if validName n then
            (let dotted = replace_byte (CHR ''/'') (CHR ''.'') n;
                 cs = cs\<lparr>classNames := (classNames cs)(rc \<mapsto> dotted)\<rparr>;
                 obj = resolveObj mr rc
             in if obj \<noteq> 0 then cs\<lparr>nameByClass := (nameByClass cs)(obj \<mapsto> dotted)\<rparr> else cs)
          else cs)
      else if nm = ''GetObjectClass'' then
        (let op = resolveObj mr (fr2a fr 1); cp = resolveObj mr rc in
          if op \<noteq> 0 \<and> cp \<noteq> 0 then cs\<lparr>objClass := (objClass cs)(op \<mapsto> cp)\<rparr> else cs)
      else if nm \<in> set [''NewObject'', ''NewObjectV'', ''NewObjectA'', ''AllocObject''] then
        (let op = resolveObj mr rc; cp = resolveObj mr (fr2a fr 1) in
          if op \<noteq> 0 \<and> cp \<noteq> 0 then cs\<lparr>objClass := (objClass cs)(op \<mapsto> cp)\<rparr> else cs)
      else if nm = ''GetStringUTFChars'' then cs\<lparr>jstr := (jstr cs)(fr2a fr 1 \<mapsto> mr_cstr mr rc)\<rparr>
      else if nm = ''NewStringUTF'' then cs\<lparr>jstr := (jstr cs)(rc \<mapsto> mr_cstr mr (fr2a fr 1))\<rparr>
      else cs)"

text \<open>\<^verbatim>\<open>c.maxDepth > 0 && e.Depth > int32(c.maxDepth)\<close>.\<close>

definition too_deep :: "config \<Rightarrow> s32 \<Rightarrow> bool" where
  "too_deep c d = (c_maxDepth c > 0 \<and> sint d > sint (word_of_int (c_maxDepth c) :: s32))"

definition return_line :: "host \<Rightarrow> frame \<Rightarrow> reconEvt \<Rightarrow> string \<Rightarrow> string" where
  "return_line H fr e ret =
     indentStr (Depth e) @ ''<- '' @ fr_call fr @ '' = '' @ ret @ ''  ('' @
       fmtMs (h_fmt H) (Ts e - fr_ts fr) @ '' ms)''"

definition handleReturn :: "host \<Rightarrow> reconEvt \<Rightarrow> tracer \<Rightarrow> tracer" where
  "handleReturn H e T =
     (if sint (Depth e) < 0 then T
      else (let key = (Tid e, Depth e) in
        case frames T key of None \<Rightarrow> T
        | Some fr \<Rightarrow>
            (let T = T\<lparr>frames := (frames T)(key := None)\<rparr>;
                 T = T\<lparr>t_caches := feed_caches (h_mem H) fr (Rc e) (t_caches T)\<rparr>
             in if matchSlot (t_filters T) (fr_slot fr) \<and> fr_call fr \<noteq> '''' then
                  if too_deep (t_conf T) (Depth e) then T
                  else (let ret = fmtRet (h_fmt H) (t_caches T) (h_mem H) (slotRet (fr_slot fr)) (Rc e);
                            (cls, meth) = splitClassMethod (fr_call fr)
                        in if matchLine (h_re H) (t_filters T) cls meth (fr_call fr @ ret) (fr_caller fr)
                           then emit (h_fmt H) (return_line H fr e ret) T else T)
                else T)))"

section \<open>Entry events\<close>

definition generic_line :: "host \<Rightarrow> reconEvt \<Rightarrow> int \<Rightarrow> caches \<Rightarrow> string" where
  "generic_line H e slot cs =
     slotName slot @ ''('' @ renderGeneric (h_fmt H) e slot cs (h_mem H) @ '')''"

definition push_frame :: "host \<Rightarrow> reconEvt \<Rightarrow> int \<Rightarrow> string \<Rightarrow> tracer \<Rightarrow> tracer" where
  "push_frame H e slot caller T =
     (if t_retSet T slot \<and> sint (Depth e) \<ge> 0 then
        (let fr = \<lparr>fr_slot = slot, fr_ts = Ts e, fr_call = '''', fr_caller = caller,
                   fr_a1 = A e ! 1, fr_a2 = A e ! 2, fr_a3 = A e ! 3\<rparr>;
             fr = (if \<not> t_callSet T slot then fr\<lparr>fr_call := generic_line H e slot (t_caches T)\<rparr> else fr)
         in T\<lparr>frames := (frames T)((Tid e, Depth e) \<mapsto> fr)\<rparr>)
      else T)"

definition set_frame_call :: "u32 \<times> s32 \<Rightarrow> string \<Rightarrow> tracer \<Rightarrow> tracer" where
  "set_frame_call key call T =
     (case frames T key of None \<Rightarrow> T
      | Some fr \<Rightarrow> T\<lparr>frames := (frames T)(key \<mapsto> fr\<lparr>fr_call := call\<rparr>)\<rparr>)"

definition call_entry :: "host \<Rightarrow> reconEvt \<Rightarrow> string \<Rightarrow> string \<Rightarrow> tracer \<Rightarrow> tracer" where
  "call_entry H e nm caller T =
     (let (call, known) = describeCall (h_fmt H) e nm (t_caches T) (h_mem H);
          T = set_frame_call (Tid e, Depth e) call T;
          (cls, meth) = splitClassMethod call;
          verbose = c_verbose (t_conf T)
      in if known \<or> verbose then
           if matchLine (h_re H) (t_filters T) cls meth call caller then
             (let tag = (if verbose then ''  [caller=0x'' @ fmt_hex (Caller e) @ '' '' @ caller @ '']'' else '''')
              in printStack H (indentStr (Depth e)) (Stackid e) (Caller e)
                   (emit (h_fmt H) (indentStr (Depth e) @ ''-> '' @ call @ tag) T))
           else T
         else T)"

definition plain_entry :: "host \<Rightarrow> reconEvt \<Rightarrow> int \<Rightarrow> string \<Rightarrow> tracer \<Rightarrow> tracer" where
  "plain_entry H e slot caller T =
     (let line = generic_line H e slot (t_caches T) in
      if matchLine (h_re H) (t_filters T) '''' (slotName slot) line caller then
        printStack H (indentStr (Depth e)) (Stackid e) (Caller e)
          (emit (h_fmt H) (indentStr (Depth e) @ ''-> '' @ line) T)
      else T)"

definition handleEntry :: "host \<Rightarrow> reconEvt \<Rightarrow> tracer \<Rightarrow> tracer" where
  "handleEntry H e T =
     (case t_offsets T (Ip e - t_base T) of None \<Rightarrow> T
      | Some slot \<Rightarrow>
          (let nm = slotName slot;
               (caller, mods) = mc_of (h_maps H) (h_now H) (t_mods T) (Caller e);
               T = T\<lparr>t_mods := mods\<rparr>;
               T = push_frame H e slot caller T
           in if \<not> matchSlot (t_filters T) slot then T
              else if too_deep (t_conf T) (Depth e) then T
              else if isCallMethod nm \<noteq> None then call_entry H e nm caller T
              else plain_entry H e slot caller T))"

section \<open>The event loop\<close>

definition on_event :: "host \<Rightarrow> reconEvt \<Rightarrow> tracer \<Rightarrow> tracer" where
  "on_event H e T =
     (let T = T\<lparr>t_total := t_total T + 1\<rparr>; c = t_conf T in
      if c_tid c \<noteq> 0 \<and> uint (Tid e) \<noteq> c_tid c then T
      else if Kind e = 1 then handleReturn H e T
      else handleEntry H e T)"

definition on_sample :: "host \<Rightarrow> u8 list \<Rightarrow> tracer \<Rightarrow> tracer" where
  "on_sample H raw T = (case binary_Read raw of None \<Rightarrow> T | Some e \<Rightarrow> on_event H e T)"

text \<open>
  The loop with the two goroutines that share its state: a record from the ring buffer, a line on
  standard input, and the periodic reload of the module map. The commands \<^verbatim>\<open>quit\<close> and
  \<^verbatim>\<open>exit\<close> end the process.
\<close>

definition reply_lines :: "host \<Rightarrow> (string \<times> int) list \<Rightarrow> reply \<Rightarrow> string list" where
  "reply_lines H cnts r =
     (case r of Say l \<Rightarrow> [l] | Stats \<Rightarrow> printStats (h_order H) cnts 25 | _ \<Rightarrow> [])"

datatype input = Sample "u8 list" | Typed string | Reload

definition on_input :: "host \<Rightarrow> input \<Rightarrow> tracer \<Rightarrow> tracer" where
  "on_input H i T =
     (if t_exited T then T
      else (case i of
        Sample raw \<Rightarrow> on_sample H raw T
      | Typed text \<Rightarrow>
          (let line = trimSpace text in
            if line = '''' then T
            else (let (f, r) = applyCommand (t_filters T) line
                  in T\<lparr>t_filters := f, t_exited := (r = Quit),
                       out_lines := out_lines T @ reply_lines H (counts T) r\<rparr>))
      | Reload \<Rightarrow> T\<lparr>t_mods := mc_reload (h_maps H) (h_now H) (mc_pid (t_mods T)) (t_mods T)\<rparr>))"

definition run_tracer :: "(host \<times> input) list \<Rightarrow> tracer \<Rightarrow> tracer" where
  "run_tracer = fold (\<lambda>(H, i). on_input H i)"

text \<open>
  The end of the loop when the reader is closed, by a signal or after the time limit: two more
  \<^verbatim>\<open>Printf\<close> calls, the first with a line break in front.
\<close>

definition end_lines :: "((string \<times> int) list \<Rightarrow> (string \<times> int) list) \<Rightarrow> tracer \<Rightarrow> string list" where
  "end_lines ord T = [[], ''[*] done: '' @ fmt_dec (t_total T) @ '' events''] @ printStats ord (counts T) 25"

definition initial_tracer :: "config \<Rightarrow> filters \<Rightarrow> modCache \<Rightarrow> u64 \<Rightarrow> (u64 \<rightharpoonup> int) \<Rightarrow> probe_setup \<Rightarrow> tracer" where
  "initial_tracer c f mc base offsets s =
     \<lparr>t_conf = c, t_base = base, t_offsets = offsets, t_callSet = callSet s, t_retSet = retSet s,
      t_filters = f, t_mods = mc, t_caches = newCaches, frames = Map.empty, counts = [],
      t_total = 0, out_lines = [], t_exited = False\<rparr>"

section \<open>Closed instances\<close>

text \<open>Default flags, no filters, and a host without memory, maps file or stack map.\<close>

definition demo_conf :: config where
  "demo_conf = \<lparr>c_pid = 1, c_name = '''', c_runSec = 0, c_offsets = '''', c_libart = '''', c_modes = ''all'',
     c_only = '''', c_exclude = '''', c_noReturns = False, c_maxDepth = 0, c_grep = '''', c_classRe = '''',
     c_methodRe = '''', c_from = '''', c_tid = 0, c_verbose = False, c_count = False, c_jsonOut = False,
     c_noColor = False, c_stack = False\<rparr>"

definition demo_filters :: filters where
  "demo_filters = \<lparr>modes = mode_set [''all''], only = [], exclude = [], grep = '''', classRe = None,
     methodRe = None, from_mods = [], f_tid = 0\<rparr>"

definition demo_mods :: modCache where
  "demo_mods = \<lparr>mc_ranges = [], mc_bias = Map.empty, mc_pid = 1, mc_last = 0\<rparr>"

definition demo_host :: host where
  "demo_host = \<lparr>h_fmt = \<lparr>fmtF32 = (\<lambda>_. ''f''), fmtF64 = (\<lambda>_. ''d''), fmtMs = (\<lambda>_. ''0.000''),
       jsonLine = (\<lambda>l. l)\<rparr>,
     h_re = (\<lambda>_ _. True), h_mem = None, h_maps = None, h_now = 0, h_stack = None,
     h_order = sort_key (\<lambda>kv. - snd kv)\<rparr>"

end
