(* ===== verification/Pairing.thy ===== *)
theory Pairing
  imports Recon
begin

text \<open>
  Runs of the two probes of \<^verbatim>\<open>bpf/recon.bpf.c\<close>. \<open>probed s stk ps\<close> says that the probes can reach
  the map state \<open>s\<close> while the traced threads have the stacks \<open>stk\<close> of active tracked calls (each
  call named by the event its entry submitted), and that \<open>ps\<close> are the completed calls, each
  with its entry and its return event. The kernel fires the return probe of a call only when the call
  is the innermost active tracked call of its thread; that is the order of the rules.
\<close>

text \<open>Nothing is lost in a run: the reservation succeeds and the depth map takes the binding.\<close>

definition lossless :: "evt_t kenv \<Rightarrow> rmaps \<Rightarrow> bool" where
  "lossless K s = (rb_mem K \<noteq> None \<and> map_accepts K (dom (depth s)) (cur_tid K))"

definition last_event :: "rmaps \<Rightarrow> evt_t" where
  "last_event s = last (events s)"

inductive probed :: "rmaps \<Rightarrow> (u32 \<Rightarrow> evt_t list) \<Rightarrow> (evt_t \<times> evt_t) list \<Rightarrow> bool" where
  start: "depth s = Map.empty \<Longrightarrow> events s = [] \<Longrightarrow> probed s (\<lambda>_. []) []"
| call: "probed s stk ps \<Longrightarrow> tracked s ctx \<Longrightarrow> lossless K s \<Longrightarrow>
     length (stk (cur_tid K)) < 2 ^ 31 - 1 \<Longrightarrow> s' = up_all K ctx s \<Longrightarrow>
     probed s' (stk(cur_tid K := last_event s' # stk (cur_tid K))) ps"
| untracked: "probed s stk ps \<Longrightarrow> \<not> tracked s ctx \<Longrightarrow> probed (up_all K ctx s) stk ps"
| return: "probed s stk ps \<Longrightarrow> lossless K s \<Longrightarrow> stk (cur_tid K) = e # es \<Longrightarrow>
     s' = up_ret K ctx s \<Longrightarrow>
     probed s' (stk(cur_tid K := es)) (ps @ [(e, last_event s')])"

section \<open>The invariant\<close>

text \<open>
  The depth map counts the active tracked calls of every thread, and a call that is the \<open>i\<close>-th from
  the bottom of its thread's stack submitted depth \<open>i\<close>.
\<close>

fun frames_numbered :: "u32 \<Rightarrow> evt_t list \<Rightarrow> bool" where
  "frames_numbered t [] = True"
| "frames_numbered t (e # es) =
     (ev_tid e = t \<and> ev_kind e = 0 \<and> sint (ev_depth e) = int (length es) \<and> frames_numbered t es)"

definition pair_ok :: "evt_t \<times> evt_t \<Rightarrow> bool" where
  "pair_ok p = (ev_kind (fst p) = 0 \<and> ev_kind (snd p) = 1 \<and> ev_tid (fst p) = ev_tid (snd p) \<and>
     ev_depth (fst p) = ev_depth (snd p) \<and> 0 \<le> sint (ev_depth (snd p)))"

definition depth_inv :: "rmaps \<Rightarrow> (u32 \<Rightarrow> evt_t list) \<Rightarrow> bool" where
  "depth_inv s stk = ((\<forall>t. unat (depth_of (depth s) t) = length (stk t)) \<and>
     (\<forall>t. frames_numbered t (stk t)) \<and> (\<forall>t. length (stk t) \<le> 2 ^ 31 - 1))"

lemma sint_small:
  assumes "unat (d :: 32 word) < 2 ^ 31"
  shows "sint d = int (unat d)"
proof -
  have u: "uint d = int (unat d)" by simp
  from assms have "int (unat d) < int (2 ^ 31)" by (simp only: of_nat_less_iff)
  then have "uint d < 2 ^ 31" by simp
  moreover have "- (2 ^ 31) \<le> uint d" by (rule order_trans [of _ 0]) simp_all
  ultimately have "signed_take_bit 31 (uint d) = uint d"
    by (intro signed_take_bit_int_eq_self)
  with u show ?thesis by (simp add: sint_uint)
qed

lemma sint_eq_iff: "sint (a :: 32 word) = sint b \<longleftrightarrow> a = b"
  using signed_word_eqI by blast

lemma depth_inv_call:
  assumes inv: "depth_inv s stk" and "tracked s ctx" and live: "lossless K s"
    and small: "length (stk (cur_tid K)) < 2 ^ 31 - 1"
  shows "depth_inv (up_all K ctx s)
           (stk(cur_tid K := last_event (up_all K ctx s) # stk (cur_tid K)))"
proof -
  let ?t = "cur_tid K" and ?ok = "map_accepts K"
  from inv have lvl: "\<forall>u. unat (depth_of (depth s) u) = length (stk u)"
    by (simp add: depth_inv_def)
  from live obtain g where g: "rb_mem K = Some g" and acc: "?ok (dom (depth s)) ?t"
    by (auto simp: lossless_def)
  from small have small': "length (stk ?t) < 2 ^ 32 - 1" by simp
  note sim = dc.enter_sim [where s = "depth s" and stk = stk and t = ?t and ok = ?ok, OF lvl acc small']
  obtain e where ev: "events (up_all K ctx s) = events s @ [e]" and "ev_tid e = ?t"
    and "ev_kind e = 0" and d: "ev_depth e = fst (depth_enter ?ok (depth s) ?t)"
    using up_all_event [OF g, of ctx s] \<open>tracked s ctx\<close> by auto
  from d sim(1) have "unat (ev_depth e) = length (stk ?t)" by simp
  with small have "sint (ev_depth e) = int (length (stk ?t))" by (simp add: sint_small)
  with inv \<open>ev_tid e = ?t\<close> \<open>ev_kind e = 0\<close> ev
  have "frames_numbered t ((stk(?t := last_event (up_all K ctx s) # stk ?t)) t)" for t
    by (simp add: depth_inv_def last_event_def)
  moreover have "depth (up_all K ctx s) = snd (depth_enter ?ok (depth s) ?t)"
    using g \<open>tracked s ctx\<close> by (simp add: up_all_depth)
  with sim(2) have "unat (depth_of (depth (up_all K ctx s)) t) =
      length ((stk(?t := last_event (up_all K ctx s) # stk ?t)) t)" for t
    by (metis fun_upd_apply list.size(4))
  ultimately show ?thesis using inv small by (auto simp: depth_inv_def)
qed

lemma depth_inv_return:
  assumes inv: "depth_inv s stk" and live: "lossless K s" and top: "stk (cur_tid K) = e # es"
  shows "depth_inv (up_ret K ctx s) (stk(cur_tid K := es))"
    and "pair_ok (e, last_event (up_ret K ctx s))"
proof -
  let ?t = "cur_tid K" and ?ok = "map_accepts K"
  from inv have lvl: "\<forall>u. unat (depth_of (depth s) u) = length (stk u)"
    by (simp add: depth_inv_def)
  from live obtain g where g: "rb_mem K = Some g" and acc: "?ok (dom (depth s)) ?t"
    by (auto simp: lossless_def)
  note sim = dc.leave_sim [where s = "depth s" and stk = stk and t = ?t and ok = ?ok, OF lvl acc top]
  from inv have fn: "frames_numbered ?t (e # es)" and len: "length (e # es) \<le> 2 ^ 31 - 1"
    unfolding depth_inv_def top [symmetric] by blast+
  have "depth (up_ret K ctx s) = snd (depth_leave ?ok (depth s) ?t)"
    using g by (simp add: up_ret_depth)
  with sim(2) have "unat (depth_of (depth (up_ret K ctx s)) t) = length ((stk(?t := es)) t)" for t
    by simp
  with inv fn len show "depth_inv (up_ret K ctx s) (stk(?t := es))"
    by (simp add: depth_inv_def)
  obtain r where ev: "events (up_ret K ctx s) = events s @ [r]" and r: "ev_tid r = ?t"
    "ev_kind r = 1" and d: "ev_depth r = fst (depth_leave ?ok (depth s) ?t)"
    using up_ret_event [OF g, of ctx s] by auto
  from d sim(1) have "unat (ev_depth r) = length es" by simp
  with len have sr: "sint (ev_depth r) = int (length es)" by (simp add: sint_small)
  with fn have "ev_depth e = ev_depth r" by (simp flip: sint_eq_iff)
  with ev r fn sr show "pair_ok (e, last_event (up_ret K ctx s))"
    by (simp add: pair_ok_def last_event_def)
qed

lemma depth_inv_untracked:
  "depth_inv s stk \<Longrightarrow> \<not> tracked s ctx \<Longrightarrow> depth_inv (up_all K ctx s) stk"
  by (simp add: depth_inv_def up_all_depth)

lemma probed_inv: "probed s stk ps \<Longrightarrow> depth_inv s stk \<and> (\<forall>p \<in> set ps. pair_ok p)"
proof (induction rule: probed.induct)
  case (start s)
  then show ?case by (simp add: depth_inv_def depth_of_def)
next
  case (call s stk ps ctx K s')
  then show ?case using depth_inv_call by blast
next
  case (untracked s stk ps ctx K)
  then show ?case using depth_inv_untracked by blast
next
  case (return s stk ps K e es s' ctx)
  then have inv: "depth_inv s stk" by blast
  note ret = depth_inv_return [OF inv return.hyps(2,3), of ctx]
  then show ?case using return.IH return.hyps(4) by (simp del: fun_upd_apply)
qed

section \<open>What the loader may rely on\<close>

text \<open>
  C7. Pairing by (tid, depth): as long as no event is lost, every completed tracked call of every
  thread has an entry event and a return event that carry the same thread and the same non-negative
  depth, whatever calls of other threads and untracked calls happened in between.
\<close>

theorem return_carries_entry_key:
  assumes "probed s stk ps" and "(a, r) \<in> set ps"
  shows "ev_kind a = 0 \<and> ev_kind r = 1 \<and> ev_tid a = ev_tid r \<and> ev_depth a = ev_depth r \<and>
         0 \<le> sint (ev_depth r)"
  using probed_inv [OF assms(1)] assms(2) by (auto simp: pair_ok_def)

text \<open>A run used by the closed instances: one tracked call of thread 9 that returns.\<close>

definition demo_in :: "evt_t kenv" where
  "demo_in = demo_env (Some (stale 0xDEAD)) 9"

definition demo_call_regs :: pt_regs where
  "demo_call_regs = demo_regs 0x1010 [1, 2, 3]"

definition demo_mid :: rmaps where
  "demo_mid = up_all demo_in demo_call_regs demo_maps"

definition demo_out :: rmaps where
  "demo_out = up_ret demo_in demo_call_regs demo_mid"

lemma demo_in_lossless: "lossless demo_in s"
  by (simp add: lossless_def demo_in_def demo_env_def)

lemma demo_tracked: "tracked demo_maps demo_call_regs"
  by (simp add: tracked_def demo_call_regs_def demo_defs array_lookup_def PT_REGS_IP_def)

lemma demo_mid_probed: "probed demo_mid ((\<lambda>_. [])(9 := [last_event demo_mid])) []"
proof -
  have "probed demo_maps (\<lambda>_. []) []" by (rule probed.start) (simp_all add: demo_maps_def)
  from probed.call [OF this demo_tracked demo_in_lossless _ demo_mid_def]
  show ?thesis by (simp add: demo_in_def demo_env_def)
qed

lemma demo_out_probed: "\<exists>stk. probed demo_out stk [(last_event demo_mid, last_event demo_out)]"
proof -
  have "((\<lambda>_. [])(9 := [last_event demo_mid])) (cur_tid demo_in) = last_event demo_mid # []"
    by (simp add: demo_in_def demo_env_def)
  from probed.return [OF demo_mid_probed demo_in_lossless this demo_out_def]
  show ?thesis by auto
qed

theorem return_carries_entry_key_witness:
  "ev_tid (last_event demo_mid) = ev_tid (last_event demo_out) \<and>
   ev_depth (last_event demo_mid) = ev_depth (last_event demo_out)"
proof -
  obtain stk where "probed demo_out stk [(last_event demo_mid, last_event demo_out)]"
    using demo_out_probed by blast
  from return_carries_entry_key [OF this] show ?thesis by simp
qed

lemma frames_numbered_nth:
  "frames_numbered t es \<Longrightarrow> i < length es \<Longrightarrow>
     ev_tid (es ! i) = t \<and> sint (ev_depth (es ! i)) = int (length es - 1 - i)"
proof (induction es arbitrary: i)
  case (Cons e es)
  then show ?case by (cases i) auto
qed simp


definition demo_deep :: rmaps where
  "demo_deep = up_all demo_in demo_call_regs demo_mid"

lemma demo_deep_probed:
  "probed demo_deep ((\<lambda>_. [])(9 := [last_event demo_deep, last_event demo_mid])) []"
proof -
  have "tracked demo_mid demo_call_regs"
    by (simp add: demo_mid_def demo_tracked)
  from probed.call [OF demo_mid_probed this demo_in_lossless _ demo_deep_def]
  show ?thesis by (simp add: demo_in_def demo_env_def)
qed


text \<open>
  C29. A lost entry mis-pairs: when the ring buffer is full at the entry of a nested call but not at
  its return, the return event of the lost inner call carries the key of the enclosing call, which is
  still running.
\<close>

theorem lost_entry_pairs_with_caller:
  assumes "probed s stk ps" and "stk (cur_tid K') = e # es"
    and "rb_mem K = None" and "lossless K' s"
  shows "ev_depth (last_event (up_ret K' ctx' (up_all K ctx s))) = ev_depth e \<and>
         ev_tid (last_event (up_ret K' ctx' (up_all K ctx s))) = ev_tid e"
proof -
  have "up_all K ctx s = s" using assms(3) by (rule up_all_drop)
  moreover have "pair_ok (e, last_event (up_ret K' ctx' s))"
    using depth_inv_return(2) [where stk = stk and e = e and es = es, OF _ assms(4,2)] probed_inv [OF assms(1)] by blast
  ultimately show ?thesis by (simp add: pair_ok_def)
qed

theorem lost_entry_pairs_with_caller_witness:
  "ev_depth (last_event (up_ret demo_in demo_call_regs
      (up_all (demo_env None 9) demo_call_regs demo_mid))) = ev_depth (last_event demo_mid)"
proof -
  have "rb_mem (demo_env None 9) = None" by (simp add: demo_env_def)
  moreover have "((\<lambda>_. [])(9 := [last_event demo_mid])) (cur_tid demo_in) = last_event demo_mid # []"
    by (simp add: demo_in_def demo_env_def)
  ultimately show ?thesis
    using lost_entry_pairs_with_caller [OF demo_mid_probed _ _ demo_in_lossless] by blast
qed

text \<open>
  C30. A lost return never heals: when the ring buffer is full at the return of a call, the depth of
  its thread stays one too high, so that the next tracked call of the thread, although it is nested
  one level less deep, is numbered as if the finished call still ran.
\<close>

theorem lost_return_shifts_depth:
  assumes "probed s stk ps" and "stk (cur_tid K') = e # es"
    and "rb_mem K = None" and "rb_mem K' \<noteq> None" and "tracked s ctx'"
  shows "unat (ev_depth (last_event (up_all K' ctx' (up_ret K ctx s)))) = Suc (length es)"
proof -
  obtain g where g: "rb_mem K' = Some g" using assms(4) by auto
  have "up_ret K ctx s = s" using assms(3) by (rule up_ret_drop)
  moreover obtain x where "events (up_all K' ctx' s) = events s @ [x]"
    and "ev_depth x = fst (depth_enter (map_accepts K') (depth s) (cur_tid K'))"
    using up_all_event [OF g, of ctx' s] assms(5) by auto
  ultimately show ?thesis
    using probed_inv [OF assms(1)] assms(2) by (simp add: last_event_def dc.enter_num depth_inv_def)
qed

theorem lost_return_shifts_depth_witness:
  "unat (ev_depth (last_event (up_all demo_in demo_call_regs
      (up_ret (demo_env None 9) demo_call_regs demo_mid)))) = 1"
proof -
  have "rb_mem (demo_env None 9) = None" and "rb_mem demo_in \<noteq> None"
    by (simp_all add: demo_env_def demo_in_def)
  moreover have "((\<lambda>_. [])(9 := [last_event demo_mid])) (cur_tid demo_in) = last_event demo_mid # []"
    by (simp add: demo_in_def demo_env_def)
  moreover have "tracked demo_mid demo_call_regs"
    by (simp add: demo_mid_def demo_tracked)
  ultimately show ?thesis
    using lost_return_shifts_depth [OF demo_mid_probed, of demo_in "last_event demo_mid" "[]"]
    by simp
qed

section \<open>Capacity of the depth map\<close>

text \<open>
  The depth map is declared with 4096 entries (\<^const>\<open>depth_map\<close>). While no more than 4096 threads have called tracked
  functions, a kernel that honours the hash map contract takes every update of the probes, so a run
  is lossless as soon as no ring-buffer reservation fails.
\<close>

lemma room_accepts:
  assumes "hash_contract (max_entries depth_map) ok" and "finite T" and "card T \<le> max_entries depth_map"
    and "t \<in> T" and "dom m \<subseteq> T"
  shows "ok (dom m) t"
proof (cases "t \<in> dom m")
  case False
  with assms have "dom m \<subset> T" by blast
  with assms(2,3) have "card (dom m) < max_entries depth_map"
    by (meson order.strict_trans2 psubset_card_mono)
  with assms(1) show ?thesis by (simp add: hash_contract_def)
qed (use assms(1) in \<open>simp add: hash_contract_def\<close>)

lemma depth_dom_within:
  "cur_tid K \<in> T \<Longrightarrow> dom (depth s) \<subseteq> T \<Longrightarrow>
     dom (depth (up_all K ctx s)) \<subseteq> T \<and> dom (depth (up_ret K ctx s)) \<subseteq> T"
  by (auto simp: up_all_depth up_ret_depth depth_enter_def depth_leave_def hash_update_def Let_def split: if_splits)


definition bounded_env :: "evt_t kenv" where
  "bounded_env = demo_in\<lparr>map_accepts := (\<lambda>ks k. k \<in> ks \<or> card ks < (max_entries depth_map))\<rparr>"


end
