(* ===== verification/Frames.thy ===== *)
theory Frames
  imports Trace Pairing
begin

text \<open>
  The frame table of the loader against the calls of the traced threads. \<open>fed T0 es T\<close> says that
  the tracer \<open>T0\<close> reaches \<open>T\<close> by consuming the events \<open>es\<close> in the order of the ring buffer, with
  interactive commands and reloads of the module map anywhere in between. The simulation relates the
  stacks of active tracked calls (theory \<^verbatim>\<open>Pairing\<close>) with the Go map \<^verbatim>\<open>frames\<close>.
\<close>

inductive fed :: "tracer \<Rightarrow> evt_t list \<Rightarrow> tracer \<Rightarrow> bool" where
  begin_feed: "fed T [] T"
| sample: "fed T0 es T \<Longrightarrow> binary_Read raw = Some (mirror e) \<Longrightarrow>
     fed T0 (es @ [e]) (on_input H (Sample raw) T)"
| other: "fed T0 es T \<Longrightarrow> (\<forall>raw. i \<noteq> Sample raw) \<Longrightarrow> fed T0 es (on_input H i T)"

section \<open>What the steps leave alone\<close>

text \<open>The members of the tracer that are fixed after its construction.\<close>

definition setting :: "tracer \<Rightarrow> config \<times> u64 \<times> (u64 \<rightharpoonup> int) \<times> (int \<Rightarrow> bool) \<times> (int \<Rightarrow> bool)" where
  "setting T = (t_conf T, t_base T, t_offsets T, t_callSet T, t_retSet T)"

lemma emit_frame [simp]:
  "frames (emit F l T) = frames T" "setting (emit F l T) = setting T"
  "t_exited (emit F l T) = t_exited T" "t_caches (emit F l T) = t_caches T"
  by (simp_all add: emit_def setting_def)

lemma printStack_frame [simp]:
  "frames (printStack H ind d lr T) = frames T" "setting (printStack H ind d lr T) = setting T"
  "t_exited (printStack H ind d lr T) = t_exited T"
  by (simp_all add: printStack_def setting_def Let_def split: option.split)

lemma plain_entry_frame [simp]:
  "frames (plain_entry H e slot cl T) = frames T" "setting (plain_entry H e slot cl T) = setting T"
  "t_exited (plain_entry H e slot cl T) = t_exited T"
  by (simp_all add: plain_entry_def Let_def)

lemma set_frame_call_frame [simp]:
  "setting (set_frame_call key call T) = setting T"
  "t_exited (set_frame_call key call T) = t_exited T"
  by (simp_all add: set_frame_call_def setting_def split: option.split)

lemma call_entry_frame [simp]:
  "frames (call_entry H e nm cl T) =
     frames (set_frame_call (Tid e, Depth e)
       (fst (describeCall (h_fmt H) e nm (t_caches T) (h_mem H))) T)"
  "setting (call_entry H e nm cl T) = setting T"
  "t_exited (call_entry H e nm cl T) = t_exited T"
  by (simp_all add: call_entry_def Let_def split: prod.split)

lemma push_frame_frame [simp]:
  "setting (push_frame H e slot cl T) = setting T"
  "t_exited (push_frame H e slot cl T) = t_exited T"
  by (simp_all add: push_frame_def setting_def Let_def)

lemma setting_upd [simp]:
  "setting (T\<lparr>t_mods := m\<rparr>) = setting T" "setting (T\<lparr>t_total := n\<rparr>) = setting T"
  "setting (T\<lparr>frames := f\<rparr>) = setting T" "setting (T\<lparr>t_caches := c\<rparr>) = setting T"
  "setting (T\<lparr>t_filters := g, t_exited := b, out_lines := l\<rparr>) = setting T"
  by (simp_all add: setting_def)

lemma handleEntry_frame [simp]:
  "setting (handleEntry H e T) = setting T" "t_exited (handleEntry H e T) = t_exited T"
  by (simp_all add: handleEntry_def Let_def split: option.split prod.split)

lemma handleReturn_frame [simp]:
  "setting (handleReturn H e T) = setting T" "t_exited (handleReturn H e T) = t_exited T"
  by (simp_all add: handleReturn_def Let_def split: option.split prod.split)

lemma on_event_frame [simp]:
  "setting (on_event H e T) = setting T" "t_exited (on_event H e T) = t_exited T"
  by (simp_all add: on_event_def Let_def)

lemma on_input_setting [simp]: "setting (on_input H i T) = setting T"
  by (simp add: on_input_def on_sample_def mc_reload_def Let_def split: input.split option.split prod.split)

lemma on_input_exited: "t_exited T \<Longrightarrow> t_exited (on_input H i T)"
  by (simp add: on_input_def)

lemma on_input_other:
  "(\<forall>raw. i \<noteq> Sample raw) \<Longrightarrow> frames (on_input H i T) = frames T"
  by (auto simp: on_input_def Let_def split: input.split prod.split)

lemma fed_setting: "fed T0 es T \<Longrightarrow> setting T = setting T0"
  by (induction rule: fed.induct) simp_all

lemma fed_snoc:
  assumes "fed T0 es' T" and "es' = es @ [e]" and "\<not> t_exited T"
  shows "\<exists>T1 H. fed T0 es T1 \<and> \<not> t_exited T1 \<and> frames T = frames (on_event H (mirror e) T1)"
  using assms
proof (induction arbitrary: es rule: fed.induct)
  case (sample T0 es1 T raw e1 H)
  then have "\<not> t_exited T" using on_input_exited by blast
  with sample show ?case
    by (intro exI [of _ T] exI [of _ H]) (simp add: on_input_def on_sample_def)
next
  case (other T0 es1 T i H)
  then have "\<not> t_exited T" using on_input_exited by blast
  with other show ?case by (simp add: on_input_other)
qed simp

lemma fed_nil:
  assumes "fed T0 es T" and "es = []"
  shows "frames T = frames T0"
  using assms by (induction rule: fed.induct) (simp_all add: on_input_other)

section \<open>The simulation\<close>

text \<open>The active tracked call a key of the frame table stands for.\<close>

definition active :: "(u32 \<Rightarrow> evt_t list) \<Rightarrow> u32 \<times> s32 \<Rightarrow> evt_t option" where
  "active stk key =
     (let (t, d) = key in
      if 0 \<le> sint d \<and> sint d < int (length (stk t)) then Some (rev (stk t) ! nat (sint d)) else None)"

text \<open>A frame that was made from an entry event.\<close>

definition frame_of :: "tracer \<Rightarrow> evt_t \<Rightarrow> frame \<Rightarrow> bool" where
  "frame_of T e fr =
     (t_offsets T (ev_ip e - t_base T) = Some (fr_slot fr) \<and> fr_ts fr = ev_ts e \<and>
      fr_a1 fr = ev_a e ! 1 \<and> fr_a2 fr = ev_a e ! 2 \<and> fr_a3 fr = ev_a e ! 3)"

definition frames_sim :: "tracer \<Rightarrow> (u32 \<Rightarrow> evt_t list) \<Rightarrow> (u32 \<times> s32 \<rightharpoonup> frame) \<Rightarrow> bool" where
  "frames_sim T0 stk fs \<longleftrightarrow> (\<forall>key. rel_option (frame_of T0) (active stk key) (fs key))"

text \<open>
  What the set-up establishes between the BPF maps and the tracer: both count file offsets from the
  same base, the tracer watches the returns of exactly the offsets that have a return probe, and no
  thread is filtered out.
\<close>

definition linked :: "rmaps \<Rightarrow> tracer \<Rightarrow> bool" where
  "linked s T \<longleftrightarrow> array_lookup (cfg s) 0 = Some (t_base T) \<and> c_tid (t_conf T) = 0 \<and>
     (\<forall>off. hasret s off \<noteq> None \<longleftrightarrow> (\<exists>slot. t_offsets T off = Some slot \<and> t_retSet T slot))"

lemma active_push:
  "active (stk(t := e # stk t)) (u, d) =
     (if u = t \<and> sint d = int (length (stk t)) then Some e else active stk (u, d))"
  by (auto simp: active_def nth_append)

lemma active_pop:
  "stk t = e # es \<Longrightarrow> active (stk(t := es)) (u, d) =
     (if u = t \<and> sint d = int (length es) then None else active stk (u, d))"
  by (auto simp: active_def nth_append)

lemma active_top:
  "stk t = e # es \<Longrightarrow> sint d = int (length es) \<Longrightarrow> active stk (t, d) = Some e"
  by (simp add: active_def nth_append)

lemma linked_setting: "setting T = setting T0 \<Longrightarrow> linked s T = linked s T0"
  by (simp add: linked_def setting_def)

lemma linked_maps [simp]: "linked (up_all K ctx s) T = linked s T" "linked (up_ret K ctx s) T = linked s T"
  by (simp_all add: linked_def)

lemma frame_of_setting: "setting T = setting T0 \<Longrightarrow> frame_of T = frame_of T0"
  by (simp add: frame_of_def setting_def fun_eq_iff)

lemma frame_of_call [simp]: "frame_of T e (fr\<lparr>fr_call := c\<rparr>) = frame_of T e fr"
  by (simp add: frame_of_def)

lemma frames_set_call:
  "frames (set_frame_call key call T) =
     (case frames T key of None \<Rightarrow> frames T | Some fr \<Rightarrow> (frames T)(key \<mapsto> fr\<lparr>fr_call := call\<rparr>))"
  by (simp add: set_frame_call_def split: option.split)

lemma push_frame_pushes:
  assumes "t_offsets T (ev_ip e - t_base T) = Some slot" and "t_retSet T slot" and "0 \<le> sint (ev_depth e)"
  shows "\<exists>fr. frames (push_frame H (mirror e) slot caller T) = (frames T)((ev_tid e, ev_depth e) \<mapsto> fr) \<and>
     frame_of T e fr"
  using assms
  by (cases "t_callSet T slot")
    (simp add: push_frame_def mirror_def Let_def, rule exI, rule conjI, rule refl, simp add: frame_of_def)+

lemma entry_pushes:
  assumes off: "t_offsets T (ev_ip e - t_base T) = Some slot" and ret: "t_retSet T slot"
    and d: "0 \<le> sint (ev_depth e)"
  shows "\<exists>fr. frames (handleEntry H (mirror e) T) = (frames T)((ev_tid e, ev_depth e) \<mapsto> fr) \<and>
     frame_of T e fr"
proof -
  obtain caller mods where m: "mc_of (h_maps H) (h_now H) (t_mods T) (ev_caller e) = (caller, mods)"
    by (rule prod.exhaust)
  let ?T = "push_frame H (mirror e) slot caller (T\<lparr>t_mods := mods\<rparr>)"
  obtain fr where fr: "frames ?T = (frames T)((ev_tid e, ev_depth e) \<mapsto> fr)" "frame_of T e fr"
    using push_frame_pushes [of "T\<lparr>t_mods := mods\<rparr>" e slot H caller] assms by (auto simp: frame_of_def)
  have "frames (handleEntry H (mirror e) T) = frames ?T \<or>
      (\<exists>c. frames (handleEntry H (mirror e) T) = frames (set_frame_call (ev_tid e, ev_depth e) c ?T))"
    using off m by (auto simp: handleEntry_def mirror_def Let_def)
  then show ?thesis
  proof (elim disjE exE)
    fix c assume "frames (handleEntry H (mirror e) T) = frames (set_frame_call (ev_tid e, ev_depth e) c ?T)"
    with fr show ?thesis by (intro exI [of _ "fr\<lparr>fr_call := c\<rparr>"]) (simp add: frames_set_call)
  next
    assume "frames (handleEntry H (mirror e) T) = frames ?T"
    with fr show ?thesis by (intro exI [of _ fr]) simp
  qed
qed

lemma entry_skips:
  assumes d: "sint (ev_depth e) < 0" and no: "frames T (ev_tid e, ev_depth e) = None"
  shows "frames (handleEntry H (mirror e) T) = frames T"
proof (cases "t_offsets T (ev_ip e - t_base T)")
  case None
  then show ?thesis by (simp add: handleEntry_def mirror_def)
next
  case (Some slot)
  obtain caller mods where m: "mc_of (h_maps H) (h_now H) (t_mods T) (ev_caller e) = (caller, mods)"
    by (rule prod.exhaust)
  have "push_frame H (mirror e) slot caller (T\<lparr>t_mods := mods\<rparr>) = T\<lparr>t_mods := mods\<rparr>"
    using d by (simp add: push_frame_def mirror_def)
  with Some m no show ?thesis
    by (simp add: handleEntry_def mirror_def Let_def frames_set_call)
qed

lemma return_pops:
  assumes "0 \<le> sint (Depth r)"
  shows "frames (handleReturn H r T) = (frames T)((Tid r, Depth r) := None)"
  using assms by (auto simp: handleReturn_def Let_def split: option.split prod.split)

lemma frames_on_event:
  "c_tid (t_conf T) = 0 \<Longrightarrow> frames (on_event H e T) =
     frames (if Kind e = 1 then handleReturn H e (T\<lparr>t_total := t_total T + 1\<rparr>)
             else handleEntry H e (T\<lparr>t_total := t_total T + 1\<rparr>))"
  by (simp add: on_event_def Let_def)

lemma frames_sim_upd:
  assumes "frames_sim T0 stk fs" and "\<And>key. rel_option (frame_of T0) (active stk key) (fs key) \<Longrightarrow>
     rel_option (frame_of T0) (active stk' key) (fs' key)"
  shows "frames_sim T0 stk' fs'"
  using assms by (simp add: frames_sim_def)

lemma sim_push:
  assumes "frames_sim T0 stk fs" and "frame_of T0 e fr" and "sint d = int (length (stk t))"
  shows "frames_sim T0 (stk(t := e # stk t)) (fs((t, d) \<mapsto> fr))"
proof (rule frames_sim_upd [OF assms(1)])
  fix key :: "u32 \<times> s32" assume r: "rel_option (frame_of T0) (active stk key) (fs key)"
  obtain u d' where "key = (u, d')" by (cases key)
  with r assms(2,3) show "rel_option (frame_of T0) (active (stk(t := e # stk t)) key) ((fs((t, d) \<mapsto> fr)) key)"
    by (auto simp: active_push simp flip: sint_eq_iff)
qed

lemma sim_pop:
  assumes "frames_sim T0 stk fs" and "stk t = e # es" and "sint d = int (length es)"
  shows "frames_sim T0 (stk(t := es)) (fs((t, d) := None))"
proof (rule frames_sim_upd [OF assms(1)])
  fix key :: "u32 \<times> s32" assume r: "rel_option (frame_of T0) (active stk key) (fs key)"
  obtain u d' where "key = (u, d')" by (cases key)
  with r assms(2,3) show "rel_option (frame_of T0) (active (stk(t := es)) key) ((fs((t, d) := None)) key)"
    by (auto simp: active_pop [where stk = stk and t = t, OF assms(2)] simp flip: sint_eq_iff)
qed

lemma sim_no_frame: "frames_sim T0 stk fs \<Longrightarrow> sint d < 0 \<Longrightarrow> fs (t, d) = None"
  unfolding frames_sim_def active_def by (drule spec [of _ "(t, d)"]) simp

lemma linked_tracked:
  assumes "linked s T" and "tracked s ctx"
  obtains slot where "t_offsets T (PT_REGS_IP ctx - t_base T) = Some slot" and "t_retSet T slot"
  using assms by (auto simp: linked_def tracked_def)

lemma depth_inv_numbered: "depth_inv s stk \<Longrightarrow> frames_numbered t (stk t)"
  by (simp add: depth_inv_def)

text \<open>One event of each kind.\<close>

lemma sim_call_step:
  assumes inv: "depth_inv s stk" and tr: "tracked s ctx" and live: "lossless K s"
    and small: "length (stk (cur_tid K)) < 2 ^ 31 - 1" and lk: "linked s T0"
    and sim: "frames_sim T0 stk (frames T1)" and st: "setting T1 = setting T0"
    and ev: "events (up_all K ctx s) = events s @ [e]"
  shows "frames_sim T0 (stk(cur_tid K := e # stk (cur_tid K))) (frames (on_event H (mirror e) T1))"
proof -
  let ?t = "cur_tid K"
  obtain g where g: "rb_mem K = Some g" using live by (auto simp: lossless_def)
  have e: "ev_tid e = ?t" "ev_kind e = 0" "ev_ip e = PT_REGS_IP ctx"
    using up_all_event [OF g, of ctx s] ev by auto
  have le: "last_event (up_all K ctx s) = e" by (simp add: last_event_def ev)
  have "depth_inv (up_all K ctx s) (stk(?t := e # stk ?t))"
    using depth_inv_call [where stk = stk, OF inv tr live small] unfolding le .
  then have "frames_numbered ?t ((stk(?t := e # stk ?t)) ?t)" by (rule depth_inv_numbered)
  then have d: "sint (ev_depth e) = int (length (stk ?t))" by simp
  obtain slot where "t_offsets T0 (ev_ip e - t_base T0) = Some slot" "t_retSet T0 slot"
    using linked_tracked [OF lk tr] e(3) by metis
  with st have "t_offsets T1 (ev_ip e - t_base T1) = Some slot" "t_retSet T1 slot"
    by (simp_all add: setting_def)
  with d obtain f where "frames (on_event H (mirror e) T1) = (frames T1)((ev_tid e, ev_depth e) \<mapsto> f)"
    and fo: "frame_of T1 e f"
    using entry_pushes [of "T1\<lparr>t_total := t_total T1 + 1\<rparr>" e slot H] lk st e(2)
    by (auto simp: frames_on_event linked_def setting_def frame_of_def mirror_def)
  moreover from fo have "frame_of T0 e f" by (simp only: frame_of_setting [OF st])
  ultimately show ?thesis by (simp only: e(1) sim_push [OF sim _ d])
qed

lemma sim_untracked_step:
  assumes "\<not> tracked s ctx" and g: "rb_mem K = Some g" and lk: "linked s T0"
    and sim: "frames_sim T0 stk (frames T1)" and st: "setting T1 = setting T0"
    and ev: "events (up_all K ctx s) = events s @ [e]"
  shows "frames_sim T0 stk (frames (on_event H (mirror e) T1))"
proof -
  have e: "ev_kind e = 0" "sint (ev_depth e) < 0"
    using up_all_event [OF g, of ctx s] ev assms(1) by auto
  from entry_skips [OF e(2), of "T1\<lparr>t_total := t_total T1 + 1\<rparr>" H] sim_no_frame [OF sim e(2)]
  show ?thesis using sim lk e(1) st by (simp add: frames_on_event linked_def setting_def mirror_def)
qed

lemma sim_return_step:
  assumes inv: "depth_inv s stk" and live: "lossless K s" and top: "stk (cur_tid K) = e # es"
    and lk: "linked s T0" and sim: "frames_sim T0 stk (frames T1)" and st: "setting T1 = setting T0"
    and ev: "events (up_ret K ctx s) = events s @ [r]"
  shows "frames T1 (ev_tid r, ev_depth r) \<noteq> None \<and>
         frame_of T0 e (the (frames T1 (ev_tid r, ev_depth r))) \<and>
         frames_sim T0 (stk(cur_tid K := es)) (frames (on_event H (mirror r) T1))"
proof -
  let ?t = "cur_tid K"
  obtain g where g: "rb_mem K = Some g" using live by (auto simp: lossless_def)
  have r: "ev_tid r = ?t" "ev_kind r = 1" using up_ret_event [OF g, of ctx s] ev by auto
  have le: "last_event (up_ret K ctx s) = r" by (simp add: last_event_def ev)
  have "pair_ok (e, r)"
    using depth_inv_return(2) [where stk = stk, OF inv live top, of ctx] unfolding le .
  moreover have "frames_numbered ?t (e # es)" using depth_inv_numbered [OF inv, of ?t] top by simp
  ultimately have d: "sint (ev_depth r) = int (length es)" by (simp add: pair_ok_def)
  have "rel_option (frame_of T0) (active stk (?t, ev_depth r)) (frames T1 (?t, ev_depth r))"
    using sim by (simp add: frames_sim_def)
  then have fr: "frames T1 (?t, ev_depth r) \<noteq> None \<and> frame_of T0 e (the (frames T1 (?t, ev_depth r)))"
    by (auto simp: active_top [where stk = stk, OF top d] option_rel_Some1)
  have "0 \<le> sint (Depth (mirror r))" using d by (simp add: mirror_def)
  from return_pops [OF this, of H "T1\<lparr>t_total := t_total T1 + 1\<rparr>"]
  have "frames (on_event H (mirror r) T1) = (frames T1)((?t, ev_depth r) := None)"
    using lk r st by (simp add: frames_on_event linked_def setting_def mirror_def)
  with sim_pop [where stk = stk, OF sim top d] fr r(1) show ?thesis by (simp only: simp_thms)
qed

text \<open>The frame table is the image of the stacks once the tracer has caught up with the ring buffer.\<close>

lemma frames_track_calls:
  assumes "probed s stk ps" and "fed T0 (events s) T" and "linked s T0" and "frames T0 = Map.empty"
    and "\<not> t_exited T"
  shows "frames_sim T0 stk (frames T)"
  using assms
proof (induction arbitrary: T rule: probed.induct)
  case (start s)
  from fed_nil [OF start.prems(1) start.hyps(2)] start.prems(3) show ?case
    by (simp add: frames_sim_def active_def)
next
  case (call s stk ps ctx K s')
  then obtain g where g: "rb_mem K = Some g" by (auto simp: lossless_def)
  from up_all_event [OF g] call.hyps(5) obtain e where ev: "events s' = events s @ [e]" by blast
  obtain T1 H where f: "fed T0 (events s) T1" "\<not> t_exited T1"
    and fr: "frames T = frames (on_event H (mirror e) T1)"
    using fed_snoc [OF call.prems(1) ev call.prems(4)] by (elim exE conjE)
  have lk: "linked s T0" using call.prems(2) call.hyps(5) by simp
  note step = sim_call_step [where stk = stk, OF conjunct1 [OF probed_inv [OF call.hyps(1)]] call.hyps(2-4) lk
    call.IH [OF f(1) lk call.prems(3) f(2)] fed_setting [OF f(1)] ev [unfolded call.hyps(5)]]
  show ?case unfolding fr last_event_def ev last_snoc by (rule step)
next
  case (untracked s stk ps ctx K)
  show ?case
  proof (cases "rb_mem K")
    case None
    with untracked show ?thesis by (simp add: up_all_drop)
  next
    case (Some g)
    from up_all_event [OF Some] obtain e where ev: "events (up_all K ctx s) = events s @ [e]" by blast
    obtain T1 H where f: "fed T0 (events s) T1" "\<not> t_exited T1"
      and fr: "frames T = frames (on_event H (mirror e) T1)"
      using fed_snoc [OF untracked.prems(1) ev untracked.prems(4)] by (elim exE conjE)
    have lk: "linked s T0" using untracked.prems(2) by simp
    show ?thesis unfolding fr
      by (rule sim_untracked_step [OF untracked.hyps(2) Some lk
            untracked.IH [OF f(1) lk untracked.prems(3) f(2)] fed_setting [OF f(1)] ev])
  qed
next
  case (return s stk ps K e es s' ctx)
  then obtain g where g: "rb_mem K = Some g" by (auto simp: lossless_def)
  from up_ret_event [OF g] return.hyps(4) obtain r where ev: "events s' = events s @ [r]" by blast
  obtain T1 H where f: "fed T0 (events s) T1" "\<not> t_exited T1"
    and fr: "frames T = frames (on_event H (mirror r) T1)"
    using fed_snoc [OF return.prems(1) ev return.prems(4)] by (elim exE conjE)
  have lk: "linked s T0" using return.prems(2) return.hyps(4) by simp
  note step = sim_return_step [where stk = stk, OF conjunct1 [OF probed_inv [OF return.hyps(1)]] return.hyps(2,3) lk
    return.IH [OF f(1) lk return.prems(3) f(2)] fed_setting [OF f(1)] ev [unfolded return.hyps(4)]]
  show ?case unfolding fr by (rule conjunct2 [OF conjunct2 [OF step]])
qed

section \<open>The line of a return\<close>

text \<open>The result as it is printed, after the caches have learned from the call.\<close>

definition ret_text :: "host \<Rightarrow> tracer \<Rightarrow> frame \<Rightarrow> u64 \<Rightarrow> string" where
  "ret_text H T fr rc =
     fmtRet (h_fmt H) (feed_caches (h_mem H) fr rc (t_caches T)) (h_mem H) (slotRet (fr_slot fr)) rc"

definition return_shown :: "host \<Rightarrow> tracer \<Rightarrow> frame \<Rightarrow> reconEvt \<Rightarrow> bool" where
  "return_shown H T fr e =
     (matchSlot (t_filters T) (fr_slot fr) \<and> fr_call fr \<noteq> '''' \<and> \<not> too_deep (t_conf T) (Depth e) \<and>
      matchLine (h_re H) (t_filters T) (fst (splitClassMethod (fr_call fr)))
        (snd (splitClassMethod (fr_call fr))) (fr_call fr @ ret_text H T fr (Rc e)) (fr_caller fr))"

lemma handleReturn_prints:
  assumes "0 \<le> sint (Depth e)" and "frames T (Tid e, Depth e) = Some fr"
    and "\<not> c_count (t_conf T)" and "\<not> c_jsonOut (t_conf T)"
  shows "out_lines (handleReturn H e T) =
    out_lines T @ (if return_shown H T fr e then [return_line H fr e (ret_text H T fr (Rc e))] else [])"
  using assms
  by (simp add: handleReturn_def return_shown_def ret_text_def emit_def Let_def split: prod.split)

lemma on_event_return:
  assumes "Kind e = 1" and "c_tid (t_conf T) = 0" and "0 \<le> sint (Depth e)"
    and "frames T (Tid e, Depth e) = Some fr" and "\<not> c_count (t_conf T)" and "\<not> c_jsonOut (t_conf T)"
  shows "out_lines (on_event H e T) =
    out_lines T @ (if return_shown H T fr e then [return_line H fr e (ret_text H T fr (Rc e))] else [])"
  using handleReturn_prints [of e "T\<lparr>t_total := t_total T + 1\<rparr>" fr H] assms
  by (simp add: on_event_def Let_def return_shown_def ret_text_def)

end
