(* ===== verification/Drain.thy ===== *)
theory Drain
  imports Frames
begin

text \<open>
  Progress of the paired probes: when the active tracked calls of a thread return one after the other
  and the ring buffer has room for their events, each of them is paired, the depth of the thread comes
  back to 0 and the frame table of a tracer that catches up keeps nothing of the thread.
\<close>

text \<open>A sequence of runs of the return probe.\<close>

definition run_returns :: "(evt_t kenv \<times> pt_regs) list \<Rightarrow> rmaps \<Rightarrow> rmaps" where
  "run_returns kcs s = fold (\<lambda>(K, ctx). up_ret K ctx) kcs s"

lemma run_returns_simps:
  "run_returns [] s = s" "run_returns ((K, ctx) # kcs) s = run_returns kcs (up_ret K ctx s)"
  by (simp_all add: run_returns_def)

text \<open>What the runs get from the kernel: thread \<open>t\<close> runs, there is room, the map keeps its contract.\<close>

definition returning :: "u32 \<Rightarrow> evt_t kenv \<times> pt_regs \<Rightarrow> bool" where
  "returning t kc = (cur_tid (fst kc) = t \<and> rb_mem (fst kc) \<noteq> None \<and>
     hash_contract (max_entries depth_map) (map_accepts (fst kc)))"

lemma depth_positive_bound: "0 < unat (depth_of m t) \<Longrightarrow> t \<in> dom m"
  by (auto simp: depth_of_def split: option.splits)

lemma returning_lossless:
  assumes "returning t (K, ctx)" and "probed s stk ps" and "stk t = e # es"
  shows "lossless K s"
proof -
  have "depth_inv s stk" using probed_inv [OF assms(2)] by blast
  then have "unat (depth_of (depth s) t) = length (stk t)" by (simp add: depth_inv_def)
  with assms(3) have "t \<in> dom (depth s)" by (intro depth_positive_bound) simp
  with assms(1) show ?thesis by (simp add: lossless_def returning_def hash_contract_def)
qed

lemma run_returns_probed:
  assumes "list_all (returning t) kcs" and "probed s stk ps" and "length kcs = length (stk t)"
  shows "\<exists>ps'. probed (run_returns kcs s) (stk(t := [])) (ps @ ps') \<and> map fst ps' = stk t"
  using assms
proof (induction kcs arbitrary: s stk ps)
  case Nil
  then have "stk(t := []) = stk" by auto
  with Nil show ?case by (intro exI [of _ "[]"]) (simp add: run_returns_def)
next
  case (Cons kc kcs)
  obtain K ctx where kc: "kc = (K, ctx)" by (cases kc)
  from Cons.prems(3) obtain e es where top: "stk t = e # es" by (cases "stk t") auto
  have t: "cur_tid K = t" using Cons.prems(1) by (simp add: kc returning_def)
  have ret: "returning t (K, ctx)" and rest: "list_all (returning t) kcs" using Cons.prems(1) by (simp_all add: kc)
  have "lossless K s" by (rule returning_lossless [where stk = stk, OF ret Cons.prems(2) top])
  from probed.return [where stk = stk, OF Cons.prems(2) this _ refl, of e es ctx] top
  have step: "probed (up_ret K ctx s) (stk(t := es)) (ps @ [(e, last_event (up_ret K ctx s))])"
    by (simp add: t)
  have len: "length kcs = length ((stk(t := es)) t)" using Cons.prems(3) top by simp
  obtain ps' where ps': "probed (run_returns kcs (up_ret K ctx s)) ((stk(t := es))(t := []))
      ((ps @ [(e, last_event (up_ret K ctx s))]) @ ps')" "map fst ps' = (stk(t := es)) t"
    using Cons.IH [where stk = "stk(t := es)", OF rest step len] by (elim exE conjE)
  have "probed (run_returns (kc # kcs) s) (stk(t := [])) (ps @ ((e, last_event (up_ret K ctx s)) # ps'))"
    using ps'(1) by (simp only: kc run_returns_simps fun_upd_upd append_assoc append_Cons append_Nil)
  moreover have "map fst ((e, last_event (up_ret K ctx s)) # ps') = stk t" using ps'(2) top by simp
  ultimately show ?case by (rule exI [of _ "(e, last_event (up_ret K ctx s)) # ps'", OF conjI])
qed

lemma run_returns_linked: "linked (run_returns kcs s) T = linked s T"
proof (induction kcs arbitrary: s)
  case (Cons kc kcs)
  then show ?case by (cases kc) (simp only: run_returns_simps linked_maps)
qed (simp add: run_returns_simps)

lemma run_returns_done:
  assumes "list_all (returning t) kcs" and "probed s stk ps" and "length kcs = length (stk t)"
    and "linked s T0" and "frames T0 = Map.empty" and "fed T0 (events (run_returns kcs s)) T" and "\<not> t_exited T"
  shows "frames T (t, d) = None"
proof -
  obtain ps' where "probed (run_returns kcs s) (stk(t := [])) (ps @ ps')"
    using run_returns_probed [where stk = stk, OF assms(1-3)] by blast
  from frames_track_calls [OF this assms(6) _ assms(5,7)] assms(4)
  have "rel_option (frame_of T0) (active (stk(t := [])) (t, d)) (frames T (t, d))"
    by (simp add: frames_sim_def run_returns_linked)
  moreover have "active (stk(t := [])) (t, d) = None" by (simp add: active_def)
  ultimately show ?thesis by simp
qed

end
