(* ===== verification/SchemaFacts.thy ===== *)
theory SchemaFacts
  imports Schema
begin

text \<open>
  Facts of the transcribed JNI tables, evaluated in the kernel once and lifted to statements about
  slots: the two tables agree, and the classifier \<^verbatim>\<open>isCallMethod\<close> of \<^verbatim>\<open>loader/decode.go\<close> agrees
  with the argument types of the schema for every slot but one.
\<close>

lemma length_jniSchema [simp]: "length jniSchema = 233"
  by (simp add: jniSchema_def jniSchema_lo_def jniSchema_hi_def)

lemma length_jniNames [simp]: "length jniNames = 233"
  by (simp add: jniNames_def jniNames_lo_def jniNames_hi_def)

lemma names_of_schema: "map Name jniSchema = jniNames"
  by code_simp

lemma slot_schema:
  assumes "0 \<le> slot" and "slot < 233"
  shows "slotName slot = Name (jniSchema ! nat slot)" and "slotArgs slot = Args (jniSchema ! nat slot)"
    and "slotRet slot = Ret (jniSchema ! nat slot)"
  using assms by (simp_all add: slotName_def slotArgs_def slotRet_def)

text \<open>
  The two generated tables are consistent: both have the 233 slots of the JNI function table, the
  name of a slot is the same in both, and a slot outside the table is named by its number, returns
  nothing and has no arguments.
\<close>

theorem jni_tables_agree:
  "length jniSchema = 233 \<and> length jniNames = 233 \<and>
   (if 0 \<le> slot \<and> slot < 233 then slotName slot = jniNames ! nat slot
    else slotName slot = ''slot'' @ fmt_dec slot \<and> slotRet slot = ''void'' \<and> slotArgs slot = [])"
proof (cases "0 \<le> slot \<and> slot < 233")
  case True
  then have "nat slot < length jniSchema" by (simp add: nat_less_iff)
  then have "jniNames ! nat slot = Name (jniSchema ! nat slot)"
    unfolding names_of_schema [symmetric] by (rule nth_map)
  with True show ?thesis by (simp add: slot_schema)
qed (auto simp: slotName_def slotRet_def slotArgs_def)

section \<open>The classifier of calls\<close>

definition vararg_type :: "string \<Rightarrow> string" where
  "vararg_type nm = (if hasSuffix nm ''A'' then ''jvalue*'' else if hasSuffix nm ''V'' then ''va_list''
     else ''...'')"

definition row_ok :: "jniFunc \<Rightarrow> bool" where
  "row_ok f = (case isCallMethod (Name f) of None \<Rightarrow> True
     | Some i \<Rightarrow> Suc i < 5 \<and> (Name f = ''NewObjectArray'' \<or>
         (Suc i < length (Args f) \<and> Args f ! 0 = ''JNIEnv*'' \<and> Args f ! i = ''jmethodID'' \<and>
          Args f ! Suc i = vararg_type (Name f))))"

lemma rows_lo_ok: "list_all row_ok jniSchema_lo"
  by code_simp

lemma rows_hi_ok: "list_all row_ok jniSchema_hi"
  by code_simp

lemma rows_ok: "list_all row_ok jniSchema"
  by (simp add: jniSchema_def rows_lo_ok rows_hi_ok)

lemma array_row_lo: "list_all (\<lambda>f. Name f \<noteq> ''NewObjectArray'') jniSchema_lo"
  by code_simp

lemma array_row: "jniSchema ! 172 =
    jf ''NewObjectArray'' [''JNIEnv*'', ''jsize'', ''jclass'', ''jobject''] ''jobjectArray''"
  by (simp add: jniSchema_def jniSchema_lo_def jniSchema_hi_def)


lemma slot_36: "slotName 36 = ''CallObjectMethodA''"
  by (simp add: slot_schema jniSchema_def jniSchema_lo_def)


text \<open>
  Slot 6 of the function table is \<^verbatim>\<open>FindClass\<close>; \<^verbatim>\<open>GetVersion\<close>, which the comment at the sanity
  check of \<^verbatim>\<open>bpf/envprobe.bpf.c\<close> names, is slot 4.
\<close>

theorem slot_six_is_FindClass: "slotName 6 = ''FindClass'' \<and> slotName 4 = ''GetVersion''"
  by (simp add: slot_schema jniSchema_def jniSchema_lo_def)

end
