(* ===== verification/SetupFacts.thy ===== *)
theory SetupFacts
  imports Frames SchemaFacts Capture
begin

text \<open>
  The set-up of \<^verbatim>\<open>runProbe\<close>: which bindings the two loops over the slot offsets leave in the
  maps of the BPF object, and that they link the probes with the tracer as the pairing needs it.
\<close>

section \<open>Filling a hash map\<close>

lemma hash_update_room:
  "hash_contract mx ok \<Longrightarrow> card (dom m) < mx \<Longrightarrow> hash_update ok m k v = m(k \<mapsto> v)"
  by (simp add: hash_contract_def hash_update_def)

definition put_all ::
    "('k set \<Rightarrow> 'k \<Rightarrow> bool) \<Rightarrow> ('a \<Rightarrow> 'v option) \<Rightarrow> ('k \<times> 'a) list \<Rightarrow> ('k \<rightharpoonup> 'v) \<Rightarrow> ('k \<rightharpoonup> 'v)" where
  "put_all ok g xs m =
     fold (\<lambda>(k, a) m. case g a of None \<Rightarrow> m | Some v \<Rightarrow> hash_update ok m k v) xs m"

lemma put_all_simps [simp]:
  "put_all ok g [] m = m"
  "put_all ok g ((k, a) # xs) m =
     put_all ok g xs (case g a of None \<Rightarrow> m | Some v \<Rightarrow> hash_update ok m k v)"
  by (simp_all add: put_all_def)

text \<open>With room for every entry and no key twice, every binding arrives.\<close>

lemma put_all_lookup:
  assumes "hash_contract mx ok" and "finite (dom m)" and "card (dom m) + length xs \<le> mx"
    and "distinct (map fst xs)"
  shows "put_all ok g xs m k =
    (case map_of xs k of None \<Rightarrow> m k | Some a \<Rightarrow> (case g a of None \<Rightarrow> m k | Some v \<Rightarrow> Some v))"
  using assms
proof (induction xs arbitrary: m)
  case (Cons p xs)
  obtain k' a where p: "p = (k', a)" by (cases p)
  have new: "k' \<notin> dom (map_of xs)" using Cons.prems(4) p by (simp add: dom_map_of_conv_image_fst)
  show ?case
  proof (cases "g a")
    case None
    with Cons p new show ?thesis by (auto simp: domIff split: option.split)
  next
    case (Some v)
    have u: "hash_update ok m k' v = m(k' \<mapsto> v)"
      using Cons.prems by (intro hash_update_room) auto
    have room: "card (dom (m(k' \<mapsto> v))) + length xs \<le> mx"
      using Cons.prems(2,3) by (auto simp: card_insert_if)
    have "distinct (map fst xs)" and "finite (dom (m(k' \<mapsto> v)))" using Cons.prems(2,4) by simp_all
    note ih = Cons.IH [OF Cons.prems(1) this(2) room this(1)]
    show ?thesis unfolding p put_all_simps Some option.case u ih
      using new Some by (auto simp: domIff split: option.split)
  qed
qed simp

section \<open>The loops of the set-up\<close>

definition call_kind :: "int \<Rightarrow> u8 option" where
  "call_kind slot = map_option (\<lambda>_. if hasSuffix (slotName slot) ''A'' then 1
     else if hasSuffix (slotName slot) ''V'' then 2 else 3) (isCallMethod (slotName slot))"

definition call_index :: "int \<Rightarrow> u8 option" where
  "call_index slot = map_option (\<lambda>i. word_of_nat (i + 1)) (isCallMethod (slotName slot))"

text \<open>The slots whose returns are watched.\<close>

definition watched :: "config \<Rightarrow> filters \<Rightarrow> int \<Rightarrow> bool" where
  "watched c f slot \<longleftrightarrow> alwaysWatch (slotName slot) \<or>
     (\<not> c_noReturns c \<and> slotRet slot \<noteq> ''void'' \<and> matchSlot f slot)"

lemma setup_call_maps:
  "argkind (su_maps (setup_call ok c f (off, slot) s)) =
     (case call_kind slot of None \<Rightarrow> argkind (su_maps s) | Some v \<Rightarrow> hash_update ok (argkind (su_maps s)) off v)"
  "argidx (su_maps (setup_call ok c f (off, slot) s)) =
     (case call_index slot of None \<Rightarrow> argidx (su_maps s) | Some v \<Rightarrow> hash_update ok (argidx (su_maps s)) off v)"
  "hasret (su_maps (setup_call ok c f (off, slot) s)) = hasret (su_maps s)"
  "cfg (su_maps (setup_call ok c f (off, slot) s)) = cfg (su_maps s)"
  "retSet (setup_call ok c f (off, slot) s) = (\<lambda>x. retSet s x \<or> x = slot \<and> watched c f slot)"
  by (auto simp: setup_call_def call_kind_def call_index_def watched_def Let_def fun_eq_iff
      split: option.split)

lemma fold_setup_call:
  "argkind (su_maps (fold (setup_call ok c f) xs s)) = put_all ok call_kind xs (argkind (su_maps s))"
  "argidx (su_maps (fold (setup_call ok c f) xs s)) = put_all ok call_index xs (argidx (su_maps s))"
  "hasret (su_maps (fold (setup_call ok c f) xs s)) = hasret (su_maps s)"
  "cfg (su_maps (fold (setup_call ok c f) xs s)) = cfg (su_maps s)"
  "retSet (fold (setup_call ok c f) xs s) =
     (\<lambda>x. retSet s x \<or> x \<in> snd ` set xs \<and> watched c f x)"
proof (induction xs arbitrary: s)
  case Nil
  { case 1 then show ?case by simp next
    case 2 then show ?case by simp next
    case 3 then show ?case by simp next
    case 4 then show ?case by simp next
    case 5 then show ?case by simp }
next
  case (Cons p xs)
  obtain off slot where p: "p = (off, slot)" by (cases p)
  { case 1 then show ?case by (simp add: p Cons.IH setup_call_maps) next
    case 2 then show ?case by (simp add: p Cons.IH setup_call_maps) next
    case 3 then show ?case by (simp add: p Cons.IH setup_call_maps) next
    case 4 then show ?case by (simp add: p Cons.IH setup_call_maps) next
    case 5 then show ?case by (auto simp: p Cons.IH setup_call_maps fun_eq_iff) }
qed

lemma setup_ret_maps:
  "argkind (su_maps (setup_ret ok p s)) = argkind (su_maps s)"
  "argidx (su_maps (setup_ret ok p s)) = argidx (su_maps s)"
  "cfg (su_maps (setup_ret ok p s)) = cfg (su_maps s)"
  "retSet (setup_ret ok p s) = retSet s"
  "hasret (su_maps (setup_ret ok (off, slot) s)) =
     (if retSet s slot then hash_update ok (hasret (su_maps s)) off 1 else hasret (su_maps s))"
  by (simp_all add: setup_ret_def Let_def split: prod.split)

lemma fold_setup_ret:
  "argkind (su_maps (fold (setup_ret ok) xs s)) = argkind (su_maps s)"
  "argidx (su_maps (fold (setup_ret ok) xs s)) = argidx (su_maps s)"
  "cfg (su_maps (fold (setup_ret ok) xs s)) = cfg (su_maps s)"
  "retSet (fold (setup_ret ok) xs s) = retSet s"
  by (induction xs arbitrary: s) (simp_all add: setup_ret_maps)

lemma fold_setup_ret_hasret:
  "hasret (su_maps (fold (setup_ret ok) xs s)) =
     put_all ok (\<lambda>slot. if retSet s slot then Some 1 else None) xs (hasret (su_maps s))"
proof (induction xs arbitrary: s)
  case (Cons p xs)
  obtain off slot where "p = (off, slot)" by (cases p)
  then show ?case by (simp add: Cons.IH setup_ret_maps)
qed simp

section \<open>The configured maps\<close>

text \<open>
  \<open>offsets\<close> and \<open>offsets'\<close> are the orders in which the two loops visit the same Go map.
\<close>

definition same_map :: "(u64 \<times> int) list \<Rightarrow> (u64 \<times> int) list \<Rightarrow> bool" where
  "same_map xs ys = (distinct (map fst xs) \<and> distinct (map fst ys) \<and> map_of xs = map_of ys \<and> length xs = length ys)"

lemma configure_maps:
  assumes "hash_contract (max_entries argkind_map) ok" and "hash_contract (max_entries hasret_map) ok_ret"
    and "same_map xs ys" and "length xs \<le> (max_entries argkind_map)"
    and S_def: "S = configure ok ok_ret c f base xs ys"
  shows "argkind (su_maps S) off = Option.bind (map_of xs off) call_kind"
    and "argidx (su_maps S) off = Option.bind (map_of xs off) call_index"
    and "hasret (su_maps S) off =
           (case map_of xs off of None \<Rightarrow> None | Some slot \<Rightarrow> if watched c f slot then Some 1 else None)"
    and "cfg (su_maps S) = cfg (initial_maps c base)"
    and "map_of xs off = Some slot \<Longrightarrow> retSet S slot = watched c f slot"
proof -
  have fit: "card (dom Map.empty) + length xs \<le> (max_entries argkind_map)"
    "card (dom Map.empty) + length ys \<le> (max_entries hasret_map)"
    using assms(3,4) by (simp_all add: same_map_def argkind_map_def hasret_map_def)
  have d: "distinct (map fst xs)" "distinct (map fst ys)" "map_of ys = map_of xs"
    using assms(3) by (simp_all add: same_map_def)
  note put = put_all_lookup [OF assms(1) _ fit(1) d(1)] put_all_lookup [OF assms(2) _ fit(2) d(2)]
  show "argkind (su_maps S) off = Option.bind (map_of xs off) call_kind"
    and "argidx (su_maps S) off = Option.bind (map_of xs off) call_index"
    by (simp_all add: S_def configure_def fold_setup_ret fold_setup_call initial_maps_def put
        split: option.split)
  show "cfg (su_maps S) = cfg (initial_maps c base)"
    by (simp add: S_def configure_def fold_setup_ret fold_setup_call)
  have w: "retSet S slot = (slot \<in> snd ` set xs \<and> watched c f slot)" for slot
    by (simp add: S_def configure_def fold_setup_ret fold_setup_call)
  then show "map_of xs off = Some slot \<Longrightarrow> retSet S slot = watched c f slot"
    by (force dest: map_of_SomeD)
  have r: "map_of xs off = Some slot \<Longrightarrow> slot \<in> snd ` set xs" for slot
    by (force dest: map_of_SomeD)
  show "hasret (su_maps S) off =
      (case map_of xs off of None \<Rightarrow> None | Some slot \<Rightarrow> if watched c f slot then Some 1 else None)"
    using r by (auto simp: S_def configure_def fold_setup_ret_hasret fold_setup_call initial_maps_def
        put d(3) split: option.split)
qed

lemma setup_call_fresh [simp]:
  "depth (su_maps (setup_call ok c f p s)) = depth (su_maps s)"
  "events (su_maps (setup_call ok c f p s)) = events (su_maps s)"
  by (simp_all add: setup_call_def Let_def split: prod.split option.split)

lemma setup_ret_fresh [simp]:
  "depth (su_maps (setup_ret ok p s)) = depth (su_maps s)"
  "events (su_maps (setup_ret ok p s)) = events (su_maps s)"
  by (simp_all add: setup_ret_def Let_def split: prod.split)

lemma fold_fresh [simp]:
  "depth (su_maps (fold (setup_call ok c f) xs s)) = depth (su_maps s)"
  "events (su_maps (fold (setup_call ok c f) xs s)) = events (su_maps s)"
  "depth (su_maps (fold (setup_ret ok') ys s)) = depth (su_maps s)"
  "events (su_maps (fold (setup_ret ok') ys s)) = events (su_maps s)"
proof -
  show "depth (su_maps (fold (setup_call ok c f) xs s)) = depth (su_maps s)"
    "events (su_maps (fold (setup_call ok c f) xs s)) = events (su_maps s)"
    by (induction xs arbitrary: s) simp_all
  show "depth (su_maps (fold (setup_ret ok') ys s)) = depth (su_maps s)"
    "events (su_maps (fold (setup_ret ok') ys s)) = events (su_maps s)"
    by (induction ys arbitrary: s) simp_all
qed

lemma configure_fresh:
  "depth (su_maps (configure ok ok_ret c f base xs ys)) = Map.empty"
  "events (su_maps (configure ok ok_ret c f base xs ys)) = []"
  by (simp_all add: configure_def initial_maps_def)

lemma configure_linked:
  assumes "hash_contract (max_entries argkind_map) ok" and "hash_contract (max_entries hasret_map) ok_ret"
    and "same_map xs ys" and "length xs \<le> (max_entries argkind_map)" and "c_tid c = 0"
    and "S = configure ok ok_ret c f base xs ys"
  shows "linked (su_maps S) (initial_tracer c f mc base (map_of xs) S)"
proof -
  note cm = configure_maps [OF assms(1-4,6)]
  show ?thesis using cm(5) assms(5)
    by (auto simp: linked_def cm(3,4) initial_maps_def array_lookup_def initial_tracer_def split: option.split)
qed

end
