(* ===== verification/Startup.thy ===== *)
theory Startup
  imports SetupFacts EnvCommand Pairing
begin

text \<open>
  The start of \<^verbatim>\<open>runProbe\<close> in \<^verbatim>\<open>loader/trace.go\<close>: which process is traced
  (\<^verbatim>\<open>resolvePidByName\<close> of \<^verbatim>\<open>loader/target.go\<close>), where its slot offsets come from, the checks
  before the probes are loaded, and the two loops that attach the entry and the return probes. What the
  system answers is a record of parameters: the entries of \<^verbatim>\<open>/proc\<close>, the command line, maps and
  memory of a process, the contents of a file and the decoding of JSON.
\<close>

section \<open>The target and its offsets\<close>

record sysenv =
  proc_dir :: "string list option"
  cmdline_of :: "int \<Rightarrow> string option"
  maps_of :: "int \<Rightarrow> string option"
  mem_of :: "int \<Rightarrow> memReader"
  file_of :: "string \<Rightarrow> string option"
  unmarshal_of :: "string \<Rightarrow> (string \<times> string) list option"

fun find_pid :: "(int \<Rightarrow> string option) \<Rightarrow> string \<Rightarrow> string list \<Rightarrow> int option" where
  "find_pid cmdline sub [] = None"
| "find_pid cmdline sub (e # es) =
     (case atoi e of None \<Rightarrow> find_pid cmdline sub es
      | Some pid \<Rightarrow>
          (case cmdline pid of None \<Rightarrow> find_pid cmdline sub es
           | Some cmd \<Rightarrow> if str_contains cmd sub then Some pid else find_pid cmdline sub es))"

definition resolvePidByName :: "sysenv \<Rightarrow> string \<Rightarrow> int option" where
  "resolvePidByName E sub =
     (case proc_dir E of None \<Rightarrow> None | Some ents \<Rightarrow> find_pid (cmdline_of E) sub ents)"

text \<open>
  The ways the start can end before a probe is loaded, each with a message and an exit code in the
  source.
\<close>

datatype start_error = NoProcess | Usage | NoOffsets | TooFew nat | NoLibrary

definition auto_file :: string where
  "auto_file = ''/data/local/tmp/jni_offsets.json''"

definition load_offsets :: "nat \<Rightarrow> sysenv \<Rightarrow> config \<Rightarrow> int \<Rightarrow> (u64 \<rightharpoonup> int) option option" where
  "load_offsets n E c pid =
     (if c_offsets c = '''' \<or> c_offsets c = ''auto'' then
        (case offsetsFromScan n (maps_of E pid) (mem_of E pid) of
           None \<Rightarrow> None
         | Some None \<Rightarrow> Some (offsetsFromFile (unmarshal_of E) (file_of E auto_file))
         | Some (Some out) \<Rightarrow> Some (Some out))
      else Some (offsetsFromFile (unmarshal_of E) (file_of E (c_offsets c))))"

text \<open>
  The outer \<^const>\<open>None\<close> is a lack of fuel for the scan; the result is the process, its offsets and
  the base of the library.
\<close>

definition runProbe_start :: "nat \<Rightarrow> sysenv \<Rightarrow> config \<Rightarrow> (start_error + int \<times> (u64 \<rightharpoonup> int) \<times> u64) option" where
  "runProbe_start n E c =
     (case (if c_pid c = 0 \<and> c_name c \<noteq> '''' then resolvePidByName E (c_name c) else Some (c_pid c)) of
        None \<Rightarrow> Some (Inl NoProcess)
      | Some pid \<Rightarrow>
          if pid = 0 then Some (Inl Usage)
          else (case load_offsets n E c pid of
              None \<Rightarrow> None
            | Some None \<Rightarrow> Some (Inl NoOffsets)
            | Some (Some offs) \<Rightarrow>
                if card (dom offs) < 100 then Some (Inl (TooFew (card (dom offs))))
                else (case libartBase (maps_of E pid) of
                    None \<Rightarrow> Some (Inl NoLibrary)
                  | Some (base, execLo, execHi) \<Rightarrow> Some (Inr (pid, offs, base)))))"

section \<open>Slots are slots of the schema\<close>

definition slots_valid :: "(u64 \<rightharpoonup> int) \<Rightarrow> bool" where
  "slots_valid m = (\<forall>off slot. m off = Some slot \<longrightarrow> 0 \<le> slot \<and> slot < int (length jniSchema))"

lemma schema_length: "length jniSchema = 233"
  using table_words_eq unfolding table_words_def .

lemma slots_valid_empty: "slots_valid Map.empty"
  by (simp add: slots_valid_def)

lemma slots_valid_put: "slots_valid out \<Longrightarrow> slots_valid (put_table m base p out)"
proof -
  assume v: "slots_valid out"
  have "0 \<le> slot \<and> slot < int (length jniSchema)" if "put_table m base p out off = Some slot" for off slot
    using put_table_Some [OF that] v by (auto simp: slots_valid_def schema_length)
  then show ?thesis by (simp add: slots_valid_def)
qed

lemma scan_range_valid:
  "slots_valid (fst st) \<Longrightarrow> scan_range n m base lo hi p r1 st = Some st' \<Longrightarrow> slots_valid (fst st')"
proof (induction n arbitrary: p st)
  case (Suc n)
  show ?case
  proof (cases "p + table_bytes \<le> r1")
    case False
    with Suc.prems show ?thesis by simp
  next
    case True
    obtain out t where st: "st = (out, t)" by (cases st)
    show ?thesis
    proof (cases "table_at m lo hi p")
      case False
      with True Suc.prems have "scan_range n m base lo hi (p + 8) r1 st = Some st'" by simp
      then show ?thesis by (rule Suc.IH [OF Suc.prems(1)])
    next
      case tab: True
      with True Suc.prems(2) st have "scan_range n m base lo hi (p + (table_bytes - 8) + 8) r1
          (put_table m base p out, t + 1) = Some st'" by simp
      then show ?thesis using Suc.prems(1) st by (intro Suc.IH) (simp_all add: slots_valid_put)
    qed
  qed
qed simp

lemma scan_ranges_valid:
  "slots_valid (fst st) \<Longrightarrow> scan_ranges n m base lo hi rs st = Some st' \<Longrightarrow> slots_valid (fst st')"
proof (induction rs arbitrary: st)
  case (Cons r rs)
  obtain r0 r1 where r: "r = (r0, r1)" by (cases r)
  with Cons.prems(2) obtain st1 where "scan_range n m base lo hi r0 r1 st = Some st1"
    and "scan_ranges n m base lo hi rs st1 = Some st'" by (auto split: option.splits)
  with Cons.IH [of st1] scan_range_valid [OF Cons.prems(1)] show ?case by blast
qed simp

lemma scan_valid: "offsetsFromScan n data mr = Some (Some out) \<Longrightarrow> slots_valid out"
  using scan_ranges_valid [of "(Map.empty, 0)"]
  by (fastforce simp: offsetsFromScan_def slots_valid_empty split: option.splits if_splits)

lemma file_entry_valid: "slots_valid out \<Longrightarrow> slots_valid (file_entry kv out)"
  by (auto simp: file_entry_def slots_valid_def split: option.splits)

lemma file_valid: "offsetsFromFile um raw = Some out \<Longrightarrow> slots_valid out"
proof -
  have "slots_valid m \<Longrightarrow> slots_valid (fold file_entry kvs m)" for kvs m
    by (induction kvs arbitrary: m) (simp_all add: file_entry_valid)
  then show "offsetsFromFile um raw = Some out \<Longrightarrow> slots_valid out"
    by (auto simp: offsetsFromFile_def slots_valid_empty split: option.splits)
qed

lemma load_offsets_valid: "load_offsets n E c pid = Some (Some out) \<Longrightarrow> slots_valid out"
  by (auto simp: load_offsets_def scan_valid file_valid split: if_splits option.splits)

lemma runProbe_start_offs:
  assumes "runProbe_start n E c = Some (Inr (pid, offs, base))"
  shows "finite (dom offs) \<and> 100 \<le> card (dom offs) \<and> slots_valid offs"
proof -
  from assms have "load_offsets n E c pid = Some (Some offs)" "100 \<le> card (dom offs)"
    by (auto simp: runProbe_start_def split: option.splits if_splits)
  then show ?thesis using load_offsets_valid card.infinite [of "dom offs"] by fastforce
qed

text \<open>
  C26. When the start succeeds the tracer is set up soundly: a process was chosen, by number or as one
  whose command line contains the given name; there are at least 100 offsets, each standing for a slot
  of the schema, whether they come from the scan or from a file; and the base is that of the library in
  the maps of that process.
\<close>

theorem start_gives_valid_slots:
  assumes "runProbe_start n E c = Some (Inr (pid, offs, base))"
  shows "pid \<noteq> 0 \<and> (c_pid c \<noteq> 0 \<longrightarrow> pid = c_pid c) \<and>
    (c_pid c = 0 \<longrightarrow> (\<exists>cmd. cmdline_of E pid = Some cmd \<and> str_contains cmd (c_name c))) \<and>
    100 \<le> card (dom offs) \<and> (\<forall>off slot. offs off = Some slot \<longrightarrow> 0 \<le> slot \<and> slot < 233) \<and>
    (\<exists>execLo execHi. libartBase (maps_of E pid) = Some (base, execLo, execHi))"
proof -
  have found: "find_pid (cmdline_of E) sub es = Some p \<Longrightarrow>
      \<exists>cmd. cmdline_of E p = Some cmd \<and> str_contains cmd sub" for sub es p
    by (induction es) (auto split: option.splits if_splits)
  from assms have p: "(if c_pid c = 0 \<and> c_name c \<noteq> '''' then resolvePidByName E (c_name c) else Some (c_pid c)) = Some pid"
    "pid \<noteq> 0" and o: "load_offsets n E c pid = Some (Some offs)" "100 \<le> card (dom offs)"
    and l: "\<exists>execLo execHi. libartBase (maps_of E pid) = Some (base, execLo, execHi)"
    by (auto simp: runProbe_start_def split: option.splits if_splits)
  have "c_pid c = 0 \<longrightarrow> (\<exists>cmd. cmdline_of E pid = Some cmd \<and> str_contains cmd (c_name c))"
    using p found by (auto simp: resolvePidByName_def split: if_splits option.splits)
  moreover have "c_pid c \<noteq> 0 \<longrightarrow> pid = c_pid c" using p by auto
  moreover have "\<forall>off slot. offs off = Some slot \<longrightarrow> 0 \<le> slot \<and> slot < 233"
    using load_offsets_valid [OF o(1)] by (simp add: slots_valid_def schema_length)
  ultimately show ?thesis using p(2) o(2) l by blast
qed

text \<open>A start from an offsets file: the one the command \<^verbatim>\<open>env\<close> writes in its run.\<close>

definition demo_sys :: sysenv where
  "demo_sys = \<lparr>proc_dir = None, cmdline_of = (\<lambda>_. None), maps_of = (\<lambda>_. Some scan_demo_maps),
     mem_of = (\<lambda>_. None), file_of = (\<lambda>_. Some (json_object demo_pairs)), unmarshal_of = demo_unmarshal\<rparr>"

definition demo_file_conf :: config where
  "demo_file_conf = demo_conf\<lparr>c_pid := 7, c_offsets := ''f''\<rparr>"

lemma demo_file_offsets:
  "\<exists>out. offsetsFromFile demo_unmarshal (Some (json_object demo_pairs)) = Some out \<and> 100 \<le> card (dom out) \<and>
     card (dom out) \<le> 233 \<and> out (0x101010101010006 - 0x7000) = Some 6"
proof -
  have "env_file (0x7000, 0x101010101010000, 0x101010101020000) demo_slots = Some (json_object demo_pairs)"
    using demo_slots_enough by (simp add: env_file_def demo_pairs_def)
  moreover have "length demo_slots = NSLOTS" by (simp add: demo_slots_def)
  moreover have "json_decodes demo_unmarshal
      (map (env_pair 0x7000 demo_slots) (env_keys 0x101010101010000 0x101010101020000 demo_slots))"
    by (simp add: json_decodes_def demo_unmarshal_def demo_pairs_def [symmetric])
  ultimately obtain out where out: "offsetsFromFile demo_unmarshal (Some (json_object demo_pairs)) = Some out"
    and read: "\<forall>off j. out off = Some j \<longrightarrow>
      (\<exists>i < 233. in_exec 0x101010101010000 0x101010101020000 (demo_slots ! i) \<and> off = demo_slots ! i - 0x7000 \<and> j = int i)"
    and all: "\<forall>i < 233. in_exec 0x101010101010000 0x101010101020000 (demo_slots ! i) \<longrightarrow> demo_slots ! i - 0x7000 \<in> dom out"
    using env_file_read_back by blast
  have "dom out \<subseteq> (\<lambda>i. demo_slots ! i - 0x7000) ` {..<233}" using read by fastforce
  then have most: "card (dom out) \<le> 233" by (metis card_image_le card_lessThan card_mono finite_imageI finite_lessThan le_trans)
  have d6: "demo_slots ! 6 = 0x101010101010006" using demo_slots_nth [of 6] by simp
  have "in_exec 0x101010101010000 0x101010101020000 (demo_slots ! 6)" using demo_slots_exec [of 6] d6 by simp
  moreover have "(6 :: nat) < 233" by simp
  ultimately have "demo_slots ! 6 - 0x7000 \<in> dom out" using all by blast
  then obtain j where j: "out (0x101010101010006 - 0x7000) = Some j" unfolding d6 by blast
  then obtain i where i: "i < 233" "0x101010101010006 - 0x7000 = demo_slots ! i - 0x7000" "j = int i"
    and ex: "in_exec 0x101010101010000 0x101010101020000 (demo_slots ! i)" using read by blast
  have di: "demo_slots ! i = (if 6 \<le> i \<and> i < 160 then 0x101010101010000 + word_of_nat i else 0)"
    using i(1) by (intro demo_slots_nth) simp
  have r: "6 \<le> i \<and> i < 160" using ex unfolding di by (auto simp: in_exec_def [of _ _ 0] split: if_splits)
  have cancel: "a - c = b - c \<Longrightarrow> a = b" for a b c :: u64 by simp
  have dr: "demo_slots ! i = 0x101010101010000 + word_of_nat i" using di r by simp
  have "0x101010101010006 = (0x101010101010000 :: u64) + word_of_nat i"
    by (rule trans [OF cancel [OF i(2)] dr])
  moreover have "(0x101010101010006 :: u64) = 0x101010101010000 + 6" by simp
  ultimately have "(word_of_nat i :: u64) = 6" by (metis add_left_cancel)
  then have "unat (word_of_nat i :: u64) = unat (6 :: u64)" by (rule arg_cong)
  with r have "i = 6" by (simp add: unat_of_nat)
  with i(3) j have six: "out (0x101010101010006 - 0x7000) = Some 6" by simp
  let ?f = "\<lambda>i :: nat. 0x101010101010000 + word_of_nat i - 0x7000 :: u64"
  have "?f ` {6..<160} \<subseteq> dom out"
  proof (rule image_subsetI)
    fix i :: nat assume "i \<in> {6..<160}"
    then have i: "6 \<le> i" "i < 160" by simp_all
    then have nth: "demo_slots ! i = 0x101010101010000 + word_of_nat i" by (simp add: demo_slots_nth)
    have "i < 233" using i by simp
    moreover have "in_exec 0x101010101010000 0x101010101020000 (demo_slots ! i)"
      unfolding nth by (rule demo_slots_exec [OF i])
    ultimately have "demo_slots ! i - 0x7000 \<in> dom out" using all by blast
    then show "?f i \<in> dom out" unfolding nth .
  qed
  moreover have "inj_on ?f {6..<160}"
    by (rule inj_onI) (auto dest!: arg_cong [of _ _ unat] simp: unat_of_nat)
  then have "card (?f ` {6..<160}) = 154" by (simp add: card_image)
  ultimately have "154 \<le> card (dom out)" by (metis card_mono finite)
  with out most six show ?thesis by auto
qed

theorem start_gives_valid_slots_witness:
  "\<exists>offs. runProbe_start 0 demo_sys demo_file_conf = Some (Inr (7, offs, 0x7000)) \<and> 100 \<le> card (dom offs)"
proof -
  obtain out where out: "offsetsFromFile demo_unmarshal (Some (json_object demo_pairs)) = Some out"
    "100 \<le> card (dom out)" using demo_file_offsets by blast
  then have "runProbe_start 0 demo_sys demo_file_conf = Some (Inr (7, out, 0x7000))"
    by (simp add: runProbe_start_def demo_file_conf_def load_offsets_def demo_sys_def scan_demo_maps_parse)
  from this start_gives_valid_slots [OF this] show ?thesis by blast
qed

section \<open>Attaching the probes\<close>

text \<open>
  The offsets with an entry and with a return probe after each attachment that succeeds, in the order
  of the two loops.
\<close>

definition attach_states :: "u64 list \<Rightarrow> u64 list \<Rightarrow> (u64 set \<times> u64 set) list" where
  "attach_states offs rets =
     map (\<lambda>i. (set (take i offs), {})) [0..<length offs] @
     map (\<lambda>i. (set offs, set (take i rets))) [0..<Suc (length rets)]"

text \<open>
  One call of the function at an offset, its entry and its return, with the probes attached when it
  is entered: the kernel fires a return probe only for calls entered after it was attached.
\<close>

definition call_through ::
    "u64 set \<times> u64 set \<Rightarrow> u64 \<Rightarrow> evt_t kenv \<Rightarrow> pt_regs \<Rightarrow> evt_t kenv \<Rightarrow> pt_regs \<Rightarrow> rmaps \<Rightarrow> rmaps" where
  "call_through P off K ctx K' ctx' s =
     (let (E, R) = P;
          s = (if off \<in> E then up_all K ctx s else s)
      in if off \<in> R then up_ret K' ctx' s else s)"

lemma attach_states_ends:
  "(set offs, {}) \<in> set (attach_states offs rets)" "last (attach_states offs rets) = (set offs, set rets)"
  by (force simp: attach_states_def) (simp add: attach_states_def)

text \<open>
  C31. Calls made while the probes are being attached are lost to the pairing: \<^verbatim>\<open>hasret\<close> is filled
  and every entry probe is attached before the first return probe, so there is a state of the attachment
  in which a tracked call raises the depth of its thread and nothing lowers it again; with all probes
  attached the same call leaves the depth as it was.
\<close>

theorem attach_window_shifts_depth:
  assumes "tracked s ctx" and "off \<in> set offs" and "off \<in> set rets"
    and "rb_mem K \<noteq> None" and "rb_mem K' \<noteq> None" and "cur_tid K' = cur_tid K"
    and "hash_contract (max_entries depth_map) (map_accepts K)" and "hash_contract (max_entries depth_map) (map_accepts K')"
    and "card (dom (depth s)) < max_entries depth_map" and "unat (depth_of (depth s) (cur_tid K)) < 2 ^ 32 - 1"
  shows "\<exists>P \<in> set (attach_states offs rets).
      unat (depth_of (depth (call_through P off K ctx K' ctx' s)) (cur_tid K)) =
        unat (depth_of (depth s) (cur_tid K)) + 1 \<and>
    depth_of (depth (call_through (last (attach_states offs rets)) off K ctx K' ctx' s)) (cur_tid K) =
      depth_of (depth s) (cur_tid K)"
proof -
  let ?t = "cur_tid K" and ?d = "depth_of (depth s) (cur_tid K)"
  have acc: "map_accepts K (dom (depth s)) ?t" using assms(7,9) by (simp add: hash_contract_def)
  have ent: "depth (up_all K ctx s) = (depth s)(?t \<mapsto> ?d + 1)"
    using assms(1,4) acc by (simp add: up_all_depth depth_enter_def Let_def hash_update_def)
  have up: "unat (?d + 1) = unat ?d + 1" using assms(10) by (simp add: unat_word_ariths)
  then have pos: "0 < ?d + 1" by (metis add_gr_0 less_one unat_gt_0 word_neq_0_conv)
  have "map_accepts K' (dom (depth (up_all K ctx s))) ?t"
    using assms(8) by (simp add: hash_contract_def ent)
  then have ret: "depth_of (depth (up_ret K' ctx' (up_all K ctx s))) ?t = ?d"
    using assms(5,6) pos by (simp add: up_ret_depth depth_leave_def Let_def hash_update_def ent depth_of_def [of "_(_ \<mapsto> _)"])
  have "unat (depth_of (depth (call_through (set offs, {}) off K ctx K' ctx' s)) ?t) = unat ?d + 1"
    using assms(2) up by (simp add: call_through_def ent depth_of_def [of "_(_ \<mapsto> _)"])
  moreover have "depth_of (depth (call_through (set offs, set rets) off K ctx K' ctx' s)) ?t = ?d"
    using assms(2,3) ret by (simp add: call_through_def)
  ultimately show ?thesis using attach_states_ends [of offs rets] by (intro bexI [of _ "(set offs, {})"]) simp_all
qed


theorem attach_window_shifts_depth_witness:
  "\<exists>P \<in> set (attach_states [16] [16]).
     depth_of (depth (call_through P 16 bounded_env demo_call_regs bounded_env demo_call_regs demo_maps)) 9 \<noteq>
     depth_of (depth (call_through (last (attach_states [16] [16])) 16 bounded_env demo_call_regs
       bounded_env demo_call_regs demo_maps)) 9"
proof -
  have d: "depth demo_maps = Map.empty" by (simp add: demo_maps_def)
  have e: "rb_mem bounded_env \<noteq> None" "cur_tid bounded_env = 9"
    "hash_contract (max_entries depth_map) (map_accepts bounded_env)"
    by (simp_all add: bounded_env_def demo_in_def demo_env_def hash_contract_def)
  have "0 < max_entries depth_map" by (simp add: depth_map_def)
  then obtain P where P: "P \<in> set (attach_states [16] [16])"
    "unat (depth_of (depth (call_through P 16 bounded_env demo_call_regs bounded_env demo_call_regs demo_maps)) 9) = 1"
    "depth_of (depth (call_through (last (attach_states [16] [16])) 16 bounded_env demo_call_regs
       bounded_env demo_call_regs demo_maps)) 9 = 0"
    using attach_window_shifts_depth [OF demo_tracked, of 16 "[16]" "[16]" bounded_env bounded_env demo_call_regs] d e
    by (auto simp: depth_of_def [of Map.empty])
  then show ?thesis by (intro bexI [of _ P]) auto
qed

end
