(* ===== verification/Flags.thy ===== *)
theory Flags
  imports OffsetFacts Filters
begin

text \<open>
  The command line, \<^verbatim>\<open>loader/main.go\<close>: the table of flags of \<^verbatim>\<open>parseFlags\<close>, what Go's
  package \<^verbatim>\<open>flag\<close> does with it (\<^verbatim>\<open>FlagSet.Parse\<close> with \<^verbatim>\<open>ExitOnError\<close>), the choice
  of a command in \<^verbatim>\<open>main\<close>, and the command \<^verbatim>\<open>dump\<close> of \<^verbatim>\<open>loader/target.go\<close>. The texts
  of usage and error messages are not modelled, only the exit codes.
\<close>

section \<open>Values of flags\<close>

text \<open>\<^verbatim>\<open>strconv.ParseInt(s, 0, 64)\<close> and \<^verbatim>\<open>strconv.ParseBool\<close>.\<close>

definition parseInt0 :: "string \<Rightarrow> int option" where
  "parseInt0 s =
     (let (neg, ds) = (case s of [] \<Rightarrow> (False, [])
        | c # cs \<Rightarrow> if c = CHR ''-'' then (True, cs) else if c = CHR ''+'' then (False, cs) else (False, s))
      in (case parseUint0 ds of None \<Rightarrow> None
        | Some w \<Rightarrow>
            if neg then (if unat w \<le> 2 ^ 63 then Some (- int (unat w)) else None)
            else (if unat w < 2 ^ 63 then Some (int (unat w)) else None)))"

definition parseBool :: "string \<Rightarrow> bool option" where
  "parseBool s =
     (if s \<in> set [''1'', ''t'', ''T'', ''TRUE'', ''true'', ''True''] then Some True
      else if s \<in> set [''0'', ''f'', ''F'', ''FALSE'', ''false'', ''False''] then Some False
      else None)"

section \<open>The flags of the program\<close>

datatype flag_var =
    IntVar "int \<Rightarrow> config \<Rightarrow> config"
  | StringVar "string \<Rightarrow> config \<Rightarrow> config"
  | BoolVar "bool \<Rightarrow> config \<Rightarrow> config"

definition libartDefault :: string where
  "libartDefault = ''/apex/com.android.art/lib64/libart.so''"

text \<open>The registrations, in order.\<close>

definition flag_table :: "(string \<times> flag_var) list" where
  "flag_table =
     [(''p'', IntVar (\<lambda>v c. c\<lparr>c_pid := v\<rparr>)), (''pid'', IntVar (\<lambda>v c. c\<lparr>c_pid := v\<rparr>)),
      (''n'', StringVar (\<lambda>v c. c\<lparr>c_name := v\<rparr>)), (''name'', StringVar (\<lambda>v c. c\<lparr>c_name := v\<rparr>)),
      (''run'', IntVar (\<lambda>v c. c\<lparr>c_runSec := v\<rparr>)),
      (''offsets'', StringVar (\<lambda>v c. c\<lparr>c_offsets := v\<rparr>)),
      (''libart'', StringVar (\<lambda>v c. c\<lparr>c_libart := v\<rparr>)),
      (''m'', StringVar (\<lambda>v c. c\<lparr>c_modes := v\<rparr>)), (''mode'', StringVar (\<lambda>v c. c\<lparr>c_modes := v\<rparr>)),
      (''only'', StringVar (\<lambda>v c. c\<lparr>c_only := v\<rparr>)),
      (''exclude'', StringVar (\<lambda>v c. c\<lparr>c_exclude := v\<rparr>)),
      (''no-returns'', BoolVar (\<lambda>v c. c\<lparr>c_noReturns := v\<rparr>)),
      (''max-depth'', IntVar (\<lambda>v c. c\<lparr>c_maxDepth := v\<rparr>)),
      (''g'', StringVar (\<lambda>v c. c\<lparr>c_grep := v\<rparr>)), (''grep'', StringVar (\<lambda>v c. c\<lparr>c_grep := v\<rparr>)),
      (''class'', StringVar (\<lambda>v c. c\<lparr>c_classRe := v\<rparr>)),
      (''method'', StringVar (\<lambda>v c. c\<lparr>c_methodRe := v\<rparr>)),
      (''from'', StringVar (\<lambda>v c. c\<lparr>c_from := v\<rparr>)),
      (''tid'', IntVar (\<lambda>v c. c\<lparr>c_tid := v\<rparr>)),
      (''v'', BoolVar (\<lambda>v c. c\<lparr>c_verbose := v\<rparr>)), (''verbose'', BoolVar (\<lambda>v c. c\<lparr>c_verbose := v\<rparr>)),
      (''count'', BoolVar (\<lambda>v c. c\<lparr>c_count := v\<rparr>)),
      (''json'', BoolVar (\<lambda>v c. c\<lparr>c_jsonOut := v\<rparr>)),
      (''no-color'', BoolVar (\<lambda>v c. c\<lparr>c_noColor := v\<rparr>)),
      (''S'', BoolVar (\<lambda>v c. c\<lparr>c_stack := v\<rparr>)), (''stack'', BoolVar (\<lambda>v c. c\<lparr>c_stack := v\<rparr>))]"

text \<open>The configuration after the registrations: the zero value with the defaults.\<close>

definition default_config :: config where
  "default_config = \<lparr>c_pid = 0, c_name = '''', c_runSec = 0, c_offsets = ''auto'',
     c_libart = libartDefault, c_modes = ''all'', c_only = '''', c_exclude = '''', c_noReturns = False,
     c_maxDepth = 0, c_grep = '''', c_classRe = '''', c_methodRe = '''', c_from = '''', c_tid = 0,
     c_verbose = False, c_count = False, c_jsonOut = False, c_noColor = False, c_stack = False\<rparr>"

section \<open>Parsing\<close>

text \<open>
  The end of \<^verbatim>\<open>Parse\<close>: the configuration with the arguments that are left, or the exit code of the
  process (0 after a request for help, 2 after an error).
\<close>

datatype parse_end = Parsed config "string list" | Exit nat

definition set_flag :: "flag_var \<Rightarrow> string \<Rightarrow> config \<Rightarrow> config option" where
  "set_flag k v c =
     (case k of
        IntVar f \<Rightarrow> map_option (\<lambda>i. f i c) (parseInt0 v)
      | StringVar f \<Rightarrow> Some (f v c)
      | BoolVar f \<Rightarrow> map_option (\<lambda>b. f b c) (parseBool v))"

text \<open>The name of a flag and the value behind an equals sign; the sign cannot come first.\<close>

definition split_value :: "string \<Rightarrow> string \<times> string option" where
  "split_value nm =
     (case indexByte (tl nm) (CHR ''='') of None \<Rightarrow> (nm, None)
      | Some i \<Rightarrow> (take (Suc i) nm, Some (drop (Suc (Suc i)) nm)))"

definition flag_text :: "string \<Rightarrow> string" where
  "flag_text s = (if s ! 1 = CHR ''-'' then drop 2 s else drop 1 s)"

fun parse_args :: "string list \<Rightarrow> config \<Rightarrow> parse_end" where
  "parse_args [] c = Parsed c []"
| "parse_args (s # args) c =
     (if length s < 2 \<or> hd s \<noteq> CHR ''-'' then Parsed c (s # args)
      else if s = ''--'' then Parsed c args
      else if flag_text s = [] \<or> hd (flag_text s) = CHR ''-'' \<or> hd (flag_text s) = CHR ''='' then Exit 2
      else (case split_value (flag_text s) of (nm, value) \<Rightarrow>
        (case map_of flag_table nm of
           None \<Rightarrow> if nm = ''help'' \<or> nm = ''h'' then Exit 0 else Exit 2
         | Some k \<Rightarrow>
             (case value of
                Some v \<Rightarrow> (case set_flag k v c of None \<Rightarrow> Exit 2 | Some c' \<Rightarrow> parse_args args c')
              | None \<Rightarrow>
                  (case k of
                     BoolVar f \<Rightarrow> parse_args args (f True c)
                   | _ \<Rightarrow>
                       (case args of [] \<Rightarrow> Exit 2
                        | v # args' \<Rightarrow>
                            (case set_flag k v c of None \<Rightarrow> Exit 2 | Some c' \<Rightarrow> parse_args args' c')))))))"

definition parseFlags :: "string list \<Rightarrow> parse_end" where
  "parseFlags args = parse_args args default_config"

text \<open>\<^verbatim>\<open>main\<close>: which command runs, or the exit code of the flag parser. What the parser leaves is ignored.\<close>

datatype command = RunEnv | RunDump "string list" | RunProbe config | ExitCode nat

definition main_command :: "string list \<Rightarrow> command" where
  "main_command args =
     (if args \<noteq> [] \<and> hd args = ''env'' then RunEnv
      else if args \<noteq> [] \<and> hd args = ''dump'' then RunDump args
      else (case parseFlags args of Parsed c rest \<Rightarrow> RunProbe c | Exit n \<Rightarrow> ExitCode n))"

section \<open>The memory peeker\<close>

text \<open>\<^verbatim>\<open>strconv.Atoi\<close> with its error dropped: 0 for text that is not a number, the nearest end of
  the range on overflow.\<close>

definition atoi_value :: "string \<Rightarrow> int" where
  "atoi_value s =
     (case atoi s of Some n \<Rightarrow> n
      | None \<Rightarrow>
          (let neg = (s \<noteq> [] \<and> hd s = CHR ''-'');
               ds = (if s \<noteq> [] \<and> (hd s = CHR ''-'' \<or> hd s = CHR ''+'') then tl s else s)
           in if ds = [] \<or> dec_from 0 ds = None then 0 else if neg then - (2 ^ 63) else 2 ^ 63 - 1))"

definition dump_line :: "mem \<Rightarrow> u64 \<Rightarrow> nat \<Rightarrow> string" where
  "dump_line m addr i =
     (let (v, ok) = mr_u64 m (addr + word_of_nat i * 8) in
      ''  +0x'' @ pad_left (CHR ''0'') 3 (radix 16 (i * 8)) @ '' '' @ pad_left (CHR ''0'') 16 (fmt_hex v) @ '' '' @
        (if ok then ''*'' else '' ''))"

text \<open>The lines printed, or the exit code.\<close>

definition runDump :: "(int \<Rightarrow> memReader) \<Rightarrow> string list \<Rightarrow> nat + string list" where
  "runDump openMem args =
     (if length args < 3 then Inl 2
      else (let dpid = atoi_value (args ! 1);
                addr = parseHex (if hasPrefix (args ! 2) ''0x'' then drop 2 (args ! 2) else args ! 2);
                words = (if length args \<ge> 4 then atoi_value (args ! 3) else 16)
            in (case openMem dpid of None \<Rightarrow> Inl 1
                | Some m \<Rightarrow> Inr (map (dump_line m addr) [0..<nat words]))))"

section \<open>Printed numbers as values of flags\<close>

lemma radix_hd_pos: "0 < n \<Longrightarrow> hd (radix 10 n) \<noteq> CHR ''0''"
proof (induction "10 :: nat" n rule: radix.induct)
  case (1 n)
  show ?case
  proof (cases "n < 10")
    case True
    then have "radix 10 n = [digit_char n]" by (subst radix.simps) simp
    moreover have "(of_char (digit_char n) :: nat) = 48 + n" using digit_char_val(4) True by simp
    then have "digit_char n \<noteq> CHR ''0''" using 1(2) by (auto dest: arg_cong [of _ _ "of_char :: char \<Rightarrow> nat"])
    ultimately show ?thesis by simp
  next
    case False
    then have "radix 10 n = radix 10 (n div 10) @ [digit_char (n mod 10)]" by (subst radix.simps) simp
    with False 1 show ?thesis by simp
  qed
qed

lemma radix_no_underscore: "CHR ''_'' \<notin> set (radix 10 n)"
proof
  assume "CHR ''_'' \<in> set (radix 10 n)"
  then obtain d where "d < 10" "CHR ''_'' = digit_char d" using radix_digits [of 10 n] by auto
  then show False using digit_char_val(2) [of d] by simp
qed

lemma uint_from_radix10: "n < 2 ^ 64 \<Longrightarrow> uint_from 10 0 (radix 10 n) = Some n"
proof (induction "10 :: nat" n rule: radix.induct)
  case (1 n)
  show ?case
  proof (cases "n < 10")
    case True
    then show ?thesis by (subst radix.simps) (simp add: digit_char_val)
  next
    case False
    then have "radix 10 n = radix 10 (n div 10) @ [digit_char (n mod 10)]" by (subst radix.simps) simp
    moreover have "uint_from 10 0 (radix 10 (n div 10)) = Some (n div 10)" using 1 False by simp
    ultimately show ?thesis using 1(2) by (simp add: uint_from_append digit_char_val)
  qed
qed

lemma parseUint0_radix: "n < 2 ^ 64 \<Longrightarrow> parseUint0 (radix 10 n) = Some (word_of_nat n)"
proof (cases "n = 0")
  case True
  have "radix 10 0 = ''0''" by (simp add: radix.simps digit_char_def)
  with True show ?thesis by (simp add: parseUint0_def base_of_def)
next
  case False
  assume "n < 2 ^ 64"
  obtain c cs where cs: "radix 10 n = c # cs" by (cases "radix 10 n") auto
  then have "c \<noteq> CHR ''0''" using radix_hd_pos [of n] False by simp
  then have "base_of (radix 10 n) = (10, False, radix 10 n)" by (simp add: base_of_def cs)
  with uint_from_radix10 [OF \<open>n < 2 ^ 64\<close>] underscores_plain [OF radix_no_underscore]
  show ?thesis by (simp add: parseUint0_def)
qed

lemma radix_hd_digit: "hd (radix 10 n) \<noteq> CHR ''-'' \<and> hd (radix 10 n) \<noteq> CHR ''+''"
proof -
  obtain d where d: "d < 10" "hd (radix 10 n) = digit_char d" using radix_hd [of 10 n] by auto
  then have "(of_char (digit_char d) :: nat) = 48 + d" using digit_char_val(4) by simp
  with d show ?thesis by (auto dest: arg_cong [of _ _ "of_char :: char \<Rightarrow> nat"])
qed

lemma parseInt0_fmt_dec: "- (2 ^ 63) \<le> i \<Longrightarrow> i < 2 ^ 63 \<Longrightarrow> parseInt0 (fmt_dec i) = Some i"
proof (cases "i < 0")
  case True
  assume "- (2 ^ 63) \<le> i"
  then have n: "nat (- i) \<le> 2 ^ 63" by simp
  then have "unat (word_of_nat (nat (- i)) :: u64) = nat (- i)" by (simp add: unat_of_nat)
  with True n show ?thesis
    using parseUint0_radix [of "nat (- i)"] by (simp add: parseInt0_def fmt_dec_def)
next
  case False
  assume "i < 2 ^ 63"
  with False have n: "nat i < 2 ^ 63" by simp
  then have u: "unat (word_of_nat (nat i) :: u64) = nat i" by (simp add: unat_of_nat)
  obtain c cs where cs: "radix 10 (nat i) = c # cs" by (cases "radix 10 (nat i)") auto
  then have "c \<noteq> CHR ''-''" "c \<noteq> CHR ''+''" using radix_hd_digit [of "nat i"] by simp_all
  with False n u cs parseUint0_radix [of "nat i"] show ?thesis
    by (simp add: parseInt0_def fmt_dec_def)
qed

lemma parseBool_fmt: "parseBool (fmt_bool b) = Some b"
  by (cases b) (simp_all add: parseBool_def fmt_bool_def)

section \<open>Writing a command line\<close>

text \<open>
  A setting as arguments: with one or two dashes, and with the value behind an equals sign or as the next
  argument. A setting list is what a command line says, in order.
\<close>

definition arg_form :: "bool \<times> bool \<Rightarrow> string \<Rightarrow> string \<Rightarrow> string list" where
  "arg_form st nm v =
     (let d = (if fst st then ''--'' else ''-'') in if snd st then [d @ nm @ ''='' @ v] else [d @ nm, v])"

fun run_settings :: "(string \<times> string) list \<Rightarrow> config \<Rightarrow> config option" where
  "run_settings [] c = Some c"
| "run_settings ((nm, v) # kvs) c =
     (case map_of flag_table nm of None \<Rightarrow> None
      | Some k \<Rightarrow> (case set_flag k v c of None \<Rightarrow> None | Some c' \<Rightarrow> run_settings kvs c'))"

definition style_ok :: "(string \<Rightarrow> bool \<times> bool) \<Rightarrow> bool" where
  "style_ok style = (\<forall>nm f. map_of flag_table nm = Some (BoolVar f) \<longrightarrow> snd (style nm))"

lemma flag_names:
  assumes "map_of flag_table nm = Some k"
  shows "nm \<noteq> []" "hd nm \<noteq> CHR ''-''" "hd nm \<noteq> CHR ''=''" "CHR ''='' \<notin> set nm"
proof -
  have "list_all (\<lambda>nm. nm \<noteq> [] \<and> hd nm \<noteq> CHR ''-'' \<and> hd nm \<noteq> CHR ''='' \<and> CHR ''='' \<notin> set nm) (map fst flag_table)"
    by (simp add: flag_table_def)
  moreover have "nm \<in> set (map fst flag_table)" using map_of_SomeD [OF assms] by force
  ultimately show "nm \<noteq> []" "hd nm \<noteq> CHR ''-''" "hd nm \<noteq> CHR ''=''" "CHR ''='' \<notin> set nm"
    by (auto simp only: list_all_iff)
qed

lemma split_value_plain: "CHR ''='' \<notin> set nm \<Longrightarrow> split_value nm = (nm, None)"
  by (cases nm) (auto simp: split_value_def split: option.split dest: indexByte_Some)

lemma split_value_eq:
  assumes "nm \<noteq> []" and "CHR ''='' \<notin> set nm"
  shows "split_value (nm @ CHR ''='' # v) = (nm, Some v)"
proof -
  obtain a as where "nm = a # as" using assms(1) by (cases nm) auto
  with assms(2) indexByte_append [of "CHR ''=''" as v] show ?thesis
    by (simp add: split_value_def)
qed

text \<open>What the parser makes of a dash or two before a text that starts like a name.\<close>

lemma parse_dashes:
  assumes "t \<noteq> []" "hd t \<noteq> CHR ''-''" and "d = ''-'' \<or> d = ''--''"
  shows "\<not> (length (d @ t) < 2 \<or> hd (d @ t) \<noteq> CHR ''-'')" "d @ t \<noteq> ''--''" "flag_text (d @ t) = t"
  using assms by (cases t; auto simp: flag_text_def)+

lemma parse_setting:
  assumes k: "map_of flag_table nm = Some k" and v: "set_flag k v c = Some c'"
    and st: "snd st \<or> (\<forall>f. k \<noteq> BoolVar f)"
  shows "parse_args (arg_form st nm v @ rest) c = parse_args rest c'"
proof -
  note n = flag_names [OF k]
  define d where "d = (if fst st then ''--'' else ''-'')"
  have d: "d = ''-'' \<or> d = ''--''" by (simp add: d_def)
  show ?thesis
  proof (cases "snd st")
    case True
    let ?t = "nm @ CHR ''='' # v"
    have t: "?t \<noteq> []" "hd ?t \<noteq> CHR ''-''" "hd ?t \<noteq> CHR ''=''" using n by simp_all
    have "arg_form st nm v @ rest = (d @ ?t) # rest" using True by (simp add: arg_form_def d_def Let_def)
    with parse_dashes [OF t(1,2) d] t split_value_eq [OF n(1,4)] k v show ?thesis
      by (simp only: parse_args.simps if_False simp_thms prod.case option.case append_Cons append_Nil)
  next
    case False
    with st have nb: "\<forall>f. k \<noteq> BoolVar f" by simp
    have "arg_form st nm v @ rest = (d @ nm) # v # rest" using False by (simp add: arg_form_def d_def Let_def)
    with parse_dashes [OF n(1,2) d] n(1,2,3) split_value_plain [OF n(4)] k v nb show ?thesis
      by (cases k) (simp_all only: parse_args.simps if_False simp_thms prod.case option.case list.case flag_var.case, simp_all)
  qed
qed

lemma parse_settings:
  assumes "style_ok style"
  shows "run_settings kvs c = Some c' \<Longrightarrow>
    parse_args (concat (map (\<lambda>(nm, v). arg_form (style nm) nm v) kvs) @ rest) c = parse_args rest c'"
proof (induction kvs arbitrary: c)
  case (Cons kv kvs)
  obtain nm v where kv: "kv = (nm, v)" by (cases kv)
  with Cons.prems obtain k c1 where k: "map_of flag_table nm = Some k" "set_flag k v c = Some c1"
    and r: "run_settings kvs c1 = Some c'" by (auto split: option.splits)
  have "snd (style nm) \<or> (\<forall>f. k \<noteq> BoolVar f)" using assms k(1) by (auto simp: style_ok_def)
  from parse_setting [OF k this] Cons.IH [OF r] show ?case by (simp add: kv)
qed simp

section \<open>The command line of a configuration\<close>

text \<open>
  The settings that say a whole configuration, one per field of the record; \<^term>\<open>other\<close> says for
  which fields the second name of the flag is used.
\<close>

definition settings :: "(string \<Rightarrow> bool) \<Rightarrow> config \<Rightarrow> (string \<times> string) list" where
  "settings other c =
     [(if other ''p'' then ''pid'' else ''p'', fmt_dec (c_pid c)),
      (if other ''n'' then ''name'' else ''n'', c_name c),
      (''run'', fmt_dec (c_runSec c)),
      (''offsets'', c_offsets c),
      (''libart'', c_libart c),
      (if other ''m'' then ''mode'' else ''m'', c_modes c),
      (''only'', c_only c),
      (''exclude'', c_exclude c),
      (''no-returns'', fmt_bool (c_noReturns c)),
      (''max-depth'', fmt_dec (c_maxDepth c)),
      (if other ''g'' then ''grep'' else ''g'', c_grep c),
      (''class'', c_classRe c),
      (''method'', c_methodRe c),
      (''from'', c_from c),
      (''tid'', fmt_dec (c_tid c)),
      (if other ''v'' then ''verbose'' else ''v'', fmt_bool (c_verbose c)),
      (''count'', fmt_bool (c_count c)),
      (''json'', fmt_bool (c_jsonOut c)),
      (''no-color'', fmt_bool (c_noColor c)),
      (if other ''S'' then ''stack'' else ''S'', fmt_bool (c_stack c))]"

definition command_line :: "(string \<Rightarrow> bool \<times> bool) \<Rightarrow> (string \<Rightarrow> bool) \<Rightarrow> config \<Rightarrow> string list" where
  "command_line style other c = concat (map (\<lambda>(nm, v). arg_form (style nm) nm v) (settings other c))"

definition int_flag :: "int \<Rightarrow> bool" where
  "int_flag i = (- (2 ^ 63) \<le> i \<and> i < 2 ^ 63)"

definition int_flags_ok :: "config \<Rightarrow> bool" where
  "int_flags_ok c = (int_flag (c_pid c) \<and> int_flag (c_runSec c) \<and> int_flag (c_maxDepth c) \<and> int_flag (c_tid c))"

lemma set_flag_printed:
  "int_flag i \<Longrightarrow> set_flag (IntVar f) (fmt_dec i) c = Some (f i c)"
  "set_flag (StringVar g) v c = Some (g v c)"
  "set_flag (BoolVar h) (fmt_bool b) c = Some (h b c)"
  by (simp_all add: set_flag_def int_flag_def parseInt0_fmt_dec parseBool_fmt)

lemma settings_say_all:
  assumes "int_flags_ok c"
  shows "run_settings (settings other c) c0 = Some c"
proof -
  have "int_flag (c_pid c)" "int_flag (c_runSec c)" "int_flag (c_maxDepth c)" "int_flag (c_tid c)"
    using assms by (simp_all add: int_flags_ok_def)
  then show ?thesis
    by (simp add: settings_def flag_table_def set_flag_printed if_distrib [of "map_of _"])
qed

lemma command_line_not_command:
  "command_line style other c \<noteq> [] \<and> hd (command_line style other c) \<noteq> ''env'' \<and>
   hd (command_line style other c) \<noteq> ''dump''"
  by (simp add: command_line_def settings_def arg_form_def Let_def)

text \<open>
  C21. Every configuration can be said on the command line, in many ways: with one or two dashes, with the
  value in the same argument or the next (switches need the same argument), with either name of a flag
  that has two. \<^verbatim>\<open>main\<close> then runs the tracer with exactly that configuration.
\<close>

theorem command_line_round_trip:
  assumes "style_ok style" and "int_flags_ok c"
  shows "main_command (command_line style other c) = RunProbe c"
proof -
  have "parse_args (command_line style other c @ []) default_config = parse_args [] c"
    unfolding command_line_def by (rule parse_settings [OF assms(1) settings_say_all [OF assms(2)]])
  with command_line_not_command [of style other c] show ?thesis
    by (simp add: main_command_def parseFlags_def)
qed

definition demo_config :: config where
  "demo_config = default_config\<lparr>c_pid := 4711, c_modes := ''call,new'', c_maxDepth := -3, c_count := True\<rparr>"

definition demo_style :: "string \<Rightarrow> bool \<times> bool" where
  "demo_style nm = (1 < length nm, nm \<noteq> ''p'' \<and> nm \<noteq> ''m'' \<and> nm \<noteq> ''only'')"

lemma demo_style_ok: "style_ok demo_style"
  by (auto simp: style_ok_def demo_style_def flag_table_def split: if_splits)

theorem command_line_round_trip_witness:
  "main_command (command_line demo_style (\<lambda>nm. nm = ''S'') demo_config) = RunProbe demo_config"
  by (rule command_line_round_trip [OF demo_style_ok])
    (simp add: int_flags_ok_def int_flag_def demo_config_def default_config_def)

end
