(* ===== verification/Output.thy ===== *)
theory Output
  imports Trace "HOL-Library.Sublist" "HOL-Library.Multiset"
begin

text \<open>
  What the loader prints. Two tracers with the same core (everything but the printed lines, the counts,
  the flag \<^verbatim>\<open>count\<close> and the filters on lines) stay so on the same inputs, and an event prints
  at most one line, which the core determines, with its stack behind it. From this follow the statistics
  of the mode \<^verbatim>\<open>count\<close> and the effect of the filters on lines.
\<close>

section \<open>The core of the tracer\<close>

definition line_free :: "filters \<Rightarrow> filters" where
  "line_free f = f\<lparr>grep := [], classRe := None, methodRe := None, from_mods := []\<rparr>"

definition core :: "tracer \<Rightarrow> tracer" where
  "core T = T\<lparr>t_conf := (t_conf T)\<lparr>c_count := False\<rparr>, t_filters := line_free (t_filters T),
     counts := [], out_lines := []\<rparr>"

lemma matchSlot_line_free [simp]: "matchSlot (line_free f) slot = matchSlot f slot"
  by (simp add: matchSlot_def line_free_def)

lemma core_reads [simp]:
  "t_base (core T) = t_base T" "t_offsets (core T) = t_offsets T" "t_callSet (core T) = t_callSet T"
  "t_retSet (core T) = t_retSet T" "t_mods (core T) = t_mods T" "t_caches (core T) = t_caches T"
  "frames (core T) = frames T" "t_total (core T) = t_total T" "t_exited (core T) = t_exited T"
  "t_filters (core T) = line_free (t_filters T)" "t_conf (core T) = (t_conf T)\<lparr>c_count := False\<rparr>"
  "counts (core T) = []" "out_lines (core T) = []"
  by (simp_all add: core_def)

lemma core_writes [simp]:
  "core (T\<lparr>t_mods := m\<rparr>) = (core T)\<lparr>t_mods := m\<rparr>" "core (T\<lparr>t_caches := cs\<rparr>) = (core T)\<lparr>t_caches := cs\<rparr>"
  "core (T\<lparr>frames := fs\<rparr>) = (core T)\<lparr>frames := fs\<rparr>" "core (T\<lparr>t_total := n\<rparr>) = (core T)\<lparr>t_total := n\<rparr>"
  "core (T\<lparr>out_lines := l\<rparr>) = core T" "core (T\<lparr>counts := x\<rparr>) = core T"
  "core (T\<lparr>t_filters := f, t_exited := b\<rparr>) = (core T)\<lparr>t_filters := line_free f, t_exited := b\<rparr>"
  by (simp_all add: core_def)

lemma line_free_idem [simp]: "line_free (line_free f) = line_free f"
  by (simp add: line_free_def)

lemma core_idem [simp]: "core (core T) = core T"
  by (simp add: core_def)

lemma too_deep_count [simp]: "too_deep (c\<lparr>c_count := b\<rparr>) d = too_deep c d"
  by (simp add: too_deep_def)

lemma core_emit [simp]: "core (emit F l T) = core T"
  by (simp add: emit_def)

lemma core_printStack [simp]: "core (printStack H ind sid lr T) = core T"
  by (simp add: printStack_def Let_def split: option.split)

lemma core_push_frame [simp]: "core (push_frame H e slot cl T) = push_frame H e slot cl (core T)"
  by (simp add: push_frame_def Let_def)

lemma core_set_frame_call [simp]: "core (set_frame_call key call T) = set_frame_call key call (core T)"
  by (simp add: set_frame_call_def split: option.split)

lemma core_call_entry:
  "core (call_entry H e nm cl T) = set_frame_call (Tid e, Depth e)
     (fst (describeCall (h_fmt H) e nm (t_caches T) (h_mem H))) (core T)"
  by (simp add: call_entry_def Let_def split: prod.split)

lemma core_plain_entry [simp]: "core (plain_entry H e slot cl T) = core T"
  by (simp add: plain_entry_def Let_def)

lemma reads_push_frame [simp]:
  "t_filters (push_frame H e slot cl T) = t_filters T" "t_conf (push_frame H e slot cl T) = t_conf T"
  "t_caches (push_frame H e slot cl T) = t_caches T" "t_mods (push_frame H e slot cl T) = t_mods T"
  "counts (push_frame H e slot cl T) = counts T" "out_lines (push_frame H e slot cl T) = out_lines T"
  by (simp_all add: push_frame_def Let_def)

lemma reads_set_frame_call [simp]:
  "t_filters (set_frame_call key call T) = t_filters T" "t_conf (set_frame_call key call T) = t_conf T"
  "t_caches (set_frame_call key call T) = t_caches T" "t_mods (set_frame_call key call T) = t_mods T"
  "counts (set_frame_call key call T) = counts T" "out_lines (set_frame_call key call T) = out_lines T"
  by (simp_all add: set_frame_call_def split: option.split)

lemma core_handleEntry: "core (handleEntry H e T) = core (handleEntry H e (core T))"
  by (simp add: handleEntry_def core_call_entry Let_def split: option.split prod.split)

lemma core_handleReturn: "core (handleReturn H e T) = core (handleReturn H e (core T))"
  by (simp add: handleReturn_def Let_def split: option.split prod.split)

lemma core_on_event: "core (on_event H e T) = core (on_event H e (core T))"
  by (simp add: on_event_def Let_def core_handleReturn [of H e "T\<lparr>t_total := t_total T + 1\<rparr>"]
      core_handleEntry [of H e "T\<lparr>t_total := t_total T + 1\<rparr>"])

lemma core_command:
  "line_free (fst (applyCommand f line)) = line_free (fst (applyCommand (line_free f) line))"
  "snd (applyCommand (line_free f) line) = snd (applyCommand f line)"
  by (simp_all add: applyCommand_def line_free_def Let_def split: list.split)

lemma core_on_sample: "core (on_sample H raw T) = core (on_sample H raw (core T))"
proof (cases "binary_Read raw")
  case (Some e)
  then show ?thesis unfolding on_sample_def by (simp only: option.case) (rule core_on_event)
qed (simp add: on_sample_def)

lemma core_on_input: "core (on_input H i T) = core (on_input H i (core T))"
proof (cases "t_exited T")
  case False
  show ?thesis
  proof (cases i)
    case (Sample raw)
    with False show ?thesis by (simp add: on_input_def core_on_sample [symmetric])
  next
    case (Typed ln)
    with False show ?thesis
      using core_command [of "t_filters T" "trimSpace ln"] by (simp add: on_input_def Let_def case_prod_unfold)
  next
    case Reload
    with False show ?thesis by (simp add: on_input_def)
  qed
qed (simp add: on_input_def)

lemma same_core_on_input: "core T = core T' \<Longrightarrow> core (on_input H i T) = core (on_input H i T')"
  by (rule trans [OF core_on_input trans [OF _ core_on_input [symmetric]]]) (erule arg_cong)

lemma run_tracer_simps [simp]:
  "run_tracer [] T = T" "run_tracer ((H, i) # his) T = run_tracer his (on_input H i T)"
  by (simp_all add: run_tracer_def)

lemma same_core_run: "core T = core T' \<Longrightarrow> core (run_tracer his T) = core (run_tracer his T')"
proof (induction his arbitrary: T T')
  case (Cons hi his)
  obtain H i where hi: "hi = (H, i)" by (cases hi)
  show ?case unfolding hi run_tracer_simps by (rule Cons.IH, rule same_core_on_input, rule Cons.prems)
qed simp

section \<open>The line of an event\<close>

text \<open>
  What an event offers for printing: class and method for the filters, the text they search, the module
  of the caller, the line, and the lines of the stack that go with it.
\<close>

type_synonym offer = "string \<times> string \<times> string \<times> string \<times> string \<times> string list"

definition stack_text :: "host \<Rightarrow> reconEvt \<Rightarrow> config \<Rightarrow> modCache \<Rightarrow> string list" where
  "stack_text H e c mc =
     (case (if c_stack c \<and> 0 \<le> sint (Stackid e)
        then (case h_stack H of None \<Rightarrow> None | Some st \<Rightarrow> st (Stackid e)) else None) of None \<Rightarrow> []
      | Some buf \<Rightarrow> map (\<lambda>n. stack_line mc (indentStr (Depth e)) n (stack_frames buf (Caller e) ! n))
          [0..<length (stack_frames buf (Caller e))])"

definition return_offer :: "host \<Rightarrow> reconEvt \<Rightarrow> tracer \<Rightarrow> frame \<Rightarrow> offer option" where
  "return_offer H e T fr =
     (if matchSlot (t_filters T) (fr_slot fr) \<and> fr_call fr \<noteq> '''' \<and> \<not> too_deep (t_conf T) (Depth e) then
        (let ret = fmtRet (h_fmt H) (feed_caches (h_mem H) fr (Rc e) (t_caches T)) (h_mem H) (slotRet (fr_slot fr)) (Rc e)
         in Some (fst (splitClassMethod (fr_call fr)), snd (splitClassMethod (fr_call fr)), fr_call fr @ ret,
              fr_caller fr, return_line H fr e ret, []))
      else None)"

definition entry_offer :: "host \<Rightarrow> reconEvt \<Rightarrow> tracer \<Rightarrow> int \<Rightarrow> offer option" where
  "entry_offer H e T slot =
     (let (caller, mods) = mc_of (h_maps H) (h_now H) (t_mods T) (Caller e);
          sts = stack_text H e (t_conf T) mods
      in if \<not> matchSlot (t_filters T) slot \<or> too_deep (t_conf T) (Depth e) then None
         else if isCallMethod (slotName slot) = None then
           (let line = generic_line H e slot (t_caches T)
            in Some ('''', slotName slot, line, caller, indentStr (Depth e) @ ''-> '' @ line, sts))
         else
           (let (call, known) = describeCall (h_fmt H) e (slotName slot) (t_caches T) (h_mem H);
                tag = (if c_verbose (t_conf T)
                  then ''  [caller=0x'' @ fmt_hex (Caller e) @ '' '' @ caller @ '']'' else '''')
            in if known \<or> c_verbose (t_conf T)
               then Some (fst (splitClassMethod call), snd (splitClassMethod call), call, caller,
                 indentStr (Depth e) @ ''-> '' @ call @ tag, sts)
               else None))"

definition offered :: "host \<Rightarrow> reconEvt \<Rightarrow> tracer \<Rightarrow> offer option" where
  "offered H e T =
     (if c_tid (t_conf T) \<noteq> 0 \<and> uint (Tid e) \<noteq> c_tid (t_conf T) then None
      else if Kind e = 1 then
        Option.bind (if sint (Depth e) < 0 then None else frames T (Tid e, Depth e)) (return_offer H e T)
      else Option.bind (t_offsets T (Ip e - t_base T)) (entry_offer H e T))"

definition line_shown :: "(string \<Rightarrow> string \<Rightarrow> bool) \<Rightarrow> filters \<Rightarrow> offer option \<Rightarrow> (string \<times> string list) option" where
  "line_shown re f off =
     (case off of None \<Rightarrow> None
      | Some (cls, meth, body, caller, line, sts) \<Rightarrow>
          if matchLine re f cls meth body caller then Some (line, sts) else None)"

lemma stack_text_count [simp]: "stack_text H e (c\<lparr>c_count := b\<rparr>) mc = stack_text H e c mc"
  by (simp add: stack_text_def)

lemma return_offer_core [simp]: "return_offer H e (core T) = return_offer H e T"
  by (simp add: return_offer_def fun_eq_iff)

lemma entry_offer_core [simp]: "entry_offer H e (core T) = entry_offer H e T"
  by (simp add: entry_offer_def fun_eq_iff case_prod_unfold Let_def)

lemma offered_core: "offered H e (core T) = offered H e T"
  by (simp add: offered_def)

lemma offered_same_core: "core T = core T' \<Longrightarrow> offered H e T = offered H e T'"
  by (metis offered_core)

text \<open>The printed lines and the counts after an offer went through the filters.\<close>

definition add_line :: "host \<Rightarrow> config \<Rightarrow> (string \<times> string list) option \<Rightarrow>
    (string \<times> int) list \<times> string list \<Rightarrow> (string \<times> int) list \<times> string list" where
  "add_line H c sh out =
     (case sh of None \<Rightarrow> out
      | Some (line, sts) \<Rightarrow>
          if c_count c then (AList.update line ((case map_of (fst out) line of None \<Rightarrow> 0 | Some n \<Rightarrow> n) + 1) (fst out), snd out)
          else (fst out, snd out @ (if c_jsonOut c then jsonLine (h_fmt H) line else line) # sts))"

definition printed :: "tracer \<Rightarrow> (string \<times> int) list \<times> string list" where
  "printed T = (counts T, out_lines T)"

lemma printed_upd [simp]:
  "printed (T\<lparr>frames := x\<rparr>) = printed T" "printed (T\<lparr>t_caches := y\<rparr>) = printed T"
  "printed (T\<lparr>t_mods := z\<rparr>) = printed T" "printed (T\<lparr>t_total := n\<rparr>) = printed T"
  "printed (push_frame H e slot cl T) = printed T" "printed (set_frame_call key call T) = printed T"
  by (simp_all add: printed_def)

lemma printed_emit: "printed (emit (h_fmt H) line T) = add_line H (t_conf T) (Some (line, [])) (printed T)"
  by (simp add: emit_def add_line_def printed_def)

lemma printed_emit_stack:
  "printed (printStack H (indentStr (Depth e)) (Stackid e) (Caller e) (emit (h_fmt H) line T)) =
     add_line H (t_conf T) (Some (line, stack_text H e (t_conf T) (t_mods T))) (printed T)"
  by (auto simp: emit_def printStack_def add_line_def printed_def stack_text_def Let_def split: option.split)

lemma printed_handleReturn:
  assumes "0 \<le> sint (Depth e)" and "frames T (Tid e, Depth e) = Some fr"
  shows "printed (handleReturn H e T) =
    add_line H (t_conf T) (line_shown (h_re H) (t_filters T) (return_offer H e T fr)) (printed T)"
  using assms by (auto simp: handleReturn_def return_offer_def line_shown_def Let_def printed_emit case_prod_unfold add_line_def)

lemma printed_handleEntry:
  assumes "t_offsets T (Ip e - t_base T) = Some slot"
  shows "printed (handleEntry H e T) =
    add_line H (t_conf T) (line_shown (h_re H) (t_filters T) (entry_offer H e T slot)) (printed T)"
  using assms
  by (auto simp: handleEntry_def entry_offer_def call_entry_def plain_entry_def line_shown_def Let_def printed_emit_stack
      case_prod_unfold add_line_def)

lemma offer_total [simp]:
  "return_offer H e (T\<lparr>t_total := n\<rparr>) = return_offer H e T" "entry_offer H e (T\<lparr>t_total := n\<rparr>) = entry_offer H e T"
  by (simp_all add: return_offer_def entry_offer_def fun_eq_iff case_prod_unfold Let_def)

lemma printed_on_event:
  "printed (on_event H e T) =
     add_line H (t_conf T) (line_shown (h_re H) (t_filters T) (offered H e T)) (printed T)"
proof -
  have none: "add_line H c (line_shown re f None) out = out" for c re f out by (simp add: line_shown_def add_line_def)
  let ?T = "T\<lparr>t_total := t_total T + 1\<rparr>"
  consider "c_tid (t_conf T) \<noteq> 0 \<and> uint (Tid e) \<noteq> c_tid (t_conf T)"
    | "c_tid (t_conf T) = 0 \<or> uint (Tid e) = c_tid (t_conf T)" "Kind e = 1"
    | "c_tid (t_conf T) = 0 \<or> uint (Tid e) = c_tid (t_conf T)" "Kind e \<noteq> 1" by blast
  then show ?thesis
  proof cases
    case 1
    then show ?thesis by (simp add: on_event_def offered_def none)
  next
    case 2
    show ?thesis
    proof (cases "if sint (Depth e) < 0 then None else frames T (Tid e, Depth e)")
      case None
      with 2 show ?thesis by (auto simp: on_event_def offered_def none handleReturn_def Let_def split: if_splits)
    next
      case (Some fr)
      with 2 show ?thesis using printed_handleReturn [of e ?T fr H]
        by (auto simp: on_event_def offered_def Let_def split: if_splits)
    qed
  next
    case 3
    show ?thesis
    proof (cases "t_offsets T (Ip e - t_base T)")
      case None
      with 3 show ?thesis by (auto simp: on_event_def offered_def none handleEntry_def Let_def)
    next
      case (Some slot)
      with 3 show ?thesis using printed_handleEntry [of ?T e slot H]
        by (auto simp: on_event_def offered_def Let_def)
    qed
  qed
qed

section \<open>One input\<close>

text \<open>The lines that calls have printed, without the answers to commands.\<close>

definition sample_lines :: "host \<Rightarrow> input \<Rightarrow> tracer \<Rightarrow> string list" where
  "sample_lines H i T =
     (case i of Sample raw \<Rightarrow> drop (length (out_lines T)) (out_lines (on_input H i T)) | _ \<Rightarrow> [])"

fun call_lines :: "(host \<times> input) list \<Rightarrow> tracer \<Rightarrow> string list" where
  "call_lines [] T = []"
| "call_lines ((H, i) # his) T = sample_lines H i T @ call_lines his (on_input H i T)"

definition event_of :: "tracer \<Rightarrow> input \<Rightarrow> reconEvt option" where
  "event_of T i = (if t_exited T then None else case i of Sample raw \<Rightarrow> binary_Read raw | _ \<Rightarrow> None)"

definition command_of :: "tracer \<Rightarrow> input \<Rightarrow> string option" where
  "command_of T i = (if t_exited T then None else case i of Typed ln \<Rightarrow>
     (if trimSpace ln = '''' then None else Some (trimSpace ln)) | _ \<Rightarrow> None)"

lemma of_core [simp]: "event_of (core T) i = event_of T i" "command_of (core T) i = command_of T i"
  by (simp_all add: event_of_def command_of_def)

lemma of_same_core: "core T = core T' \<Longrightarrow> event_of T i = event_of T' i \<and> command_of T i = command_of T' i"
  by (metis of_core)

lemma keeps_config [simp]:
  "t_conf (emit F l T) = t_conf T" "t_filters (emit F l T) = t_filters T"
  "t_conf (printStack H ind sid lr T) = t_conf T" "t_filters (printStack H ind sid lr T) = t_filters T"
  by (simp_all add: emit_def printStack_def Let_def split: option.split)

lemma keeps_config_handlers:
  "t_conf (handleReturn H e T) = t_conf T" "t_filters (handleReturn H e T) = t_filters T"
  "t_conf (handleEntry H e T) = t_conf T" "t_filters (handleEntry H e T) = t_filters T"
  by (simp_all add: handleReturn_def handleEntry_def call_entry_def plain_entry_def Let_def
      split: option.split prod.split)

lemma keeps_config_event: "t_conf (on_event H e T) = t_conf T" "t_filters (on_event H e T) = t_filters T"
  by (simp_all add: on_event_def Let_def keeps_config_handlers)

lemma on_input_config: "t_conf (on_input H i T) = t_conf T"
  by (simp add: on_input_def on_sample_def mc_reload_def Let_def keeps_config_event
      split: input.split option.split prod.split)

lemma on_input_filters:
  "t_filters (on_input H i T) =
     (case command_of T i of None \<Rightarrow> t_filters T | Some ln \<Rightarrow> fst (applyCommand (t_filters T) ln))"
  by (simp add: on_input_def on_sample_def command_of_def mc_reload_def Let_def keeps_config_event
      split: input.split option.split prod.split)

lemma printed_on_input:
  "printed (on_input H i T) =
     (case event_of T i of Some e \<Rightarrow> add_line H (t_conf T) (line_shown (h_re H) (t_filters T) (offered H e T)) (printed T)
      | None \<Rightarrow> (case command_of T i of None \<Rightarrow> printed T
         | Some ln \<Rightarrow> (counts T, out_lines T @ reply_lines H (counts T) (snd (applyCommand (t_filters T) ln)))))"
proof (cases i)
  case (Sample raw)
  then show ?thesis
    by (simp add: on_input_def on_sample_def event_of_def command_of_def printed_on_event split: option.split)
next
  case (Typed ln)
  then show ?thesis
    by (simp add: on_input_def event_of_def command_of_def printed_def Let_def case_prod_unfold)
next
  case Reload
  then show ?thesis by (simp add: on_input_def event_of_def command_of_def printed_def mc_reload_def)
qed

section \<open>The mode that counts\<close>

text \<open>The entries of the map count the lines of a list.\<close>

definition tallies :: "string list \<Rightarrow> (string \<times> int) list \<Rightarrow> bool" where
  "tallies ls cs = (distinct (map fst cs) \<and>
     (\<forall>l. map_of cs l = (if l \<in> set ls then Some (int (count_list ls l)) else None)))"

lemma tallies_nil: "tallies [] []"
  by (simp add: tallies_def)

lemma tallies_add:
  assumes "tallies ls cs"
  shows "tallies (ls @ [l]) (AList.update l ((case map_of cs l of None \<Rightarrow> 0 | Some n \<Rightarrow> n) + 1) cs)"
proof -
  have "(case map_of cs l of None \<Rightarrow> 0 | Some n \<Rightarrow> n) = int (count_list ls l)"
    using assms by (simp add: tallies_def count_notin)
  with assms show ?thesis by (auto simp: tallies_def update_conv distinct_update)
qed

definition counting :: "tracer \<Rightarrow> tracer \<Rightarrow> string list \<Rightarrow> bool" where
  "counting T T' ls = (core T = core T' \<and> t_filters T = t_filters T' \<and> \<not> c_count (t_conf T) \<and> c_count (t_conf T') \<and>
     \<not> c_jsonOut (t_conf T) \<and> \<not> c_stack (t_conf T) \<and> tallies ls (counts T'))"

lemma stack_text_none: "\<not> c_stack c \<Longrightarrow> stack_text H e c mc = []"
  by (simp add: stack_text_def)

lemma offer_stack:
  "return_offer H e T fr = Some (a, b, c, d, l, sts) \<Longrightarrow> sts = []"
  "entry_offer H e T slot = Some (a, b, c, d, l, sts) \<Longrightarrow> \<not> c_stack (t_conf T) \<Longrightarrow> sts = []"
  by (auto simp: return_offer_def entry_offer_def stack_text_none case_prod_unfold Let_def split: if_splits)

lemma stack_text_off: "\<not> c_stack (t_conf T) \<Longrightarrow> offered H e T = Some (a, b, c, d, l, sts) \<Longrightarrow> sts = []"
  by (auto simp: offered_def bind_eq_Some_conv dest: offer_stack split: if_splits)

lemma counting_event:
  assumes "counting T T' ls" and "event_of T i = Some e"
  shows "tallies (ls @ sample_lines H i T) (counts (on_input H i T'))"
proof -
  have ev: "event_of T' i = Some e" and off: "offered H e T' = offered H e T"
    using assms of_same_core [of T T' i] offered_same_core [of T T' H e] by (simp_all add: counting_def)
  have i: "\<exists>raw. i = Sample raw" using assms(2) by (auto simp: event_of_def split: if_splits input.splits)
  define sh where "sh = line_shown (h_re H) (t_filters T) (offered H e T)"
  have p: "out_lines (on_input H i T) = snd (add_line H (t_conf T) sh (printed T))"
    "counts (on_input H i T') = fst (add_line H (t_conf T') sh (printed T'))"
    using printed_on_input [of H i T] printed_on_input [of H i T'] assms ev off
    by (simp_all add: sh_def printed_def counting_def prod_eq_iff)
  have st: "sts = []" if "sh = Some (l, sts)" for l sts
    using that stack_text_off [of T H e] assms(1)
    by (auto simp: sh_def line_shown_def counting_def split: option.splits if_splits)
  show ?thesis
  proof (cases sh)
    case None
    with p i assms(1) show ?thesis by (auto simp: sample_lines_def add_line_def printed_def counting_def)
  next
    case (Some q)
    then obtain l where "sh = Some (l, [])" using st by (cases q) simp
    with p i assms(1) show ?thesis
      by (auto simp: sample_lines_def add_line_def printed_def counting_def tallies_add)
  qed
qed

lemma counting_other:
  assumes "counting T T' ls" and "event_of T i = None"
  shows "tallies (ls @ sample_lines H i T) (counts (on_input H i T'))"
proof -
  have ev: "event_of T' i = None" and cmd: "command_of T' i = command_of T i"
    using assms of_same_core [of T T' i] by (simp_all add: counting_def)
  have p: "printed (on_input H i T') = (case command_of T i of None \<Rightarrow> printed T'
         | Some ln \<Rightarrow> (counts T', out_lines T' @ reply_lines H (counts T') (snd (applyCommand (t_filters T') ln))))"
    using printed_on_input [of H i T'] ev cmd by simp
  then have "counts (on_input H i T') = counts T'" by (cases "command_of T i") (simp_all add: printed_def)
  moreover have "sample_lines H i T = []"
    using assms(2) by (auto simp: sample_lines_def event_of_def on_input_def on_sample_def split: input.split if_splits)
  ultimately show ?thesis using assms(1) by (simp add: counting_def)
qed

lemma counting_step:
  assumes "counting T T' ls"
  shows "counting (on_input H i T) (on_input H i T') (ls @ sample_lines H i T)"
proof -
  have c: "core T = core T'" "t_filters T = t_filters T'" using assms by (simp_all add: counting_def)
  have "tallies (ls @ sample_lines H i T) (counts (on_input H i T'))"
    by (cases "event_of T i") (simp_all add: counting_event [OF assms] counting_other [OF assms])
  moreover have "t_filters (on_input H i T) = t_filters (on_input H i T')"
    using of_same_core [OF c(1), of i] c(2) by (simp add: on_input_filters cong: option.case_cong)
  ultimately show ?thesis
    using assms same_core_on_input [OF c(1), of H i] by (simp add: counting_def on_input_config)
qed

lemma counting_run: "counting T T' ls \<Longrightarrow> counting (run_tracer his T) (run_tracer his T') (ls @ call_lines his T)"
proof (induction his arbitrary: T T' ls)
  case (Cons hi his)
  obtain H i where hi: "hi = (H, i)" by (cases hi)
  show ?case using Cons.IH [OF counting_step [OF Cons.prems, of H i]] by (simp add: hi)
qed simp

text \<open>What the loader relies on: an iteration gives every entry once, and \<^verbatim>\<open>sort.Slice\<close> orders them.\<close>

definition orders_entries :: "((string \<times> int) list \<Rightarrow> (string \<times> int) list) \<Rightarrow> bool" where
  "orders_entries ord = (\<forall>xs. mset (ord xs) = mset xs \<and> sorted_wrt (\<lambda>x y. snd y \<le> snd x) (ord xs))"

lemma sorted_wrt_take_drop:
  "sorted_wrt P xs \<Longrightarrow> x \<in> set (take k xs) \<Longrightarrow> y \<in> set (drop k xs) \<Longrightarrow> P x y"
  by (metis append_take_drop_id sorted_wrt_append)

definition most_frequent :: "nat \<Rightarrow> string list \<Rightarrow> string list \<Rightarrow> bool" where
  "most_frequent k ls ks = (distinct ks \<and> set ks \<subseteq> set ls \<and> length ks = min k (card (set ls)) \<and>
     sorted_wrt (\<lambda>a b. count_list ls b \<le> count_list ls a) ks \<and>
     (\<forall>a \<in> set ks. \<forall>b \<in> set ls - set ks. count_list ls b \<le> count_list ls a))"

lemma tallies_entries:
  assumes "tallies ls cs"
  shows "(l, n) \<in> set cs \<longleftrightarrow> l \<in> set ls \<and> n = int (count_list ls l)" "fst ` set cs = set ls"
proof -
  show *: "(l, n) \<in> set cs \<longleftrightarrow> l \<in> set ls \<and> n = int (count_list ls l)" for l n
    using assms map_of_eq_Some_iff [of cs l n] by (auto simp: tallies_def split: if_splits)
  show "fst ` set cs = set ls" using * by force
qed

lemma printStats_top:
  assumes "tallies ls cs" and "orders_entries ord"
  shows "\<exists>ks. most_frequent k ls ks \<and> printStats ord cs k =
    (if ls = [] then [] else ''[*] top calls:'' # map (\<lambda>l. stat_line (l, int (count_list ls l))) ks)"
proof -
  let ?arr = "ord cs" and ?ks = "map fst (take k (ord cs))"
  have m: "mset ?arr = mset cs" and s: "sorted_wrt (\<lambda>x y. snd y \<le> snd x) ?arr"
    using assms(2) by (simp_all add: orders_entries_def)
  have set: "set ?arr = set cs" using m by (metis set_mset_mset)
  note e = tallies_entries [OF assms(1)]
  have d: "distinct (map fst cs)" using assms(1) by (simp add: tallies_def)
  have "mset (map fst ?arr) = mset (map fst cs)" using m by simp
  then have da: "distinct (map fst ?arr)" using d by (metis mset_eq_imp_distinct_iff)
  then have "distinct ?ks" by (metis distinct_take take_map)
  moreover have "set ?ks \<subseteq> set ls" using e(2) set by (auto dest: in_set_takeD)
  moreover have "card (set ls) = length ?arr"
    using e(2) d m by (metis distinct_card length_map set_map size_mset)
  then have "length ?ks = min k (card (set ls))" by (simp add: min.commute)
  moreover have val: "snd x = int (count_list ls (fst x))" if "x \<in> set ?arr" for x
    using that e(1) [of "fst x" "snd x"] set by simp
  have "sorted_wrt (\<lambda>a b. count_list ls b \<le> count_list ls a) ?ks"
  proof -
    have "sorted_wrt (\<lambda>x y. snd y \<le> snd x) (take k ?arr)" using s by (rule sorted_wrt_take)
    then have "sorted_wrt (\<lambda>x y. count_list ls (fst y) \<le> count_list ls (fst x)) (take k ?arr)"
    proof (rule sorted_wrt_mono_rel [rotated])
      fix x y assume "x \<in> set (take k ?arr)" "y \<in> set (take k ?arr)" "snd y \<le> snd x"
      then show "count_list ls (fst y) \<le> count_list ls (fst x)"
        using val [OF in_set_takeD, of x] val [OF in_set_takeD, of y] by simp
    qed
    then show ?thesis by (simp add: sorted_wrt_map)
  qed
  moreover have "count_list ls b \<le> count_list ls a" if ab: "a \<in> set ?ks" "b \<in> set ls - set ?ks" for a b
  proof -
    obtain x where x: "x \<in> set (take k ?arr)" "a = fst x" using ab(1) unfolding set_map by blast
    obtain y where y: "y \<in> set ?arr" "b = fst y" using ab(2) e(2) set by (metis DiffD1 imageE)
    have "y \<notin> set (take k ?arr)" using y(2) ab(2) by auto
    with y(1) have "y \<in> set (drop k ?arr)" by (metis Un_iff append_take_drop_id set_append)
    from sorted_wrt_take_drop [OF s x(1) this] show ?thesis
      using val [OF y(1)] val [OF in_set_takeD [OF x(1)]] x(2) y(2) by simp
  qed
  ultimately have "most_frequent k ls ?ks" by (simp add: most_frequent_def)
  moreover have "map stat_line (take k ?arr) = map (\<lambda>l. stat_line (l, int (count_list ls l))) ?ks"
    using val by (auto dest!: in_set_takeD simp: stat_line_def)
  moreover have "cs = [] \<longleftrightarrow> ls = []" using e(2) by auto
  ultimately show ?thesis by (intro exI [of _ ?ks]) (simp add: printStats_def)
qed


lemma sort_key_orders: "orders_entries (sort_key (\<lambda>kv. - snd kv))"
proof -
  have "sorted_wrt (\<lambda>x y. snd y \<le> snd x) (sort_key (\<lambda>kv. - snd kv) xs)" for xs :: "(string \<times> int) list"
    using sorted_sort_key [of "\<lambda>kv. - snd kv" xs] by (simp add: sorted_map)
  then show ?thesis by (simp add: orders_entries_def)
qed

definition demo_plain_tracer :: tracer where
  "demo_plain_tracer = initial_tracer demo_conf demo_filters demo_mods 0x1000 [16 \<mapsto> 6]
     \<lparr>su_maps = initial_maps demo_conf 0x1000, callSet = (\<lambda>_. False), retSet = (\<lambda>_. False)\<rparr>"

definition demo_inputs :: "(host \<times> input) list" where
  "demo_inputs = [(demo_host, Typed ''grep Find''), (demo_host, Sample (replicate 392 1)),
     (demo_host, Reload), (demo_host, Typed ''stats'')]"


section \<open>The filters on lines\<close>

definition looser :: "filters \<Rightarrow> filters \<Rightarrow> bool" where
  "looser g f = ((grep g = [] \<or> grep g = grep f) \<and>
     (classRe g = None \<or> classRe g = classRe f) \<and> (methodRe g = None \<or> methodRe g = methodRe f) \<and>
     (from_mods g = [] \<or> from_mods g = from_mods f))"

definition narrows :: "filters \<Rightarrow> filters \<Rightarrow> bool" where
  "narrows f g = (line_free f = line_free g \<and> looser g f)"

lemma matchLine_iff:
  "matchLine re f cls meth body caller \<longleftrightarrow>
     (grep f = [] \<or> str_contains body (grep f)) \<and> (\<forall>r. classRe f = Some r \<longrightarrow> re r cls) \<and>
     (\<forall>r. methodRe f = Some r \<longrightarrow> re r meth) \<and>
     (from_mods f = [] \<or> list_ex (str_contains caller) (from_mods f))"
  by (cases "classRe f"; cases "methodRe f") (auto simp: matchLine_def)

lemma looser_match: "looser g f \<Longrightarrow> matchLine re f cls meth body caller \<Longrightarrow> matchLine re g cls meth body caller"
  unfolding looser_def matchLine_iff by (elim conjE, intro conjI) (auto simp del: not_None_eq not_Some_eq)

lemma narrows_shown: "narrows f g \<Longrightarrow> line_shown re f off = Some sh \<Longrightarrow> line_shown re g off = Some sh"
proof (cases off)
  case (Some q)
  assume "narrows f g" and "line_shown re f off = Some sh"
  with Some looser_match [of g f re] show ?thesis
    by (cases q) (simp add: narrows_def line_shown_def split: if_splits)
qed (simp add: line_shown_def)

lemma looser_command: "looser g f \<Longrightarrow> looser (fst (applyCommand g ln)) (fst (applyCommand f ln))"
  by (simp add: looser_def applyCommand_def Let_def split: list.split)

lemma narrows_command: "narrows f g \<Longrightarrow> narrows (fst (applyCommand f ln)) (fst (applyCommand g ln))"
  unfolding narrows_def by (metis core_command(1) looser_command)

definition selecting :: "tracer \<Rightarrow> tracer \<Rightarrow> bool" where
  "selecting T T' = (core T = core T' \<and> narrows (t_filters T) (t_filters T') \<and> t_conf T = t_conf T' \<and>
     \<not> c_count (t_conf T') \<and> counts T = counts T' \<and> subseq (out_lines T) (out_lines T'))"

lemma selecting_printed:
  assumes "selecting T T'"
  shows "counts (on_input H i T) = counts (on_input H i T') \<and>
    subseq (out_lines (on_input H i T)) (out_lines (on_input H i T'))"
proof -
  have c: "core T = core T'" and n: "narrows (t_filters T) (t_filters T')" and s: "subseq (out_lines T) (out_lines T')"
    and cnt: "counts T = counts T'" "t_conf T = t_conf T'" "\<not> c_count (t_conf T')" using assms by (simp_all add: selecting_def)
  note same = of_same_core [OF c, of i] offered_same_core [OF c]
  have r: "snd (applyCommand (t_filters T) ln) = snd (applyCommand (t_filters T') ln)" for ln
    using n core_command(2) unfolding narrows_def by metis
  show ?thesis
  proof (cases "event_of T' i")
    case (Some e)
    let ?sh = "line_shown (h_re H) (t_filters T) (offered H e T')" and ?sh' = "line_shown (h_re H) (t_filters T') (offered H e T')"
    have "printed (on_input H i T) = add_line H (t_conf T') ?sh (printed T)"
      "printed (on_input H i T') = add_line H (t_conf T') ?sh' (printed T')"
      using printed_on_input [of H i T] printed_on_input [of H i T'] Some same cnt by simp_all
    moreover have "?sh = None \<or> ?sh = ?sh'" using narrows_shown [OF n] by (cases ?sh) auto
    ultimately show ?thesis using s cnt
      by (auto simp: printed_def add_line_def split: option.splits intro: list_emb_append2 list_emb_append_mono)
  next
    case None
    then show ?thesis
      using printed_on_input [of H i T] printed_on_input [of H i T'] same cnt s r
      by (auto simp: printed_def split: option.splits intro: list_emb_append_mono)
  qed
qed

lemma selecting_step: "selecting T T' \<Longrightarrow> selecting (on_input H i T) (on_input H i T')"
proof -
  assume s: "selecting T T'"
  then have c: "core T = core T'" and n: "narrows (t_filters T) (t_filters T')" by (simp_all add: selecting_def)
  have "narrows (t_filters (on_input H i T)) (t_filters (on_input H i T'))"
    using of_same_core [OF c, of i] n narrows_command by (auto simp: on_input_filters split: option.split)
  then show ?thesis
    using s same_core_on_input [OF c, of H i] selecting_printed [OF s, of H i] by (simp add: selecting_def on_input_config)
qed

lemma selecting_run: "selecting T T' \<Longrightarrow> selecting (run_tracer his T) (run_tracer his T')"
proof (induction his arbitrary: T T')
  case (Cons hi his)
  obtain H i where hi: "hi = (H, i)" by (cases hi)
  show ?case using Cons.IH [OF selecting_step [OF Cons.prems, of H i]] by (simp add: hi)
qed simp



end
