(* ===== verification/Program.thy ===== *)
theory Program
  imports Startup Flags Output
begin

text \<open>
  The whole loader: \<^verbatim>\<open>main\<close> and \<^verbatim>\<open>runProbe\<close>, from the arguments of the process to
  what it leaves, composed of the parts of the other theories; and what a traced process then finds:
  the frame table follows its calls.
\<close>

section \<open>The program\<close>

text \<open>
  The world of a run: the system (theory \<^verbatim>\<open>Startup\<close>), which patterns compile, which bindings the
  maps take in the two loops, the orders in which these visit the offsets, the return probes that could be
  attached, the printer of quoted strings, the time, and the inputs of the event loop.
\<close>

record probe_world =
  w_sys :: sysenv
  w_re_ok :: "string \<Rightarrow> bool"
  w_accept :: "u64 set \<Rightarrow> u64 \<Rightarrow> bool"
  w_accept_ret :: "u64 set \<Rightarrow> u64 \<Rightarrow> bool"
  w_visit :: "(u64 \<rightharpoonup> int) \<Rightarrow> (u64 \<times> int) list"
  w_visit_ret :: "(u64 \<rightharpoonup> int) \<Rightarrow> (u64 \<times> int) list"
  w_attached :: "u64 \<Rightarrow> bool"
  w_quote :: "string \<Rightarrow> string"
  w_now :: int
  w_order :: "(string \<times> int) list \<Rightarrow> (string \<times> int) list"
  w_inputs :: "(host \<times> input) list"

definition start_lines :: "probe_world \<Rightarrow> config \<Rightarrow> int \<Rightarrow> u64 \<Rightarrow> nat \<Rightarrow> u64 list \<Rightarrow> string list" where
  "start_lines W c pid base n rets =
     [''[*] jniprobe: pid='' @ fmt_dec pid @ '' libart='' @ c_libart c @ '' base=0x'' @ fmt_hex base @
        '' slots='' @ fmt_dec (int n) @ '' probes='' @ fmt_dec (int n) @
        ''(+'' @ fmt_dec (int (length (filter (w_attached W) rets))) @ '' ret)'',
      ''[*] modes='' @ c_modes c @ '' only='' @ w_quote W (c_only c) @ '' exclude='' @ w_quote W (c_exclude c) @
        '' grep='' @ w_quote W (c_grep c) @ '' from='' @ w_quote W (c_from c) @
        '' verbose='' @ fmt_bool (c_verbose c) @ '' count='' @ fmt_bool (c_count c) @
        '' stack='' @ fmt_bool (c_stack c),
      ''[*] interactive: only <re> | from <so> | grep <str> | mode <m> | clear | stats | quit  (Ctrl-C to stop)'']"

text \<open>
  How \<^verbatim>\<open>runProbe\<close> ends: with an error before the probes, with the panic of a pattern that does not
  compile, or after the loop, with the configured maps, the base and the offsets, the tracer and the lines
  on standard output.
\<close>

datatype probe_end = Failed start_error | Panicked | Finished probe_setup u64 "u64 \<rightharpoonup> int" tracer "string list"

definition fresh_mods :: "sysenv \<Rightarrow> int \<Rightarrow> int \<Rightarrow> modCache" where
  "fresh_mods E now pid =
     mc_reload (maps_of E pid) now pid \<lparr>mc_ranges = [], mc_bias = Map.empty, mc_pid = 0, mc_last = 0\<rparr>"

definition runProbe :: "nat \<Rightarrow> probe_world \<Rightarrow> config \<Rightarrow> probe_end option" where
  "runProbe n W c =
     (case runProbe_start n (w_sys W) c of
        None \<Rightarrow> None
      | Some (Inl err) \<Rightarrow> Some (Failed err)
      | Some (Inr (pid, offs, base)) \<Rightarrow>
          (case newFilters (w_re_ok W) c of
             None \<Rightarrow> Some Panicked
           | Some f \<Rightarrow>
               (let mc = fresh_mods (w_sys W) (w_now W) pid;
                    S = configure (w_accept W) (w_accept_ret W) c f base (w_visit W offs) (w_visit_ret W offs);
                    T = run_tracer (w_inputs W) (initial_tracer c f mc base offs S);
                    hd_lines = start_lines W c pid base (card (dom offs)) (ret_offsets S (w_visit_ret W offs))
                in Some (Finished S base offs T
                     (hd_lines @ out_lines T @ (if t_exited T then [] else end_lines (w_order W) T))))))"

section \<open>The events that reach the loop\<close>

definition samples_of :: "(host \<times> input) list \<Rightarrow> u8 list list" where
  "samples_of his = concat (map (\<lambda>(H, i). case i of Sample raw \<Rightarrow> [raw] | _ \<Rightarrow> []) his)"

definition delivers :: "(host \<times> input) list \<Rightarrow> evt_t list \<Rightarrow> bool" where
  "delivers his es = list_all2 (\<lambda>raw e. binary_Read raw = Some (mirror e)) (samples_of his) es"

lemma samples_of_snoc:
  "samples_of (his @ [(H, i)]) = samples_of his @ (case i of Sample raw \<Rightarrow> [raw] | _ \<Rightarrow> [])"
  by (simp add: samples_of_def)

lemma run_tracer_snoc: "run_tracer (his @ [(H, i)]) T = on_input H i (run_tracer his T)"
  by (simp add: run_tracer_def)

lemma run_is_fed: "delivers his es \<Longrightarrow> fed T0 es (run_tracer his T0)"
proof (induction his arbitrary: es rule: rev_induct)
  case Nil
  then show ?case by (simp add: delivers_def samples_of_def fed.begin_feed)
next
  case (snoc hi his)
  obtain H i where hi: "hi = (H, i)" by (cases hi)
  show ?case
  proof (cases "\<exists>raw. i = Sample raw")
    case True
    then obtain raw where i: "i = Sample raw" ..
    with snoc.prems hi obtain es' e where "es = es' @ [e]" "delivers his es'" "binary_Read raw = Some (mirror e)"
      by (auto simp: delivers_def samples_of_snoc list_all2_append1 list_all2_Cons1)
    with snoc.IH show ?thesis by (simp add: hi i run_tracer_snoc fed.sample)
  next
    case False
    with snoc.prems hi have "delivers his es" by (auto simp: delivers_def samples_of_snoc split: input.splits)
    with snoc.IH False show ?thesis by (simp add: hi run_tracer_snoc fed.other)
  qed
qed

section \<open>The frame table of a traced process\<close>

text \<open>The probes run with the maps of the set-up; only the depth and the events change.\<close>

definition same_config :: "rmaps \<Rightarrow> rmaps \<Rightarrow> bool" where
  "same_config s s' = (cfg s = cfg s' \<and> argkind s = argkind s' \<and> argidx s = argidx s' \<and> hasret s = hasret s')"

lemma linked_config: "same_config s s' \<Longrightarrow> linked s T = linked s' T"
  by (simp add: linked_def same_config_def)

definition visits :: "((u64 \<rightharpoonup> int) \<Rightarrow> (u64 \<times> int) list) \<Rightarrow> bool" where
  "visits v = (\<forall>m. finite (dom m) \<longrightarrow> map_of (v m) = m \<and> distinct (map fst (v m)))"

lemma visits_same_map:
  assumes "visits v" and "visits v'" and "finite (dom m)"
  shows "same_map (v m) (v' m) \<and> length (v m) = card (dom m) \<and> map_of (v m) = m"
proof -
  have v: "map_of (v m) = m" "distinct (map fst (v m))" "map_of (v' m) = m" "distinct (map fst (v' m))"
    using assms by (simp_all add: visits_def)
  have "card (dom (map_of xs)) = length xs" if "distinct (map fst xs)" for xs :: "(u64 \<times> int) list"
    using that distinct_card [OF that] by (simp add: dom_map_of_conv_image_fst)
  from this [OF v(2)] this [OF v(4)] v show ?thesis by (simp add: same_map_def)
qed

lemma runProbe_parts:
  assumes "runProbe n W c = Some (Finished S base offs T lines)"
  obtains pid f mc where "runProbe_start n (w_sys W) c = Some (Inr (pid, offs, base))"
    "S = configure (w_accept W) (w_accept_ret W) c f base (w_visit W offs) (w_visit_ret W offs)"
    "T = run_tracer (w_inputs W) (initial_tracer c f mc base offs S)"
  using assms that by (auto simp: runProbe_def Let_def split: option.splits sum.splits)

text \<open>
  C3. The whole program follows the calls of the process: when \<^verbatim>\<open>runProbe\<close> starts and its loop
  gets the events of a lossless run of the probes with the maps it configured, with any commands and
  reloads in between, the frame table it ends with has a frame under (tid, depth) exactly when the thread
  has more than \<open>depth\<close> active tracked calls; the frame then holds the slot of the function called there,
  a slot of the schema whose returns are watched, and the time stamp and arguments of that call.
\<close>

theorem traced_program_follows_calls:
  assumes "runProbe n W c = Some (Finished S base offs T lines)" and "c_tid c = 0" and "\<not> t_exited T"
    and "hash_contract (max_entries argkind_map) (w_accept W)" and "hash_contract (max_entries hasret_map) (w_accept_ret W)"
    and "visits (w_visit W)" and "visits (w_visit_ret W)" and "card (dom offs) \<le> max_entries argkind_map"
    and "probed s stk ps" and "same_config s (su_maps S)" and "delivers (w_inputs W) (events s)"
  shows "(frames T (t, d) \<noteq> None \<longleftrightarrow> 0 \<le> sint d \<and> sint d < int (length (stk t))) \<and>
    (\<forall>fr. frames T (t, d) = Some fr \<longrightarrow>
      offs (ev_ip (rev (stk t) ! nat (sint d)) - base) = Some (fr_slot fr) \<and>
      0 \<le> fr_slot fr \<and> fr_slot fr < 233 \<and>
      fr_ts fr = ev_ts (rev (stk t) ! nat (sint d)) \<and>
      [fr_a1 fr, fr_a2 fr, fr_a3 fr] = map ((!) (ev_a (rev (stk t) ! nat (sint d)))) [1, 2, 3])"
proof -
  obtain pid f mc where start: "runProbe_start n (w_sys W) c = Some (Inr (pid, offs, base))"
    and S: "S = configure (w_accept W) (w_accept_ret W) c f base (w_visit W offs) (w_visit_ret W offs)"
    and T: "T = run_tracer (w_inputs W) (initial_tracer c f mc base offs S)"
    by (rule runProbe_parts [OF assms(1)])
  let ?T0 = "initial_tracer c f mc base offs S"
  from runProbe_start_offs [OF start] have fin: "finite (dom offs)" and valid: "slots_valid offs" by simp_all
  note v = visits_same_map [OF assms(6,7) fin]
  have "linked (su_maps S) (initial_tracer c f mc base (map_of (w_visit W offs)) S)"
    using v assms(2,4,5,8) by (intro configure_linked [OF _ _ _ _ _ S]) simp_all
  then have l: "linked s ?T0" using v linked_config [OF assms(10)] by simp
  have "fed ?T0 (events s) T" unfolding T by (rule run_is_fed [OF assms(11)])
  from frames_track_calls [OF assms(9) this l _ assms(3)]
  have "rel_option (frame_of ?T0) (active stk (t, d)) (frames T (t, d))"
    by (simp add: frames_sim_def initial_tracer_def)
  then show ?thesis using valid
    by (cases "frames T (t, d)")
      (auto simp: active_def option_rel_Some2 frame_of_def initial_tracer_def slots_valid_def schema_length split: if_splits)
qed

section \<open>A closed run\<close>

text \<open>
  The start from an offsets file of theory \<^verbatim>\<open>Startup\<close>; then thread 9 enters the function at the
  offset of \<^verbatim>\<open>FindClass\<close>, the loop takes the event, and a user asks for the statistics.
\<close>

definition key_order :: "(u64 \<rightharpoonup> int) \<Rightarrow> (u64 \<times> int) list" where
  "key_order m = map (\<lambda>k. (k, the (m k))) (sorted_list_of_set (dom m))"

lemma key_order_visits: "visits key_order"
proof -
  have "map_of (key_order m) k = m k" if "finite (dom m)" for m k
    using that by (cases "m k") (auto simp: key_order_def map_of_map_restrict restrict_map_def comp_def)
  then show ?thesis by (simp add: visits_def fun_eq_iff) (simp add: key_order_def comp_def)
qed

definition room_for :: "nat \<Rightarrow> u64 set \<Rightarrow> u64 \<Rightarrow> bool" where
  "room_for mx = (\<lambda>ks k. k \<in> ks \<or> card ks < mx)"

lemma room_for_contract: "hash_contract mx (room_for mx)"
  by (simp add: hash_contract_def room_for_def)

definition demo_world :: "(host \<times> input) list \<Rightarrow> probe_world" where
  "demo_world his = \<lparr>w_sys = demo_sys, w_re_ok = (\<lambda>_. True), w_accept = room_for (max_entries argkind_map),
     w_accept_ret = room_for (max_entries hasret_map), w_visit = key_order, w_visit_ret = key_order,
     w_attached = (\<lambda>_. True), w_quote = (\<lambda>s. s), w_now = 0, w_order = sort_key (\<lambda>kv. - snd kv), w_inputs = his\<rparr>"

definition entry_regs :: pt_regs where
  "entry_regs = demo_regs 0x101010101010006 []"

lemma demo_world_finishes:
  assumes "offsetsFromFile demo_unmarshal (Some (json_object demo_pairs)) = Some offs" and "100 \<le> card (dom offs)"
  shows "\<exists>f mc S. S = configure (room_for (max_entries argkind_map)) (room_for (max_entries hasret_map))
      demo_file_conf f 0x7000 (key_order offs) (key_order offs) \<and>
    (\<forall>his. \<exists>lines. runProbe 0 (demo_world his) demo_file_conf =
      Some (Finished S 0x7000 offs (run_tracer his (initial_tracer demo_file_conf f mc 0x7000 offs S)) lines))"
proof -
  have start: "runProbe_start 0 demo_sys demo_file_conf = Some (Inr (7, offs, 0x7000))"
    using assms by (simp add: runProbe_start_def demo_file_conf_def load_offsets_def demo_sys_def scan_demo_maps_parse)
  have "newFilters (\<lambda>_. True) demo_file_conf \<noteq> None" by (simp add: newFilters_def compile_def)
  then obtain f where f: "newFilters (\<lambda>_. True) demo_file_conf = Some f" by blast
  show ?thesis
    by (intro exI [of _ f] exI [of _ "fresh_mods demo_sys 0 7"] exI conjI allI, rule refl)
      (simp add: runProbe_def demo_world_def start f Let_def)
qed

lemma demo_entry_tracked:
  assumes "S = configure (room_for (max_entries argkind_map)) (room_for (max_entries hasret_map))
      demo_file_conf f 0x7000 (key_order offs) (key_order offs)"
    and "finite (dom offs)" and "card (dom offs) \<le> 233" and "offs (0x101010101010006 - 0x7000) = Some 6"
  shows "tracked (su_maps S) entry_regs"
proof -
  note v = visits_same_map [OF key_order_visits key_order_visits assms(2)]
  have len: "length (key_order offs) \<le> max_entries argkind_map" using v assms(3) by (simp add: argkind_map_def)
  note cm = configure_maps [OF room_for_contract room_for_contract conjunct1 [OF v] len assms(1)]
  have "slotName 6 = ''FindClass''" by code_simp
  then have w: "watched demo_file_conf f 6" by (simp add: watched_def alwaysWatch_def)
  have ip: "PT_REGS_IP entry_regs = 0x101010101010006" by (simp add: PT_REGS_IP_def entry_regs_def demo_regs_def)
  have "hasret (su_maps S) (0x101010101010006 - 0x7000) = Some 1" unfolding cm(3) using v assms(4) w by simp
  moreover have "cfg (su_maps S) = [0x7000, 0]"
    by (simp add: cm(4) initial_maps_def demo_file_conf_def demo_conf_def)
  ultimately show ?thesis by (simp add: tracked_def array_lookup_def ip)
qed

text \<open>One call, and the inputs of a loop that takes its event.\<close>

definition one_call :: "rmaps \<Rightarrow> rmaps" where
  "one_call s = up_all demo_in entry_regs s"

definition call_inputs :: "rmaps \<Rightarrow> (host \<times> input) list" where
  "call_inputs s = [(demo_host, Sample (evt_bytes (\<lambda>_. 0) (last_event (one_call s)))), (demo_host, Typed ''stats'')]"

lemma one_call_probed:
  assumes "depth s = Map.empty" and "events s = []" and "tracked s entry_regs"
  shows "probed (one_call s) ((\<lambda>_. [])(9 := [last_event (one_call s)])) []"
    and "delivers (call_inputs s) (events (one_call s))"
proof -
  have "probed s (\<lambda>_. []) []" by (rule probed.start [OF assms(1,2)])
  from probed.call [OF this assms(3) demo_in_lossless _ one_call_def]
  show "probed (one_call s) ((\<lambda>_. [])(9 := [last_event (one_call s)])) []" by (simp add: demo_in_def demo_env_def)
  have g: "rb_mem demo_in = Some (stale 0xDEAD)" by (simp add: demo_in_def demo_env_def)
  have "mem_shape demo_in" by (simp add: mem_shape_def demo_in_def demo_env_def stale_def)
  then have "\<forall>e \<in> set (events (one_call s)). evt_shape e"
    unfolding one_call_def using assms(2) by (intro up_all_shape) simp_all
  moreover have ev: "events (one_call s) = [last_event (one_call s)]"
    using up_all_event [OF g, of entry_regs s] assms(2) by (auto simp: last_event_def one_call_def)
  ultimately have "evt_shape (last_event (one_call s))" by (metis list.set_intros(1))
  then have "binary_Read (evt_bytes (\<lambda>_. 0) (last_event (one_call s))) = Some (mirror (last_event (one_call s)))"
    by (intro binary_Read_evt_bytes) (simp_all add: evt_shape_def)
  then show "delivers (call_inputs s) (events (one_call s))"
    unfolding ev by (simp add: delivers_def samples_of_def call_inputs_def)
qed

lemma call_inputs_live: "\<not> t_exited T \<Longrightarrow> \<not> t_exited (run_tracer (call_inputs s) T)"
proof -
  have "trimSpace ''stats'' = ''stats''" "str_fields ''stats'' = [''stats'']" by code_simp+
  then show "\<not> t_exited T \<Longrightarrow> \<not> t_exited (run_tracer (call_inputs s) T)"
    by (simp add: call_inputs_def on_input_def on_sample_def applyCommand_def Let_def split: option.split)
qed

theorem traced_program_follows_calls_witness:
  "\<exists>his S offs T lines fr. runProbe 0 (demo_world his) demo_file_conf = Some (Finished S 0x7000 offs T lines) \<and>
     frames T (9, 0) = Some fr \<and> 0 \<le> fr_slot fr \<and> fr_slot fr < 233"
proof -
  obtain offs where o: "offsetsFromFile demo_unmarshal (Some (json_object demo_pairs)) = Some offs"
    "100 \<le> card (dom offs)" "card (dom offs) \<le> 233" and six: "offs (0x101010101010006 - 0x7000) = Some 6"
    using demo_file_offsets by blast
  obtain f mc S where S: "S = configure (room_for (max_entries argkind_map)) (room_for (max_entries hasret_map))
      demo_file_conf f 0x7000 (key_order offs) (key_order offs)"
    and run: "\<forall>his. \<exists>lines. runProbe 0 (demo_world his) demo_file_conf =
      Some (Finished S 0x7000 offs (run_tracer his (initial_tracer demo_file_conf f mc 0x7000 offs S)) lines)"
    using demo_world_finishes [OF o(1,2)] by blast
  let ?s = "one_call (su_maps S)" and ?his = "call_inputs (su_maps S)"
  let ?T = "run_tracer ?his (initial_tracer demo_file_conf f mc 0x7000 offs S)"
  have fin: "finite (dom offs)" using o(2) card.infinite by fastforce
  have fresh: "depth (su_maps S) = Map.empty" "events (su_maps S) = []" by (simp_all add: S configure_fresh)
  note call = one_call_probed [OF fresh demo_entry_tracked [OF S fin o(3) six]]
  obtain lines where fin: "runProbe 0 (demo_world ?his) demo_file_conf = Some (Finished S 0x7000 offs ?T lines)" using run by blast
  have live: "\<not> t_exited ?T" by (rule call_inputs_live) (simp add: initial_tracer_def)
  have "same_config ?s (su_maps S)" by (simp add: same_config_def one_call_def)
  moreover have "c_tid demo_file_conf = 0" by (simp add: demo_file_conf_def demo_conf_def)
  moreover have "card (dom offs) \<le> max_entries argkind_map" using o(3) by (simp add: argkind_map_def)
  ultimately have "frames ?T (9, 0) \<noteq> None \<and> (\<forall>fr. frames ?T (9, 0) = Some fr \<longrightarrow> 0 \<le> fr_slot fr \<and> fr_slot fr < 233)"
    using traced_program_follows_calls [OF fin _ live _ _ _ _ _ call(1), of 9 0] call(2)
      key_order_visits room_for_contract by (simp add: demo_world_def)
  then obtain fr where "frames ?T (9, 0) = Some fr" "0 \<le> fr_slot fr" "fr_slot fr < 233" by blast
  with fin show ?thesis by blast
qed

end
