(* ===== verification/Signature.thy ===== *)
theory Signature
  imports Decode
begin

text \<open>
  The signature parser \<^verbatim>\<open>parseParams\<close> of \<^verbatim>\<open>loader/decode.go\<close> against the grammar of JNI
  type descriptors: on a well-formed method signature it returns exactly the parameter descriptors,
  and on any other string it returns non-empty pieces that are a prefix of the text after the opening
  parenthesis.
\<close>

datatype jdesc = JPrim char | JClass string | JArray jdesc

fun desc :: "jdesc \<Rightarrow> string" where
  "desc (JPrim c) = [c]"
| "desc (JClass n) = CHR ''L'' # n @ [CHR '';'']"
| "desc (JArray t) = CHR ''['' # desc t"

fun wf_desc :: "jdesc \<Rightarrow> bool" where
  "wf_desc (JPrim c) = (c \<in> set ''ZBCSIJFD'')"
| "wf_desc (JClass n) = (CHR '';'' \<notin> set n)"
| "wf_desc (JArray t) = wf_desc t"

section \<open>Positions and suffixes\<close>

lemma at_suffix: "drop i s = x # r \<Longrightarrow> i < length s \<and> s ! i = x \<and> drop (Suc i) s = r"
  by (metis drop_Suc drop_eq_Nil hd_drop_conv_nth leI list.distinct(1) list.sel(1,3) tl_drop)

lemma skip_to_semi_desc:
  "drop i s = n @ CHR '';'' # r \<Longrightarrow> CHR '';'' \<notin> set n \<Longrightarrow> skip_to_semi s i = i + length n"
proof (induction n arbitrary: i)
  case Nil
  then show ?case using at_suffix [of i s "CHR '';''" r] by (subst skip_to_semi.simps) simp
next
  case (Cons x n)
  from Cons.prems have a: "i < length s \<and> s ! i = x \<and> drop (Suc i) s = n @ CHR '';'' # r"
    by (intro at_suffix) simp
  with Cons show ?case by (subst skip_to_semi.simps) auto
qed

lemma skip_brackets_desc:
  "drop i s = replicate k (CHR ''['') @ x # r \<Longrightarrow> x \<noteq> CHR ''['' \<Longrightarrow> skip_brackets s i = i + k"
proof (induction k arbitrary: i)
  case 0
  then show ?case using at_suffix [of i s x r] by (subst skip_brackets.simps) simp
next
  case (Suc k)
  from Suc.prems have a: "i < length s \<and> s ! i = CHR ''['' \<and>
      drop (Suc i) s = replicate k (CHR ''['') @ x # r"
    by (intro at_suffix) simp
  with Suc show ?case by (subst skip_brackets.simps) simp
qed

lemma drop_replicate_append:
  "drop i s = replicate k x @ r \<Longrightarrow> drop (i + k) s = r"
  by (metis add.commute append_eq_conv_conj drop_drop length_replicate)

text \<open>A descriptor is a run of brackets and a primitive or a class.\<close>

definition base_desc :: "string \<Rightarrow> bool" where
  "base_desc b = ((\<exists>c \<in> set ''ZBCSIJFD''. b = [c]) \<or>
     (\<exists>n. CHR '';'' \<notin> set n \<and> b = CHR ''L'' # n @ [CHR '';'']))"

lemma desc_form: "wf_desc t \<Longrightarrow> \<exists>k b. desc t = replicate k (CHR ''['') @ b \<and> base_desc b"
proof (induction t)
  case (JPrim c)
  then have "base_desc [c]" unfolding base_desc_def wf_desc.simps by blast
  then show ?case by (intro exI [of _ 0] exI [of _ "[c]"]) simp
next
  case (JClass n)
  then have "base_desc (desc (JClass n))" unfolding base_desc_def by auto
  then show ?case by (intro exI [of _ 0] exI [of _ "desc (JClass n)"]) simp
next
  case (JArray t)
  then obtain k b where "desc t = replicate k (CHR ''['') @ b" and "base_desc b" by auto
  then show ?case by (intro exI [of _ "Suc k"] exI [of _ b]) simp
qed

lemma base_desc_start: "base_desc b \<Longrightarrow> \<exists>x b'. b = x # b' \<and> x \<noteq> CHR ''[''"
  by (auto simp: base_desc_def)

lemma param_end_base:
  assumes "drop i s = b @ r"
    and "base_desc b"
  shows "(if s ! i = CHR ''L'' then Suc (skip_to_semi s i) else Suc i) = i + length b \<and>
         i < length s \<and> s ! i \<noteq> CHR ''[''"
  using assms(2) unfolding base_desc_def
proof (elim disjE bexE exE conjE)
  fix c assume c: "c \<in> set ''ZBCSIJFD''" and b: "b = [c]"
  with assms(1) have "i < length s \<and> s ! i = c \<and> drop (Suc i) s = r" by (intro at_suffix) simp
  with b c show ?thesis by auto
next
  fix n assume n: "CHR '';'' \<notin> set n" and b: "b = CHR ''L'' # n @ [CHR '';'']"
  with assms(1) have a: "i < length s \<and> s ! i = CHR ''L'' \<and> drop (Suc i) s = n @ CHR '';'' # r"
    by (intro at_suffix) simp
  from assms(1) b have "drop i s = (CHR ''L'' # n) @ CHR '';'' # r" by simp
  from skip_to_semi_desc [OF this] n b a show ?thesis by simp
qed

lemma param_end_desc:
  assumes d: "drop i s = desc t @ r" and "wf_desc t"
  shows "param_end s i = i + length (desc t)"
proof -
  obtain k b where t: "desc t = replicate k (CHR ''['') @ b"
    and b: "base_desc b"
    using desc_form [OF assms(2)] by blast
  show ?thesis
  proof (cases k)
    case 0
    with t d have "drop i s = b @ r" by simp
    from param_end_base [OF this b] t 0 show ?thesis by (auto simp: param_end_def)
  next
    case (Suc k')
    from d t have dk: "drop i s = replicate k (CHR ''['') @ b @ r" by simp
    with Suc have a: "i < length s \<and> s ! i = CHR ''['' \<and>
        drop (Suc i) s = replicate k' (CHR ''['') @ b @ r"
      by (intro at_suffix) simp
    from drop_replicate_append [OF dk] have "drop (i + k) s = b @ r" .
    note base = param_end_base [OF this b]
    obtain x b' where x: "b = x # b'" "x \<noteq> CHR ''[''"
      using base_desc_start [OF b] by blast
    with a have "skip_brackets s (Suc i) = i + k"
      using skip_brackets_desc [of "Suc i" s k' x "b' @ r"] Suc by simp
    with a base t show ?thesis by (auto simp: param_end_def Let_def)
  qed
qed

lemma params_from_descs:
  "drop i s = concat (map desc ts) @ CHR '')'' # r \<Longrightarrow> list_all wf_desc ts \<Longrightarrow>
     params_from s i = map desc ts"
proof (induction ts arbitrary: i)
  case Nil
  then show ?case using at_suffix [of i s "CHR '')''" r] by (subst params_from.simps) simp
next
  case (Cons t ts)
  let ?tail = "concat (map desc ts) @ CHR '')'' # r"
  from Cons.prems have d: "drop i s = desc t @ ?tail" and wf: "wf_desc t" "list_all wf_desc ts"
    by simp_all
  have e: "param_end s i = i + length (desc t)" by (rule param_end_desc [OF d wf(1)])
  have ne: "desc t \<noteq> [] \<and> hd (desc t) \<noteq> CHR '')''" using wf(1) by (cases t) auto
  have at: "i < length s \<and> s ! i = hd (desc t)"
    using ne d at_suffix [of i s "hd (desc t)" "tl (desc t) @ ?tail"] by simp
  have rest: "drop (i + length (desc t)) s = ?tail"
    by (metis add.commute append_eq_conv_conj d drop_drop)
  then have "i + length (desc t) \<le> length s" by (metis Nil_is_append_conv drop_all leI less_imp_le list.distinct(1))
  moreover have "take (length (desc t)) (drop i s) = desc t" by (simp add: d)
  ultimately show ?case using at e ne Cons.IH [OF rest wf(2)]
    by (subst params_from.simps) (simp add: Let_def)
qed

text \<open>
  C22. The signature parser inverts the descriptor printer: for every list of well-formed JNI
  descriptors (primitives, classes, arrays of any dimension) and every return descriptor,
  \<^verbatim>\<open>parseParams\<close> of the method signature gives exactly the parameters, in order.
\<close>

theorem parseParams_round_trip:
  assumes "list_all wf_desc ts"
  shows "parseParams (CHR ''('' # concat (map desc ts) @ CHR '')'' # ret) = map desc ts"
  using params_from_descs [of 1 "CHR ''('' # concat (map desc ts) @ CHR '')'' # ret" ts ret] assms
  by (simp add: parseParams_def)

theorem parseParams_round_trip_witness:
  "parseParams ''([[ILjava/lang/String;Z)V'' = [''[[I'', ''Ljava/lang/String;'', ''Z'']"
  using parseParams_round_trip
    [of "[JArray (JArray (JPrim (CHR ''I''))), JClass ''java/lang/String'', JPrim (CHR ''Z'')]" "''V''"]
  by simp

section \<open>Any input\<close>

lemma params_from_prefix: "\<exists>r. concat (params_from s i) @ r = drop i s"
proof (induction s i rule: params_from.induct)
  case (1 s i)
  let ?j = "param_end s i"
  show ?case
  proof (cases "i < length s \<and> s ! i \<noteq> CHR '')'' \<and> ?j \<le> length s")
    case True
    then have eq: "params_from s i = take (?j - i) (drop i s) # params_from s ?j"
      using param_end_gt [of i s] by (subst params_from.simps) (simp add: Let_def)
    from True "1.IH" [OF _ refl] obtain r where "concat (params_from s ?j) @ r = drop ?j s" by blast
    moreover have "take (?j - i) (drop i s) @ drop ?j s = drop i s"
      using param_end_gt [of i s] by (metis append_take_drop_id drop_drop le_add_diff_inverse2 less_imp_le)
    ultimately show ?thesis using eq by (metis append.assoc concat.simps(2))
  next
    case False
    have "params_from s i = []"
    proof (cases "i < length s \<and> s ! i \<noteq> CHR '')''")
      case True
      with False have "length s < ?j" by simp
      then have "params_from s ?j = []" by (subst params_from.simps) simp
      with True \<open>length s < ?j\<close> show ?thesis by (subst params_from.simps) (simp add: Let_def)
    next
      case False
      then show ?thesis by (subst params_from.simps) auto
    qed
    then show ?thesis by simp
  qed
qed

lemma params_from_ne: "[] \<notin> set (params_from s i)"
proof (induction s i rule: params_from.induct)
  case (1 s i)
  then show ?case by (subst params_from.simps) (auto simp: Let_def)
qed

text \<open>
  C23. Whatever bytes the target hands over as a signature, the parser stops, every piece it returns is
  non-empty, and the pieces in order are a prefix of the text after the opening parenthesis: a
  truncated class name or array is dropped, never invented.
\<close>

theorem parseParams_pieces:
  "[] \<notin> set (parseParams sig) \<and>
   (parseParams sig = [] \<or> (\<exists>rest. sig = CHR ''('' # concat (parseParams sig) @ rest))"
proof (cases "sig = [] \<or> sig ! 0 \<noteq> CHR ''(''")
  case False
  then obtain r where sig: "sig = CHR ''('' # r" by (cases sig) auto
  then have "parseParams sig = params_from sig 1" by (simp add: parseParams_def)
  moreover obtain rest where "concat (params_from sig 1) @ rest = r"
    using params_from_prefix [of sig 1] sig by auto
  ultimately have "sig = CHR ''('' # concat (parseParams sig) @ rest" using sig by simp
  moreover have "[] \<notin> set (parseParams sig)"
    using params_from_ne [of sig 1] \<open>parseParams sig = _\<close> by simp
  ultimately show ?thesis by blast
qed (auto simp: parseParams_def)

end
