(* ===== verification/CallText.thy ===== *)
theory CallText
  imports Trace Signature SchemaFacts
begin

text \<open>
  The text of a call: how the identifiers learned from \<^verbatim>\<open>GetMethodID\<close> name later calls
  (\<^verbatim>\<open>handleReturn\<close> and \<^verbatim>\<open>describeCall\<close>), how the class and method are taken out of the
  text again for the filters (\<^verbatim>\<open>splitClassMethod\<close>), and which calls are never shown.
\<close>

section \<open>Naming a call\<close>

text \<open>The parts of the text of a call with a known method identifier.\<close>

definition call_args :: "gofmt \<Rightarrow> reconEvt \<Rightarrow> string \<Rightarrow> string list \<Rightarrow> caches \<Rightarrow> memReader \<Rightarrow> string list" where
  "call_args F e nm params c mr =
     (if hasSuffix nm ''A'' then decodeA F e params c mr
      else if hasSuffix nm ''V'' then decodeV F e params c mr else decodeDirect F e params c mr)"

definition call_class :: "reconEvt \<Rightarrow> nat \<Rightarrow> caches \<Rightarrow> memReader \<Rightarrow> string" where
  "call_class e i c mr =
     (let cls = classNameOfRef c mr (A e ! 1);
          cls = (if hasPrefix cls ''0x'' then
                   (case idClass c (A e ! i) of Some cl \<Rightarrow> classNameOfRef c mr cl | None \<Rightarrow> cls)
                 else cls)
      in if cls = '''' then ''?'' else cls)"

lemma length_decodeA_from [simp]: "length (decodeA_from F e i ts c mr) = length ts"
  by (induction ts arbitrary: i) simp_all

lemma length_decodeV_from [simp]: "length (decodeV_from F e g p ts c mr) = length ts"
  by (induction ts arbitrary: g p) simp_all

lemma length_decodeDirect_from [simp]: "length (decodeDirect_from F e i ts c mr) = length ts"
  by (induction ts arbitrary: i) simp_all

lemma length_call_args [simp]: "length (call_args F e nm ts c mr) = length ts"
  by (simp add: call_args_def decodeA_def decodeV_def decodeDirect_def)

definition method_sig :: "jdesc list \<Rightarrow> string \<Rightarrow> string" where
  "method_sig ts ret = CHR ''('' # concat (map desc ts) @ CHR '')'' # ret"

lemma splitNameSig_method: "CHR ''('' \<notin> set n \<Longrightarrow> splitNameSig (n @ method_sig ts ret) = (n, method_sig ts ret)"
  by (simp add: splitNameSig_def method_sig_def indexByte_append)

lemma parseParams_method_sig: "list_all wf_desc ts \<Longrightarrow> parseParams (method_sig ts ret) = map desc ts"
  by (simp add: method_sig_def parseParams_def params_from_descs [where r = ret])

lemma describeCall_known:
  assumes "isCallMethod nm = Some i" and "idName c (A e ! i) = Some (n @ method_sig ts ret)"
    and "CHR ''('' \<notin> set n" and "list_all wf_desc ts"
  shows "describeCall F e nm c mr =
    (call_class e i c mr @ ''.'' @ n @ ''('' @ str_join (call_args F e nm (map desc ts) c mr) '', '' @ '')'', True)"
  using assms
  by (simp add: describeCall_def splitNameSig_method parseParams_method_sig call_class_def call_args_def Let_def)

lemma describeCall_unknown:
  "isCallMethod nm = Some i \<Longrightarrow> idName c (A e ! i) = None \<Longrightarrow>
     describeCall F e nm c mr = (nm @ '' mid=0x'' @ fmt_hex (A e ! i) @ '' (?)'', False)"
  by (simp add: describeCall_def)

lemma feed_method_id:
  assumes "slotName (fr_slot fr) = ''GetMethodID'' \<or> slotName (fr_slot fr) = ''GetStaticMethodID''"
    and "mr \<noteq> None" and "rc \<noteq> 0" and "validName (mr_cstr mr (fr_a2 fr))" and "validSig (mr_cstr mr (fr_a3 fr))"
  shows "idName (feed_caches mr fr rc cs) rc = Some (mr_cstr mr (fr_a2 fr) @ mr_cstr mr (fr_a3 fr))"
  using assms by (auto simp: feed_caches_def fr2a_def Let_def)

text \<open>
  A resolved method identifier names the calls made through it: after the return of
  \<^verbatim>\<open>GetMethodID\<close> or \<^verbatim>\<open>GetStaticMethodID\<close> with name \<open>n\<close> and a well-formed signature, a call event
  whose identifier is the returned one is described as known, with the class, the method name and one
  printed argument per parameter of the signature.
\<close>

theorem resolved_id_names_calls:
  assumes "slotName (fr_slot fr) = ''GetMethodID'' \<or> slotName (fr_slot fr) = ''GetStaticMethodID''"
    and "mr \<noteq> None" and "rc \<noteq> 0" and "mr_cstr mr (fr_a2 fr) = n" and "validName n"
    and "mr_cstr mr (fr_a3 fr) = method_sig ts ret" and "validSig (method_sig ts ret)"
    and "CHR ''('' \<notin> set n" and "list_all wf_desc ts"
    and "isCallMethod nm = Some i" and "A e ! i = rc" and "cs' = feed_caches mr fr rc cs"
  shows "\<exists>args. length args = length ts \<and> args = call_args F e nm (map desc ts) cs' mr \<and>
    describeCall F e nm cs' mr =
      (call_class e i cs' mr @ ''.'' @ n @ ''('' @ str_join args '', '' @ '')'', True)"
  using describeCall_known [OF assms(10) _ assms(8,9), of cs' e ret F mr]
    feed_method_id [OF assms(1-3), of cs] assms(4-7,11,12) by simp

definition demo_name_mem :: mem where
  "demo_name_mem a =
     (if 0x5000 \<le> a \<and> a < 0x5004 then Some ([0x72, 0x75, 0x6E, 0] ! unat (a - 0x5000))
      else if 0x6000 \<le> a \<and> a < 0x6005 then Some ([0x28, 0x49, 0x29, 0x56, 0] ! unat (a - 0x6000))
      else None)"

definition demo_id_frame :: frame where
  "demo_id_frame = \<lparr>fr_slot = 33, fr_ts = 0, fr_call = '''', fr_caller = '''', fr_a1 = 0x77, fr_a2 = 0x5000,
     fr_a3 = 0x6000\<rparr>"

definition demo_call_event :: reconEvt where
  "demo_call_event = \<lparr>Pid = 1, Tid = 9, Kind = 0, Pad = 0, Ip = 0x1020, Rc = 0, Ts = 0, Depth = -1, Pad2 = 0,
     Caller = 0, A = [1, 0, 0x99, 5, 6], Ncap = 2, Argkind = 3, Res1 = 0, Res2 = 0, Cap = replicate 16 7,
     Cap2 = replicate 16 0, Vgr = 0, Vgoff = 0, Vstk = 0, Stackid = -1, Pad3 = 0\<rparr>"

lemma demo_chars:
  "char_of (114 :: nat) = CHR ''r''" "char_of (117 :: nat) = CHR ''u''" "char_of (110 :: nat) = CHR ''n''"
  "char_of (40 :: nat) = CHR ''(''" "char_of (73 :: nat) = CHR ''I''" "char_of (41 :: nat) = CHR '')''"
  "char_of (86 :: nat) = CHR ''V''"
  by code_simp+

lemma demo_names:
  "mr_cstr (Some demo_name_mem) 0x5000 = ''run''" "mr_cstr (Some demo_name_mem) 0x6000 = ''(I)V''"
  by (simp_all add: mr_cstr_def readAt_def read_num demo_name_mem_def byte_char_def Let_def demo_chars)

theorem resolved_id_names_calls_witness:
  "\<forall>F. fst (describeCall F demo_call_event ''CallVoidMethod''
      (feed_caches (Some demo_name_mem) demo_id_frame 0x99 newCaches) (Some demo_name_mem)) = ''null.run(7)''"
proof
  fix F
  let ?c = "feed_caches (Some demo_name_mem) demo_id_frame 0x99 newCaches" and ?m = "Some demo_name_mem"
  have slot: "slotName (fr_slot demo_id_frame) = ''GetMethodID'' \<or>
      slotName (fr_slot demo_id_frame) = ''GetStaticMethodID''"
    by (simp add: demo_id_frame_def slot_schema jniSchema_def jniSchema_lo_def)
  have names: "mr_cstr ?m (fr_a2 demo_id_frame) = ''run''"
    "mr_cstr ?m (fr_a3 demo_id_frame) = method_sig [JPrim (CHR ''I'')] ''V''"
    by (simp_all add: demo_id_frame_def demo_names method_sig_def)
  have valid: "validName ''run''" "validSig (method_sig [JPrim (CHR ''I'')] ''V'')"
    "list_all wf_desc [JPrim (CHR ''I'')]"
    by (simp_all add: validName_def validSig_def method_sig_def)
  have call: "isCallMethod ''CallVoidMethod'' = Some 2" "A demo_call_event ! 2 = 0x99"
    by (code_simp, simp add: demo_call_event_def)
  obtain args where a: "args = call_args F demo_call_event ''CallVoidMethod'' (map desc [JPrim (CHR ''I'')]) ?c ?m"
    and d: "describeCall F demo_call_event ''CallVoidMethod'' ?c ?m =
      (call_class demo_call_event 2 ?c ?m @ ''.'' @ ''run'' @ ''('' @ str_join args '', '' @ '')'', True)"
    using resolved_id_names_calls [OF slot _ _ names(1) valid(1) names(2) valid(2) _ valid(3) call refl, of F newCaches]
    by (simp del: desc.simps)
  have "call_class demo_call_event 2 ?c ?m = ''null''"
    by (simp add: call_class_def demo_call_event_def classNameOfRef_def hasPrefix_def)
  moreover have "args = [''7'']"
    unfolding a by (simp add: call_args_def hasSuffix_def hasPrefix_def decodeDirect_def demo_call_event_def fmtJV_def
        fmt_dec_def radix.simps digit_char_def)
  ultimately show "fst (describeCall F demo_call_event ''CallVoidMethod'' ?c ?m) = ''null.run(7)''"
    by (simp add: d)
qed

section \<open>Taking the text apart again\<close>

lemma splitClassMethod_last:
  "CHR ''.'' \<notin> set rest \<Longrightarrow> splitClassMethod (x @ CHR ''.'' # rest) =
     (x, case indexByte rest (CHR ''('') of Some j \<Rightarrow> take j rest | None \<Rightarrow> rest)"
  using lastIndexByte_append [of "CHR ''.''" rest x]
  by (cases "indexByte rest (CHR ''('')")
    (simp_all add: splitClassMethod_def Let_def del: indexByte_None)

text \<open>
  For the text of a call whose arguments hold no full stop, \<^verbatim>\<open>splitClassMethod\<close> gives back the
  class and the method name.
\<close>

theorem splitClassMethod_inverts:
  assumes "CHR ''.'' \<notin> set n" and "CHR ''('' \<notin> set n" and "CHR ''.'' \<notin> set args"
  shows "splitClassMethod (cls @ ''.'' @ n @ ''('' @ args @ '')'') = (cls, n)"
  using assms splitClassMethod_last [of "n @ ''('' @ args @ '')''" cls]
    indexByte_append [of "CHR ''(''" n "args @ '')''"] by simp

theorem splitClassMethod_inverts_witness:
  "splitClassMethod ''a.b.Target.setI(7)'' = (''a.b.Target'', ''setI'')"
  using splitClassMethod_inverts [of "''setI''" "''7''" "''a.b.Target''"] by simp

text \<open>
  C34. Arguments with a full stop break the split: for a call whose last full stop lies inside the
  arguments, the class handed to \<^verbatim>\<open>--class\<close> is the text up to that full stop, with the method name
  and the parenthesis in it, and the method handed to \<^verbatim>\<open>--method\<close> is the rest of the argument.
\<close>

theorem splitClassMethod_dotted_argument:
  assumes "CHR ''.'' \<notin> set b" and "CHR ''('' \<notin> set b"
  shows "splitClassMethod (cls @ ''.'' @ n @ ''('' @ a @ ''.'' @ b @ '')'') =
    (cls @ ''.'' @ n @ ''('' @ a, b @ '')'')"
  using assms splitClassMethod_last [of "b @ '')''" "cls @ ''.'' @ n @ ''('' @ a"]
    iffD2 [OF indexByte_None, of "CHR ''(''" "b @ '')''"]
  by (simp del: indexByte_None)

theorem splitClassMethod_dotted_argument_witness:
  "splitClassMethod ''Target.setF(1.5)'' = (''Target.setF(1'', ''5)'')"
  using splitClassMethod_dotted_argument [of "''5''" "''Target''" "''setF''" "''1''"] by simp

section \<open>Calls that are never shown\<close>

lemma push_frame_out [simp]:
  "out_lines (push_frame H e slot cl T) = out_lines T" "t_caches (push_frame H e slot cl T) = t_caches T"
  "counts (push_frame H e slot cl T) = counts T" "t_conf (push_frame H e slot cl T) = t_conf T"
  by (simp_all add: push_frame_def Let_def)

lemma set_frame_call_out [simp]:
  "out_lines (set_frame_call key call T) = out_lines T" "t_conf (set_frame_call key call T) = t_conf T"
  "counts (set_frame_call key call T) = counts T"
  by (simp_all add: set_frame_call_def split: option.split)

lemma call_entry_silent:
  "describeCall (h_fmt H) e nm (t_caches T) (h_mem H) = (call, False) \<Longrightarrow> \<not> c_verbose (t_conf T) \<Longrightarrow>
     out_lines (call_entry H e nm cl T) = out_lines T \<and> counts (call_entry H e nm cl T) = counts T"
  by (simp add: call_entry_def Let_def split: prod.split)

text \<open>
  C35. \<^verbatim>\<open>NewObjectArray\<close> is taken for a method call and its class argument for a method identifier: unless
  that reference happens to equal a known identifier, its entry is neither printed nor counted
  without \<^verbatim>\<open>--verbose\<close>, whatever the filters say.
\<close>

theorem NewObjectArray_never_shown:
  assumes "t_offsets T (Ip e - t_base T) = Some 172" and "idName (t_caches T) (A e ! 2) = None"
    and "\<not> c_verbose (t_conf T)"
  shows "out_lines (handleEntry H e T) = out_lines T \<and> counts (handleEntry H e T) = counts T \<and>
    slotName 172 = ''NewObjectArray''"
proof -
  have n: "slotName 172 = ''NewObjectArray''" by (simp add: slot_schema array_row)
  have i: "isCallMethod ''NewObjectArray'' = Some 2" by code_simp
  obtain cl mods where m: "mc_of (h_maps H) (h_now H) (t_mods T) (Caller e) = (cl, mods)"
    by (rule prod.exhaust)
  note silent = call_entry_silent [OF describeCall_unknown [OF i]]
  from assms m n i show ?thesis by (simp add: handleEntry_def Let_def silent)
qed

definition demo_array_tracer :: tracer where
  "demo_array_tracer = initial_tracer demo_conf demo_filters demo_mods 0x1000 [0x20 \<mapsto> 172]
     \<lparr>su_maps = demo_maps, callSet = (\<lambda>_. True), retSet = (\<lambda>_. False)\<rparr>"

theorem NewObjectArray_never_shown_witness:
  "out_lines (handleEntry demo_host demo_call_event demo_array_tracer) = []"
proof -
  have "t_offsets demo_array_tracer (Ip demo_call_event - t_base demo_array_tracer) = Some 172"
    and "idName (t_caches demo_array_tracer) (A demo_call_event ! 2) = None"
    and "\<not> c_verbose (t_conf demo_array_tracer)" and "out_lines demo_array_tracer = []"
    by (simp_all add: demo_array_tracer_def initial_tracer_def demo_call_event_def demo_conf_def newCaches_def)
  with NewObjectArray_never_shown [of demo_array_tracer demo_call_event demo_host] show ?thesis by simp
qed

end
