(* ===== verification/Calls.thy ===== *)
theory Calls
  imports Decode Capture Pairing
begin

text \<open>
  The argument decoders of \<^verbatim>\<open>loader/decode.go\<close> against the procedure call standard of the target:
  \<open>va_walk\<close> is what successive \<^verbatim>\<open>va_arg\<close> calls return on an AArch64 \<^verbatim>\<open>va_list\<close>, and
  \<open>reg_walk\<close> where the anonymous arguments of a variadic call lie in the registers. Both are
  specifications; the probes and the loader are compared with them.
\<close>

definition is_fp :: "string \<Rightarrow> bool" where
  "is_fp t = (t = ''F'' \<or> t = ''D'')"

section \<open>Reference: variable argument lists\<close>

definition va_arg :: "mem \<Rightarrow> string \<Rightarrow> va_list \<Rightarrow> u64 \<times> va_list" where
  "va_arg m t v =
     (if is_fp t \<and> sint (va_vr_offs v) < 0 then
        (rd64 m (va_vr_top v + scast (va_vr_offs v)), v\<lparr>va_vr_offs := va_vr_offs v + 16\<rparr>)
      else if \<not> is_fp t \<and> sint (va_gr_offs v) < 0 then
        (rd64 m (va_gr_top v + scast (va_gr_offs v)), v\<lparr>va_gr_offs := va_gr_offs v + 8\<rparr>)
      else (rd64 m (va_stack v), v\<lparr>va_stack := va_stack v + 8\<rparr>))"

fun va_walk :: "mem \<Rightarrow> va_list \<Rightarrow> string list \<Rightarrow> u64 list" where
  "va_walk m v [] = []"
| "va_walk m v (t # ts) = fst (va_arg m t v) # va_walk m (snd (va_arg m t v)) ts"

section \<open>Offsets\<close>

lemma sint_word_of_int_small:
  "- (2 ^ 31) \<le> k \<Longrightarrow> k < 2 ^ 31 \<Longrightarrow> sint (word_of_int k :: 32 word) = k"
  by (simp add: sint_uint uint_word_of_int_eq signed_take_bit_take_bit signed_take_bit_int_eq_self)

lemma sint_word_of_int_small64:
  "- (2 ^ 63) \<le> k \<Longrightarrow> k < 2 ^ 63 \<Longrightarrow> sint (word_of_int k :: 64 word) = k"
  by (simp add: sint_uint uint_word_of_int_eq signed_take_bit_take_bit signed_take_bit_int_eq_self)

lemma scast_word_of_int_small:
  "- (2 ^ 31) \<le> k \<Longrightarrow> k < 2 ^ 31 \<Longrightarrow> (scast (word_of_int k :: 32 word) :: u64) = word_of_int k"
  by (rule trans [OF of_int_sint [symmetric]]) (simp only: sint_word_of_int_small)

text \<open>The register save area of \<open>g\<close> unread words: the offset of the next one.\<close>

definition gr_offset :: "nat \<Rightarrow> s32" where
  "gr_offset g = word_of_int (- 8 * int g)"

lemma gr_offset_facts:
  assumes "g \<le> 8"
  shows "sint (gr_offset g) = - 8 * int g" and "(scast (gr_offset g) :: u64) = word_of_int (- 8 * int g)"
    and "sint (scast (gr_offset g) :: u64) = - 8 * int g"
proof -
  have r: "- (2 ^ 31) \<le> - 8 * int g" "- 8 * int g < 2 ^ 31" using assms by simp_all
  show "sint (gr_offset g) = - 8 * int g" using sint_word_of_int_small [OF r] by (simp add: gr_offset_def)
  show s: "(scast (gr_offset g) :: u64) = word_of_int (- 8 * int g)"
    using scast_word_of_int_small [OF r] by (simp add: gr_offset_def)
  show "sint (scast (gr_offset g) :: u64) = - 8 * int g"
    unfolding s using assms by (intro sint_word_of_int_small64) simp_all
qed

lemma gr_offset_Suc: "gr_offset (Suc g) + 8 = gr_offset g"
  by (simp add: gr_offset_def algebra_simps)

lemma gr_offset64_Suc: "word_of_int (- 8 * int (Suc g)) + 8 = (word_of_int (- 8 * int g) :: u64)"
  by (simp add: algebra_simps)

text \<open>The index \<^verbatim>\<open>decodeV\<close> computes is that of the saved register.\<close>

lemma saved_index:
  assumes "g < 8"
  shows "go_div8 (sint (tp + word_of_int (- 8 * int (Suc g)) - (tp - 128 :: u64))) = 15 - int g"
proof -
  have "tp + word_of_int (- 8 * int (Suc g)) - (tp - 128 :: u64) = word_of_int (120 - 8 * int g)"
    by (simp add: algebra_simps)
  moreover have "sint (word_of_int (120 - 8 * int g) :: u64) = 120 - 8 * int g"
    using assms by (intro sint_word_of_int_small64) simp_all
  ultimately show ?thesis using assms by (simp add: go_div8_def)
qed

lemma saved_word:
  assumes "g < 8"
  shows "cap_at (snapshot m (tp - 128)) (15 - int g) = rd64 m (tp + word_of_int (- 8 * int (Suc g)))"
proof -
  have "tp - 128 + word_of_nat (15 - g) * 8 = tp + word_of_int (- 8 * int (Suc g))"
    using assms by (simp add: of_nat_diff algebra_simps)
  moreover have "nat (15 - int g) = 15 - g" using assms by simp
  then have "cap_at (snapshot m (tp - 128)) (15 - int g) = rd64 m (tp - 128 + word_of_nat (15 - g) * 8)"
    using assms by (simp only: cap_at_def) (simp add: goNCAP_def snapshot_nth NCAP_def)
  ultimately show ?thesis by (simp only:)
qed

lemma stack_word:
  assumes "k < 16"
  shows "cap_at (snapshot m p) (int (unat ((p + word_of_nat k * 8) - p) div 8)) = rd64 m (p + word_of_nat k * 8)"
proof -
  have "unat (word_of_nat k * 8 :: u64) = k * 8"
    using assms by (simp add: unat_word_ariths unsigned_of_nat take_bit_nat_def)
  then show ?thesis using assms by (simp add: cap_at_def goNCAP_def snapshot_nth NCAP_def)
qed

lemma gr_next: "g < 8 \<Longrightarrow> (scast (gr_offset (Suc g)) :: u64) + 8 = scast (gr_offset g)"
  by (simp add: gr_offset_facts(2) algebra_simps)

definition vr_offset :: "nat \<Rightarrow> s32" where
  "vr_offset f = word_of_int (- 16 * int f)"

lemma vr_offset_facts:
  "f \<le> 8 \<Longrightarrow> sint (vr_offset f) = - 16 * int f" "vr_offset (Suc f) + 16 = vr_offset f"
proof -
  show "sint (vr_offset f) = - 16 * int f" if "f \<le> 8"
    unfolding vr_offset_def using that by (intro sint_word_of_int_small) simp_all
  show "vr_offset (Suc f) + 16 = vr_offset f" by (simp add: vr_offset_def algebra_simps)
qed

section \<open>The decoder of va_list snapshots\<close>

text \<open>
  A \<^verbatim>\<open>va_list\<close> with \<open>g\<close> unread general and \<open>f\<close> unread floating-point argument registers.
\<close>

definition va_regs :: "va_list \<Rightarrow> nat \<Rightarrow> nat \<Rightarrow> bool" where
  "va_regs v g f = (g \<le> 8 \<and> f \<le> 8 \<and> va_gr_offs v = gr_offset g \<and> va_vr_offs v = vr_offset f)"

definition shown :: "gofmt \<Rightarrow> caches \<Rightarrow> memReader \<Rightarrow> string \<Rightarrow> u64 \<Rightarrow> string" where
  "shown F c mr t x = (if is_fp t then ''?'' else fmtJV F t x c mr)"

abbreviation fp_count :: "string list \<Rightarrow> nat" where
  "fp_count ts \<equiv> length (filter is_fp ts)"

abbreviation gp_count :: "string list \<Rightarrow> nat" where
  "gp_count ts \<equiv> length (filter (\<lambda>t. \<not> is_fp t) ts)"

lemma va_arg_fp:
  assumes "is_fp t" and "va_regs v g (Suc f)"
  shows "snd (va_arg m t v) = v\<lparr>va_vr_offs := vr_offset f\<rparr>"
  using assms vr_offset_facts(1) [of "Suc f"] vr_offset_facts(2) [of f]
  by (simp add: va_arg_def va_regs_def)

lemma va_arg_gp:
  assumes "\<not> is_fp t" and "va_regs v (Suc g) f"
  shows "va_arg m t v =
    (rd64 m (va_gr_top v + word_of_int (- 8 * int (Suc g))), v\<lparr>va_gr_offs := gr_offset g\<rparr>)"
  using assms gr_offset_facts(1,2) [of "Suc g"] gr_offset_Suc [of g]
  by (simp add: va_arg_def va_regs_def del: of_int_minus of_int_mult mult_minus_left of_nat_Suc)

lemma va_arg_stack:
  assumes "\<not> is_fp t" and "va_regs v 0 f"
  shows "va_arg m t v = (rd64 m (va_stack v), v\<lparr>va_stack := va_stack v + 8\<rparr>)"
  using assms gr_offset_facts(1) [of 0] by (simp add: va_arg_def va_regs_def)

lemma decodeV_from_walk:
  assumes "Vgr e = va_gr_top v" and "va_gr_top v \<noteq> 0"
    and "Cap e = snapshot m (va_gr_top v - 128)" and "Cap2 e = snapshot m (Vstk e)"
    and "va_regs v g f" and "va_stack v = Vstk e + word_of_nat k * 8"
    and "fp_count ts \<le> f" and "k + (gp_count ts - g) \<le> 16"
  shows "decodeV_from F e (scast (gr_offset g)) (va_stack v) ts c mr =
    map2 (shown F c mr) ts (va_walk m v ts)"
  using assms
proof (induction ts arbitrary: v g f k)
  case (Cons t ts)
  note e = Cons.prems(1-4)
  show ?case
  proof (cases "is_fp t")
    case True
    then obtain f' where f': "f = Suc f'" using Cons.prems(7) by (cases f) simp_all
    let ?v = "v\<lparr>va_vr_offs := vr_offset f'\<rparr>"
    have "va_regs ?v g f'" using Cons.prems(5) f' by (simp add: va_regs_def)
    then have "decodeV_from F e (scast (gr_offset g)) (va_stack ?v) ts c mr =
        map2 (shown F c mr) ts (va_walk m ?v ts)"
      using Cons.prems True f' by (intro Cons.IH [where k = k]) simp_all
    moreover have "snd (va_arg m t v) = ?v" using va_arg_fp True Cons.prems(5) f' by blast
    ultimately show ?thesis using True by (simp add: shown_def is_fp_def)
  next
    case fp: False
    then have t: "\<not> (t = ''F'' \<or> t = ''D'')" by (simp add: is_fp_def)
    have sh: "shown F c mr t x = fmtJV F t x c mr" for x using fp by (simp add: shown_def)
    show ?thesis
    proof (cases g)
      case (Suc g')
      then have g8: "g' < 8" using Cons.prems(5) by (simp add: va_regs_def)
      let ?v = "v\<lparr>va_gr_offs := gr_offset g'\<rparr>"
      have "va_regs ?v g' f" using Cons.prems(5) Suc by (simp add: va_regs_def)
      then have "decodeV_from F e (scast (gr_offset g')) (va_stack ?v) ts c mr =
          map2 (shown F c mr) ts (va_walk m ?v ts)"
        using Cons.prems fp Suc by (intro Cons.IH [where k = k]) simp_all
      then have ih: "decodeV_from F e (scast (gr_offset g')) (va_stack v) ts c mr =
          map2 (shown F c mr) ts (va_walk m ?v ts)" by simp
      have neg: "sint (scast (gr_offset (Suc g')) :: u64) < 0"
        using gr_offset_facts(3) [of "Suc g'"] g8 by simp
      note va = va_arg_gp [OF fp Cons.prems(5) [unfolded Suc], of m]
      have idx: "go_div8 (sint (Vgr e + scast (gr_offset (Suc g')) - (Vgr e - 128))) = 15 - int g'"
        using saved_index [OF g8, of "Vgr e"] gr_offset_facts(2) [of "Suc g'"] g8 by (simp only: Suc_le_eq)
      show ?thesis
        using e(2) by (simp only: Suc decodeV_from.simps t if_False e(1) neg simp_thms if_True
            idx [unfolded e(1)] e(3) saved_word [OF g8] gr_next [OF g8] va_walk.simps va fst_conv snd_conv
            zip_Cons_Cons list.map case_prod_conv sh ih)
    next
      case 0
      have k: "k < 16" using Cons.prems(8) fp 0 by simp
      let ?v = "v\<lparr>va_stack := va_stack v + 8\<rparr>"
      have "va_regs ?v 0 f" using Cons.prems(5) 0 by (simp add: va_regs_def)
      moreover have "va_stack ?v = Vstk e + word_of_nat (Suc k) * 8"
        using Cons.prems(6) by (simp add: algebra_simps)
      ultimately have "decodeV_from F e (scast (gr_offset 0)) (va_stack ?v) ts c mr =
          map2 (shown F c mr) ts (va_walk m ?v ts)"
        using Cons.prems fp 0 by (intro Cons.IH [where k = "Suc k"]) simp_all
      then have ih: "decodeV_from F e (scast (gr_offset 0)) (va_stack v + 8) ts c mr =
          map2 (shown F c mr) ts (va_walk m ?v ts)" by simp
      have nneg: "\<not> sint (scast (gr_offset 0) :: u64) < 0" using gr_offset_facts(3) [of 0] by simp
      note va = va_arg_stack [OF fp Cons.prems(5) [unfolded 0], of m]
      have rd: "cap_at (Cap2 e) (int (unat (va_stack v - Vstk e) div 8)) = rd64 m (va_stack v)"
        unfolding Cons.prems(4,6) by (rule stack_word [OF k])
      show ?thesis
        by (simp only: 0 decodeV_from.simps t if_False nneg simp_thms rd va_walk.simps va fst_conv
            snd_conv zip_Cons_Cons list.map case_prod_conv sh ih)
    qed
  qed
qed simp

section \<open>Reference: anonymous arguments in registers\<close>

text \<open>
  A variadic call passes its general arguments in the registers from number \<open>i\<close> on and its
  floating-point arguments elsewhere; \<^const>\<open>None\<close> is an argument that no general register holds.
\<close>

fun reg_walk :: "pt_regs \<Rightarrow> nat \<Rightarrow> string list \<Rightarrow> u64 option list" where
  "reg_walk ctx i [] = []"
| "reg_walk ctx i (t # ts) =
     (if is_fp t then None # reg_walk ctx i ts
      else (if i < 8 then Some (regs ctx ! i) else None) # reg_walk ctx (Suc i) ts)"

lemma reg_walk_no_fp:
  "fp_count ts = 0 \<Longrightarrow> reg_walk ctx i ts =
     map (\<lambda>j. if i + j < 8 then Some (regs ctx ! (i + j)) else None) [0..<length ts]"
proof (induction ts arbitrary: i)
  case (Cons t ts)
  from Cons show ?case by (simp add: upt_shift comp_def del: upt_Suc split: if_splits)
qed simp

section \<open>The event of a call\<close>

text \<open>Kind and register index of the argument snapshot that is configured for the probed address.\<close>

definition snapshot_site :: "rmaps \<Rightarrow> pt_regs \<Rightarrow> (u8 \<times> u8) option" where
  "snapshot_site s ctx =
     (case array_lookup (cfg s) 0 of None \<Rightarrow> None
      | Some base \<Rightarrow>
          (case (argkind s (PT_REGS_IP ctx - base), argidx s (PT_REGS_IP ctx - base)) of
             (Some k, Some ix) \<Rightarrow> Some (k, ix) | _ \<Rightarrow> None))"

lemma snapshot_site_event:
  assumes "rb_mem K = Some g" and "snapshot_site s ctx = Some (k, ix)" and "k \<noteq> 0" and "unat ix < NARGS"
  shows "\<exists>e. ev_a e = map (\<lambda>i. PT_REGS_PARM i ctx) [1..<6] \<and> length (ev_cap e) = length (ev_cap g) \<and>
     last_event (up_all K ctx s) = snap_stack K ctx s
       (capture (umem K) e (PT_REGS_PARM (Suc (unat ix)) ctx) (uint k) (uint ix))"
proof -
  obtain base where b: "array_lookup (cfg s) 0 = Some base"
    and a: "argkind s (PT_REGS_IP ctx - base) = Some k" "argidx s (PT_REGS_IP ctx - base) = Some ix"
    using assms(2) by (auto simp: snapshot_site_def split: option.splits)
  let ?e = "fst (track_entry K (PT_REGS_IP ctx - base) (init_entry K ctx g) s)"
  have ea: "ev_a ?e = map (\<lambda>i. PT_REGS_PARM i ctx) [1..<6]"
    by (simp add: init_entry_def upt_rec numeral_eq_Suc)
  then have "ev_a ?e ! unat ix = PT_REGS_PARM (Suc (unat ix)) ctx"
    using assms(4) by (simp add: NARGS_def)
  moreover have "length (ev_cap ?e) = length (ev_cap g)" by (simp add: init_entry_def)
  ultimately show ?thesis using ea assms(3,4) a b
    by (intro exI [of _ ?e])
      (simp add: last_event_def events_up_all [OF assms(1)] entry_event_def snap_args_def)
qed

text \<open>What the decoders read of an event.\<close>

lemma mirror_decoded [simp]:
  "Cap (mirror (snap_stack K ctx s e)) = ev_cap e" "Cap2 (mirror (snap_stack K ctx s e)) = ev_cap2 e"
  "Vgr (mirror (snap_stack K ctx s e)) = ev_vgr e" "Vgoff (mirror (snap_stack K ctx s e)) = ev_vgoff e"
  "Vstk (mirror (snap_stack K ctx s e)) = ev_vstk e" "Ncap (mirror (snap_stack K ctx s e)) = ev_ncap e"
  by (simp_all add: mirror_def)

lemma decodeA_from_map:
  "decodeA_from F e i ts c mr =
     map (\<lambda>j. if i + j < goNCAP then fmtJV F (ts ! j) (Cap e ! (i + j)) c mr else ''?'') [0..<length ts]"
proof (induction ts arbitrary: i)
  case (Cons t ts)
  from Cons show ?case by (simp add: upt_shift comp_def not_le del: upt_Suc)
qed simp

lemma decodeDirect_from_map:
  "decodeDirect_from F e i ts c mr =
     map (\<lambda>j. if i + j < unat (Ncap e) \<and> i + j < 2 then fmtJV F (ts ! j) (Cap e ! (i + j)) c mr else ''?'')
       [0..<length ts]"
proof (induction ts arbitrary: i)
  case (Cons t ts)
  from Cons show ?case by (auto simp: upt_shift comp_def not_le simp del: upt_Suc)
qed simp

section \<open>What the loader prints for the arguments of a call\<close>

lemma decodeA_event:
  assumes "rb_mem K = Some g" and "snapshot_site s ctx = Some (1, ix)" and "unat ix < NARGS"
  shows "decodeA F (mirror (last_event (up_all K ctx s))) ts c mr =
    map (\<lambda>i. if i < NCAP
             then fmtJV F (ts ! i) (rd64 (umem K) (PT_REGS_PARM (Suc (unat ix)) ctx + word_of_nat i * 8)) c mr
             else ''?'') [0..<length ts]"
proof -
  obtain e where "last_event (up_all K ctx s) = snap_stack K ctx s
      (capture (umem K) e (PT_REGS_PARM (Suc (unat ix)) ctx) 1 (uint ix))"
    using snapshot_site_event [OF assms(1,2) _ assms(3)] by auto
  then show ?thesis
    by (simp add: decodeA_def decodeA_from_map capture_jvalues snapshot_nth NCAP_def goNCAP_def)
qed

text \<open>
  C11. Calls through a \<^verbatim>\<open>jvalue\<close> array: for the event of the entry probe at a call slot of kind 1,
  \<^verbatim>\<open>decodeA\<close> prints the i-th argument from the i-th 64-bit word of the caller's array (0 where it
  cannot be read) according to the i-th parameter type, for the first sixteen parameters, and a
  question mark for every later one.
\<close>

theorem jvalue_arguments_print:
  assumes "rb_mem K = Some g" and "snapshot_site s ctx = Some (1, ix)" and "unat ix < NARGS"
  shows "decodeA F (mirror (last_event (up_all K ctx s))) ts c mr =
    map (\<lambda>i. if i < NCAP
             then fmtJV F (ts ! i) (rd64 (umem K) (PT_REGS_PARM (Suc (unat ix)) ctx + word_of_nat i * 8)) c mr
             else ''?'') [0..<length ts]"
  using assms by (rule decodeA_event)

definition demo_call_maps :: "u8 \<Rightarrow> rmaps" where
  "demo_call_maps k = demo_maps\<lparr>argkind := [16 \<mapsto> k]\<rparr>"

definition demo_call_env :: "mem \<Rightarrow> evt_t kenv" where
  "demo_call_env m = demo_in\<lparr>umem := m\<rparr>"

definition demo_va_regs :: pt_regs where
  "demo_va_regs = demo_regs 0x1010 [1, 2, 3, 0x2000, 42]"

lemma demo_snapshot_site: "snapshot_site (demo_call_maps k) demo_va_regs = Some (k, 3)"
  by (simp add: snapshot_site_def demo_call_maps_def demo_va_regs_def demo_defs array_lookup_def
      PT_REGS_IP_def)

lemma demo_call_rb: "rb_mem (demo_call_env m) = Some (stale 0xDEAD)"
  by (simp add: demo_call_env_def demo_in_def demo_env_def)

lemma demo_parm: "PT_REGS_PARM (Suc (unat (3 :: u8))) demo_va_regs = 0x2000"
  by (simp add: PT_REGS_PARM_def demo_va_regs_def demo_regs_def)

definition demo_array_mem :: mem where
  "demo_array_mem a = (if a < 0x2000 \<or> 0x2010 \<le> a then None
     else Some (if a = 0x2000 then 0xFE else if a < 0x2004 then 0xFF else if a = 0x2008 then 1 else 0))"

theorem jvalue_arguments_print_witness:
  "\<forall>F c. decodeA F (mirror (last_event (up_all (demo_call_env demo_array_mem) demo_va_regs
      (demo_call_maps 1)))) [''I'', ''Z''] c None = [''-2'', ''true'']"
proof (intro allI)
  fix F c
  have mem: "umem (demo_call_env demo_array_mem) = demo_array_mem" by (simp add: demo_call_env_def)
  have rd: "rd64 demo_array_mem 0x2000 = 0xFFFFFFFE" "rd64 demo_array_mem 0x2008 = 1"
    by (simp_all add: rd64_def demo_array_mem_def read_num get64_def)
  have "unat (3 :: u8) < NARGS" by (simp add: NARGS_def)
  note jvalue_arguments_print [OF demo_call_rb [of demo_array_mem] demo_snapshot_site this, unfolded mem demo_parm]
  moreover have "fmt_dec (- 2) = ''-2''" by code_simp
  ultimately show "decodeA F (mirror (last_event (up_all (demo_call_env demo_array_mem) demo_va_regs
      (demo_call_maps 1)))) [''I'', ''Z''] c None = [''-2'', ''true'']"
    by (simp add: NCAP_def upt_rec rd fmtJV_def fmt_bool_def)
qed

text \<open>The captured words of a \<^verbatim>\<open>va_list\<close> call.\<close>

lemma va_event:
  assumes "rb_mem K = Some g" and "snapshot_site s ctx = Some (2, ix)" and "unat ix < NARGS"
    and "va_list_at (umem K) (PT_REGS_PARM (Suc (unat ix)) ctx) v" and "va_regs v n f"
  defines "e \<equiv> mirror (last_event (up_all K ctx s))"
  shows "Vgr e = va_gr_top v" and "Cap e = snapshot (umem K) (va_gr_top v - 128)"
    and "Vstk e = va_stack v" and "Cap2 e = snapshot (umem K) (Vstk e)"
    and "Vgoff e = scast (gr_offset n)"
proof -
  obtain e' where e': "last_event (up_all K ctx s) = snap_stack K ctx s
      (capture (umem K) e' (PT_REGS_PARM (Suc (unat ix)) ctx) 2 (uint ix))"
    using snapshot_site_event [OF assms(1,2) _ assms(3)] by auto
  note cap = capture_va_list [OF assms(4)]
  show "Vgr e = va_gr_top v" "Cap e = snapshot (umem K) (va_gr_top v - 128)"
    "Vstk e = va_stack v" "Cap2 e = snapshot (umem K) (Vstk e)"
    unfolding e_def e' mirror_decoded by (simp_all only: cap)
  show "Vgoff e = scast (gr_offset n)"
    using assms(5) unfolding e_def e' mirror_decoded cap va_regs_def by simp
qed

lemma decodeV_event:
  assumes "rb_mem K = Some g" and "snapshot_site s ctx = Some (2, ix)" and "unat ix < NARGS"
    and "va_list_at (umem K) (PT_REGS_PARM (Suc (unat ix)) ctx) v" and "va_regs v n f"
    and "va_gr_top v \<noteq> 0" and "fp_count ts \<le> f" and "gp_count ts \<le> n + NCAP"
  shows "decodeV F (mirror (last_event (up_all K ctx s))) ts c mr =
    map2 (shown F c mr) ts (va_walk (umem K) v ts)"
proof -
  note ev = va_event [OF assms(1-5)]
  have "va_stack v = Vstk (mirror (last_event (up_all K ctx s))) + word_of_nat 0 * 8" by (simp add: ev(3))
  moreover have "0 + (gp_count ts - n) \<le> 16" using assms(8) by (simp add: NCAP_def)
  ultimately show ?thesis
    unfolding decodeV_def ev(5)
    using decodeV_from_walk [OF ev(1) assms(6) ev(2,4) assms(5) _ assms(7)] ev(3) by metis
qed

text \<open>
  C10. Calls through a \<^verbatim>\<open>va_list\<close>: when the list has \<open>g\<close> unread general and \<open>f\<close> unread
  floating-point registers, \<^verbatim>\<open>decodeV\<close> prints for every parameter that is not of floating type
  exactly the value that successive \<^verbatim>\<open>va_arg\<close> calls return (registers first, then the stack),
  and a question mark for the floating ones, as long as the floating parameters fit the registers
  and at most sixteen arguments lie on the stack.
\<close>

theorem va_list_arguments_print:
  assumes "rb_mem K = Some g" and "snapshot_site s ctx = Some (2, ix)" and "unat ix < NARGS"
    and "va_list_at (umem K) (PT_REGS_PARM (Suc (unat ix)) ctx) v" and "va_regs v n f"
    and "va_gr_top v \<noteq> 0" and "fp_count ts \<le> f" and "gp_count ts \<le> n + NCAP"
  shows "decodeV F (mirror (last_event (up_all K ctx s))) ts c mr =
    map2 (shown F c mr) ts (va_walk (umem K) v ts)"
  using assms by (rule decodeV_event)

definition demo_va_mem :: mem where
  "demo_va_mem a = Some (if a = 0x2001 then 0x40 else if a = 0x2009 then 0x30
     else if a = 0x2018 then 0xF8 else if 0x2019 \<le> a \<and> a < 0x201C then 0xFF
     else if a = 0x2FF8 then 7 else if a = 0x4000 then 9 else 0)"

definition demo_va :: va_list where
  "demo_va = \<lparr>va_stack = 0x4000, va_gr_top = 0x3000, va_vr_top = 0, va_gr_offs = -8, va_vr_offs = 0\<rparr>"

theorem va_list_arguments_print_witness:
  "\<forall>F c. decodeV F (mirror (last_event (up_all (demo_call_env demo_va_mem) demo_va_regs
      (demo_call_maps 2)))) [''I'', ''J''] c None = [''7'', ''9'']"
proof (intro allI)
  fix F c
  have mem: "umem (demo_call_env demo_va_mem) = demo_va_mem" by (simp add: demo_call_env_def)
  have at: "va_list_at demo_va_mem 0x2000 demo_va"
    by (simp add: va_list_at_def demo_va_mem_def demo_va_def va_list_bytes_def read_num put64_def put32_def)
  have walk: "va_walk demo_va_mem demo_va [''I'', ''J''] = [7, 9]"
    by (simp add: va_arg_def is_fp_def demo_va_mem_def demo_va_def rd64_def read_num get64_def)
  have ix: "unat (3 :: u8) < NARGS" by (simp add: NARGS_def)
  have at': "va_list_at (umem (demo_call_env demo_va_mem)) (PT_REGS_PARM (Suc (unat (3 :: u8))) demo_va_regs) demo_va"
    unfolding mem demo_parm by (rule at)
  have regs: "va_regs demo_va 1 0" by (simp add: va_regs_def demo_va_def gr_offset_def vr_offset_def)
  have top: "va_gr_top demo_va \<noteq> 0" by (simp add: demo_va_def)
  have "fp_count [''I'', ''J''] \<le> 0" and "gp_count [''I'', ''J''] \<le> 1 + NCAP"
    by (simp_all add: is_fp_def NCAP_def)
  note va_list_arguments_print [OF demo_call_rb demo_snapshot_site ix at' regs top this, of F c None, unfolded mem walk]
  moreover have "fmt_dec 7 = ''7''" "fmt_dec 9 = ''9''" by code_simp+
  ultimately show "decodeV F (mirror (last_event (up_all (demo_call_env demo_va_mem) demo_va_regs
      (demo_call_maps 2)))) [''I'', ''J''] c None = [''7'', ''9'']"
    by (simp add: is_fp_def shown_def fmtJV_def)
qed

text \<open>The captured registers of a variadic call.\<close>

lemma register_event:
  assumes "rb_mem K = Some g" and "length (ev_cap g) = NCAP" and "snapshot_site s ctx = Some (3, ix)"
    and "unat ix < NARGS"
  shows "unat (Ncap (mirror (last_event (up_all K ctx s)))) = NARGS - unat ix"
    and "Cap (mirror (last_event (up_all K ctx s))) ! 0 = regs ctx ! unat ix"
    and "Suc 0 < NARGS - unat ix \<Longrightarrow>
           Cap (mirror (last_event (up_all K ctx s))) ! Suc 0 = regs ctx ! Suc (unat ix)"
proof -
  obtain e where e: "last_event (up_all K ctx s) = snap_stack K ctx s
      (capture (umem K) e (PT_REGS_PARM (Suc (unat ix)) ctx) 3 (uint ix))"
    and a: "ev_a e = map (\<lambda>i. PT_REGS_PARM i ctx) [1..<6]" and l: "length (ev_cap e) = NCAP"
    using snapshot_site_event [OF assms(1,3) _ assms(4)] assms(2) by auto
  let ?e = "mirror (last_event (up_all K ctx s))"
  have "unat (ucast ix :: u32) = unat ix"
    using assms(4) by (simp add: NARGS_def unsigned_ucast_eq take_bit_nat_def)
  then have "unat (5 - ucast ix :: u32) = 5 - unat ix"
    using assms(4) by (simp add: NARGS_def unat_sub word_le_nat_alt)
  then show "unat (Ncap ?e) = NARGS - unat ix"
    unfolding e mirror_decoded capture_def Let_def by (simp add: NARGS_def)
  show "Cap ?e ! 0 = regs ctx ! unat ix"
    using assms(4) l unfolding e mirror_decoded capture_def Let_def
    by (simp add: a NCAP_def NARGS_def PT_REGS_PARM_def nth_append)
  show "Cap ?e ! Suc 0 = regs ctx ! Suc (unat ix)" if "Suc 0 < NARGS - unat ix"
  proof -
    from that have u: "unat ix < 4" by (simp add: NARGS_def)
    then have "uint ix < 4" unfolding unat_eq_nat_uint by linarith
    with u l show ?thesis unfolding e mirror_decoded capture_def Let_def
      by (simp add: a NCAP_def NARGS_def PT_REGS_PARM_def nat_add_distrib del: upt_Suc)
  qed
qed

lemma decodeDirect_event:
  assumes "rb_mem K = Some g" and "length (ev_cap g) = NCAP" and "snapshot_site s ctx = Some (3, ix)"
    and "unat ix < NARGS" and "fp_count ts = 0"
  shows "decodeDirect F (mirror (last_event (up_all K ctx s))) ts c mr =
    map (\<lambda>i. if i < 2 \<and> i < NARGS - unat ix
             then fmtJV F (ts ! i) (the (reg_walk ctx (unat ix) ts ! i)) c mr else ''?'') [0..<length ts]"
  unfolding decodeDirect_def decodeDirect_from_map register_event(1) [OF assms(1-4)] add_0
  using assms(4) register_event(2,3) [OF assms(1-4)]
  by (intro map_cong refl) (auto simp: less_2_cases_iff reg_walk_no_fp [OF assms(5)] NARGS_def)

text \<open>
  C12. Variadic calls: when no parameter is of floating type, \<^verbatim>\<open>decodeDirect\<close> prints the arguments
  that lie in the captured registers (the two from the configured one on, or the single last one)
  from exactly the register that holds them, and a question mark for every later one.
\<close>

theorem register_arguments_print:
  assumes "rb_mem K = Some g" and "length (ev_cap g) = NCAP" and "snapshot_site s ctx = Some (3, ix)"
    and "unat ix < NARGS" and "fp_count ts = 0"
  shows "decodeDirect F (mirror (last_event (up_all K ctx s))) ts c mr =
    map (\<lambda>i. if i < 2 \<and> i < NARGS - unat ix
             then fmtJV F (ts ! i) (the (reg_walk ctx (unat ix) ts ! i)) c mr else ''?'') [0..<length ts]"
  using assms by (rule decodeDirect_event)

theorem register_arguments_print_witness:
  "\<forall>F c m. decodeDirect F (mirror (last_event (up_all (demo_call_env m) demo_va_regs
      (demo_call_maps 3)))) [''J'', ''I'', ''I''] c None = [''8192'', ''42'', ''?'']"
proof (intro allI)
  fix F c m
  have "length (ev_cap (stale 0xDEAD)) = NCAP" and ix: "unat (3 :: u8) < NARGS"
    and fp: "fp_count [''J'', ''I'', ''I''] = 0"
    by (simp_all add: stale_def NARGS_def is_fp_def)
  note register_arguments_print [OF demo_call_rb this(1) demo_snapshot_site ix fp, of F m c None]
  moreover have "fmt_dec 8192 = ''8192''" "fmt_dec 42 = ''42''"
    by (simp_all add: fmt_dec_def radix.simps digit_char_def)
  ultimately show "decodeDirect F (mirror (last_event (up_all (demo_call_env m) demo_va_regs
      (demo_call_maps 3)))) [''J'', ''I'', ''I''] c None = [''8192'', ''42'', ''?'']"
    by (simp add: upt_rec NARGS_def is_fp_def fmtJV_def demo_va_regs_def demo_regs_def)
qed

section \<open>Floating-point arguments\<close>

text \<open>
  C33. A floating argument of a variadic call is misread: the decoder takes captured general registers
  for all parameters in turn, so for a method with parameters \<^verbatim>\<open>(D, t)\<close> it prints the value of
  the second argument as the bits of the double, and an unrelated register as the second argument.
\<close>

theorem register_float_misreads:
  assumes "rb_mem K = Some g" and "length (ev_cap g) = NCAP" and "snapshot_site s ctx = Some (3, ix)"
    and "unat ix = 3" and "\<not> is_fp t"
  shows "decodeDirect F (mirror (last_event (up_all K ctx s))) [''D'', t] c mr =
      [fmtF64 F (regs ctx ! 3), fmtJV F t (regs ctx ! 4) c mr] \<and>
    reg_walk ctx 3 [''D'', t] = [None, Some (regs ctx ! 3)]"
proof -
  have ix: "unat ix < NARGS" using assms(4) by (simp add: NARGS_def)
  note ev = register_event [OF assms(1-3) ix]
  have "Suc 0 < NARGS - unat ix" using assms(4) by (simp add: NARGS_def)
  with ev assms(4,5) show ?thesis
    by (simp add: decodeDirect_def NARGS_def fmtJV_def is_fp_def)
qed

theorem register_float_misreads_witness:
  "\<forall>F c m. decodeDirect F (mirror (last_event (up_all (demo_call_env m) demo_va_regs
      (demo_call_maps 3)))) [''D'', ''I''] c None = [fmtF64 F 8192, ''42'']"
proof (intro allI)
  fix F c m
  have l: "length (ev_cap (stale 0xDEAD)) = NCAP" and ix: "unat (3 :: u8) = 3" and t: "\<not> is_fp ''I''"
    by (simp_all add: stale_def is_fp_def)
  from register_float_misreads [OF demo_call_rb l demo_snapshot_site ix t, of F m c None]
  show "decodeDirect F (mirror (last_event (up_all (demo_call_env m) demo_va_regs
      (demo_call_maps 3)))) [''D'', ''I''] c None = [fmtF64 F 8192, ''42'']"
    by (simp add: demo_va_regs_def demo_regs_def fmtJV_def fmt_dec_def radix.simps digit_char_def)
qed

lemma decodeV_from_floats:
  "decodeV_from F e g p (replicate n ''D'' @ ts) c mr = replicate n ''?'' @ decodeV_from F e g p ts c mr"
  by (induction n) simp_all

lemma va_walk_floats:
  assumes "va_regs v 0 f" and "\<not> is_fp t"
  shows "last (va_walk m v (replicate (Suc f) ''D'' @ [t])) = rd64 m (va_stack v + 8)"
  using assms
proof (induction f arbitrary: v)
  case 0
  then show ?case using gr_offset_facts(1) [of 0] vr_offset_facts(1) [of 0]
    by (simp add: va_arg_def va_regs_def is_fp_def)
next
  case (Suc f)
  let ?v = "v\<lparr>va_vr_offs := vr_offset f\<rparr>"
  have D: "snd (va_arg m ''D'' v) = ?v" using va_arg_fp Suc.prems(1) by (simp add: is_fp_def)
  have "va_regs ?v 0 f" using Suc.prems(1) by (simp add: va_regs_def)
  from Suc.IH [OF this Suc.prems(2)]
  show ?case unfolding replicate_Suc [of "Suc f"] append_Cons va_walk.simps D by (simp split: if_splits)
qed

text \<open>
  C32. A floating argument that does not fit the registers shifts a \<^verbatim>\<open>va_list\<close> call: when all general
  registers are used and one \<^verbatim>\<open>double\<close> more than the unread floating registers is passed,
  \<^verbatim>\<open>va_arg\<close> returns the next argument from the second stack word, while the decoder, which does not
  step over the stacked \<^verbatim>\<open>double\<close>, prints the first one.
\<close>

theorem va_list_float_spill_misreads:
  assumes "rb_mem K = Some g" and "snapshot_site s ctx = Some (2, ix)" and "unat ix < NARGS"
    and "va_list_at (umem K) (PT_REGS_PARM (Suc (unat ix)) ctx) v" and "va_regs v 0 f" and "\<not> is_fp t"
  shows "decodeV F (mirror (last_event (up_all K ctx s))) (replicate (Suc f) ''D'' @ [t]) c mr =
      replicate (Suc f) ''?'' @ [fmtJV F t (rd64 (umem K) (va_stack v)) c mr] \<and>
    last (va_walk (umem K) v (replicate (Suc f) ''D'' @ [t])) = rd64 (umem K) (va_stack v + 8)"
proof -
  note ev = va_event [OF assms(1-5)]
  have "\<not> sint (scast (gr_offset 0) :: u64) < 0" using gr_offset_facts(3) [of 0] by simp
  moreover have "cap_at (snapshot (umem K) (va_stack v)) 0 = rd64 (umem K) (va_stack v)"
    using stack_word [of 0 "umem K" "va_stack v"] by simp
  ultimately have "decodeV_from F (mirror (last_event (up_all K ctx s))) (scast (gr_offset 0)) (va_stack v) [t] c mr =
      [fmtJV F t (rd64 (umem K) (va_stack v)) c mr]"
    using assms(6) ev(3,4) by (simp add: is_fp_def)
  then show ?thesis
    unfolding decodeV_def ev(3,5) decodeV_from_floats using va_walk_floats [OF assms(5,6)] by blast
qed

definition demo_spill_mem :: mem where
  "demo_spill_mem a = Some (if a = 0x2001 then 0x40 else if a = 0x2009 then 0x30
     else if a = 0x4000 then 9 else if a = 0x4008 then 5 else 0)"

definition demo_spill :: va_list where
  "demo_spill = \<lparr>va_stack = 0x4000, va_gr_top = 0x3000, va_vr_top = 0, va_gr_offs = 0, va_vr_offs = 0\<rparr>"

theorem va_list_float_spill_misreads_witness:
  "\<forall>F c. decodeV F (mirror (last_event (up_all (demo_call_env demo_spill_mem) demo_va_regs
      (demo_call_maps 2)))) [''D'', ''I''] c None = [''?'', ''9'']"
proof (intro allI)
  fix F c
  have mem: "umem (demo_call_env demo_spill_mem) = demo_spill_mem" by (simp add: demo_call_env_def)
  have at: "va_list_at (umem (demo_call_env demo_spill_mem)) (PT_REGS_PARM (Suc (unat (3 :: u8))) demo_va_regs) demo_spill"
    unfolding mem demo_parm
    by (simp add: va_list_at_def demo_spill_mem_def demo_spill_def va_list_bytes_def read_num put64_def put32_def)
  have ix: "unat (3 :: u8) < NARGS" by (simp add: NARGS_def)
  have regs: "va_regs demo_spill 0 0" and t: "\<not> is_fp ''I''"
    by (simp_all add: va_regs_def demo_spill_def gr_offset_def vr_offset_def is_fp_def)
  have "rd64 demo_spill_mem (va_stack demo_spill) = 9"
    by (simp add: demo_spill_mem_def demo_spill_def rd64_def read_num get64_def)
  with va_list_float_spill_misreads [OF demo_call_rb demo_snapshot_site ix at regs t, of F c None]
  show "decodeV F (mirror (last_event (up_all (demo_call_env demo_spill_mem) demo_va_regs
      (demo_call_maps 2)))) [''D'', ''I''] c None = [''?'', ''9'']"
    by (simp add: mem fmtJV_def fmt_dec_def radix.simps digit_char_def)
qed

end
