(* ===== verification/Printed.thy ===== *)
theory Printed
  imports Program CallText Calls
begin

text \<open>
  From a call in the traced process to the line about it: the set-up configures the snapshot of a call
  slot, the probe captures the arguments, the event crosses the ring buffer, and the loader, which knows
  the method identifier, prints the line. The words that the callee takes from its \<^verbatim>\<open>jvalue\<close> array,
  its \<^verbatim>\<open>va_list\<close> or its registers are the words in the line.
\<close>

section \<open>Arguments\<close>

text \<open>
  The words passed for parameters \<open>ts\<close> by a call of function \<open>nm\<close> whose argument list is parameter
  \<open>ix\<close> (from 0), when the snapshot reaches all of them.
\<close>

definition passed_words :: "mem \<Rightarrow> pt_regs \<Rightarrow> nat \<Rightarrow> string \<Rightarrow> string list \<Rightarrow> u64 list \<Rightarrow> bool" where
  "passed_words m ctx ix nm ts ws =
     (if hasSuffix nm ''A'' then
        length ts \<le> NCAP \<and> ws = map (\<lambda>j. rd64 m (PT_REGS_PARM (Suc ix) ctx + word_of_nat j * 8)) [0..<length ts]
      else if hasSuffix nm ''V'' then
        fp_count ts = 0 \<and> (\<exists>v n f. va_list_at m (PT_REGS_PARM (Suc ix) ctx) v \<and> va_regs v n f \<and>
          va_gr_top v \<noteq> 0 \<and> length ts \<le> n + NCAP \<and> ws = va_walk m v ts)
      else fp_count ts = 0 \<and> length ts \<le> 2 \<and> length ts \<le> NARGS - ix \<and> ws = map the (reg_walk ctx ix ts))"

definition snapshot_kind :: "string \<Rightarrow> u8" where
  "snapshot_kind nm = (if hasSuffix nm ''A'' then 1 else if hasSuffix nm ''V'' then 2 else 3)"

lemma no_fp:
  assumes "fp_count ts = 0"
  shows "gp_count ts = length ts" and "\<forall>t \<in> set ts. \<not> is_fp t"
proof -
  from assms show n: "\<forall>t \<in> set ts. \<not> is_fp t" by (simp add: filter_empty_conv)
  then have "filter (\<lambda>t. \<not> is_fp t) ts = ts" by (simp only: filter_id_conv)
  then show "gp_count ts = length ts" by simp
qed

lemma map2_shown: "\<forall>t \<in> set ts. \<not> is_fp t \<Longrightarrow> map2 (shown F c mr) ts ws = map2 (\<lambda>t w. fmtJV F t w c mr) ts ws"
  by (rule map_cong) (auto simp: shown_def dest!: set_zip_leftD)

lemma map_nth2: "length ws = length ts \<Longrightarrow> map (\<lambda>j. g (ts ! j) (ws ! j)) [0..<length ts] = map2 g ts ws"
  by (rule nth_equalityI) simp_all

lemma call_args_passed:
  assumes "rb_mem K = Some g" and "length (ev_cap g) = NCAP"
    and "snapshot_site s ctx = Some (snapshot_kind nm, ix)" and "unat ix < NARGS"
    and w: "passed_words (umem K) ctx (unat ix) nm ts ws"
  shows "call_args F (mirror (last_event (up_all K ctx s))) nm ts c mr = map2 (\<lambda>t w. fmtJV F t w c mr) ts ws"
proof -
  consider "hasSuffix nm ''A''" | "\<not> hasSuffix nm ''A''" "hasSuffix nm ''V''"
    | "\<not> hasSuffix nm ''A''" "\<not> hasSuffix nm ''V''" by blast
  then show ?thesis
  proof cases
    case 1
    with w have l: "length ws = length ts" and n: "\<forall>j < length ts. j < NCAP \<and>
        ws ! j = rd64 (umem K) (PT_REGS_PARM (Suc (unat ix)) ctx + word_of_nat j * 8)"
      by (auto simp: passed_words_def)
    from 1 assms(3) have "snapshot_site s ctx = Some (1, ix)" by (simp add: snapshot_kind_def)
    from decodeA_event [OF assms(1) this assms(4), of F ts c mr]
    have "call_args F (mirror (last_event (up_all K ctx s))) nm ts c mr =
        map (\<lambda>j. fmtJV F (ts ! j) (ws ! j) c mr) [0..<length ts]"
      unfolding call_args_def using 1 n by simp
    with map_nth2 [OF l, of "\<lambda>t w. fmtJV F t w c mr"] show ?thesis by simp
  next
    case 2
    with w obtain v n f where v: "va_list_at (umem K) (PT_REGS_PARM (Suc (unat ix)) ctx) v" "va_regs v n f"
      "va_gr_top v \<noteq> 0" "length ts \<le> n + NCAP" "ws = va_walk (umem K) v ts" and fp: "fp_count ts = 0"
      by (auto simp: passed_words_def)
    from 2 assms(3) have "snapshot_site s ctx = Some (2, ix)" by (simp add: snapshot_kind_def)
    from decodeV_event [OF assms(1) this assms(4) v(1-3), of ts F c mr] 2 v(4,5) no_fp [OF fp] fp
    show ?thesis by (simp add: call_args_def map2_shown)
  next
    case 3
    with w have l: "length ts \<le> 2" "length ts \<le> NARGS - unat ix" and ws: "ws = map the (reg_walk ctx (unat ix) ts)"
      and fp: "fp_count ts = 0" by (simp_all add: passed_words_def)
    have len: "length (reg_walk ctx (unat ix) ts) = length ts" using reg_walk_no_fp [OF fp] by simp
    from 3 assms(3) have "snapshot_site s ctx = Some (3, ix)" by (simp add: snapshot_kind_def)
    from decodeDirect_event [OF assms(1,2) this assms(4) fp, of F c mr]
    have "call_args F (mirror (last_event (up_all K ctx s))) nm ts c mr =
        map (\<lambda>j. fmtJV F (ts ! j) (ws ! j) c mr) [0..<length ts]"
      unfolding call_args_def using 3 l ws len by simp
    with map_nth2 [of ws ts "\<lambda>t w. fmtJV F t w c mr"] ws len show ?thesis by simp
  qed
qed

section \<open>The line\<close>

text \<open>The snapshot of a call slot, as the set-up configures it.\<close>

lemma isCallMethod_index: "isCallMethod nm = Some i \<Longrightarrow> i = 2 \<or> i = 3"
  by (auto simp: isCallMethod_def split: if_splits)

lemma configured_site:
  assumes "hash_contract (max_entries argkind_map) ok" and "hash_contract (max_entries hasret_map) ok_ret"
    and "same_map xs ys" and "length xs \<le> max_entries argkind_map"
    and S: "S = configure ok ok_ret c f base xs ys" and "same_config s (su_maps S)"
    and off: "map_of xs (PT_REGS_IP ctx - base) = Some slot" and call: "isCallMethod (slotName slot) = Some i"
  shows "snapshot_site s ctx = Some (snapshot_kind (slotName slot), word_of_nat (Suc i))"
proof -
  note cm = configure_maps [OF assms(1-5)]
  have "array_lookup (cfg s) 0 = Some base"
    using assms(6) cm(4) by (simp add: same_config_def initial_maps_def array_lookup_def)
  moreover have "argkind s (PT_REGS_IP ctx - base) = Some (snapshot_kind (slotName slot))"
    and "argidx s (PT_REGS_IP ctx - base) = Some (word_of_nat (Suc i))"
    using assms(6) cm(1,2) off call by (simp_all add: same_config_def call_kind_def call_index_def snapshot_kind_def)
  ultimately show ?thesis by (simp add: snapshot_site_def)
qed

lemma captured_event:
  fixes ctx :: pt_regs
  assumes "mem_shape K" and "rb_mem K = Some g" and "\<forall>x \<in> set (events s). evt_shape x"
  defines "e \<equiv> mirror (last_event (up_all K ctx s))"
  shows "binary_Read (evt_bytes junk (last_event (up_all K ctx s))) = Some e"
    and "Kind e = 0" and "Ip e = PT_REGS_IP ctx" and "j < NARGS \<Longrightarrow> A e ! j = PT_REGS_PARM (Suc j) ctx"
proof -
  obtain x where x: "events (up_all K ctx s) = events s @ [x]" "ev_kind x = 0" "ev_ip x = PT_REGS_IP ctx"
    "ev_a x = [PT_REGS_PARM 1 ctx, PT_REGS_PARM 2 ctx, PT_REGS_PARM 3 ctx, PT_REGS_PARM 4 ctx, PT_REGS_PARM 5 ctx]"
    using up_all_event [OF assms(2), of ctx s] by blast
  then have last: "last_event (up_all K ctx s) = x" by (simp add: last_event_def)
  have "evt_shape x" using up_all_shape [OF assms(3,1), of ctx] x(1) by simp
  then show "binary_Read (evt_bytes junk (last_event (up_all K ctx s))) = Some e"
    unfolding e_def last by (intro binary_Read_evt_bytes) (simp_all add: evt_shape_def)
  show "Kind e = 0" "Ip e = PT_REGS_IP ctx" using x last by (simp_all add: e_def mirror_def)
  show "A e ! j = PT_REGS_PARM (Suc j) ctx" if "j < NARGS"
  proof -
    have "j = 0 \<or> j = 1 \<or> j = 2 \<or> j = 3 \<or> j = 4" using that by (auto simp: NARGS_def)
    then show ?thesis using x(4) last by (auto simp: e_def mirror_def numeral_eq_Suc)
  qed
qed

text \<open>Default output: text lines, one per call, of every thread.\<close>

definition plain_output :: "config \<Rightarrow> bool" where
  "plain_output c \<longleftrightarrow> c_tid c = 0 \<and> \<not> c_count c \<and> \<not> c_jsonOut c \<and> \<not> c_stack c \<and> \<not> c_verbose c"

definition no_line_filters :: "filters \<Rightarrow> bool" where
  "no_line_filters f \<longleftrightarrow> grep f = [] \<and> classRe f = None \<and> methodRe f = None \<and> from_mods f = []"

lemma known_call_line:
  assumes "plain_output (t_conf T)" and "no_line_filters (t_filters T)" and "\<not> t_exited T"
    and "binary_Read raw = Some e" and "Kind e \<noteq> 1" and "t_offsets T (Ip e - t_base T) = Some slot"
    and "isCallMethod (slotName slot) = Some i" and "matchSlot (t_filters T) slot" and "\<not> too_deep (t_conf T) (Depth e)"
    and "describeCall (h_fmt H) e (slotName slot) (t_caches T) (h_mem H) = (call, True)"
  shows "out_lines (on_input H (Sample raw) T) = out_lines T @ [indentStr (Depth e) @ ''-> '' @ call]"
proof -
  obtain cl mods where mc: "mc_of (h_maps H) (h_now H) (t_mods T) (Caller e) = (cl, mods)" by (rule prod.exhaust)
  from assms(1) have c: "c_tid (t_conf T) = 0" "\<not> c_stack (t_conf T)" "\<not> c_verbose (t_conf T)"
    "\<not> c_count (t_conf T)" "\<not> c_jsonOut (t_conf T)" by (simp_all add: plain_output_def)
  have "event_of T (Sample raw) = Some e" using assms(3,4) by (simp add: event_of_def)
  moreover have "offered H e T = Some (fst (splitClassMethod call), snd (splitClassMethod call), call, cl,
      indentStr (Depth e) @ ''-> '' @ call, [])"
    using assms(5-10) c mc by (simp add: offered_def entry_offer_def stack_text_def)
  moreover have "matchLine (h_re H) (t_filters T) a b l m" for a b l m
    using assms(2) by (simp add: no_line_filters_def matchLine_def)
  ultimately have "printed (on_input H (Sample raw) T) =
      (counts T, out_lines T @ [indentStr (Depth e) @ ''-> '' @ call])"
    using c by (simp add: printed_on_input line_shown_def add_line_def) (simp add: printed_def)
  then show ?thesis by (simp add: printed_def)
qed


text \<open>
  A closed call: \<^verbatim>\<open>CallVoidMethodA\<close> on a method \<^verbatim>\<open>run(IZ)V\<close> with a \<^verbatim>\<open>jvalue\<close> array.
\<close>

definition demo_print_setup :: probe_setup where
  "demo_print_setup = configure (room_for (max_entries argkind_map)) (room_for (max_entries hasret_map))
     demo_conf demo_filters 0x1000 [(0x10, 63)] [(0x10, 63)]"

definition demo_print_tracer :: tracer where
  "demo_print_tracer = (initial_tracer demo_conf demo_filters demo_mods 0x1000 (map_of [(0x10, 63)]) demo_print_setup)
     \<lparr>t_caches := newCaches\<lparr>idName := [3 \<mapsto> ''run(IZ)V''], classNames := [2 \<mapsto> ''a.Target'']\<rparr>\<rparr>"

definition demo_print_event :: evt_t where
  "demo_print_event = last_event (up_all (demo_call_env demo_array_mem) demo_va_regs (su_maps demo_print_setup))"

lemma demo_print_parts:
  "slotName 63 = ''CallVoidMethodA''" "\<not> watched demo_conf demo_filters 63"
  "isCallMethod ''CallVoidMethodA'' = Some 2" "matchSlot demo_filters 63"
  "hasSuffix ''CallVoidMethodA'' ''A''"
proof -
  show n: "slotName 63 = ''CallVoidMethodA''" by code_simp
  have "slotRet 63 = ''void''" by code_simp
  then show "\<not> watched demo_conf demo_filters 63" by (simp add: watched_def n alwaysWatch_def)
  show "isCallMethod ''CallVoidMethodA'' = Some 2" "hasSuffix ''CallVoidMethodA'' ''A''" by code_simp+
  show "matchSlot demo_filters 63" by (simp add: matchSlot_def demo_filters_def mode_set_def)
qed

lemma demo_print_same: "same_map [(0x10, 63)] [(0x10, 63)]"
  by (simp add: same_map_def)

lemma demo_print_depth: "ev_depth demo_print_event = -1"
proof -
  note cm = configure_maps [OF room_for_contract room_for_contract demo_print_same _ demo_print_setup_def]
  have "\<not> tracked (su_maps demo_print_setup) demo_va_regs"
    by (simp add: tracked_def cm(3,4) argkind_map_def demo_print_parts(2) initial_maps_def array_lookup_def
        demo_va_regs_def demo_regs_def PT_REGS_IP_def)
  then show ?thesis
    using up_all_event [OF demo_call_rb, of demo_array_mem demo_va_regs "su_maps demo_print_setup"]
    by (auto simp: demo_print_event_def last_event_def)
qed


end
