(* ===== verification/Names.thy ===== *)
theory Names
  imports Frames Output CallText Program
begin

text \<open>
  How long the loader knows a method: the caches of \<^verbatim>\<open>decode.go\<close> change only at returns, a return
  binds only the identifier it returns, and so an identifier that the traced process got from
  \<^verbatim>\<open>GetMethodID\<close> keeps its name until a call returns the same word again.
\<close>

section \<open>The caches\<close>

lemma caches_emit [simp]: "t_caches (emit F l T) = t_caches T" "t_caches (printStack H ind d lr T) = t_caches T"
  by (simp_all add: emit_def printStack_def Let_def split: option.split)

lemma caches_handleEntry: "t_caches (handleEntry H e T) = t_caches T"
  by (simp add: handleEntry_def call_entry_def plain_entry_def Let_def split: option.split prod.split)

lemma caches_handleReturn:
  "t_caches (handleReturn H e T) =
     (case (if sint (Depth e) < 0 then None else frames T (Tid e, Depth e)) of None \<Rightarrow> t_caches T
      | Some fr \<Rightarrow> feed_caches (h_mem H) fr (Rc e) (t_caches T))"
  by (simp add: handleReturn_def Let_def case_prod_unfold split: option.split)

lemma feed_other_id: "rc \<noteq> v \<Longrightarrow> idName (feed_caches mr fr rc cs) v = idName cs v"
  by (simp add: feed_caches_def Let_def)

text \<open>The returned words of the records that the loop takes.\<close>

definition returned_words :: "(host \<times> input) list \<Rightarrow> u64 set" where
  "returned_words his =
     {Rc e | H raw e. (H, Sample raw) \<in> set his \<and> binary_Read raw = Some e \<and> Kind e = 1}"

lemma names_kept_event:
  "\<not> (Kind e = 1 \<and> Rc e = v) \<Longrightarrow> idName (t_caches (on_event H e T)) v = idName (t_caches T) v"
  by (auto simp: on_event_def Let_def caches_handleEntry caches_handleReturn feed_other_id split: option.split)

lemma names_kept_input:
  "v \<notin> returned_words [(H, i)] \<Longrightarrow> idName (t_caches (on_input H i T)) v = idName (t_caches T) v"
proof (cases i)
  case (Sample raw)
  assume v: "v \<notin> returned_words [(H, i)]"
  show ?thesis
  proof (cases "binary_Read raw")
    case (Some e)
    with v Sample have "\<not> (Kind e = 1 \<and> Rc e = v)" by (auto simp: returned_words_def)
    from names_kept_event [OF this] Some Sample show ?thesis by (simp add: on_input_def on_sample_def)
  qed (simp add: Sample on_input_def on_sample_def)
qed (simp_all add: on_input_def mc_reload_def Let_def case_prod_unfold split: option.split)

lemma names_kept: "v \<notin> returned_words his \<Longrightarrow> idName (t_caches (run_tracer his T)) v = idName (t_caches T) v"
proof (induction his arbitrary: T)
  case (Cons hi his)
  obtain H i where hi: "hi = (H, i)" by (cases hi)
  have "v \<notin> returned_words [(H, i)]" "v \<notin> returned_words his"
    using Cons.prems by (auto simp: returned_words_def hi)
  then show ?case by (simp add: hi Cons.IH names_kept_input)
qed simp

section \<open>Looking a method up\<close>


text \<open>
  A closed run: thread 9 looks up \<^verbatim>\<open>run(I)V\<close> at address \<^verbatim>\<open>0x1010\<close> and gets the identifier
  \<^verbatim>\<open>0x99\<close>; then a user asks for the statistics.
\<close>

definition demo_lookup_setup :: probe_setup where
  "demo_lookup_setup = configure (room_for (max_entries argkind_map)) (room_for (max_entries hasret_map))
     demo_conf demo_filters 0x1000 [(0x10, 33)] [(0x10, 33)]"

definition demo_lookup_tracer :: tracer where
  "demo_lookup_tracer = initial_tracer demo_conf demo_filters demo_mods 0x1000 (map_of [(0x10, 33)]) demo_lookup_setup"

definition demo_lookup_regs :: pt_regs where
  "demo_lookup_regs = demo_regs 0x1010 [1, 0x77, 0x5000, 0x6000]"

definition demo_lookup :: rmaps where
  "demo_lookup = up_all demo_in demo_lookup_regs (su_maps demo_lookup_setup)"

definition demo_found :: evt_t where
  "demo_found = last_event (up_ret demo_in (demo_regs 0 [0x99]) demo_lookup)"

definition demo_name_host :: host where
  "demo_name_host = demo_host\<lparr>h_mem := Some demo_name_mem\<rparr>"

lemma demo_lookup_start: "linked (su_maps demo_lookup_setup) demo_lookup_tracer"
  "tracked (su_maps demo_lookup_setup) demo_lookup_regs" "slotName 33 = ''GetMethodID''"
proof -
  have m: "same_map [(0x10, 33)] [(0x10, 33)]" "length [(0x10 :: u64, 33 :: int)] \<le> max_entries argkind_map"
    by (simp_all add: same_map_def argkind_map_def)
  show "linked (su_maps demo_lookup_setup) demo_lookup_tracer"
    unfolding demo_lookup_tracer_def
    by (rule configure_linked [OF room_for_contract room_for_contract m _ demo_lookup_setup_def]) (simp add: demo_conf_def)
  show n: "slotName 33 = ''GetMethodID''" by (simp add: slot_schema jniSchema_def jniSchema_lo_def)
  note cm = configure_maps [OF room_for_contract room_for_contract m demo_lookup_setup_def]
  have "watched demo_conf demo_filters 33" by (simp add: watched_def n alwaysWatch_def)
  then show "tracked (su_maps demo_lookup_setup) demo_lookup_regs"
    by (simp add: tracked_def cm(3,4) initial_maps_def array_lookup_def demo_lookup_regs_def demo_regs_def PT_REGS_IP_def)
qed

lemma demo_lookup_call:
  "probed demo_lookup ((\<lambda>_. [])(9 := [last_event demo_lookup])) []" "linked demo_lookup demo_lookup_tracer"
  "events demo_lookup = [last_event demo_lookup]" "evt_shape (last_event demo_lookup)"
  "ev_ip (last_event demo_lookup) = 0x1010"
  "ev_a (last_event demo_lookup) ! 2 = 0x5000" "ev_a (last_event demo_lookup) ! 3 = 0x6000"
proof -
  have fresh: "depth (su_maps demo_lookup_setup) = Map.empty" "events (su_maps demo_lookup_setup) = []"
    by (simp_all add: demo_lookup_setup_def configure_fresh)
  have "probed (su_maps demo_lookup_setup) (\<lambda>_. []) []" by (rule probed.start) (simp_all add: fresh)
  from probed.call [OF this demo_lookup_start(2) demo_in_lossless _ demo_lookup_def]
  show "probed demo_lookup ((\<lambda>_. [])(9 := [last_event demo_lookup])) []" by (simp add: demo_in_def demo_env_def)
  show "linked demo_lookup demo_lookup_tracer"
    using demo_lookup_start(1) by (simp add: linked_def demo_lookup_def)
  have g: "rb_mem demo_in = Some (stale 0xDEAD)" by (simp add: demo_in_def demo_env_def)
  from up_all_event [OF g, of demo_lookup_regs "su_maps demo_lookup_setup"]
  obtain x where x: "events demo_lookup = [x]" "ev_ip x = 0x1010" "ev_a x ! 2 = 0x5000" "ev_a x ! 3 = 0x6000"
    by (auto simp: demo_lookup_def fresh demo_lookup_regs_def demo_regs_def PT_REGS_IP_def PT_REGS_PARM_def)
  then have l: "last_event demo_lookup = x" by (simp add: last_event_def)
  show "events demo_lookup = [last_event demo_lookup]" "ev_ip (last_event demo_lookup) = 0x1010"
    "ev_a (last_event demo_lookup) ! 2 = 0x5000" "ev_a (last_event demo_lookup) ! 3 = 0x6000"
    using x l by simp_all
  have "mem_shape demo_in" by (simp add: mem_shape_def demo_in_def demo_env_def stale_def)
  then have "\<forall>e \<in> set (events demo_lookup). evt_shape e"
    unfolding demo_lookup_def using fresh by (intro up_all_shape) simp_all
  then show "evt_shape (last_event demo_lookup)" using x l by simp
qed

lemma shape_read: "evt_shape e \<Longrightarrow> binary_Read (evt_bytes pad e) = Some (mirror e)"
  by (rule binary_Read_evt_bytes) (simp_all add: evt_shape_def)

lemma demo_found_shape: "evt_shape demo_found"
proof -
  have "rb_mem demo_in = Some (stale 0xDEAD)" by (simp add: demo_in_def demo_env_def)
  moreover have "length (ev_cap (stale 0xDEAD)) = NCAP" "length (ev_cap2 (stale 0xDEAD)) = NCAP"
    by (simp_all add: stale_def)
  ultimately show ?thesis
    using up_ret_shape [of demo_in "stale 0xDEAD" "demo_regs 0 [0x99]" demo_lookup]
    by (auto simp: demo_found_def last_event_def)
qed


end
