(* ===== verification/Isolation.thy ===== *)
theory Isolation
  imports Frames Capture
begin

text \<open>
  Threads do not disturb each other: what the probes and the loader keep of a thread is what they would
  keep if the other threads never called a traced function. The argument is the usual one for
  separation: a step of one thread leaves the view of another alone, and what it does to the view of its
  own thread depends on that view only.
\<close>

section \<open>Separation\<close>

locale isolated =
  fixes step :: "'a \<Rightarrow> 's \<Rightarrow> 's"
    and actor :: "'a \<Rightarrow> 'u"
    and view :: "'u \<Rightarrow> 's \<Rightarrow> 'v"
    and good :: "'s \<Rightarrow> bool"
    and allowed :: "'a \<Rightarrow> bool"
  assumes keeps_good: "good s \<Longrightarrow> allowed a \<Longrightarrow> good (step a s)"
    and respects: "good s \<Longrightarrow> allowed a \<Longrightarrow> actor a \<noteq> u \<Longrightarrow> view u (step a s) = view u s"
    and consistent: "good s \<Longrightarrow> good s' \<Longrightarrow> allowed a \<Longrightarrow> view (actor a) s = view (actor a) s' \<Longrightarrow>
          view (actor a) (step a s) = view (actor a) (step a s')"
begin

lemma purge:
  assumes "good s" and "good s'" and "list_all allowed xs" and "view u s = view u s'"
  shows "view u (fold step xs s) = view u (fold step (filter (\<lambda>a. actor a = u) xs) s')"
  using assms
proof (induction xs arbitrary: s s')
  case (Cons a xs)
  show ?case
  proof (cases "actor a = u")
    case True
    with Cons.prems consistent [of s s' a] Cons.IH [of "step a s" "step a s'"] show ?thesis by (simp add: keeps_good)
  next
    case False
    with Cons.prems respects [of s a u] Cons.IH [of "step a s" s'] show ?thesis by (simp add: keeps_good)
  qed
qed simp

end

section \<open>The probes\<close>

datatype probe_run = Entered "evt_t kenv" pt_regs | Returned "evt_t kenv" pt_regs

fun run_env :: "probe_run \<Rightarrow> evt_t kenv" where
  "run_env (Entered K ctx) = K"
| "run_env (Returned K ctx) = K"

fun run_probe :: "probe_run \<Rightarrow> rmaps \<Rightarrow> rmaps" where
  "run_probe (Entered K ctx) s = up_all K ctx s"
| "run_probe (Returned K ctx) s = up_ret K ctx s"

definition run_tid :: "probe_run \<Rightarrow> u32" where
  "run_tid r = cur_tid (run_env r)"

definition probe_view :: "u32 \<Rightarrow> rmaps \<Rightarrow> rmaps \<times> u32 \<times> evt_t list" where
  "probe_view t s = (s\<lparr>depth := Map.empty, events := []\<rparr>, depth_of (depth s) t, filter (\<lambda>e. ev_tid e = t) (events s))"

text \<open>The runs come from a set of threads for which the depth map has room.\<close>

definition probe_good :: "u32 set \<Rightarrow> rmaps \<Rightarrow> bool" where
  "probe_good thrs s = (finite thrs \<and> card thrs \<le> max_entries depth_map \<and> dom (depth s) \<subseteq> thrs)"

definition probe_allowed :: "u32 set \<Rightarrow> probe_run \<Rightarrow> bool" where
  "probe_allowed thrs r = (run_tid r \<in> thrs \<and> hash_contract (max_entries depth_map) (map_accepts (run_env r)))"

text \<open>The event of a run is a function of the view of its thread.\<close>

lemma probe_view_eq:
  "probe_view t s = probe_view t s' \<longleftrightarrow> cfg s = cfg s' \<and> argkind s = argkind s' \<and> argidx s = argidx s' \<and>
     hasret s = hasret s' \<and> depth_of (depth s) t = depth_of (depth s') t \<and>
     filter (\<lambda>e. ev_tid e = t) (events s) = filter (\<lambda>e. ev_tid e = t) (events s')"
  by (cases s; cases s') (auto simp: probe_view_def)

lemma entry_event_view:
  assumes "probe_view (cur_tid K) s = probe_view (cur_tid K) s'"
  shows "entry_event K ctx s g = entry_event K ctx s' g"
proof -
  note v = assms [unfolded probe_view_eq]
  have "ev_tid (init_entry K ctx g) = cur_tid K" by (simp add: init_entry_def)
  with v have "fst (track_entry K off (init_entry K ctx g) s) = fst (track_entry K off (init_entry K ctx g) s')" for off
    by (simp add: track_entry_def depth_enter_def Let_def split: option.split)
  with v snap_args_cong [of s s'] snap_stack_cong [of s s'] show ?thesis
    by (simp add: entry_event_def Let_def split: option.split)
qed

lemma depth_step_other:
  "u \<noteq> t \<Longrightarrow> depth_of (snd (depth_enter ok m t)) u = depth_of m u"
  "u \<noteq> t \<Longrightarrow> depth_of (snd (depth_leave ok m t)) u = depth_of m u"
  by (simp_all add: depth_enter_def depth_leave_def Let_def depth_of_hash_update)

lemma depth_step_own:
  "ok (dom m) t \<Longrightarrow> ok (dom m') t \<Longrightarrow> depth_of m t = depth_of m' t \<Longrightarrow>
     depth_of (snd (depth_enter ok m t)) t = depth_of (snd (depth_enter ok m' t)) t"
  "ok (dom m) t \<Longrightarrow> ok (dom m') t \<Longrightarrow> depth_of m t = depth_of m' t \<Longrightarrow>
     depth_of (snd (depth_leave ok m t)) t = depth_of (snd (depth_leave ok m' t)) t"
  "depth_of m t = depth_of m' t \<Longrightarrow> fst (depth_leave ok m t) = fst (depth_leave ok m' t)"
  by (simp_all add: depth_enter_def depth_leave_def Let_def depth_of_hash_update)

lemma tracked_view: "probe_view t s = probe_view t s' \<Longrightarrow> tracked s ctx = tracked s' ctx"
  by (simp add: probe_view_eq tracked_def cong: option.case_cong)

lemma probe_respects:
  assumes "run_tid r \<noteq> u"
  shows "probe_view u (run_probe r s) = probe_view u s"
proof (cases r)
  case (Entered K ctx)
  show ?thesis
  proof (cases "rb_mem K")
    case None
    with Entered show ?thesis by (simp add: up_all_drop)
  next
    case (Some g)
    with Entered assms up_all_event [OF Some, of ctx s] show ?thesis
      by (auto simp: probe_view_eq up_all_depth run_tid_def depth_step_other)
  qed
next
  case (Returned K ctx)
  show ?thesis
  proof (cases "rb_mem K")
    case None
    with Returned show ?thesis by (simp add: up_ret_drop)
  next
    case (Some g)
    with Returned assms up_ret_event [OF Some, of ctx s] show ?thesis
      by (auto simp: probe_view_eq up_ret_depth run_tid_def depth_step_other)
  qed
qed

lemma probe_good_accepts:
  "probe_good thrs s \<Longrightarrow> probe_allowed thrs r \<Longrightarrow> map_accepts (run_env r) (dom (depth s)) (run_tid r)"
  by (auto simp: probe_good_def probe_allowed_def intro: room_accepts)

lemma probe_keeps_good: "probe_good thrs s \<Longrightarrow> probe_allowed thrs r \<Longrightarrow> probe_good thrs (run_probe r s)"
  using depth_dom_within [of "run_env r" thrs s]
  by (cases r) (simp_all add: probe_good_def probe_allowed_def run_tid_def)

lemma entered_consistent:
  assumes vk: "probe_view (cur_tid K) s = probe_view (cur_tid K) s'"
    and acc: "map_accepts K (dom (depth s)) (cur_tid K)" "map_accepts K (dom (depth s')) (cur_tid K)"
  shows "probe_view (cur_tid K) (up_all K ctx s) = probe_view (cur_tid K) (up_all K ctx s')"
proof (cases "rb_mem K")
  case (Some g)
  note v = vk [unfolded probe_view_eq]
  have ev: "events (up_all K ctx s) = events s @ [entry_event K ctx s' g]"
    "events (up_all K ctx s') = events s' @ [entry_event K ctx s' g]"
    using events_up_all [OF Some] entry_event_view [OF vk] by simp_all
  have d: "depth_of (depth s) (cur_tid K) = depth_of (depth s') (cur_tid K)" using v by simp
  from depth_step_own(1) [of "map_accepts K", OF acc d]
  have "depth_of (depth (up_all K ctx s)) (cur_tid K) = depth_of (depth (up_all K ctx s')) (cur_tid K)"
    using d tracked_view [OF vk, of ctx] by (simp add: up_all_depth)
  with ev v show ?thesis unfolding probe_view_eq by simp
qed (simp add: up_all_drop vk)

lemma returned_consistent:
  assumes vk: "probe_view (cur_tid K) s = probe_view (cur_tid K) s'"
    and acc: "map_accepts K (dom (depth s)) (cur_tid K)" "map_accepts K (dom (depth s')) (cur_tid K)"
  shows "probe_view (cur_tid K) (up_ret K ctx s) = probe_view (cur_tid K) (up_ret K ctx s')"
proof (cases "rb_mem K")
  case (Some g)
  note v = vk [unfolded probe_view_eq]
  have d: "depth_of (depth s) (cur_tid K) = depth_of (depth s') (cur_tid K)" using v by simp
  from depth_step_own(2) [of "map_accepts K", OF acc d]
  have "depth_of (depth (up_ret K ctx s)) (cur_tid K) = depth_of (depth (up_ret K ctx s')) (cur_tid K)"
    using Some by (simp add: up_ret_depth)
  with v events_up_ret [OF Some] depth_step_own(3) [OF d]
  show ?thesis unfolding probe_view_eq by (simp add: return_event_def)
qed (simp add: up_ret_drop vk)

lemma probe_consistent:
  assumes "probe_good thrs s" and "probe_good thrs s'" and "probe_allowed thrs r"
    and "probe_view (run_tid r) s = probe_view (run_tid r) s'"
  shows "probe_view (run_tid r) (run_probe r s) = probe_view (run_tid r) (run_probe r s')"
proof (cases r)
  case (Entered K ctx)
  with probe_good_accepts [OF assms(1,3)] probe_good_accepts [OF assms(2,3)] assms(4) show ?thesis
    unfolding Entered run_tid_def run_env.simps run_probe.simps by (intro entered_consistent)
next
  case (Returned K ctx)
  with probe_good_accepts [OF assms(1,3)] probe_good_accepts [OF assms(2,3)] assms(4) show ?thesis
    unfolding Returned run_tid_def run_env.simps run_probe.simps by (intro returned_consistent)
qed

interpretation probes: isolated run_probe run_tid probe_view "probe_good thrs" "probe_allowed thrs"
  for thrs
proof (unfold_locales, goal_cases)
  case 1 then show ?case by (rule probe_keeps_good)
next
  case 2 then show ?case by (intro probe_respects)
next
  case 3 then show ?case by (rule probe_consistent)
qed

section \<open>The loader\<close>

text \<open>
  What the table of frames holds of a thread, up to the printed texts, which depend on the name caches
  that all threads share.
\<close>

definition frame_facts :: "frame \<Rightarrow> int \<times> u64 \<times> u64 \<times> u64 \<times> u64" where
  "frame_facts fr = (fr_slot fr, fr_ts fr, fr_a1 fr, fr_a2 fr, fr_a3 fr)"

definition thread_frames :: "u32 \<Rightarrow> tracer \<Rightarrow> s32 \<Rightarrow> (int \<times> u64 \<times> u64 \<times> u64 \<times> u64) option" where
  "thread_frames t T = (\<lambda>d. map_option frame_facts (frames T (t, d)))"

definition loader_view :: "u32 \<Rightarrow> tracer \<Rightarrow> (config \<times> u64 \<times> (u64 \<rightharpoonup> int) \<times> (int \<Rightarrow> bool) \<times> (int \<Rightarrow> bool)) \<times>
    (s32 \<Rightarrow> (int \<times> u64 \<times> u64 \<times> u64 \<times> u64) option)" where
  "loader_view t T = (setting T, thread_frames t T)"

lemma thread_frames_upd [simp]:
  "thread_frames t (T\<lparr>t_mods := m\<rparr>) = thread_frames t T" "thread_frames t (T\<lparr>t_total := n\<rparr>) = thread_frames t T"
  by (simp_all add: thread_frames_def)

lemma thread_frames_call [simp]: "thread_frames t (set_frame_call key c T) = thread_frames t T"
  by (auto simp: thread_frames_def frames_set_call fun_eq_iff frame_facts_def split: option.split)

text \<open>The frame table after an event, up to texts, from the table before it and the settings.\<close>

definition facts_after :: "reconEvt \<Rightarrow> tracer \<Rightarrow> s32 \<Rightarrow> (int \<times> u64 \<times> u64 \<times> u64 \<times> u64) option" where
  "facts_after e T =
     (if c_tid (t_conf T) \<noteq> 0 \<and> uint (Tid e) \<noteq> c_tid (t_conf T) \<or> sint (Depth e) < 0 then thread_frames (Tid e) T
      else if Kind e = 1 then (thread_frames (Tid e) T)(Depth e := None)
      else (case t_offsets T (Ip e - t_base T) of None \<Rightarrow> thread_frames (Tid e) T
        | Some slot \<Rightarrow> if t_retSet T slot
            then (thread_frames (Tid e) T)(Depth e \<mapsto> (slot, Ts e, A e ! 1, A e ! 2, A e ! 3))
            else thread_frames (Tid e) T))"

lemma push_frame_thread:
  "thread_frames t (push_frame H e slot cl T) =
     (if t_retSet T slot \<and> 0 \<le> sint (Depth e) \<and> t = Tid e
      then (thread_frames t T)(Depth e \<mapsto> (slot, Ts e, A e ! 1, A e ! 2, A e ! 3)) else thread_frames t T)"
  by (auto simp: push_frame_def thread_frames_def frame_facts_def Let_def fun_eq_iff)

lemma handleEntry_thread:
  "thread_frames t (handleEntry H e T) =
     (case t_offsets T (Ip e - t_base T) of None \<Rightarrow> thread_frames t T
      | Some slot \<Rightarrow> if t_retSet T slot \<and> 0 \<le> sint (Depth e) \<and> t = Tid e
          then (thread_frames t T)(Depth e \<mapsto> (slot, Ts e, A e ! 1, A e ! 2, A e ! 3)) else thread_frames t T)"
proof (cases "t_offsets T (Ip e - t_base T)")
  case (Some slot)
  obtain caller mods where m: "mc_of (h_maps H) (h_now H) (t_mods T) (Caller e) = (caller, mods)"
    by (rule prod.exhaust)
  let ?T = "push_frame H e slot caller (T\<lparr>t_mods := mods\<rparr>)"
  have call: "thread_frames t (call_entry H e nm cl U) = thread_frames t U"
    and plain: "thread_frames t (plain_entry H e slot cl U) = thread_frames t U" for nm cl U
    using thread_frames_call [of t "(Tid e, Depth e)" "fst (describeCall (h_fmt H) e nm (t_caches U) (h_mem H))" U]
    by (simp_all add: thread_frames_def)
  have "thread_frames t (handleEntry H e T) = thread_frames t ?T"
    using Some m by (simp add: handleEntry_def Let_def call plain)
  with Some show ?thesis by (simp add: push_frame_thread)
qed (simp add: handleEntry_def)

lemma handleReturn_thread:
  "thread_frames t (handleReturn H e T) =
     (if 0 \<le> sint (Depth e) \<and> t = Tid e then (thread_frames t T)(Depth e := None) else thread_frames t T)"
proof (cases "0 \<le> sint (Depth e)")
  case True
  then show ?thesis by (auto simp: thread_frames_def return_pops fun_eq_iff)
qed (simp add: handleReturn_def)

lemma on_event_thread:
  "thread_frames t (on_event H e T) = (if t = Tid e then facts_after e T else thread_frames t T)"
  by (auto simp: on_event_def facts_after_def Let_def handleReturn_thread handleEntry_thread split: option.split)

lemma facts_after_view:
  "loader_view (Tid e) T = loader_view (Tid e) T' \<Longrightarrow> facts_after e T = facts_after e T'"
  by (simp add: loader_view_def setting_def facts_after_def cong: option.case_cong if_cong)

interpretation loader: isolated "on_event H" Tid loader_view "\<lambda>T. True" "\<lambda>e. True"
  for H
proof (unfold_locales, goal_cases)
  case 2 then show ?case by (simp add: loader_view_def on_event_thread)
next
  case (3 T T' e) then show ?case using facts_after_view [of e T T'] by (simp add: loader_view_def on_event_thread)
qed simp

section \<open>A run of the probes and the loader behind it\<close>

definition run_probes :: "probe_run list \<Rightarrow> rmaps \<Rightarrow> rmaps" where
  "run_probes rs s = fold run_probe rs s"

definition feed :: "host \<Rightarrow> evt_t list \<Rightarrow> tracer \<Rightarrow> tracer" where
  "feed H es T = fold (on_event H) (map mirror es) T"

lemma tid_mirror [simp]: "Tid (mirror e) = ev_tid e"
  by (simp add: mirror_def)

lemma own_events: "\<forall>e \<in> set (events (run_probes (filter (\<lambda>r. run_tid r = t) rs) s)). e \<in> set (events s) \<or> ev_tid e = t"
proof (induction rs arbitrary: s)
  case (Cons r rs)
  have "\<forall>e \<in> set (events (run_probe r s)). e \<in> set (events s) \<or> ev_tid e = run_tid r"
  proof (cases r)
    case (Entered K ctx)
    then show ?thesis using up_all_event [of K _ ctx s] by (cases "rb_mem K") (auto simp: up_all_drop run_tid_def)
  next
    case (Returned K ctx)
    then show ?thesis using up_ret_event [of K _ ctx s] by (cases "rb_mem K") (auto simp: up_ret_drop run_tid_def)
  qed
  with Cons.IH [of s] Cons.IH [of "run_probe r s"] show ?case by (auto simp: run_probes_def)
qed (simp add: run_probes_def)


text \<open>Two threads that call the function at offset 16, the second one without room in the ring.\<close>

definition other_env :: "evt_t kenv" where
  "other_env = bounded_env\<lparr>pid_tgid := 8, rb_mem := None\<rparr>"

definition demo_runs :: "probe_run list" where
  "demo_runs = [Entered other_env demo_call_regs, Entered bounded_env demo_call_regs,
     Returned other_env demo_call_regs, Returned bounded_env demo_call_regs]"


end
