(* ===== verification/Spec2Isabelle.thy ===== *)
theory Spec2Isabelle
  imports Smoke EnvCommand KernelFacts Drain Printed Names Isolation
begin

text \<open>
  A model of \<^verbatim>\<open>jniprobe\<close>, a tracer of JNI calls of Android processes, and the theorems
  that make it correct.

  The program. ART reaches every JNI function through one table of 233 pointers. The loader (Go,
  \<^verbatim>\<open>src/loader\<close>) finds the offsets of these functions in \<^verbatim>\<open>libart.so\<close>, loads the BPF object
  \<^verbatim>\<open>src/bpf/recon.bpf.c\<close>, fills its maps, attaches the program \<^verbatim>\<open>up_all\<close> to the entry of every
  function and \<^verbatim>\<open>up_ret\<close> to the return of the watched ones, and then consumes the events of a ring
  buffer: it names and prints calls, keeps a table of open frames per (thread, depth), and prints a line
  with result and duration when a call returns. The programs count the active tracked calls of each
  thread in the map \<^verbatim>\<open>depth\<close> and copy arguments out of volatile memory at the moment of the
  probe. A second object, \<^verbatim>\<open>src/bpf/envprobe.bpf.c\<close>, captures the table from a live process for
  the command \<^verbatim>\<open>jniprobe env\<close>; a third, \<^verbatim>\<open>src/bpf/smoke.bpf.c\<close>, checks the toolchain. All three
  are compiled against \<^verbatim>\<open>src/vmlinux.h\<close>, the types of the running kernel.

  The theories, and the files they model.

  \<^item> \<^verbatim>\<open>Prelude\<close>, \<^verbatim>\<open>GoStr\<close>: machine words, little-endian bytes, memory of the target; the
    string functions and number printers of Go's library that the loader uses.
  \<^item> \<^verbatim>\<open>CTypes\<close>: C types and their layout for the BPF target. \<^verbatim>\<open>KernelEnums\<close>,
    \<^verbatim>\<open>KernelBase\<close>, \<^verbatim>\<open>KernelMaps\<close>, \<^verbatim>\<open>KernelProgs\<close>, \<^verbatim>\<open>KernelTask\<close>,
    \<^verbatim>\<open>KernelTrace\<close>, \<^verbatim>\<open>KernelProcess\<close>, \<^verbatim>\<open>KernelContexts\<close>: the
    declarations of \<^verbatim>\<open>vmlinux.h\<close>, one definition per declaration, \<open>struct_x\<close>,
    \<open>union_x\<close>, \<open>enum_x\<close> and \<open>typedef_x\<close> for the type \<open>x\<close>;
    \<^verbatim>\<open>KernelHelpers\<close>: the types of the helper functions.
    \<^verbatim>\<open>KernelLayout\<close> evaluates the layout of each; \<^verbatim>\<open>KernelFacts\<close> draws the conclusions for
    the probe programs.
  \<^item> \<^verbatim>\<open>Bpf\<close>: registers, answers of the helpers, maps. \<^verbatim>\<open>Recon\<close>: \<^verbatim>\<open>recon.bpf.c\<close>.
    \<^verbatim>\<open>Pairing\<close>: runs of its two programs. \<^verbatim>\<open>Capture\<close>: the argument snapshot and the shape of
    events. \<^verbatim>\<open>Envprobe\<close>, \<^verbatim>\<open>Smoke\<close>: the other two objects. \<^verbatim>\<open>Wire\<close>: the event as bytes
    and as the Go structure \<^verbatim>\<open>reconEvt\<close>.
  \<^item> \<^verbatim>\<open>Schema\<close>, \<^verbatim>\<open>SchemaFacts\<close>: \<^verbatim>\<open>jni_schema.go\<close>, \<^verbatim>\<open>jni_names.go\<close>,
    \<^verbatim>\<open>schema.go\<close>. \<^verbatim>\<open>Filters\<close>: \<^verbatim>\<open>filters.go\<close> and the interactive commands.
    \<^verbatim>\<open>Decode\<close>, \<^verbatim>\<open>Signature\<close>, \<^verbatim>\<open>Calls\<close>, \<^verbatim>\<open>CallText\<close>: \<^verbatim>\<open>decode.go\<close>, its
    signature parser, its argument decoders against the procedure call standard, the text of a call.
    \<^verbatim>\<open>Target\<close>: the parsers of \<^verbatim>\<open>target.go\<close> and the module cache. \<^verbatim>\<open>Offsets\<close>,
    \<^verbatim>\<open>OffsetFacts\<close>: \<^verbatim>\<open>offsets.go\<close>. \<^verbatim>\<open>EnvCommand\<close>: \<^verbatim>\<open>env.go\<close>.
    \<^verbatim>\<open>Startup\<close>, \<^verbatim>\<open>Trace\<close>, \<^verbatim>\<open>SetupFacts\<close>, \<^verbatim>\<open>Frames\<close>, \<^verbatim>\<open>Drain\<close>:
    \<^verbatim>\<open>runProbe\<close> of \<^verbatim>\<open>trace.go\<close>: its start, configuration of the maps, event loop and frame table.
    \<^verbatim>\<open>Isolation\<close>: probes and frame table, thread by thread. \<^verbatim>\<open>Output\<close>: the printed lines,
    the filters on lines and the statistics. \<^verbatim>\<open>Flags\<close>: \<^verbatim>\<open>main.go\<close> and the command
    \<^verbatim>\<open>dump\<close>. \<^verbatim>\<open>Program\<close>: the whole of \<^verbatim>\<open>runProbe\<close>, composed.
    \<^verbatim>\<open>Names\<close>: how long a resolved identifier is known. \<^verbatim>\<open>Printed\<close>: one call, from the
    registers of the caller to the printed line.

  State and operations. A BPF object is a record of its maps with the list of submitted events
  (\<open>rmaps\<close>, \<open>emaps\<close>); a program is a function from the answers of the kernel, the registers and
  this record to the record after the run. The loader is the record \<open>tracer\<close>; its goroutines are the
  inputs of \<open>on_input\<close> (a record of the ring buffer, a command, a reload), taken in any order. Maps
  of C and Go are partial functions, Go strings are lists of bytes, errors are \<^const>\<open>None\<close> or the left
  of a sum. Interfaces are locales: the kernel's hash map (\<open>bpf_hash\<close>), the per-thread depth
  (\<open>frame_depth\<close>), separation of threads (\<open>isolated\<close>, interpreted for the probes and for the
  loader), each interpreted on the model's own functions.

  What is shown. In a run in which nothing is lost the depth map counts the active tracked calls, every
  return carries the key of its call, the loader's frame table is the image of the call stacks, the line
  of a return names the call it belongs to, and when the calls of a thread have returned nothing of them
  is left (\<^verbatim>\<open>Pairing\<close>, \<^verbatim>\<open>Frames\<close>, \<^verbatim>\<open>Drain\<close> and this theory); what happens when an
  event is lost or a call falls into the time of attachment is stated as well, and that neither reaches
  another thread (\<^verbatim>\<open>Isolation\<close>). The set-up links both sides; the start and the scan give valid
  slots, and the scan is complete; \<^verbatim>\<open>Program\<close> puts start, set-up, probes and loop together. Filters
  on lines only select, the statistics are the most frequent lines, and every configuration can be said on
  the command line. Snapshot and decoder together
  print what the callee would read from a \<^verbatim>\<open>va_list\<close>, a \<^verbatim>\<open>jvalue\<close> array or its
  registers, for arguments of the integer class, and \<^verbatim>\<open>Printed\<close> follows such a call from the maps of
  the set-up to the line with its class, method and arguments; the identifiers it needs stay known
  (\<^verbatim>\<open>Names\<close>); for floating-point arguments two misreadings are shown.
  Events and dumps cross the ring buffer unchanged, and the offsets file is read back to the dump it was
  written from. The layouts of the kernel header agree with what the programs and the loader take from
  memory.

  Parameters. The answers of the kernel's helpers, the memory and maps file of the target, directory
  and file contents, \<^verbatim>\<open>encoding/json\<close>, \<^verbatim>\<open>regexp\<close> and the printers of floating-point numbers
  are arguments of the definitions. What is relied on is a named hypothesis: \<open>hash_contract\<close> (a hash
  map takes a new key while it is not full), \<open>json_decodes\<close>, the shape of reserved memory. The
  \<^verbatim>\<open>PT_REGS\<close> macros of libbpf are the AArch64 registers the comments of the source name. Unnamed
  bit-fields do not raise the alignment of a structure, as for the BPF target.

  Fuel. \<open>scan_range\<close> is a loop over 64-bit addresses that need not end for a range at the top of
  the address space, so it takes fuel; a range of \<open>b\<close> bytes below \<open>2 ^ 63\<close> needs fewer than
  \<open>b div 8 + 1\<close> steps, and with that much the scan is shown to return. All other loops are
  structural or have a measure.

  Not modelled. Loading objects, attaching probes and opening files and rings (calls of libraries and of
  the system; what they answer is a parameter), the delivery of signals and the clock (the end of the inputs
  of the loop stands for both), and the texts of usage and error messages. Of \<^verbatim>\<open>vmlinux.h\<close>, the
  subsystems no program of the repository touches. The test application, its JNI library, the build files
  and the documents.
\<close>

section \<open>From the set-up to the probes\<close>

text \<open>
  C13. The set-up links the probes and the tracer: with maps that honour their contract and at most 2048
  slot offsets, the return probes the BPF side tracks are exactly those the tracer watches, offsets
  are taken from the same base, every configured snapshot has one of the kinds the probes know and
  an argument index inside the captured registers, and a snapshot is configured exactly at the
  offsets of call slots.
\<close>

theorem setup_links_probes_and_tracer:
  assumes "hash_contract (max_entries argkind_map) ok" and "hash_contract (max_entries hasret_map) ok_ret"
    and "same_map xs ys" and "length xs \<le> max_entries argkind_map" and "c_tid c = 0"
    and "S = configure ok ok_ret c f base xs ys"
  shows "linked (su_maps S) (initial_tracer c f mc base (map_of xs) S) \<and> kinds_ok (su_maps S) \<and>
    (\<forall>off. argkind (su_maps S) off \<noteq> None \<longleftrightarrow>
       (\<exists>slot. map_of xs off = Some slot \<and> isCallMethod (slotName slot) \<noteq> None)) \<and>
    (\<forall>off. argkind (su_maps S) off = None \<or>
       (\<exists>ix. argidx (su_maps S) off = Some ix \<and> unat ix < NARGS))"
proof -
  note cm = configure_maps [OF assms(1-4,6)]
  note configure_linked [OF assms]
  moreover have "kinds_ok (su_maps S)"
    by (auto simp: kinds_ok_def ran_def cm(1) call_kind_def bind_eq_Some_conv)
  moreover have "argkind (su_maps S) off \<noteq> None \<longleftrightarrow>
      (\<exists>slot. map_of xs off = Some slot \<and> isCallMethod (slotName slot) \<noteq> None)" for off
    by (auto simp: cm(1) call_kind_def bind_eq_Some_conv split: option.split)
  moreover have "argkind (su_maps S) off = None \<or>
      (\<exists>ix. argidx (su_maps S) off = Some ix \<and> unat ix < NARGS)" for off
    by (auto simp: cm(1,2) call_kind_def call_index_def isCallMethod_def NARGS_def split: bind_splits)
  ultimately show ?thesis by blast
qed

text \<open>A closed instance: \<^verbatim>\<open>FindClass\<close> and \<^verbatim>\<open>CallObjectMethod\<close>.\<close>

definition demo_offsets :: "(u64 \<times> int) list" where
  "demo_offsets = [(16, 6), (32, 34)]"

definition demo_setup :: probe_setup where
  "demo_setup = configure (\<lambda>ks k. k \<in> ks \<or> card ks < max_entries argkind_map)
     (\<lambda>ks k. k \<in> ks \<or> card ks < max_entries hasret_map) demo_conf demo_filters 0x1000
     demo_offsets (rev demo_offsets)"

definition demo_tracer :: tracer where
  "demo_tracer = initial_tracer demo_conf demo_filters demo_mods 0x1000 (map_of demo_offsets) demo_setup"

lemma demo_contracts:
  "hash_contract (max_entries argkind_map) (\<lambda>ks (k :: u64). k \<in> ks \<or> card ks < max_entries argkind_map)"
  "hash_contract (max_entries hasret_map) (\<lambda>ks (k :: u64). k \<in> ks \<or> card ks < max_entries hasret_map)"
  "same_map demo_offsets (rev demo_offsets)" "length demo_offsets \<le> max_entries argkind_map" "c_tid demo_conf = 0"
  by (auto simp: hash_contract_def same_map_def demo_offsets_def argkind_map_def demo_conf_def fun_eq_iff)

theorem setup_links_probes_and_tracer_witness: "linked (su_maps demo_setup) demo_tracer"
  using setup_links_probes_and_tracer [OF demo_contracts demo_setup_def, of demo_mods]
  unfolding demo_tracer_def by blast

section \<open>From the probes to the printed line\<close>


text \<open>The run: the tracked function at offset 16 is called once, and the tracer catches up.\<close>

definition demo_start :: rmaps where
  "demo_start = su_maps demo_setup"

definition demo_called :: rmaps where
  "demo_called = up_all demo_in demo_call_regs demo_start"

definition demo_caught_up :: tracer where
  "demo_caught_up = on_input demo_host (Sample (evt_bytes (\<lambda>_. 0) (last_event demo_called))) demo_tracer"

lemma demo_start_linked: "linked demo_start demo_tracer"
  unfolding demo_tracer_def demo_start_def by (rule configure_linked [OF demo_contracts demo_setup_def])

lemma demo_start_tracked: "tracked demo_start demo_call_regs"
proof -
  have off: "PT_REGS_IP demo_call_regs - 0x1000 = 16"
    by (simp add: PT_REGS_IP_def demo_call_regs_def demo_regs_def)
  have "slotName 6 = ''FindClass''" by code_simp
  then have "watched demo_conf demo_filters 6" by (simp add: watched_def alwaysWatch_def)
  with off show ?thesis
    unfolding tracked_def demo_start_def configure_maps(3,4) [OF demo_contracts(1-4) demo_setup_def]
    by (simp add: initial_maps_def array_lookup_def demo_offsets_def)
qed

lemma demo_start_fresh: "depth demo_start = Map.empty" "events demo_start = []"
  by (simp_all add: demo_start_def demo_setup_def configure_fresh)

lemma demo_called_probed: "probed demo_called ((\<lambda>_. [])(9 := [last_event demo_called])) []"
proof -
  have "probed demo_start (\<lambda>_. []) []" by (rule probed.start) (simp_all add: demo_start_fresh)
  from probed.call [OF this demo_start_tracked demo_in_lossless _ demo_called_def]
  show ?thesis by (simp add: demo_in_def demo_env_def)
qed

lemma demo_fed: "fed demo_tracer (events demo_called) demo_caught_up"
proof -
  have "\<forall>e \<in> set (events demo_start). evt_shape e" and "mem_shape demo_in"
    by (simp_all add: demo_start_fresh mem_shape_def demo_in_def demo_env_def stale_def)
  then have sh: "\<forall>e \<in> set (events demo_called). evt_shape e"
    unfolding demo_called_def by (rule up_all_shape)
  have g: "rb_mem demo_in = Some (stale 0xDEAD)" by (simp add: demo_in_def demo_env_def)
  have ev: "events demo_called = [] @ [last_event demo_called]"
    using up_all_event [OF g, of demo_call_regs demo_start]
    by (auto simp: demo_called_def last_event_def demo_start_fresh)
  with sh have "evt_shape (last_event demo_called)" by (metis append_Nil list.set_intros(1))
  then have "binary_Read (evt_bytes (\<lambda>_. 0) (last_event demo_called)) = Some (mirror (last_event demo_called))"
    by (intro binary_Read_evt_bytes) (simp_all add: evt_shape_def)
  from fed.sample [OF fed.begin_feed this, of demo_tracer demo_host]
  show ?thesis unfolding demo_caught_up_def by (subst ev) simp
qed

lemma demo_not_exited: "\<not> t_exited demo_caught_up"
  by (simp add: demo_caught_up_def on_input_def on_sample_def demo_tracer_def initial_tracer_def
      split: option.split)

lemma demo_called_linked: "linked demo_called demo_tracer" "frames demo_tracer = Map.empty"
  by (simp_all add: demo_called_def demo_start_linked) (simp add: demo_tracer_def initial_tracer_def)




section \<open>Every call is done with\<close>

text \<open>
  C9. Nothing stays behind: when the active tracked calls of a thread return one after the other while
  the ring buffer has room and the depth map keeps its contract, every one of them is completed with a
  return event of its own thread and depth, the depth of the thread is 0 again, and a tracer that has
  consumed the events, whatever else it did meanwhile, has no frame of the thread left.
\<close>

theorem active_calls_drain:
  assumes "probed s stk ps" and "list_all (returning t) kcs" and "length kcs = length (stk t)"
    and "linked s T0" and "frames T0 = Map.empty" and "fed T0 (events (run_returns kcs s)) T" and "\<not> t_exited T"
  shows "(\<exists>ps'. probed (run_returns kcs s) (stk(t := [])) (ps @ ps') \<and> map fst ps' = stk t \<and>
      (\<forall>p \<in> set ps'. pair_ok p)) \<and>
    depth_of (depth (run_returns kcs s)) t = 0 \<and> (\<forall>d. frames T (t, d) = None)"
proof (intro conjI allI)
  obtain ps' where p: "probed (run_returns kcs s) (stk(t := [])) (ps @ ps')" "map fst ps' = stk t"
    using run_returns_probed [where stk = stk, OF assms(2,1,3)] by blast
  note i = conjunct1 [OF probed_inv [OF p(1)]] conjunct2 [OF probed_inv [OF p(1)]]
  then have "\<forall>p \<in> set ps'. pair_ok p" by simp
  with p show "\<exists>ps'. probed (run_returns kcs s) (stk(t := [])) (ps @ ps') \<and> map fst ps' = stk t \<and>
      (\<forall>p \<in> set ps'. pair_ok p)" by (intro exI [of _ ps'] conjI)
  have "unat (depth_of (depth (run_returns kcs s)) t) = length ((stk(t := [])) t)"
    using i(1) unfolding depth_inv_def by blast
  then show "depth_of (depth (run_returns kcs s)) t = 0" by (simp add: unat_eq_0)
  show "frames T (t, d) = None" for d
    using run_returns_done [where stk = stk, OF assms(2,1,3-7)] .
qed

definition demo_returned :: rmaps where
  "demo_returned = run_returns [(bounded_env, demo_call_regs)] demo_called"

definition demo_done :: tracer where
  "demo_done = on_input demo_host (Sample (evt_bytes (\<lambda>_. 0) (last_event demo_returned))) demo_caught_up"

lemma demo_done_fed: "fed demo_tracer (events demo_returned) demo_done"
proof -
  have "rb_mem bounded_env = Some (stale 0xDEAD)" by (simp add: bounded_env_def demo_in_def demo_env_def)
  moreover have "length (ev_cap (stale 0xDEAD)) = NCAP" "length (ev_cap2 (stale 0xDEAD)) = NCAP"
    by (simp_all add: stale_def)
  ultimately obtain r where ev: "events demo_returned = events demo_called @ [r]" and "evt_shape r"
    using up_ret_shape [of bounded_env "stale 0xDEAD" demo_call_regs demo_called]
    by (auto simp: demo_returned_def run_returns_simps)
  then have "binary_Read (evt_bytes (\<lambda>_. 0) r) = Some (mirror r)"
    by (intro binary_Read_evt_bytes) (simp_all add: evt_shape_def)
  from fed.sample [OF demo_fed this, of demo_host] show ?thesis
    unfolding demo_done_def last_event_def ev last_snoc .
qed

theorem active_calls_drain_witness:
  "depth_of (depth demo_returned) 9 = 0 \<and> frames demo_done (9, 0) = None \<and> frames demo_caught_up (9, 0) \<noteq> None"
proof -
  have "list_all (returning 9) [(bounded_env, demo_call_regs)]"
    by (simp add: returning_def bounded_env_def demo_in_def demo_env_def hash_contract_def)
  moreover have "length [(bounded_env, demo_call_regs)] = length (((\<lambda>_. [])(9 := [last_event demo_called])) 9)"
    by simp
  moreover have "\<not> t_exited demo_done"
    using demo_not_exited by (simp add: demo_done_def on_input_def on_sample_def split: option.split)
  moreover have "frames demo_caught_up (9, 0) \<noteq> None"
    using frames_track_calls [OF demo_called_probed demo_fed demo_called_linked demo_not_exited]
    unfolding frames_sim_def by (drule_tac x = "(9, 0)" in spec) (auto simp: active_def option_rel_Some1)
  ultimately show ?thesis
    using active_calls_drain [OF demo_called_probed _ _ demo_called_linked demo_done_fed [unfolded demo_returned_def]]
    unfolding demo_returned_def by blast
qed

end
